(* ===== verification/Health.thy ===== *)
theory Health
  imports Prelude
begin

text \<open>
  Health monitoring (\<open>core/health.py\<close>): component reports, the probe registry and the aggregated
  system report. A probe's behaviour is not the registry's code, so a probe is its outcome: a
  report, or the text of the exception it raises. Timestamps and \<open>details\<close> are left out. The
  statuses are ordered by severity, which turns the aggregation loop into a maximum.
\<close>

datatype health_status = HEALTHY | DEGRADED | UNHEALTHY

record component_health =
  ch_name :: string
  ch_status :: health_status
  ch_message :: "string option"

record system_health_report =
  shr_status :: health_status
  shr_components :: "component_health dict"

text \<open>A probe returns a report or raises; the registry maps names to probes.\<close>

type_synonym probe = "string + component_health"
type_synonym health_registry = "probe dict"

definition health_register :: "health_registry \<Rightarrow> string \<Rightarrow> probe \<Rightarrow> health_registry" where
  "health_register r name p = dict_put name p r"

definition health_unregister :: "health_registry \<Rightarrow> string \<Rightarrow> health_registry" where
  "health_unregister r name = dict_del name r"

definition check_component :: "health_registry \<Rightarrow> string \<Rightarrow> component_health" where
  "check_component r name =
     (case dict_get r name of
        None \<Rightarrow> \<lparr>ch_name = name, ch_status = UNHEALTHY,
                 ch_message = Some (''No health probe registered for '' @ name)\<rparr>
      | Some (Inr h) \<Rightarrow> h
      | Some (Inl exc) \<Rightarrow> \<lparr>ch_name = name, ch_status = UNHEALTHY,
                 ch_message = Some (''Health check probe crashed: '' @ exc)\<rparr>)"

text \<open>The loop body of \<open>check_all\<close>: record the component, worsen the overall status.\<close>

definition check_all_step ::
  "health_registry \<Rightarrow> string \<Rightarrow> system_health_report \<Rightarrow> system_health_report" where
  "check_all_step r name rep =
     (let result = check_component r name;
          overall = shr_status rep;
          overall' = (if ch_status result = UNHEALTHY then UNHEALTHY
                      else if ch_status result = DEGRADED \<and> overall \<noteq> UNHEALTHY then DEGRADED
                      else overall)
      in \<lparr>shr_status = overall', shr_components = dict_put name result (shr_components rep)\<rparr>)"

definition check_all :: "health_registry \<Rightarrow> system_health_report" where
  "check_all r = fold (check_all_step r) (map fst r) \<lparr>shr_status = HEALTHY, shr_components = []\<rparr>"

text \<open>Severity as a linear order, so that the report is a maximum.\<close>

fun severity :: "health_status \<Rightarrow> nat" where
  "severity HEALTHY = 0" | "severity DEGRADED = 1" | "severity UNHEALTHY = 2"

instantiation health_status :: linorder
begin

definition less_eq_health_status :: "health_status \<Rightarrow> health_status \<Rightarrow> bool" where
  "less_eq_health_status a b = (severity a \<le> severity b)"

definition less_health_status :: "health_status \<Rightarrow> health_status \<Rightarrow> bool" where
  "less_health_status a b = (severity a < severity b)"

lemma severity_inj: "severity a = severity b \<longleftrightarrow> a = b"
  by (cases a; cases b) simp_all

instance
  by standard (auto simp: less_eq_health_status_def less_health_status_def severity_inj)

end

lemma status_le_UNHEALTHY [simp]: "s \<le> UNHEALTHY"
  by (cases s) (simp_all add: less_eq_health_status_def)

lemma HEALTHY_le_status [simp]: "HEALTHY \<le> s"
  by (simp add: less_eq_health_status_def)

lemma check_all_step_status:
  "shr_status (check_all_step r n rep) = max (shr_status rep) (ch_status (check_component r n))"
  by (cases "ch_status (check_component r n)"; cases "shr_status rep")
     (simp_all add: check_all_step_def Let_def max_def less_eq_health_status_def)

lemma fold_check_all_status:
  "shr_status (fold (check_all_step r) ns rep)
     = fold max (map (\<lambda>n. ch_status (check_component r n)) ns) (shr_status rep)"
  by (induction ns arbitrary: rep) (simp_all add: check_all_step_status max.commute)

lemma check_all_status_max:
  "shr_status (check_all r) = fold max (map (\<lambda>n. ch_status (check_component r n)) (map fst r)) HEALTHY"
  by (simp add: check_all_def fold_check_all_status)

lemma fold_check_all_components:
  "dict_get (shr_components (fold (check_all_step r) ns rep)) n
     = (if n \<in> set ns then Some (check_component r n) else dict_get (shr_components rep) n)"
  by (induction ns arbitrary: rep) (auto simp: check_all_step_def Let_def dict_simps)

lemma check_all_components:
  "dict_get (shr_components (check_all r)) n = (if dict_has r n then Some (check_component r n) else None)"
  by (simp add: check_all_def fold_check_all_components dict_has_iff)

lemma fold_max_eq_iff:
  fixes xs :: "health_status list"
  shows "fold max xs a = a \<longleftrightarrow> (\<forall>x \<in> set xs. x \<le> a)"
proof -
  have "fold max xs a = Max (insert a (set xs))"
    by (simp add: Max.set_eq_fold [of a xs, simplified])
  then show ?thesis
    by (metis List.finite_set Max_eqI Max_ge finite_insert insert_iff order_refl)
qed

text \<open>
  The report is UNHEALTHY as soon as one probe is, and HEALTHY only if all of them are.
\<close>

lemma check_all_healthy_iff:
  "shr_status (check_all r) = HEALTHY
     \<longleftrightarrow> (\<forall>n \<in> set (map fst r). ch_status (check_component r n) = HEALTHY)"
  unfolding check_all_status_max fold_max_eq_iff
  by (auto simp: order.eq_iff)

end
