(* ===== verification/Service.thy ===== *)
theory Service
  imports Health
begin

text \<open>
  The lifecycle state machine of a managed service (\<open>core/service.py\<close>). What a service's
  \<open>_on_start\<close> and \<open>_on_stop\<close> do is not this class's code: each service carries the outcome of
  its next start and stop as an optional error message.
\<close>

datatype service_state = CREATED | STARTING | SRV_RUNNING | STOPPING | STOPPED | SRV_FAILED

record service =
  srv_name :: string
  srv_state :: service_state
  srv_error :: "string option"
  srv_on_start :: "string option"
  srv_on_stop :: "string option"

text \<open>\<open>BaseService.start\<close> and \<open>stop\<close>: the service afterwards and the exception, if one is raised.\<close>

definition service_start :: "service \<Rightarrow> service \<times> string option" where
  "service_start s =
     (if srv_state s = SRV_RUNNING then (s, None)
      else let s1 = s\<lparr>srv_state := STARTING\<rparr>
           in case srv_on_start s1 of
                None \<Rightarrow> (s1\<lparr>srv_state := SRV_RUNNING\<rparr>, None)
              | Some e \<Rightarrow> (s1\<lparr>srv_state := SRV_FAILED, srv_error := Some e\<rparr>, Some e))"

definition service_stop :: "service \<Rightarrow> service \<times> string option" where
  "service_stop s =
     (if srv_state s = STOPPED \<or> srv_state s = CREATED then (s, None)
      else let s1 = s\<lparr>srv_state := STOPPING\<rparr>
           in case srv_on_stop s1 of
                None \<Rightarrow> (s1\<lparr>srv_state := STOPPED\<rparr>, None)
              | Some e \<Rightarrow> (s1\<lparr>srv_state := SRV_FAILED, srv_error := Some e\<rparr>, Some e))"

definition state_value :: "service_state \<Rightarrow> string" where
  "state_value s = (case s of CREATED \<Rightarrow> ''created'' | STARTING \<Rightarrow> ''starting''
     | SRV_RUNNING \<Rightarrow> ''running'' | STOPPING \<Rightarrow> ''stopping'' | STOPPED \<Rightarrow> ''stopped''
     | SRV_FAILED \<Rightarrow> ''failed'')"

definition service_health :: "service \<Rightarrow> component_health" where
  "service_health s =
     (if srv_state s = SRV_RUNNING
      then \<lparr>ch_name = srv_name s, ch_status = HEALTHY, ch_message = None\<rparr>
      else if srv_state s = SRV_FAILED
      then \<lparr>ch_name = srv_name s, ch_status = UNHEALTHY,
            ch_message = (case srv_error s of
                            Some e \<Rightarrow> if e = [] then Some ''Service in failed state'' else Some e
                          | None \<Rightarrow> Some ''Service in failed state'')\<rparr>
      else \<lparr>ch_name = srv_name s, ch_status = DEGRADED,
            ch_message = Some (''Service is '' @ state_value (srv_state s))\<rparr>)"

lemma service_start_cases:
  "service_start s = (s', e) \<Longrightarrow>
     srv_name s' = srv_name s \<and> srv_on_start s' = srv_on_start s \<and> srv_on_stop s' = srv_on_stop s \<and>
     (case e of None \<Rightarrow> srv_state s' = SRV_RUNNING
      | Some m \<Rightarrow> srv_state s' = SRV_FAILED \<and> srv_error s' = Some m)"
  by (auto simp: service_start_def Let_def split: if_splits option.splits)

lemma service_stop_cases:
  "service_stop s = (s', e) \<Longrightarrow>
     srv_name s' = srv_name s \<and> srv_on_start s' = srv_on_start s \<and> srv_on_stop s' = srv_on_stop s \<and>
     srv_state s' \<in> {STOPPED, CREATED, SRV_FAILED} \<and> (srv_state s' = CREATED \<longleftrightarrow> srv_state s = CREATED)"
  by (auto simp: service_stop_def Let_def split: if_splits option.splits)

end
