(* ===== verification/Vault.thy ===== *)
theory Vault
  imports Prelude
begin

text \<open>
  The secret vault (\<open>security/vault.py\<close>): the in-memory store, the store of the operating system's
  credential manager (the \<open>keyring\<close> package, a parameter), and the contract both are meant to meet,
  the locale \<open>secret_store\<close>, under which the engine's vault probe is healthy.
\<close>

section \<open>The vault interface\<close>

record 'v vault_ops =
  vo_get_secret :: "'v \<Rightarrow> string \<Rightarrow> string option"
  vo_set_secret :: "'v \<Rightarrow> string \<Rightarrow> string \<Rightarrow> string + 'v"
  vo_delete_secret :: "'v \<Rightarrow> string \<Rightarrow> 'v \<times> bool"
  vo_has_secret :: "'v \<Rightarrow> string \<Rightarrow> bool"

section \<open>The in-memory vault\<close>

definition mem_get_secret :: "string dict \<Rightarrow> string \<Rightarrow> string option" where
  "mem_get_secret v k = dict_get v k"

definition mem_set_secret :: "string dict \<Rightarrow> string \<Rightarrow> string \<Rightarrow> string + string dict" where
  "mem_set_secret v k x = Inr (dict_put k x v)"

definition mem_delete_secret :: "string dict \<Rightarrow> string \<Rightarrow> string dict \<times> bool" where
  "mem_delete_secret v k = (dict_del k v, dict_get v k \<noteq> None)"

definition mem_has_secret :: "string dict \<Rightarrow> string \<Rightarrow> bool" where
  "mem_has_secret v k = dict_has v k"

definition in_memory_vault :: "string dict vault_ops" where
  "in_memory_vault = \<lparr>vo_get_secret = mem_get_secret, vo_set_secret = mem_set_secret,
     vo_delete_secret = mem_delete_secret, vo_has_secret = mem_has_secret\<rparr>"

section \<open>The keyring vault\<close>

text \<open>The \<open>keyring\<close> functions: each raises \<open>KeyringError\<close> (left) or gives its result.\<close>

record 'k keyring =
  kr_get_password :: "'k \<Rightarrow> string \<Rightarrow> string \<Rightarrow> string + string option"
  kr_set_password :: "'k \<Rightarrow> string \<Rightarrow> string \<Rightarrow> string \<Rightarrow> string + 'k"
  kr_delete_password :: "'k \<Rightarrow> string \<Rightarrow> string \<Rightarrow> string + 'k"

definition JARVIS_KEYRING_SERVICE :: string where
  "JARVIS_KEYRING_SERVICE = ''JARVIS_AI_PLATFORM''"

definition keyring_get_secret :: "'k keyring \<Rightarrow> string \<Rightarrow> 'k \<Rightarrow> string \<Rightarrow> string option" where
  "keyring_get_secret K svc s k = (case kr_get_password K s svc k of Inl _ \<Rightarrow> None | Inr r \<Rightarrow> r)"

definition keyring_set_secret :: "'k keyring \<Rightarrow> string \<Rightarrow> 'k \<Rightarrow> string \<Rightarrow> string \<Rightarrow> string + 'k" where
  "keyring_set_secret K svc s k x = kr_set_password K s svc k x"

definition keyring_delete_secret :: "'k keyring \<Rightarrow> string \<Rightarrow> 'k \<Rightarrow> string \<Rightarrow> 'k \<times> bool" where
  "keyring_delete_secret K svc s k =
     (case kr_delete_password K s svc k of Inl _ \<Rightarrow> (s, False) | Inr s' \<Rightarrow> (s', True))"

definition keyring_has_secret :: "'k keyring \<Rightarrow> string \<Rightarrow> 'k \<Rightarrow> string \<Rightarrow> bool" where
  "keyring_has_secret K svc s k = (keyring_get_secret K svc s k \<noteq> None)"

definition keyring_vault :: "'k keyring \<Rightarrow> string \<Rightarrow> 'k vault_ops" where
  "keyring_vault K svc = \<lparr>vo_get_secret = keyring_get_secret K svc, vo_set_secret = keyring_set_secret K svc,
     vo_delete_secret = keyring_delete_secret K svc, vo_has_secret = keyring_has_secret K svc\<rparr>"

section \<open>The contract of a vault\<close>

locale secret_store =
  fixes sget :: "'v \<Rightarrow> string \<Rightarrow> string option"
    and sset :: "'v \<Rightarrow> string \<Rightarrow> string \<Rightarrow> string + 'v"
    and sdel :: "'v \<Rightarrow> string \<Rightarrow> 'v \<times> bool"
    and shas :: "'v \<Rightarrow> string \<Rightarrow> bool"
  assumes set_ok: "\<exists>v'. sset v k x = Inr v'"
    and get_set: "sset v k x = Inr v' \<Longrightarrow> sget v' k' = (if k' = k then Some x else sget v k')"
    and get_del: "sget (fst (sdel v k)) k' = (if k' = k then None else sget v k')"
    and del_flag: "snd (sdel v k) = shas v k"
    and has_get: "shas v k = (sget v k \<noteq> None)"
begin

lemma set_get_roundtrip: "sset v k x = Inr v' \<Longrightarrow> sget v' k = Some x"
  by (simp add: get_set)

lemma del_after_set: "sset v k x = Inr v' \<Longrightarrow> snd (sdel v' k)"
  by (simp add: del_flag has_get get_set)

lemma del_twice: "\<not> snd (sdel (fst (sdel v k)) k)"
  by (simp add: del_flag has_get get_del)

text \<open>Writing a key, reading it and deleting it again leaves every other key as it was.\<close>

lemma probe_cycle:
  "sset v k x = Inr v' \<Longrightarrow> sget (fst (sdel v' k)) k' = (if k' = k then None else sget v k')"
  by (simp add: get_del get_set)

end

interpretation mv: secret_store mem_get_secret mem_set_secret mem_delete_secret mem_has_secret
  by unfold_locales
     (auto simp: mem_get_secret_def mem_set_secret_def mem_delete_secret_def mem_has_secret_def
        dict_has_def dict_simps)

end
