(* ===== verification/Protocol.thy ===== *)
theory Protocol
  imports Prelude
begin

text \<open>
  The wire contracts of \<open>protocol/models.py\<close>: requests, responses and events of protocol version
  1.0. Constructing a response runs the model's \<open>validate_error_contract\<close>, which refuses one that
  breaks the contract between \<open>success\<close> and \<open>error\<close>. The protocol version is a constant
  of every message; a timestamp is a field filled by the clock and is left out.
\<close>

definition PROTOCOL_VERSION :: string where
  "PROTOCOL_VERSION = ''1.0''"

record protocol_error =
  pe_code :: string
  pe_message :: string
  pe_details :: "pyval dict option"

record jarvis_request =
  req_id :: string
  req_type :: string
  req_version :: string
  req_payload :: "pyval dict"

record jarvis_response =
  resp_id :: string
  resp_type :: string
  resp_version :: string
  resp_success :: bool
  resp_payload :: "pyval dict option"
  resp_error :: "protocol_error option"

record jarvis_event =
  ev_id :: string
  ev_type :: string
  ev_correlation_id :: "string option"
  ev_payload :: "pyval dict"

definition validate_error_contract :: "jarvis_response \<Rightarrow> string + jarvis_response" where
  "validate_error_contract r =
     (if resp_success r \<and> resp_error r \<noteq> None
      then Inl ''Successful response must not contain an error object''
      else if \<not> resp_success r \<and> resp_error r = None
      then Inl ''Failed response must contain a non-null error object''
      else Inr r)"

definition response_ok :: "jarvis_response \<Rightarrow> bool" where
  "response_ok r = (resp_success r = (resp_error r = None))"

lemma validate_error_contract_iff: "validate_error_contract r = Inr r' \<longleftrightarrow> r' = r \<and> response_ok r"
  by (auto simp: validate_error_contract_def response_ok_def)

text \<open>The two shapes in which the IPC layer builds responses; both satisfy the contract.\<close>

definition success_response :: "string \<Rightarrow> string \<Rightarrow> pyval dict \<Rightarrow> jarvis_response" where
  "success_response i t p =
     \<lparr>resp_id = i, resp_type = t, resp_version = PROTOCOL_VERSION, resp_success = True,
      resp_payload = Some p, resp_error = None\<rparr>"

definition error_response :: "string \<Rightarrow> string \<Rightarrow> string \<Rightarrow> string \<Rightarrow> jarvis_response" where
  "error_response i t code msg =
     \<lparr>resp_id = i, resp_type = t, resp_version = PROTOCOL_VERSION, resp_success = False,
      resp_payload = None,
      resp_error = Some \<lparr>pe_code = code, pe_message = msg, pe_details = None\<rparr>\<rparr>"

lemma success_response_simps [simp]:
  "resp_id (success_response i t p) = i" "resp_type (success_response i t p) = t"
  "resp_success (success_response i t p)" "resp_error (success_response i t p) = None"
  "resp_payload (success_response i t p) = Some p"
  by (simp_all add: success_response_def)

lemma error_response_simps [simp]:
  "resp_id (error_response i t c m) = i" "resp_type (error_response i t c m) = t"
  "\<not> resp_success (error_response i t c m)"
  "resp_error (error_response i t c m) = Some \<lparr>pe_code = c, pe_message = m, pe_details = None\<rparr>"
  "resp_payload (error_response i t c m) = None"
  by (simp_all add: error_response_def)

lemma response_ok_built [simp]:
  "response_ok (success_response i t p)" "response_ok (error_response i t c m)"
  by (simp_all add: response_ok_def)

end
