(* ===== verification/Event_Bus.thy ===== *)
theory Event_Bus
  imports Protocol Health "HOL-Library.Multiset"
begin

text \<open>
  The asynchronous event bus (\<open>core/bus.py\<close>). Handlers are numbered; a Python set of handlers is a
  list without duplicates. \<open>publish\<close> creates one task per matching subscription; a task
  (\<open>_safe_dispatch\<close>) ends when its handler returns, raises or is cancelled, in any order, which is
  the labelled step relation \<open>bus_step\<close>. \<open>stop\<close> is one step: the flag is cleared and every task in
  flight ends before the table of tasks is cleared.
\<close>

type_synonym handler = nat

datatype outcome = Returned | Raised | Cancelled

record event_bus =
  eb_subscribers :: "handler list dict"
  eb_wildcard :: "handler list"
  eb_active :: "(nat \<times> handler \<times> jarvis_event) list"
  eb_next_task :: nat
  eb_is_running :: bool
  eb_published_count :: nat
  eb_error_count :: nat

definition bus_init :: event_bus where
  "bus_init = \<lparr>eb_subscribers = [], eb_wildcard = [], eb_active = [], eb_next_task = 0,
               eb_is_running = False, eb_published_count = 0, eb_error_count = 0\<rparr>"

definition bus_start :: "event_bus \<Rightarrow> event_bus" where
  "bus_start b = b\<lparr>eb_is_running := True\<rparr>"

definition bus_subscribe :: "event_bus \<Rightarrow> string \<Rightarrow> handler \<Rightarrow> event_bus" where
  "bus_subscribe b t h =
     (if t = ''*'' then b\<lparr>eb_wildcard := List.insert h (eb_wildcard b)\<rparr>
      else let subs = (if dict_has (eb_subscribers b) t then eb_subscribers b
                       else dict_put t [] (eb_subscribers b));
               hs = (case dict_get subs t of Some hs \<Rightarrow> hs | None \<Rightarrow> [])
           in b\<lparr>eb_subscribers := dict_put t (List.insert h hs) subs\<rparr>)"

definition bus_unsubscribe :: "event_bus \<Rightarrow> string \<Rightarrow> handler \<Rightarrow> event_bus \<times> bool" where
  "bus_unsubscribe b t h =
     (if t = ''*''
      then if h \<in> set (eb_wildcard b)
           then (b\<lparr>eb_wildcard := removeAll h (eb_wildcard b)\<rparr>, True)
           else (b, False)
      else case dict_get (eb_subscribers b) t of
             None \<Rightarrow> (b, False)
           | Some hs \<Rightarrow>
               if h \<in> set hs
               then let hs' = removeAll h hs
                    in (b\<lparr>eb_subscribers := (if hs' = [] then dict_del t (eb_subscribers b)
                                            else dict_put t hs' (eb_subscribers b))\<rparr>, True)
               else (b, False))"

text \<open>The handlers \<open>publish\<close> dispatches to: those of the type, then the wildcard ones.\<close>

definition bus_targets :: "event_bus \<Rightarrow> string \<Rightarrow> handler list" where
  "bus_targets b t = (case dict_get (eb_subscribers b) t of Some hs \<Rightarrow> hs | None \<Rightarrow> []) @ eb_wildcard b"

fun bus_create_tasks :: "handler list \<Rightarrow> jarvis_event \<Rightarrow> event_bus \<Rightarrow> event_bus" where
  "bus_create_tasks [] e b = b"
| "bus_create_tasks (h # hs) e b =
     bus_create_tasks hs e
       (b\<lparr>eb_active := eb_active b @ [(eb_next_task b, h, e)], eb_next_task := Suc (eb_next_task b)\<rparr>)"

definition bus_publish :: "event_bus \<Rightarrow> jarvis_event \<Rightarrow> string + event_bus" where
  "bus_publish b e =
     (if \<not> eb_is_running b then Inl ''Cannot publish to a stopped AsyncEventBus.''
      else let b1 = b\<lparr>eb_published_count := Suc (eb_published_count b)\<rparr>
           in Inr (bus_create_tasks (bus_targets b1 (ev_type e)) e b1))"

text \<open>The end of a task: \<open>_safe_dispatch\<close> swallows whatever the handler did; the done callback
  removes the task.\<close>

definition safe_dispatch_end :: "nat \<Rightarrow> outcome \<Rightarrow> event_bus \<Rightarrow> event_bus" where
  "safe_dispatch_end i r b =
     b\<lparr>eb_active := filter (\<lambda>(j, _). j \<noteq> i) (eb_active b),
       eb_error_count := (if r = Raised then Suc (eb_error_count b) else eb_error_count b)\<rparr>"

text \<open>\<open>stop\<close>: every task in flight is cancelled and awaited; a handler may still raise.\<close>

fun bus_drain :: "(nat \<times> outcome) list \<Rightarrow> event_bus \<Rightarrow> event_bus" where
  "bus_drain [] b = b"
| "bus_drain ((i, r) # rs) b = bus_drain rs (safe_dispatch_end i r b)"

definition bus_stop :: "(nat \<Rightarrow> outcome) \<Rightarrow> event_bus \<Rightarrow> event_bus" where
  "bus_stop outcomes b =
     (let b1 = b\<lparr>eb_is_running := False\<rparr>
      in (bus_drain (map (\<lambda>(i, _). (i, outcomes i)) (eb_active b1)) b1)\<lparr>eb_active := []\<rparr>)"

definition bus_health :: "event_bus \<Rightarrow> component_health" where
  "bus_health b = \<lparr>ch_name = ''event_bus'',
     ch_status = (if eb_is_running b then HEALTHY else UNHEALTHY), ch_message = None\<rparr>"

section \<open>Steps and traces\<close>

datatype bus_label =
    LStart
  | LSubscribe string handler
  | LUnsubscribe string handler
  | LPublish jarvis_event "handler list"
  | LFinish handler jarvis_event outcome
  | LStop "(handler \<times> jarvis_event \<times> outcome) list"

inductive bus_step :: "event_bus \<Rightarrow> bus_label \<Rightarrow> event_bus \<Rightarrow> bool" where
  start: "bus_step b LStart (bus_start b)"
| subscribe: "bus_step b (LSubscribe t h) (bus_subscribe b t h)"
| unsubscribe: "bus_step b (LUnsubscribe t h) (fst (bus_unsubscribe b t h))"
| publish: "bus_publish b e = Inr b' \<Longrightarrow> bus_step b (LPublish e (bus_targets b (ev_type e))) b'"
| finish: "(i, h, e) \<in> set (eb_active b) \<Longrightarrow> bus_step b (LFinish h e r) (safe_dispatch_end i r b)"
| stop: "bus_step b (LStop (map (\<lambda>(i, h, e). (h, e, out i)) (eb_active b))) (bus_stop out b)"

inductive bus_trace :: "event_bus \<Rightarrow> bus_label list \<Rightarrow> event_bus \<Rightarrow> bool" where
  nil: "bus_trace b [] b"
| snoc: "bus_trace b tr b' \<Longrightarrow> bus_step b' l b'' \<Longrightarrow> bus_trace b (tr @ [l]) b''"

text \<open>What a label starts and what it ends: deliveries of an event to a handler.\<close>

fun label_started :: "bus_label \<Rightarrow> (handler \<times> jarvis_event) list" where
  "label_started (LPublish e hs) = map (\<lambda>h. (h, e)) hs"
| "label_started _ = []"

fun label_ended :: "bus_label \<Rightarrow> (handler \<times> jarvis_event \<times> outcome) list" where
  "label_ended (LFinish h e r) = [(h, e, r)]"
| "label_ended (LStop ds) = ds"
| "label_ended _ = []"

definition deliveries_started :: "bus_label list \<Rightarrow> (handler \<times> jarvis_event) list" where
  "deliveries_started tr = concat (map label_started tr)"

definition deliveries_ended :: "bus_label list \<Rightarrow> (handler \<times> jarvis_event \<times> outcome) list" where
  "deliveries_ended tr = concat (map label_ended tr)"

text \<open>Task numbers are unique and below the counter.\<close>

definition bus_wf :: "event_bus \<Rightarrow> bool" where
  "bus_wf b = (distinct (map fst (eb_active b)) \<and> (\<forall>i \<in> set (map fst (eb_active b)). i < eb_next_task b))"

definition bus_load :: "event_bus \<Rightarrow> (handler \<times> jarvis_event) multiset" where
  "bus_load b = mset (map snd (eb_active b))"

lemma create_tasks_frame:
  "eb_is_running (bus_create_tasks hs e b) = eb_is_running b"
  "eb_subscribers (bus_create_tasks hs e b) = eb_subscribers b"
  "eb_wildcard (bus_create_tasks hs e b) = eb_wildcard b"
  "eb_error_count (bus_create_tasks hs e b) = eb_error_count b"
  "eb_published_count (bus_create_tasks hs e b) = eb_published_count b"
  by (induction hs e b rule: bus_create_tasks.induct) simp_all

lemma create_tasks_wf: "bus_wf b \<Longrightarrow> bus_wf (bus_create_tasks hs e b)"
proof (induction hs e b rule: bus_create_tasks.induct)
  case (2 h hs e b)
  have "bus_wf (b\<lparr>eb_active := eb_active b @ [(eb_next_task b, h, e)], eb_next_task := Suc (eb_next_task b)\<rparr>)"
    using "2.prems" by (auto simp: bus_wf_def)
  then show ?case using "2.IH" by simp
qed simp

lemma create_tasks_load:
  "bus_load (bus_create_tasks hs e b) = bus_load b + mset (map (\<lambda>h. (h, e)) hs)"
  by (induction hs e b rule: bus_create_tasks.induct) (simp_all add: bus_load_def)

lemma dispatch_end_wf: "bus_wf b \<Longrightarrow> bus_wf (safe_dispatch_end i r b)"
  unfolding bus_wf_def safe_dispatch_end_def
  by (auto simp: distinct_map filter_mset_def intro: inj_on_subset)

lemma filter_task_id:
  assumes "distinct (map fst ts)" and "(i, x) \<in> set ts"
  shows "mset (map snd ts) = add_mset x (mset (map snd (filter (\<lambda>(j, _). j \<noteq> i) ts)))"
  using assms
proof (induction ts)
  case (Cons t ts)
  obtain j y where t: "t = (j, y)" by (cases t)
  show ?case
  proof (cases "j = i")
    case True
    then have "filter (\<lambda>(j, _). j \<noteq> i) ts = ts"
      using Cons.prems t by (force intro: filter_True)
    with True t Cons.prems show ?thesis by (force simp: image_iff)
  next
    case False
    with Cons t show ?thesis by auto
  qed
qed simp

lemma dispatch_end_load:
  "bus_wf b \<Longrightarrow> (i, h, e) \<in> set (eb_active b) \<Longrightarrow>
     bus_load b = add_mset (h, e) (bus_load (safe_dispatch_end i r b))"
  unfolding bus_wf_def bus_load_def safe_dispatch_end_def
  using filter_task_id [of "eb_active b" i "(h, e)"] by (simp del: mset_map mset_filter)

lemma drain_frame:
  "eb_is_running (bus_drain rs b) = eb_is_running b"
  "eb_error_count (bus_drain rs b) = eb_error_count b + length (filter (\<lambda>x. snd x = Raised) rs)"
  by (induction rs b rule: bus_drain.induct) (simp_all add: safe_dispatch_end_def)

lemma bus_subscribe_tasks [simp]:
  "eb_active (bus_subscribe b t h) = eb_active b" "eb_next_task (bus_subscribe b t h) = eb_next_task b"
  "eb_error_count (bus_subscribe b t h) = eb_error_count b"
  by (simp_all add: bus_subscribe_def Let_def)

lemma bus_unsubscribe_tasks [simp]:
  "eb_active (fst (bus_unsubscribe b t h)) = eb_active b"
  "eb_next_task (fst (bus_unsubscribe b t h)) = eb_next_task b"
  "eb_error_count (fst (bus_unsubscribe b t h)) = eb_error_count b"
  by (auto simp: bus_unsubscribe_def Let_def split: option.splits)

lemma bus_stop_simps [simp]:
  "eb_active (bus_stop out b) = []" "eb_is_running (bus_stop out b) = False"
  by (simp_all add: bus_stop_def Let_def drain_frame)

text \<open>One step keeps the numbering and balances the deliveries.\<close>

lemma bus_step_balance:
  assumes "bus_step b l b'" and "bus_wf b"
  shows "bus_wf b' \<and> bus_load b + mset (label_started l)
           = bus_load b' + mset (map (\<lambda>(h, e, r). (h, e)) (label_ended l))"
  using assms
proof (induction rule: bus_step.induct)
  case (publish b e b')
  let ?b1 = "b\<lparr>eb_published_count := Suc (eb_published_count b)\<rparr>"
  have eq: "b' = bus_create_tasks (bus_targets b (ev_type e)) e ?b1"
    using publish(1) by (auto simp: bus_publish_def Let_def bus_targets_def split: if_splits)
  have "bus_wf ?b1" using publish(2) by (simp add: bus_wf_def)
  then show ?case by (simp add: eq create_tasks_wf create_tasks_load) (simp add: bus_load_def)
next
  case (finish i h e b r)
  then show ?case by (simp add: dispatch_end_wf dispatch_end_load [of b i h e r])
next
  case (stop b out)
  have "map (\<lambda>(h, e, r). (h, e)) (map (\<lambda>(i, h, e). (h, e, out i)) (eb_active b)) = map snd (eb_active b)"
    by (auto simp: comp_def split_beta)
  then have "mset (map (\<lambda>(h, e, r). (h, e)) (label_ended (LStop (map (\<lambda>(i, h, e). (h, e, out i)) (eb_active b)))))
               = bus_load b"
    by (simp only: label_ended.simps bus_load_def)
  then show ?case by (simp only: label_started.simps) (simp add: bus_wf_def bus_load_def)
qed (simp_all add: bus_wf_def bus_load_def bus_start_def)

lemma bus_step_errors:
  assumes "bus_step b l b'"
  shows "eb_error_count b' = eb_error_count b + length (filter (\<lambda>(h, e, r). r = Raised) (label_ended l))"
  using assms
proof (induction rule: bus_step.induct)
  case (publish b e b')
  then show ?case by (auto simp: bus_publish_def Let_def create_tasks_frame split: if_splits)
next
  case (stop b out)
  show ?case
    by (simp add: bus_stop_def Let_def drain_frame filter_map comp_def split_beta)
qed (simp_all add: bus_start_def safe_dispatch_end_def)

lemma bus_trace_inv:
  "bus_trace b tr b' \<Longrightarrow> bus_wf b \<Longrightarrow>
     bus_wf b' \<and>
     bus_load b + mset (deliveries_started tr)
       = bus_load b' + mset (map (\<lambda>(h, e, r). (h, e)) (deliveries_ended tr)) \<and>
     eb_error_count b' = eb_error_count b + length (filter (\<lambda>(h, e, r). r = Raised) (deliveries_ended tr))"
proof (induction rule: bus_trace.induct)
  case (nil b)
  then show ?case by (simp add: deliveries_started_def deliveries_ended_def)
next
  case (snoc b tr b' l b'')
  from snoc have "bus_wf b'" by blast
  note st = bus_step_balance [OF snoc(2) this] bus_step_errors [OF snoc(2)]
  have ih: "bus_load b + mset (deliveries_started tr)
       = bus_load b' + mset (map (\<lambda>(h, e, r). (h, e)) (deliveries_ended tr))"
    "eb_error_count b' = eb_error_count b + length (filter (\<lambda>(h, e, r). r = Raised) (deliveries_ended tr))"
    using snoc by blast+
  have started: "deliveries_started (tr @ [l]) = deliveries_started tr @ label_started l"
    by (simp add: deliveries_started_def)
  have ended: "deliveries_ended (tr @ [l]) = deliveries_ended tr @ label_ended l"
    by (simp add: deliveries_ended_def)
  have "bus_load b + mset (deliveries_started (tr @ [l]))
      = (bus_load b' + mset (label_started l)) + mset (map (\<lambda>(h, e, r). (h, e)) (deliveries_ended tr))"
    using ih(1) by (simp only: started mset_append) (simp only: add.assoc [symmetric], simp only: ac_simps)
  also have "\<dots> = bus_load b'' + mset (map (\<lambda>(h, e, r). (h, e)) (deliveries_ended (tr @ [l])))"
    using st(1) by (simp only: ended map_append mset_append ac_simps)
  finally show ?case
    using st ih by (simp add: ended)
qed

text \<open>
  C29. No delivery is lost or duplicated. On every run of the bus from its initial state, the
  deliveries that \<open>publish\<close> started are, counted with multiplicity, exactly those that ended
  (returned, raised or were cancelled) together with those still in flight, and the error counter is
  the number of handlers that raised: a failing subscriber affects no other delivery.
\<close>

theorem bus_conservation:
  assumes "bus_trace bus_init tr b"
  shows "mset (deliveries_started tr) = mset (map snd (eb_active b)) +
           mset (map (\<lambda>(h, e, r). (h, e)) (deliveries_ended tr)) \<and>
         eb_error_count b = length (filter (\<lambda>(h, e, r). r = Raised) (deliveries_ended tr))"
proof -
  have "bus_wf bus_init" by (simp add: bus_wf_def bus_init_def)
  from bus_trace_inv [OF assms this] show ?thesis
    by (simp only: bus_load_def) (simp add: bus_init_def)
qed

definition demo_event :: jarvis_event where
  "demo_event = \<lparr>ev_id = ''1'', ev_type = ''tool'', ev_correlation_id = None, ev_payload = []\<rparr>"

definition demo_bus :: event_bus where
  "demo_bus = bus_subscribe (bus_start bus_init) ''tool'' 7"

lemma demo_bus_trace:
  "\<exists>b. bus_publish demo_bus demo_event = Inr b \<and>
       bus_trace bus_init [LStart, LSubscribe ''tool'' 7, LPublish demo_event [7], LFinish 7 demo_event Raised]
         (safe_dispatch_end 0 Raised b)"
proof -
  let ?b = "bus_create_tasks [7] demo_event (demo_bus\<lparr>eb_published_count := 1\<rparr>)"
  have pub: "bus_publish demo_bus demo_event = Inr ?b"
    by (simp add: demo_bus_def demo_event_def bus_publish_def bus_subscribe_def bus_start_def
        bus_init_def bus_targets_def Let_def dict_has_def)
  have tg: "bus_targets demo_bus (ev_type demo_event) = [7]"
    by (simp add: demo_bus_def demo_event_def bus_subscribe_def bus_start_def
        bus_init_def bus_targets_def Let_def dict_has_def)
  have act: "(0, 7, demo_event) \<in> set (eb_active ?b)"
    by (simp add: demo_bus_def bus_start_def bus_init_def bus_subscribe_def Let_def)
  have st: "bus_step bus_init LStart (bus_start bus_init)" by (rule bus_step.start)
  have sub: "bus_step (bus_start bus_init) (LSubscribe ''tool'' 7) demo_bus"
    unfolding demo_bus_def by (rule bus_step.subscribe)
  have "bus_trace bus_init ((([] @ [LStart]) @ [LSubscribe ''tool'' 7])
           @ [LPublish demo_event (bus_targets demo_bus (ev_type demo_event))]) ?b"
    by (rule bus_trace.snoc [OF bus_trace.snoc [OF bus_trace.snoc [OF bus_trace.nil st] sub]
          bus_step.publish [OF pub]])
  from bus_trace.snoc [OF this bus_step.finish [OF act]] show ?thesis
    using pub by (auto simp: tg)
qed

theorem bus_conservation_witness:
  "\<exists>b. bus_trace bus_init [LStart, LSubscribe ''tool'' 7, LPublish demo_event [7], LFinish 7 demo_event Raised] b \<and>
       eb_error_count b = 1"
proof -
  obtain b where b: "bus_trace bus_init
      [LStart, LSubscribe ''tool'' 7, LPublish demo_event [7], LFinish 7 demo_event Raised] b"
    using demo_bus_trace by blast
  from bus_conservation [OF b] have "eb_error_count b = 1"
    by (simp add: deliveries_ended_def)
  with b show ?thesis by blast
qed

end
