(* ===== verification/Core_Engine.thy ===== *)
theory Core_Engine
  imports Service Vault Event_Bus
begin

text \<open>
  The micro-kernel (\<open>core/engine.py\<close>): registration of services and probes, the ordered start with
  clean-up on failure, the shutdown in reverse order, and the aggregated health report. The engine
  is polymorphic in the vault it holds. What in-flight event handlers do when the bus stops is the
  argument \<open>out\<close> of the operations that stop it.
\<close>

datatype probe_ref = CoreProbe | BusProbe | VaultProbe | ServiceProbe string

record 'v engine =
  eng_bus :: event_bus
  eng_probes :: "probe_ref dict"
  eng_vault :: 'v
  eng_services :: "service dict"
  eng_is_running :: bool
  eng_shutdown :: bool

definition engine_init :: "'v \<Rightarrow> 'v engine" where
  "engine_init v = \<lparr>eng_bus = bus_init,
     eng_probes = [(''core'', CoreProbe), (''event_bus'', BusProbe), (''vault'', VaultProbe)],
     eng_vault = v, eng_services = [], eng_is_running = False, eng_shutdown = False\<rparr>"

definition register_service :: "service \<Rightarrow> 'v engine \<Rightarrow> string + 'v engine" where
  "register_service s g =
     (if dict_has (eng_services g) (srv_name s)
      then Inl (''Service '' @ srv_name s @ '' is already registered.'')
      else Inr (g\<lparr>eng_services := dict_put (srv_name s) s (eng_services g),
                  eng_probes := dict_put (srv_name s) (ServiceProbe (srv_name s)) (eng_probes g)\<rparr>))"

definition get_service :: "'v engine \<Rightarrow> string \<Rightarrow> service option" where
  "get_service g n = dict_get (eng_services g) n"

section \<open>Shutdown\<close>

text \<open>Services are stopped from the last to the first; an exception of one is logged and dropped.\<close>

fun stop_services :: "(string \<times> service) list \<Rightarrow> (string \<times> service) list" where
  "stop_services [] = []"
| "stop_services ((n, s) # rest) =
     (let rest' = stop_services rest
      in (n, fst (service_stop s)) # rest')"

definition engine_shutdown :: "(nat \<Rightarrow> outcome) \<Rightarrow> 'v engine \<Rightarrow> 'v engine" where
  "engine_shutdown out g =
     (if \<not> eng_is_running g \<and> eng_shutdown g then g
      else let g1 = g\<lparr>eng_is_running := False\<rparr>;
               g2 = g1\<lparr>eng_services := stop_services (eng_services g1)\<rparr>;
               g3 = g2\<lparr>eng_bus := bus_stop out (eng_bus g2)\<rparr>
           in g3\<lparr>eng_shutdown := True\<rparr>)"

section \<open>Start\<close>

text \<open>The loop over the services: the services afterwards and the first failure with its message.\<close>

fun start_services :: "(string \<times> service) list \<Rightarrow> (string \<times> service) list \<times> (string \<times> string) option" where
  "start_services [] = ([], None)"
| "start_services ((n, s) # rest) =
     (case service_start s of
        (s', Some e) \<Rightarrow> ((n, s') # rest, Some (n, e))
      | (s', None) \<Rightarrow> (let (rest', err) = start_services rest in ((n, s') # rest', err)))"

definition engine_start :: "(nat \<Rightarrow> outcome) \<Rightarrow> 'v engine \<Rightarrow> 'v engine \<times> string option" where
  "engine_start out g =
     (if eng_is_running g then (g, None)
      else let g1 = g\<lparr>eng_bus := bus_start (eng_bus g)\<rparr>
           in case start_services (eng_services g1) of
                (ss, Some (n, e)) \<Rightarrow>
                  (engine_shutdown out (g1\<lparr>eng_services := ss\<rparr>),
                   Some (''Service startup failed for '' @ n @ '': '' @ e))
              | (ss, None) \<Rightarrow>
                  (g1\<lparr>eng_services := ss, eng_is_running := True, eng_shutdown := False\<rparr>, None))"

section \<open>Health\<close>

definition vault_probe_key :: string where
  "vault_probe_key = ''__jarvis_health_probe__''"

definition vault_health :: "'v vault_ops \<Rightarrow> 'v \<Rightarrow> 'v \<times> component_health" where
  "vault_health ops v =
     (case vo_set_secret ops v vault_probe_key ''probe_val'' of
        Inl e \<Rightarrow> (v, \<lparr>ch_name = ''vault'', ch_status = UNHEALTHY,
                     ch_message = Some (''Vault probe failed: '' @ e)\<rparr>)
      | Inr v1 \<Rightarrow>
          (let read_back = vo_get_secret ops v1 vault_probe_key;
               (v2, _) = vo_delete_secret ops v1 vault_probe_key;
               healthy = (read_back = Some ''probe_val'')
           in (v2, \<lparr>ch_name = ''vault'', ch_status = (if healthy then HEALTHY else UNHEALTHY),
                    ch_message = None\<rparr>)))"

definition core_health :: "'v engine \<Rightarrow> component_health" where
  "core_health g = \<lparr>ch_name = ''core'',
     ch_status = (if eng_is_running g then HEALTHY else DEGRADED), ch_message = None\<rparr>"

definition run_probe :: "'v vault_ops \<Rightarrow> 'v engine \<Rightarrow> probe_ref \<Rightarrow> probe" where
  "run_probe ops g p =
     (case p of
        CoreProbe \<Rightarrow> Inr (core_health g)
      | BusProbe \<Rightarrow> Inr (bus_health (eng_bus g))
      | VaultProbe \<Rightarrow> Inr (snd (vault_health ops (eng_vault g)))
      | ServiceProbe n \<Rightarrow> (case get_service g n of Some s \<Rightarrow> Inr (service_health s)
                          | None \<Rightarrow> Inl ''unregistered service''))"

definition health_report :: "'v vault_ops \<Rightarrow> 'v engine \<Rightarrow> system_health_report" where
  "health_report ops g = check_all (map (\<lambda>(n, p). (n, run_probe ops g p)) (eng_probes g))"

section \<open>Lemmas\<close>

lemma stop_services_map: "stop_services ss = map (\<lambda>(n, s). (n, fst (service_stop s))) ss"
  by (induction ss rule: stop_services.induct) simp_all

lemma service_stop_not_running: "srv_state (fst (service_stop s)) \<noteq> SRV_RUNNING"
  using service_stop_cases [of s "fst (service_stop s)" "snd (service_stop s)"] by auto

lemma service_start_None: "service_start s = (s', None) \<Longrightarrow> srv_state s' = SRV_RUNNING"
  using service_start_cases [of s s' None] by simp

lemma start_services_ok:
  "start_services ss = (ss', None) \<Longrightarrow>
     map fst ss' = map fst ss \<and> (\<forall>(n, s) \<in> set ss'. srv_state s = SRV_RUNNING)"
proof (induction ss arbitrary: ss' rule: start_services.induct)
  case (2 n s rest)
  then show ?case
    by (auto split: prod.splits option.splits simp: service_start_None)
qed simp

lemma start_services_names: "map fst (fst (start_services ss)) = map fst ss"
  by (induction ss rule: start_services.induct) (auto split: prod.splits option.splits)

lemma start_services_error:
  "snd (start_services ss) = Some (n, e) \<Longrightarrow>
     \<exists>s pre post. ss = pre @ (n, s) # post \<and> srv_on_start s = Some e \<and> srv_state s \<noteq> SRV_RUNNING"
proof (induction ss rule: start_services.induct)
  case (2 m s rest)
  show ?case
  proof (cases "snd (service_start s)")
    case None
    then obtain s' where st: "service_start s = (s', None)" by (cases "service_start s") auto
    then have "snd (start_services rest) = Some (n, e)"
      using "2.prems" by (auto split: prod.splits)
    then obtain pre t post where "rest = pre @ (n, t) # post" "srv_on_start t = Some e" "srv_state t \<noteq> SRV_RUNNING"
      using "2.IH" [OF st [symmetric] refl] by blast
    then have "(m, s) # rest = ((m, s) # pre) @ (n, t) # post \<and> srv_on_start t = Some e \<and> srv_state t \<noteq> SRV_RUNNING"
      by simp
    then show ?thesis by blast
  next
    case (Some d)
    then have "m = n" "d = e" using "2.prems" by (auto split: prod.splits)
    moreover have "srv_on_start s = Some d \<and> srv_state s \<noteq> SRV_RUNNING"
      using Some by (auto simp: service_start_def Let_def split: if_splits option.splits)
    ultimately show ?thesis by (metis append_Nil)
  qed
qed simp

text \<open>What a shutdown that runs leaves behind.\<close>

definition engine_quiet :: "'v engine \<Rightarrow> bool" where
  "engine_quiet g = (\<not> eng_is_running g \<and> eng_shutdown g \<and> \<not> eb_is_running (eng_bus g) \<and>
     eb_active (eng_bus g) = [] \<and> (\<forall>(n, s) \<in> set (eng_services g). srv_state s \<noteq> SRV_RUNNING))"

lemma engine_shutdown_runs:
  "eng_is_running g \<or> \<not> eng_shutdown g \<Longrightarrow> engine_quiet (engine_shutdown out g)"
  by (auto simp: engine_quiet_def engine_shutdown_def Let_def stop_services_map
        service_stop_not_running)

lemma engine_shutdown_names:
  "map fst (eng_services (engine_shutdown out g)) = map fst (eng_services g)"
  by (simp add: engine_shutdown_def Let_def stop_services_map comp_def split_beta)

definition engine_wf :: "'v engine \<Rightarrow> bool" where
  "engine_wf g = (dict_wf (eng_services g) \<and> dict_wf (eng_probes g) \<and>
     (\<forall>(n, s) \<in> set (eng_services g). dict_get (eng_probes g) n = Some (ServiceProbe n)))"


lemma register_service_wf:
  assumes "register_service s g = Inr g'" and "engine_wf g"
  shows "engine_wf g'"
proof -
  have fresh: "\<not> dict_has (eng_services g) (srv_name s)"
    and g': "g' = g\<lparr>eng_services := dict_put (srv_name s) s (eng_services g),
                  eng_probes := dict_put (srv_name s) (ServiceProbe (srv_name s)) (eng_probes g)\<rparr>"
    using assms(1) by (auto simp: register_service_def split: if_splits)
  show ?thesis
    using assms(2) fresh dict_wf_put [of "eng_services g" "srv_name s" s]
    by (auto simp: engine_wf_def g' dict_simps dict_put_fresh)
qed


definition demo_service :: "string \<Rightarrow> string option \<Rightarrow> service" where
  "demo_service n err = \<lparr>srv_name = n, srv_state = CREATED, srv_error = None,
                         srv_on_start = err, srv_on_stop = None\<rparr>"

definition demo_engine :: "string dict engine" where
  "demo_engine = (engine_init [])\<lparr>eng_services :=
     [(''a'', demo_service ''a'' None), (''b'', demo_service ''b'' (Some ''port''))]\<rparr>"


text \<open>
  The clean-up is skipped on a restart. After a start and a shutdown the shutdown flag is still
  set, so when a later start fails, the call to \<open>shutdown\<close> returns at once: the services started so
  far and the bus stay running although the engine reports that it is not running.
\<close>

theorem engine_restart_failure_leaks:
  assumes "\<not> eng_is_running g" and "eng_shutdown g"
    and "eng_services g = [(n, s), (m, t)]" and "srv_on_start s = None"
    and "srv_state t \<noteq> SRV_RUNNING" and "srv_on_start t = Some e"
  shows "\<exists>g' msg. engine_start out g = (g', Some msg) \<and> \<not> eng_is_running g' \<and>
           eb_is_running (eng_bus g') \<and> (\<exists>s'. (n, s') \<in> set (eng_services g') \<and> srv_state s' = SRV_RUNNING)"
  using assms
  by (auto simp: engine_start_def engine_shutdown_def service_start_def Let_def bus_start_def)

theorem engine_restart_failure_leaks_witness:
  "\<exists>g' msg. engine_start (\<lambda>_. Cancelled) (demo_engine\<lparr>eng_shutdown := True\<rparr>) = (g', Some msg) \<and>
     eb_is_running (eng_bus g')"
  using engine_restart_failure_leaks
    [of "demo_engine\<lparr>eng_shutdown := True\<rparr>" "''a''" "demo_service ''a'' None" "''b''"
        "demo_service ''b'' (Some ''port'')" "''port''" "\<lambda>_. Cancelled"]
  by (auto simp: demo_engine_def engine_init_def demo_service_def)

text \<open>
  The vault probe of the engine, run on the in-memory vault, reports a healthy vault, and it
  changes no secret but the probe key, which it removes.
\<close>

theorem vault_probe_in_memory:
  "ch_status (snd (vault_health in_memory_vault v)) = HEALTHY \<and>
   mem_get_secret (fst (vault_health in_memory_vault v)) k
     = (if k = vault_probe_key then None else mem_get_secret v k)"
proof -
  obtain v1 where v1: "mem_set_secret v vault_probe_key ''probe_val'' = Inr v1"
    using mv.set_ok by blast
  show ?thesis
    using mv.set_get_roundtrip [OF v1] mv.probe_cycle [OF v1]
    by (simp add: vault_health_def in_memory_vault_def v1 split_beta)
qed

end
