(* ===== verification/Tool_Model.thy ===== *)
theory Tool_Model
  imports Prelude
begin

text \<open>
  The contracts of the tool subsystem (\<open>tools/models.py\<close>, \<open>tools/permissions.py\<close>): permissions,
  risk levels as a linear order, tool definitions, requests, results, policy decisions and audit
  records, and the security profile of a caller. Sets of permissions are lists without order.
\<close>

datatype tool_permission = PREAD | PWRITE | PEXECUTE | PNETWORK | PSYSTEM

datatype risk_level = RLOW | RMEDIUM | RHIGH | RCRITICAL

datatype approval_mode = AUTO_APPROVE | USER_APPROVAL | ALWAYS_DENY

datatype tool_status = TSUCCESS | TFAILED | TDENIED | TTIMEOUT | TCANCELLED

fun permission_value :: "tool_permission \<Rightarrow> string" where
  "permission_value PREAD = ''read''"
| "permission_value PWRITE = ''write''"
| "permission_value PEXECUTE = ''execute''"
| "permission_value PNETWORK = ''network''"
| "permission_value PSYSTEM = ''system''"

fun risk_value :: "risk_level \<Rightarrow> string" where
  "risk_value RLOW = ''low''"
| "risk_value RMEDIUM = ''medium''"
| "risk_value RHIGH = ''high''"
| "risk_value RCRITICAL = ''critical''"

fun tool_status_value :: "tool_status \<Rightarrow> string" where
  "tool_status_value TSUCCESS = ''success''"
| "tool_status_value TFAILED = ''failed''"
| "tool_status_value TDENIED = ''denied''"
| "tool_status_value TTIMEOUT = ''timeout''"
| "tool_status_value TCANCELLED = ''cancelled''"

text \<open>The position in \<open>[LOW, MEDIUM, HIGH, CRITICAL]\<close>.\<close>

fun risk_index :: "risk_level \<Rightarrow> nat" where
  "risk_index RLOW = 0"
| "risk_index RMEDIUM = 1"
| "risk_index RHIGH = 2"
| "risk_index RCRITICAL = 3"

instantiation risk_level :: linorder
begin

definition less_eq_risk_level :: "risk_level \<Rightarrow> risk_level \<Rightarrow> bool" where
  "less_eq_risk_level a b = (risk_index a \<le> risk_index b)"

definition less_risk_level :: "risk_level \<Rightarrow> risk_level \<Rightarrow> bool" where
  "less_risk_level a b = (risk_index a < risk_index b)"

lemma risk_index_inj: "risk_index a = risk_index b \<longleftrightarrow> a = b"
  by (cases a; cases b) simp_all

instance
  by standard (auto simp: less_eq_risk_level_def less_risk_level_def risk_index_inj)

end

record tool_definition =
  td_id :: string
  td_name :: string
  td_version :: string
  td_description :: string
  td_category :: string
  td_input_schema :: "pyval dict"
  td_output_schema :: "pyval dict option"
  td_permissions :: "tool_permission list"
  td_risk_level :: risk_level
  td_approval_mode :: approval_mode
  td_timeout_seconds :: rat
  td_enabled :: bool

record tool_request =
  tq_execution_id :: string
  tq_tool_id :: string
  tq_arguments :: "pyval dict"
  tq_correlation_id :: "string option"
  tq_caller :: string

record tool_result =
  tr_execution_id :: string
  tr_tool_id :: string
  tr_status :: tool_status
  tr_output :: pyval
  tr_error :: "string option"
  tr_duration_ms :: rat
  tr_artifacts :: "string list"

definition tr_is_success :: "tool_result \<Rightarrow> bool" where
  "tr_is_success r = (tr_status r = TSUCCESS)"

record policy_decision =
  pd_allowed :: bool
  pd_approval_required :: bool
  pd_reason :: string
  pd_risk_level :: risk_level
  pd_permissions_required :: "tool_permission list"

record tool_context =
  tc_execution_id :: string
  tc_tool_id :: string
  tc_correlation_id :: "string option"
  tc_caller :: string
  tc_workspace_dir :: "string list"
  tc_timeout_seconds :: rat

record audit_event =
  ae_execution_id :: string
  ae_tool_id :: string
  ae_tool_version :: string
  ae_correlation_id :: "string option"
  ae_actor :: string
  ae_policy_decision :: string
  ae_duration_ms :: rat
  ae_status :: tool_status
  ae_error_code :: "string option"
  ae_arguments_summary :: "pyval dict"
  ae_artifacts :: "string list"

section \<open>Security profiles\<close>

record security_profile =
  sp_granted :: "tool_permission list"
  sp_max_risk :: risk_level
  sp_auto_approve_safe :: bool

definition default_profile :: security_profile where
  "default_profile = \<lparr>sp_granted = [PREAD, PWRITE, PEXECUTE, PNETWORK, PSYSTEM],
                      sp_max_risk = RMEDIUM, sp_auto_approve_safe = True\<rparr>"

definition has_permission :: "security_profile \<Rightarrow> tool_permission \<Rightarrow> bool" where
  "has_permission sp p = (p \<in> set (sp_granted sp))"

definition has_all_permissions :: "security_profile \<Rightarrow> tool_permission list \<Rightarrow> bool" where
  "has_all_permissions sp ps = (set ps \<subseteq> set (sp_granted sp))"

definition is_risk_acceptable :: "security_profile \<Rightarrow> risk_level \<Rightarrow> bool" where
  "is_risk_acceptable sp r = (risk_index r \<le> risk_index (sp_max_risk sp))"

lemma risk_acceptable_iff: "is_risk_acceptable sp r \<longleftrightarrow> r \<le> sp_max_risk sp"
  by (simp add: is_risk_acceptable_def less_eq_risk_level_def)

lemma has_all_iff: "has_all_permissions sp ps \<longleftrightarrow> (\<forall>p \<in> set ps. has_permission sp p)"
  by (auto simp: has_all_permissions_def has_permission_def)

end
