(* ===== verification/Tool_Registry.thy ===== *)
theory Tool_Registry
  imports Tool_Model
begin

text \<open>
  The tool registry (\<open>tools/registry.py\<close>): two dictionaries with the same keys, one of definitions
  and one of handlers. The locale \<open>keyed_store\<close> is the contract of a registry (what a lookup
  returns after a registration or a removal); the registry of tools is its interpretation here,
  the registry of agents elsewhere.
\<close>

section \<open>The contract of a registry\<close>

locale keyed_store =
  fixes reg :: "string \<Rightarrow> 'a \<Rightarrow> 's \<Rightarrow> 'e + 's"
    and unreg :: "string \<Rightarrow> 's \<Rightarrow> 's \<times> bool"
    and look :: "'s \<Rightarrow> string \<Rightarrow> 'a option"
    and ok :: "'s \<Rightarrow> bool"
  assumes reg_ok: "ok s \<Longrightarrow> reg k a s = Inr s' \<Longrightarrow> ok s'"
    and unreg_ok: "ok s \<Longrightarrow> ok (fst (unreg k s))"
    and look_reg: "ok s \<Longrightarrow> reg k a s = Inr s' \<Longrightarrow> look s' k' = (if k' = k then Some a else look s k')"
    and look_unreg: "ok s \<Longrightarrow> look (fst (unreg k s)) k' = (if k' = k then None else look s k')"
    and unreg_flag: "ok s \<Longrightarrow> snd (unreg k s) = (look s k \<noteq> None)"
    and reg_dup: "ok s \<Longrightarrow> look s k \<noteq> None \<Longrightarrow> \<exists>e. reg k a s = Inl e"
begin

lemma reg_fresh: "ok s \<Longrightarrow> reg k a s = Inr s' \<Longrightarrow> look s k = None"
  by (rule ccontr) (auto dest: reg_dup [of s k a])

lemma unreg_reg: "ok s \<Longrightarrow> reg k a s = Inr s' \<Longrightarrow> look (fst (unreg k s')) k' = look s k'"
  using reg_fresh [of s k a s'] by (simp add: look_unreg look_reg reg_ok)

lemma reg_commute:
  "\<lbrakk>ok s; reg k a s = Inr s1; reg k2 b s1 = Inr s2; reg k2 b s = Inr t1; reg k a t1 = Inr t2\<rbrakk>
     \<Longrightarrow> look s2 k' = look t2 k'"
proof -
  assume 1: "ok s" "reg k a s = Inr s1" "reg k2 b s1 = Inr s2" "reg k2 b s = Inr t1" "reg k a t1 = Inr t2"
  have oks: "ok s1" "ok t1" using 1 reg_ok by blast+
  have "k \<noteq> k2" using reg_fresh [OF oks(1) 1(3)] look_reg [OF 1(1,2), of k2] by auto
  then show "look s2 k' = look t2 k'"
    using look_reg [OF oks(1) 1(3)] look_reg [OF 1(1,2)] look_reg [OF oks(2) 1(5)] look_reg [OF 1(1,4)]
    by simp
qed

end

section \<open>The registry of tools\<close>

record 'h tool_registry =
  tg_tools :: "tool_definition dict"
  tg_handlers :: "'h dict"

definition registry_empty :: "'h tool_registry" where
  "registry_empty = \<lparr>tg_tools = [], tg_handlers = []\<rparr>"

datatype registry_error = ToolNotFound string | DuplicateTool string | InvalidTool string

definition tool_register ::
  "tool_definition \<Rightarrow> 'h \<Rightarrow> 'h tool_registry \<Rightarrow> registry_error + 'h tool_registry" where
  "tool_register d h r =
     (if td_id d = [] then Inl (InvalidTool ''Tool ID must be a non-empty string.'')
      else if dict_has (tg_tools r) (td_id d)
      then Inl (DuplicateTool (''Tool with ID '' @ quoted (td_id d) @ '' is already registered.''))
      else Inr (r\<lparr>tg_tools := dict_put (td_id d) d (tg_tools r),
                  tg_handlers := dict_put (td_id d) h (tg_handlers r)\<rparr>))"

definition tool_unregister :: "string \<Rightarrow> 'h tool_registry \<Rightarrow> 'h tool_registry \<times> bool" where
  "tool_unregister k r =
     (if dict_has (tg_tools r) k
      then (r\<lparr>tg_tools := dict_del k (tg_tools r), tg_handlers := dict_del k (tg_handlers r)\<rparr>, True)
      else (r, False))"

definition tool_get :: "'h tool_registry \<Rightarrow> string \<Rightarrow> registry_error + tool_definition" where
  "tool_get r k =
     (case dict_get (tg_tools r) k of
        None \<Rightarrow> Inl (ToolNotFound (''Tool '' @ quoted k @ '' is not registered.''))
      | Some d \<Rightarrow> Inr d)"

definition tool_get_handler :: "'h tool_registry \<Rightarrow> string \<Rightarrow> registry_error + 'h" where
  "tool_get_handler r k =
     (case dict_get (tg_handlers r) k of
        None \<Rightarrow> Inl (ToolNotFound (''No executable handler registered for tool '' @ quoted k @ ''.''))
      | Some h \<Rightarrow> Inr h)"

definition tool_has :: "'h tool_registry \<Rightarrow> string \<Rightarrow> bool" where
  "tool_has r k = dict_has (tg_tools r) k"

definition tool_set_enabled :: "bool \<Rightarrow> string \<Rightarrow> 'h tool_registry \<Rightarrow> registry_error + 'h tool_registry" where
  "tool_set_enabled b k r =
     bind_res (tool_get r k) (\<lambda>d. Inr (r\<lparr>tg_tools := dict_put k (d\<lparr>td_enabled := b\<rparr>) (tg_tools r)\<rparr>))"

definition tool_enable :: "string \<Rightarrow> 'h tool_registry \<Rightarrow> registry_error + 'h tool_registry" where
  "tool_enable = tool_set_enabled True"

definition tool_disable :: "string \<Rightarrow> 'h tool_registry \<Rightarrow> registry_error + 'h tool_registry" where
  "tool_disable = tool_set_enabled False"

definition tool_list :: "string option \<Rightarrow> bool \<Rightarrow> 'h tool_registry \<Rightarrow> tool_definition list" where
  "tool_list category enabled_only r =
     (let tools = map snd (tg_tools r);
          tools = (if enabled_only then filter td_enabled tools else tools)
      in case category of
           None \<Rightarrow> tools
         | Some c \<Rightarrow> filter (\<lambda>t. lower (td_category t) = lower c) tools)"

definition tool_discover ::
  "string option \<Rightarrow> risk_level option \<Rightarrow> tool_permission option \<Rightarrow> bool \<Rightarrow> 'h tool_registry
     \<Rightarrow> tool_definition list" where
  "tool_discover category max_risk required enabled_only r =
     (let tools = tool_list category enabled_only r;
          tools = (case max_risk of None \<Rightarrow> tools
                   | Some m \<Rightarrow> filter (\<lambda>t. risk_index (td_risk_level t) \<le> risk_index m) tools)
      in case required of None \<Rightarrow> tools
         | Some p \<Rightarrow> filter (\<lambda>t. p \<in> set (td_permissions t)) tools)"

record ai_tool_definition =
  atd_name :: string
  atd_description :: string
  atd_parameters :: "pyval dict"

definition export_ai_tool_definitions ::
  "string option \<Rightarrow> bool \<Rightarrow> 'h tool_registry \<Rightarrow> ai_tool_definition list" where
  "export_ai_tool_definitions category enabled_only r =
     map (\<lambda>t. \<lparr>atd_name = td_id t, atd_description = td_description t, atd_parameters = td_input_schema t\<rparr>)
       (tool_list category enabled_only r)"

section \<open>The registry invariant\<close>

text \<open>Both dictionaries have the same keys, each once, and a definition is stored under its id.\<close>

definition registry_wf :: "'h tool_registry \<Rightarrow> bool" where
  "registry_wf r = (dict_wf (tg_tools r) \<and> map fst (tg_tools r) = map fst (tg_handlers r) \<and>
     (\<forall>(k, d) \<in> set (tg_tools r). td_id d = k))"

lemma registry_wf_empty: "registry_wf registry_empty"
  by (simp add: registry_wf_def registry_empty_def dict_wf_def)

lemma has_same_keys: "map fst a = map fst b \<Longrightarrow> dict_has a k = dict_has b k"
  unfolding dict_has_iff by (metis set_map)

lemma registry_wf_register:
  assumes "registry_wf r" and "tool_register d h r = Inr r'"
  shows "registry_wf r'"
proof -
  have fresh: "\<not> dict_has (tg_tools r) (td_id d)"
    and r': "r' = r\<lparr>tg_tools := dict_put (td_id d) d (tg_tools r),
                  tg_handlers := dict_put (td_id d) h (tg_handlers r)\<rparr>"
    using assms(2) by (auto simp: tool_register_def split: if_splits)
  moreover have "\<not> dict_has (tg_handlers r) (td_id d)"
    using fresh assms(1) has_same_keys [of "tg_tools r" "tg_handlers r"] by (simp add: registry_wf_def)
  ultimately show ?thesis
    using assms(1) dict_wf_put [of "tg_tools r" "td_id d" d]
    by (auto simp: registry_wf_def dict_put_fresh)
qed

lemma keys_delete: "map fst (AList.delete k d) = filter (\<lambda>x. x \<noteq> k) (map fst d)"
  by (simp add: delete_keys removeAll_filter_not_eq) (metis (mono_tags))

lemma in_delete: "(x, y) \<in> set (dict_del k d) \<Longrightarrow> (x, y) \<in> set d"
  by (auto simp: AList.delete_eq)

lemma registry_wf_unregister: "registry_wf r \<Longrightarrow> registry_wf (fst (tool_unregister k r))"
  by (auto simp: registry_wf_def tool_unregister_def keys_delete dict_simps dest!: in_delete)

lemma keys_put_present: "dict_get d k = Some v \<Longrightarrow> map fst (dict_put k w d) = map fst d"
  by (rule dict_put_keys) (simp add: dict_has_def)

lemma in_put: "(x, y) \<in> set (dict_put k v d) \<Longrightarrow> (x = k \<and> y = v) \<or> (x, y) \<in> set d"
  by (induction d) (auto split: if_splits)

lemma registry_wf_set_enabled:
  assumes "registry_wf r" and "tool_set_enabled b k r = Inr r'"
  shows "registry_wf r'"
proof -
  obtain d where d: "dict_get (tg_tools r) k = Some d"
    and r': "r' = r\<lparr>tg_tools := dict_put k (d\<lparr>td_enabled := b\<rparr>) (tg_tools r)\<rparr>"
    using assms(2) by (auto simp: tool_set_enabled_def tool_get_def bind_res_Inr split: option.splits)
  have "td_id d = k" using assms(1) d by (auto simp: registry_wf_def dest!: map_of_SomeD)
  then show ?thesis
    using assms(1) d by (auto simp: registry_wf_def r' keys_put_present dict_simps dest: in_put)
qed

section \<open>The registry meets its contract\<close>

definition reg_entry :: "string \<Rightarrow> tool_definition \<times> 'h \<Rightarrow> 'h tool_registry \<Rightarrow> registry_error + 'h tool_registry" where
  "reg_entry k dh r = (if td_id (fst dh) = k then tool_register (fst dh) (snd dh) r
                       else Inl (InvalidTool k))"

definition look_entry :: "'h tool_registry \<Rightarrow> string \<Rightarrow> (tool_definition \<times> 'h) option" where
  "look_entry r k = (case (tool_get r k, tool_get_handler r k) of
                       (Inr d, Inr h) \<Rightarrow> Some (d, h) | _ \<Rightarrow> None)"

lemma look_entry_def2:
  "look_entry r k = (case (dict_get (tg_tools r) k, dict_get (tg_handlers r) k) of
                       (Some d, Some h) \<Rightarrow> Some (d, h) | _ \<Rightarrow> None)"
  by (simp add: look_entry_def tool_get_def tool_get_handler_def split: option.splits)

lemma wf_both: "registry_wf r \<Longrightarrow> (dict_get (tg_tools r) k = None) = (dict_get (tg_handlers r) k = None)"
  using has_same_keys [of "tg_tools r" "tg_handlers r" k] by (auto simp: registry_wf_def dict_has_def)

interpretation tools: keyed_store reg_entry tool_unregister look_entry registry_wf
proof unfold_locales
  fix s s' :: "'h tool_registry" and k k' a
  assume ok: "registry_wf s"
  show "registry_wf (fst (tool_unregister k s))" using ok by (rule registry_wf_unregister)
  show "look_entry (fst (tool_unregister k s)) k' = (if k' = k then None else look_entry s k')"
    using wf_both [OF ok, of k]
    by (auto simp: look_entry_def2 tool_unregister_def dict_simps dict_has_def split: option.splits)
  show "snd (tool_unregister k s) = (look_entry s k \<noteq> None)"
    using wf_both [OF ok, of k]
    by (auto simp: look_entry_def2 tool_unregister_def dict_has_def split: option.splits)
  show "look_entry s k \<noteq> None \<Longrightarrow> \<exists>e. reg_entry k a s = Inl e"
    by (auto simp: look_entry_def2 reg_entry_def tool_register_def dict_has_def split: option.splits)
  assume reg: "reg_entry k a s = Inr s'"
  show "registry_wf s'"
    using reg ok by (auto simp: reg_entry_def split: if_splits intro: registry_wf_register)
  show "look_entry s' k' = (if k' = k then Some a else look_entry s k')"
    using reg
    by (auto simp: reg_entry_def look_entry_def2 tool_register_def dict_simps split: if_splits option.splits)
qed

text \<open>
  Registry round trip. In a well-formed registry a successful registration makes exactly the
  given definition and handler retrievable under the tool's id and leaves every other lookup as it
  was, a second registration under the same id is refused, and unregistering the tool restores all
  lookups; the invariant is kept throughout.
\<close>

theorem tool_registry_roundtrip:
  assumes "registry_wf r" and "tool_register d h r = Inr r'"
  shows "registry_wf r' \<and> look_entry r' k = (if k = td_id d then Some (d, h) else look_entry r k) \<and>
         (\<exists>e. tool_register d h2 r' = Inl e) \<and>
         look_entry (fst (tool_unregister (td_id d) r')) k = look_entry r k \<and>
         snd (tool_unregister (td_id d) r')"
proof -
  have reg: "reg_entry (td_id d) (d, h) r = Inr r'" using assms(2) by (simp add: reg_entry_def)
  have wf: "registry_wf r'" by (rule tools.reg_ok [OF assms(1) reg])
  have look: "look_entry r' k' = (if k' = td_id d then Some (d, h) else look_entry r k')" for k'
    using tools.look_reg [OF assms(1) reg] .
  obtain e where "reg_entry (td_id d) (d, h2) r' = Inl e"
    using tools.reg_dup [OF wf, of "td_id d" "(d, h2)"] look by auto
  then have "\<exists>e. tool_register d h2 r' = Inl e" by (auto simp: reg_entry_def)
  with wf look show ?thesis
    using tools.unreg_reg [OF assms(1) reg, of k] tools.unreg_flag [OF wf, of "td_id d"] by simp
qed

definition demo_tool :: "string \<Rightarrow> tool_definition" where
  "demo_tool k = \<lparr>td_id = k, td_name = k, td_version = ''1.0.0'', td_description = k,
     td_category = ''general'', td_input_schema = [(''required'', PList [PStr ''path''])],
     td_output_schema = None, td_permissions = [PREAD], td_risk_level = RLOW,
     td_approval_mode = AUTO_APPROVE, td_timeout_seconds = 30, td_enabled = True\<rparr>"

theorem tool_registry_roundtrip_witness:
  "\<exists>r'. tool_register (demo_tool ''t'') (1::nat) registry_empty = Inr r' \<and>
        look_entry r' ''t'' = Some (demo_tool ''t'', 1)"
proof -
  obtain r' where reg: "tool_register (demo_tool ''t'') (1::nat) registry_empty = Inr r'"
    by (simp add: tool_register_def registry_empty_def demo_tool_def dict_has_def)
  from tool_registry_roundtrip [OF registry_wf_empty reg, of "''t''"] reg show ?thesis
    by (auto simp: demo_tool_def)
qed

end
