(* ===== verification/Sandbox.thy ===== *)
theory Sandbox
  imports Prelude
begin

text \<open>
  The file-system sandbox (\<open>tools/sandbox.py\<close>) on POSIX paths. A path is a flag (absolute or not)
  and its components; an absolute path of the file system is the list of its components below
  \<open>/\<close>. What \<open>Path.resolve\<close> and \<open>os.path.realpath\<close> return, and which files exist, is the file
  system's business: the parameter \<open>fs\<close>. The locale \<open>confined\<close> is the promise the policy engine
  and the file tools rely on; the sandbox is its interpretation.
\<close>

section \<open>Paths\<close>

record pypath =
  pp_absolute :: bool
  pp_parts :: "string list"

text \<open>\<open>Path(s)\<close>: empty components and single dots are dropped, \<open>..\<close> is kept.\<close>

definition parse_path :: "string \<Rightarrow> pypath" where
  "parse_path s = \<lparr>pp_absolute = (case s of [] \<Rightarrow> False | c # _ \<Rightarrow> c = CHR ''/''),
                   pp_parts = filter (\<lambda>w. w \<noteq> [] \<and> w \<noteq> ''.'') (split_on (CHR ''/'') s)\<rparr>"

record file_system =
  fs_resolve :: "string list \<Rightarrow> string + string list"
  fs_exists :: "string list \<Rightarrow> bool"

definition is_relative_to :: "string list \<Rightarrow> string list \<Rightarrow> bool" where
  "is_relative_to p ws = (take (length ws) p = ws)"

definition path_name :: "string list \<Rightarrow> string" where
  "path_name p = (if p = [] then [] else last p)"

text \<open>\<open>Path.suffix\<close>, the part of the name from its last dot on.\<close>

definition path_suffix :: "string list \<Rightarrow> string" where
  "path_suffix p =
     (let name = path_name p;
          tail = takeWhile (\<lambda>c. c \<noteq> CHR ''.'') (rev name);
          i = length name - 1 - length tail
      in if CHR ''.'' \<in> set name \<and> 0 < i \<and> i < length name - 1 then CHR ''.'' # rev tail else [])"

definition norm_ext :: "string \<Rightarrow> string" where
  "norm_ext e = dropWhile (\<lambda>c. c = CHR ''.'') (lower e)"

section \<open>The sandbox\<close>

definition nul :: char where "nul = char_of (0::nat)"

definition illegal_chars :: "char list" where
  "illegal_chars = [nul, CHR ''<'', CHR ''>'', CHR '':'', char_of (34::nat), CHR ''|'', CHR ''?'', CHR ''*'']"

text \<open>\<open>os.path.basename\<close>: what follows the last slash.\<close>

definition basename :: "string \<Rightarrow> string" where
  "basename s = rev (takeWhile (\<lambda>c. c \<noteq> CHR ''/'') (rev s))"

definition sanitize_filename :: "string \<Rightarrow> string + string" where
  "sanitize_filename filename =
     (if filename = [] then Inl ''Filename must be a non-empty string.''
      else if nul \<in> set filename then Inl ''Filename contains forbidden null byte.''
      else let cleaned = basename (strip filename)
           in if cleaned = [] \<or> cleaned = ''.'' \<or> cleaned = ''..''
              then Inl (''Invalid filename: '' @ quoted filename)
              else if \<exists>c \<in> set cleaned. c \<in> set illegal_chars
              then Inl (''Filename contains illegal filesystem characters: '' @ quoted cleaned)
              else Inr cleaned)"

definition path_text :: "string list \<Rightarrow> string" where
  "path_text p = ''/'' @ join ''/'' p"

text \<open>The part of \<open>resolve_safe_path\<close> inside its \<open>try\<close>.\<close>

definition resolve_confined :: "file_system \<Rightarrow> string list \<Rightarrow> string \<Rightarrow> pypath \<Rightarrow> string + string list" where
  "resolve_confined fs ws raw p =
     (case fs_resolve fs (if pp_absolute p then pp_parts p else ws @ pp_parts p) of
        Inl exc \<Rightarrow> Inl (''Failed to resolve safe sandbox path: '' @ exc)
      | Inr resolved \<Rightarrow>
          if \<not> is_relative_to resolved ws
          then Inl (''Sandbox path escape detected! Path '' @ quoted raw
                    @ '' resolves outside workspace '' @ quoted (path_text ws))
          else case fs_resolve fs resolved of
                 Inl exc \<Rightarrow> Inl (''Failed to resolve safe sandbox path: '' @ exc)
               | Inr real_path \<Rightarrow>
                   if \<not> is_relative_to real_path ws
                   then Inl (''Symlink jailbreak detected! Path '' @ quoted raw
                             @ '' points outside workspace '' @ quoted (path_text ws))
                   else Inr resolved)"

definition resolve_safe_path ::
  "file_system \<Rightarrow> string list \<Rightarrow> string \<Rightarrow> string list option \<Rightarrow> bool \<Rightarrow> string + string list" where
  "resolve_safe_path fs ws target allowed must_exist =
     (let raw_str = strip target
      in if raw_str = [] then Inl ''Target path cannot be empty.''
         else if nul \<in> set raw_str then Inl ''Target path contains forbidden null byte.''
         else let path_obj = parse_path raw_str
              in if ''..'' \<in> set (pp_parts path_obj)
                 then Inl (''Path traversal sequence '' @ quoted ''..'' @ '' detected in path: '' @ quoted raw_str)
                 else case resolve_confined fs ws raw_str path_obj of
                        Inl e \<Rightarrow> Inl e
                      | Inr resolved \<Rightarrow>
                          let ext = norm_ext (path_suffix resolved)
                          in (case allowed of
                                Some exts \<Rightarrow>
                                  if ext \<notin> set (map norm_ext exts)
                                  then Inl (''File extension '' @ quoted (''.'' @ ext)
                                            @ '' not permitted. Allowed: '' @ repr_set exts)
                                  else if must_exist \<and> \<not> fs_exists fs resolved
                                  then Inl (''Requested file does not exist in sandbox: '' @ quoted (path_name resolved))
                                  else Inr resolved
                              | None \<Rightarrow>
                                  if must_exist \<and> \<not> fs_exists fs resolved
                                  then Inl (''Requested file does not exist in sandbox: '' @ quoted (path_name resolved))
                                  else Inr resolved))"

section \<open>Lemmas\<close>

lemma resolve_confined_ok:
  "resolve_confined fs ws raw p = Inr q \<Longrightarrow>
     fs_resolve fs (if pp_absolute p then pp_parts p else ws @ pp_parts p) = Inr q \<and>
     is_relative_to q ws \<and> (\<exists>real. fs_resolve fs q = Inr real \<and> is_relative_to real ws)"
  by (auto simp: resolve_confined_def split: sum.splits if_splits)

lemma resolve_safe_path_inv:
  assumes "resolve_safe_path fs ws target allowed must_exist = Inr q"
  shows "resolve_confined fs ws (strip target) (parse_path (strip target)) = Inr q \<and>
         ''..'' \<notin> set (pp_parts (parse_path (strip target))) \<and>
         nul \<notin> set (strip target) \<and>
         (\<forall>exts. allowed = Some exts \<longrightarrow> norm_ext (path_suffix q) \<in> set (map norm_ext exts)) \<and>
         (must_exist \<longrightarrow> fs_exists fs q)"
  using assms
  by (auto simp: resolve_safe_path_def Let_def split: sum.splits if_splits option.splits)

text \<open>A path whose resolution equals the root or lies below it.\<close>

definition inside_root :: "string list \<Rightarrow> string list \<Rightarrow> bool" where
  "inside_root ws p = (\<exists>rest. p = ws @ rest)"

lemma is_relative_to_iff: "is_relative_to p ws \<longleftrightarrow> inside_root ws p"
  unfolding is_relative_to_def inside_root_def by (metis append_eq_conv_conj append_take_drop_id)

locale confined =
  fixes res :: "string \<Rightarrow> 'e + 'p"
    and inside :: "'p \<Rightarrow> bool"
  assumes res_inside: "res s = Inr p \<Longrightarrow> inside p"
begin

lemma all_inside: "list_all (\<lambda>s. case res s of Inl _ \<Rightarrow> True | Inr p \<Rightarrow> inside p) ss"
  by (induction ss) (auto split: sum.splits dest: res_inside)

lemma outside_rejected: "(\<And>p. \<not> inside p) \<Longrightarrow> \<exists>e. res s = Inl e"
  using res_inside by (cases "res s") auto

end

interpretation sbx: confined "\<lambda>s. resolve_safe_path fs ws s None False" "inside_root ws"
  for fs ws
proof unfold_locales
  fix s p
  assume "resolve_safe_path fs ws s None False = Inr p"
  from resolve_confined_ok [OF resolve_safe_path_inv [OF this, THEN conjunct1]] show "inside_root ws p"
    by (simp add: is_relative_to_iff)
qed

text \<open>
  C13. Confinement. Whatever the file system resolves paths to, a path that \<open>resolve_safe_path\<close>
  returns lies inside the workspace root, and so does the real path it points to; the text the
  caller passed has no \<open>..\<close> component and no null byte, the extension is one of those allowed, and
  the file exists if that was asked for.
\<close>

theorem resolve_safe_path_confined:
  assumes "resolve_safe_path fs ws target allowed must_exist = Inr q"
  shows "inside_root ws q \<and> (\<exists>real. fs_resolve fs q = Inr real \<and> inside_root ws real) \<and>
         ''..'' \<notin> set (split_on (CHR ''/'') (strip target)) \<and> nul \<notin> set (strip target) \<and>
         (\<forall>exts. allowed = Some exts \<longrightarrow> norm_ext (path_suffix q) \<in> norm_ext ` set exts) \<and>
         (must_exist \<longrightarrow> fs_exists fs q)"
  using resolve_safe_path_inv [OF assms] resolve_confined_ok [of fs ws "strip target" "parse_path (strip target)" q]
  by (auto simp: is_relative_to_iff parse_path_def)

definition plain_fs :: file_system where
  "plain_fs = \<lparr>fs_resolve = (\<lambda>p. Inr p), fs_exists = (\<lambda>_. True)\<rparr>"

theorem resolve_safe_path_confined_witness:
  "resolve_safe_path plain_fs [''ws''] ''a/b.txt'' (Some [''.TXT'']) True = Inr [''ws'', ''a'', ''b.txt''] \<and>
   inside_root [''ws''] [''ws'', ''a'', ''b.txt'']"
proof -
  have run: "resolve_safe_path plain_fs [''ws''] ''a/b.txt'' (Some [''.TXT'']) True = Inr [''ws'', ''a'', ''b.txt'']"
    by code_simp
  from resolve_safe_path_confined [OF run] run show ?thesis by blast
qed

lemma takeWhile_no_sep: "c \<notin> set (rev (takeWhile (\<lambda>x. x \<noteq> c) s))"
  by (auto dest: set_takeWhileD)

text \<open>
  A name that \<open>sanitize_filename\<close> accepts is a single path component: non-empty, neither \<open>.\<close>
  nor \<open>..\<close>, without a slash, a null byte or any of the forbidden characters.
\<close>

theorem sanitize_filename_component:
  assumes "sanitize_filename filename = Inr cleaned"
  shows "cleaned \<noteq> [] \<and> cleaned \<noteq> ''.'' \<and> cleaned \<noteq> ''..'' \<and> CHR ''/'' \<notin> set cleaned \<and>
         set cleaned \<inter> set illegal_chars = {}"
  using assms takeWhile_no_sep [of "CHR ''/''" "rev (strip filename)"]
  by (auto simp: sanitize_filename_def Let_def basename_def split: if_splits)

theorem sanitize_filename_component_witness:
  "sanitize_filename ''../etc/passwd'' = Inr ''passwd'' \<and> CHR ''/'' \<notin> set ''passwd''"
proof -
  have run: "sanitize_filename ''../etc/passwd'' = Inr ''passwd''" by code_simp
  from sanitize_filename_component [OF run] run show ?thesis by blast
qed

end
