(* ===== verification/Tool_Policy.thy ===== *)
theory Tool_Policy
  imports Tool_Model Sandbox
begin

text \<open>
  The policy engine (\<open>tools/policy.py\<close>): enabled, permissions, approval mode, risk and sandbox
  checks in this order. The sandbox is optional; it is a file system with a workspace root.
\<close>

record policy_engine =
  pe_profile :: security_profile
  pe_sandbox :: "(file_system \<times> string list) option"

definition PATH_ARGUMENT_KEYS :: "string list" where
  "PATH_ARGUMENT_KEYS = [''path'', ''filepath'', ''filename'', ''output_path'', ''destination'', ''target'']"

text \<open>The sandbox loop over the arguments: the first path that is refused, with its message.\<close>

fun sandbox_violation :: "file_system \<times> string list \<Rightarrow> pyval dict \<Rightarrow> (string \<times> string) option" where
  "sandbox_violation sb [] = None"
| "sandbox_violation sb ((key, v) # args) =
     (case v of
        PStr s \<Rightarrow>
          if lower key \<in> set PATH_ARGUMENT_KEYS
          then (case resolve_safe_path (fst sb) (snd sb) s None False of
                  Inl exc \<Rightarrow> Some (key, exc)
                | Inr _ \<Rightarrow> sandbox_violation sb args)
          else sandbox_violation sb args
      | _ \<Rightarrow> sandbox_violation sb args)"

definition policy_evaluate ::
  "policy_engine \<Rightarrow> tool_definition \<Rightarrow> tool_request \<Rightarrow> security_profile option \<Rightarrow> policy_decision" where
  "policy_evaluate pe d q caller_profile =
     (let active = (case caller_profile of Some p \<Rightarrow> p | None \<Rightarrow> pe_profile pe);
          deny = (\<lambda>reason. \<lparr>pd_allowed = False, pd_approval_required = False, pd_reason = reason,
                            pd_risk_level = td_risk_level d, pd_permissions_required = td_permissions d\<rparr>)
      in if \<not> td_enabled d then deny (''Tool '' @ quoted (td_id d) @ '' is currently disabled.'')
         else if \<not> has_all_permissions active (td_permissions d)
         then deny (''Missing required permissions: '' @
                    repr_list (map permission_value
                      (filter (\<lambda>p. p \<notin> set (sp_granted active)) (td_permissions d))))
         else if td_approval_mode d = ALWAYS_DENY
         then deny (''Execution of tool '' @ quoted (td_id d) @ '' is permanently denied by policy.'')
         else let approval_needed = (if td_approval_mode d = USER_APPROVAL then True
                                     else \<not> is_risk_acceptable active (td_risk_level d))
              in case (case pe_sandbox pe of None \<Rightarrow> None | Some sb \<Rightarrow> sandbox_violation sb (tq_arguments q)) of
                   Some (key, exc) \<Rightarrow>
                     deny (''Sandbox boundary violation on parameter '' @ quoted key @ '': '' @ exc)
                 | None \<Rightarrow> \<lparr>pd_allowed = True, pd_approval_required = approval_needed,
                            pd_reason = ''Tool invocation authorized under current security policy.'',
                            pd_risk_level = td_risk_level d, pd_permissions_required = td_permissions d\<rparr>)"

definition active_profile :: "policy_engine \<Rightarrow> security_profile option \<Rightarrow> security_profile" where
  "active_profile pe cp = (case cp of Some p \<Rightarrow> p | None \<Rightarrow> pe_profile pe)"

text \<open>The abstract specification: when a request runs without asking anybody.\<close>

definition authorized ::
  "policy_engine \<Rightarrow> tool_definition \<Rightarrow> tool_request \<Rightarrow> security_profile option \<Rightarrow> bool" where
  "authorized pe d q cp =
     (td_enabled d \<and> set (td_permissions d) \<subseteq> set (sp_granted (active_profile pe cp)) \<and>
      td_approval_mode d = AUTO_APPROVE \<and> td_risk_level d \<le> sp_max_risk (active_profile pe cp) \<and>
      (\<forall>fs ws. pe_sandbox pe = Some (fs, ws) \<longrightarrow>
         (\<forall>(k, v) \<in> set (tq_arguments q). \<forall>s. lower k \<in> set PATH_ARGUMENT_KEYS \<longrightarrow> v = PStr s \<longrightarrow>
            (\<exists>p. resolve_safe_path fs ws s None False = Inr p))))"

lemma sandbox_violation_None:
  "sandbox_violation (fs, ws) args = None \<longleftrightarrow>
     (\<forall>(k, v) \<in> set args. \<forall>s. lower k \<in> set PATH_ARGUMENT_KEYS \<longrightarrow> v = PStr s \<longrightarrow>
        (\<exists>p. resolve_safe_path fs ws s None False = Inr p))"
proof (induction args)
  case (Cons kv args)
  obtain k v where "kv = (k, v)" by (cases kv)
  with Cons show ?case by (cases v) (auto split: sum.splits)
qed simp

lemma policy_evaluate_free:
  "pd_allowed (policy_evaluate pe d q cp) \<and> \<not> pd_approval_required (policy_evaluate pe d q cp)
     \<longleftrightarrow> authorized pe d q cp"
proof -
  have m: "td_approval_mode d = AUTO_APPROVE \<longleftrightarrow>
      td_approval_mode d \<noteq> ALWAYS_DENY \<and> td_approval_mode d \<noteq> USER_APPROVAL"
    by (cases "td_approval_mode d") simp_all
  show ?thesis
  proof (cases "pe_sandbox pe")
    case None
    then show ?thesis
      by (auto simp: policy_evaluate_def authorized_def Let_def has_all_permissions_def m
          risk_acceptable_iff active_profile_def split: option.splits if_splits)
  next
    case (Some sb)
    obtain fs ws where "sb = (fs, ws)" by (cases sb)
    with Some sandbox_violation_None [of fs ws "tq_arguments q"] show ?thesis
      unfolding policy_evaluate_def authorized_def Let_def has_all_permissions_def m
          risk_acceptable_iff active_profile_def
      by (cases "sandbox_violation sb (tq_arguments q)") auto
  qed
qed


text \<open>Widening a profile never takes an authorization away.\<close>

lemma authorized_mono:
  "authorized pe d q (Some p) \<Longrightarrow> set (sp_granted p) \<subseteq> set (sp_granted p') \<Longrightarrow>
     sp_max_risk p \<le> sp_max_risk p' \<Longrightarrow> authorized pe d q (Some p')"
  by (auto simp: authorized_def active_profile_def)

lemma authorized_paths_inside:
  assumes "authorized pe d q cp" and "pe_sandbox pe = Some (fs, ws)"
    and "(k, PStr s) \<in> set (tq_arguments q)" and "lower k \<in> set PATH_ARGUMENT_KEYS"
  shows "\<exists>p. resolve_safe_path fs ws s None False = Inr p \<and> inside_root ws p"
proof -
  obtain p where p: "resolve_safe_path fs ws s None False = Inr p"
    using assms by (fastforce simp: authorized_def)
  with sbx.res_inside [OF p] show ?thesis by blast
qed

end
