(* ===== verification/Py_Regex.thy ===== *)
theory Py_Regex
  imports Prelude
begin

text \<open>
  The part of Python's \<open>re\<close> that the program's patterns use: character classes with greedy bounded
  or unbounded repetition, sequence, ordered alternatives, greedy optional groups, one capturing
  group and the word boundary. \<open>rx_run\<close> lists the ways a pattern can match in the order in which
  the backtracking matcher tries them, so its head is the match Python reports; \<open>rx_sub\<close> is
  \<open>pattern.sub\<close> for patterns that consume at least one character, as all patterns here do.
  \<open>rx_lang\<close> is the language of a pattern. The main results: a substitution by a bracketed text
  leaves no occurrence of the pattern, and brings back no occurrence of another one.
\<close>

section \<open>Character classes\<close>

definition is_digit :: "char \<Rightarrow> bool" where
  "is_digit c = (48 \<le> code_of c \<and> code_of c \<le> 57)"

definition is_ascii_letter :: "char \<Rightarrow> bool" where
  "is_ascii_letter c = (65 \<le> code_of c \<and> code_of c \<le> 90 \<or> 97 \<le> code_of c \<and> code_of c \<le> 122)"

definition is_ascii_alnum :: "char \<Rightarrow> bool" where
  "is_ascii_alnum c = (is_digit c \<or> is_ascii_letter c)"

text \<open>\<open>\w\<close> on the code points below 256.\<close>

definition is_word :: "char \<Rightarrow> bool" where
  "is_word c = (is_ascii_alnum c \<or> c = CHR ''_'' \<or>
     code_of c \<in> {170, 178, 179, 181, 185, 186, 188, 189, 190} \<or>
     192 \<le> code_of c \<and> code_of c \<noteq> 215 \<and> code_of c \<noteq> 247)"

section \<open>Patterns and the matcher\<close>

datatype rx =
    RCls "char \<Rightarrow> bool" nat "nat option"
  | RSeq rx rx
  | RAlt rx rx
  | ROpt rx
  | RGrp rx
  | RWordB

type_synonym mstate = "char option \<times> string \<times> string option"

definition advance :: "nat \<Rightarrow> mstate \<Rightarrow> mstate" where
  "advance k st = (case st of (p, s, c) \<Rightarrow> (if k = 0 then p else Some (s ! (k - 1)), drop k s, c))"

definition cls_reach :: "(char \<Rightarrow> bool) \<Rightarrow> nat option \<Rightarrow> string \<Rightarrow> nat" where
  "cls_reach P n s = (let k = length (takeWhile P s) in case n of None \<Rightarrow> k | Some m \<Rightarrow> min k m)"

definition at_boundary :: "char option \<Rightarrow> string \<Rightarrow> bool" where
  "at_boundary p s =
     ((case p of None \<Rightarrow> False | Some c \<Rightarrow> is_word c) \<noteq> (case s of [] \<Rightarrow> False | c # _ \<Rightarrow> is_word c))"

fun rx_run :: "rx \<Rightarrow> mstate \<Rightarrow> mstate list" where
  "rx_run (RCls P m n) (p, s, c) = map (\<lambda>k. advance k (p, s, c)) (rev [m..<Suc (cls_reach P n s)])"
| "rx_run (RSeq a b) st = concat (map (rx_run b) (rx_run a st))"
| "rx_run (RAlt a b) st = rx_run a st @ rx_run b st"
| "rx_run (ROpt a) st = rx_run a st @ [st]"
| "rx_run (RGrp a) (p, s, c) =
     map (\<lambda>(p', s', _). (p', s', Some (take (length s - length s') s))) (rx_run a (p, s, c))"
| "rx_run RWordB (p, s, c) = (if at_boundary p s then [(p, s, c)] else [])"

fun rx_found :: "rx \<Rightarrow> char option \<Rightarrow> string \<Rightarrow> bool" where
  "rx_found r p [] = (rx_run r (p, [], None) \<noteq> [])"
| "rx_found r p (c # s) = (rx_run r (p, c # s, None) \<noteq> [] \<or> rx_found r (Some c) s)"

definition rx_search :: "rx \<Rightarrow> string \<Rightarrow> bool" where
  "rx_search r s = rx_found r None s"

function rx_sub_at :: "rx \<Rightarrow> (string option \<Rightarrow> string) \<Rightarrow> char option \<Rightarrow> string \<Rightarrow> string" where
  "rx_sub_at r f p [] = []"
| "rx_sub_at r f p (c # s) =
     (case rx_run r (p, c # s, None) of
        [] \<Rightarrow> c # rx_sub_at r f (Some c) s
      | (p', s', g) # _ \<Rightarrow>
          if length s' < length (c # s) then f g @ rx_sub_at r f p' s' else c # rx_sub_at r f (Some c) s)"
  by pat_completeness auto
termination
  by (relation "measure (\<lambda>(r, f, p, s). length s)") auto

definition rx_sub :: "rx \<Rightarrow> (string option \<Rightarrow> string) \<Rightarrow> string \<Rightarrow> string" where
  "rx_sub r f s = rx_sub_at r f None s"

section \<open>Builders\<close>

definition r_char :: "char \<Rightarrow> rx" where
  "r_char ch = RCls (\<lambda>c. c = ch) 1 (Some 1)"

definition r_char_ci :: "char \<Rightarrow> rx" where
  "r_char_ci ch = RCls (\<lambda>c. lower_char c = lower_char ch) 1 (Some 1)"

definition r_empty :: rx where
  "r_empty = RCls (\<lambda>_. False) 0 None"

definition r_seq :: "rx list \<Rightarrow> rx" where
  "r_seq rs = foldr RSeq rs r_empty"

fun r_alt :: "rx list \<Rightarrow> rx" where
  "r_alt [] = RCls (\<lambda>_. False) 1 None"
| "r_alt [r] = r"
| "r_alt (r # rs) = RAlt r (r_alt rs)"

definition r_lit :: "string \<Rightarrow> rx" where
  "r_lit s = r_seq (map r_char s)"

definition r_lit_ci :: "string \<Rightarrow> rx" where
  "r_lit_ci s = r_seq (map r_char_ci s)"

definition r_one :: "(char \<Rightarrow> bool) \<Rightarrow> rx" where
  "r_one P = RCls P 1 (Some 1)"

definition r_opt :: "(char \<Rightarrow> bool) \<Rightarrow> rx" where
  "r_opt P = RCls P 0 (Some 1)"

definition r_star :: "(char \<Rightarrow> bool) \<Rightarrow> rx" where
  "r_star P = RCls P 0 None"

definition r_plus :: "(char \<Rightarrow> bool) \<Rightarrow> rx" where
  "r_plus P = RCls P 1 None"

definition r_atleast :: "nat \<Rightarrow> (char \<Rightarrow> bool) \<Rightarrow> rx" where
  "r_atleast n P = RCls P n None"

definition r_times :: "nat \<Rightarrow> (char \<Rightarrow> bool) \<Rightarrow> rx" where
  "r_times n P = RCls P n (Some n)"

section \<open>Languages\<close>

fun rx_lang :: "rx \<Rightarrow> string \<Rightarrow> bool" where
  "rx_lang (RCls P m n) w = (m \<le> length w \<and> (\<forall>k. n = Some k \<longrightarrow> length w \<le> k) \<and> (\<forall>c \<in> set w. P c))"
| "rx_lang (RSeq a b) w = (\<exists>u v. w = u @ v \<and> rx_lang a u \<and> rx_lang b v)"
| "rx_lang (RAlt a b) w = (rx_lang a w \<or> rx_lang b w)"
| "rx_lang (ROpt a) w = (rx_lang a w \<or> w = [])"
| "rx_lang (RGrp a) w = rx_lang a w"
| "rx_lang RWordB w = (w = [])"

fun rx_plain :: "rx \<Rightarrow> bool" where
  "rx_plain (RCls P m n) = True"
| "rx_plain (RSeq a b) = (rx_plain a \<and> rx_plain b)"
| "rx_plain (RAlt a b) = (rx_plain a \<and> rx_plain b)"
| "rx_plain (ROpt a) = rx_plain a"
| "rx_plain (RGrp a) = rx_plain a"
| "rx_plain RWordB = False"

text \<open>The characters a pattern may consume, and a lower bound of what it consumes.\<close>

fun rx_chars :: "rx \<Rightarrow> char \<Rightarrow> bool" where
  "rx_chars (RCls P m n) x = P x"
| "rx_chars (RSeq a b) x = (rx_chars a x \<or> rx_chars b x)"
| "rx_chars (RAlt a b) x = (rx_chars a x \<or> rx_chars b x)"
| "rx_chars (ROpt a) x = rx_chars a x"
| "rx_chars (RGrp a) x = rx_chars a x"
| "rx_chars RWordB x = False"

fun rx_min :: "rx \<Rightarrow> nat" where
  "rx_min (RCls P m n) = m"
| "rx_min (RSeq a b) = rx_min a + rx_min b"
| "rx_min (RAlt a b) = min (rx_min a) (rx_min b)"
| "rx_min (ROpt a) = 0"
| "rx_min (RGrp a) = rx_min a"
| "rx_min RWordB = 0"

lemma rx_lang_chars: "rx_lang r w \<Longrightarrow> x \<in> set w \<Longrightarrow> rx_chars r x"
proof (induction r arbitrary: w)
  case (RSeq a b)
  then show ?case by fastforce
qed auto

lemma rx_lang_min: "rx_lang r w \<Longrightarrow> rx_min r \<le> length w"
  by (induction r arbitrary: w) (fastforce simp: min_def)+

lemma takeWhile_reach: "k \<le> length (takeWhile P s) \<Longrightarrow> x \<in> set (take k s) \<Longrightarrow> P x"
  by (metis in_set_takeD set_takeWhileD takeWhile_eq_take min.absorb1 take_take)

lemma reach_of_prefix: "(\<forall>c \<in> set w. P c) \<Longrightarrow> length w \<le> length (takeWhile P (w @ t))"
  by simp

lemma rx_run_sound:
  "(p', s', g') \<in> set (rx_run r (p, s, g)) \<Longrightarrow> \<exists>w. s = w @ s' \<and> rx_lang r w"
proof (induction r arbitrary: p s g p' s' g')
  case (RCls P m n)
  then obtain k where k: "m \<le> k" "k \<le> cls_reach P n s" "s' = drop k s"
    by (auto simp: advance_def)
  have tw: "k \<le> length (takeWhile P s)" and nb: "\<forall>j. n = Some j \<longrightarrow> k \<le> j"
    using k(2) by (auto simp: cls_reach_def Let_def split: option.splits)
  have kl: "k \<le> length s" using tw length_takeWhile_le [of P s] by linarith
  have "s = take k s @ s' \<and> rx_lang (RCls P m n) (take k s)"
    using k kl nb takeWhile_reach [OF tw] by auto
  then show ?case by blast
next
  case (RSeq a b)
  then obtain p1 s1 g1 where "(p1, s1, g1) \<in> set (rx_run a (p, s, g))"
    and "(p', s', g') \<in> set (rx_run b (p1, s1, g1))" by auto
  from RSeq.IH(1) [OF this(1)] RSeq.IH(2) [OF this(2)] show ?case by force
next
  case (RGrp a)
  then show ?case by fastforce
next
  case (ROpt a)
  then show ?case by fastforce
next
  case (RAlt a b)
  then show ?case by fastforce
qed (auto split: if_splits)

lemma rx_run_complete:
  "rx_plain r \<Longrightarrow> rx_lang r w \<Longrightarrow> \<exists>p' g'. (p', s', g') \<in> set (rx_run r (p, w @ s', g))"
proof (induction r arbitrary: w p s' g)
  case (RCls P m n)
  have "length w \<le> cls_reach P n (w @ s')"
    using RCls reach_of_prefix [of w P s'] by (auto simp: cls_reach_def Let_def split: option.splits)
  then have "length w \<in> {m..<Suc (cls_reach P n (w @ s'))}"
    using RCls by auto
  then have "advance (length w) (p, w @ s', g) \<in> set (rx_run (RCls P m n) (p, w @ s', g))"
    by (simp del: upt_Suc)
  then show ?case by (auto simp: advance_def)
next
  case (RSeq a b)
  then obtain u v where w: "w = u @ v" "rx_lang a u" "rx_lang b v" by auto
  obtain p1 g1 where 1: "(p1, v @ s', g1) \<in> set (rx_run a (p, u @ v @ s', g))"
    using RSeq.IH(1) [of u "v @ s'" p g] RSeq.prems w by auto
  obtain p2 g2 where "(p2, s', g2) \<in> set (rx_run b (p1, v @ s', g1))"
    using RSeq.IH(2) [of v s' p1 g1] RSeq.prems w by auto
  with 1 show ?case using w by (auto intro!: bexI)
next
  case (RAlt a b)
  have "rx_lang a w \<Longrightarrow> \<exists>p' g'. (p', s', g') \<in> set (rx_run a (p, w @ s', g))"
    and "rx_lang b w \<Longrightarrow> \<exists>p' g'. (p', s', g') \<in> set (rx_run b (p, w @ s', g))"
    using RAlt by simp_all
  moreover have "rx_lang a w \<or> rx_lang b w" using RAlt.prems by simp
  ultimately show ?case unfolding rx_run.simps set_append by blast
next
  case (ROpt a)
  have "rx_lang a w \<Longrightarrow> \<exists>p' g'. (p', s', g') \<in> set (rx_run a (p, w @ s', g))"
    using ROpt by simp
  moreover have "rx_lang a w \<or> w = []" using ROpt.prems by simp
  ultimately show ?case by auto
next
  case (RGrp a)
  then obtain p' g' where "(p', s', g') \<in> set (rx_run a (p, w @ s', g))" by fastforce
  then show ?case by (force simp: image_iff)
qed simp

section \<open>Substitution removes what it replaces\<close>

lemma contains_appendE:
  assumes "contains (x @ b # y) w" and "b \<notin> set w"
  shows "contains x w \<or> contains y w"
proof -
  from assms(1) obtain a c where eq: "x @ b # y = a @ w @ c" by (auto simp: contains_iff)
  then have "(\<exists>u. x = a @ u \<and> u @ b # y = w @ c) \<or> (\<exists>u. x @ u = a \<and> b # y = u @ w @ c)"
    by (auto simp: append_eq_append_conv2)
  then show ?thesis
  proof (elim disjE exE conjE)
    fix u assume u: "x = a @ u" "u @ b # y = w @ c"
    then have "(\<exists>v. u = w @ v) \<or> (\<exists>v. w = u @ v \<and> b # y = v @ c)"
      by (auto simp: append_eq_append_conv2)
    then show ?thesis
    proof (elim disjE exE conjE)
      fix v assume "u = w @ v"
      with u show ?thesis unfolding contains_iff by blast
    next
      fix v assume v: "w = u @ v" "b # y = v @ c"
      with assms(2) have "v = []" by (cases v) auto
      with u v have "x = a @ w @ []" by simp
      then show ?thesis unfolding contains_iff by blast
    qed
  next
    fix u assume u: "x @ u = a" "b # y = u @ w @ c"
    show ?thesis
    proof (cases u)
      case Nil
      with u assms(2) have "w = []" by (cases w) auto
      then show ?thesis by simp
    next
      case (Cons d e)
      with u have "y = e @ w @ c" by simp
      then show ?thesis unfolding contains_iff by blast
    qed
  qed
qed

definition bracketed :: "char \<Rightarrow> string \<Rightarrow> char \<Rightarrow> string" where
  "bracketed l m r = [l] @ m @ [r]"

lemma contains_bracketed_append:
  assumes "contains (bracketed l m r @ t) w" and "l \<notin> set w" and "r \<notin> set w" and "w \<noteq> []"
  shows "contains m w \<or> contains t w"
proof -
  have "contains ([] @ l # (m @ r # t)) w" using assms(1) by (simp add: bracketed_def)
  from contains_appendE [OF this assms(2)] have "contains (m @ r # t) w"
    using assms(4) by auto
  from contains_appendE [OF this assms(3)] show ?thesis .
qed

lemma match_shorter:
  assumes "rx_run r (p, s, None) = (p', s', g') # ms" and "1 \<le> rx_min r"
  shows "length s' < length s \<and> (\<exists>w. s = w @ s')"
proof -
  obtain w where "s = w @ s'" "rx_lang r w"
    using rx_run_sound [of p' s' g' r p s None] assms(1) by auto
  with rx_lang_min [of r w] assms(2) show ?thesis by auto
qed

lemma sub_prefix:
  assumes "l \<notin> set w" and "rx_sub_at rx (\<lambda>_. bracketed l m r) p s = w @ t"
  shows "\<exists>t'. s = w @ t'"
  using assms
proof (induction rx "\<lambda>_::string option. bracketed l m r" p s arbitrary: w t rule: rx_sub_at.induct)
  case (2 rx p c s)
  show ?case
  proof (cases w)
    case (Cons d v)
    have step: "\<lbrakk>rx_sub_at rx (\<lambda>_. bracketed l m r) p (c # s) = c # rx_sub_at rx (\<lambda>_. bracketed l m r) (Some c) s;
        \<And>w t. l \<notin> set w \<Longrightarrow> rx_sub_at rx (\<lambda>_. bracketed l m r) (Some c) s = w @ t \<Longrightarrow> \<exists>t'. s = w @ t'\<rbrakk> \<Longrightarrow> ?thesis"
      using "2.prems" Cons by auto
    show ?thesis
    proof (cases "rx_run rx (p, c # s, None)")
      case Nil
      then show ?thesis by (intro step "2.hyps"(1)) auto
    next
      case (Cons st ms)
      obtain p' s' g where st: "st = (p', s', g)" by (cases st)
      show ?thesis
      proof (cases "length s' < length (c # s)")
        case True
        then have "bracketed l m r @ rx_sub_at rx (\<lambda>_. bracketed l m r) p' s' = w @ t"
          using "2.prems" Cons st by simp
        with "2.prems"(1) \<open>w = d # v\<close> show ?thesis by (simp add: bracketed_def)
      next
        case False
        with Cons st show ?thesis by (intro step "2.hyps"(3) [OF Cons]) auto
      qed
    qed
  qed simp
qed simp


text \<open>\<open>rx_clean r s\<close>: no substring of \<open>s\<close> is in the language of \<open>r\<close>.\<close>

definition rx_clean :: "rx \<Rightarrow> string \<Rightarrow> bool" where
  "rx_clean r s = (\<forall>w. rx_lang r w \<longrightarrow> \<not> contains s w)"

lemma rx_clean_suffix: "rx_clean q (a @ s) \<Longrightarrow> rx_clean q s"
  unfolding rx_clean_def contains_iff by (metis append.assoc)

lemma contains_Cons_iff: "contains (c # s) w \<longleftrightarrow> (\<exists>t. c # s = w @ t) \<or> contains s w"
  unfolding contains.simps starts_with_def by (metis append_eq_conv_conj append_take_drop_id)

text \<open>
  One pass over the text: occurrences of \<open>q\<close> in the result come from an occurrence of \<open>q\<close> in the
  input at a place where the pattern did not match, or lie inside the replacement.
\<close>

lemma sub_clean_gen:
  assumes "1 \<le> rx_min r" and "1 \<le> rx_min q" and "\<not> rx_chars q lb" and "\<not> rx_chars q rb"
    and "rx_clean q m"
    and "(\<forall>p w t. rx_lang q w \<longrightarrow> rx_run r (p, w @ t, None) \<noteq> []) \<or> rx_clean q s"
  shows "rx_clean q (rx_sub_at r (\<lambda>_. bracketed lb m rb) p s)"
  using assms
proof (induction r "\<lambda>_::string option. bracketed lb m rb" p s rule: rx_sub_at.induct)
  case (1 r p)
  then show ?case using rx_lang_min [of q] by (auto simp: rx_clean_def)
next
  case (2 r p c s)
  let ?sub = "rx_sub_at r (\<lambda>_. bracketed lb m rb)"
  note prems = "2.prems"
  have suf: "(\<forall>p w t. rx_lang q w \<longrightarrow> rx_run r (p, w @ t, None) \<noteq> []) \<or> rx_clean q t" if "c # s = u @ t" for u t
    using prems(6) rx_clean_suffix [of q u t] that by auto
  show ?case unfolding rx_clean_def
  proof (intro allI impI notI)
    fix w assume w: "rx_lang q w" "contains (?sub p (c # s)) w"
    have wne: "w \<noteq> []" using rx_lang_min [OF w(1)] prems(2) by auto
    have wl: "lb \<notin> set w" "rb \<notin> set w" using rx_lang_chars [OF w(1)] prems(3,4) by blast+
    show False
    proof (cases "rx_run r (p, c # s, None)")
      case Nil
      have "rx_clean q (?sub (Some c) s)"
        using "2.hyps"(1) [OF Nil prems(1-5) suf [of "[c]" s]] by simp
      with w Nil obtain t where "c # ?sub (Some c) s = w @ t"
        by (auto simp: contains_Cons_iff rx_clean_def simp del: contains.simps)
      then obtain v where v: "w = c # v" "?sub (Some c) s = v @ t"
        using wne by (cases w) auto
      obtain t' where "s = v @ t'" using sub_prefix [OF _ v(2)] wl v(1) by auto
      then have "c # s = w @ t'" using v by simp
      moreover from this have "contains (c # s) w" unfolding contains_iff by (metis append_Nil)
      ultimately show False using prems(6) w(1) Nil unfolding rx_clean_def by metis
    next
      case (Cons st ms)
      obtain p' s' g where st: "st = (p', s', g)" by (cases st)
      have run: "rx_run r (p, c # s, None) = (p', s', g) # ms" using Cons st by simp
      obtain u where lt: "length s' < length (c # s)" and u: "c # s = u @ s'"
        using match_shorter [OF run prems(1)] by blast
      have "rx_clean q (?sub p' s')"
        by (rule "2.hyps"(2) [OF Cons st [symmetric] refl lt prems(1-5) suf [OF u]])
      moreover have "contains m w \<or> contains (?sub p' s') w"
        using contains_bracketed_append [of lb m rb "?sub p' s'" w] w(2) Cons st lt wl wne by simp
      ultimately show False using prems(5) w(1) by (auto simp: rx_clean_def)
    qed
  qed
qed

text \<open>After the substitution the pattern does not occur any more.\<close>

lemma rx_sub_clean:
  assumes "rx_plain r" and "1 \<le> rx_min r" and "\<not> rx_chars r lb" and "\<not> rx_chars r rb" and "rx_clean r m"
  shows "rx_clean r (rx_sub r (\<lambda>_. bracketed lb m rb) s)"
  unfolding rx_sub_def
proof (rule sub_clean_gen [OF assms(2,2,3,4,5)], intro disjI1 allI impI)
  fix p w t assume "rx_lang r w"
  then have "\<exists>p' g'. (p', t, g') \<in> set (rx_run r (p, w @ t, None))"
    using rx_run_complete [OF assms(1), of w t p None] by simp
  then show "rx_run r (p, w @ t, None) \<noteq> []" by auto
qed

text \<open>A text without occurrences of \<open>q\<close> keeps none when another pattern is substituted.\<close>

lemma rx_sub_keeps_clean:
  assumes "1 \<le> rx_min r" and "1 \<le> rx_min q" and "\<not> rx_chars q lb" and "\<not> rx_chars q rb"
    and "rx_clean q m" and "rx_clean q s"
  shows "rx_clean q (rx_sub r (\<lambda>_. bracketed lb m rb) s)"
  unfolding rx_sub_def using assms by (intro sub_clean_gen) auto

lemma rx_clean_by_length: "length s < rx_min r \<Longrightarrow> rx_clean r s"
  unfolding rx_clean_def contains_iff using rx_lang_min [of r] by fastforce

text \<open>Text without a match is left as it is, and replacing single characters is a map.\<close>

lemma rx_sub_at_id: "rx_clean r s \<Longrightarrow> rx_sub_at r f p s = s"
proof (induction s arbitrary: p)
  case (Cons c s)
  have "rx_run r (p, c # s, None) = []"
  proof (rule ccontr)
    assume "rx_run r (p, c # s, None) \<noteq> []"
    then obtain p' s' g' where "(p', s', g') \<in> set (rx_run r (p, c # s, None))" by (cases "rx_run r (p, c # s, None)") auto
    from rx_run_sound [OF this] obtain w where "c # s = w @ s'" "rx_lang r w" by blast
    with Cons.prems show False unfolding rx_clean_def contains_iff by (metis append_Nil)
  qed
  moreover have "rx_clean r s" using rx_clean_suffix [of r "[c]" s] Cons.prems by simp
  ultimately show ?case using Cons.IH by simp
qed simp

lemma rx_sub_id: "rx_clean r s \<Longrightarrow> rx_sub r f s = s"
  by (simp add: rx_sub_def rx_sub_at_id)

lemma rx_sub_one: "rx_sub (r_one P) (\<lambda>_. [u]) s = map (\<lambda>c. if P c then u else c) s"
proof -
  have "rx_sub_at (r_one P) (\<lambda>_. [u]) p s = map (\<lambda>c. if P c then u else c) s" for p
  proof (induction s arbitrary: p)
    case (Cons c s)
    then show ?case by (simp add: r_one_def cls_reach_def Let_def advance_def)
  qed simp
  then show ?thesis by (simp add: rx_sub_def)
qed

section \<open>Searching for words\<close>

lemma rx_found_lang: "rx_found r p s \<Longrightarrow> \<exists>w. contains s w \<and> rx_lang r w"
proof (induction s arbitrary: p)
  case Nil
  then obtain p' s' g' where "(p', s', g') \<in> set (rx_run r (p, [], None))" by (cases "rx_run r (p, [], None)") auto
  from rx_run_sound [OF this] show ?case by auto
next
  case (Cons c s)
  show ?case
  proof (cases "rx_run r (p, c # s, None)")
    case Nil
    with Cons.prems have "rx_found r (Some c) s" by simp
    from Cons.IH [OF this] show ?thesis by auto
  next
    case (Cons m ms)
    obtain p' s' g' where m: "m = (p', s', g')" by (cases m) auto
    with Cons have "(p', s', g') \<in> set (rx_run r (p, c # s, None))" by simp
    from rx_run_sound [OF this] obtain w where w: "c # s = w @ s'" "rx_lang r w" by blast
    from w(1) have "contains (c # s) w" by (metis append_Nil contains_iff)
    with w(2) show ?thesis by blast
  qed
qed

lemma lang_lit_ci: "rx_lang (r_lit_ci k) w \<longleftrightarrow> lower w = lower k"
proof (induction k arbitrary: w)
  case Nil
  then show ?case by (cases w) (auto simp: r_lit_ci_def r_seq_def r_empty_def lower_def)
next
  case (Cons c k)
  have "rx_lang (r_lit_ci (c # k)) w \<longleftrightarrow> (\<exists>u v. w = u @ v \<and> rx_lang (r_char_ci c) u \<and> rx_lang (r_lit_ci k) v)"
    by (simp add: r_lit_ci_def r_seq_def)
  also have "\<dots> \<longleftrightarrow> (\<exists>d v. w = d # v \<and> lower_char d = lower_char c \<and> lower v = lower k)"
    unfolding Cons.IH
  proof (intro iffI; elim exE conjE)
    fix u v assume "w = u @ v" "rx_lang (r_char_ci c) u" "lower v = lower k"
    then show "\<exists>d v. w = d # v \<and> lower_char d = lower_char c \<and> lower v = lower k"
      by (cases u) (auto simp: r_char_ci_def)
  next
    fix d v assume "w = d # v" "lower_char d = lower_char c" "lower v = lower k"
    then show "\<exists>u v. w = u @ v \<and> rx_lang (r_char_ci c) u \<and> lower v = lower k"
      by (intro exI [of _ "[d]"] exI [of _ v]) (simp add: r_char_ci_def)
  qed
  also have "\<dots> \<longleftrightarrow> lower w = lower (c # k)" by (cases w) (auto simp: lower_def)
  finally show ?case .
qed

lemma lang_lit: "rx_lang (r_lit k) w \<longleftrightarrow> w = k"
proof (induction k arbitrary: w)
  case Nil
  then show ?case by (cases w) (auto simp: r_lit_def r_seq_def r_empty_def)
next
  case (Cons c k)
  have "rx_lang (r_lit (c # k)) w \<longleftrightarrow> (\<exists>u v. w = u @ v \<and> rx_lang (r_char c) u \<and> v = k)"
    using Cons.IH by (simp add: r_lit_def r_seq_def)
  moreover have "rx_lang (r_char c) u \<longleftrightarrow> u = [c]" for u by (cases u) (auto simp: r_char_def)
  ultimately show ?case by simp
qed

lemma lang_alt: "rx_lang (r_alt rs) w \<longleftrightarrow> (\<exists>r \<in> set rs. rx_lang r w)"
  by (induction rs rule: r_alt.induct) auto

lemma lower_append: "lower (a @ b) = lower a @ lower b"
  by (simp add: lower_def)

lemma contains_lower: "contains s w \<Longrightarrow> contains (lower s) (lower w)"
  unfolding contains_iff by (metis lower_append)

text \<open>A search for whole words in a case-insensitive alternative only succeeds where one of them occurs.\<close>

lemma word_search_occurs:
  assumes "rx_search (r_seq [RWordB, RGrp (r_alt (map r_lit_ci ks)), RWordB]) s"
  shows "\<exists>k \<in> set ks. contains (lower s) (lower k)"
proof -
  obtain w where w: "contains s w" "rx_lang (r_seq [RWordB, RGrp (r_alt (map r_lit_ci ks)), RWordB]) w"
    using rx_found_lang assms unfolding rx_search_def by blast
  then obtain k where "k \<in> set ks" "lower w = lower k"
    by (auto simp: r_seq_def r_empty_def lang_alt lang_lit_ci)
  with contains_lower [OF w(1)] show ?thesis by auto
qed

end
