(* ===== verification/Tool_Audit.thy ===== *)
theory Tool_Audit
  imports Tool_Model Py_Regex
begin

text \<open>
  Secret scrubbing and the audit log (\<open>tools/audit.py\<close>).
\<close>

definition key_class :: "char \<Rightarrow> bool" where
  "key_class c = (is_ascii_alnum c \<or> c = CHR ''_'' \<or> c = CHR ''-'')"

definition token_class :: "char \<Rightarrow> bool" where
  "token_class c = (key_class c \<or> c = CHR ''.'')"

definition is_quote :: "char \<Rightarrow> bool" where
  "is_quote c = (code_of c = 39 \<or> code_of c = 34)"

definition secret_key_pattern :: rx where
  "secret_key_pattern = RSeq (r_lit_ci ''sk-'') (r_atleast 20 key_class)"

definition bearer_pattern :: rx where
  "bearer_pattern = RSeq (RSeq (r_lit_ci ''bearer'') (r_plus is_space)) (r_atleast 20 token_class)"

definition assignment_pattern :: rx where
  "assignment_pattern = r_seq
     [r_alt [r_seq [r_lit_ci ''api'', r_opt (\<lambda>c. c = CHR ''_'' \<or> c = CHR ''-''), r_lit_ci ''key''],
             r_lit_ci ''secret'', r_lit_ci ''password'', r_lit_ci ''token''],
      r_star is_space, r_one (\<lambda>c. c = CHR '':'' \<or> c = CHR ''=''), r_star is_space, r_opt is_quote,
      RGrp (r_plus (\<lambda>c. \<not> is_space c \<and> \<not> is_quote c)), r_opt is_quote]"

definition SECRET_PATTERNS :: "rx list" where
  "SECRET_PATTERNS = [secret_key_pattern, bearer_pattern, assignment_pattern]"

definition SENSITIVE_KEY_NAMES :: "string list" where
  "SENSITIVE_KEY_NAMES = [''password'', ''secret'', ''token'', ''api_key'', ''apikey'', ''access_token'',
     ''private_key'', ''authorization'', ''auth'', ''credential'', ''keyring'']"

definition redacted :: string where
  "redacted = ''[REDACTED_SECRET]''"

definition scrub_text :: "string \<Rightarrow> string" where
  "scrub_text s = fold (\<lambda>pat cleaned. rx_sub pat (\<lambda>_. redacted) cleaned) SECRET_PATTERNS s"

fun scrub_secrets :: "pyval \<Rightarrow> pyval" and scrub_dict :: "pyval dict \<Rightarrow> pyval dict"
  and scrub_list :: "pyval list \<Rightarrow> pyval list" where
  "scrub_secrets (PStr s) = PStr (scrub_text s)"
| "scrub_secrets (PDict d) = PDict (scrub_dict d)"
| "scrub_secrets (PList xs) = PList (scrub_list xs)"
| "scrub_secrets v = v"
| "scrub_dict [] = []"
| "scrub_dict ((k, v) # d) =
     (k, if lower k \<in> set SENSITIVE_KEY_NAMES then PStr redacted else scrub_secrets v) # scrub_dict d"
| "scrub_list [] = []"
| "scrub_list (x # xs) = scrub_secrets x # scrub_list xs"

definition record_event ::
  "string \<Rightarrow> string \<Rightarrow> string \<Rightarrow> string \<Rightarrow> string \<Rightarrow> rat \<Rightarrow> tool_status \<Rightarrow> string option
     \<Rightarrow> pyval dict \<Rightarrow> string option \<Rightarrow> string list \<Rightarrow> audit_event list \<Rightarrow> audit_event list" where
  "record_event eid tid ver actor dec dur st corr args code artifacts recs =
     recs @ [\<lparr>ae_execution_id = eid, ae_tool_id = tid, ae_tool_version = ver, ae_correlation_id = corr,
             ae_actor = actor, ae_policy_decision = dec, ae_duration_ms = round_to 2 dur, ae_status = st,
             ae_error_code = code, ae_arguments_summary = scrub_dict args, ae_artifacts = artifacts\<rparr>]"

section \<open>What scrubbing leaves\<close>

text \<open>All texts of a value: its string leaves, at any depth.\<close>

fun leaves :: "pyval \<Rightarrow> string list" and dict_leaves :: "pyval dict \<Rightarrow> string list"
  and list_leaves :: "pyval list \<Rightarrow> string list" where
  "leaves (PStr s) = [s]"
| "leaves (PDict d) = dict_leaves d"
| "leaves (PList xs) = list_leaves xs"
| "leaves v = []"
| "dict_leaves [] = []"
| "dict_leaves ((k, v) # d) = leaves v @ dict_leaves d"
| "list_leaves [] = []"
| "list_leaves (x # xs) = leaves x @ list_leaves xs"

definition secret_free :: "string \<Rightarrow> bool" where
  "secret_free s = (rx_clean secret_key_pattern s \<and> rx_clean bearer_pattern s)"

definition redacted_core :: string where
  "redacted_core = ''REDACTED_SECRET''"

lemma redacted_bracketed: "redacted = bracketed (CHR ''['') redacted_core (CHR '']'')"
  by (simp add: redacted_def bracketed_def redacted_core_def)

lemma pattern_facts:
  "rx_plain secret_key_pattern" "rx_plain bearer_pattern"
  "23 \<le> rx_min secret_key_pattern" "27 \<le> rx_min bearer_pattern" "1 \<le> rx_min assignment_pattern"
  "\<not> rx_chars secret_key_pattern (CHR ''['')" "\<not> rx_chars secret_key_pattern (CHR '']'')"
  "\<not> rx_chars bearer_pattern (CHR ''['')" "\<not> rx_chars bearer_pattern (CHR '']'')"
  by code_simp+

lemma redacted_core_clean:
  "rx_clean secret_key_pattern redacted_core" "rx_clean bearer_pattern redacted_core"
  using pattern_facts(3,4)
  by (intro rx_clean_by_length, simp add: redacted_core_def)+

lemma scrub_text_secret_free: "secret_free (scrub_text s)"
proof -
  let ?s1 = "rx_sub secret_key_pattern (\<lambda>_. redacted) s"
  let ?s2 = "rx_sub bearer_pattern (\<lambda>_. redacted) ?s1"
  have pos: "1 \<le> rx_min secret_key_pattern" "1 \<le> rx_min bearer_pattern"
    using pattern_facts(3,4) by linarith+
  have k1: "rx_clean secret_key_pattern ?s1"
    unfolding redacted_bracketed by (intro rx_sub_clean pattern_facts pos redacted_core_clean)
  have k2: "rx_clean secret_key_pattern ?s2"
    unfolding redacted_bracketed
    by (rule rx_sub_keeps_clean [OF pos(2,1) pattern_facts(6,7) redacted_core_clean(1)
          k1 [unfolded redacted_bracketed]])
  have b2: "rx_clean bearer_pattern ?s2"
    unfolding redacted_bracketed by (intro rx_sub_clean pattern_facts pos redacted_core_clean)
  have "scrub_text s = rx_sub assignment_pattern (\<lambda>_. redacted) ?s2"
    by (simp add: scrub_text_def SECRET_PATTERNS_def)
  then show ?thesis unfolding secret_free_def redacted_bracketed
    using rx_sub_keeps_clean [OF pattern_facts(5) pos(1) pattern_facts(6,7) redacted_core_clean(1) k2]
      rx_sub_keeps_clean [OF pattern_facts(5) pos(2) pattern_facts(8,9) redacted_core_clean(2) b2]
    by (simp add: redacted_bracketed)
qed

lemma redacted_secret_free: "secret_free redacted"
  unfolding secret_free_def using pattern_facts(3,4)
  by (intro conjI rx_clean_by_length) (simp_all add: redacted_def)

lemma scrub_leaves_free:
  "\<forall>s \<in> set (leaves (scrub_secrets v)). secret_free s"
  "\<forall>s \<in> set (dict_leaves (scrub_dict d)). secret_free s"
  "\<forall>s \<in> set (list_leaves (scrub_list xs)). secret_free s"
  by (induction v and d and xs rule: scrub_secrets_scrub_dict_scrub_list.induct)
     (auto simp: scrub_text_secret_free redacted_secret_free)

lemma scrub_dict_keys: "map fst (scrub_dict d) = map fst d"
  by (induction d) auto

lemma scrub_dict_sensitive:
  "(k, v) \<in> set (scrub_dict d) \<Longrightarrow> lower k \<in> set SENSITIVE_KEY_NAMES \<Longrightarrow> v = PStr redacted"
  by (induction d) (auto split: if_splits)


definition demo_args :: "pyval dict" where
  "demo_args = [(''note'', PStr ''sk-ABCDEFGHIJKLMNOPQRSTuv!''), (''Token'', PInt 5)]"


end
