(* ===== verification/Ai_Model.thy ===== *)
theory Ai_Model
  imports Tool_Registry Health Vault
begin

text \<open>
  Contracts of the AI layer: messages, requests, responses and stream events (\<open>ai/models.py\<close>), the
  error classes (\<open>ai/errors.py\<close>), the capability table (\<open>ai/capabilities.py\<close>), the base provider
  (\<open>ai/base.py\<close>) and the provider registry (\<open>ai/registry.py\<close>). A provider's network calls are
  functions on an abstract world. Metadata dictionaries are left out.
\<close>

section \<open>Messages, requests and responses\<close>

datatype role = System | User | Assistant | Tool_Role

record tool_call =
  tcl_id :: string
  tcl_name :: string
  tcl_arguments :: "pyval dict"

record chat_message =
  cm_role :: role
  cm_content :: string
  cm_name :: "string option"
  cm_tool_call_id :: "string option"
  cm_tool_calls :: "tool_call list option"

record token_usage =
  tu_prompt_tokens :: int
  tu_completion_tokens :: int
  tu_total_tokens :: int

datatype finish_reason = FStop | FLength | FToolCalls | FContentFilter | FError | FOther

record llm_request =
  lq_messages :: "chat_message list"
  lq_model :: "string option"
  lq_temperature :: rat
  lq_max_tokens :: "int option"
  lq_top_p :: "rat option"
  lq_tools :: "ai_tool_definition list option"
  lq_tool_choice :: "string option"
  lq_response_format :: "string option"
  lq_timeout :: rat

record llm_response =
  lr_content :: "string option"
  lr_tool_calls :: "tool_call list option"
  lr_finish_reason :: finish_reason
  lr_model :: string
  lr_provider :: string
  lr_usage :: token_usage
  lr_request_id :: "string option"

datatype stream_event_type = TextDelta | ToolCallDelta | ReasoningDelta | Usage | StreamCompleted | StreamError

record stream_event =
  se_type :: stream_event_type
  se_text :: "string option"
  se_tool_call :: "tool_call option"
  se_usage :: "token_usage option"
  se_error :: "string option"
  se_finish_reason :: "finish_reason option"

definition llm_request_of :: "chat_message list \<Rightarrow> llm_request" where
  "llm_request_of ms =
     \<lparr>lq_messages = ms, lq_model = None, lq_temperature = 7 / 10, lq_max_tokens = None, lq_top_p = Some 1,
      lq_tools = None, lq_tool_choice = None, lq_response_format = None, lq_timeout = 60\<rparr>"

section \<open>Errors\<close>

datatype ai_error_class =
    AIError
  | AuthenticationError
  | InvalidRequestError
  | ModelNotFoundError
  | CapabilityNotSupportedError
  | RateLimitError
  | ProviderUnavailableError
  | AITimeoutError
  | AIStreamError
  | AICancelledError

record ai_error =
  ae_class :: ai_error_class
  ae_message :: string
  ae_provider :: "string option"
  ae_model :: "string option"
  ae_status_code :: "int option"
  ae_is_retryable :: bool
  ae_retry_after :: "rat option"

text \<open>The status code and the retry flag that the constructor of each class passes to \<open>AIError\<close>. The
  base class takes both from its caller, \<open>ProviderUnavailableError\<close> takes its status code.\<close>

fun class_status :: "ai_error_class \<Rightarrow> int option" where
  "class_status AuthenticationError = Some 401"
| "class_status InvalidRequestError = Some 400"
| "class_status ModelNotFoundError = Some 404"
| "class_status RateLimitError = Some 429"
| "class_status ProviderUnavailableError = Some 503"
| "class_status AITimeoutError = Some 408"
| "class_status _ = None"

fun class_retryable :: "ai_error_class \<Rightarrow> bool" where
  "class_retryable c = (c \<in> {RateLimitError, ProviderUnavailableError, AITimeoutError, AIStreamError})"

definition mk_ai_error :: "ai_error_class \<Rightarrow> string \<Rightarrow> string option \<Rightarrow> string option \<Rightarrow> ai_error" where
  "mk_ai_error c m p model =
     \<lparr>ae_class = c, ae_message = m, ae_provider = p, ae_model = model, ae_status_code = class_status c,
      ae_is_retryable = class_retryable c, ae_retry_after = None\<rparr>"

definition cancelled_error :: ai_error where
  "cancelled_error = mk_ai_error AICancelledError ''AI generation cancelled by caller'' None None"

text \<open>How an awaited operation ends.\<close>

datatype 'a outcome =
    Returned 'a
  | Raised ai_error
  | TaskCancelled
  | RaisedOther string

section \<open>Capabilities\<close>

record model_capabilities =
  mc_streaming :: bool
  mc_tools :: bool
  mc_vision :: bool
  mc_json :: bool
  mc_reasoning :: bool
  mc_local :: bool
  mc_context_window :: nat
  mc_max_output_tokens :: nat

definition caps :: "bool \<Rightarrow> bool \<Rightarrow> bool \<Rightarrow> nat \<Rightarrow> nat \<Rightarrow> model_capabilities" where
  "caps vision reasoning local window max_out =
     \<lparr>mc_streaming = True, mc_tools = True, mc_vision = vision, mc_json = True, mc_reasoning = reasoning,
      mc_local = local, mc_context_window = window, mc_max_output_tokens = max_out\<rparr>"

definition KNOWN_MODEL_CAPABILITIES :: "model_capabilities dict" where
  "KNOWN_MODEL_CAPABILITIES =
    [(''gpt-4o'', caps True False False 128000 4096),
     (''gpt-4o-mini'', caps True False False 128000 4096),
     (''o3-mini'', caps False True False 200000 100000),
     (''claude-3-5-sonnet-20241022'', caps True False False 200000 8192),
     (''claude-3-7-sonnet-20250219'', caps True True False 200000 64000),
     (''claude-3-5-haiku-20241022'', caps True False False 200000 8192),
     (''gemini-1.5-pro'', caps True False False 2000000 8192),
     (''gemini-2.0-flash'', caps True False False 1000000 8192),
     (''gemini-2.5-flash'', caps True False False 1000000 8192),
     (''llama3'', caps False False True 8192 2048),
     (''llama3.1'', caps False False True 128000 4096),
     (''qwen2.5'', caps False False True 32768 4096),
     (''mistral'', caps False False True 32768 4096)]"

text \<open>The loop over the table: the first key contained in the lower-cased name wins.\<close>

fun first_match :: "'v dict \<Rightarrow> string \<Rightarrow> 'v option" where
  "first_match [] name = None"
| "first_match ((k, c) # kcs) name = (if contains name k then Some c else first_match kcs name)"

definition get_default_capabilities :: "string \<Rightarrow> bool \<Rightarrow> model_capabilities" where
  "get_default_capabilities name is_local =
     (case first_match KNOWN_MODEL_CAPABILITIES (lower name) of
        Some c \<Rightarrow> c
      | None \<Rightarrow> caps False False is_local 128000 4096)"

text \<open>An entry behind a key that its own key contains is never chosen.\<close>

lemma first_match_shadowed:
  assumes "k' \<in> fst ` set xs" and "contains k k'"
  shows "first_match (xs @ (k, c) # ys) s = first_match (xs @ ys) s"
proof -
  have hit: "\<lbrakk>k' \<in> fst ` set zs; contains s k'\<rbrakk> \<Longrightarrow> first_match (zs @ a) s = first_match (zs @ b) s" for zs a b
  proof (induction zs)
    case (Cons z zs)
    then show ?case by (cases z) (cases "fst z = k'"; auto)
  qed simp
  have miss: "\<not> contains s k \<Longrightarrow> first_match (zs @ (k, c) # ys) s = first_match (zs @ ys) s" for zs
    by (induction zs) auto
  show ?thesis
  proof (cases "contains s k'")
    case True
    with hit assms(1) show ?thesis by blast
  next
    case False
    with miss contains_trans [OF _ assms(2)] show ?thesis by blast
  qed
qed

section \<open>Providers\<close>

text \<open>An adapter: its identity, its key, and its network calls as functions of the world.\<close>

record 'w ai_provider =
  ap_id :: string
  ap_default_model :: string
  ap_api_key :: "string option"
  ap_generate :: "llm_request \<Rightarrow> 'w \<Rightarrow> 'w \<times> llm_response outcome"
  ap_stream :: "llm_request \<Rightarrow> 'w \<Rightarrow> 'w \<times> stream_event list \<times> unit outcome"
  ap_close :: "'w \<Rightarrow> 'w \<times> unit outcome"

text \<open>The calls of a vendor's adapter, and the adapter that the base class makes of them.\<close>

record 'w adapter_calls =
  ac_generate :: "llm_request \<Rightarrow> 'w \<Rightarrow> 'w \<times> llm_response outcome"
  ac_stream :: "llm_request \<Rightarrow> 'w \<Rightarrow> 'w \<times> stream_event list \<times> unit outcome"
  ac_close :: "'w \<Rightarrow> 'w \<times> unit outcome"

definition base_provider :: "'w adapter_calls \<Rightarrow> string \<Rightarrow> string \<Rightarrow> string option \<Rightarrow> 'w ai_provider" where
  "base_provider calls provider_id default_model api_key =
     \<lparr>ap_id = provider_id, ap_default_model = default_model, ap_api_key = api_key,
      ap_generate = ac_generate calls, ap_stream = ac_stream calls, ap_close = ac_close calls\<rparr>"

lemma base_provider_id [simp]: "ap_id (base_provider calls k m x) = k"
  by (simp add: base_provider_def)

definition or_default :: "string option \<Rightarrow> string \<Rightarrow> string" where
  "or_default s d = (case s of None \<Rightarrow> d | Some x \<Rightarrow> if x = [] then d else x)"

definition has_credentials :: "'w ai_provider \<Rightarrow> bool" where
  "has_credentials p = (case ap_api_key p of None \<Rightarrow> False | Some k \<Rightarrow> k \<noteq> [])"

definition provider_capabilities :: "'w ai_provider \<Rightarrow> string option \<Rightarrow> model_capabilities" where
  "provider_capabilities p model =
     get_default_capabilities (or_default model (ap_default_model p)) (ap_id p = ''ollama'')"

definition provider_health :: "'w ai_provider \<Rightarrow> component_health" where
  "provider_health p =
     \<lparr>ch_name = ''ai_provider.'' @ ap_id p,
      ch_status = (if has_credentials p \<or> ap_id p = ''ollama'' then HEALTHY else DEGRADED),
      ch_message = None\<rparr>"

section \<open>The provider registry\<close>

type_synonym 'w ai_registry = "'w ai_provider dict"

definition provider_register :: "'w ai_provider \<Rightarrow> 'w ai_registry \<Rightarrow> 'w ai_registry" where
  "provider_register p r = dict_put (ap_id p) p r"

definition provider_unregister :: "string \<Rightarrow> 'w ai_registry \<Rightarrow> 'w ai_registry \<times> 'w ai_provider option" where
  "provider_unregister k r = (dict_del k r, dict_get r k)"

definition provider_get :: "'w ai_registry \<Rightarrow> string \<Rightarrow> 'w ai_provider option" where
  "provider_get r k = dict_get r k"

definition list_providers :: "'w ai_registry \<Rightarrow> string list" where
  "list_providers r = map fst r"

definition has_provider :: "'w ai_registry \<Rightarrow> string \<Rightarrow> bool" where
  "has_provider r k = dict_has r k"

text \<open>\<open>close_all\<close>: a provider whose \<open>close\<close> raises an \<open>Exception\<close> is logged and skipped; a
  cancellation leaves the loop before the registry is cleared.\<close>

fun close_each :: "'w ai_provider list \<Rightarrow> 'w \<Rightarrow> 'w \<times> bool" where
  "close_each [] w = (w, True)"
| "close_each (p # ps) w =
     (case ap_close p w of (w1, TaskCancelled) \<Rightarrow> (w1, False) | (w1, _) \<Rightarrow> close_each ps w1)"

definition close_all :: "'w ai_registry \<Rightarrow> 'w \<Rightarrow> 'w ai_registry \<times> 'w" where
  "close_all r w = (let (w1, done) = close_each (map snd r) w in (if done then [] else r, w1))"

text \<open>Every provider is stored under its own id.\<close>

definition ai_registry_wf :: "'w ai_registry \<Rightarrow> bool" where
  "ai_registry_wf r = (dict_wf r \<and> (\<forall>(k, p) \<in> set r. ap_id p = k))"

lemma ai_registry_wf_Nil [simp]: "ai_registry_wf []"
  by (simp add: ai_registry_wf_def dict_wf_def)

lemma set_update_subset: "set (AList.update k v d) \<subseteq> insert (k, v) (set d)"
  by (induction d) auto

lemma delete_set_subset: "set (AList.delete k d) \<subseteq> set d"
  by (auto simp: AList.delete_eq)

lemma provider_register_wf: "ai_registry_wf r \<Longrightarrow> ai_registry_wf (provider_register p r)"
  using set_update_subset [of "ap_id p" p r]
  by (auto simp: ai_registry_wf_def provider_register_def dict_simps)

lemma provider_unregister_wf: "ai_registry_wf r \<Longrightarrow> ai_registry_wf (fst (provider_unregister k r))"
  using delete_set_subset [of k r]
  by (auto simp: ai_registry_wf_def provider_unregister_def dict_simps)

lemma provider_get_id: "ai_registry_wf r \<Longrightarrow> provider_get r k = Some p \<Longrightarrow> ap_id p = k"
  by (auto simp: ai_registry_wf_def provider_get_def dest: map_of_SomeD)

lemma provider_get_register:
  "provider_get (provider_register p r) k = (if k = ap_id p then Some p else provider_get r k)"
  by (simp add: provider_get_def provider_register_def dict_simps)

end
