(* ===== verification/Tool_Executor.thy ===== *)
theory Tool_Executor
  imports Tool_Registry Tool_Policy Tool_Audit Event_Bus Ai_Model
begin

text \<open>
  The supervised executor (\<open>tools/executor.py\<close>) and the bridge from the model's tool calls
  (\<open>tools/bridge.py\<close>). The handlers are code outside the executor: a handler is a record with the
  two facts \<open>inspect\<close> finds out about it and its effect on a world of any type. The state an
  execution threads holds the bus, the events published so far, the audit log and the world. What
  the clock measured is the argument \<open>dur\<close>, how Python prints a float the argument \<open>sf\<close>.
\<close>

datatype handler_outcome =
    HReturn pyval
  | HTimeout
  | HSandbox string
  | HResource string
  | HArtifact string
  | HError string
  | HCancelled

record 'w tool_handler =
  th_is_coroutine :: bool
  th_accepts_context :: bool
  th_call :: "pyval dict \<Rightarrow> tool_context option \<Rightarrow> 'w \<Rightarrow> 'w \<times> handler_outcome"

record 'w tool_executor =
  te_registry :: "'w tool_handler tool_registry"
  te_policy :: policy_engine
  te_workspace :: "string list"

record 'w exec_state =
  xs_bus :: "event_bus option"
  xs_events :: "jarvis_event list"
  xs_audit :: "audit_event list"
  xs_world :: 'w

text \<open>An execution returns a result, or an exception leaves \<open>execute\<close>: the cancellation of the
  task, or the rejection of the audit record by its model when an artifact is not a string.\<close>

datatype exec_exit = ExCancelled | ExInvalidArtifacts

definition replace_char :: "char \<Rightarrow> char \<Rightarrow> string \<Rightarrow> string" where
  "replace_char a b s = map (\<lambda>c. if c = a then b else c) s"

definition emit_event ::
  "string \<Rightarrow> tool_request \<Rightarrow> pyval dict \<Rightarrow> 'w exec_state \<Rightarrow> 'w exec_state" where
  "emit_event etype q payload x =
     (case xs_bus x of
        None \<Rightarrow> x
      | Some b \<Rightarrow>
          if \<not> eb_is_running b then x
          else let e = \<lparr>ev_id = ''evt_'' @ tq_execution_id q @ ''_'' @ replace_char (CHR ''.'') (CHR ''_'') etype,
                        ev_type = etype, ev_correlation_id = tq_correlation_id q,
                        ev_payload = dict_merge [(''execution_id'', PStr (tq_execution_id q)),
                                                 (''tool_id'', PStr (tq_tool_id q))] payload\<rparr>
               in case bus_publish b e of
                    Inl _ \<Rightarrow> x
                  | Inr b' \<Rightarrow> x\<lparr>xs_bus := Some b', xs_events := xs_events x @ [e]\<rparr>)"

definition audit ::
  "tool_request \<Rightarrow> string \<Rightarrow> string \<Rightarrow> rat \<Rightarrow> tool_status \<Rightarrow> string option \<Rightarrow> string list
     \<Rightarrow> 'w exec_state \<Rightarrow> 'w exec_state" where
  "audit q ver dec dur st code artifacts x =
     x\<lparr>xs_audit := record_event (tq_execution_id q) (tq_tool_id q) ver (tq_caller q) dec dur st
         (tq_correlation_id q) (tq_arguments q) code artifacts (xs_audit x)\<rparr>"

definition mk_result ::
  "tool_request \<Rightarrow> tool_status \<Rightarrow> pyval \<Rightarrow> string option \<Rightarrow> rat \<Rightarrow> string list \<Rightarrow> tool_result" where
  "mk_result q st out err dur artifacts =
     \<lparr>tr_execution_id = tq_execution_id q, tr_tool_id = tq_tool_id q, tr_status = st, tr_output = out,
      tr_error = err, tr_duration_ms = dur, tr_artifacts = artifacts\<rparr>"

text \<open>The \<open>required\<close> entry of a schema is a list of names.\<close>

definition required_fields :: "pyval dict \<Rightarrow> string list" where
  "required_fields schema =
     (case dict_get schema ''required'' of
        Some (PList xs) \<Rightarrow> concat (map (\<lambda>x. case x of PStr s \<Rightarrow> [s] | _ \<Rightarrow> []) xs)
      | _ \<Rightarrow> [])"

definition validate_arguments :: "pyval dict \<Rightarrow> pyval dict \<Rightarrow> string option" where
  "validate_arguments schema args =
     (let missing = filter (\<lambda>f. \<not> dict_has args f) (required_fields schema)
      in if missing \<noteq> [] then Some (''Missing required arguments: '' @ repr_list missing) else None)"

text \<open>
  The call of the handler. A coroutine is awaited under the timeout; for a plain function the
  expression that would create the coroutine already runs the function, and when it returns the
  function is run a second time in the thread pool.
\<close>

definition invoke_handler ::
  "'w tool_handler \<Rightarrow> pyval dict \<Rightarrow> tool_context \<Rightarrow> 'w \<Rightarrow> 'w \<times> handler_outcome" where
  "invoke_handler h args ctx w =
     (let kwargs = (if th_accepts_context h then dict_del ''context'' args else args);
          c = (if th_accepts_context h then Some ctx else None)
      in if th_is_coroutine h then th_call h kwargs c w
         else case th_call h kwargs c w of
                (w1, HReturn _) \<Rightarrow> th_call h kwargs c w1
              | (w1, r) \<Rightarrow> (w1, r))"

fun type_name :: "pyval \<Rightarrow> string" where
  "type_name PNone = ''NoneType''"
| "type_name (PBool _) = ''bool''"
| "type_name (PInt _) = ''int''"
| "type_name (PFloat _) = ''float''"
| "type_name (PStr _) = ''str''"
| "type_name (PList _) = ''list''"
| "type_name (PDict _) = ''dict''"

text \<open>\<open>list(v)\<close>.\<close>

definition py_list :: "pyval \<Rightarrow> string + pyval list" where
  "py_list v = (case v of
       PList xs \<Rightarrow> Inr xs
     | PStr s \<Rightarrow> Inr (map (\<lambda>c. PStr [c]) s)
     | PDict d \<Rightarrow> Inr (map (\<lambda>(k, _). PStr k) d)
     | _ \<Rightarrow> Inl (quoted (type_name v) @ '' object is not iterable''))"

definition extract_artifacts :: "pyval \<Rightarrow> string + pyval list" where
  "extract_artifacts out = (case out of
       PDict d \<Rightarrow> (case dict_get d ''artifacts'' of
           Some v \<Rightarrow> py_list v
         | None \<Rightarrow> (case dict_get d ''artifact'' of Some v \<Rightarrow> Inr [v] | None \<Rightarrow> Inr []))
     | _ \<Rightarrow> Inr [])"

fun as_strings :: "pyval list \<Rightarrow> string list option" where
  "as_strings [] = Some []"
| "as_strings (PStr s # xs) = map_option (Cons s) (as_strings xs)"
| "as_strings (_ # xs) = None"

text \<open>What the \<open>try\<close> block and its handlers leave: status, output, error, code and artifacts, and
  the event that was published for a failure; \<open>None\<close> when the task is cancelled.\<close>

record run_outcome =
  ro_status :: tool_status
  ro_output :: pyval
  ro_error :: "string option"
  ro_code :: "string option"
  ro_artifacts :: "pyval list"
  ro_event :: "string option"

definition run_failure :: "tool_status \<Rightarrow> pyval \<Rightarrow> string \<Rightarrow> string \<Rightarrow> string \<Rightarrow> run_outcome" where
  "run_failure st out err code ev = \<lparr>ro_status = st, ro_output = out, ro_error = Some err,
     ro_code = Some code, ro_artifacts = [], ro_event = Some ev\<rparr>"

definition classify_outcome :: "(rat \<Rightarrow> string) \<Rightarrow> rat \<Rightarrow> handler_outcome \<Rightarrow> run_outcome option" where
  "classify_outcome sf timeout r = (case r of
       HReturn out \<Rightarrow> (case extract_artifacts out of
           Inr arts \<Rightarrow> Some \<lparr>ro_status = TSUCCESS, ro_output = out, ro_error = None, ro_code = None,
                             ro_artifacts = arts, ro_event = None\<rparr>
         | Inl exc \<Rightarrow> Some (run_failure TFAILED out (''Execution error: '' @ exc) ''EXECUTION_ERROR'' ''tool.failed''))
     | HTimeout \<Rightarrow> Some (run_failure TTIMEOUT PNone
           (''Execution timed out after '' @ sf timeout @ ''s'') ''TIMEOUT'' ''tool.timeout'')
     | HSandbox exc \<Rightarrow> Some (run_failure TFAILED PNone (''Sandbox violation: '' @ exc) ''SANDBOX_VIOLATION'' ''tool.failed'')
     | HResource exc \<Rightarrow> Some (run_failure TFAILED PNone
           (''Resource limit exceeded: '' @ exc) ''RESOURCE_LIMIT_EXCEEDED'' ''tool.failed'')
     | HArtifact exc \<Rightarrow> Some (run_failure TFAILED PNone
           (''Artifact structural verification failed: '' @ exc) ''VERIFICATION_FAILED'' ''tool.failed'')
     | HError exc \<Rightarrow> Some (run_failure TFAILED PNone (''Execution error: '' @ exc) ''EXECUTION_ERROR'' ''tool.failed'')
     | HCancelled \<Rightarrow> None)"

text \<open>Steps 4 to 6 of \<open>execute\<close>.\<close>

definition run_tool ::
  "(rat \<Rightarrow> string) \<Rightarrow> rat \<Rightarrow> 'w tool_executor \<Rightarrow> tool_definition \<Rightarrow> 'w tool_handler \<Rightarrow> tool_request
     \<Rightarrow> 'w exec_state \<Rightarrow> 'w exec_state \<times> (exec_exit + tool_result)" where
  "run_tool sf dur te d h q x =
     (let ctx = \<lparr>tc_execution_id = tq_execution_id q, tc_tool_id = tq_tool_id q,
                 tc_correlation_id = tq_correlation_id q, tc_caller = tq_caller q,
                 tc_workspace_dir = te_workspace te, tc_timeout_seconds = td_timeout_seconds d\<rparr>;
          x1 = emit_event ''tool.started'' q [] x;
          (w', r) = invoke_handler h (tq_arguments q) ctx (xs_world x1);
          x2 = x1\<lparr>xs_world := w'\<rparr>
      in case classify_outcome sf (td_timeout_seconds d) r of
           None \<Rightarrow> (x2, Inl ExCancelled)
         | Some ro \<Rightarrow>
             let x3 = (case ro_event ro of
                         Some ev \<Rightarrow> emit_event ev q [(''error'', PStr (case ro_error ro of Some e \<Rightarrow> e | None \<Rightarrow> []))] x2
                       | None \<Rightarrow> emit_event ''tool.completed'' q
                                   [(''artifacts'', PList (ro_artifacts ro)), (''duration_ms'', PFloat dur)] x2)
             in case as_strings (ro_artifacts ro) of
                  None \<Rightarrow> (x3, Inl ExInvalidArtifacts)
                | Some arts \<Rightarrow>
                    (audit q (td_version d) ''allowed'' dur (ro_status ro) (ro_code ro) arts x3,
                     Inr (mk_result q (ro_status ro) (ro_output ro) (ro_error ro) dur arts)))"

definition execute ::
  "(rat \<Rightarrow> string) \<Rightarrow> rat \<Rightarrow> 'w tool_executor \<Rightarrow> tool_request \<Rightarrow> security_profile option
     \<Rightarrow> 'w exec_state \<Rightarrow> 'w exec_state \<times> (exec_exit + tool_result)" where
  "execute sf dur te q cp x =
     (let x0 = emit_event ''tool.requested'' q [(''caller'', PStr (tq_caller q))] x
      in case bind_res (tool_get (te_registry te) (tq_tool_id q))
                (\<lambda>d. bind_res (tool_get_handler (te_registry te) (tq_tool_id q)) (\<lambda>h. Inr (d, h))) of
           Inl err \<Rightarrow>
             let exc = (case err of ToolNotFound m \<Rightarrow> m | DuplicateTool m \<Rightarrow> m | InvalidTool m \<Rightarrow> m);
                 x1 = emit_event ''tool.failed'' q [(''error'', PStr exc)] x0
             in (audit q ''unknown'' ''tool_not_found'' dur TFAILED (Some ''TOOL_NOT_FOUND'') [] x1,
                 Inr (mk_result q TFAILED PNone (Some exc) dur []))
         | Inr (d, h) \<Rightarrow>
             let decision = policy_evaluate (te_policy te) d q cp
             in if \<not> pd_allowed decision \<or> pd_approval_required decision
                then let reason = (if pd_approval_required decision
                                   then ''User approval required for high-risk operation: '' @ pd_reason decision
                                   else pd_reason decision);
                         x1 = emit_event ''tool.denied'' q
                                [(''reason'', PStr reason), (''risk_level'', PStr (risk_value (pd_risk_level decision)))] x0
                     in (audit q (td_version d) ''denied'' dur TDENIED (Some ''POLICY_DENIED'') [] x1,
                         Inr (mk_result q TDENIED PNone (Some reason) dur []))
                else let x1 = emit_event ''tool.authorized'' q [] x0
                     in case validate_arguments (td_input_schema d) (tq_arguments q) of
                          Some arg_error \<Rightarrow>
                            let x2 = emit_event ''tool.failed'' q [(''error'', PStr arg_error)] x1
                            in (audit q (td_version d) ''validation_failed'' dur TFAILED (Some ''INVALID_ARGUMENTS'') [] x2,
                                Inr (mk_result q TFAILED PNone (Some arg_error) dur []))
                        | None \<Rightarrow> run_tool sf dur te d h q x1)"

section \<open>The bridge from AI tool calls\<close>

text \<open>The dictionary that \<open>json.dumps\<close> turns into the content of the tool message.\<close>

definition bridge_payload :: "tool_result \<Rightarrow> pyval dict" where
  "bridge_payload r =
     (if tr_is_success r
      then [(''status'', PStr (tool_status_value (tr_status r))), (''output'', tr_output r),
            (''artifacts'', PList (map PStr (tr_artifacts r)))]
      else [(''status'', PStr (tool_status_value (tr_status r))),
            (''error'', case tr_error r of None \<Rightarrow> PNone | Some e \<Rightarrow> PStr e)])"

definition execute_tool_call ::
  "(rat \<Rightarrow> string) \<Rightarrow> rat \<Rightarrow> 'w tool_executor \<Rightarrow> tool_call \<Rightarrow> string option \<Rightarrow> string \<Rightarrow> 'w exec_state
     \<Rightarrow> 'w exec_state \<times> (exec_exit + tool_result \<times> pyval dict)" where
  "execute_tool_call sf dur te c corr caller x =
     (case execute sf dur te \<lparr>tq_execution_id = tcl_id c, tq_tool_id = tcl_name c,
              tq_arguments = tcl_arguments c, tq_correlation_id = corr, tq_caller = caller\<rparr> None x of
        (x', Inl e) \<Rightarrow> (x', Inl e)
      | (x', Inr r) \<Rightarrow> (x', Inr (r, bridge_payload r)))"

section \<open>Lemmas\<close>

named_theorems exec_simps

lemma mk_result_sel [exec_simps]:
  "tr_status (mk_result q st out err dur arts) = st" "tr_error (mk_result q st out err dur arts) = err"
  "tr_artifacts (mk_result q st out err dur arts) = arts"
  by (simp_all add: mk_result_def)

lemma emit_event_frame [exec_simps]:
  "xs_audit (emit_event t q p x) = xs_audit x" "xs_world (emit_event t q p x) = xs_world x"
  by (auto simp: emit_event_def Let_def split: option.splits sum.splits)

lemma audit_frame [exec_simps]:
  "xs_world (audit q v dec dur st c a x) = xs_world x"
  "xs_events (audit q v dec dur st c a x) = xs_events x"
  "xs_bus (audit q v dec dur st c a x) = xs_bus x"
  by (simp_all add: audit_def)

text \<open>The bus is up: it exists and accepts events, and publishing keeps it so.\<close>

definition bus_up :: "'w exec_state \<Rightarrow> bool" where
  "bus_up x = (case xs_bus x of None \<Rightarrow> False | Some b \<Rightarrow> eb_is_running b)"

definition event_types :: "'w exec_state \<Rightarrow> string list" where
  "event_types x = map ev_type (xs_events x)"

lemma emit_event_up [exec_simps]:
  "bus_up x \<Longrightarrow> bus_up (emit_event t q p x)"
  "bus_up x \<Longrightarrow> event_types (emit_event t q p x) = event_types x @ [t]"
  by (auto simp: bus_up_def event_types_def emit_event_def bus_publish_def Let_def create_tasks_frame
      split: option.splits)

lemma bus_up_world [exec_simps]: "bus_up (x\<lparr>xs_world := w\<rparr>) = bus_up x"
  "event_types (x\<lparr>xs_world := w\<rparr>) = event_types x"
  by (simp_all add: bus_up_def event_types_def)

lemma audit_events [exec_simps]:
  "event_types (audit q v dec dur st c a x) = event_types x"
  by (simp add: event_types_def audit_frame)

text \<open>When the handler is reached.\<close>

definition runs_handler ::
  "'w tool_executor \<Rightarrow> tool_request \<Rightarrow> security_profile option \<Rightarrow> bool" where
  "runs_handler te q cp =
     (case (tool_get (te_registry te) (tq_tool_id q), tool_get_handler (te_registry te) (tq_tool_id q)) of
        (Inr d, Inr h) \<Rightarrow> authorized (te_policy te) d q cp \<and>
                          validate_arguments (td_input_schema d) (tq_arguments q) = None
      | _ \<Rightarrow> False)"

lemma denied_iff: "(\<not> pd_allowed (policy_evaluate pe d q cp) \<or> pd_approval_required (policy_evaluate pe d q cp))
    \<longleftrightarrow> \<not> authorized pe d q cp"
  using policy_evaluate_free [of pe d q cp] by blast

text \<open>The four ways through \<open>execute\<close>.\<close>

definition requested :: "tool_request \<Rightarrow> 'w exec_state \<Rightarrow> 'w exec_state" where
  "requested q x = emit_event ''tool.requested'' q [(''caller'', PStr (tq_caller q))] x"

lemma execute_cases:
  obtains (not_found) exc p where "\<not> runs_handler te q cp"
      "execute sf dur te q cp x =
         (audit q ''unknown'' ''tool_not_found'' dur TFAILED (Some ''TOOL_NOT_FOUND'') []
            (emit_event ''tool.failed'' q p (requested q x)),
          Inr (mk_result q TFAILED PNone (Some exc) dur []))"
  | (denied) d :: tool_definition and reason p where "\<not> runs_handler te q cp"
      "execute sf dur te q cp x =
         (audit q (td_version d) ''denied'' dur TDENIED (Some ''POLICY_DENIED'') []
            (emit_event ''tool.denied'' q p (requested q x)),
          Inr (mk_result q TDENIED PNone (Some reason) dur []))"
  | (invalid) d :: tool_definition and msg p where "\<not> runs_handler te q cp"
      "execute sf dur te q cp x =
         (audit q (td_version d) ''validation_failed'' dur TFAILED (Some ''INVALID_ARGUMENTS'') []
            (emit_event ''tool.failed'' q p (emit_event ''tool.authorized'' q [] (requested q x))),
          Inr (mk_result q TFAILED PNone (Some msg) dur []))"
  | (run) d h where "runs_handler te q cp" "tool_get (te_registry te) (tq_tool_id q) = Inr d"
      "tool_get_handler (te_registry te) (tq_tool_id q) = Inr h" "authorized (te_policy te) d q cp"
      "execute sf dur te q cp x =
         run_tool sf dur te d h q (emit_event ''tool.authorized'' q [] (requested q x))"
proof (cases "bind_res (tool_get (te_registry te) (tq_tool_id q))
                (\<lambda>d. bind_res (tool_get_handler (te_registry te) (tq_tool_id q)) (\<lambda>h. Inr (d, h)))")
  case (Inl err)
  then have nr: "\<not> runs_handler te q cp"
    by (auto simp: runs_handler_def bind_res_def split: sum.splits)
  show ?thesis
    by (rule not_found [OF nr]) (simp add: execute_def Inl Let_def requested_def)
next
  case (Inr dh)
  then obtain d h where dh: "dh = (d, h)"
    and dd: "tool_get (te_registry te) (tq_tool_id q) = Inr d"
    and hh: "tool_get_handler (te_registry te) (tq_tool_id q) = Inr h"
    by (auto simp: bind_res_Inr)
  show ?thesis
  proof (cases "authorized (te_policy te) d q cp")
    case False
    then have nr: "\<not> runs_handler te q cp" by (simp add: runs_handler_def dd hh)
    let ?dec = "policy_evaluate (te_policy te) d q cp"
    define reason where "reason = (if pd_approval_required ?dec
        then ''User approval required for high-risk operation: '' @ pd_reason ?dec else pd_reason ?dec)"
    show ?thesis
      by (rule denied [OF nr, of d "[(''reason'', PStr reason), (''risk_level'', PStr (risk_value (pd_risk_level ?dec)))]"
            reason])
         (simp only: execute_def Inr dh Let_def denied_iff False requested_def reason_def
          sum.case prod.case not_False_eq_True if_True)
  next
    case True
    show ?thesis
    proof (cases "validate_arguments (td_input_schema d) (tq_arguments q)")
      case None
      then have r: "runs_handler te q cp" by (simp add: runs_handler_def dd hh True)
      show ?thesis
        by (rule run [OF r dd hh True]) (simp only: execute_def Inr dh Let_def denied_iff True requested_def None
          sum.case prod.case option.case not_True_eq_False if_False)
    next
      case (Some msg)
      then have nr: "\<not> runs_handler te q cp" by (simp add: runs_handler_def dd hh)
      show ?thesis
        by (rule invalid [OF nr]) (simp only: execute_def Inr dh Let_def denied_iff True requested_def Some
          sum.case prod.case option.case not_True_eq_False if_False)
    qed
  qed
qed

text \<open>The audit log grows by one record, and it tells the result.\<close>

definition audited :: "'w exec_state \<Rightarrow> 'w exec_state \<Rightarrow> tool_request \<Rightarrow> tool_result \<Rightarrow> bool" where
  "audited x x' q r = (\<exists>e. xs_audit x' = xs_audit x @ [e] \<and> ae_execution_id e = tq_execution_id q \<and>
     ae_tool_id e = tq_tool_id q \<and> ae_actor e = tq_caller q \<and> ae_status e = tr_status r \<and>
     ae_artifacts e = tr_artifacts r \<and> (ae_error_code e = None \<longleftrightarrow> tr_error r = None) \<and>
     ae_arguments_summary e = scrub_dict (tq_arguments q))"

lemma audited_audit:
  "xs_audit x' = xs_audit x \<Longrightarrow> (code = None \<longleftrightarrow> err = None) \<Longrightarrow>
     audited x (audit q ver dec dur st code arts x') q (mk_result q st out err dur arts)"
  by (simp add: audited_def audit_def record_event_def mk_result_def)

lemma requested_frame [exec_simps]:
  "xs_audit (requested q x) = xs_audit x" "xs_world (requested q x) = xs_world x"
  "bus_up x \<Longrightarrow> bus_up (requested q x)"
  "bus_up x \<Longrightarrow> event_types (requested q x) = event_types x @ [''tool.requested'']"
  by (simp_all add: requested_def exec_simps)

lemma run_tool_cases:
  fixes x :: "'w exec_state" and q :: tool_request
  defines "x1 \<equiv> emit_event ''tool.started'' q [] x"
  obtains (cancelled) w ctx where
      "run_tool sf dur te d h q x = (x1\<lparr>xs_world := w\<rparr>, Inl ExCancelled)"
      "invoke_handler h (tq_arguments q) ctx (xs_world x) = (w, HCancelled)"
  | (finished) w ctx r ro ev p where
      "invoke_handler h (tq_arguments q) ctx (xs_world x) = (w, r)"
      "classify_outcome sf (td_timeout_seconds d) r = Some ro"
      "ev = (case ro_event ro of Some ev \<Rightarrow> ev | None \<Rightarrow> ''tool.completed'')"
      "run_tool sf dur te d h q x =
         (let x3 = emit_event ev q p (x1\<lparr>xs_world := w\<rparr>)
          in case as_strings (ro_artifacts ro) of
               None \<Rightarrow> (x3, Inl ExInvalidArtifacts)
             | Some arts \<Rightarrow>
                 (audit q (td_version d) ''allowed'' dur (ro_status ro) (ro_code ro) arts x3,
                  Inr (mk_result q (ro_status ro) (ro_output ro) (ro_error ro) dur arts)))"
proof -
  define ctx where "ctx = \<lparr>tc_execution_id = tq_execution_id q, tc_tool_id = tq_tool_id q,
                 tc_correlation_id = tq_correlation_id q, tc_caller = tq_caller q,
                 tc_workspace_dir = te_workspace te, tc_timeout_seconds = td_timeout_seconds d\<rparr>"
  obtain w r where inv: "invoke_handler h (tq_arguments q) ctx (xs_world x) = (w, r)" by fastforce
  show ?thesis
  proof (cases "classify_outcome sf (td_timeout_seconds d) r")
    case None
    then have "r = HCancelled"
      by (auto simp: classify_outcome_def split: handler_outcome.splits sum.splits)
    with None inv show ?thesis
      by (intro cancelled [of w ctx])
         (simp_all add: run_tool_def ctx_def [symmetric] exec_simps x1_def Let_def)
  next
    case (Some ro)
    define p where "p = (case ro_event ro of
        Some ev \<Rightarrow> [(''error'', PStr (case ro_error ro of Some e \<Rightarrow> e | None \<Rightarrow> []))]
      | None \<Rightarrow> [(''artifacts'', PList (ro_artifacts ro)), (''duration_ms'', PFloat dur)])"
    show ?thesis
      by (rule finished [OF inv Some refl, of p]; cases "ro_event ro")
         (simp_all add: run_tool_def ctx_def [symmetric] exec_simps x1_def Let_def inv Some p_def)
  qed
qed

lemma classify_error:
  "classify_outcome sf t r = Some ro \<Longrightarrow>
     (ro_error ro = None \<longleftrightarrow> ro_status ro = TSUCCESS) \<and> (ro_code ro = None \<longleftrightarrow> ro_error ro = None) \<and>
     ro_status ro \<in> {TSUCCESS, TFAILED, TTIMEOUT} \<and>
     (ro_event ro = None \<longleftrightarrow> ro_status ro = TSUCCESS) \<and>
     (ro_event ro \<noteq> None \<longrightarrow> the (ro_event ro) = (if ro_status ro = TTIMEOUT then ''tool.timeout'' else ''tool.failed''))"
  by (auto simp: classify_outcome_def run_failure_def split: handler_outcome.splits sum.splits)


text \<open>
  C10. The gate. If the tool is unknown, the policy does not authorize the request or an argument is
  missing, \<open>execute\<close> returns a failed or denied result with an error, the handler is not called
  (the world is unchanged) and the refusal is audited.
\<close>

theorem execute_gate:
  assumes "\<not> runs_handler te q cp"
  shows "\<exists>r. snd (execute sf dur te q cp x) = Inr r \<and> tr_status r \<in> {TFAILED, TDENIED} \<and>
             tr_error r \<noteq> None \<and> xs_world (fst (execute sf dur te q cp x)) = xs_world x \<and>
             audited x (fst (execute sf dur te q cp x)) q r"
  by (rule execute_cases [of te q cp sf dur x])
     (use assms in \<open>simp_all add: exec_simps audited_audit\<close>)

text \<open>
  C9. The audit trail is complete. Every result \<open>execute\<close> returns, on whatever path, is recorded by
  exactly one new audit record with the same status and artifacts and an error code exactly when
  there is an error, and a result without error is a success. Only two things leave no record: the
  cancellation of the task and an artifact that is not a string, both after the handler has run.
\<close>

theorem execute_audited:
  "case execute sf dur te q cp x of
     (x', Inr r) \<Rightarrow> audited x x' q r \<and> (tr_error r = None \<longleftrightarrow> tr_status r = TSUCCESS)
   | (x', Inl exc) \<Rightarrow> xs_audit x' = xs_audit x \<and> runs_handler te q cp"
proof (rule execute_cases [of te q cp sf dur x])
  fix d h
  assume run: "runs_handler te q cp" and ex: "execute sf dur te q cp x =
         run_tool sf dur te d h q (emit_event ''tool.authorized'' q [] (requested q x))"
  show ?thesis
  proof (rule run_tool_cases [of sf dur te d h q "emit_event ''tool.authorized'' q [] (requested q x)"],
      goal_cases)
    case 1
    with run ex show ?case by (simp add: exec_simps)
  next
    case (2 w ctx r ro ev p)
    note cl = classify_error [OF 2(2)]
    show ?case unfolding ex 2(4)
      by (cases "as_strings (ro_artifacts ro)")
         (use cl run in \<open>simp_all add: exec_simps audited_audit Let_def\<close>)
  qed
qed (simp_all add: exec_simps audited_audit)

definition lifecycle :: "exec_exit + tool_result \<Rightarrow> string list \<Rightarrow> bool" where
  "lifecycle r evs = (case r of
     Inr t \<Rightarrow> (case tr_status t of
         TDENIED \<Rightarrow> evs = [''tool.requested'', ''tool.denied'']
       | TSUCCESS \<Rightarrow> evs = [''tool.requested'', ''tool.authorized'', ''tool.started'', ''tool.completed'']
       | TTIMEOUT \<Rightarrow> evs = [''tool.requested'', ''tool.authorized'', ''tool.started'', ''tool.timeout'']
       | TFAILED \<Rightarrow> evs \<in> {[''tool.requested'', ''tool.failed''],
                            [''tool.requested'', ''tool.authorized'', ''tool.failed''],
                            [''tool.requested'', ''tool.authorized'', ''tool.started'', ''tool.failed'']}
       | TCANCELLED \<Rightarrow> False)
   | Inl ExCancelled \<Rightarrow> evs = [''tool.requested'', ''tool.authorized'', ''tool.started'']
   | Inl ExInvalidArtifacts \<Rightarrow> evs = [''tool.requested'', ''tool.authorized'', ''tool.started'', ''tool.completed''])"

lemma finished_lifecycle:
  assumes "classify_outcome sf t r = Some ro"
    and "ev = (case ro_event ro of Some ev \<Rightarrow> ev | None \<Rightarrow> ''tool.completed'')"
  shows "(as_strings (ro_artifacts ro) = None \<longrightarrow> ev = ''tool.completed'') \<and>
     lifecycle (Inr (mk_result q (ro_status ro) out err dur arts))
       [''tool.requested'', ''tool.authorized'', ''tool.started'', ev]"
  using assms
  by (auto simp: lifecycle_def mk_result_def classify_outcome_def run_failure_def
      split: handler_outcome.splits sum.splits)

text \<open>
  The event protocol. When the bus is up, an execution publishes exactly one of the lifecycles
  of a tool call, in order, and which one is told by the result's status: denied after requested;
  completed, timed out or failed after requested, authorized and started; nothing is published
  twice and a failure is never followed by a completion.
\<close>

theorem execute_lifecycle:
  assumes "bus_up x"
  shows "\<exists>evs. event_types (fst (execute sf dur te q cp x)) = event_types x @ evs \<and>
             lifecycle (snd (execute sf dur te q cp x)) evs"
proof (rule execute_cases [of te q cp sf dur x])
  fix d h
  assume run: "runs_handler te q cp" and ex: "execute sf dur te q cp x =
         run_tool sf dur te d h q (emit_event ''tool.authorized'' q [] (requested q x))"
  show ?thesis
  proof (rule run_tool_cases [of sf dur te d h q "emit_event ''tool.authorized'' q [] (requested q x)"],
      goal_cases)
    case 1
    with ex assms show ?case by (simp add: exec_simps lifecycle_def)
  next
    case (2 w ctx r ro ev p)
    note fl = finished_lifecycle [OF 2(2,3)]
    show ?case unfolding ex 2(4)
      by (cases "as_strings (ro_artifacts ro)")
         (use fl assms in \<open>simp_all add: exec_simps Let_def, simp add: lifecycle_def\<close>)
  qed
qed (simp_all add: exec_simps assms lifecycle_def)

text \<open>
  A plain (non-coroutine) handler is run twice. When a request passes every gate and its handler
  is a function that changes the world by \<open>f\<close> and returns a value, the world after \<open>execute\<close> is
  \<open>f (f w)\<close>: the value of the first call is discarded. A coroutine handler runs once.
\<close>

theorem sync_handler_runs_twice:
  assumes "runs_handler te q cp" and "tool_get_handler (te_registry te) (tq_tool_id q) = Inr h"
    and "\<forall>k c w. th_call h k c w = (f w, HReturn v)"
  shows "xs_world (fst (execute sf dur te q cp x))
           = (if th_is_coroutine h then f (xs_world x) else f (f (xs_world x)))"
proof -
  have inv: "invoke_handler h args ctx w = ((if th_is_coroutine h then f w else f (f w)), HReturn v)"
    for args ctx w using assms(3) by (simp add: invoke_handler_def Let_def)
  show ?thesis
  proof (rule execute_cases [of te q cp sf dur x], goal_cases)
    case (4 d h')
    then have "h' = h" using assms(2) by simp
    show ?case unfolding 4(5) \<open>h' = h\<close>
      by (rule run_tool_cases [of sf dur te d h q "emit_event ''tool.authorized'' q [] (requested q x)"])
         (auto simp: inv exec_simps Let_def split: option.splits)
  qed (use assms(1) in auto)
qed

section \<open>Witnesses\<close>

definition count_handler :: "bool \<Rightarrow> nat tool_handler" where
  "count_handler coro = \<lparr>th_is_coroutine = coro, th_accepts_context = True,
     th_call = (\<lambda>_ _ w. (Suc w, HReturn PNone))\<rparr>"

definition demo_executor :: "nat tool_executor" where
  "demo_executor = \<lparr>te_registry = \<lparr>tg_tools = [(''t'', demo_tool ''t'')], tg_handlers = [(''t'', count_handler False)]\<rparr>,
     te_policy = \<lparr>pe_profile = default_profile, pe_sandbox = Some (plain_fs, [''ws''])\<rparr>, te_workspace = [''ws'']\<rparr>"

definition demo_tool_request :: "pyval dict \<Rightarrow> tool_request" where
  "demo_tool_request args = \<lparr>tq_execution_id = ''x1'', tq_tool_id = ''t'', tq_arguments = args,
     tq_correlation_id = None, tq_caller = ''agent''\<rparr>"

definition demo_exec_state :: "nat exec_state" where
  "demo_exec_state = \<lparr>xs_bus = Some (bus_start bus_init), xs_events = [], xs_audit = [], xs_world = 0\<rparr>"

lemma demo_paths: "resolve_safe_path plain_fs [''ws''] ''a'' None False = Inr [''ws'', ''a'']"
  by code_simp

theorem execute_gate_witness:
  "\<exists>r. snd (execute (\<lambda>_. []) 0 demo_executor (demo_tool_request []) None demo_exec_state) = Inr r \<and>
       tr_status r \<in> {TFAILED, TDENIED} \<and> tr_error r \<noteq> None"
proof -
  have "\<not> runs_handler demo_executor (demo_tool_request []) None"
    by (simp add: runs_handler_def demo_executor_def demo_tool_request_def tool_get_def
        tool_get_handler_def validate_arguments_def demo_tool_def required_fields_def dict_has_def)
  from execute_gate [OF this, of "\<lambda>_. []" 0 demo_exec_state] show ?thesis by blast
qed

lemma demo_runs: "runs_handler demo_executor (demo_tool_request [(''path'', PStr ''a'')]) None"
  by (simp add: runs_handler_def demo_executor_def demo_tool_request_def tool_get_def
      tool_get_handler_def validate_arguments_def demo_tool_def required_fields_def dict_has_def
      authorized_def active_profile_def default_profile_def less_eq_risk_level_def demo_paths)

theorem execute_lifecycle_witness:
  "\<exists>evs. event_types (fst (execute (\<lambda>_. []) 0 demo_executor (demo_tool_request []) None demo_exec_state)) = evs \<and>
         lifecycle (snd (execute (\<lambda>_. []) 0 demo_executor (demo_tool_request []) None demo_exec_state)) evs"
proof -
  have "bus_up demo_exec_state" by (simp add: bus_up_def demo_exec_state_def bus_start_def)
  from execute_lifecycle [OF this, of "\<lambda>_. []" 0 demo_executor "demo_tool_request []" None]
  show ?thesis by (simp add: event_types_def demo_exec_state_def)
qed

theorem sync_handler_runs_twice_witness:
  "xs_world (fst (execute (\<lambda>_. []) 0 demo_executor (demo_tool_request [(''path'', PStr ''a'')]) None demo_exec_state)) = 2"
  using sync_handler_runs_twice [OF demo_runs, of "count_handler False" Suc PNone "\<lambda>_. []" 0 demo_exec_state]
  by (simp add: demo_executor_def tool_get_handler_def demo_tool_request_def count_handler_def demo_exec_state_def)

end
