(* ===== verification/Agent_Model.thy ===== *)
theory Agent_Model
  imports Tool_Registry
begin

text \<open>
  The data of the multi-agent runtime (\<open>agents/models.py\<close>, \<open>agents/base.py\<close>) and the registry of
  agents (\<open>agents/registry.py\<close>). Timestamps and metadata dictionaries are left out, identifiers made
  by \<open>uuid\<close> are arguments. An agent is its definition with the effect of its \<open>execute\<close>, code outside
  the runtime, on a world of any type: a step result or an exception.
\<close>

datatype agent_state =
    AIDLE | APLANNING | AREADY | ARUNNING | AWAITING_APPROVAL | AVERIFYING | ARECOVERING
  | ACOMPLETED | AFAILED | ACANCELLED | APAUSED

datatype task_state =
    KPENDING | KRUNNING | KWAITING_APPROVAL | KCOMPLETED | KFAILED | KSKIPPED | KCANCELLED

datatype verification_state = VUNVERIFIED | VPASSED | VFAILED | VPARTIAL

datatype recovery_state = NOT_REQUIRED | RETRYING | REPLANNING | ABORTED | RECOVERED

datatype agent_capability =
    CPLANNING | CRESEARCH | CREASONING | CCODING | CSECURITY | CTESTING | CREVIEW
  | CVERIFICATION | CRECOVERY | CSYNTHESIS

record agent_definition =
  ad_id :: string
  ad_name :: string
  ad_description :: string
  ad_capabilities :: "agent_capability list"
  ad_allowed_tools :: "string list"
  ad_risk_level :: string
  ad_enabled :: bool

record agent_goal =
  gl_id :: string
  gl_user_prompt :: string

record agent_task =
  at_id :: string
  at_title :: string
  at_description :: string
  at_assigned_agent :: string
  at_dependencies :: "string list"
  at_required_tools :: "string list"
  at_input_data :: "pyval dict"
  at_retry_count :: nat
  at_artifacts :: "string list"

record agent_plan =
  pl_goal_id :: string
  pl_plan_id :: string
  pl_tasks :: "agent_task list"

record agent_observation =
  ob_task_id :: string
  ob_tool_id :: "string option"
  ob_status :: string
  ob_output :: pyval
  ob_artifacts :: "string list"
  ob_duration_ms :: rat
  ob_evidence :: "pyval dict"
  ob_error :: "string option"

record agent_step_result =
  sr_task_id :: string
  sr_agent_id :: string
  sr_status :: task_state
  sr_output :: pyval
  sr_artifacts :: "string list"
  sr_observations :: "agent_observation list"
  sr_error :: "string option"

record agent_verification =
  vr_task_id :: string
  vr_state :: verification_state
  vr_score :: rat
  vr_verified_artifacts :: "string list"
  vr_missing_evidence :: "string list"
  vr_notes :: string

record agent_approval =
  ap_approval_id :: string
  ap_run_id :: string
  ap_task_id :: string
  ap_agent_id :: string
  ap_tool_id :: string
  ap_reason :: string
  ap_risk_level :: string
  ap_arguments :: "pyval dict"
  ap_approved :: "bool option"
  ap_resolved_by :: "string option"

record recovery_attempt =
  ra_task_id :: string
  ra_failure_reason :: string
  ra_recovery_action :: string
  ra_state :: recovery_state
  ra_attempt_number :: nat

record agent_run =
  ar_run_id :: string
  ar_goal :: agent_goal
  ar_plan :: "agent_plan option"
  ar_state :: agent_state
  ar_current_task :: "string option"
  ar_completed :: "string list"
  ar_failed :: "string list"
  ar_task_results :: "agent_step_result dict"
  ar_verifications :: "agent_verification dict"
  ar_artifacts :: "string list"
  ar_recovery :: "recovery_attempt list"
  ar_duration_ms :: rat
  ar_error :: "string option"

definition new_run :: "string \<Rightarrow> agent_goal \<Rightarrow> agent_run" where
  "new_run i g = \<lparr>ar_run_id = i, ar_goal = g, ar_plan = None, ar_state = AIDLE, ar_current_task = None,
     ar_completed = [], ar_failed = [], ar_task_results = [], ar_verifications = [], ar_artifacts = [],
     ar_recovery = [], ar_duration_ms = 0, ar_error = None\<rparr>"

section \<open>Agents and their registry\<close>

record 'w agent =
  ag_definition :: agent_definition
  ag_execute :: "agent_task \<Rightarrow> agent_observation list \<Rightarrow> 'w \<Rightarrow> 'w \<times> (string + agent_step_result)"

type_synonym 'w agent_registry = "'w agent dict"

definition agent_register :: "'w agent \<Rightarrow> 'w agent_registry \<Rightarrow> string + 'w agent_registry" where
  "agent_register a r =
     (let agent_id = ad_id (ag_definition a)
      in if agent_id = [] then Inl ''Agent ID must be a non-empty string.''
         else if dict_has r agent_id
         then Inl (''Agent with ID '' @ quoted agent_id @ '' is already registered.'')
         else Inr (dict_put agent_id a r))"

definition agent_unregister :: "string \<Rightarrow> 'w agent_registry \<Rightarrow> 'w agent_registry \<times> bool" where
  "agent_unregister k r = (if dict_has r k then (dict_del k r, True) else (r, False))"

definition agent_get :: "'w agent_registry \<Rightarrow> string \<Rightarrow> string + 'w agent" where
  "agent_get r k = (case dict_get r k of
       None \<Rightarrow> Inl (''Agent '' @ quoted k @ '' is not registered.'')
     | Some a \<Rightarrow> Inr a)"

definition agent_has :: "'w agent_registry \<Rightarrow> string \<Rightarrow> bool" where
  "agent_has r k = dict_has r k"

definition agent_set_enabled :: "bool \<Rightarrow> string \<Rightarrow> 'w agent_registry \<Rightarrow> string + 'w agent_registry" where
  "agent_set_enabled b k r =
     bind_res (agent_get r k)
       (\<lambda>a. Inr (dict_put k (a\<lparr>ag_definition := (ag_definition a)\<lparr>ad_enabled := b\<rparr>\<rparr>) r))"

definition agent_enable :: "string \<Rightarrow> 'w agent_registry \<Rightarrow> string + 'w agent_registry" where
  "agent_enable = agent_set_enabled True"

definition agent_disable :: "string \<Rightarrow> 'w agent_registry \<Rightarrow> string + 'w agent_registry" where
  "agent_disable = agent_set_enabled False"

definition agent_list :: "bool \<Rightarrow> 'w agent_registry \<Rightarrow> agent_definition list" where
  "agent_list enabled_only r =
     (let defs = map (\<lambda>(_, a). ag_definition a) r
      in if enabled_only then filter ad_enabled defs else defs)"

definition agent_discover :: "agent_capability option \<Rightarrow> bool \<Rightarrow> 'w agent_registry \<Rightarrow> agent_definition list" where
  "agent_discover cap enabled_only r =
     (let defs = agent_list enabled_only r
      in case cap of None \<Rightarrow> defs | Some c \<Rightarrow> filter (\<lambda>d. c \<in> set (ad_capabilities d)) defs)"

definition find_by_capability :: "agent_capability \<Rightarrow> bool \<Rightarrow> 'w agent_registry \<Rightarrow> 'w agent list" where
  "find_by_capability c enabled_only r =
     (let agents = map snd r;
          agents = (if enabled_only then filter (\<lambda>a. ad_enabled (ag_definition a)) agents else agents)
      in filter (\<lambda>a. c \<in> set (ad_capabilities (ag_definition a))) agents)"

definition agents_wf :: "'w agent_registry \<Rightarrow> bool" where
  "agents_wf r = (dict_wf r \<and> (\<forall>(k, a) \<in> set r. ad_id (ag_definition a) = k))"

definition reg_agent :: "string \<Rightarrow> 'w agent \<Rightarrow> 'w agent_registry \<Rightarrow> string + 'w agent_registry" where
  "reg_agent k a r = (if ad_id (ag_definition a) = k then agent_register a r else Inl k)"

interpretation agents: keyed_store reg_agent agent_unregister "\<lambda>r k. dict_get r k" agents_wf
proof unfold_locales
  fix s s' :: "'w agent_registry" and k k' a
  assume ok: "agents_wf s"
  show "agents_wf (fst (agent_unregister k s))"
    using ok by (auto simp: agents_wf_def agent_unregister_def dict_simps dest!: in_delete)
  show "dict_get (fst (agent_unregister k s)) k' = (if k' = k then None else dict_get s k')"
    by (auto simp: agent_unregister_def dict_simps dict_has_def)
  show "snd (agent_unregister k s) = (dict_get s k \<noteq> None)"
    by (simp add: agent_unregister_def dict_has_def)
  show "dict_get s k \<noteq> None \<Longrightarrow> \<exists>e. reg_agent k a s = Inl e"
    by (auto simp: reg_agent_def agent_register_def dict_has_def)
  assume reg: "reg_agent k a s = Inr s'"
  then have s': "s' = dict_put k a s" and k: "ad_id (ag_definition a) = k"
    by (auto simp: reg_agent_def agent_register_def Let_def split: if_splits)
  show "agents_wf s'"
    using ok k by (auto simp: agents_wf_def s' dict_simps dest!: in_put)
  show "dict_get s' k' = (if k' = k then Some a else dict_get s k')"
    by (simp add: s' dict_simps)
qed

text \<open>Lookups by capability return exactly the enabled agents that declare it.\<close>

lemma find_by_capability_iff:
  "agents_wf r \<Longrightarrow> a \<in> set (find_by_capability c True r) \<longleftrightarrow>
     dict_get r (ad_id (ag_definition a)) = Some a \<and> ad_enabled (ag_definition a) \<and>
     c \<in> set (ad_capabilities (ag_definition a))"
  by (force simp: find_by_capability_def agents_wf_def dict_wf_map_of [symmetric])

end
