(* ===== verification/Agent_Runtime.thy ===== *)
theory Agent_Runtime
  imports Agent_Model Tool_Executor
begin

text \<open>
  The services around the orchestrator: bounded recovery (\<open>agents/recovery.py\<close>), approvals
  (\<open>agents/approval.py\<close>), checkpoints (\<open>agents/checkpoint.py\<close>), the evidence-based verifier
  (\<open>agents/verifier.py\<close>), observations (\<open>agents/observation.py\<close>) and the task executor
  (\<open>agents/executor.py\<close>), which guards the tools of an agent. Log lines and files written as a side
  effect of a checkpoint are left out; a checkpoint file that can be read back is a parameter.
\<close>

section \<open>Recovery\<close>

record recovery_engine =
  re_max_step_retries :: nat
  re_max_replans :: nat
  re_max_recovery_attempts :: nat

definition can_retry_step :: "recovery_engine \<Rightarrow> agent_task \<Rightarrow> bool" where
  "can_retry_step re t = (at_retry_count t < re_max_step_retries re)"

definition can_replan :: "recovery_engine \<Rightarrow> agent_run \<Rightarrow> bool" where
  "can_replan re r =
     (length (filter (\<lambda>a. ra_state a = REPLANNING) (ar_recovery r)) < re_max_replans re)"

text \<open>The task and the run afterwards, the decision and its description.\<close>

definition evaluate_failure ::
  "recovery_engine \<Rightarrow> agent_task \<Rightarrow> string \<Rightarrow> agent_run
     \<Rightarrow> agent_task \<times> agent_run \<times> recovery_state \<times> string" where
  "evaluate_failure re t err r =
     (let total_attempts = length (ar_recovery r)
      in if re_max_recovery_attempts re \<le> total_attempts
         then (t, r, ABORTED, ''Global recovery budget exhausted'')
         else if can_retry_step re t
         then let t' = t\<lparr>at_retry_count := at_retry_count t + 1\<rparr>;
                  action = ''Retry task '' @ quoted (at_id t) @ '' (Attempt '' @ show_nat (at_retry_count t')
                           @ ''/'' @ show_nat (re_max_step_retries re) @ '')'';
                  attempt = \<lparr>ra_task_id = at_id t, ra_failure_reason = err, ra_recovery_action = action,
                             ra_state = RETRYING, ra_attempt_number = at_retry_count t'\<rparr>
              in (t', r\<lparr>ar_recovery := ar_recovery r @ [attempt]\<rparr>, RETRYING, action)
         else if can_replan re r
         then let action = ''Trigger replanning due to persistent failure in task '' @ quoted (at_id t);
                  attempt = \<lparr>ra_task_id = at_id t, ra_failure_reason = err, ra_recovery_action = action,
                             ra_state = REPLANNING, ra_attempt_number = total_attempts + 1\<rparr>
              in (t, r\<lparr>ar_recovery := ar_recovery r @ [attempt]\<rparr>, REPLANNING, action)
         else let action = ''No further recovery possible for task '' @ quoted (at_id t) @ ''. Terminal failure.'';
                  attempt = \<lparr>ra_task_id = at_id t, ra_failure_reason = err, ra_recovery_action = action,
                             ra_state = ABORTED, ra_attempt_number = total_attempts + 1\<rparr>
              in (t, r\<lparr>ar_recovery := ar_recovery r @ [attempt]\<rparr>, ABORTED, action))"

lemma evaluate_failure_frame:
  assumes "evaluate_failure re t err r = (t', r', st, action)"
  shows "at_id t' = at_id t" "at_dependencies t' = at_dependencies t"
    "at_assigned_agent t' = at_assigned_agent t"
    "\<exists>rec. r' = r\<lparr>ar_recovery := rec\<rparr>"
    "st = RETRYING \<Longrightarrow> at_retry_count t' = Suc (at_retry_count t) \<and> at_retry_count t' \<le> re_max_step_retries re"
    "st \<noteq> RETRYING \<Longrightarrow> t' = t"
  using assms
  by (auto simp: evaluate_failure_def Let_def can_retry_step_def split: if_splits intro: exI [of _ "ar_recovery r"])

lemma evaluate_failure_budget:
  assumes "evaluate_failure re t err r = (t', r', st, action)"
    and "length (ar_recovery r) \<le> re_max_recovery_attempts re"
  shows "length (ar_recovery r') \<le> re_max_recovery_attempts re"
    and "length (filter (\<lambda>a. ra_state a = REPLANNING) (ar_recovery r')) \<le>
         max (length (filter (\<lambda>a. ra_state a = REPLANNING) (ar_recovery r))) (re_max_replans re)"
    and "st = RETRYING \<Longrightarrow> length (ar_recovery r') = Suc (length (ar_recovery r))"
  using assms
  by (auto simp: evaluate_failure_def Let_def can_replan_def split: if_splits)

section \<open>Approvals\<close>

record approval_manager =
  am_pending :: "agent_approval dict"
  am_history :: "agent_approval dict"

definition create_request :: "agent_approval \<Rightarrow> approval_manager \<Rightarrow> approval_manager" where
  "create_request q am =
     (let req = q\<lparr>ap_approved := None, ap_resolved_by := None\<rparr>
      in am\<lparr>am_pending := dict_put (ap_approval_id req) req (am_pending am),
            am_history := dict_put (ap_approval_id req) req (am_history am)\<rparr>)"

definition resolve_request ::
  "string \<Rightarrow> bool \<Rightarrow> string \<Rightarrow> approval_manager \<Rightarrow> approval_manager \<times> (string + agent_approval)" where
  "resolve_request k approved by_whom am =
     (case dict_get (am_pending am) k of
        None \<Rightarrow> (am, Inl (''Approval request '' @ quoted k @ '' is not pending.''))
      | Some req \<Rightarrow>
          let req' = req\<lparr>ap_approved := Some approved, ap_resolved_by := Some by_whom\<rparr>
          in (am\<lparr>am_pending := dict_del k (am_pending am), am_history := dict_put k req' (am_history am)\<rparr>,
              Inr req'))"

definition get_request :: "approval_manager \<Rightarrow> string \<Rightarrow> agent_approval option" where
  "get_request am k = dict_get (am_history am) k"

definition list_pending :: "string option \<Rightarrow> approval_manager \<Rightarrow> agent_approval list" where
  "list_pending run_id am =
     (let requests = map snd (am_pending am)
      in case run_id of None \<Rightarrow> requests
         | Some r \<Rightarrow> if r = [] then requests else filter (\<lambda>q. ap_run_id q = r) requests)"

inductive approval_step :: "approval_manager \<Rightarrow> approval_manager \<Rightarrow> bool" where
  create: "ap_approval_id q = k \<Longrightarrow> \<not> dict_has (am_history am) k \<Longrightarrow> approval_step am (create_request q am)"
| resolve: "approval_step am (fst (resolve_request k b by_whom am))"

inductive_cases approval_stepE: "approval_step am am'"

text \<open>Pending requests are undecided entries of the history, all others are decided.\<close>

definition approvals_wf :: "approval_manager \<Rightarrow> bool" where
  "approvals_wf am = (\<forall>k q. dict_get (am_pending am) k = Some q
       \<longleftrightarrow> dict_get (am_history am) k = Some q \<and> ap_approved q = None)"

lemma approval_step_wf: "approval_step am am' \<Longrightarrow> approvals_wf am \<Longrightarrow> approvals_wf am'"
proof (induction rule: approval_step.induct)
  case (create q k am)
  then show ?case by (auto simp: approvals_wf_def create_request_def Let_def dict_simps)
next
  case (resolve am k b by_whom)
  show ?case
  proof (cases "dict_get (am_pending am) k")
    case None
    then show ?thesis using resolve by (simp add: resolve_request_def)
  next
    case (Some q)
    then have "fst (resolve_request k b by_whom am) = am\<lparr>am_pending := dict_del k (am_pending am),
        am_history := dict_put k (q\<lparr>ap_approved := Some b, ap_resolved_by := Some by_whom\<rparr>) (am_history am)\<rparr>"
      by (simp add: resolve_request_def Let_def)
    then show ?thesis using resolve by (auto simp: approvals_wf_def dict_simps)
  qed
qed

text \<open>A decision is final: no step changes it.\<close>

lemma approval_step_final:
  assumes "approval_step am am'" and "approvals_wf am"
    and "get_request am k = Some q" and "ap_approved q = Some b"
  shows "get_request am' k = Some q"
  using assms
proof (induction rule: approval_step.induct)
  case (create q' k' am)
  then show ?case
    by (auto simp: get_request_def create_request_def Let_def dict_simps dict_has_def)
next
  case (resolve am k' b' by_whom)
  have "dict_get (am_pending am) k = None"
    using resolve by (cases "dict_get (am_pending am) k") (auto simp: approvals_wf_def get_request_def)
  then show ?case using resolve
    by (auto simp: resolve_request_def get_request_def Let_def dict_simps split: option.splits)
qed

inductive approval_reach :: "approval_manager \<Rightarrow> approval_manager \<Rightarrow> bool" for am where
  start: "approval_reach am am"
| more: "approval_reach am am1 \<Longrightarrow> approval_step am1 am2 \<Longrightarrow> approval_reach am am2"

text \<open>
  Decisions are final. From any well-formed approval store, whatever requests are created and
  resolved afterwards, a request that has been approved or denied keeps its decision, and it is
  never pending again; resolving it a second time raises.
\<close>

theorem approval_decision_final:
  assumes "approval_reach am am'" and "approvals_wf am"
    and "get_request am k = Some q" and "ap_approved q = Some b"
  shows "get_request am' k = Some q \<and> approvals_wf am' \<and> dict_get (am_pending am') k = None \<and>
         (\<exists>e. snd (resolve_request k b2 by_whom am') = Inl e)"
proof -
  have "get_request am' k = Some q \<and> approvals_wf am'"
    using assms by (induction rule: approval_reach.induct)
      (auto intro: approval_step_wf dest: approval_step_final)
  moreover from this have "dict_get (am_pending am') k = None"
    using assms(4) by (cases "dict_get (am_pending am') k") (auto simp: approvals_wf_def get_request_def)
  ultimately show ?thesis by (simp add: resolve_request_def)
qed

definition demo_approval :: "string \<Rightarrow> bool option \<Rightarrow> agent_approval" where
  "demo_approval k b = \<lparr>ap_approval_id = k, ap_run_id = ''r'', ap_task_id = ''t'', ap_agent_id = ''a'',
     ap_tool_id = ''x'', ap_reason = ''risk'', ap_risk_level = ''high'', ap_arguments = [],
     ap_approved = b, ap_resolved_by = None\<rparr>"

theorem approval_decision_final_witness:
  "get_request \<lparr>am_pending = [], am_history = [(''k'', demo_approval ''k'' (Some False))]\<rparr> ''k''
     = Some (demo_approval ''k'' (Some False))"
proof -
  let ?am = "\<lparr>am_pending = [], am_history = [(''k'', demo_approval ''k'' (Some False))]\<rparr>"
  have wf: "approvals_wf ?am" by (auto simp: approvals_wf_def demo_approval_def)
  have get: "get_request ?am ''k'' = Some (demo_approval ''k'' (Some False))"
    by (simp add: get_request_def)
  have dec: "ap_approved (demo_approval ''k'' (Some False)) = Some False"
    by (simp add: demo_approval_def)
  from approval_decision_final [OF approval_reach.start wf get dec] show ?thesis by blast
qed

section \<open>Checkpoints\<close>

text \<open>The in-memory store, and the files the store can read: \<open>None\<close> for a missing or broken file.\<close>

record checkpoint_store =
  cs_has_dir :: bool
  cs_memory :: "agent_run dict"
  cs_files :: "string \<Rightarrow> agent_run option"

definition checkpoint_save :: "agent_run \<Rightarrow> checkpoint_store \<Rightarrow> checkpoint_store" where
  "checkpoint_save r cs = cs\<lparr>cs_memory := dict_put (ar_run_id r) r (cs_memory cs),
     cs_files := (if cs_has_dir cs then (cs_files cs)(ar_run_id r := Some r) else cs_files cs)\<rparr>"

definition checkpoint_load :: "string \<Rightarrow> checkpoint_store \<Rightarrow> checkpoint_store \<times> agent_run option" where
  "checkpoint_load k cs = (case dict_get (cs_memory cs) k of
       Some r \<Rightarrow> (cs, Some r)
     | None \<Rightarrow>
         if cs_has_dir cs
         then (case cs_files cs k of
                 Some r \<Rightarrow> (cs\<lparr>cs_memory := dict_put k r (cs_memory cs)\<rparr>, Some r)
               | None \<Rightarrow> (cs, None))
         else (cs, None))"

definition checkpoint_delete :: "string \<Rightarrow> checkpoint_store \<Rightarrow> checkpoint_store \<times> bool" where
  "checkpoint_delete k cs =
     (let removed = dict_has (cs_memory cs) k;
          on_disk = cs_has_dir cs \<and> cs_files cs k \<noteq> None
      in (cs\<lparr>cs_memory := dict_del k (cs_memory cs),
             cs_files := (if on_disk then (cs_files cs)(k := None) else cs_files cs)\<rparr>, removed \<or> on_disk))"

lemma checkpoint_load_save: "snd (checkpoint_load (ar_run_id r) (checkpoint_save r cs)) = Some r"
  by (simp add: checkpoint_load_def checkpoint_save_def dict_simps)

lemma checkpoint_load_delete: "snd (checkpoint_load k (fst (checkpoint_delete k cs))) = None"
  by (auto simp: checkpoint_load_def checkpoint_delete_def Let_def dict_simps split: option.splits)

section \<open>Verification\<close>

record file_facts =
  ff_exists :: "pypath \<Rightarrow> bool"
  ff_size :: "pypath \<Rightarrow> nat"

record agent_verifier =
  av_sandbox :: "(file_system \<times> string list) option"
  av_files :: file_facts

definition pypath_text :: "pypath \<Rightarrow> string" where
  "pypath_text p = (if pp_absolute p then path_text (pp_parts p)
                    else if pp_parts p = [] then ''.'' else join ''/'' (pp_parts p))"

definition resolve_artifact :: "agent_verifier \<Rightarrow> string \<Rightarrow> pypath" where
  "resolve_artifact av s =
     (let path_obj = parse_path s
      in case av_sandbox av of
           None \<Rightarrow> path_obj
         | Some (fs, ws) \<Rightarrow>
             (case resolve_safe_path fs ws (pypath_text path_obj) None False of
                Inr q \<Rightarrow> \<lparr>pp_absolute = True, pp_parts = q\<rparr>
              | Inl _ \<Rightarrow> path_obj))"

text \<open>The loop over the artifacts: what is missing and what is verified.\<close>

fun check_artifacts :: "agent_verifier \<Rightarrow> string list \<Rightarrow> string list \<times> string list" where
  "check_artifacts av [] = ([], [])"
| "check_artifacts av (a # as) =
     (let p = resolve_artifact av a;
          (missing, verified) = check_artifacts av as
      in if \<not> ff_exists (av_files av) p then ((''missing_file:'' @ path_name (pp_parts p)) # missing, verified)
         else if ff_size (av_files av) p = 0
         then ((''empty_file:'' @ path_name (pp_parts p)) # missing, verified)
         else (missing, pypath_text p # verified))"

definition text_or :: "string \<Rightarrow> string option \<Rightarrow> string" where
  "text_or d s = (case s of None \<Rightarrow> d | Some t \<Rightarrow> if t = [] then d else t)"

definition opt_text :: "string option \<Rightarrow> string" where
  "opt_text s = (case s of None \<Rightarrow> ''None'' | Some t \<Rightarrow> t)"

definition has_output :: "pyval \<Rightarrow> bool" where
  "has_output v = (case v of PNone \<Rightarrow> False | PStr s \<Rightarrow> strip s \<noteq> [] | _ \<Rightarrow> True)"

definition failed_tool :: "agent_observation \<Rightarrow> bool" where
  "failed_tool ob = ((case ob_tool_id ob of None \<Rightarrow> False | Some t \<Rightarrow> t \<noteq> []) \<and> ob_status ob \<noteq> ''success'')"

definition verify_step :: "agent_verifier \<Rightarrow> agent_task \<Rightarrow> agent_step_result \<Rightarrow> agent_verification" where
  "verify_step av t res =
     (if sr_status res \<noteq> KCOMPLETED
      then \<lparr>vr_task_id = at_id t, vr_state = VFAILED, vr_score = 0, vr_verified_artifacts = [],
            vr_missing_evidence = [],
            vr_notes = ''Task execution did not complete successfully: '' @ text_or ''unknown error'' (sr_error res)\<rparr>
      else case filter failed_tool (sr_observations res) of
        ob # _ \<Rightarrow> \<lparr>vr_task_id = at_id t, vr_state = VFAILED, vr_score = 0, vr_verified_artifacts = [],
            vr_missing_evidence = [''tool:'' @ opt_text (ob_tool_id ob)],
            vr_notes = ''Tool '' @ quoted (opt_text (ob_tool_id ob)) @ '' reported failure: '' @ opt_text (ob_error ob)\<rparr>
      | [] \<Rightarrow>
          let (missing, verified) = check_artifacts av (remdups (sr_artifacts res @ at_artifacts t));
              out = has_output (sr_output res);
              missing = (if \<not> out \<and> verified = [] then missing @ [''empty_result_payload''] else missing)
          in if missing \<noteq> []
             then if verified \<noteq> [] \<or> out
                  then \<lparr>vr_task_id = at_id t, vr_state = VPARTIAL, vr_score = 1 / 2,
                        vr_verified_artifacts = verified, vr_missing_evidence = missing,
                        vr_notes = ''Partial verification: missing evidence for '' @ repr_list missing\<rparr>
                  else \<lparr>vr_task_id = at_id t, vr_state = VFAILED, vr_score = 0,
                        vr_verified_artifacts = verified, vr_missing_evidence = missing,
                        vr_notes = ''Verification failed: missing critical evidence '' @ repr_list missing\<rparr>
             else \<lparr>vr_task_id = at_id t, vr_state = VPASSED, vr_score = 1, vr_verified_artifacts = verified,
                   vr_missing_evidence = [],
                   vr_notes = ''All tool executions, outputs, and artifacts successfully verified.''\<rparr>)"

definition verify_plan :: "agent_plan \<Rightarrow> agent_verification dict \<Rightarrow> bool" where
  "verify_plan p vs = (\<forall>t \<in> set (pl_tasks p). case dict_get vs (at_id t) of
       None \<Rightarrow> False | Some v \<Rightarrow> vr_state v = VPASSED)"

definition artifact_ok :: "agent_verifier \<Rightarrow> string \<Rightarrow> bool" where
  "artifact_ok av a = (ff_exists (av_files av) (resolve_artifact av a) \<and>
                       0 < ff_size (av_files av) (resolve_artifact av a))"

lemma check_artifacts_missing: "fst (check_artifacts av as) = [] \<longleftrightarrow> (\<forall>a \<in> set as. artifact_ok av a)"
  by (induction as) (auto simp: artifact_ok_def Let_def split: prod.splits)

lemma check_artifacts_verified:
  "snd (check_artifacts av as) = map (\<lambda>a. pypath_text (resolve_artifact av a)) (filter (artifact_ok av) as)"
  by (induction as) (auto simp: artifact_ok_def Let_def split: prod.splits)

text \<open>
  What a passed verification means. A step is verified as PASSED exactly when the agent reported
  completion, no observation of a tool is a failure, every artifact the step or the task names
  exists and is not empty, and there is an output or at least one artifact.
\<close>

theorem verify_step_passed_iff:
  "(vr_state (verify_step av t res) = VPASSED) =
     (sr_status res = KCOMPLETED \<and> filter failed_tool (sr_observations res) = [] \<and>
      list_all (artifact_ok av) (sr_artifacts res @ at_artifacts t) \<and>
      (if sr_artifacts res @ at_artifacts t = [] then has_output (sr_output res) else True))"
proof (cases "filter failed_tool (sr_observations res)")
  case (Cons ob obs)
  then show ?thesis by (auto simp: verify_step_def)
next
  case Nil
  let ?as = "remdups (sr_artifacts res @ at_artifacts t)"
  obtain missing verified where ca: "check_artifacts av ?as = (missing, verified)" by fastforce
  have m: "missing = [] \<longleftrightarrow> (\<forall>a \<in> set (sr_artifacts res) \<union> set (at_artifacts t). artifact_ok av a)"
    using check_artifacts_missing [of av ?as] ca by simp
  have v: "missing = [] \<Longrightarrow> verified = [] \<longleftrightarrow> sr_artifacts res = [] \<and> at_artifacts t = []"
  proof -
    assume "missing = []"
    then have "filter (artifact_ok av) ?as = ?as" using check_artifacts_missing [of av ?as] ca
      by (intro filter_True) simp
    then have "verified = map (\<lambda>a. pypath_text (resolve_artifact av a)) ?as"
      using check_artifacts_verified [of av ?as] ca by simp
    then show ?thesis by (metis (no_types) append_is_Nil_conv list.map_disc_iff remdups_eq_nil_iff)
  qed
  show ?thesis
    using m v by (cases "has_output (sr_output res)"; cases "verified = []"; cases "missing = []")
      (auto simp: verify_step_def Nil ca Let_def list_all_iff)
qed

section \<open>Observations and the task executor\<close>

definition from_tool_result :: "string \<Rightarrow> tool_result \<Rightarrow> pyval dict \<Rightarrow> agent_observation" where
  "from_tool_result task_id r extra =
     (let ev0 = dict_merge [(''execution_id'', PStr (tr_execution_id r)),
                            (''status'', PStr (tool_status_value (tr_status r))),
                            (''artifacts'', PList (map PStr (tr_artifacts r)))] extra;
          ev = (case tr_output r of
                  PDict d \<Rightarrow> fold (\<lambda>k e. case dict_get d k of Some v \<Rightarrow> dict_put k v e | None \<Rightarrow> e)
                               [''size_bytes'', ''paragraphs_count'', ''sheets_count'', ''slides_count''] ev0
                | _ \<Rightarrow> ev0)
      in \<lparr>ob_task_id = task_id, ob_tool_id = Some (tr_tool_id r), ob_status = tool_status_value (tr_status r),
          ob_output = tr_output r, ob_artifacts = tr_artifacts r, ob_duration_ms = tr_duration_ms r,
          ob_evidence = ev, ob_error = tr_error r\<rparr>)"

definition from_agent_computation ::
  "string \<Rightarrow> pyval \<Rightarrow> string \<Rightarrow> string option \<Rightarrow> agent_observation" where
  "from_agent_computation task_id out st err =
     \<lparr>ob_task_id = task_id, ob_tool_id = None, ob_status = st, ob_output = out, ob_artifacts = [],
      ob_duration_ms = 0, ob_evidence = [], ob_error = err\<rparr>"

definition step_failure :: "agent_task \<Rightarrow> string \<Rightarrow> agent_step_result" where
  "step_failure t err = \<lparr>sr_task_id = at_id t, sr_agent_id = at_assigned_agent t, sr_status = KFAILED,
     sr_output = PNone, sr_artifacts = [], sr_observations = [], sr_error = Some err\<rparr>"

definition execute_task ::
  "'w agent_registry \<Rightarrow> agent_task \<Rightarrow> agent_observation list \<Rightarrow> 'w \<Rightarrow> 'w \<times> agent_step_result" where
  "execute_task reg t prior w =
     (case agent_get reg (at_assigned_agent t) of
        Inl _ \<Rightarrow> (w, step_failure t (''Assigned agent '' @ quoted (at_assigned_agent t) @ '' is not registered.''))
      | Inr a \<Rightarrow>
          if \<not> ad_enabled (ag_definition a)
          then (w, step_failure t (''Assigned agent '' @ quoted (at_assigned_agent t) @ '' is currently disabled.''))
          else case ag_execute a t prior w of
                 (w', Inr res) \<Rightarrow> (w', res)
               | (w', Inl exc) \<Rightarrow> (w', step_failure t exc))"

text \<open>The observation, or an exception of the executor; a fresh execution id is an argument.\<close>

definition execute_tool_for_agent ::
  "(rat \<Rightarrow> string) \<Rightarrow> rat \<Rightarrow> string \<Rightarrow> 'w tool_executor option \<Rightarrow> agent_definition \<Rightarrow> string \<Rightarrow> pyval dict
     \<Rightarrow> string option \<Rightarrow> string \<Rightarrow> 'w exec_state \<Rightarrow> 'w exec_state \<times> (string + agent_observation)" where
  "execute_tool_for_agent sf dur eid te ad tool_id args corr task_id x =
     (case te of
        None \<Rightarrow> (x, Inl ''Cannot execute tool: No ToolExecutor configured.'')
      | Some te \<Rightarrow>
          if ad_allowed_tools ad \<noteq> [] \<and> tool_id \<notin> set (ad_allowed_tools ad)
          then (x, Inr (from_agent_computation task_id PNone ''denied''
                 (Some (''Agent '' @ quoted (ad_id ad) @ '' is not authorized to invoke tool '' @ quoted tool_id @ ''.''))))
          else case execute sf dur te \<lparr>tq_execution_id = eid, tq_tool_id = tool_id, tq_arguments = args,
                        tq_correlation_id = corr, tq_caller = ad_id ad\<rparr> None x of
                 (x', Inr r) \<Rightarrow> (x', Inr (from_tool_result task_id r []))
               | (x', Inl ExCancelled) \<Rightarrow> (x', Inl ''cancelled'')
               | (x', Inl ExInvalidArtifacts) \<Rightarrow> (x', Inl ''invalid artifacts''))"

text \<open>
  An agent's tools. With an allow list, a call to a tool outside it is answered with a denied
  observation and changes nothing: no event, no audit record, no effect on the world. An agent whose
  allow list is empty is not restricted: its call goes to the executor as it is.
\<close>

theorem agent_tool_guard:
  "if ad_allowed_tools ad \<noteq> [] \<and> tool_id \<notin> set (ad_allowed_tools ad)
   then fst (execute_tool_for_agent sf dur eid (Some te) ad tool_id args corr task_id x) = x \<and>
        (\<exists>ob. snd (execute_tool_for_agent sf dur eid (Some te) ad tool_id args corr task_id x) = Inr ob \<and>
              ob_status ob = ''denied'' \<and> ob_error ob \<noteq> None)
   else fst (execute_tool_for_agent sf dur eid (Some te) ad tool_id args corr task_id x)
        = fst (execute sf dur te \<lparr>tq_execution_id = eid, tq_tool_id = tool_id, tq_arguments = args,
                 tq_correlation_id = corr, tq_caller = ad_id ad\<rparr> None x)"
  by (auto simp: execute_tool_for_agent_def from_agent_computation_def
      split: prod.splits sum.splits exec_exit.splits)

end
