(* ===== verification/Plan_Validator.thy ===== *)
theory Plan_Validator
  imports Agent_Model "HOL-Library.Multiset"
begin

text \<open>
  The plan validator (\<open>agents/plan_validator.py\<close>): structural checks of a plan and Kahn's algorithm,
  which partitions its tasks into waves. The two registries are optional, as in the code. The loop
  over the waves terminates because a further wave needs an in-degree that reached zero.
\<close>

record 'w plan_validator =
  pv_max_steps :: nat
  pv_agents :: "'w agent_registry option"
  pv_tools :: "'w tool_registry option"

section \<open>Structural checks\<close>

fun build_task_map :: "agent_task list \<Rightarrow> agent_task dict \<Rightarrow> string + agent_task dict" where
  "build_task_map [] m = Inr m"
| "build_task_map (t # ts) m =
     (if at_id t = [] then Inl ''Every task must have a non-empty string ID.''
      else if dict_has m (at_id t)
      then Inl (''Duplicate task ID detected in plan: '' @ quoted (at_id t))
      else build_task_map ts (dict_put (at_id t) t m))"

definition check_dependency :: "agent_task dict \<Rightarrow> agent_task \<Rightarrow> string \<Rightarrow> string option" where
  "check_dependency m t dep =
     (if dep = at_id t then Some (''Task '' @ quoted (at_id t) @ '' cannot depend on itself.'')
      else if \<not> dict_has m dep
      then Some (''Task '' @ quoted (at_id t) @ '' specifies nonexistent dependency: '' @ quoted dep)
      else None)"

definition check_agent :: "'w agent_registry \<Rightarrow> agent_task \<Rightarrow> string option" where
  "check_agent r t = (case agent_get r (at_assigned_agent t) of
       Inl _ \<Rightarrow> Some (''Task '' @ quoted (at_id t) @ '' assigned to unregistered agent: ''
                      @ quoted (at_assigned_agent t))
     | Inr a \<Rightarrow> if \<not> ad_enabled (ag_definition a)
                then Some (''Task '' @ quoted (at_id t) @ '' assigned to disabled agent: ''
                           @ quoted (at_assigned_agent t))
                else None)"

definition check_tool :: "'h tool_registry \<Rightarrow> agent_task \<Rightarrow> string \<Rightarrow> string option" where
  "check_tool r t tool_id = (case tool_get r tool_id of
       Inl _ \<Rightarrow> Some (''Task '' @ quoted (at_id t) @ '' requires unregistered tool: '' @ quoted tool_id)
     | Inr d \<Rightarrow> if \<not> td_enabled d
                then Some (''Task '' @ quoted (at_id t) @ '' requires disabled tool: '' @ quoted tool_id)
                else None)"

definition check_task :: "'w plan_validator \<Rightarrow> agent_task dict \<Rightarrow> agent_task \<Rightarrow> string option" where
  "check_task pv m t =
     (case first_error (check_dependency m t) (at_dependencies t) of
        Some e \<Rightarrow> Some e
      | None \<Rightarrow>
          (case (case pv_agents pv of None \<Rightarrow> None | Some r \<Rightarrow> check_agent r t) of
             Some e \<Rightarrow> Some e
           | None \<Rightarrow> (case pv_tools pv of None \<Rightarrow> None
                      | Some r \<Rightarrow> first_error (check_tool r t) (at_required_tools t))))"

section \<open>Kahn's algorithm\<close>

definition init_in_degree :: "agent_task dict \<Rightarrow> int dict" where
  "init_in_degree m = map (\<lambda>(k, t). (k, int (length (at_dependencies t)))) m"

text \<open>The \<open>defaultdict\<close> of dependents.\<close>

definition dependents_of :: "string list dict \<Rightarrow> string \<Rightarrow> string list" where
  "dependents_of ds k = (case dict_get ds k of Some xs \<Rightarrow> xs | None \<Rightarrow> [])"

definition add_dependent :: "string \<Rightarrow> string \<Rightarrow> string list dict \<Rightarrow> string list dict" where
  "add_dependent k dep ds = dict_put dep (dependents_of ds dep @ [k]) ds"

definition build_dependents :: "agent_task dict \<Rightarrow> string list dict" where
  "build_dependents m = fold (\<lambda>(k, t). fold (add_dependent k) (at_dependencies t)) m []"

fun relax :: "agent_task dict \<Rightarrow> string list \<Rightarrow> int dict \<times> agent_task list \<Rightarrow> int dict \<times> agent_task list" where
  "relax m [] st = st"
| "relax m (k # ks) (deg, nxt) =
     (case dict_get deg k of
        None \<Rightarrow> relax m ks (deg, nxt)
      | Some d \<Rightarrow>
          relax m ks (dict_put k (d - 1) deg,
            if d - 1 = 0 then (case dict_get m k of Some t \<Rightarrow> nxt @ [t] | None \<Rightarrow> nxt) else nxt))"

fun process_wave :: "agent_task dict \<Rightarrow> string list dict \<Rightarrow> agent_task list \<Rightarrow> int dict \<times> agent_task list
    \<Rightarrow> int dict \<times> agent_task list" where
  "process_wave m ds [] st = st"
| "process_wave m ds (t # ts) st = process_wave m ds ts (relax m (dependents_of ds (at_id t)) st)"

text \<open>How many in-degrees are still positive.\<close>

definition positives :: "int dict \<Rightarrow> nat" where
  "positives deg = length (filter (\<lambda>(_, d). 0 < d) deg)"

lemma positives_put:
  "dict_get deg k = Some d \<Longrightarrow>
     positives (dict_put k (d - 1) deg) + (if d - 1 = 0 then 1 else 0) \<le> positives deg"
  by (induction deg) (auto simp: positives_def split: if_splits)

lemma relax_positives:
  "positives (fst (relax m ks st)) + length (snd (relax m ks st)) \<le> positives (fst st) + length (snd st)"
proof (induction m ks st rule: relax.induct)
  case (2 m k ks deg nxt)
  show ?case
  proof (cases "dict_get deg k")
    case (Some d)
    then show ?thesis
      using "2.IH"(2) [OF Some] positives_put [OF Some] by (auto split: if_splits option.splits)
  qed (use 2 in simp)
qed simp

lemma process_wave_positives:
  "positives (fst (process_wave m ds w st)) + length (snd (process_wave m ds w st))
     \<le> positives (fst st) + length (snd st)"
proof (induction m ds w st rule: process_wave.induct)
  case (2 m ds t ts st)
  then show ?case using relax_positives [of m "dependents_of ds (at_id t)" st] by simp
qed simp

function kahn_loop :: "agent_task dict \<Rightarrow> string list dict \<Rightarrow> int dict \<Rightarrow> agent_task list \<Rightarrow> agent_task list list
    \<Rightarrow> nat \<Rightarrow> agent_task list list \<times> nat \<times> int dict" where
  "kahn_loop m ds deg wave waves n =
     (if wave = [] then (waves, n, deg)
      else let (deg', nxt) = process_wave m ds wave (deg, [])
           in kahn_loop m ds deg' nxt (waves @ [wave]) (n + length wave))"
  by pat_completeness auto
termination
proof (relation "measure (\<lambda>(m, ds, deg, wave, waves, n). positives deg + (if wave = [] then 0 else 1))")
  fix m ds deg and wave :: "agent_task list" and waves n x deg' nxt
  assume "wave \<noteq> []" and "x = process_wave m ds wave (deg, [])" and "(deg', nxt) = x"
  then have "positives deg' + length nxt \<le> positives deg"
    using process_wave_positives [of m ds wave "(deg, [])"] by (metis add.right_neutral fst_conv list.size(3) snd_conv)
  then show "((m, ds, deg', nxt, waves @ [wave], n + length wave), (m, ds, deg, wave, waves, n))
      \<in> measure (\<lambda>(m, ds, deg, wave, waves, n). positives deg + (if wave = [] then 0 else 1))"
    using \<open>wave \<noteq> []\<close> by (cases nxt) auto
qed simp

declare kahn_loop.simps [simp del]

definition validate_and_sort :: "'w plan_validator \<Rightarrow> agent_plan \<Rightarrow> string + agent_task list list" where
  "validate_and_sort pv p =
     (if pl_tasks p = [] then Inl ''Plan must contain at least one task.''
      else if length (pl_tasks p) > pv_max_steps pv
      then Inl (''Plan step count ('' @ show_nat (length (pl_tasks p)) @ '') exceeds maximum permitted (''
                @ show_nat (pv_max_steps pv) @ '').'')
      else bind_res (build_task_map (pl_tasks p) []) (\<lambda>m.
        case first_error (check_task pv m) (pl_tasks p) of
          Some e \<Rightarrow> Inl e
        | None \<Rightarrow>
            let deg = init_in_degree m;
                ds = build_dependents m;
                wave = map snd (filter (\<lambda>(k, t). dict_get deg k = Some 0) m);
                (waves, n, deg') = kahn_loop m ds deg wave [] 0
            in if n < length m
               then Inl (''Circular dependency detected in plan involving tasks: ''
                         @ repr_list (map fst (filter (\<lambda>(_, d). 0 < d) deg')))
               else Inr waves))"


section \<open>Correctness of the waves\<close>

definition degf :: "int dict \<Rightarrow> string \<Rightarrow> int" where
  "degf deg k = (case dict_get deg k of Some d \<Rightarrow> d | None \<Rightarrow> 0)"

definition ids :: "agent_task list \<Rightarrow> string list" where
  "ids ts = map at_id ts"

text \<open>The task map of a plan with distinct ids.\<close>

definition task_map :: "agent_task list \<Rightarrow> agent_task dict" where
  "task_map ts = map (\<lambda>t. (at_id t, t)) ts"

lemma build_task_map_eq:
  "build_task_map ts m = Inr m' \<Longrightarrow> dict_wf m \<Longrightarrow>
     m' = m @ task_map ts \<and> dict_wf m' \<and> (\<forall>t \<in> set ts. at_id t \<noteq> [])"
proof (induction ts m rule: build_task_map.induct)
  case (2 t ts m)
  then have c: "at_id t \<noteq> []" "\<not> dict_has m (at_id t)"
    and rec: "build_task_map ts (dict_put (at_id t) t m) = Inr m'"
    by (auto split: if_splits)
  from "2.IH" [OF c rec dict_wf_put [OF "2.prems"(2)]] show ?case
    using c by (auto simp: dict_put_fresh task_map_def)
qed (simp add: task_map_def)

lemma build_task_map_ok:
  "distinct (ids ts) \<Longrightarrow> \<forall>t \<in> set ts. at_id t \<noteq> [] \<and> \<not> dict_has m (at_id t) \<Longrightarrow>
     build_task_map ts m = Inr (m @ task_map ts)"
proof (induction ts arbitrary: m)
  case (Cons t ts)
  have "build_task_map ts (m @ [(at_id t, t)]) = Inr ((m @ [(at_id t, t)]) @ task_map ts)"
  proof (rule Cons.IH)
    have "at_id u \<noteq> at_id t" if "u \<in> set ts" for u
      using Cons.prems(1) that by (metis ids_def distinct.simps(2) image_eqI list.set_map list.simps(9))
    then show "\<forall>u \<in> set ts. at_id u \<noteq> [] \<and> \<not> dict_has (m @ [(at_id t, t)]) (at_id u)"
      using Cons.prems(2) by (auto simp: dict_has_iff)
  qed (use Cons.prems(1) in \<open>simp add: ids_def\<close>)
  then show ?case using Cons.prems by (simp add: dict_put_fresh task_map_def)
qed (simp add: task_map_def)

lemma task_map_keys: "map fst (task_map ts) = ids ts"
  by (simp add: task_map_def ids_def)

lemma task_map_get:
  "distinct (ids ts) \<Longrightarrow> dict_get (task_map ts) k = Some t \<longleftrightarrow> t \<in> set ts \<and> at_id t = k"
  using dict_wf_map_of [of "task_map ts" k t]
  by (auto simp: dict_wf_def task_map_keys) (auto simp: task_map_def)

text \<open>One relaxation: every in-degree drops by the number of its occurrences in the list, and the
  tasks whose in-degree is thereby used up are appended, each once.\<close>

lemma relax_spec:
  assumes "\<And>k. dict_has deg k \<Longrightarrow> \<exists>t. dict_get m k = Some t \<and> at_id t = k"
    and "\<forall>k \<in> set ks. dict_has deg k"
    and "relax m ks (deg, nxt) = (deg', nxt')"
  shows "(\<forall>k. degf deg' k = degf deg k - int (count_list ks k)) \<and> (\<forall>k. dict_has deg' k = dict_has deg k) \<and>
    (\<exists>xs. nxt' = nxt @ xs \<and> distinct (ids xs) \<and> (\<forall>t \<in> set xs. dict_get m (at_id t) = Some t) \<and>
       set (ids xs) = {k. 0 < degf deg k \<and> degf deg k \<le> int (count_list ks k)})"
  using assms
proof (induction m ks "(deg, nxt)" arbitrary: deg nxt rule: relax.induct)
  case (2 m k ks deg nxt)
  obtain d where d: "dict_get deg k = Some d" using "2.prems"(2) by (auto simp: dict_has_def)
  obtain t where t: "dict_get m k = Some t" "at_id t = k"
    using "2.prems"(1) [of k] d by (auto simp: dict_has_def)
  let ?deg1 = "dict_put k (d - 1) deg"
  let ?nxt1 = "if d - 1 = 0 then nxt @ [t] else nxt"
  have rec: "relax m ks (?deg1, ?nxt1) = (deg', nxt')"
    using "2.prems"(3) d t by (cases "d = 1") simp_all
  have dom: "dict_has ?deg1 j = dict_has deg j" for j using d by (auto simp: dict_simps dict_has_def)
  have ih: "(\<forall>j. degf deg' j = degf ?deg1 j - int (count_list ks j)) \<and> (\<forall>j. dict_has deg' j = dict_has ?deg1 j) \<and>
    (\<exists>xs. nxt' = ?nxt1 @ xs \<and> distinct (ids xs) \<and> (\<forall>t \<in> set xs. dict_get m (at_id t) = Some t) \<and>
       set (ids xs) = {j. 0 < degf ?deg1 j \<and> degf ?deg1 j \<le> int (count_list ks j)})"
  proof -
    have nx: "(if d - 1 = 0 then (case dict_get m k of Some t \<Rightarrow> nxt @ [t] | None \<Rightarrow> nxt) else nxt) = ?nxt1"
      using t by simp
    show ?thesis
      by (rule "2.hyps"(2) [OF d, unfolded nx]) (use "2.prems"(1,2) rec dom in auto)
  qed
  have deg1: "degf ?deg1 j = degf deg j - (if j = k then 1 else 0)" for j
    using d by (simp add: degf_def dict_simps)
  obtain xs where xs: "nxt' = ?nxt1 @ xs" "distinct (ids xs)" "\<forall>t \<in> set xs. dict_get m (at_id t) = Some t"
     "set (ids xs) = {j. 0 < degf ?deg1 j \<and> degf ?deg1 j \<le> int (count_list ks j)}"
    using ih by blast
  have dk: "degf deg k = d" using d by (simp add: degf_def)
  let ?ys = "(if d - 1 = 0 then [t] else []) @ xs"
  have sy: "set (ids ?ys) = (if d = 1 then {k} else {}) \<union> set (ids xs)"
    using t(2) by (simp add: ids_def)
  have "set (ids ?ys) = {j. 0 < degf deg j \<and> degf deg j \<le> int (count_list (k # ks) j)}"
  proof (rule set_eqI)
    fix j show "j \<in> set (ids ?ys) \<longleftrightarrow> j \<in> {j. 0 < degf deg j \<and> degf deg j \<le> int (count_list (k # ks) j)}"
      unfolding sy xs(4) deg1 by (cases "j = k"; cases "d = 1") (simp_all add: dk, linarith+)
  qed
  moreover have "distinct (ids ?ys)"
  proof (cases "d = 1")
    case True
    have "k \<notin> set (ids xs)" unfolding xs(4) mem_Collect_eq deg1 dk using True by simp
    then show ?thesis using xs(2) t(2) True by (simp add: ids_def)
  qed (use xs(2) in simp)
  moreover have "\<forall>t \<in> set ?ys. dict_get m (at_id t) = Some t" using xs(3) t by auto
  moreover have "nxt' = nxt @ ?ys" using xs(1) by simp
  moreover have "\<forall>j. degf deg' j = degf deg j - int (count_list (k # ks) j)"
    using ih deg1 by auto
  moreover have "\<forall>j. dict_has deg' j = dict_has deg j" using ih dom by simp
  ultimately show ?case by blast
qed (auto simp: ids_def)

lemma relax_append: "relax m (a @ b) st = relax m b (relax m a st)"
  by (induction m a st rule: relax.induct) (auto split: option.splits)

lemma process_wave_relax:
  "process_wave m ds w st = relax m (concat (map (\<lambda>t. dependents_of ds (at_id t)) w)) st"
  by (induction m ds w st rule: process_wave.induct) (simp_all add: relax_append)

text \<open>The dependents of \<open>w\<close> name each task as often as it lists \<open>w\<close> among its dependencies.\<close>

lemma add_dependents_count:
  "count_list (dependents_of (fold (add_dependent k) deps ds) w) j
     = count_list (dependents_of ds w) j + (if j = k then count_list deps w else 0)"
  by (induction deps arbitrary: ds) (auto simp: add_dependent_def dependents_of_def dict_simps)

lemma build_dependents_count_gen:
  "distinct (map fst m) \<Longrightarrow>
     count_list (dependents_of (fold (\<lambda>(k, t). fold (add_dependent k) (at_dependencies t)) m ds) w) j
       = count_list (dependents_of ds w) j
         + (case dict_get m j of Some t \<Rightarrow> count_list (at_dependencies t) w | None \<Rightarrow> 0)"
proof (induction m arbitrary: ds)
  case (Cons kt m)
  obtain k t where kt: "kt = (k, t)" by (cases kt)
  then have "dict_get m k = None" using Cons.prems by (auto simp: map_of_eq_None_iff)
  then show ?case using Cons kt by (auto simp: add_dependents_count)
qed simp

lemma build_dependents_count:
  "distinct (map fst m) \<Longrightarrow>
     count_list (dependents_of (build_dependents m) w) j
       = (case dict_get m j of Some t \<Rightarrow> count_list (at_dependencies t) w | None \<Rightarrow> 0)"
  unfolding build_dependents_def by (subst build_dependents_count_gen) (simp_all add: dependents_of_def)

lemma count_concat: "count_list (concat xss) k = sum_list (map (\<lambda>xs. count_list xs k) xss)"
  by (induction xss) simp_all

lemma sum_count_filter:
  "distinct ws \<Longrightarrow> sum_list (map (count_list deps) ws) = length (filter (\<lambda>d. d \<in> set ws) deps)"
proof (induction ws)
  case (Cons w ws)
  have "length (filter (\<lambda>d. d = w \<or> d \<in> set ws) deps)
      = count_list deps w + length (filter (\<lambda>d. d \<in> set ws) deps)"
    using Cons.prems by (induction deps) auto
  then show ?case using Cons by simp
qed simp

lemma wave_count:
  assumes "distinct (map fst m)" and "distinct (ids w)"
  shows "count_list (concat (map (\<lambda>t. dependents_of (build_dependents m) (at_id t)) w)) k
    = (case dict_get m k of
         Some t \<Rightarrow> length (filter (\<lambda>d. d \<in> set (ids w)) (at_dependencies t)) | None \<Rightarrow> 0)"
proof -
  have "count_list (concat (map (\<lambda>t. dependents_of (build_dependents m) (at_id t)) w)) k
    = sum_list (map (\<lambda>i. case dict_get m k of Some t \<Rightarrow> count_list (at_dependencies t) i | None \<Rightarrow> 0) (ids w))"
    by (simp add: count_concat build_dependents_count [OF assms(1)] ids_def comp_def)
  then show ?thesis
    using sum_count_filter [OF assms(2)] by (cases "dict_get m k") (simp_all add: comp_def)
qed


text \<open>The loop invariant: \<open>D\<close> are the ids of the tasks in the waves so far; the in-degree of a task is
  the number of its dependencies outside \<open>D\<close>, and the current wave are the tasks at zero.\<close>

definition kahn_inv :: "agent_task list \<Rightarrow> string set \<Rightarrow> int dict \<Rightarrow> agent_task list \<Rightarrow> bool" where
  "kahn_inv T D deg wave =
     ((\<forall>k. dict_has deg k = (k \<in> set (ids T))) \<and>
      (\<forall>t \<in> set T. degf deg (at_id t) = int (length (filter (\<lambda>d. d \<notin> D) (at_dependencies t)))) \<and>
      (\<forall>t \<in> set T. at_id t \<in> D \<longrightarrow> set (at_dependencies t) \<subseteq> D) \<and>
      distinct (ids wave) \<and> set wave \<subseteq> set T \<and>
      set (ids wave) = {k \<in> set (ids T). k \<notin> D \<and> degf deg k = 0})"

lemma filter_split_count:
  "D \<inter> W = {} \<Longrightarrow> length (filter (\<lambda>d. d \<notin> D) xs)
     = length (filter (\<lambda>d. d \<notin> D \<union> W) xs) + length (filter (\<lambda>d. d \<in> W) xs)"
  by (induction xs) auto

lemma kahn_step:
  assumes inv: "kahn_inv T D deg wave" and dist: "distinct (ids T)"
    and pw: "process_wave (task_map T) (build_dependents (task_map T)) wave (deg, []) = (deg', nxt)"
  shows "kahn_inv T (D \<union> set (ids wave)) deg' nxt"
proof -
  let ?m = "task_map T"
  let ?ks = "concat (map (\<lambda>t. dependents_of (build_dependents ?m) (at_id t)) wave)"
  let ?W = "set (ids wave)"
  have dm: "distinct (map fst ?m)" using dist by (simp add: task_map_keys)
  have dom: "dict_has deg k = (k \<in> set (ids T))" for k using inv by (simp add: kahn_inv_def)
  have get: "dict_get ?m (at_id t) = Some t" if "t \<in> set T" for t
    using task_map_get [OF dist] that by simp
  have getk: "\<exists>t. dict_get ?m k = Some t \<and> at_id t = k" if "k \<in> set (ids T)" for k
    using get that by (auto simp: ids_def)
  have dw: "distinct (ids wave)" using inv by (simp add: kahn_inv_def)
  have cnt: "count_list ?ks k = (case dict_get ?m k of
      Some t \<Rightarrow> length (filter (\<lambda>d. d \<in> ?W) (at_dependencies t)) | None \<Rightarrow> 0)" for k
    by (rule wave_count [OF dm dw])
  have "\<forall>k \<in> set ?ks. dict_has deg k"
  proof
    fix k assume "k \<in> set ?ks"
    then have "count_list ?ks k \<noteq> 0" by (metis count_list_0_iff)
    then have "dict_get ?m k \<noteq> None" unfolding cnt by (auto split: option.splits)
    then show "dict_has deg k" using task_map_get [OF dist] by (auto simp: dom ids_def)
  qed
  moreover have "relax ?m ?ks (deg, []) = (deg', nxt)" using pw by (simp add: process_wave_relax)
  moreover have "\<And>k. dict_has deg k \<Longrightarrow> \<exists>t. dict_get ?m k = Some t \<and> at_id t = k"
    using getk dom by blast
  ultimately obtain xs where rs: "\<forall>k. degf deg' k = degf deg k - int (count_list ?ks k)"
      "\<forall>k. dict_has deg' k = dict_has deg k" "nxt = xs" "distinct (ids xs)"
      "\<forall>t \<in> set xs. dict_get ?m (at_id t) = Some t"
      "set (ids xs) = {k. 0 < degf deg k \<and> degf deg k \<le> int (count_list ?ks k)}"
    using relax_spec [of deg ?m ?ks "[]" deg' nxt] by auto
  have disj: "D \<inter> ?W = {}" using inv by (auto simp: kahn_inv_def)
  have dt: "degf deg (at_id t) = int (length (filter (\<lambda>d. d \<notin> D) (at_dependencies t)))" if "t \<in> set T" for t
    using inv that by (simp add: kahn_inv_def)
  have dt': "degf deg' (at_id t) = int (length (filter (\<lambda>d. d \<notin> D \<union> ?W) (at_dependencies t)))"
    if "t \<in> set T" for t
  proof -
    have "count_list ?ks (at_id t) = length (filter (\<lambda>d. d \<in> ?W) (at_dependencies t))"
      by (simp add: cnt get [OF that])
    then show ?thesis using rs(1) dt [OF that] filter_split_count [OF disj, of "at_dependencies t"] by simp
  qed
  have wave0: "set (at_dependencies t) \<subseteq> D" if "t \<in> set T" "at_id t \<in> ?W" for t
  proof -
    have "degf deg (at_id t) = 0" using inv that by (auto simp: kahn_inv_def)
    then show ?thesis using dt [OF that(1)] by (auto simp: filter_empty_conv)
  qed
  have closed: "set (at_dependencies t) \<subseteq> D \<union> ?W" if "t \<in> set T" "at_id t \<in> D \<union> ?W" for t
    using wave0 [OF that(1)] that inv by (auto simp: kahn_inv_def)
  have key: "(0 < degf deg (at_id t) \<and> degf deg (at_id t) \<le> int (count_list ?ks (at_id t)))
      \<longleftrightarrow> (at_id t \<notin> D \<union> ?W \<and> degf deg' (at_id t) = 0)" if t: "t \<in> set T" for t
  proof -
    have nn: "0 \<le> degf deg' (at_id t)" "0 \<le> degf deg (at_id t)" using dt' [OF t] dt [OF t] by simp_all
    have d0: "at_id t \<in> D \<Longrightarrow> degf deg (at_id t) = 0"
      using dt [OF t] inv t by (auto simp: kahn_inv_def filter_empty_conv)
    have w0: "at_id t \<notin> D \<Longrightarrow> (at_id t \<in> ?W \<longleftrightarrow> degf deg (at_id t) = 0)"
      using inv t by (auto simp: kahn_inv_def ids_def)
    have e: "degf deg' (at_id t) = degf deg (at_id t) - int (count_list ?ks (at_id t))"
      using rs(1) by simp
    show ?thesis
    proof (cases "at_id t \<in> D")
      case True
      then show ?thesis by (simp add: d0)
    next
      case False
      have "at_id t \<in> D \<union> ?W \<longleftrightarrow> degf deg (at_id t) = 0" using w0 [OF False] False by blast
      then show ?thesis using nn e by linarith
    qed
  qed
  have out: "degf deg k = 0" if "k \<notin> set (ids T)" for k
    using dom [of k] that by (simp add: degf_def dict_has_def)
  have "set (ids nxt) = {k \<in> set (ids T). k \<notin> D \<union> ?W \<and> degf deg' k = 0}"
  proof (rule set_eqI)
    fix k
    show "k \<in> set (ids nxt) \<longleftrightarrow> k \<in> {k \<in> set (ids T). k \<notin> D \<union> ?W \<and> degf deg' k = 0}"
    proof (cases "k \<in> set (ids T)")
      case True
      then obtain t where "t \<in> set T" "k = at_id t" by (auto simp: ids_def)
      with key [of t] True show ?thesis unfolding rs(3,6) by simp
    next
      case False
      with out [OF False] show ?thesis unfolding rs(3,6) by simp
    qed
  qed
  moreover have "set nxt \<subseteq> set T"
    using rs(3,5) task_map_get [OF dist] by auto
  ultimately show ?thesis
    unfolding kahn_inv_def using rs(2,3,4) dom dt' closed by simp
qed

fun layered :: "string set \<Rightarrow> agent_task list list \<Rightarrow> bool" where
  "layered D [] = True"
| "layered D (w # ws) = ((\<forall>t \<in> set w. set (at_dependencies t) \<subseteq> D) \<and> layered (D \<union> set (ids w)) ws)"

lemma layered_snoc:
  "layered D (ws @ [w]) \<longleftrightarrow>
     layered D ws \<and> (\<forall>t \<in> set w. set (at_dependencies t) \<subseteq> D \<union> set (ids (concat ws)))"
  by (induction ws arbitrary: D) (auto simp: ids_def Un_assoc)

lemma layered_nth:
  "layered D ws \<Longrightarrow> i < length ws \<Longrightarrow> t \<in> set (ws ! i) \<Longrightarrow> d \<in> set (at_dependencies t) \<Longrightarrow>
     d \<in> D \<or> (\<exists>j < i. d \<in> set (ids (ws ! j)))"
proof (induction ws arbitrary: D i)
  case (Cons w ws)
  show ?case
  proof (cases i)
    case 0
    with Cons.prems show ?thesis by auto
  next
    case (Suc j)
    with Cons.IH [of "D \<union> set (ids w)" j] Cons.prems
    have "d \<in> D \<union> set (ids w) \<or> (\<exists>l < j. d \<in> set (ids (ws ! l)))" by simp
    then show ?thesis unfolding Suc by (metis Suc_mono UnE nth_Cons_0 nth_Cons_Suc zero_less_Suc)
  qed
qed simp

definition waves_inv :: "agent_task list \<Rightarrow> agent_task list list \<Rightarrow> nat \<Rightarrow> bool" where
  "waves_inv T ws n = (layered {} ws \<and> distinct (ids (concat ws)) \<and> set (concat ws) \<subseteq> set T \<and>
     [] \<notin> set ws \<and> n = length (concat ws))"

lemma kahn_loop_inv:
  assumes "kahn_loop (task_map T) (build_dependents (task_map T)) deg wave ws n = (ws', n', deg')"
    and "distinct (ids T)" and "kahn_inv T (set (ids (concat ws))) deg wave" and "waves_inv T ws n"
  shows "waves_inv T ws' n' \<and> kahn_inv T (set (ids (concat ws'))) deg' []"
  using assms
proof (induction "task_map T" "build_dependents (task_map T)" deg wave ws n arbitrary: ws' n' deg' rule: kahn_loop.induct)
  case (1 deg wave ws n)
  show ?case
  proof (cases "wave = []")
    case True
    with 1 show ?thesis by (simp add: kahn_loop.simps)
  next
    case False
    obtain deg1 nxt where pw: "process_wave (task_map T) (build_dependents (task_map T)) wave (deg, []) = (deg1, nxt)"
      by fastforce
    have rec: "kahn_loop (task_map T) (build_dependents (task_map T)) deg1 nxt (ws @ [wave]) (n + length wave)
        = (ws', n', deg')"
      using "1.prems"(1) False pw by (simp add: kahn_loop.simps [of _ _ deg wave])
    have set_eq: "set (ids (concat (ws @ [wave]))) = set (ids (concat ws)) \<union> set (ids wave)"
      by (simp add: ids_def)
    have inv1: "kahn_inv T (set (ids (concat (ws @ [wave])))) deg1 nxt"
      unfolding set_eq by (rule kahn_step [OF "1.prems"(3,2) pw])
    have ki: "distinct (ids wave)" "set wave \<subseteq> set T" "set (ids wave) \<inter> set (ids (concat ws)) = {}"
      using "1.prems"(3) by (auto simp: kahn_inv_def)
    have deps: "set (at_dependencies t) \<subseteq> set (ids (concat ws))" if t: "t \<in> set wave" for t
    proof -
      have "t \<in> set T" using ki t by blast
      moreover have "at_id t \<in> set (ids wave)" using t by (simp add: ids_def)
      ultimately show ?thesis using "1.prems"(3) by (force simp: kahn_inv_def filter_empty_conv)
    qed
    have "waves_inv T (ws @ [wave]) (n + length wave)"
      using "1.prems"(4) ki deps False
      by (auto simp: waves_inv_def layered_snoc ids_def)
    from "1.hyps" [OF False refl pw [symmetric] rec "1.prems"(2) inv1 this] show ?thesis .
  qed
qed


section \<open>Validation as a whole\<close>

definition dep_rel :: "agent_plan \<Rightarrow> (string \<times> string) set" where
  "dep_rel p = {(d, at_id t) | d t. t \<in> set (pl_tasks p) \<and> d \<in> set (at_dependencies t)}"

definition plan_well_formed :: "'w plan_validator \<Rightarrow> agent_plan \<Rightarrow> bool" where
  "plan_well_formed pv p =
     (pl_tasks p \<noteq> [] \<and> length (pl_tasks p) \<le> pv_max_steps pv \<and> distinct (ids (pl_tasks p)) \<and>
      (\<forall>t \<in> set (pl_tasks p). at_id t \<noteq> [] \<and>
         (\<forall>d \<in> set (at_dependencies t). d \<noteq> at_id t \<and> d \<in> set (ids (pl_tasks p))) \<and>
         (\<forall>r. pv_agents pv = Some r \<longrightarrow>
            (\<exists>a. dict_get r (at_assigned_agent t) = Some a \<and> ad_enabled (ag_definition a))) \<and>
         (\<forall>r k. pv_tools pv = Some r \<longrightarrow> k \<in> set (at_required_tools t) \<longrightarrow>
            (\<exists>d. dict_get (tg_tools r) k = Some d \<and> td_enabled d))))"

lemma check_task_None:
  "check_task pv (task_map T) t = None \<longleftrightarrow>
     (\<forall>d \<in> set (at_dependencies t). d \<noteq> at_id t \<and> d \<in> set (ids T)) \<and>
     (\<forall>r. pv_agents pv = Some r \<longrightarrow>
        (\<exists>a. dict_get r (at_assigned_agent t) = Some a \<and> ad_enabled (ag_definition a))) \<and>
     (\<forall>r k. pv_tools pv = Some r \<longrightarrow> k \<in> set (at_required_tools t) \<longrightarrow>
        (\<exists>d. dict_get (tg_tools r) k = Some d \<and> td_enabled d))"
proof -
  have dep: "check_dependency (task_map T) t d = None \<longleftrightarrow> d \<noteq> at_id t \<and> d \<in> set (ids T)" for d
    using arg_cong [OF task_map_keys [of T], of set]
    by (auto simp: check_dependency_def dict_has_iff ids_def)
  have ag: "check_agent r t = None \<longleftrightarrow>
      (\<exists>a. dict_get r (at_assigned_agent t) = Some a \<and> ad_enabled (ag_definition a))" for r :: "'w agent_registry"
    by (auto simp: check_agent_def agent_get_def split: option.splits)
  have tl: "check_tool r t k = None \<longleftrightarrow> (\<exists>d. dict_get (tg_tools r) k = Some d \<and> td_enabled d)"
    for r :: "'w tool_registry" and k
    by (auto simp: check_tool_def tool_get_def split: option.splits)
  have else_None: "(case x of Some e \<Rightarrow> Some e | None \<Rightarrow> y) = None \<longleftrightarrow> x = None \<and> y = None"
    for x y :: "string option" by (cases x) auto
  have opt_None: "(case x of None \<Rightarrow> None | Some r \<Rightarrow> f r) = None \<longleftrightarrow> (\<forall>r. x = Some r \<longrightarrow> f r = None)"
    for x :: "'r option" and f :: "'r \<Rightarrow> string option" by (cases x) auto
  show ?thesis
    unfolding check_task_def else_None opt_None first_error_None dep ag tl by blast
qed

lemma tasks_checked:
  "(\<exists>m. build_task_map (pl_tasks p) [] = Inr m \<and> first_error (check_task pv m) (pl_tasks p) = None) \<and>
     pl_tasks p \<noteq> [] \<and> length (pl_tasks p) \<le> pv_max_steps pv \<longleftrightarrow> plan_well_formed pv p"
  (is "?L \<longleftrightarrow> ?R")
proof
  assume L: ?L
  then obtain m where m: "build_task_map (pl_tasks p) [] = Inr m" "first_error (check_task pv m) (pl_tasks p) = None"
    by blast
  from build_task_map_eq [OF m(1)] have e: "m = task_map (pl_tasks p)" "distinct (ids (pl_tasks p))"
     "\<forall>t \<in> set (pl_tasks p). at_id t \<noteq> []"
    by (auto simp: dict_wf_def task_map_keys)
  with m(2) L show ?R by (auto simp: plan_well_formed_def first_error_None check_task_None)
next
  assume R: ?R
  then have "build_task_map (pl_tasks p) [] = Inr (task_map (pl_tasks p))"
    using build_task_map_ok [of "pl_tasks p" "[]"] by (auto simp: plan_well_formed_def dict_has_def)
  with R show ?L by (simp add: plan_well_formed_def first_error_None check_task_None)
qed

lemma kahn_init:
  assumes "distinct (ids T)"
  shows "kahn_inv T {} (init_in_degree (task_map T))
     (map snd (filter (\<lambda>(k, t). dict_get (init_in_degree (task_map T)) k = Some 0) (task_map T)))"
proof -
  have get: "dict_get (init_in_degree (task_map T)) k
      = map_option (\<lambda>t. int (length (at_dependencies t))) (dict_get (task_map T) k)" for k
    unfolding init_in_degree_def by (induction T) (auto simp: task_map_def)
  have g: "dict_get (task_map T) (at_id t) = Some t" if "t \<in> set T" for t
    using task_map_get [OF assms] that by simp
  have w: "map snd (filter (\<lambda>(k, t). dict_get (init_in_degree (task_map T)) k = Some 0) (task_map T))
      = filter (\<lambda>t. at_dependencies t = []) T"
  proof -
    have "map snd (filter (\<lambda>(k, t). dict_get (init_in_degree (task_map T)) k = Some 0) (task_map T))
        = filter (\<lambda>t. dict_get (init_in_degree (task_map T)) (at_id t) = Some 0) T"
      by (simp add: task_map_def [of T] filter_map comp_def)
    also have "\<dots> = filter (\<lambda>t. at_dependencies t = []) T"
      by (rule filter_cong) (simp_all add: get g)
    finally show ?thesis .
  qed
  have has: "dict_has (init_in_degree (task_map T)) k = (k \<in> set (ids T))" for k
    unfolding dict_has_iff by (auto simp: init_in_degree_def task_map_def ids_def image_iff)
  have deg: "degf (init_in_degree (task_map T)) (at_id t) = int (length (at_dependencies t))" if "t \<in> set T" for t
    by (simp add: degf_def get g [OF that])
  have "distinct (ids (filter (\<lambda>t. at_dependencies t = []) T))"
    using assms by (simp add: ids_def distinct_map_filter)
  moreover have "set (ids (filter (\<lambda>t. at_dependencies t = []) T))
      = {k \<in> set (ids T). k \<notin> {} \<and> degf (init_in_degree (task_map T)) k = 0}"
    using deg by (auto simp: ids_def)
  ultimately show ?thesis unfolding kahn_inv_def w using has deg by auto
qed

text \<open>What the loop computes on a well-formed plan.\<close>

lemma kahn_result:
  assumes "distinct (ids T)"
  obtains ws n deg where
    "kahn_loop (task_map T) (build_dependents (task_map T)) (init_in_degree (task_map T))
       (map snd (filter (\<lambda>(k, t). dict_get (init_in_degree (task_map T)) k = Some 0) (task_map T))) [] 0
       = (ws, n, deg)"
    "waves_inv T ws n" "kahn_inv T (set (ids (concat ws))) deg []"
proof -
  obtain ws n deg where r: "kahn_loop (task_map T) (build_dependents (task_map T)) (init_in_degree (task_map T))
       (map snd (filter (\<lambda>(k, t). dict_get (init_in_degree (task_map T)) k = Some 0) (task_map T))) [] 0
       = (ws, n, deg)" by (metis prod_cases3)
  have "kahn_inv T (set (ids (concat []))) (init_in_degree (task_map T))
     (map snd (filter (\<lambda>(k, t). dict_get (init_in_degree (task_map T)) k = Some 0) (task_map T)))"
    using kahn_init [OF assms] by (simp add: ids_def)
  from kahn_loop_inv [OF r assms this] have "waves_inv T ws n \<and> kahn_inv T (set (ids (concat ws))) deg []"
    by (simp add: waves_inv_def ids_def)
  with r that show ?thesis by blast
qed

lemma waves_cover:
  assumes "waves_inv T ws n" and "distinct (ids T)" and "n = length T"
  shows "mset (concat ws) = mset T"
proof -
  have d: "distinct (concat ws)" "distinct T"
    using assms(1,2) by (auto simp: waves_inv_def ids_def distinct_map)
  have "set (concat ws) = set T"
    using assms d by (intro card_subset_eq) (auto simp: waves_inv_def distinct_card [symmetric])
  with d show ?thesis using set_eq_iff_mset_eq_distinct by blast
qed

lemma waves_bound: "waves_inv T ws n \<Longrightarrow> distinct (ids T) \<Longrightarrow> n \<le> length T"
  by (metis (no_types, lifting) card_mono distinct_card distinct_map ids_def List.finite_set waves_inv_def)

text \<open>Tasks that no wave takes each wait for another one of them: a cycle.\<close>

lemma acyclic_complete:
  assumes "kahn_inv T D deg []" and "acyclic (dep_rel p)" and "T = pl_tasks p"
    and "\<forall>t \<in> set T. set (at_dependencies t) \<subseteq> set (ids T)"
  shows "set (ids T) \<subseteq> D"
proof (rule ccontr)
  assume "\<not> set (ids T) \<subseteq> D"
  then have ne: "set (ids T) - D \<noteq> {}" by blast
  have "finite (dep_rel p)"
  proof (rule finite_subset)
    show "dep_rel p \<subseteq> (\<Union>t \<in> set T. (\<lambda>d. (d, at_id t)) ` set (at_dependencies t))"
      by (auto simp: dep_rel_def assms(3))
  qed simp
  then have "wf (dep_rel p)" using assms(2) by (rule finite_acyclic_wf)
  then obtain k where k: "k \<in> set (ids T) - D" "\<And>j. (j, k) \<in> dep_rel p \<Longrightarrow> j \<notin> set (ids T) - D"
    using ne by (metis wfE_min')
  then obtain t where t: "t \<in> set T" "k = at_id t" by (auto simp: ids_def)
  have "degf deg k \<noteq> 0" using assms(1) k(1) by (auto simp: kahn_inv_def ids_def)
  then have "filter (\<lambda>d. d \<notin> D) (at_dependencies t) \<noteq> []"
    using assms(1) t by (auto simp: kahn_inv_def)
  then obtain d where "d \<in> set (at_dependencies t)" "d \<notin> D" by (auto simp: filter_empty_conv)
  moreover from this have "(d, k) \<in> dep_rel p" using t assms(3) by (auto simp: dep_rel_def)
  ultimately show False using k(2) assms(4) t(1) by blast
qed

lemma layered_acyclic:
  assumes "mset (concat ws) = mset (pl_tasks p)" and "layered {} ws" and "distinct (ids (pl_tasks p))"
  shows "acyclic (dep_rel p)"
proof -
  define lev where "lev k = (LEAST i. i < length ws \<and> k \<in> set (ids (ws ! i)))" for k
  have set_eq: "set (concat ws) = set (pl_tasks p)" using assms(1) by (metis set_mset_mset)
  have "lev d < lev (at_id t)" if t: "t \<in> set (pl_tasks p)" and d: "d \<in> set (at_dependencies t)" for t d
  proof -
    obtain i where i: "i < length ws" "t \<in> set (ws ! i)"
      using t set_eq by (metis UN_E in_set_conv_nth set_concat)
    then have ex: "i < length ws \<and> at_id t \<in> set (ids (ws ! i))" by (simp add: ids_def)
    have l: "lev (at_id t) < length ws \<and> at_id t \<in> set (ids (ws ! lev (at_id t)))"
      unfolding lev_def by (rule LeastI [of _ i]) (rule ex)
    then obtain u where u: "u \<in> set (ws ! lev (at_id t))" "at_id u = at_id t" by (auto simp: ids_def)
    then have "u \<in> set (pl_tasks p)" using l set_eq by (metis nth_mem set_concat UN_I)
    then have "u = t" using u(2) t assms(3) by (auto simp: ids_def distinct_map dest: inj_onD)
    then obtain j where j: "j < lev (at_id t)" "d \<in> set (ids (ws ! j))"
      using layered_nth [OF assms(2), of "lev (at_id t)" u d] u(1) l d by auto
    have "lev d \<le> j" unfolding lev_def by (rule Least_le) (use j l in auto)
    with j show ?thesis by simp
  qed
  then have "dep_rel p \<subseteq> measure lev" by (auto simp: dep_rel_def)
  then show ?thesis by (meson wf_acyclic wf_measure wf_subset)
qed

lemma validate_and_sort_facts:
  assumes "validate_and_sort pv p = Inr waves"
  shows "mset (concat waves) = mset (pl_tasks p) \<and> [] \<notin> set waves \<and>
    (\<forall>i < length waves. \<forall>t \<in> set (waves ! i). \<forall>d \<in> set (at_dependencies t).
       \<exists>j < i. d \<in> set (map at_id (waves ! j))) \<and> plan_well_formed pv p"
proof -
  obtain m where m: "build_task_map (pl_tasks p) [] = Inr m" "first_error (check_task pv m) (pl_tasks p) = None"
     and ne: "pl_tasks p \<noteq> []" "length (pl_tasks p) \<le> pv_max_steps pv"
    using assms by (auto simp: validate_and_sort_def bind_res_Inr split: if_splits option.splits)
  then have wf: "plan_well_formed pv p" using tasks_checked by blast
  then have dist: "distinct (ids (pl_tasks p))" by (simp add: plan_well_formed_def)
  have mm: "m = task_map (pl_tasks p)" using build_task_map_eq [OF m(1)] by (simp add: dict_wf_def)
  obtain ws n deg where r: "kahn_loop m (build_dependents m) (init_in_degree m)
       (map snd (filter (\<lambda>(k, t). dict_get (init_in_degree m) k = Some 0) m)) [] 0 = (ws, n, deg)"
    and inv: "waves_inv (pl_tasks p) ws n"
    using kahn_result [OF dist] mm by metis
  have n: "\<not> n < length m" and w: "waves = ws"
    using assms ne m r by (auto simp: validate_and_sort_def Let_def split: if_splits)
  have "n = length (pl_tasks p)"
    using waves_bound [OF inv dist] n mm by (simp add: task_map_def)
  from waves_cover [OF inv dist this] have cover: "mset (concat waves) = mset (pl_tasks p)" using w by simp
  have "layered {} waves" "[] \<notin> set waves" using inv w by (auto simp: waves_inv_def)
  with cover wf layered_nth [of "{}" waves] show ?thesis
    unfolding ids_def by blast
qed

lemmas validate_and_sort_mset = validate_and_sort_facts [THEN conjunct1]

lemma validate_and_sort_layers:
  "validate_and_sort pv p = Inr waves \<Longrightarrow> i < length waves \<Longrightarrow> t \<in> set (waves ! i) \<Longrightarrow>
     d \<in> set (at_dependencies t) \<Longrightarrow> \<exists>j < i. d \<in> set (map at_id (waves ! j))"
  using validate_and_sort_facts [of pv p waves] by blast

text \<open>
  C3. What an accepted plan looks like. When the validator returns waves, they are non-empty and
  together contain every task of the plan exactly once, every dependency of a task lies in a
  strictly earlier wave, the plan is within the step limit, and every task is assigned to a
  registered, enabled agent and requires only registered, enabled tools.
\<close>

theorem validate_and_sort_sound:
  assumes "validate_and_sort pv p = Inr waves"
  shows "mset (concat waves) = mset (pl_tasks p) \<and> [] \<notin> set waves \<and>
    (\<forall>i < length waves. \<forall>t \<in> set (waves ! i). \<forall>d \<in> set (at_dependencies t).
       \<exists>j < i. d \<in> set (map at_id (waves ! j))) \<and> plan_well_formed pv p"
  by (rule validate_and_sort_facts [OF assms])

lemma validate_and_sort_iff:
  "(\<exists>waves. validate_and_sort pv p = Inr waves) = (plan_well_formed pv p \<and> acyclic (dep_rel p))"
  (is "?L = ?R")
proof
  assume ?L
  then obtain waves where w: "validate_and_sort pv p = Inr waves" ..
  obtain m where m: "build_task_map (pl_tasks p) [] = Inr m" "first_error (check_task pv m) (pl_tasks p) = None"
     and ne: "pl_tasks p \<noteq> []" "length (pl_tasks p) \<le> pv_max_steps pv"
    using w by (auto simp: validate_and_sort_def bind_res_Inr split: if_splits option.splits)
  then have wf: "plan_well_formed pv p" using tasks_checked by blast
  then have dist: "distinct (ids (pl_tasks p))" by (simp add: plan_well_formed_def)
  have mm: "m = task_map (pl_tasks p)" using build_task_map_eq [OF m(1)] by (simp add: dict_wf_def)
  obtain ws n deg where r: "kahn_loop m (build_dependents m) (init_in_degree m)
       (map snd (filter (\<lambda>(k, t). dict_get (init_in_degree m) k = Some 0) m)) [] 0 = (ws, n, deg)"
    and inv: "waves_inv (pl_tasks p) ws n"
    using kahn_result [OF dist] mm by metis
  have n: "\<not> n < length m"
    using w ne m r by (auto simp: validate_and_sort_def Let_def split: if_splits)
  have "n = length (pl_tasks p)"
    using waves_bound [OF inv dist] n mm by (simp add: task_map_def)
  from layered_acyclic [OF waves_cover [OF inv dist this] _ dist] inv wf show ?R
    by (simp add: waves_inv_def)
next
  assume R: ?R
  then have dist: "distinct (ids (pl_tasks p))" and ne: "pl_tasks p \<noteq> []" "length (pl_tasks p) \<le> pv_max_steps pv"
    and deps: "\<forall>t \<in> set (pl_tasks p). set (at_dependencies t) \<subseteq> set (ids (pl_tasks p))"
    by (auto simp: plan_well_formed_def)
  obtain m where m: "build_task_map (pl_tasks p) [] = Inr m" "first_error (check_task pv m) (pl_tasks p) = None"
    using R tasks_checked [of p pv] by blast
  have mm: "m = task_map (pl_tasks p)" using build_task_map_eq [OF m(1)] by (simp add: dict_wf_def)
  obtain ws n deg where r: "kahn_loop m (build_dependents m) (init_in_degree m)
       (map snd (filter (\<lambda>(k, t). dict_get (init_in_degree m) k = Some 0) m)) [] 0 = (ws, n, deg)"
    and inv: "waves_inv (pl_tasks p) ws n" and fin: "kahn_inv (pl_tasks p) (set (ids (concat ws))) deg []"
    using kahn_result [OF dist] mm by metis
  have "set (ids (pl_tasks p)) \<subseteq> set (ids (concat ws))"
    by (rule acyclic_complete [OF fin _ refl deps]) (use R in simp)
  then have "length (ids (pl_tasks p)) \<le> length (ids (concat ws))"
    using dist by (metis List.finite_set card_length card_mono distinct_card le_trans)
  then have "\<not> n < length m" using inv mm by (simp add: waves_inv_def ids_def task_map_def)
  with m ne r show ?L by (simp add: validate_and_sort_def Let_def)
qed

text \<open>
  C2. The validator accepts exactly the right plans: it returns waves if and only if the plan passes
  the structural checks and its dependency relation is acyclic. In particular Kahn's loop ends on
  every plan, and no acyclic plan is rejected.
\<close>

theorem validate_and_sort_complete:
  "(\<exists>waves. validate_and_sort pv p = Inr waves) = (plan_well_formed pv p \<and> acyclic (dep_rel p))"
  by (rule validate_and_sort_iff)

definition demo_task :: "string \<Rightarrow> string list \<Rightarrow> agent_task" where
  "demo_task k deps = \<lparr>at_id = k, at_title = k, at_description = k, at_assigned_agent = ''agent.coding'',
     at_dependencies = deps, at_required_tools = [], at_input_data = [], at_retry_count = 0, at_artifacts = []\<rparr>"

definition demo_plan :: agent_plan where
  "demo_plan = \<lparr>pl_goal_id = ''g'', pl_plan_id = ''p'',
     pl_tasks = [demo_task ''c'' [''a'', ''b''], demo_task ''a'' [], demo_task ''b'' [''a'']]\<rparr>"

definition demo_validator :: "unit plan_validator" where
  "demo_validator = \<lparr>pv_max_steps = 20, pv_agents = None, pv_tools = None\<rparr>"

lemma demo_waves: "map_sum id (map ids) (validate_and_sort demo_validator demo_plan) = Inr [[''a''], [''b''], [''c'']]"
  by code_simp

theorem validate_and_sort_sound_witness:
  "\<exists>waves. validate_and_sort demo_validator demo_plan = Inr waves \<and>
     mset (concat waves) = mset (pl_tasks demo_plan)"
proof -
  obtain waves where w: "validate_and_sort demo_validator demo_plan = Inr waves"
    using demo_waves by (cases "validate_and_sort demo_validator demo_plan") auto
  with validate_and_sort_sound [OF w] show ?thesis by blast
qed

end
