(* ===== verification/Orchestrator.thy ===== *)
theory Orchestrator
  imports Agent_Runtime Plan_Validator
begin

text \<open>
  The agent orchestrator (\<open>agents/orchestrator.py\<close>). Planning and validation are one function; the
  execution of the waves is a labelled step relation, because the tasks of a wave run concurrently
  (\<open>asyncio.gather\<close>) and \<open>cancel_run\<close>, \<open>pause_run\<close> and \<open>resume_run\<close> may come at any time. One
  attempt of a task (the agent's work, its verification and the decision of the recovery engine)
  is a step; between the waves nothing suspends, so the end of a wave and the start of the next are
  one step. A checkpoint in the memory store holds the run object itself, so loading it gives the
  run as it is; the model keeps whether there is one. Reading the planner's output as a plan is
  pydantic's work, the parameter \<open>parse_plan\<close>.
\<close>

record 'w orchestrator =
  or_agents :: "'w agent_registry"
  or_validator :: "'w plan_validator"
  or_verifier :: agent_verifier
  or_recovery :: recovery_engine
  or_parse_plan :: "pyval \<Rightarrow> string + agent_plan"

datatype slot =
    Waiting agent_task
  | Active agent_task
  | Finished agent_task agent_step_result agent_verification

datatype phase = InWave "slot list" "agent_task list list" | Ended agent_state

record 'w orch_state =
  os_run :: agent_run
  os_plan :: agent_plan
  os_world :: 'w
  os_obs :: "agent_observation list"
  os_phase :: phase
  os_cancelled :: bool
  os_paused :: bool
  os_saved :: bool
  os_events :: "(string \<times> string option) list"

definition emit :: "string \<Rightarrow> string option \<Rightarrow> 'w orch_state \<Rightarrow> 'w orch_state" where
  "emit ty task s = s\<lparr>os_events := os_events s @ [(ty, task)]\<rparr>"

definition set_state :: "agent_state \<Rightarrow> 'w orch_state \<Rightarrow> 'w orch_state" where
  "set_state st s = s\<lparr>os_run := (os_run s)\<lparr>ar_state := st\<rparr>\<rparr>"

definition save_run :: "'w orch_state \<Rightarrow> 'w orch_state" where
  "save_run s = s\<lparr>os_saved := True\<rparr>"

section \<open>The end of a run and of a wave\<close>

text \<open>Step 4 of \<open>run\<close> and the bookkeeping after it.\<close>

definition finish_run :: "'w orch_state \<Rightarrow> 'w orch_state" where
  "finish_run s =
     (let s1 = (if ar_state (os_run s) \<notin> {AFAILED, ACANCELLED}
                then if verify_plan (os_plan s) (ar_verifications (os_run s))
                     then emit ''agent.completed'' None (set_state ACOMPLETED s)
                     else emit ''agent.failed'' None (set_state AFAILED s)
                else s);
          s2 = save_run s1
      in s2\<lparr>os_phase := Ended (ar_state (os_run s2))\<rparr>)"

text \<open>The head of the loop over the waves.\<close>

definition next_wave :: "agent_task list list \<Rightarrow> 'w orch_state \<Rightarrow> 'w orch_state" where
  "next_wave rest s =
     (case rest of
        [] \<Rightarrow> finish_run s
      | w # ws \<Rightarrow>
          if os_cancelled s
          then finish_run (emit ''agent.cancelled'' None (set_state ACANCELLED s))
          else s\<lparr>os_phase := InWave (map Waiting w) ws\<rparr>)"

text \<open>The loop over the results of a wave.\<close>

definition record_result ::
  "agent_task \<times> agent_step_result \<times> agent_verification \<Rightarrow> 'w orch_state \<Rightarrow> 'w orch_state" where
  "record_result x s =
     (let (t, res, ver) = x;
          r1 = (os_run s)\<lparr>ar_task_results := dict_put (at_id t) res (ar_task_results (os_run s)),
                          ar_verifications := dict_put (at_id t) ver (ar_verifications (os_run s)),
                          ar_artifacts := ar_artifacts (os_run s) @ sr_artifacts res\<rparr>;
          r2 = (if vr_state ver = VPASSED
                then r1\<lparr>ar_completed := ar_completed r1 @ [at_id t]\<rparr>
                else r1\<lparr>ar_failed := ar_failed r1 @ [at_id t], ar_state := AFAILED,
                        ar_error := Some (''Task '' @ quoted (at_id t) @ '' failed verification: '' @ vr_notes ver)\<rparr>)
      in s\<lparr>os_run := r2, os_obs := os_obs s @ sr_observations res\<rparr>)"

fun wave_results :: "slot list \<Rightarrow> (agent_task \<times> agent_step_result \<times> agent_verification) list option" where
  "wave_results [] = Some []"
| "wave_results (Finished t res ver # ss) = map_option (Cons (t, res, ver)) (wave_results ss)"
| "wave_results (_ # ss) = None"

definition end_wave ::
  "(agent_task \<times> agent_step_result \<times> agent_verification) list \<Rightarrow> agent_task list list
     \<Rightarrow> 'w orch_state \<Rightarrow> 'w orch_state" where
  "end_wave results rest s =
     (let s1 = save_run (fold record_result results s)
      in if ar_state (os_run s1) = AFAILED then finish_run s1 else next_wave rest s1)"

section \<open>One attempt of a task\<close>

text \<open>One turn of the loop of \<open>_execute_single_task\<close>.\<close>

definition task_attempt :: "'w orchestrator \<Rightarrow> agent_task \<Rightarrow> 'w orch_state \<Rightarrow> 'w orch_state \<times> slot" where
  "task_attempt orc t s =
     (let (w, res) = execute_task (or_agents orc) t (os_obs s) (os_world s);
          s1 = emit ''agent.verification.started'' (Some (at_id t)) (s\<lparr>os_world := w\<rparr>);
          ver = verify_step (or_verifier orc) t res;
          s2 = emit ''agent.verification.completed'' (Some (at_id t)) s1
      in if vr_state ver = VPASSED
         then (emit ''agent.step.completed'' (Some (at_id t)) s2, Finished t res ver)
         else let (t', r', st, action) = evaluate_failure (or_recovery orc) t (vr_notes ver) (os_run s2);
                  s3 = emit ''agent.recovery.started'' (Some (at_id t)) (s2\<lparr>os_run := r'\<rparr>)
              in if st = RETRYING then (s3, Active t')
                 else (emit ''agent.step.failed'' (Some (at_id t)) s3, Finished t' res ver))"

section \<open>Planning\<close>

definition fail_run :: "string \<Rightarrow> 'w orch_state \<Rightarrow> 'w orch_state" where
  "fail_run exc s =
     (let s1 = emit ''agent.failed'' None (s\<lparr>os_run := (os_run s)\<lparr>ar_state := AFAILED, ar_error := Some exc\<rparr>\<rparr>)
      in (save_run s1)\<lparr>os_phase := Ended AFAILED\<rparr>)"

definition empty_plan :: agent_plan where
  "empty_plan = \<lparr>pl_goal_id = [], pl_plan_id = [], pl_tasks = []\<rparr>"

definition planning_task :: "agent_goal \<Rightarrow> string \<Rightarrow> agent_task" where
  "planning_task g planner_id = \<lparr>at_id = ''planning_task'', at_title = ''Goal Decomposition'',
     at_description = gl_user_prompt g, at_assigned_agent = planner_id, at_dependencies = [],
     at_required_tools = [], at_input_data = [(''goal_prompt'', PStr (gl_user_prompt g))],
     at_retry_count = 0, at_artifacts = []\<rparr>"

text \<open>The raw plan in the planner's output: \<open>planner_result.output.get("plan")\<close>.\<close>

definition raw_plan :: "agent_step_result \<Rightarrow> string + pyval" where
  "raw_plan res =
     (if sr_status res \<noteq> KCOMPLETED \<or> \<not> truthy (sr_output res)
      then Inl (''Planner failed to generate plan: '' @ opt_text (sr_error res))
      else case sr_output res of
             PDict d \<Rightarrow> Inr (case dict_get d ''plan'' of Some v \<Rightarrow> v | None \<Rightarrow> PNone)
           | v \<Rightarrow> Inl (quoted (type_name v) @ '' object has no attribute '' @ quoted ''get''))"

text \<open>\<open>run\<close> up to the first wave; \<open>cancelled\<close> tells whether \<open>cancel_run\<close> came while planning.\<close>

definition begin_run :: "'w orchestrator \<Rightarrow> agent_goal \<Rightarrow> string \<Rightarrow> bool \<Rightarrow> 'w \<Rightarrow> 'w orch_state" where
  "begin_run orc g run_id cancelled w =
     (let s0 = \<lparr>os_run = new_run run_id g, os_plan = empty_plan, os_world = w, os_obs = [],
               os_phase = Ended AIDLE, os_cancelled = cancelled, os_paused = False, os_saved = False,
               os_events = []\<rparr>;
          s1 = emit ''agent.planning'' None (set_state APLANNING (emit ''agent.started'' None s0))
      in case agent_get (or_agents orc) ''agent.planner'' of
           Inl exc \<Rightarrow> fail_run exc s1
         | Inr planner \<Rightarrow>
             (case ag_execute planner (planning_task g (ad_id (ag_definition planner))) [] (os_world s1) of
                (w1, Inl exc) \<Rightarrow> fail_run exc (s1\<lparr>os_world := w1\<rparr>)
              | (w1, Inr res) \<Rightarrow>
                  let s2 = s1\<lparr>os_world := w1\<rparr>
                  in case bind_res (raw_plan res) (or_parse_plan orc) of
                       Inl exc \<Rightarrow> fail_run exc s2
                     | Inr plan \<Rightarrow>
                         let s3 = s2\<lparr>os_plan := plan, os_run := (os_run s2)\<lparr>ar_plan := Some plan\<rparr>\<rparr>
                         in case validate_and_sort (or_validator orc) plan of
                              Inl exc \<Rightarrow> fail_run exc s3
                            | Inr waves \<Rightarrow>
                                next_wave waves (set_state ARUNNING
                                  (save_run (emit ''agent.plan.created'' None (set_state AREADY s3))))))"

section \<open>Control from outside\<close>

definition cancel_run :: "'w orch_state \<Rightarrow> 'w orch_state" where
  "cancel_run s = save_run (set_state ACANCELLED (s\<lparr>os_cancelled := True\<rparr>))"

definition pause_run :: "'w orch_state \<Rightarrow> 'w orch_state" where
  "pause_run s = save_run (set_state APAUSED (s\<lparr>os_paused := True\<rparr>))"

definition resume_run :: "'w orch_state \<Rightarrow> 'w orch_state" where
  "resume_run s = (if os_saved s
     then set_state ARUNNING (s\<lparr>os_paused := False, os_cancelled := False\<rparr>) else s)"

section \<open>The step relation\<close>

datatype orch_label = LBegin agent_task | LAttempt agent_task | LWaveEnd | LCancel | LPause | LResume

inductive orch_step :: "'w orchestrator \<Rightarrow> 'w orch_state \<Rightarrow> orch_label \<Rightarrow> 'w orch_state \<Rightarrow> bool" for orc where
  begin_task: "os_phase s = InWave slots rest \<Longrightarrow> i < length slots \<Longrightarrow> slots ! i = Waiting t \<Longrightarrow>
     s' = (emit ''agent.step.started'' (Some (at_id t))
             (s\<lparr>os_run := (os_run s)\<lparr>ar_current_task := Some (at_id t)\<rparr>\<rparr>))
          \<lparr>os_phase := InWave (slots[i := Active t]) rest\<rparr> \<Longrightarrow>
     orch_step orc s (LBegin t) s'"
| attempt: "os_phase s = InWave slots rest \<Longrightarrow> i < length slots \<Longrightarrow> slots ! i = Active t \<Longrightarrow>
     task_attempt orc t s = (s1, sl) \<Longrightarrow> s' = s1\<lparr>os_phase := InWave (slots[i := sl]) rest\<rparr> \<Longrightarrow>
     orch_step orc s (LAttempt t) s'"
| wave_end: "os_phase s = InWave slots rest \<Longrightarrow> wave_results slots = Some results \<Longrightarrow>
     orch_step orc s LWaveEnd (end_wave results rest s)"
| cancel: "orch_step orc s LCancel (cancel_run s)"
| pause: "orch_step orc s LPause (pause_run s)"
| resume: "orch_step orc s LResume (resume_run s)"

inductive_cases orch_stepE: "orch_step orc s l s'"

inductive orch_trace :: "'w orchestrator \<Rightarrow> 'w orch_state \<Rightarrow> orch_label list \<Rightarrow> 'w orch_state \<Rightarrow> bool" for orc s0 where
  nil: "orch_trace orc s0 [] s0"
| snoc: "orch_trace orc s0 tr s \<Longrightarrow> orch_step orc s l s' \<Longrightarrow> orch_trace orc s0 (tr @ [l]) s'"


section \<open>Invariants\<close>

named_theorems orch_simps

lemma emit_frame [orch_simps]:
  "os_run (emit e k s) = os_run s" "os_plan (emit e k s) = os_plan s" "os_phase (emit e k s) = os_phase s"
  "os_cancelled (emit e k s) = os_cancelled s" "os_world (emit e k s) = os_world s" "os_obs (emit e k s) = os_obs s"
  by (simp_all add: emit_def)

lemma set_state_frame [orch_simps]:
  "os_plan (set_state st s) = os_plan s" "os_phase (set_state st s) = os_phase s"
  "os_cancelled (set_state st s) = os_cancelled s"
  "ar_verifications (os_run (set_state st s)) = ar_verifications (os_run s)"
  "ar_recovery (os_run (set_state st s)) = ar_recovery (os_run s)"
  "ar_state (os_run (set_state st s)) = st"
  by (simp_all add: set_state_def)

lemma save_run_frame [orch_simps]:
  "os_run (save_run s) = os_run s" "os_plan (save_run s) = os_plan s" "os_phase (save_run s) = os_phase s"
  "os_cancelled (save_run s) = os_cancelled s"
  by (simp_all add: save_run_def)

fun slot_task :: "slot \<Rightarrow> agent_task" where
  "slot_task (Waiting t) = t" | "slot_task (Active t) = t" | "slot_task (Finished t _ _) = t"

definition task_key :: "agent_task \<Rightarrow> string \<times> string list" where
  "task_key t = (at_id t, at_dependencies t)"

definition passed :: "'w orch_state \<Rightarrow> string \<Rightarrow> bool" where
  "passed s k = (\<exists>v. dict_get (ar_verifications (os_run s)) k = Some v \<and> vr_state v = VPASSED)"

definition phase_inv :: "'w orchestrator \<Rightarrow> 'w orch_state \<Rightarrow> bool" where
  "phase_inv orc s = (case os_phase s of
     Ended st \<Rightarrow> st \<in> {ACOMPLETED, AFAILED, ACANCELLED} \<and>
                 (st = ACOMPLETED \<longrightarrow> verify_plan (os_plan s) (ar_verifications (os_run s)))
   | InWave slots rest \<Rightarrow> (\<exists>pre w. validate_and_sort (or_validator orc) (os_plan s) = Inr (pre @ w # rest) \<and>
       map (task_key \<circ> slot_task) slots = map task_key w \<and> (\<forall>t \<in> set (concat pre). passed s (at_id t))))"

lemma finish_run_phase:
  "phase_inv orc (finish_run s)"
  "ar_recovery (os_run (finish_run s)) = ar_recovery (os_run s)"
  by (auto simp: finish_run_def phase_inv_def Let_def orch_simps)

lemma next_wave_phase:
  assumes "validate_and_sort (or_validator orc) (os_plan s) = Inr (pre @ rest)"
    and "\<forall>t \<in> set (concat pre). passed s (at_id t)"
  shows "phase_inv orc (next_wave rest s)"
proof (cases rest)
  case (Cons w ws)
  show ?thesis
  proof (cases "os_cancelled s")
    case True
    then show ?thesis by (simp add: next_wave_def Cons finish_run_phase)
  next
    case False
    with assms Cons show ?thesis
      by (auto simp: next_wave_def phase_inv_def passed_def comp_def intro!: exI [of _ pre])
  qed
qed (simp add: next_wave_def finish_run_phase)

lemma next_wave_recovery [orch_simps]:
  "ar_recovery (os_run (next_wave rest s)) = ar_recovery (os_run s)"
  by (simp add: next_wave_def finish_run_phase orch_simps split: list.split)

lemma record_result_frame [orch_simps]:
  "os_plan (record_result x s) = os_plan s" "os_cancelled (record_result x s) = os_cancelled s"
  "ar_recovery (os_run (record_result x s)) = ar_recovery (os_run s)"
  "ar_verifications (os_run (record_result (t, res, ver) s))
     = dict_put (at_id t) ver (ar_verifications (os_run s))"
  "ar_state (os_run (record_result (t, res, ver) s))
     = (if vr_state ver = VPASSED then ar_state (os_run s) else AFAILED)"
  by (auto simp: record_result_def Let_def split: prod.splits)

lemma fold_record_frame [orch_simps]:
  "os_plan (fold record_result xs s) = os_plan s"
  "os_cancelled (fold record_result xs s) = os_cancelled s"
  "ar_recovery (os_run (fold record_result xs s)) = ar_recovery (os_run s)"
  by (induction xs arbitrary: s) (simp_all add: orch_simps)

lemma fold_record_failed:
  "ar_state (os_run s) = AFAILED \<Longrightarrow> ar_state (os_run (fold record_result xs s)) = AFAILED"
  by (induction xs arbitrary: s) (auto simp: orch_simps)

text \<open>Unless the wave ends the run as failed, all of its tasks passed and earlier passes are kept.\<close>

lemma fold_record_passed:
  "ar_state (os_run (fold record_result xs s)) \<noteq> AFAILED \<Longrightarrow>
     (\<forall>(t, res, ver) \<in> set xs. vr_state ver = VPASSED) \<and>
     (\<forall>(t, res, ver) \<in> set xs. passed (fold record_result xs s) (at_id t)) \<and>
     (\<forall>k. passed s k \<longrightarrow> passed (fold record_result xs s) k)"
proof (induction xs arbitrary: s)
  case (Cons x xs)
  obtain t res ver where x: "x = (t, res, ver)" by (cases x)
  have v: "vr_state ver = VPASSED"
  proof (rule ccontr)
    assume "vr_state ver \<noteq> VPASSED"
    then have "ar_state (os_run (record_result x s)) = AFAILED" by (simp add: x orch_simps)
    from fold_record_failed [OF this, of xs] Cons.prems show False by simp
  qed
  have p: "passed (record_result x s) (at_id t)" "\<And>k. passed s k \<Longrightarrow> passed (record_result x s) k"
    using v by (auto simp: passed_def x orch_simps dict_simps)
  from Cons.IH [of "record_result x s"] Cons.prems p v show ?case by (simp add: x)
qed simp

lemma wave_results_tasks:
  "wave_results slots = Some results \<Longrightarrow> map slot_task slots = map fst results"
  by (induction slots arbitrary: results rule: wave_results.induct) auto

lemma end_wave_phase:
  assumes "os_phase s = InWave slots rest" and "wave_results slots = Some results" and "phase_inv orc s"
  shows "phase_inv orc (end_wave results rest s)"
proof (cases "ar_state (os_run (fold record_result results s)) = AFAILED")
  case True
  then show ?thesis by (simp add: end_wave_def Let_def orch_simps finish_run_phase)
next
  case False
  from assms(1,3) obtain pre w where inv: "validate_and_sort (or_validator orc) (os_plan s) = Inr (pre @ w # rest)"
    "map (task_key \<circ> slot_task) slots = map task_key w" "\<forall>t \<in> set (concat pre). passed s (at_id t)"
    by (auto simp: phase_inv_def)
  let ?s1 = "save_run (fold record_result results s)"
  have keys: "map at_id w = map (at_id \<circ> fst) results"
    using arg_cong [OF inv(2), of "map fst"] wave_results_tasks [OF assms(2)]
    by (simp add: task_key_def comp_def) (metis (no_types, lifting) comp_apply list.map_comp map_eq_conv)
  have "passed ?s1 (at_id t)" if "t \<in> set (concat (pre @ [w]))" for t
  proof (cases "t \<in> set (concat pre)")
    case True
    with inv(3) fold_record_passed [OF False] show ?thesis by (auto simp: passed_def orch_simps)
  next
    case False2: False
    with that have "at_id t \<in> set (map at_id w)" by auto
    then obtain x where "x \<in> set results" "at_id t = at_id (fst x)" unfolding keys by auto
    with fold_record_passed [OF False] show ?thesis by (auto simp: passed_def orch_simps)
  qed
  then have "phase_inv orc (next_wave rest ?s1)"
    by (intro next_wave_phase [of orc ?s1 "pre @ [w]"]) (use inv(1) in \<open>simp_all add: orch_simps\<close>)
  then show ?thesis using False by (simp add: end_wave_def Let_def orch_simps)
qed

lemma end_wave_recovery [orch_simps]:
  "ar_recovery (os_run (end_wave results rest s)) = ar_recovery (os_run s)"
  by (simp add: end_wave_def Let_def orch_simps finish_run_phase)

lemma task_attempt_frame:
  assumes "task_attempt orc t s = (s1, sl)"
  shows "os_plan s1 = os_plan s" "os_phase s1 = os_phase s" "os_cancelled s1 = os_cancelled s"
    "ar_verifications (os_run s1) = ar_verifications (os_run s)" "task_key (slot_task sl) = task_key t"
    "sl \<noteq> Waiting u"
proof -
  obtain w res where ex: "execute_task (or_agents orc) t (os_obs s) (os_world s) = (w, res)" by fastforce
  let ?ver = "verify_step (or_verifier orc) t res"
  obtain t' r' st action where ev: "evaluate_failure (or_recovery orc) t (vr_notes ?ver) (os_run s) = (t', r', st, action)"
    by (metis prod_cases4)
  note fr = evaluate_failure_frame [OF ev]
  show "os_plan s1 = os_plan s" "os_phase s1 = os_phase s" "os_cancelled s1 = os_cancelled s"
    "ar_verifications (os_run s1) = ar_verifications (os_run s)" "task_key (slot_task sl) = task_key t"
    "sl \<noteq> Waiting u"
    using assms fr(1,2,4)
    by (auto simp: task_attempt_def ex Let_def orch_simps ev task_key_def split: if_splits)
qed

lemma orch_step_phase:
  assumes "orch_step orc s l s'" and "phase_inv orc s"
  shows "phase_inv orc s'"
  using assms
proof (induction rule: orch_step.induct)
  case (begin_task s slots rest i t s')
  then have "map (task_key \<circ> slot_task) (slots[i := Active t]) = map (task_key \<circ> slot_task) slots"
    by (simp add: map_update list_update_same_conv)
  with begin_task show ?case
    by (auto simp: phase_inv_def passed_def orch_simps)
next
  case (attempt s slots rest i t s1 sl s')
  note fr = task_attempt_frame [OF attempt(4)]
  have "map (task_key \<circ> slot_task) (slots[i := sl]) = map (task_key \<circ> slot_task) slots"
    using attempt(2,3) fr(5) by (simp add: map_update list_update_same_conv)
  with attempt fr show ?case
    by (auto simp: phase_inv_def passed_def)
next
  case (wave_end s slots rest results)
  then show ?case by (intro end_wave_phase)
next
  case (cancel s)
  then show ?case by (simp add: phase_inv_def cancel_run_def orch_simps passed_def set_state_def save_run_def split: phase.splits)
next
  case (pause s)
  then show ?case by (simp add: phase_inv_def pause_run_def orch_simps passed_def set_state_def save_run_def split: phase.splits)
next
  case (resume s)
  then show ?case by (simp add: phase_inv_def resume_run_def orch_simps passed_def set_state_def split: phase.splits)
qed


section \<open>Reachable runs\<close>

lemma fail_run_phase: "phase_inv orc (fail_run exc s)" "os_phase (fail_run exc s) = Ended AFAILED"
  "ar_recovery (os_run (fail_run exc s)) = ar_recovery (os_run s)"
  by (simp_all add: fail_run_def phase_inv_def Let_def emit_def save_run_def)

text \<open>The two outcomes of planning.\<close>

lemma begin_run_cases:
  obtains (failed) exc s where "begin_run orc g k c w = fail_run exc s" "ar_recovery (os_run s) = []"
  | (planned) waves s where "begin_run orc g k c w = next_wave waves s" "ar_recovery (os_run s) = []"
      "validate_and_sort (or_validator orc) (os_plan s) = Inr waves" "os_cancelled s = c"
      "ar_state (os_run s) = ARUNNING"
proof -
  define s1 where "s1 = emit ''agent.planning'' None (set_state APLANNING (emit ''agent.started'' None
     \<lparr>os_run = new_run k g, os_plan = empty_plan, os_world = w, os_obs = [], os_phase = Ended AIDLE,
      os_cancelled = c, os_paused = False, os_saved = False, os_events = []\<rparr>))"
  have f1: "ar_recovery (os_run s1) = []" "os_cancelled s1 = c"
    by (simp_all add: s1_def orch_simps new_run_def)
  show ?thesis
  proof (cases "agent_get (or_agents orc) ''agent.planner''")
    case (Inl exc)
    then have "begin_run orc g k c w = fail_run exc s1" by (simp add: begin_run_def s1_def)
    with f1 failed show ?thesis by blast
  next
    case (Inr planner)
    obtain w1 r where ex: "ag_execute planner (planning_task g (ad_id (ag_definition planner))) [] (os_world s1) = (w1, r)"
      by fastforce
    let ?s2 = "s1\<lparr>os_world := w1\<rparr>"
    have f2: "ar_recovery (os_run ?s2) = []" using f1 by simp
    show ?thesis
    proof (cases r)
      case (Inl exc)
      then have "begin_run orc g k c w = fail_run exc ?s2"
        using \<open>agent_get _ _ = _\<close> ex by (simp add: begin_run_def s1_def [symmetric] Let_def)
      with f2 failed show ?thesis by blast
    next
      case res: (Inr res)
      show ?thesis
      proof (cases "bind_res (raw_plan res) (or_parse_plan orc)")
        case (Inl exc)
        then have "begin_run orc g k c w = fail_run exc ?s2"
          using \<open>agent_get _ _ = _\<close> ex res by (simp add: begin_run_def s1_def [symmetric] Let_def)
        with f2 failed show ?thesis by blast
      next
        case plan: (Inr plan)
        let ?s3 = "?s2\<lparr>os_plan := plan, os_run := (os_run ?s2)\<lparr>ar_plan := Some plan\<rparr>\<rparr>"
        have f3: "ar_recovery (os_run ?s3) = []" using f1 by simp
        show ?thesis
        proof (cases "validate_and_sort (or_validator orc) plan")
          case (Inl exc)
          then have "begin_run orc g k c w = fail_run exc ?s3"
            using \<open>agent_get _ _ = _\<close> ex res plan by (simp add: begin_run_def s1_def [symmetric] Let_def)
          with f3 failed show ?thesis by blast
        next
          case (Inr waves)
          let ?s4 = "set_state ARUNNING (save_run (emit ''agent.plan.created'' None (set_state AREADY ?s3)))"
          have "begin_run orc g k c w = next_wave waves ?s4"
            using \<open>agent_get _ _ = _\<close> ex res plan Inr by (simp add: begin_run_def s1_def [symmetric] Let_def)
          moreover have "ar_recovery (os_run ?s4) = []" "os_plan ?s4 = plan" "os_cancelled ?s4 = c"
            using f1 by (simp_all add: orch_simps)
          ultimately show ?thesis using planned [of waves ?s4] Inr by (simp add: orch_simps)
        qed
      qed
    qed
  qed
qed

lemma begin_run_phase: "phase_inv orc (begin_run orc g k c w)"
  by (rule begin_run_cases [of orc g k c w])
     (auto simp: fail_run_phase intro: next_wave_phase [where pre = "[]"])

lemma orch_trace_phase: "orch_trace orc s0 tr s \<Longrightarrow> phase_inv orc s0 \<Longrightarrow> phase_inv orc s"
  by (induction rule: orch_trace.induct) (auto intro: orch_step_phase)

text \<open>
  C1. Dependencies are respected. In every run, under every interleaving of the tasks of a wave and
  whatever is cancelled, paused or resumed meanwhile, an attempt of a task is made only when each
  of its dependencies has a recorded verification that passed.
\<close>

theorem attempt_after_dependencies:
  assumes "orch_trace orc (begin_run orc g k c w) tr s" and "orch_step orc s (LAttempt t) s'"
    and "d \<in> set (at_dependencies t)"
  shows "\<exists>v. dict_get (ar_verifications (os_run s)) d = Some v \<and> vr_state v = VPASSED"
proof -
  have inv: "phase_inv orc s" using orch_trace_phase [OF assms(1) begin_run_phase] .
  from assms(2) obtain slots rest i where ph: "os_phase s = InWave slots rest"
      and i: "i < length slots" "slots ! i = Active t"
    by (auto elim: orch_stepE)
  then obtain pre wv where v: "validate_and_sort (or_validator orc) (os_plan s) = Inr (pre @ wv # rest)"
    "map (task_key \<circ> slot_task) slots = map task_key wv" "\<forall>t \<in> set (concat pre). passed s (at_id t)"
    using inv by (auto simp: phase_inv_def)
  have "length slots = length wv" using v(2) by (metis length_map)
  then have k: "task_key (wv ! i) = task_key t"
    using arg_cong [OF v(2), of "\<lambda>xs. xs ! i"] i by simp
  then have "d \<in> set (at_dependencies ((pre @ wv # rest) ! length pre ! i))"
    using assms(3) by (simp add: task_key_def)
  moreover have "wv ! i \<in> set ((pre @ wv # rest) ! length pre)"
    using i(1) \<open>length slots = length wv\<close> by simp
  ultimately obtain j where j: "j < length pre" "d \<in> set (map at_id ((pre @ wv # rest) ! j))"
    using validate_and_sort_layers [OF v(1), of "length pre" "wv ! i" d] by auto
  then obtain u where "u \<in> set (pre ! j)" "at_id u = d" by (auto simp: nth_append)
  then have "u \<in> set (concat pre)" using j(1) by auto
  with v(3) \<open>at_id u = d\<close> show ?thesis by (auto simp: passed_def)
qed

text \<open>
  C6. How a run ends. A run that has ended is completed, failed or cancelled, never paused or still
  running, and it is reported as completed only if every task of its plan has passed verification.
\<close>

theorem run_end_state:
  assumes "orch_trace orc (begin_run orc g k c w) tr s" and "os_phase s = Ended st"
  shows "st \<in> {ACOMPLETED, AFAILED, ACANCELLED} \<and>
    (st = ACOMPLETED \<longrightarrow> (\<forall>t \<in> set (pl_tasks (os_plan s)).
       \<exists>v. dict_get (ar_verifications (os_run s)) (at_id t) = Some v \<and> vr_state v = VPASSED))"
proof -
  have "phase_inv orc s" using orch_trace_phase [OF assms(1) begin_run_phase] .
  with assms(2) show ?thesis
    by (auto simp: phase_inv_def verify_plan_def split: option.splits)
qed

section \<open>Bounded work\<close>

fun is_attempt :: "orch_label \<Rightarrow> bool" where
  "is_attempt (LAttempt t) = True" | "is_attempt _ = False"

fun unfinished :: "slot \<Rightarrow> bool" where
  "unfinished (Finished _ _ _) = False" | "unfinished _ = True"

definition pending :: "'w orch_state \<Rightarrow> nat" where
  "pending s = (case os_phase s of Ended _ \<Rightarrow> 0
     | InWave slots rest \<Rightarrow> length (filter unfinished slots) + length (concat rest))"

definition budget_inv :: "'w orchestrator \<Rightarrow> nat \<Rightarrow> 'w orch_state \<Rightarrow> bool" where
  "budget_inv orc n s = (n + pending s \<le> length (pl_tasks (os_plan s)) + length (ar_recovery (os_run s)) \<and>
     length (ar_recovery (os_run s)) \<le> re_max_recovery_attempts (or_recovery orc))"

lemma filter_update_count:
  assumes "i < length xs" and "P (xs ! i)"
  shows "length (filter P (xs[i := y])) + 1 = length (filter P xs) + (if P y then 1 else 0)"
proof -
  have l: "filter P xs = filter P (take i xs) @ xs ! i # filter P (drop (Suc i) xs)"
    by (subst id_take_nth_drop [OF assms(1)]) (simp add: assms(2))
  have r: "filter P (xs[i := y]) = filter P (take i xs) @ filter P (y # drop (Suc i) xs)"
    using assms(1) by (simp add: upd_conv_take_nth_drop)
  show ?thesis unfolding l r by simp
qed

lemma finish_run_pending [orch_simps]: "pending (finish_run s) = 0" "os_plan (finish_run s) = os_plan s"
  by (simp_all add: pending_def finish_run_def Let_def orch_simps)

lemma pending_wave: "os_phase s = InWave slots rest \<Longrightarrow>
    pending s = length (filter unfinished slots) + length (concat rest)"
  by (simp add: pending_def)

lemma next_wave_pending:
  "pending (next_wave rest s) \<le> length (concat rest)" "os_plan (next_wave rest s) = os_plan s"
proof -
  have u: "length (filter unfinished (map Waiting w)) = length w" for w by (induction w) auto
  show "pending (next_wave rest s) \<le> length (concat rest)"
    by (cases rest) (auto simp: next_wave_def orch_simps pending_wave u)
  show "os_plan (next_wave rest s) = os_plan s"
    by (cases rest) (auto simp: next_wave_def orch_simps)
qed

lemma end_wave_pending:
  "pending (end_wave results rest s) \<le> length (concat rest)" "os_plan (end_wave results rest s) = os_plan s"
  using next_wave_pending [of rest "save_run (fold record_result results s)"]
  by (auto simp: end_wave_def Let_def orch_simps)

lemma task_attempt_budget:
  assumes "task_attempt orc t s = (s1, sl)"
    and "length (ar_recovery (os_run s)) \<le> re_max_recovery_attempts (or_recovery orc)"
  shows "length (ar_recovery (os_run s)) + (if unfinished sl then 1 else 0) \<le> length (ar_recovery (os_run s1))"
    "length (ar_recovery (os_run s1)) \<le> re_max_recovery_attempts (or_recovery orc)"
proof -
  obtain w res where ex: "execute_task (or_agents orc) t (os_obs s) (os_world s) = (w, res)" by fastforce
  let ?ver = "verify_step (or_verifier orc) t res"
  obtain t' r' st action where ev: "evaluate_failure (or_recovery orc) t (vr_notes ?ver) (os_run s) = (t', r', st, action)"
    by (metis prod_cases4)
  note b = evaluate_failure_budget [OF ev assms(2)]
  have m: "length (ar_recovery (os_run s)) \<le> length (ar_recovery r')"
    using ev by (auto simp: evaluate_failure_def Let_def split: if_splits)
  show "length (ar_recovery (os_run s)) + (if unfinished sl then 1 else 0) \<le> length (ar_recovery (os_run s1))"
    "length (ar_recovery (os_run s1)) \<le> re_max_recovery_attempts (or_recovery orc)"
    using assms b(1,3) m
    by (auto simp: task_attempt_def ex Let_def orch_simps ev split: if_splits)
qed

lemma orch_step_budget:
  assumes "orch_step orc s l s'" and "budget_inv orc n s"
  shows "budget_inv orc (n + (if is_attempt l then 1 else 0)) s'"
  using assms
proof (induction rule: orch_step.induct)
  case (begin_task s slots rest i t s')
  then show ?case
    using filter_update_count [of i slots unfinished "Active t"]
    by (simp add: budget_inv_def pending_def orch_simps)
next
  case (attempt s slots rest i t s1 sl s')
  have "length (ar_recovery (os_run s)) \<le> re_max_recovery_attempts (or_recovery orc)"
    using attempt(6) by (simp add: budget_inv_def)
  note tb = task_attempt_budget [OF attempt(4) this]
  show ?case
    using attempt(1-3,5,6) tb task_attempt_frame(1) [OF attempt(4)]
      filter_update_count [of i slots unfinished sl]
    by (auto simp: budget_inv_def pending_def split: if_splits)
next
  case (wave_end s slots rest results)
  then show ?case using end_wave_pending [of results rest s]
    by (auto simp: budget_inv_def orch_simps pending_def [of s])
qed (auto simp: budget_inv_def pending_def cancel_run_def pause_run_def resume_run_def set_state_def save_run_def)

lemma begin_run_budget: "budget_inv orc 0 (begin_run orc g k c w)"
proof (rule begin_run_cases [of orc g k c w])
  fix exc s
  assume "begin_run orc g k c w = fail_run exc s" "ar_recovery (os_run s) = []"
  then show ?thesis by (simp add: budget_inv_def pending_def fail_run_phase)
next
  fix waves s
  assume b: "begin_run orc g k c w = next_wave waves s" "ar_recovery (os_run s) = []"
    "validate_and_sort (or_validator orc) (os_plan s) = Inr waves"
  have "length (concat waves) = length (pl_tasks (os_plan s))"
    using validate_and_sort_mset [OF b(3)] by (metis size_mset)
  then show ?thesis using b(1,2) next_wave_pending [of waves s]
    by (simp add: budget_inv_def orch_simps)
qed

lemma orch_trace_budget:
  "orch_trace orc s0 tr s \<Longrightarrow> budget_inv orc 0 s0 \<Longrightarrow> budget_inv orc (length (filter is_attempt tr)) s"
proof (induction rule: orch_trace.induct)
  case (snoc tr s l s')
  from orch_step_budget [OF snoc(2) snoc.IH [OF snoc.prems]] show ?case
    by (cases "is_attempt l") simp_all
qed simp

text \<open>
  C5. Bounded work. Whatever the agents return and however the tasks interleave, a run makes at most
  as many attempts as its plan has tasks plus the global recovery budget, and the recovery log never
  exceeds that budget.
\<close>

theorem attempts_bounded:
  assumes "orch_trace orc (begin_run orc g k c w) tr s"
  shows "length (filter is_attempt tr) \<le> length (pl_tasks (os_plan s)) + re_max_recovery_attempts (or_recovery orc) \<and>
         length (ar_recovery (os_run s)) \<le> re_max_recovery_attempts (or_recovery orc)"
  using orch_trace_budget [OF assms begin_run_budget] by (simp add: budget_inv_def)


section \<open>Progress\<close>

fun internal :: "orch_label \<Rightarrow> bool" where
  "internal (LBegin t) = True" | "internal (LAttempt t) = True" | "internal LWaveEnd = True"
| "internal _ = False"

text \<open>A scheduler that takes the first task that can go on.\<close>

fun first_unfinished :: "slot list \<Rightarrow> nat option" where
  "first_unfinished [] = None"
| "first_unfinished (Finished _ _ _ # ss) = map_option Suc (first_unfinished ss)"
| "first_unfinished (_ # ss) = Some 0"

definition auto_step :: "'w orchestrator \<Rightarrow> 'w orch_state \<Rightarrow> (orch_label \<times> 'w orch_state) option" where
  "auto_step orc s = (case os_phase s of
     Ended _ \<Rightarrow> None
   | InWave slots rest \<Rightarrow>
       (case first_unfinished slots of
          None \<Rightarrow> (case wave_results slots of
                     Some results \<Rightarrow> Some (LWaveEnd, end_wave results rest s) | None \<Rightarrow> None)
        | Some i \<Rightarrow> (case slots ! i of
             Waiting t \<Rightarrow> Some (LBegin t, (emit ''agent.step.started'' (Some (at_id t))
                 (s\<lparr>os_run := (os_run s)\<lparr>ar_current_task := Some (at_id t)\<rparr>\<rparr>))
               \<lparr>os_phase := InWave (slots[i := Active t]) rest\<rparr>)
           | Active t \<Rightarrow> (let (s1, sl) = task_attempt orc t s
                          in Some (LAttempt t, s1\<lparr>os_phase := InWave (slots[i := sl]) rest\<rparr>))
           | Finished t _ _ \<Rightarrow> None)))"

lemma first_unfinished_Some:
  "first_unfinished slots = Some i \<Longrightarrow> i < length slots \<and> unfinished (slots ! i)"
  by (induction slots arbitrary: i rule: first_unfinished.induct) auto

lemma first_unfinished_None:
  "first_unfinished slots = None \<Longrightarrow> \<exists>results. wave_results slots = Some results"
  by (induction slots rule: first_unfinished.induct) auto

lemma auto_step_sound: "auto_step orc s = Some (l, s') \<Longrightarrow> orch_step orc s l s' \<and> internal l"
  by (auto simp: auto_step_def split: phase.splits option.splits slot.splits prod.splits
      dest!: first_unfinished_Some intro: orch_step.intros)

lemma auto_step_exists: "os_phase s = InWave slots rest \<Longrightarrow> \<exists>l s'. auto_step orc s = Some (l, s')"
proof (cases "first_unfinished slots")
  case None
  assume "os_phase s = InWave slots rest"
  with None first_unfinished_None [OF None] show ?thesis by (auto simp: auto_step_def)
next
  case (Some i)
  assume "os_phase s = InWave slots rest"
  with Some first_unfinished_Some [OF Some] show ?thesis
    by (cases "slots ! i") (auto simp: auto_step_def split: prod.splits)
qed

fun slot_work :: "slot \<Rightarrow> nat" where
  "slot_work (Waiting _) = 2" | "slot_work (Active _) = 1" | "slot_work (Finished _ _ _) = 0"

definition work :: "'w orchestrator \<Rightarrow> 'w orch_state \<Rightarrow> nat" where
  "work orc s = (re_max_recovery_attempts (or_recovery orc) - length (ar_recovery (os_run s))) +
     (case os_phase s of Ended _ \<Rightarrow> 0
      | InWave slots rest \<Rightarrow> Suc (sum_list (map slot_work slots) + sum_list (map (\<lambda>w. Suc (2 * length w)) rest)))"

lemma sum_list_update_work:
  "i < length xs \<Longrightarrow>
     sum_list (map slot_work (xs[i := y])) + slot_work (xs ! i) = sum_list (map slot_work xs) + slot_work y"
  by (induction xs arbitrary: i) (auto split: nat.split simp: nth_Cons')

lemma finish_run_work: "work orc (finish_run s) = re_max_recovery_attempts (or_recovery orc) - length (ar_recovery (os_run s))"
  by (simp add: work_def finish_run_phase finish_run_def Let_def orch_simps)

lemma next_wave_work:
  "work orc (next_wave rest s) \<le> (re_max_recovery_attempts (or_recovery orc) - length (ar_recovery (os_run s)))
     + sum_list (map (\<lambda>w. Suc (2 * length w)) rest)"
proof (cases rest)
  case (Cons w ws)
  have u: "sum_list (map slot_work (map Waiting w)) = 2 * length w" for w by (induction w) auto
  have "work orc (s\<lparr>os_phase := InWave (map Waiting w) ws\<rparr>)
      = (re_max_recovery_attempts (or_recovery orc) - length (ar_recovery (os_run s)))
        + Suc (2 * length w + sum_list (map (\<lambda>w. Suc (2 * length w)) ws))"
    unfolding work_def using u [of w] by simp
  then show ?thesis by (simp add: Cons next_wave_def finish_run_work orch_simps)
qed (simp add: next_wave_def finish_run_work)

lemma internal_step_work:
  assumes "orch_step orc s l s'" and "internal l" and "budget_inv orc n s"
  shows "work orc s' < work orc s"
  using assms
proof (induction rule: orch_step.induct)
  case (begin_task s slots rest i t s')
  then show ?case using sum_list_update_work [of i slots "Active t"]
    by (simp add: work_def orch_simps)
next
  case (attempt s slots rest i t s1 sl s')
  have len: "length (ar_recovery (os_run s)) \<le> re_max_recovery_attempts (or_recovery orc)"
    using attempt(7) by (simp add: budget_inv_def)
  have sw: "slot_work sl = (if unfinished sl then 1 else 0)"
    using task_attempt_frame(6) [OF attempt(4)] by (cases sl) auto
  show ?case
    using attempt(1-3,5) task_attempt_budget [OF attempt(4) len] sw sum_list_update_work [of i slots sl]
    by (simp add: work_def split: if_splits)
next
  case (wave_end s slots rest results)
  let ?s1 = "save_run (fold record_result results s)"
  have "work orc (end_wave results rest s) \<le>
      (re_max_recovery_attempts (or_recovery orc) - length (ar_recovery (os_run s)))
        + sum_list (map (\<lambda>w. Suc (2 * length w)) rest)"
    using next_wave_work [of orc rest ?s1]
    by (simp add: end_wave_def Let_def orch_simps finish_run_work)
  then show ?case using wave_end by (simp add: work_def)
qed auto

text \<open>
  C4. A run comes to an end. In every reachable state of a run that has not ended, a step of the run
  itself is possible, so the tasks of a wave cannot deadlock; and every such step decreases the
  remaining work, a number, so with finitely many interventions from outside no run goes on forever.
\<close>

theorem run_progress:
  assumes "orch_trace orc (begin_run orc g k c w) tr s"
  shows "((\<exists>st. os_phase s = Ended st) \<or> (\<exists>l s'. internal l \<and> orch_step orc s l s')) \<and>
         (\<forall>l s'. internal l \<and> orch_step orc s l s' \<longrightarrow> work orc s' < work orc s)"
proof -
  have "\<exists>l s'. internal l \<and> orch_step orc s l s'" if "os_phase s = InWave slots rest" for slots rest
    using auto_step_exists [OF that, of orc] auto_step_sound [of orc s] by blast
  then have "(\<exists>st. os_phase s = Ended st) \<or> (\<exists>l s'. internal l \<and> orch_step orc s l s')"
    by (cases "os_phase s") auto
  with internal_step_work [OF _ _ orch_trace_budget [OF assms begin_run_budget]] show ?thesis by blast
qed

section \<open>Pause and cancel\<close>

text \<open>
  Pausing does not pause. Whatever step a run can take by itself it can also take after
  \<open>pause_run\<close>, with the same label and the same effect on the world: the set of paused runs is never
  consulted.
\<close>

theorem pause_does_not_stop:
  assumes "orch_step orc s l s'" and "internal l"
  shows "\<exists>s2. orch_step orc (pause_run s) l s2 \<and> os_world s2 = os_world s'"
  using assms
proof (induction rule: orch_step.induct)
  case (begin_task s slots rest i t s')
  have "os_phase (pause_run s) = InWave slots rest"
    using begin_task(1) by (simp add: pause_run_def orch_simps)
  from orch_step.begin_task [OF this begin_task(2,3) refl, of orc] show ?case
    using begin_task(4) by (intro exI conjI) (assumption, simp add: pause_run_def orch_simps set_state_def save_run_def)
next
  case (attempt s slots rest i t s1 sl s')
  have w: "os_world (fst (task_attempt orc t s)) = fst (execute_task (or_agents orc) t (os_obs s) (os_world s))"
    for s :: "'a orch_state" by (auto simp: task_attempt_def Let_def emit_def split: prod.splits)
  obtain s2 sl2 where t2: "task_attempt orc t (pause_run s) = (s2, sl2)" by fastforce
  have "os_world s2 = os_world s1"
    using w [of "pause_run s"] w [of s] t2 attempt(4)
    by (simp add: pause_run_def set_state_def save_run_def)
  moreover have "orch_step orc (pause_run s) (LAttempt t) (s2\<lparr>os_phase := InWave (slots[i := sl2]) rest\<rparr>)"
    using attempt(1-3) t2
    by (intro orch_step.attempt [of "pause_run s" slots rest i t]) (auto simp: pause_run_def orch_simps)
  ultimately show ?case using attempt(5) by force
next
  case (wave_end s slots rest results)
  have wf: "os_world (finish_run s) = os_world s" for s :: "'a orch_state"
    by (simp add: finish_run_def Let_def emit_def set_state_def save_run_def)
  have wn: "os_world (next_wave rest s) = os_world s" for s :: "'a orch_state"
    by (simp add: next_wave_def wf emit_def set_state_def split: list.split)
  have wr: "os_world (fold record_result xs s) = os_world s" for xs and s :: "'a orch_state"
    by (induction xs arbitrary: s) (auto simp: record_result_def Let_def split: prod.splits)
  have we: "os_world (end_wave results rest s) = os_world s" for s :: "'a orch_state"
    by (simp add: end_wave_def Let_def wf wn wr save_run_def)
  have "orch_step orc (pause_run s) LWaveEnd (end_wave results rest (pause_run s))"
    using wave_end by (intro orch_step.wave_end [of _ slots]) (auto simp: pause_run_def orch_simps)
  then show ?case using we [of s] we [of "pause_run s"]
    by (auto simp: pause_run_def set_state_def save_run_def)
qed auto

lemma fold_record_state:
  "ar_state (os_run (fold record_result xs s)) =
     (if \<forall>(t, res, ver) \<in> set xs. vr_state ver = VPASSED then ar_state (os_run s) else AFAILED)"
  by (induction xs arbitrary: s) (auto simp: orch_simps)

text \<open>
  Cancelling. When a cancelled run reaches the end of its current wave, no further wave is
  started: the run ends there. It ends as cancelled only if every task of that wave passed; one
  failed task overwrites the cancellation, and the run is reported as failed.
\<close>

theorem cancel_stops_after_wave:
  assumes "os_phase s = InWave slots rest" and "wave_results slots = Some results"
    and "os_cancelled s" and "ar_state (os_run s) = ACANCELLED"
  shows "orch_step orc s LWaveEnd (end_wave results rest s) \<and>
         os_phase (end_wave results rest s) =
           Ended (if \<forall>(t, res, ver) \<in> set results. vr_state ver = VPASSED then ACANCELLED else AFAILED)"
proof -
  have "orch_step orc s LWaveEnd (end_wave results rest s)"
    using assms(1,2) by (rule orch_step.wave_end)
  moreover have ph: "os_phase (finish_run s) = Ended (ar_state (os_run s))"
    if "ar_state (os_run s) \<in> {AFAILED, ACANCELLED}" for s :: "'a orch_state"
    using that by (auto simp: finish_run_def Let_def orch_simps)
  moreover have "os_phase (next_wave rest (save_run (fold record_result results s))) = Ended ACANCELLED"
    if "ar_state (os_run (fold record_result results s)) = ACANCELLED"
    using that assms(3) by (cases rest) (simp_all add: next_wave_def ph orch_simps)
  ultimately show ?thesis
    using assms(4) fold_record_state [of results s] by (simp add: end_wave_def Let_def orch_simps)
qed

section \<open>Witnesses\<close>

fun auto_run :: "nat \<Rightarrow> 'w orchestrator \<Rightarrow> 'w orch_state \<Rightarrow> orch_label list \<times> 'w orch_state" where
  "auto_run 0 orc s = ([], s)"
| "auto_run (Suc n) orc s =
     (let (tr, s1) = auto_run n orc s
      in case auto_step orc s1 of None \<Rightarrow> (tr, s1) | Some (l, s2) \<Rightarrow> (tr @ [l], s2))"

lemma auto_run_trace: "auto_run n orc s = (tr, s') \<Longrightarrow> orch_trace orc s tr s'"
proof (induction n arbitrary: tr s')
  case (Suc n)
  obtain tr1 s1 where r: "auto_run n orc s = (tr1, s1)" by fastforce
  with Suc show ?case
    by (cases "auto_step orc s1") (auto dest: auto_step_sound intro: orch_trace.snoc)
qed (simp add: orch_trace.nil)

definition demo_agent :: "string \<Rightarrow> pyval \<Rightarrow> nat agent" where
  "demo_agent k out = \<lparr>ag_definition = \<lparr>ad_id = k, ad_name = k, ad_description = k, ad_capabilities = [CCODING],
       ad_allowed_tools = [], ad_risk_level = ''low'', ad_enabled = True\<rparr>,
     ag_execute = (\<lambda>t obs w. (Suc w, Inr \<lparr>sr_task_id = at_id t, sr_agent_id = k, sr_status = KCOMPLETED,
       sr_output = out, sr_artifacts = [], sr_observations = [], sr_error = None\<rparr>))\<rparr>"

definition demo_orchestrator :: "nat orchestrator" where
  "demo_orchestrator = \<lparr>
     or_agents = [(''agent.planner'', demo_agent ''agent.planner'' (PDict [(''plan'', PNone)])),
                  (''agent.coding'', demo_agent ''agent.coding'' (PStr ''done''))],
     or_validator = \<lparr>pv_max_steps = 20, pv_agents = None, pv_tools = None\<rparr>,
     or_verifier = \<lparr>av_sandbox = None, av_files = \<lparr>ff_exists = (\<lambda>_. True), ff_size = (\<lambda>_. 1)\<rparr>\<rparr>,
     or_recovery = \<lparr>re_max_step_retries = 2, re_max_replans = 2, re_max_recovery_attempts = 5\<rparr>,
     or_parse_plan = (\<lambda>_. Inr demo_plan)\<rparr>"

definition demo_goal :: agent_goal where
  "demo_goal = \<lparr>gl_id = ''g'', gl_user_prompt = ''build''\<rparr>"

definition demo_start :: "nat orch_state" where
  "demo_start = begin_run demo_orchestrator demo_goal ''r'' False 0"

lemma demo_fifth_step:
  "map_option fst (auto_step demo_orchestrator (snd (auto_run 4 demo_orchestrator demo_start)))
     = Some (LAttempt (demo_task ''b'' [''a'']))"
  by code_simp

lemma demo_end: "os_phase (snd (auto_run 20 demo_orchestrator demo_start)) = Ended ACOMPLETED"
  by code_simp

lemma demo_trace: "orch_trace demo_orchestrator demo_start (fst (auto_run n demo_orchestrator demo_start))
    (snd (auto_run n demo_orchestrator demo_start))"
  by (rule auto_run_trace) simp

theorem attempt_after_dependencies_witness:
  "\<exists>v. dict_get (ar_verifications (os_run (snd (auto_run 4 demo_orchestrator demo_start)))) ''a'' = Some v \<and>
       vr_state v = VPASSED"
proof -
  let ?s = "snd (auto_run 4 demo_orchestrator demo_start)"
  obtain s' where "auto_step demo_orchestrator ?s = Some (LAttempt (demo_task ''b'' [''a'']), s')"
    using demo_fifth_step by auto
  then have st: "orch_step demo_orchestrator ?s (LAttempt (demo_task ''b'' [''a''])) s'"
    by (simp add: auto_step_sound)
  show ?thesis
    by (rule attempt_after_dependencies [OF demo_trace [of 4, unfolded demo_start_def] st [unfolded demo_start_def],
          folded demo_start_def]) (simp add: demo_task_def)
qed

theorem run_end_state_witness:
  "list_all (\<lambda>t. \<exists>v. dict_get (ar_verifications (os_run (snd (auto_run 20 demo_orchestrator demo_start)))) (at_id t)
       = Some v \<and> vr_state v = VPASSED) (pl_tasks (os_plan (snd (auto_run 20 demo_orchestrator demo_start))))"
  using run_end_state [OF demo_trace [of 20, unfolded demo_start_def] demo_end [unfolded demo_start_def]]
  by (simp add: demo_start_def list_all_iff)

theorem attempts_bounded_witness:
  "length (filter is_attempt (fst (auto_run 20 demo_orchestrator demo_start))) \<le>
     length (pl_tasks (os_plan (snd (auto_run 20 demo_orchestrator demo_start)))) + 5"
  using attempts_bounded [OF demo_trace [of 20, unfolded demo_start_def]]
  by (simp add: demo_start_def demo_orchestrator_def)

theorem run_progress_witness:
  "\<exists>l s'. internal l \<and> orch_step demo_orchestrator (snd (auto_run 4 demo_orchestrator demo_start)) l s' \<and>
     work demo_orchestrator s' < work demo_orchestrator (snd (auto_run 4 demo_orchestrator demo_start))"
proof -
  let ?s = "snd (auto_run 4 demo_orchestrator demo_start)"
  obtain s' where "auto_step demo_orchestrator ?s = Some (LAttempt (demo_task ''b'' [''a'']), s')"
    using demo_fifth_step by auto
  then have st: "orch_step demo_orchestrator ?s (LAttempt (demo_task ''b'' [''a''])) s'"
    by (simp add: auto_step_sound)
  with run_progress [OF demo_trace [of 4, unfolded demo_start_def], folded demo_start_def] show ?thesis
    by (meson internal.simps(2))
qed

theorem pause_does_not_stop_witness:
  "\<exists>s2. orch_step demo_orchestrator (pause_run (snd (auto_run 4 demo_orchestrator demo_start)))
          (LAttempt (demo_task ''b'' [''a''])) s2"
proof -
  let ?s = "snd (auto_run 4 demo_orchestrator demo_start)"
  obtain s' where "auto_step demo_orchestrator ?s = Some (LAttempt (demo_task ''b'' [''a'']), s')"
    using demo_fifth_step by auto
  then have "orch_step demo_orchestrator ?s (LAttempt (demo_task ''b'' [''a''])) s'"
    by (simp add: auto_step_sound)
  from pause_does_not_stop [OF this] show ?thesis by auto
qed

definition demo_cancelled :: "nat orch_state" where
  "demo_cancelled = cancel_run (demo_start\<lparr>os_phase := InWave [Finished (demo_task ''a'' [])
      (step_failure (demo_task ''a'' []) ''boom'')
      (verify_step (or_verifier demo_orchestrator) (demo_task ''a'' []) (step_failure (demo_task ''a'' []) ''boom''))] []\<rparr>)"

theorem cancel_stops_after_wave_witness:
  "\<exists>s'. orch_step demo_orchestrator demo_cancelled LWaveEnd s' \<and> os_phase s' = Ended AFAILED"
proof -
  let ?f = "step_failure (demo_task ''a'' []) ''boom''"
  let ?v = "verify_step (or_verifier demo_orchestrator) (demo_task ''a'' []) ?f"
  have v: "vr_state ?v = VFAILED" by (simp add: verify_step_def step_failure_def)
  have "os_phase demo_cancelled = InWave [Finished (demo_task ''a'' []) ?f ?v] []"
    "wave_results [Finished (demo_task ''a'' []) ?f ?v] = Some [(demo_task ''a'' [], ?f, ?v)]"
    "os_cancelled demo_cancelled" "ar_state (os_run demo_cancelled) = ACANCELLED"
    by (simp_all add: demo_cancelled_def cancel_run_def orch_simps)
  from cancel_stops_after_wave [OF this, of demo_orchestrator] show ?thesis using v by auto
qed

end
