(* ===== verification/Synthesizer.thy ===== *)
theory Synthesizer
  imports Agent_Runtime
begin

text \<open>
  The final response of a run (\<open>agents/synthesizer.py\<close>). The bullet character of the list lines is
  outside the code points of the model and is the argument \<open>bullet\<close>; \<open>str_of\<close> is Python's \<open>str\<close> on
  an output; \<open>llm\<close> is what the optional AI router answers, an exception or a text.
\<close>

record final_response =
  fr_run_id :: string
  fr_goal_id :: string
  fr_status :: agent_state
  fr_summary :: string
  fr_verified_artifacts :: "string list"
  fr_statistics :: "(string \<times> nat) list"
  fr_execution_time_ms :: rat
  fr_error :: "string option"

text \<open>\<open>list(dict.fromkeys(xs))\<close>: duplicates dropped, first occurrences kept in order.\<close>

fun dedup_from :: "string list \<Rightarrow> string list \<Rightarrow> string list" where
  "dedup_from seen [] = []"
| "dedup_from seen (x # xs) = (if x \<in> set seen then dedup_from seen xs else x # dedup_from (x # seen) xs)"

definition verified_artifacts :: "agent_run \<Rightarrow> string list" where
  "verified_artifacts r = dedup_from [] (concat (map (\<lambda>(_, v).
     if vr_state v = VPASSED then vr_verified_artifacts v else []) (ar_verifications r)))"

definition newline :: string where "newline = [char_of (10::nat)]"

definition shorten :: "string \<Rightarrow> string" where
  "shorten s = (if 200 < length s then take 197 s @ ''...'' else s)"

definition findings :: "(pyval \<Rightarrow> string) \<Rightarrow> string \<Rightarrow> agent_run \<Rightarrow> string list" where
  "findings str_of bullet r = concat (map (\<lambda>(k, res).
     if sr_status res = KCOMPLETED \<and> truthy (sr_output res)
     then [bullet @ '' '' @ k @ '': '' @ shorten (str_of (sr_output res))] else []) (ar_task_results r))"

definition template_summary :: "(pyval \<Rightarrow> string) \<Rightarrow> string \<Rightarrow> agent_run \<Rightarrow> string" where
  "template_summary str_of bullet r =
     (let prompt = gl_user_prompt (ar_goal r);
          base = (if ar_state r = ACOMPLETED then ''Objective successfully accomplished: '' @ quoted prompt @ ''.''
                  else if ar_state r = ACANCELLED then ''Execution cancelled for goal: '' @ quoted prompt @ ''.''
                  else ''Execution incomplete for goal: '' @ quoted prompt @ ''.'');
          fs = findings str_of bullet r;
          findings_text = (if fs \<noteq> [] then newline @ join newline fs else []);
          arts = verified_artifacts r;
          artifact_text = (if arts \<noteq> []
            then newline @ ''Verified artifacts created ('' @ show_nat (length arts) @ ''):'' @ newline @
                 join newline (map (\<lambda>a. bullet @ '' '' @ path_name (pp_parts (parse_path a))) arts)
            else [])
      in base @ findings_text @ artifact_text)"

definition synthesize ::
  "(pyval \<Rightarrow> string) \<Rightarrow> string \<Rightarrow> (string + string) option \<Rightarrow> agent_run \<Rightarrow> final_response" where
  "synthesize str_of bullet llm r =
     (let summary = template_summary str_of bullet r;
          summary = (if findings str_of bullet r = [] then summary
                     else case llm of
                            Some (Inr content) \<Rightarrow> if content \<noteq> [] then strip content else summary
                          | _ \<Rightarrow> summary)
      in \<lparr>fr_run_id = ar_run_id r, fr_goal_id = gl_id (ar_goal r), fr_status = ar_state r,
          fr_summary = summary, fr_verified_artifacts = verified_artifacts r,
          fr_statistics = [(''total'', case ar_plan r of None \<Rightarrow> 0 | Some p \<Rightarrow> length (pl_tasks p)),
                           (''completed'', length (ar_completed r)), (''failed'', length (ar_failed r))],
          fr_execution_time_ms = round_to 2 (ar_duration_ms r), fr_error = ar_error r\<rparr>)"

lemma set_dedup_from: "set (dedup_from seen xs) = set xs - set seen"
  by (induction seen xs rule: dedup_from.induct) auto

lemma distinct_dedup_from: "distinct (dedup_from seen xs)"
  by (induction seen xs rule: dedup_from.induct) (auto simp: set_dedup_from)

lemma length_shorten: "length (shorten s) \<le> 200"
  by (simp add: shorten_def)

text \<open>
  The final response claims only verified artifacts: its list has no duplicates and contains a
  path exactly when the verification of some task passed and verified that path. An exception of
  the language model, or no model at all, leaves the template summary, and the status is the run's.
\<close>

theorem response_artifacts_verified:
  "distinct (fr_verified_artifacts (synthesize str_of bullet llm r)) \<and>
   (\<forall>a. a \<in> set (fr_verified_artifacts (synthesize str_of bullet llm r)) =
      (\<exists>k v. (k, v) \<in> set (ar_verifications r) \<and> vr_state v = VPASSED \<and> a \<in> set (vr_verified_artifacts v))) \<and>
   fr_status (synthesize str_of bullet llm r) = ar_state r \<and>
   fr_summary (synthesize str_of bullet None r) = template_summary str_of bullet r \<and>
   fr_summary (synthesize str_of bullet (Some (Inl exc)) r) = template_summary str_of bullet r"
  by (auto simp: synthesize_def Let_def verified_artifacts_def set_dedup_from distinct_dedup_from split: if_splits)

end
