(* ===== verification/Ipc_Framing.thy ===== *)
theory Ipc_Framing
  imports Prelude
begin

text \<open>
  The wire format of the IPC bridge (\<open>ipc/framing.py\<close>): newline-delimited UTF-8. A stream is the list
  of the bytes still to come before its end. \<open>stream_readline\<close> is \<open>StreamReader.readline\<close> with the
  reader's own limit, which the server leaves at asyncio's default of 64 KiB. The text codec is a
  parameter with the contract \<open>text_codec\<close>; UTF-8 on the code points below 256 is its
  interpretation. The JSON parser is the parameter \<open>loads\<close>.
\<close>

datatype ipc_error = IPCProtocolError string | IPCOversizedMessageError string

definition nl :: char where "nl = char_of (10::nat)"

definition STREAM_LIMIT :: nat where "STREAM_LIMIT = 65536"

definition stream_readline :: "nat \<Rightarrow> string \<Rightarrow> (string + string) \<times> string" where
  "stream_readline limit bs =
     (let line = takeWhile (\<lambda>c. c \<noteq> nl) bs
      in if limit < length line
         then (Inl ''Separator is not found, and chunk exceed the limit'', [])
         else (Inr (take (Suc (length line)) bs), drop (Suc (length line)) bs))"

definition read_frame ::
  "(string \<Rightarrow> string option) \<Rightarrow> nat \<Rightarrow> nat \<Rightarrow> string \<Rightarrow> (ipc_error + string option) \<times> string" where
  "read_frame dec limit max_bytes bs =
     (case stream_readline limit bs of
        (Inl e, rest) \<Rightarrow> (Inl (IPCProtocolError (''Failed reading stream frame: '' @ e)), rest)
      | (Inr line_bytes, rest) \<Rightarrow>
          if line_bytes = [] then (Inr None, rest)
          else if max_bytes < length line_bytes
          then (Inl (IPCOversizedMessageError (''Message size '' @ show_nat (length line_bytes)
                  @ '' bytes exceeds limit of '' @ show_nat max_bytes @ '' bytes'')), rest)
          else (case dec line_bytes of
                  None \<Rightarrow> (Inl (IPCProtocolError ''Invalid UTF-8 payload in stream frame''), rest)
                | Some s \<Rightarrow> (Inr (Some (strip s)), rest)))"

text \<open>\<open>write_frame\<close> of a text (a message that was serialised already).\<close>

definition write_frame :: "(string \<Rightarrow> string) \<Rightarrow> string \<Rightarrow> string" where
  "write_frame enc s = enc (strip s @ [nl])"

definition parse_json_frame :: "(string \<Rightarrow> string + pyval) \<Rightarrow> string \<Rightarrow> ipc_error + pyval dict" where
  "parse_json_frame loads raw =
     (if raw = [] then Inl (IPCProtocolError ''Empty frame payload received'')
      else case loads raw of
             Inl e \<Rightarrow> Inl (IPCProtocolError (''Malformed JSON in frame: '' @ e))
           | Inr (PDict d) \<Rightarrow> Inr d
           | Inr _ \<Rightarrow> Inl (IPCProtocolError ''JSON-RPC frame must be a JSON object''))"

text \<open>All frames of a stream, to its end or to the first error.\<close>

lemma readline_consumes:
  "stream_readline limit bs = (Inr l, rest) \<Longrightarrow> l \<noteq> [] \<Longrightarrow> length rest < length bs"
  by (cases bs) (auto simp: stream_readline_def Let_def split: if_splits)

lemma read_frame_consumes:
  "read_frame dec limit mx bs = (Inr (Some s), rest) \<Longrightarrow> length rest < length bs"
  by (auto simp: read_frame_def split: prod.splits sum.splits if_splits option.splits dest: readline_consumes)

function read_frames :: "(string \<Rightarrow> string option) \<Rightarrow> nat \<Rightarrow> nat \<Rightarrow> string \<Rightarrow> string list \<times> ipc_error option" where
  "read_frames dec limit mx bs =
     (case read_frame dec limit mx bs of
        (Inl e, _) \<Rightarrow> ([], Some e)
      | (Inr None, _) \<Rightarrow> ([], None)
      | (Inr (Some s), rest) \<Rightarrow> (let (fs, e) = read_frames dec limit mx rest in (s # fs, e)))"
  by pat_completeness auto
termination
  by (relation "measure (\<lambda>(dec, limit, mx, bs). length bs)") (auto dest: read_frame_consumes [OF sym])

declare read_frames.simps [simp del]

section \<open>The codec\<close>

locale text_codec =
  fixes enc :: "string \<Rightarrow> string"
    and dec :: "string \<Rightarrow> string option"
    and encodable :: "string \<Rightarrow> bool"
  assumes dec_enc: "encodable s \<Longrightarrow> dec (enc s) = Some s"
    and enc_append: "enc (s @ t) = enc s @ enc t"
    and enc_nl: "enc [nl] = [nl]"
    and enc_no_nl: "nl \<notin> set s \<Longrightarrow> nl \<notin> set (enc s)"
    and encodable_append: "encodable s \<Longrightarrow> encodable (s @ [nl])"
begin

lemma read_written:
  assumes "encodable s" and "nl \<notin> set s" and "strip s = s" and "strip (s @ [nl]) = s"
    and "length (enc s) \<le> limit" and "Suc (length (enc s)) \<le> mx"
  shows "read_frame dec limit mx (write_frame enc s @ rest) = (Inr (Some s), rest)"
proof -
  have w: "write_frame enc s = enc s @ [nl]" by (simp add: write_frame_def assms(3) enc_append enc_nl)
  have tw: "takeWhile (\<lambda>c. c \<noteq> nl) (enc s @ nl # rest) = enc s"
    using enc_no_nl [OF assms(2)] by (subst takeWhile_append2) auto
  have "stream_readline limit (write_frame enc s @ rest) = (Inr (enc s @ [nl]), rest)"
    using assms(5) by (simp add: stream_readline_def w tw)
  moreover have "dec (enc s @ [nl]) = Some (s @ [nl])"
    using dec_enc [OF encodable_append [OF assms(1)]] by (simp add: enc_append enc_nl)
  ultimately show ?thesis using assms(4,6) by (simp add: read_frame_def)
qed

lemma frames_roundtrip:
  assumes "\<forall>s \<in> set fs. encodable s \<and> nl \<notin> set s \<and> strip s = s \<and> strip (s @ [nl]) = s \<and>
     length (enc s) \<le> limit \<and> Suc (length (enc s)) \<le> mx"
  shows "read_frames dec limit mx (concat (map (write_frame enc) fs)) = (fs, None)"
  using assms
proof (induction fs)
  case Nil
  show ?case by (subst read_frames.simps) (simp add: read_frame_def stream_readline_def)
next
  case (Cons s fs)
  then have "read_frame dec limit mx (write_frame enc s @ concat (map (write_frame enc) fs))
      = (Inr (Some s), concat (map (write_frame enc) fs))"
    by (intro read_written) auto
  with Cons show ?case by (subst read_frames.simps) simp
qed

end

text \<open>UTF-8 on the code points below 256.\<close>

definition utf8_char :: "char \<Rightarrow> string" where
  "utf8_char c = (if code_of c < 128 then [c]
                  else [char_of (192 + code_of c div 64), char_of (128 + code_of c mod 64)])"

definition utf8_encode :: "string \<Rightarrow> string" where
  "utf8_encode s = concat (map utf8_char s)"

fun utf8_decode :: "string \<Rightarrow> string option" where
  "utf8_decode [] = Some []"
| "utf8_decode (b # bs) =
     (if code_of b < 128 then map_option (Cons b) (utf8_decode bs)
      else if code_of b = 194 \<or> code_of b = 195
      then (case bs of
              [] \<Rightarrow> None
            | b2 # bs' \<Rightarrow>
                if 128 \<le> code_of b2 \<and> code_of b2 < 192
                then map_option (Cons (char_of ((code_of b - 192) * 64 + (code_of b2 - 128)))) (utf8_decode bs')
                else None)
      else None)"

declare code_of_less [simp] char_of_code_of [simp]

lemma utf8_decode_char: "utf8_decode (utf8_char c @ bs) = map_option (Cons c) (utf8_decode bs)"
proof (cases "code_of c < 128")
  case False
  have "code_of c \<le> 255" using code_of_less [of c] by linarith
  then have d: "code_of c div 64 = 2 \<or> code_of c div 64 = 3"
    using False div_le_mono [of 128 "code_of c" 64] div_le_mono [of "code_of c" 255 64] by simp linarith
  then have b: "code_of (char_of (192 + code_of c div 64)) = 192 + code_of c div 64"
    by (intro code_of_char_of) auto
  have m: "code_of (char_of (128 + code_of c mod 64)) = 128 + code_of c mod 64"
    by (intro code_of_char_of) (use mod_less_divisor [of 64 "code_of c"] in linarith)
  have "(code_of c div 64) * 64 + code_of c mod 64 = code_of c" by simp
  with d b m False show ?thesis
    by (auto simp: utf8_char_def)
qed (simp add: utf8_char_def)

interpretation utf8: text_codec utf8_encode utf8_decode "\<lambda>_. True"
proof unfold_locales
  fix s t :: string
  show "utf8_decode (utf8_encode s) = Some s"
    by (induction s) (simp_all add: utf8_encode_def utf8_decode_char)
  show "utf8_encode (s @ t) = utf8_encode s @ utf8_encode t" by (simp add: utf8_encode_def)
  show "utf8_encode [nl] = [nl]" by (simp add: utf8_encode_def utf8_char_def nl_def code_of_char_of)
  show "nl \<notin> set s \<Longrightarrow> nl \<notin> set (utf8_encode s)"
  proof -
    assume n: "nl \<notin> set s"
    have "nl \<notin> set (utf8_char c)" if "c \<noteq> nl" for c
    proof -
      have "code_of nl = 10" by (simp add: nl_def code_of_char_of)
      moreover have "code_of (char_of (192 + code_of c div 64)) \<noteq> 10" if "\<not> code_of c < 128"
      proof -
        have "code_of c div 64 \<le> 3" using code_of_less [of c] by linarith
        then show ?thesis by (subst code_of_char_of) auto
      qed
      moreover have "code_of (char_of (128 + code_of c mod 64)) \<noteq> 10"
        by (subst code_of_char_of) (use mod_less_divisor [of 64 "code_of c"] in auto)
      ultimately show ?thesis using that by (auto simp: utf8_char_def)
    qed
    then show ?thesis using n by (induction s) (auto simp: utf8_encode_def)
  qed
qed simp

section \<open>Properties\<close>

text \<open>
  C32. Framing round trip. Any sequence of frames without line breaks and surrounding blanks, each
  within the stream limit and the message limit, that is written with \<open>write_frame\<close> and read with
  \<open>read_frame\<close> until the end of the stream comes back as it was, with no error.
\<close>

theorem framing_roundtrip:
  assumes "\<forall>s \<in> set fs. nl \<notin> set s \<and> strip s = s \<and> strip (s @ [nl]) = s \<and>
     length (utf8_encode s) \<le> limit \<and> Suc (length (utf8_encode s)) \<le> mx"
  shows "read_frames utf8_decode limit mx (concat (map (write_frame utf8_encode) fs)) = (fs, None)"
  using utf8.frames_roundtrip [of fs limit mx] assms by simp

theorem framing_roundtrip_witness:
  "read_frames utf8_decode 20 30 (concat (map (write_frame utf8_encode) [''{ping}'', ''x''])) = ([''{ping}'', ''x''], None)"
  by (rule framing_roundtrip) (code_simp)

text \<open>
  The message limit is never reached. With a message limit above the limit of the stream reader
  (as the defaults are: 10 MiB against 64 KiB) no input makes \<open>read_frame\<close> report an oversized
  message; every line longer than the stream limit is a failure to read the stream instead.
\<close>

theorem oversize_check_unreachable:
  assumes "limit < mx"
  shows "(\<forall>e rest. read_frame dec limit mx bs \<noteq> (Inl (IPCOversizedMessageError e), rest)) \<and>
         (limit < length (takeWhile (\<lambda>c. c \<noteq> nl) bs) \<longrightarrow>
            (\<exists>e. fst (read_frame dec limit mx bs) = Inl (IPCProtocolError e)))"
proof -
  have "length l \<le> Suc limit" if "stream_readline limit bs = (Inr l, r)" for l r
    using that by (auto simp: stream_readline_def Let_def split: if_splits)
  then have "read_frame dec limit mx bs \<noteq> (Inl (IPCOversizedMessageError e), rest)" for e rest
    using assms by (fastforce simp: read_frame_def split: prod.splits sum.splits option.splits if_splits)
  moreover have "\<exists>e. fst (read_frame dec limit mx bs) = Inl (IPCProtocolError e)"
    if "limit < length (takeWhile (\<lambda>c. c \<noteq> nl) bs)"
    using that by (simp add: read_frame_def stream_readline_def)
  ultimately show ?thesis by blast
qed

theorem oversize_check_unreachable_witness:
  "\<forall>bs e rest. read_frame utf8_decode STREAM_LIMIT 10485760 bs \<noteq> (Inl (IPCOversizedMessageError e), rest)"
  using oversize_check_unreachable [of STREAM_LIMIT 10485760 utf8_decode] by (simp add: STREAM_LIMIT_def)

end
