(* ===== verification/Ipc_Server.thy ===== *)
theory Ipc_Server
  imports Ipc_Framing Protocol "HOL-Library.Multiset"
begin

text \<open>
  The request router (\<open>ipc/router.py\<close>) and the IPC server (\<open>ipc/server.py\<close>). What the server does
  with one frame of a client is the function \<open>handle_message\<close>; connections, frames, request tasks
  and broadcasts interleave as the labelled step relation \<open>srv_step\<close>. A request task is created in
  one step, starts (and is counted) in another and finishes in a third, as with \<open>create_task\<close>.
  Handlers act on a world of any type; sockets that are gone swallow what is written to them.
\<close>

section \<open>The router\<close>

type_synonym 'w ipc_handler = "jarvis_request \<Rightarrow> 'w \<Rightarrow> 'w \<times> (string + pyval dict)"
type_synonym 'w ipc_router = "'w ipc_handler dict"

definition register_handler :: "string \<Rightarrow> 'w ipc_handler \<Rightarrow> 'w ipc_router \<Rightarrow> 'w ipc_router" where
  "register_handler m h r = dict_put m h r"

definition unregister_handler :: "string \<Rightarrow> 'w ipc_router \<Rightarrow> 'w ipc_router" where
  "unregister_handler m r = dict_del m r"

definition is_method_supported :: "'w ipc_router \<Rightarrow> string \<Rightarrow> bool" where
  "is_method_supported r m = dict_has r m"

definition handle_ping :: "rat \<Rightarrow> 'w ipc_handler" where
  "handle_ping now req w = (w, Inr [(''status'', PStr ''pong''), (''server'', PStr ''python-core''),
     (''protocol'', PStr PROTOCOL_VERSION), (''server_time'', PFloat now)])"

definition handle_health :: "rat \<Rightarrow> 'w ipc_handler" where
  "handle_health now req w = (w, Inr [(''core'', PStr ''healthy''), (''memory'', PStr ''unavailable''),
     (''voice'', PStr ''unavailable''), (''vision'', PStr ''unavailable''), (''tools'', PStr ''unavailable''),
     (''agent'', PStr ''unavailable''), (''server_time'', PFloat now)])"

definition default_router :: "rat \<Rightarrow> 'w ipc_router" where
  "default_router now = register_handler ''system.health'' (handle_health now)
     (register_handler ''system.ping'' (handle_ping now) [])"

definition secret_words :: "string list" where
  "secret_words = [''password'', ''token'', ''key'', ''secret'', ''cvv'']"

definition safe_message :: "string \<Rightarrow> string" where
  "safe_message exc = (if \<exists>sw \<in> set secret_words. contains (lower exc) sw
     then ''Execution failed with sensitive error condition'' else exc)"

definition dispatch :: "'w ipc_router \<Rightarrow> jarvis_request \<Rightarrow> 'w \<Rightarrow> 'w \<times> jarvis_response" where
  "dispatch r req w =
     (case dict_get r (req_type req) of
        None \<Rightarrow> (w, error_response (req_id req) (req_type req) ''METHOD_NOT_FOUND''
                      (''No handler registered for method '' @ quoted (req_type req)))
      | Some h \<Rightarrow>
          (case h req w of
             (w', Inr result) \<Rightarrow> (w', success_response (req_id req) (req_type req) result)
           | (w', Inl exc) \<Rightarrow>
               (w', error_response (req_id req) (req_type req) ''EXECUTION_ERROR'' (safe_message exc))))"

lemma safe_message_clean: "sw \<in> set secret_words \<Longrightarrow> \<not> contains (lower (safe_message exc)) sw"
proof (cases "\<exists>sw \<in> set secret_words. contains (lower exc) sw")
  case True
  assume "sw \<in> set secret_words"
  moreover have "list_all (\<lambda>sw. \<not> contains (lower ''Execution failed with sensitive error condition'') sw) secret_words"
    by code_simp
  ultimately show ?thesis using True by (auto simp: safe_message_def list_all_iff)
next
  case False
  assume "sw \<in> set secret_words"
  with False show ?thesis by (auto simp: safe_message_def)
qed

lemma dispatch_contract: "response_ok (snd (dispatch r req w))"
  by (auto simp: dispatch_def split: option.split prod.split sum.split)

text \<open>
  What the router answers. Every request gets exactly one response, with the request's id and
  type, that meets the error contract of the protocol; an unknown method leaves the world alone,
  and the message of an execution error contains none of the secret words in any letter case.
\<close>

theorem dispatch_response:
  "resp_id (snd (dispatch r req w)) = req_id req \<and> resp_type (snd (dispatch r req w)) = req_type req \<and>
   validate_error_contract (snd (dispatch r req w)) = Inr (snd (dispatch r req w)) \<and>
   (if is_method_supported r (req_type req) then True
    else fst (dispatch r req w) = w \<and> resp_error (snd (dispatch r req w)) \<noteq> None) \<and>
   (case resp_error (snd (dispatch r req w)) of None \<Rightarrow> True
    | Some e \<Rightarrow> pe_code e = ''METHOD_NOT_FOUND'' \<or>
        (pe_code e = ''EXECUTION_ERROR'' \<and> list_all (\<lambda>sw. \<not> contains (lower (pe_message e)) sw) secret_words))"
proof (cases "dict_get r (req_type req)")
  case None
  then show ?thesis
    by (simp add: dispatch_def validate_error_contract_iff)
next
  case (Some h)
  obtain w' res where h: "h req w = (w', res)" by fastforce
  show ?thesis
    using Some h safe_message_clean
    by (cases res) (auto simp: dispatch_def validate_error_contract_iff is_method_supported_def dict_has_def list_all_iff)
qed

section \<open>One frame of a client\<close>

text \<open>\<open>JarvisRequest.model_validate\<close>; the text of a validation error is the argument \<open>verr\<close>.\<close>

definition optional_str :: "pyval dict \<Rightarrow> string \<Rightarrow> bool" where
  "optional_str d k = (case dict_get d k of None \<Rightarrow> True | Some (PStr _) \<Rightarrow> True | _ \<Rightarrow> False)"

definition validate_request :: "(pyval dict \<Rightarrow> string) \<Rightarrow> pyval dict \<Rightarrow> string + jarvis_request" where
  "validate_request verr d =
     (case (dict_get d ''id'', dict_get d ''type'') of
        (Some (PStr i), Some (PStr t)) \<Rightarrow>
          if (case dict_get d ''version'' of None \<Rightarrow> True | Some v \<Rightarrow> v = PStr PROTOCOL_VERSION) \<and>
             optional_str d ''timestamp''
          then (case dict_get d ''payload'' of
                  None \<Rightarrow> Inr \<lparr>req_id = i, req_type = t, req_version = PROTOCOL_VERSION, req_payload = []\<rparr>
                | Some (PDict p) \<Rightarrow> Inr \<lparr>req_id = i, req_type = t, req_version = PROTOCOL_VERSION, req_payload = p\<rparr>
                | Some _ \<Rightarrow> Inl (verr d))
          else Inl (verr d)
      | _ \<Rightarrow> Inl (verr d))"

datatype conn_action =
    AIgnore
  | AReply jarvis_response
  | AReplyClose jarvis_response
  | AAccept jarvis_response
  | ASpawn jarvis_request
  | ACrash

text \<open>A response whose id or type is not a string cannot be built: the exception ends the loop.\<close>

definition with_ids :: "pyval \<Rightarrow> pyval \<Rightarrow> (string \<Rightarrow> string \<Rightarrow> conn_action) \<Rightarrow> conn_action" where
  "with_ids i t f = (case (i, t) of (PStr i', PStr t') \<Rightarrow> f i' t' | _ \<Rightarrow> ACrash)"

definition get_or :: "pyval dict \<Rightarrow> string \<Rightarrow> pyval \<Rightarrow> pyval" where
  "get_or d k v = (case dict_get d k of Some x \<Rightarrow> x | None \<Rightarrow> v)"

definition handshake_payload :: "string \<Rightarrow> rat \<Rightarrow> pyval dict" where
  "handshake_payload session now = [(''service'', PStr ''python-core''), (''version'', PStr ''0.1.0''),
     (''protocol'', PStr ''1.0''),
     (''capabilities'', PList (map PStr [''ai'', ''tools'', ''agents'', ''memory'', ''voice'', ''os'', ''vision'', ''events''])),
     (''session_id'', PStr session), (''timestamp'', PFloat now)]"

record msg_env =
  me_str :: "pyval \<Rightarrow> string"
  me_verr :: "pyval dict \<Rightarrow> string"
  me_loads :: "string \<Rightarrow> string + pyval"
  me_session :: string
  me_now :: rat

definition handle_handshake :: "msg_env \<Rightarrow> pyval dict \<Rightarrow> conn_action" where
  "handle_handshake env d =
     (if dict_get d ''type'' = Some (PStr ''ipc.handshake'')
      then let req_id = get_or d ''id'' (PStr ''handshake_init'');
               version = get_or d ''version'' (PStr [])
           in if version \<noteq> PStr PROTOCOL_VERSION
              then with_ids req_id (PStr ''ipc.handshake'') (\<lambda>i t. AReplyClose (error_response i t
                     ''PROTOCOL_VERSION_MISMATCH'' (''Expected version '' @ PROTOCOL_VERSION @ '', got '' @ quoted (me_str env version))))
              else with_ids req_id (PStr ''ipc.handshake'') (\<lambda>i t. AAccept (success_response i t
                     (handshake_payload (me_session env) (me_now env))))
      else with_ids (get_or d ''id'' (PStr ''unknown'')) (PStr ''error.handshake_required'')
             (\<lambda>i t. AReplyClose (error_response i t ''HANDSHAKE_REQUIRED'' (''First message must be '' @ quoted ''ipc.handshake''))))"

definition handle_request :: "msg_env \<Rightarrow> nat \<Rightarrow> nat \<Rightarrow> pyval dict \<Rightarrow> conn_action" where
  "handle_request env active max_concurrent d =
     (case validate_request (me_verr env) d of
        Inl e \<Rightarrow> with_ids (get_or d ''id'' (PStr ''unknown'')) (get_or d ''type'' (PStr ''error.schema''))
                   (\<lambda>i t. AReply (error_response i t ''INVALID_REQUEST_SCHEMA'' e))
      | Inr req \<Rightarrow>
          if max_concurrent \<le> active
          then AReply (error_response (req_id req) (req_type req) ''SERVER_BUSY''
                 (''Server exceeded concurrency limit of '' @ show_nat max_concurrent))
          else ASpawn req)"

text \<open>The body of the loop on a frame.\<close>

definition handle_message :: "msg_env \<Rightarrow> bool \<Rightarrow> nat \<Rightarrow> nat \<Rightarrow> string \<Rightarrow> conn_action" where
  "handle_message env handshake_done active max_concurrent raw =
     (if strip raw = [] then AIgnore
      else case parse_json_frame (me_loads env) raw of
             Inl (IPCProtocolError m) \<Rightarrow> AReply (error_response ''unknown'' ''error.protocol'' ''INVALID_JSON'' m)
           | Inl (IPCOversizedMessageError m) \<Rightarrow> ACrash
           | Inr d \<Rightarrow> if \<not> handshake_done then handle_handshake env d
                      else handle_request env active max_concurrent d)"


section \<open>The server\<close>

datatype conn_state =
    DISCONNECTED | CONNECTING | CONNECTED | CONN_DEGRADED | RECONNECTING | CONN_STOPPING | CONN_STOPPED | CONN_ERROR

type_synonym client = nat

record 'w server =
  sv_host :: string
  sv_port :: nat
  sv_router :: "'w ipc_router"
  sv_max_concurrent :: nat
  sv_state :: conn_state
  sv_serving :: bool
  sv_next :: nat
  sv_open :: "client list"
  sv_handshaken :: "client list"
  sv_active_clients :: "client list"
  sv_tasks :: "(client \<times> jarvis_request) list"
  sv_running :: "(client \<times> jarvis_request) list"
  sv_active_requests :: nat
  sv_total_requests :: nat
  sv_events_sent :: nat
  sv_out :: "(client \<times> jarvis_response) list"
  sv_world :: 'w

definition server_init :: "string \<Rightarrow> nat \<Rightarrow> 'w ipc_router \<Rightarrow> nat \<Rightarrow> 'w \<Rightarrow> string + 'w server" where
  "server_init host port r mc w =
     (if host \<notin> {''127.0.0.1'', ''localhost''}
      then Inl (''Security restriction: IPC Server must bind to loopback, got '' @ quoted host)
      else Inr \<lparr>sv_host = host, sv_port = port, sv_router = r, sv_max_concurrent = mc, sv_state = DISCONNECTED,
                sv_serving = False, sv_next = 0, sv_open = [], sv_handshaken = [], sv_active_clients = [],
                sv_tasks = [], sv_running = [], sv_active_requests = 0, sv_total_requests = 0,
                sv_events_sent = 0, sv_out = [], sv_world = w\<rparr>)"

text \<open>\<open>start\<close>: \<open>bind\<close> is the error of the socket call, if it fails.\<close>

definition server_start :: "string option \<Rightarrow> 'w server \<Rightarrow> 'w server \<times> string option" where
  "server_start bind sv =
     (if sv_serving sv then (sv, None)
      else let sv1 = sv\<lparr>sv_state := CONNECTING\<rparr>
           in case bind of
                None \<Rightarrow> (sv1\<lparr>sv_serving := True, sv_state := CONNECTED\<rparr>, None)
              | Some e \<Rightarrow> (sv1\<lparr>sv_state := CONN_ERROR\<rparr>,
                          Some (''Could not bind IPC server to '' @ sv_host sv @ '':'' @ show_nat (sv_port sv) @ '': '' @ e)))"

text \<open>\<open>stop\<close> closes the clients and cancels their loops; request tasks are not cancelled.\<close>

definition server_stop :: "'w server \<Rightarrow> 'w server" where
  "server_stop sv =
     (let sv1 = sv\<lparr>sv_state := CONN_STOPPING\<rparr>
      in sv1\<lparr>sv_open := [], sv_active_clients := [], sv_serving := False, sv_state := CONN_STOPPED\<rparr>)"

definition close_client :: "client \<Rightarrow> 'w server \<Rightarrow> 'w server" where
  "close_client c sv = sv\<lparr>sv_open := removeAll c (sv_open sv), sv_active_clients := removeAll c (sv_active_clients sv)\<rparr>"

definition send :: "client \<Rightarrow> jarvis_response \<Rightarrow> 'w server \<Rightarrow> 'w server" where
  "send c r sv = (if c \<in> set (sv_open sv) then sv\<lparr>sv_out := sv_out sv @ [(c, r)]\<rparr> else sv)"

definition apply_action :: "client \<Rightarrow> conn_action \<Rightarrow> 'w server \<Rightarrow> 'w server" where
  "apply_action c a sv =
     (case a of
        AIgnore \<Rightarrow> sv
      | AReply r \<Rightarrow> send c r sv
      | AReplyClose r \<Rightarrow> close_client c (send c r sv)
      | AAccept r \<Rightarrow> (send c r sv)\<lparr>sv_handshaken := c # sv_handshaken sv,
                                  sv_active_clients := List.insert c (sv_active_clients sv)\<rparr>
      | ASpawn q \<Rightarrow> sv\<lparr>sv_tasks := sv_tasks sv @ [(c, q)]\<rparr>
      | ACrash \<Rightarrow> close_client c sv)"

text \<open>A frame of a client: the loop's variable \<open>is_handshake_done\<close> is the membership in
  \<open>sv_handshaken\<close>. A frame that cannot be read, like the end of the stream, closes the client.\<close>

definition on_frame :: "msg_env \<Rightarrow> client \<Rightarrow> ipc_error + string option \<Rightarrow> 'w server \<Rightarrow> 'w server" where
  "on_frame env c fr sv =
     (case fr of
        Inr (Some raw) \<Rightarrow> apply_action c (handle_message env (c \<in> set (sv_handshaken sv)) (sv_active_requests sv)
                                           (sv_max_concurrent sv) raw) sv
      | _ \<Rightarrow> close_client c sv)"

datatype proc_outcome = PDispatched | PTimeout | PInternal

definition process_begin :: "client \<Rightarrow> jarvis_request \<Rightarrow> 'w server \<Rightarrow> 'w server" where
  "process_begin c q sv =
     sv\<lparr>sv_tasks := remove1 (c, q) (sv_tasks sv), sv_running := sv_running sv @ [(c, q)],
        sv_active_requests := sv_active_requests sv + 1, sv_total_requests := sv_total_requests sv + 1\<rparr>"

definition process_finish :: "string \<Rightarrow> client \<Rightarrow> jarvis_request \<Rightarrow> proc_outcome \<Rightarrow> 'w server \<Rightarrow> 'w server" where
  "process_finish timeout c q out sv =
     (let (w, resp) = (case out of
              PDispatched \<Rightarrow> dispatch (sv_router sv) q (sv_world sv)
            | PTimeout \<Rightarrow> (sv_world sv, error_response (req_id q) (req_type q) ''REQUEST_TIMEOUT''
                            (''Request timed out after '' @ timeout @ ''s''))
            | PInternal \<Rightarrow> (sv_world sv, error_response (req_id q) (req_type q) ''INTERNAL_ERROR'' ''Internal execution error''));
          sv1 = send c resp (sv\<lparr>sv_world := w\<rparr>)
      in sv1\<lparr>sv_running := remove1 (c, q) (sv_running sv1), sv_active_requests := sv_active_requests sv1 - 1\<rparr>)"

text \<open>\<open>broadcast_event\<close>: \<open>ok\<close> are the clients whose socket takes the write; the others are dropped.\<close>

definition broadcast_event :: "client list \<Rightarrow> 'w server \<Rightarrow> 'w server \<times> nat" where
  "broadcast_event ok sv =
     (let sent = length (filter (\<lambda>c. c \<in> set ok) (sv_active_clients sv))
      in if sv_active_clients sv = [] then (sv, 0)
         else (sv\<lparr>sv_active_clients := filter (\<lambda>c. c \<in> set ok) (sv_active_clients sv),
                  sv_events_sent := sv_events_sent sv + sent\<rparr>, sent))"

datatype srv_label =
    SConnect client
  | SFrame client
  | SBegin client jarvis_request
  | SFinish client jarvis_request proc_outcome
  | SBroadcast
  | SStop

inductive srv_step :: "string \<Rightarrow> 'w server \<Rightarrow> srv_label \<Rightarrow> 'w server \<Rightarrow> bool" for timeout where
  connect: "sv_serving sv \<Longrightarrow> c = sv_next sv \<Longrightarrow>
     srv_step timeout sv (SConnect c) (sv\<lparr>sv_next := Suc c, sv_open := c # sv_open sv\<rparr>)"
| frame: "c \<in> set (sv_open sv) \<Longrightarrow> srv_step timeout sv (SFrame c) (on_frame env c fr sv)"
| begin_req: "(c, q) \<in> set (sv_tasks sv) \<Longrightarrow> srv_step timeout sv (SBegin c q) (process_begin c q sv)"
| finish_req: "(c, q) \<in> set (sv_running sv) \<Longrightarrow> srv_step timeout sv (SFinish c q out) (process_finish timeout c q out sv)"
| broadcast: "srv_step timeout sv SBroadcast (fst (broadcast_event ok sv))"
| stop: "srv_step timeout sv SStop (server_stop sv)"

inductive srv_trace :: "string \<Rightarrow> 'w server \<Rightarrow> srv_label list \<Rightarrow> 'w server \<Rightarrow> bool" for timeout s0 where
  nil: "srv_trace timeout s0 [] s0"
| snoc: "srv_trace timeout s0 tr s \<Longrightarrow> srv_step timeout s l s' \<Longrightarrow> srv_trace timeout s0 (tr @ [l]) s'"

section \<open>Invariants of the server\<close>

definition srv_inv :: "'w server \<Rightarrow> bool" where
  "srv_inv sv = (sv_active_requests sv = length (sv_running sv) \<and>
     (\<forall>(c, q) \<in> set (sv_tasks sv) \<union> set (sv_running sv). c \<in> set (sv_handshaken sv)) \<and>
     set (sv_active_clients sv) \<subseteq> set (sv_handshaken sv) \<and>
     (\<forall>(c, r) \<in> set (sv_out sv). response_ok r))"

lemma send_frame [simp]:
  "sv_active_requests (send c r sv) = sv_active_requests sv" "sv_running (send c r sv) = sv_running sv"
  "sv_tasks (send c r sv) = sv_tasks sv" "sv_handshaken (send c r sv) = sv_handshaken sv"
  "sv_active_clients (send c r sv) = sv_active_clients sv" "sv_router (send c r sv) = sv_router sv"
  "sv_total_requests (send c r sv) = sv_total_requests sv"
  by (simp_all add: send_def)

lemma set_send: "set (sv_out (send c r sv)) \<subseteq> insert (c, r) (set (sv_out sv))"
  by (auto simp: send_def)

fun action_ok :: "bool \<Rightarrow> conn_action \<Rightarrow> bool" where
  "action_ok hs (AReply r) = response_ok r"
| "action_ok hs (AReplyClose r) = response_ok r"
| "action_ok hs (AAccept r) = response_ok r"
| "action_ok hs (ASpawn q) = hs"
| "action_ok hs _ = True"

lemma handle_message_ok: "action_ok hs (handle_message env hs a m raw)"
  by (auto simp: handle_message_def handle_handshake_def handle_request_def with_ids_def Let_def
      split: sum.splits ipc_error.splits pyval.splits)

lemma apply_action_inv:
  assumes "srv_inv sv" and "action_ok (c \<in> set (sv_handshaken sv)) a"
  shows "srv_inv (apply_action c a sv)"
  using assms set_send
  by (cases a) (fastforce simp: apply_action_def srv_inv_def close_client_def)+

lemma srv_step_inv: "srv_step timeout sv l sv' \<Longrightarrow> srv_inv sv \<Longrightarrow> srv_inv sv'"
proof (induction rule: srv_step.induct)
  case (connect sv c)
  then show ?case by (simp add: srv_inv_def)
next
  case (frame c sv env fr)
  have cl: "srv_inv (close_client c sv)" using frame(2) by (auto simp: srv_inv_def close_client_def)
  show ?case
  proof (cases fr)
    case (Inr r)
    then show ?thesis using cl apply_action_inv [OF frame(2) handle_message_ok]
      by (cases r) (simp_all add: on_frame_def)
  qed (simp add: on_frame_def cl)
next
  case (begin_req c q sv)
  then show ?case by (auto simp: srv_inv_def process_begin_def dest: in_set_remove1 [THEN iffD1] notin_set_remove1 set_remove1_subset [THEN subsetD])
next
  case (finish_req c q sv out)
  have ok: "response_ok (snd (dispatch r q w))" for r and w :: 'a
    using dispatch_contract [of r q w] .
  obtain w resp where r: "(case out of
              PDispatched \<Rightarrow> dispatch (sv_router sv) q (sv_world sv)
            | PTimeout \<Rightarrow> (sv_world sv, error_response (req_id q) (req_type q) ''REQUEST_TIMEOUT''
                            (''Request timed out after '' @ timeout @ ''s''))
            | PInternal \<Rightarrow> (sv_world sv, error_response (req_id q) (req_type q) ''INTERNAL_ERROR'' ''Internal execution error''))
      = (w, resp)" by fastforce
  have "response_ok resp"
    using r ok [of "sv_router sv" "sv_world sv"] by (auto split: proc_outcome.splits)
  moreover have "length (remove1 (c, q) (sv_running sv)) = length (sv_running sv) - 1"
    using finish_req(1) by (simp add: length_remove1)
  ultimately show ?case using finish_req set_send [of c resp "sv\<lparr>sv_world := w\<rparr>"]
    by (fastforce simp: srv_inv_def process_finish_def r dest: set_remove1_subset [THEN subsetD])
next
  case (broadcast sv ok)
  then show ?case by (auto simp: srv_inv_def broadcast_event_def Let_def)
next
  case (stop sv)
  then show ?case by (simp add: srv_inv_def server_stop_def Let_def)
qed

lemma srv_trace_inv: "srv_trace timeout s0 tr s \<Longrightarrow> srv_inv s0 \<Longrightarrow> srv_inv s"
  by (induction rule: srv_trace.induct) (auto intro: srv_step_inv)


section \<open>Properties of the server\<close>

lemma server_init_inv: "server_init host port r mc w = Inr sv \<Longrightarrow> srv_inv sv"
  by (auto simp: server_init_def srv_inv_def split: if_splits)

fun is_begin :: "srv_label \<Rightarrow> bool" where "is_begin (SBegin c q) = True" | "is_begin _ = False"
fun is_finish :: "srv_label \<Rightarrow> bool" where "is_finish (SFinish c q r) = True" | "is_finish _ = False"

lemma apply_action_counts [simp]:
  "sv_total_requests (apply_action c a sv) = sv_total_requests sv"
  "sv_active_requests (apply_action c a sv) = sv_active_requests sv"
  by (cases a; simp add: apply_action_def close_client_def)+

lemma on_frame_counts [simp]:
  "sv_total_requests (on_frame env c fr sv) = sv_total_requests sv"
  "sv_active_requests (on_frame env c fr sv) = sv_active_requests sv"
  by (auto simp: on_frame_def close_client_def split: sum.splits option.splits)

lemma srv_step_counts:
  assumes "srv_step timeout sv l sv'" and "srv_inv sv"
  shows "sv_total_requests sv' = sv_total_requests sv + (if is_begin l then 1 else 0)"
    and "sv_active_requests sv' + (if is_finish l then 1 else 0) = sv_active_requests sv + (if is_begin l then 1 else 0)"
proof -
  have "(c, q) \<in> set (sv_running sv) \<Longrightarrow> 0 < sv_active_requests sv" for c q
    using assms(2) by (auto simp: srv_inv_def dest: length_pos_if_in_set)
  with assms(1) show "sv_total_requests sv' = sv_total_requests sv + (if is_begin l then 1 else 0)"
    and "sv_active_requests sv' + (if is_finish l then 1 else 0) = sv_active_requests sv + (if is_begin l then 1 else 0)"
    by (induction rule: srv_step.induct)
       (auto simp: process_begin_def process_finish_def broadcast_event_def server_stop_def Let_def split: prod.splits)
qed

lemma srv_trace_counts:
  "srv_trace timeout s0 tr s \<Longrightarrow> srv_inv s0 \<Longrightarrow>
     sv_total_requests s = sv_total_requests s0 + length (filter is_begin tr) \<and>
     sv_active_requests s + length (filter is_finish tr) = sv_active_requests s0 + length (filter is_begin tr)"
proof (induction rule: srv_trace.induct)
  case (snoc tr s l s')
  have inv: "srv_inv s" by (rule srv_trace_inv [OF snoc(1) snoc.prems])
  show ?case using srv_step_counts [OF snoc(2) inv] snoc.IH [OF snoc.prems]
    by (cases "is_begin l"; cases "is_finish l") simp_all
qed simp



text \<open>
  Handshake first. Before its handshake a client gets nothing executed: whatever frame it sends,
  no task is created for it, and unless the frame is a handshake of protocol version 1.0 (or is
  blank or not a JSON object) its connection is closed.
\<close>

theorem handshake_required:
  assumes "c \<notin> set (sv_handshaken sv)"
  shows "sv_tasks (on_frame env c fr sv) = sv_tasks sv \<and>
    (\<forall>raw d. fr = Inr (Some raw) \<and> strip raw \<noteq> [] \<and> parse_json_frame (me_loads env) raw = Inr d \<and>
       (dict_get d ''type'' \<noteq> Some (PStr ''ipc.handshake'') \<or> dict_get d ''version'' \<noteq> Some (PStr PROTOCOL_VERSION))
       \<longrightarrow> c \<notin> set (sv_open (on_frame env c fr sv)) \<and> c \<notin> set (sv_handshaken (on_frame env c fr sv)))"
proof -
  have ns: "handle_message env False a m raw \<noteq> ASpawn q" for a m raw q
    using handle_message_ok [of False env a m raw] by auto
  have acc: "handle_handshake env d \<noteq> AAccept r" "\<exists>r. handle_handshake env d = AReplyClose r \<or> handle_handshake env d = ACrash"
    if "dict_get d ''type'' \<noteq> Some (PStr ''ipc.handshake'') \<or> dict_get d ''version'' \<noteq> Some (PStr PROTOCOL_VERSION)" for d r
    using that by (auto simp: handle_handshake_def with_ids_def Let_def get_or_def PROTOCOL_VERSION_def
        split: pyval.splits option.splits)
  have tasks: "sv_tasks (apply_action c a sv) = sv_tasks sv" if "\<forall>q. a \<noteq> ASpawn q" for a
    using that by (cases a) (auto simp: apply_action_def close_client_def)
  have "sv_tasks (on_frame env c fr sv) = sv_tasks sv"
    using assms ns tasks by (auto simp: on_frame_def close_client_def split: sum.splits option.splits)
  moreover have "c \<notin> set (sv_open (on_frame env c fr sv)) \<and> c \<notin> set (sv_handshaken (on_frame env c fr sv))"
    if "fr = Inr (Some raw)" "strip raw \<noteq> []" "parse_json_frame (me_loads env) raw = Inr d"
      "dict_get d ''type'' \<noteq> Some (PStr ''ipc.handshake'') \<or> dict_get d ''version'' \<noteq> Some (PStr PROTOCOL_VERSION)"
    for raw d
  proof -
    have "on_frame env c fr sv = apply_action c (handle_handshake env d) sv"
      using that assms by (simp add: on_frame_def handle_message_def)
    with acc(2) [OF that(4)] show ?thesis using assms
      by (auto simp: apply_action_def close_client_def)
  qed
  ultimately show ?thesis by blast
qed

definition demo_env :: "string \<Rightarrow> pyval dict \<Rightarrow> msg_env" where
  "demo_env raw d = \<lparr>me_str = (\<lambda>_. []), me_verr = (\<lambda>_. ''invalid''), me_loads = (\<lambda>s. if s = raw then Inr (PDict d) else Inl ''bad''),
     me_session = ''sess_1'', me_now = 0\<rparr>"

definition demo_server :: "nat \<Rightarrow> nat server" where
  "demo_server mc = \<lparr>sv_host = ''127.0.0.1'', sv_port = 8765, sv_router = default_router 0, sv_max_concurrent = mc,
     sv_state = CONNECTED, sv_serving = True, sv_next = 2, sv_open = [1, 0], sv_handshaken = [0],
     sv_active_clients = [0], sv_tasks = [], sv_running = [], sv_active_requests = 0, sv_total_requests = 0,
     sv_events_sent = 0, sv_out = [], sv_world = 0\<rparr>"

theorem handshake_required_witness:
  "1 \<notin> set (sv_open (on_frame (demo_env ''m'' [(''type'', PStr ''tools.execute'')]) 1 (Inr (Some ''m'')) (demo_server 1)))"
proof -
  have n: "1 \<notin> set (sv_handshaken (demo_server 1))" by (simp add: demo_server_def)
  have s: "strip ''m'' \<noteq> []" by code_simp
  from handshake_required [OF n, of "demo_env ''m'' [(''type'', PStr ''tools.execute'')]" "Inr (Some ''m'')"] s
  show ?thesis by (simp add: demo_env_def parse_json_frame_def)
qed

lemma spawn_many:
  assumes "c \<in> set (sv_open sv)" and "c \<in> set (sv_handshaken sv)"
    and "handle_message env True (sv_active_requests sv) (sv_max_concurrent sv) raw = ASpawn q"
  shows "\<exists>tr. srv_trace timeout sv tr (sv\<lparr>sv_tasks := sv_tasks sv @ replicate n (c, q)\<rparr>)"
proof (induction n)
  case 0
  show ?case by (intro exI [of _ "[]"]) (simp add: srv_trace.nil)
next
  case (Suc n)
  then obtain tr where tr: "srv_trace timeout sv tr (sv\<lparr>sv_tasks := sv_tasks sv @ replicate n (c, q)\<rparr>)" ..
  let ?s = "sv\<lparr>sv_tasks := sv_tasks sv @ replicate n (c, q)\<rparr>"
  have "srv_step timeout ?s (SFrame c) (on_frame env c (Inr (Some raw)) ?s)"
    by (rule srv_step.frame) (simp add: assms(1))
  moreover have "on_frame env c (Inr (Some raw)) ?s = sv\<lparr>sv_tasks := sv_tasks sv @ replicate (Suc n) (c, q)\<rparr>"
    using assms(2,3) by (simp add: on_frame_def apply_action_def replicate_append_same [symmetric])
  ultimately show ?case using srv_trace.snoc [OF tr] by metis
qed

lemma begin_many:
  "srv_trace timeout s0 tr sv \<Longrightarrow> sv_tasks sv = ts @ replicate n (c, q) \<Longrightarrow>
     \<exists>tr' s. srv_trace timeout s0 tr' s \<and> sv_active_requests s = sv_active_requests sv + n \<and>
             sv_max_concurrent s = sv_max_concurrent sv"
proof (induction n arbitrary: tr sv ts)
  case (Suc n)
  have "(c, q) \<in> set (sv_tasks sv)" using Suc.prems(2) by simp
  from srv_trace.snoc [OF Suc.prems(1) srv_step.begin_req [OF this]]
  have t: "srv_trace timeout s0 (tr @ [SBegin c q]) (process_begin c q sv)" .
  have "\<exists>ts'. remove1 (c, q) (ts @ replicate (Suc n) (c, q)) = ts' @ replicate n (c, q)"
  proof (cases "(c, q) \<in> set ts")
    case True
    then have "remove1 (c, q) (ts @ replicate (Suc n) (c, q)) = (remove1 (c, q) ts @ [(c, q)]) @ replicate n (c, q)"
      by (simp add: remove1_append)
    then show ?thesis by blast
  qed (simp add: remove1_append)
  then obtain ts' where "sv_tasks (process_begin c q sv) = ts' @ replicate n (c, q)"
    using Suc.prems(2) by (auto simp: process_begin_def)
  from Suc.IH [OF t this] show ?case by (simp add: process_begin_def)
qed auto

text \<open>
  The concurrency limit does not hold back a burst. From any state in which a handshaken client's
  frame is accepted as a request, the server can reach a state with any number of further active
  requests, whatever its limit: the limit is compared with the number of started requests, and the
  frames that are already in the buffer are all accepted before the first of their tasks starts.
\<close>

theorem concurrency_limit_exceeded:
  assumes "c \<in> set (sv_open sv)" and "c \<in> set (sv_handshaken sv)"
    and "handle_message env True (sv_active_requests sv) (sv_max_concurrent sv) raw = ASpawn q"
  shows "\<exists>tr s. srv_trace timeout sv tr s \<and> sv_active_requests s = sv_active_requests sv + n \<and>
                sv_max_concurrent s = sv_max_concurrent sv"
proof -
  obtain tr where "srv_trace timeout sv tr (sv\<lparr>sv_tasks := sv_tasks sv @ replicate n (c, q)\<rparr>)"
    using spawn_many [OF assms] by blast
  from begin_many [OF this, of "sv_tasks sv" n c q] show ?thesis by simp
qed

definition demo_ping :: "pyval dict" where
  "demo_ping = [(''id'', PStr ''1''), (''type'', PStr ''system.ping'')]"

theorem concurrency_limit_exceeded_witness:
  "\<exists>tr s. srv_trace ''30'' (demo_server 1) tr s \<and> sv_active_requests s = 3 \<and> sv_max_concurrent s = 1"
proof -
  have s: "strip ''m'' \<noteq> []" by code_simp
  have "handle_message (demo_env ''m'' demo_ping) True (sv_active_requests (demo_server 1))
      (sv_max_concurrent (demo_server 1)) ''m''
      = ASpawn \<lparr>req_id = ''1'', req_type = ''system.ping'', req_version = PROTOCOL_VERSION, req_payload = []\<rparr>"
    using s by (simp add: handle_message_def demo_env_def parse_json_frame_def handle_request_def
        demo_server_def validate_request_def demo_ping_def optional_str_def)
  from concurrency_limit_exceeded [OF _ _ this, of 0 "''30''" 3] show ?thesis
    by (simp add: demo_server_def)
qed

text \<open>
  A request whose id is not a string costs the client its connection. For a handshaken client, a
  JSON object with an id that is a number is no valid request, and the error response cannot be
  built with that id either: nothing is answered and the connection is closed.
\<close>

theorem numeric_id_closes_connection:
  assumes "c \<in> set (sv_handshaken sv)" and "strip raw \<noteq> []"
    and "parse_json_frame (me_loads env) raw = Inr d" and "dict_get d ''id'' = Some (PInt i)"
  shows "on_frame env c (Inr (Some raw)) sv = close_client c sv \<and>
         sv_out (on_frame env c (Inr (Some raw)) sv) = sv_out sv"
  using assms
  by (simp add: on_frame_def handle_message_def handle_request_def validate_request_def with_ids_def
      get_or_def apply_action_def close_client_def)

theorem numeric_id_closes_connection_witness:
  "0 \<notin> set (sv_open (on_frame (demo_env ''m'' [(''id'', PInt 7)]) 0 (Inr (Some ''m'')) (demo_server 1)))"
proof -
  have s: "strip ''m'' \<noteq> []" by code_simp
  have h: "0 \<in> set (sv_handshaken (demo_server 1))" by (simp add: demo_server_def)
  have p: "parse_json_frame (me_loads (demo_env ''m'' [(''id'', PInt 7)])) ''m'' = Inr [(''id'', PInt 7)]"
    by (simp add: demo_env_def parse_json_frame_def)
  from numeric_id_closes_connection [OF h s p, of 7] show ?thesis by (simp add: close_client_def)
qed

end
