(* ===== verification/Py_Value.thy ===== *)
theory Py_Value
  imports Prelude
begin

text \<open>
  Dynamically typed values as Python uses them: access to parsed JSON with the exceptions it raises, loops whose
  body may raise, and the library functions on texts as parameters, the record \<open>py_lib\<close>: \<open>json.loads\<close>
  (\<open>None\<close> where it raises), \<open>json.dumps\<close>, \<open>str\<close>, \<open>float\<close> and the conversion to an integer.
\<close>

section \<open>Exceptions and parsed JSON\<close>

text \<open>An exception of the program's own classes, or the class of another one.\<close>

datatype 'e exc = Typed 'e | PyExc string

text \<open>\<open>v.get(k, d)\<close>, \<open>v[k]\<close>, \<open>k in v\<close>, \<open>v[0]\<close> and the iteration over \<open>v\<close>.\<close>

definition py_get :: "pyval \<Rightarrow> string \<Rightarrow> pyval \<Rightarrow> 'e exc + pyval" where
  "py_get v k d =
     (case v of PDict m \<Rightarrow> Inr (case dict_get m k of Some x \<Rightarrow> x | None \<Rightarrow> d) | _ \<Rightarrow> Inl (PyExc ''AttributeError''))"

definition py_item :: "pyval \<Rightarrow> string \<Rightarrow> 'e exc + pyval" where
  "py_item v k =
     (case v of PDict m \<Rightarrow> (case dict_get m k of Some x \<Rightarrow> Inr x | None \<Rightarrow> Inl (PyExc ''KeyError''))
      | _ \<Rightarrow> Inl (PyExc ''TypeError''))"

definition py_has :: "string \<Rightarrow> pyval \<Rightarrow> 'e exc + bool" where
  "py_has k v =
     (case v of PDict m \<Rightarrow> Inr (dict_has m k) | PList xs \<Rightarrow> Inr (PStr k \<in> set xs) | PStr s \<Rightarrow> Inr (contains s k)
      | _ \<Rightarrow> Inl (PyExc ''TypeError''))"

definition py_first :: "pyval \<Rightarrow> 'e exc + pyval" where
  "py_first v =
     (case v of PList xs \<Rightarrow> (case xs of [] \<Rightarrow> Inl (PyExc ''IndexError'') | x # _ \<Rightarrow> Inr x)
      | PStr s \<Rightarrow> (case s of [] \<Rightarrow> Inl (PyExc ''IndexError'') | c # _ \<Rightarrow> Inr (PStr [c]))
      | PDict _ \<Rightarrow> Inl (PyExc ''KeyError'')
      | _ \<Rightarrow> Inl (PyExc ''TypeError''))"

definition py_iter :: "pyval \<Rightarrow> 'e exc + pyval list" where
  "py_iter v =
     (case v of PList xs \<Rightarrow> Inr xs | PDict m \<Rightarrow> Inr (map (PStr \<circ> fst) m) | PStr s \<Rightarrow> Inr (map (\<lambda>c. PStr [c]) s)
      | _ \<Rightarrow> Inl (PyExc ''TypeError''))"

text \<open>\<open>a + b\<close>; truth values count as numbers.\<close>

fun py_num :: "pyval \<Rightarrow> pyval" where
  "py_num (PBool b) = PInt (if b then 1 else 0)"
| "py_num v = v"

definition py_add :: "pyval \<Rightarrow> pyval \<Rightarrow> 'e exc + pyval" where
  "py_add a b =
     (case (py_num a, py_num b) of
        (PInt i, PInt j) \<Rightarrow> Inr (PInt (i + j))
      | (PInt i, PFloat y) \<Rightarrow> Inr (PFloat (of_int i + y))
      | (PFloat x, PInt j) \<Rightarrow> Inr (PFloat (x + of_int j))
      | (PFloat x, PFloat y) \<Rightarrow> Inr (PFloat (x + y))
      | (PStr s, PStr t) \<Rightarrow> Inr (PStr (s @ t))
      | (PList xs, PList ys) \<Rightarrow> Inr (PList (xs @ ys))
      | _ \<Rightarrow> Inl (PyExc ''TypeError''))"

text \<open>\<open>v["k"] if "k" in v and v["k"] else None\<close>, the test that guards every optional part.\<close>

definition py_truthy_item :: "string \<Rightarrow> pyval \<Rightarrow> 'e exc + pyval option" where
  "py_truthy_item k v =
     bind_res (py_has k v) (\<lambda>present.
       if present then bind_res (py_item v k) (\<lambda>x. Inr (if truthy x then Some x else None)) else Inr None)"

lemma py_get_PDict [simp]: "py_get (PDict m) k d = Inr (case dict_get m k of Some x \<Rightarrow> x | None \<Rightarrow> d)"
  by (simp add: py_get_def)

lemma py_item_PDict [simp]:
  "py_item (PDict m) k = (case dict_get m k of Some x \<Rightarrow> Inr x | None \<Rightarrow> Inl (PyExc ''KeyError''))"
  by (simp add: py_item_def)

lemma py_iter_PList [simp]: "py_iter (PList xs) = Inr xs"
  by (simp add: py_iter_def)

lemma py_first_PList [simp]: "py_first (PList (x # xs)) = Inr x"
  by (simp add: py_first_def)

lemma py_truthy_item_PDict [simp]:
  "py_truthy_item k (PDict m) = Inr (case dict_get m k of Some x \<Rightarrow> if truthy x then Some x else None | None \<Rightarrow> None)"
  by (simp add: py_truthy_item_def py_has_def dict_has_def split: option.split)

text \<open>A loop whose body may raise.\<close>

fun fold_res :: "('a \<Rightarrow> 's \<Rightarrow> 'e exc + 's) \<Rightarrow> 'a list \<Rightarrow> 's \<Rightarrow> 'e exc + 's" where
  "fold_res f [] s = Inr s"
| "fold_res f (x # xs) s = bind_res (f x s) (fold_res f xs)"

lemma fold_res_append: "fold_res f (xs @ ys) s = bind_res (fold_res f xs s) (fold_res f ys)"
proof (induction xs arbitrary: s)
  case (Cons x xs)
  then show ?case by (cases "f x s") auto
qed simp

lemma fold_res_inv:
  "fold_res f xs s = Inr s' \<Longrightarrow> I s \<Longrightarrow> (\<And>x s s'. f x s = Inr s' \<Longrightarrow> I s \<Longrightarrow> I s') \<Longrightarrow> I s'"
  by (induction xs arbitrary: s) (auto simp: bind_res_Inr)

lemma fold_res_count:
  "fold_res f xs s = Inr s' \<Longrightarrow> (\<And>x s s'. f x s = Inr s' \<Longrightarrow> m s' = Suc (m s)) \<Longrightarrow> m s' = m s + length xs"
proof (induction xs arbitrary: s)
  case (Cons x xs)
  then obtain s1 where "f x s = Inr s1" "fold_res f xs s1 = Inr s'" by (auto simp: bind_res_Inr)
  with Cons.IH [of s1] Cons.prems(2) show ?case by simp
qed simp

text \<open>\<open>"".join(texts) if texts else None\<close>.\<close>

definition join_texts :: "pyval list \<Rightarrow> 'e exc + pyval" where
  "join_texts ts =
     (if ts = [] then Inr PNone
      else if list_all (\<lambda>t. case t of PStr _ \<Rightarrow> True | _ \<Rightarrow> False) ts
      then Inr (PStr (concat (map (\<lambda>t. case t of PStr s \<Rightarrow> s | _ \<Rightarrow> []) ts)))
      else Inl (PyExc ''TypeError''))"

text \<open>\<open>enumerate(xs)\<close>.\<close>

definition enumerated :: "'a list \<Rightarrow> (nat \<times> 'a) list" where
  "enumerated xs = zip [0..<length xs] xs"

section \<open>Library functions\<close>

record py_lib =
  pl_loads :: "string \<Rightarrow> pyval option"
  pl_dumps :: "pyval \<Rightarrow> string"
  pl_str :: "pyval \<Rightarrow> string"
  pl_float :: "string \<Rightarrow> rat option"
  pl_int :: "pyval \<Rightarrow> int option"

text \<open>\<open>str(v)\<close>.\<close>

definition py_text :: "py_lib \<Rightarrow> pyval \<Rightarrow> string" where
  "py_text L v = (case v of PStr s \<Rightarrow> s | PNone \<Rightarrow> ''None'' | _ \<Rightarrow> pl_str L v)"

lemma map_res_const: "(\<And>x. x \<in> set xs \<Longrightarrow> f (g x) = Inr (h x)) \<Longrightarrow> map_res f (map g xs) = Inr (map h xs)"
  by (induction xs) auto

text \<open>Access never raises an exception of the program's own classes.\<close>

definition py_only :: "'e exc + 'a \<Rightarrow> bool" where
  "py_only r = (\<forall>e. r \<noteq> Inl (Typed e))"

named_theorems py_only_intros

lemma py_only_bind: "py_only r \<Longrightarrow> (\<And>x. py_only (f x)) \<Longrightarrow> py_only (bind_res r f)"
  by (cases r) (auto simp: py_only_def)

lemma py_only_Inr [py_only_intros]: "py_only (Inr x)"
  by (simp add: py_only_def)

lemma py_only_PyExc [py_only_intros]: "py_only (Inl (PyExc c))"
  by (simp add: py_only_def)

lemma py_only_access [py_only_intros]:
  "py_only (py_get v k d)" "py_only (py_item v k)" "py_only (py_has k v)" "py_only (py_first v)" "py_only (py_iter v)"
  by (simp_all add: py_only_def py_get_def py_item_def py_has_def py_first_def py_iter_def
      split: pyval.split option.split list.split)

lemma py_only_truthy_item [py_only_intros]: "py_only (py_truthy_item k v)"
  unfolding py_truthy_item_def
  by (rule py_only_bind, rule py_only_intros) (auto intro!: py_only_bind py_only_intros)

lemma py_only_add [py_only_intros]: "py_only (py_add a b)"
  by (auto simp: py_only_def py_add_def split: pyval.split)

lemma py_only_map_res [py_only_intros]: "(\<And>x. py_only (f x)) \<Longrightarrow> py_only (map_res f xs)"
  by (induction xs) (auto intro!: py_only_bind py_only_intros)

lemma py_only_fold_res [py_only_intros]: "(\<And>x s. py_only (f x s)) \<Longrightarrow> py_only (fold_res f xs s)"
  by (induction xs arbitrary: s) (auto intro!: py_only_bind py_only_intros)

lemma py_only_join [py_only_intros]: "py_only (join_texts ts)"
  by (simp add: py_only_def join_texts_def)

lemma py_only_option [py_only_intros]:
  "py_only a \<Longrightarrow> (\<And>y. py_only (f y)) \<Longrightarrow> py_only (case x of None \<Rightarrow> a | Some y \<Rightarrow> f y)"
  by (cases x) auto

lemma py_only_if [py_only_intros]: "py_only a \<Longrightarrow> py_only b \<Longrightarrow> py_only (if c then a else b)"
  by simp

end
