(* ===== verification/Ai_Http.thy ===== *)
theory Ai_Http
  imports Ai_Model Py_Value
begin

text \<open>
  What the adapters of the vendors (\<open>ai/providers\<close>) share: the field checks of the response models; requests and answers of the HTTP client;
  the client that the base class keeps (\<open>ai/base.py\<close>); the translation of failures into the error
  classes; and the loop over the lines of a stream. The HTTP client is a parameter, the
  record \<open>transport\<close>.
\<close>

section \<open>Outcomes and fields of the models\<close>

definition outcome_of_exc :: "ai_error exc \<Rightarrow> 'a outcome" where
  "outcome_of_exc x = (case x of Typed e \<Rightarrow> Raised e | PyExc c \<Rightarrow> RaisedOther c)"

definition outcome_of :: "ai_error exc + 'a \<Rightarrow> 'a outcome" where
  "outcome_of r = (case r of Inl x \<Rightarrow> outcome_of_exc x | Inr a \<Rightarrow> Returned a)"

lemma outcome_of_exc_simps [simp]: "outcome_of_exc (Typed e) = Raised e" "outcome_of_exc (PyExc c) = RaisedOther c"
  by (simp_all add: outcome_of_exc_def)

lemma outcome_of_simps [simp]: "outcome_of (Inl x) = outcome_of_exc x" "outcome_of (Inr a) = Returned a"
  by (simp_all add: outcome_of_def)

text \<open>Fields of type \<open>str\<close> and \<open>Optional[str]\<close> take only their own values.\<close>

definition opt_text :: "pyval \<Rightarrow> ai_error exc + string option" where
  "opt_text v = (case v of PNone \<Rightarrow> Inr None | PStr s \<Rightarrow> Inr (Some s) | _ \<Rightarrow> Inl (PyExc ''ValidationError''))"

lemma opt_text_simps [simp]: "opt_text PNone = Inr None" "opt_text (PStr s) = Inr (Some s)"
  by (simp_all add: opt_text_def)

definition mk_tool_call :: "pyval \<Rightarrow> pyval \<Rightarrow> pyval \<Rightarrow> ai_error exc + tool_call" where
  "mk_tool_call i n a =
     (case (i, n, a) of
        (PStr i', PStr n', PDict a') \<Rightarrow> Inr \<lparr>tcl_id = i', tcl_name = n', tcl_arguments = a'\<rparr>
      | _ \<Rightarrow> Inl (PyExc ''ValidationError''))"

lemma mk_tool_call_simp [simp]:
  "mk_tool_call (PStr i) (PStr n) (PDict a) = Inr \<lparr>tcl_id = i, tcl_name = n, tcl_arguments = a\<rparr>"
  by (simp add: mk_tool_call_def)

definition mk_usage :: "py_lib \<Rightarrow> pyval \<Rightarrow> pyval \<Rightarrow> pyval \<Rightarrow> ai_error exc + token_usage" where
  "mk_usage L p c t =
     (case (pl_int L p, pl_int L c, pl_int L t) of
        (Some p', Some c', Some t') \<Rightarrow>
          Inr \<lparr>tu_prompt_tokens = p', tu_completion_tokens = c', tu_total_tokens = t'\<rparr>
      | _ \<Rightarrow> Inl (PyExc ''ValidationError''))"

definition mk_llm_response ::
  "pyval \<Rightarrow> tool_call list option \<Rightarrow> finish_reason \<Rightarrow> pyval \<Rightarrow> string \<Rightarrow> token_usage \<Rightarrow> pyval \<Rightarrow> ai_error exc + llm_response" where
  "mk_llm_response content calls finish model provider usage request_id =
     bind_res (opt_text content) (\<lambda>c.
     bind_res (opt_text request_id) (\<lambda>rid.
       case model of
         PStr m \<Rightarrow> Inr \<lparr>lr_content = c, lr_tool_calls = calls, lr_finish_reason = finish, lr_model = m,
                        lr_provider = provider, lr_usage = usage, lr_request_id = rid\<rparr>
       | _ \<Rightarrow> Inl (PyExc ''ValidationError'')))"

text \<open>\<open>mapping.get(reason or "", OTHER)\<close>: a list or dictionary is no key at all.\<close>

definition lookup_reason :: "finish_reason dict \<Rightarrow> pyval \<Rightarrow> ai_error exc + finish_reason" where
  "lookup_reason mapping reason =
     (if \<not> truthy reason then Inr (case dict_get mapping [] of Some f \<Rightarrow> f | None \<Rightarrow> FOther)
      else case reason of
             PStr s \<Rightarrow> Inr (case dict_get mapping s of Some f \<Rightarrow> f | None \<Rightarrow> FOther)
           | PList _ \<Rightarrow> Inl (PyExc ''TypeError'')
           | PDict _ \<Rightarrow> Inl (PyExc ''TypeError'')
           | _ \<Rightarrow> Inr FOther)"

lemma mk_llm_response_provider: "mk_llm_response c cs f m p u i = Inr a \<Longrightarrow> lr_provider a = p \<and> lr_usage a = u"
  by (cases m) (auto simp: mk_llm_response_def bind_res_Inr)

lemma py_only_fields [py_only_intros]:
  "py_only (opt_text v)" "py_only (mk_tool_call i n a)" "py_only (mk_usage L p c t)"
  by (auto simp: py_only_def opt_text_def mk_tool_call_def mk_usage_def split: pyval.split option.split)

lemma py_only_response [py_only_intros]: "py_only (mk_llm_response c cs f m p u i)"
  unfolding mk_llm_response_def
  by (intro py_only_bind py_only_intros) (auto simp: py_only_def split: pyval.split)

lemma py_only_reason [py_only_intros]: "py_only (lookup_reason mapping v)"
  by (auto simp: py_only_def lookup_reason_def split: pyval.split)

section \<open>The HTTP client\<close>

record http_request =
  rq_method :: string
  rq_url :: string
  rq_headers :: "string dict"
  rq_json :: "pyval option"
  rq_timeout :: rat

text \<open>The exceptions of a request, as the adapters tell them apart, with their texts.\<close>

datatype http_failure = HTimeout string | HConnect string | HRequest string | HCancelled

record http_response =
  hr_status :: int
  hr_text :: string
  hr_json :: "pyval option"
  hr_headers :: "string dict"

definition hr_is_error :: "http_response \<Rightarrow> bool" where
  "hr_is_error r = (400 \<le> hr_status r \<and> hr_status r \<le> 599)"

definition hr_is_success :: "http_response \<Rightarrow> bool" where
  "hr_is_success r = (200 \<le> hr_status r \<and> hr_status r \<le> 299)"

definition response_json :: "http_response \<Rightarrow> ai_error exc + pyval" where
  "response_json r = (case hr_json r of Some v \<Rightarrow> Inr v | None \<Rightarrow> Inl (PyExc ''JSONDecodeError''))"

lemma py_only_json [py_only_intros]: "py_only (response_json r)"
  by (simp add: py_only_def response_json_def split: option.split)

lemma refused_by_status:
  "(if hr_is_error r then Inl x else body) = Inl (Typed e) \<Longrightarrow> py_only body \<Longrightarrow> hr_is_error r \<and> x = Typed e"
  by (auto simp: py_only_def split: if_splits)

text \<open>A streamed answer: its head (with the body for an error), the lines, and what cut them short.\<close>

record http_stream =
  hs_response :: http_response
  hs_lines :: "string list"
  hs_cut :: "http_failure option"

record 'w transport =
  tr_send :: "http_request \<Rightarrow> 'w \<Rightarrow> 'w \<times> (http_failure + http_response)"
  tr_stream :: "http_request \<Rightarrow> 'w \<Rightarrow> 'w \<times> (http_failure + http_stream)"

section \<open>The base class\<close>

record adapter_config =
  cf_id :: string
  cf_default_model :: string
  cf_base_url :: string
  cf_api_key :: "string option"

definition base_init :: "string \<Rightarrow> string \<Rightarrow> string \<Rightarrow> string option \<Rightarrow> adapter_config" where
  "base_init pid model url key =
     \<lparr>cf_id = pid, cf_default_model = model,
      cf_base_url = rev (dropWhile (\<lambda>c. c = CHR ''/'') (rev url)), cf_api_key = key\<rparr>"

text \<open>The pooled client: none yet, open with the headers it was made with, or closed behind the adapter's back.\<close>

datatype client = NoClient | OpenClient "string dict" | ClosedClient

definition get_client :: "string dict \<Rightarrow> client \<Rightarrow> client" where
  "get_client headers c = (case c of OpenClient h \<Rightarrow> OpenClient h | _ \<Rightarrow> OpenClient headers)"

definition close_client :: "client \<Rightarrow> client" where
  "close_client c = (case c of OpenClient _ \<Rightarrow> NoClient | _ \<Rightarrow> c)"

text \<open>Whatever happened to the client, a request goes out on an open one with the adapter's headers.\<close>

lemma get_client_open:
  "c \<in> {NoClient, ClosedClient, OpenClient h} \<Longrightarrow>
     get_client h c = OpenClient h \<and> get_client h (close_client c) = OpenClient h"
  by (auto simp: get_client_def close_client_def)

definition cred_header :: "string \<Rightarrow> string \<Rightarrow> string option \<Rightarrow> string dict" where
  "cred_header name prefix key =
     (case key of None \<Rightarrow> [] | Some k \<Rightarrow> if k = [] then [] else [(name, prefix @ k)])"

text \<open>\<open>if x: payload[k] = x\<close>.\<close>

definition put_if :: "bool \<Rightarrow> string \<Rightarrow> pyval \<Rightarrow> pyval dict" where
  "put_if c k v = (if c then [(k, v)] else [])"

definition put_opt :: "('a \<Rightarrow> bool) \<Rightarrow> ('a \<Rightarrow> pyval) \<Rightarrow> string \<Rightarrow> 'a option \<Rightarrow> pyval dict" where
  "put_opt good f k x = (case x of None \<Rightarrow> [] | Some a \<Rightarrow> if good a then [(k, f a)] else [])"

definition opt_pystr :: "string option \<Rightarrow> pyval" where
  "opt_pystr x = (case x of None \<Rightarrow> PNone | Some s \<Rightarrow> PStr s)"

fun role_value :: "role \<Rightarrow> string" where
  "role_value System = ''system''"
| "role_value User = ''user''"
| "role_value Assistant = ''assistant''"
| "role_value Tool_Role = ''tool''"

text \<open>The calls of an assistant message, if it has any: the test that each adapter makes.\<close>

definition calls_of :: "chat_message \<Rightarrow> tool_call list" where
  "calls_of m = (if cm_role m = Assistant then (case cm_tool_calls m of Some cs \<Rightarrow> cs | None \<Rightarrow> []) else [])"

section \<open>Failures as errors of the taxonomy\<close>

definition error_message :: "py_lib \<Rightarrow> http_response \<Rightarrow> string" where
  "error_message L r =
     (case bind_res (response_json r) (\<lambda>body.
             bind_res (py_get body ''error'' (PDict [])) (\<lambda>e. py_get e ''message'' (PStr (hr_text r)))) of
        Inr v \<Rightarrow> py_text L v
      | Inl _ \<Rightarrow> if hr_text r = [] then ''HTTP '' @ show_int (hr_status r) else hr_text r)"

text \<open>The chain of tests on the status. Any other error status ends in \<open>raise_for_status\<close>, whose exception
  is one of the HTTP library.\<close>

definition status_error :: "string \<Rightarrow> int \<Rightarrow> string \<Rightarrow> rat option \<Rightarrow> ai_error exc" where
  "status_error pid status message retry_after =
     (if status = 401 \<or> status = 403 then Typed (mk_ai_error AuthenticationError message (Some pid) None)
      else if status = 404 then Typed (mk_ai_error ModelNotFoundError message (Some pid) None)
      else if status = 400 then Typed (mk_ai_error InvalidRequestError message (Some pid) None)
      else if status = 429 then
        Typed (mk_ai_error RateLimitError message (Some pid) None\<lparr>ae_retry_after := retry_after\<rparr>)
      else if 500 \<le> status then
        Typed (mk_ai_error ProviderUnavailableError message (Some pid) None\<lparr>ae_status_code := Some status\<rparr>)
      else PyExc ''HTTPStatusError'')"

definition failure_outcome :: "string \<Rightarrow> string \<Rightarrow> string \<Rightarrow> http_failure \<Rightarrow> 'a outcome" where
  "failure_outcome pid timed_out network f =
     (case f of
        HTimeout t \<Rightarrow> Raised (mk_ai_error AITimeoutError (timed_out @ t) (Some pid) None)
      | HConnect t \<Rightarrow> Raised (mk_ai_error ProviderUnavailableError (network @ t) (Some pid) None)
      | HRequest t \<Rightarrow> Raised (mk_ai_error ProviderUnavailableError (network @ t) (Some pid) None)
      | HCancelled \<Rightarrow> TaskCancelled)"

text \<open>Which refusals may be tried again.\<close>

definition worth_retry :: "int \<Rightarrow> bool" where
  "worth_retry s = (s = 429 \<or> 500 \<le> s)"

lemma status_error_facts:
  "status_error pid s m ra = Typed e \<Longrightarrow> ae_provider e = Some pid \<and> (ae_is_retryable e \<longleftrightarrow> worth_retry s)"
  by (auto simp: status_error_def mk_ai_error_def worth_retry_def split: if_splits)

lemma failure_outcome_facts:
  "failure_outcome pid a b f = Raised e \<Longrightarrow> ae_provider e = Some pid \<and> ae_is_retryable e"
  "failure_outcome pid a b f \<noteq> Returned x"
  "failure_outcome pid a b f = TaskCancelled \<longleftrightarrow> f = HCancelled"
  by (cases f; auto simp: failure_outcome_def mk_ai_error_def)+

definition exchange ::
  "'w transport \<Rightarrow> http_request \<Rightarrow> (http_failure \<Rightarrow> 'a outcome) \<Rightarrow> (http_response \<Rightarrow> ai_error exc + 'a) \<Rightarrow> 'w \<Rightarrow> 'w \<times> 'a outcome" where
  "exchange T rq fail answer w =
     (case tr_send T rq w of (w1, Inl f) \<Rightarrow> (w1, fail f) | (w1, Inr r) \<Rightarrow> (w1, outcome_of (answer r)))"

text \<open>How an outcome relates to what came back for the request: an answer never comes from an error status and
  names its provider; so does an error, which may be tried again after a failure of the network and after
  the statuses in \<open>worth\<close>; only a cancelled request ends in a cancellation.\<close>

definition outcome_fits :: "string \<Rightarrow> (int \<Rightarrow> bool) \<Rightarrow> http_failure + http_response \<Rightarrow> llm_response outcome \<Rightarrow> bool" where
  "outcome_fits pid worth back out =
     (case out of
        Returned a \<Rightarrow> lr_provider a = pid \<and> (case back of Inl _ \<Rightarrow> False | Inr r \<Rightarrow> \<not> hr_is_error r)
      | Raised e \<Rightarrow> ae_provider e = Some pid \<and>
          (case back of
             Inl f \<Rightarrow> f \<noteq> HCancelled \<and> ae_is_retryable e
           | Inr r \<Rightarrow> hr_is_error r \<and> (ae_is_retryable e \<longleftrightarrow> worth (hr_status r)))
      | TaskCancelled \<Rightarrow> back = Inl HCancelled
      | RaisedOther _ \<Rightarrow> back \<noteq> Inl HCancelled)"

text \<open>What an adapter promises of its two translations, of failures and of responses.\<close>

locale vendor_contract =
  fixes pid :: string
    and fail :: "http_failure \<Rightarrow> llm_response outcome"
    and answer :: "llm_request \<Rightarrow> http_response \<Rightarrow> ai_error exc + llm_response"
    and worth :: "int \<Rightarrow> bool"
  assumes failed: "fail f = Raised e \<Longrightarrow> ae_provider e = Some pid \<and> ae_is_retryable e"
    and fail_no_answer: "fail f \<noteq> Returned a"
    and fail_cancelled: "fail f = TaskCancelled \<longleftrightarrow> f = HCancelled"
    and answered: "answer q r = Inr a \<Longrightarrow> \<not> hr_is_error r \<and> lr_provider a = pid"
    and refused: "answer q r = Inl (Typed e) \<Longrightarrow>
      hr_is_error r \<and> ae_provider e = Some pid \<and> (ae_is_retryable e \<longleftrightarrow> worth (hr_status r))"
begin

lemma exchange_outcome:
  assumes "exchange T rq fail (answer q) w = (w', out)"
  shows "w' = fst (tr_send T rq w) \<and> outcome_fits pid worth (snd (tr_send T rq w)) out"
proof -
  obtain w1 x where s: "tr_send T rq w = (w1, x)" by fastforce
  show ?thesis
  proof (cases x)
    case (Inl f)
    have "outcome_fits pid worth (Inl f) (fail f)"
      using failed [of f] fail_no_answer [of f] fail_cancelled [of f]
      by (cases "fail f") (auto simp: outcome_fits_def)
    then show ?thesis using Inl assms s by (auto simp: exchange_def)
  next
    case (Inr r)
    have "outcome_fits pid worth (Inr r) (outcome_of (answer q r))"
      using answered [of q r] refused [of q r]
      by (cases "answer q r") (auto simp: outcome_fits_def outcome_of_exc_def split: exc.splits)
    then show ?thesis using Inr assms s by (auto simp: exchange_def)
  qed
qed

end

section \<open>Streams\<close>

text \<open>What is yielded before an exception, and the exception.\<close>

type_synonym emission = "stream_event list \<times> ai_error exc option"

definition emit_with :: "ai_error exc + 'a \<Rightarrow> ('a \<Rightarrow> emission) \<Rightarrow> emission" where
  "emit_with r f = (case r of Inl x \<Rightarrow> ([], Some x) | Inr a \<Rightarrow> f a)"

definition emit_seq :: "emission \<Rightarrow> emission \<Rightarrow> emission" where
  "emit_seq a b = (case snd a of Some x \<Rightarrow> a | None \<Rightarrow> (fst a @ fst b, snd b))"

fun emit_each :: "('a \<Rightarrow> emission) \<Rightarrow> 'a list \<Rightarrow> emission" where
  "emit_each f [] = ([], None)"
| "emit_each f (x # xs) = emit_seq (f x) (emit_each f xs)"

definition event_of :: "stream_event_type \<Rightarrow> stream_event" where
  "event_of t = \<lparr>se_type = t, se_text = None, se_tool_call = None, se_usage = None, se_error = None,
     se_finish_reason = None\<rparr>"

definition emit_text :: "pyval \<Rightarrow> emission" where
  "emit_text v = emit_with (opt_text v) (\<lambda>t. ([event_of TextDelta\<lparr>se_text := t\<rparr>], None))"

definition emit_call :: "pyval \<Rightarrow> pyval \<Rightarrow> pyval \<Rightarrow> emission" where
  "emit_call i n a = emit_with (mk_tool_call i n a) (\<lambda>c. ([event_of ToolCallDelta\<lparr>se_tool_call := Some c\<rparr>], None))"

definition emit_completed :: "ai_error exc + finish_reason \<Rightarrow> emission" where
  "emit_completed f = emit_with f (\<lambda>x. ([event_of StreamCompleted\<lparr>se_finish_reason := Some x\<rparr>], None))"

text \<open>After a line the loop goes on, is left by \<open>break\<close>, or by an exception.\<close>

datatype line_end = Next | Break | Fail "ai_error exc"

definition line_of :: "'s \<Rightarrow> emission \<Rightarrow> 's \<times> stream_event list \<times> line_end" where
  "line_of s e = (s, fst e, case snd e of None \<Rightarrow> Next | Some x \<Rightarrow> Fail x)"

fun stream_lines ::
  "('s \<Rightarrow> string \<Rightarrow> 's \<times> stream_event list \<times> line_end) \<Rightarrow> 's \<Rightarrow> string list \<Rightarrow> stream_event list \<times> line_end" where
  "stream_lines step s [] = ([], Next)"
| "stream_lines step s (l # ls) =
     (case step s l of
        (s1, evs, Next) \<Rightarrow> (let (evs2, e) = stream_lines step s1 ls in (evs @ evs2, e))
      | (s1, evs, e) \<Rightarrow> (evs, e))"

text \<open>Lines of server-sent events carry their data behind \<open>data: \<close>; a text that does not parse is skipped.\<close>

definition sse_data :: "string \<Rightarrow> string option" where
  "sse_data line = (if line = [] \<or> \<not> starts_with line ''data: '' then None else Some (strip (drop 6 line)))"

definition stream_exchange ::
  "'w transport \<Rightarrow> http_request \<Rightarrow> (http_failure \<Rightarrow> unit outcome) \<Rightarrow> (http_response \<Rightarrow> ai_error exc)
     \<Rightarrow> ('s \<Rightarrow> string \<Rightarrow> 's \<times> stream_event list \<times> line_end) \<Rightarrow> 's \<Rightarrow> 'w \<Rightarrow> 'w \<times> stream_event list \<times> unit outcome" where
  "stream_exchange T rq fail refuse step s w =
     (case tr_stream T rq w of
        (w1, Inl f) \<Rightarrow> (w1, [], fail f)
      | (w1, Inr hs) \<Rightarrow>
          let ended = (case hs_cut hs of None \<Rightarrow> Returned () | Some f \<Rightarrow> fail f)
          in if hr_is_error (hs_response hs)
             then (w1, [], if hs_cut hs = None then outcome_of_exc (refuse (hs_response hs)) else ended)
             else (case stream_lines step s (hs_lines hs) of
                     (evs, Next) \<Rightarrow> (w1, evs, ended)
                   | (evs, Break) \<Rightarrow> (w1, evs, Returned ())
                   | (evs, Fail x) \<Rightarrow> (w1, evs, outcome_of_exc x)))"

text \<open>Lines on which nothing happens can be left out.\<close>

lemma stream_lines_noise:
  assumes "\<And>s l. noise l \<Longrightarrow> step s l = (s, [], Next)"
  shows "stream_lines step s (filter (\<lambda>l. \<not> noise l) ls) = stream_lines step s ls"
proof (induction ls arbitrary: s)
  case (Cons l ls)
  show ?case
  proof (cases "noise l")
    case True
    then show ?thesis using Cons.IH assms by (auto split: prod.splits)
  next
    case False
    then show ?thesis using Cons.IH by (auto split: prod.splits line_end.splits)
  qed
qed simp

text \<open>A stream cut after some lines has yielded a beginning of what the whole one yields.\<close>

lemma stream_lines_prefix: "\<exists>evs. fst (stream_lines step s (xs @ ys)) = fst (stream_lines step s xs) @ evs"
proof (induction xs arbitrary: s)
  case (Cons x xs)
  obtain s1 evs e where step: "step s x = (s1, evs, e)" by (metis prod_cases3)
  from Cons.IH [of s1] show ?case by (cases e) (auto simp: step split: prod.splits)
qed simp

text \<open>A transport that cuts every stream after \<open>n\<close> lines, with the failure \<open>f\<close>.\<close>

definition cut_transport :: "nat \<Rightarrow> http_failure \<Rightarrow> 'w transport \<Rightarrow> 'w transport" where
  "cut_transport n f T = T\<lparr>tr_stream := (\<lambda>rq w.
     case tr_stream T rq w of
       (w1, Inr hs) \<Rightarrow> (w1, Inr (hs\<lparr>hs_lines := take n (hs_lines hs), hs_cut := Some f\<rparr>))
     | (w1, Inl g) \<Rightarrow> (w1, Inl g))\<rparr>"

lemma stream_exchange_cut:
  "\<exists>rest. fst (snd (stream_exchange T rq fail refuse step s w)) =
     fst (snd (stream_exchange (cut_transport n f T) rq fail refuse step s w)) @ rest"
proof -
  obtain w1 x where t: "tr_stream T rq w = (w1, x)" by fastforce
  show ?thesis
  proof (cases x)
    case (Inl g)
    then show ?thesis by (simp add: stream_exchange_def cut_transport_def t)
  next
    case (Inr hs)
    have evs: "fst (snd (stream_exchange U rq fail refuse step s w)) =
        (if hr_is_error (hs_response h) then [] else fst (stream_lines step s (hs_lines h)))"
      if "tr_stream U rq w = (w1, Inr h)" for U h
      by (auto simp: stream_exchange_def that Let_def split: prod.splits line_end.splits)
    have c: "tr_stream (cut_transport n f T) rq w = (w1, Inr (hs\<lparr>hs_lines := take n (hs_lines hs), hs_cut := Some f\<rparr>))"
      by (simp add: cut_transport_def t Inr)
    show ?thesis
      using stream_lines_prefix [of step s "take n (hs_lines hs)" "drop n (hs_lines hs)"]
      by (auto simp: evs [OF c] evs [OF t [unfolded Inr]])
  qed
qed

end
