(* ===== verification/Ai_Openai.thy ===== *)
theory Ai_Openai
  imports Ai_Http
begin

text \<open>
  The OpenAI adapter (\<open>ai/providers/openai.py\<close>): messages and tools in the vendor's form, the translation of
  answers and refusals, and the stream of chunks. Shown: a message with tool calls survives the way out
  and back, the adapter keeps the vendor contract, and the later fragments of a tool call do not say which
  call they belong to.
\<close>

section \<open>Requests\<close>

definition openai_init :: "string option \<Rightarrow> string \<Rightarrow> adapter_config" where
  "openai_init key model = base_init ''openai'' model ''https://api.openai.com/v1'' key"

definition openai_headers :: "adapter_config \<Rightarrow> string dict" where
  "openai_headers c =
     [(''Content-Type'', ''application/json''), (''Accept'', ''application/json'')]
     @ cred_header ''Authorization'' ''Bearer '' (cf_api_key c)"

definition openai_call :: "py_lib \<Rightarrow> tool_call \<Rightarrow> pyval" where
  "openai_call L tc =
     PDict [(''id'', PStr (tcl_id tc)), (''type'', PStr ''function''),
            (''function'', PDict [(''name'', PStr (tcl_name tc)),
                                (''arguments'', PStr (pl_dumps L (PDict (tcl_arguments tc))))])]"

definition openai_message :: "py_lib \<Rightarrow> chat_message \<Rightarrow> pyval" where
  "openai_message L m =
     PDict ([(''role'', PStr (role_value (cm_role m))), (''content'', PStr (cm_content m))] @
       (if calls_of m \<noteq> [] then [(''tool_calls'', PList (map (openai_call L) (calls_of m)))]
        else if cm_role m = Tool_Role
        then (''tool_call_id'', opt_pystr (cm_tool_call_id m)) # put_opt (\<lambda>n. n \<noteq> []) PStr ''name'' (cm_name m)
        else []))"

definition openai_messages :: "py_lib \<Rightarrow> chat_message list \<Rightarrow> pyval" where
  "openai_messages L ms = PList (map (openai_message L) ms)"

definition openai_tools :: "ai_tool_definition list option \<Rightarrow> pyval list option" where
  "openai_tools tools =
     (case tools of
        None \<Rightarrow> None
      | Some ts \<Rightarrow>
          if ts = [] then None
          else Some (map (\<lambda>t. PDict [(''type'', PStr ''function''),
                 (''function'', PDict [(''name'', PStr (atd_name t)), (''description'', PStr (atd_description t)),
                                     (''parameters'', PDict (atd_parameters t))])]) ts))"

definition openai_payload :: "py_lib \<Rightarrow> adapter_config \<Rightarrow> llm_request \<Rightarrow> pyval" where
  "openai_payload L c q =
     PDict ([(''model'', PStr (or_default (lq_model q) (cf_default_model c))),
             (''messages'', openai_messages L (lq_messages q)), (''temperature'', PFloat (lq_temperature q))]
       @ put_opt (\<lambda>n. n \<noteq> 0) PInt ''max_tokens'' (lq_max_tokens q)
       @ put_opt (\<lambda>r. r \<noteq> 0) PFloat ''top_p'' (lq_top_p q)
       @ (case openai_tools (lq_tools q) of
            None \<Rightarrow> []
          | Some ts \<Rightarrow> (''tools'', PList ts) # put_opt (\<lambda>s. s \<noteq> []) PStr ''tool_choice'' (lq_tool_choice q)))"

definition openai_stream_payload :: "py_lib \<Rightarrow> adapter_config \<Rightarrow> llm_request \<Rightarrow> pyval" where
  "openai_stream_payload L c q =
     PDict ([(''model'', PStr (or_default (lq_model q) (cf_default_model c))),
             (''messages'', openai_messages L (lq_messages q)), (''temperature'', PFloat (lq_temperature q)),
             (''stream'', PBool True)]
       @ put_opt (\<lambda>n. n \<noteq> 0) PInt ''max_tokens'' (lq_max_tokens q)
       @ (case openai_tools (lq_tools q) of None \<Rightarrow> [] | Some ts \<Rightarrow> [(''tools'', PList ts)]))"

definition openai_request :: "adapter_config \<Rightarrow> llm_request \<Rightarrow> pyval \<Rightarrow> http_request" where
  "openai_request c q payload =
     \<lparr>rq_method = ''POST'', rq_url = cf_base_url c @ ''/chat/completions'', rq_headers = openai_headers c,
      rq_json = Some payload, rq_timeout = lq_timeout q\<rparr>"

section \<open>Answers\<close>

definition OPENAI_FINISH :: "finish_reason dict" where
  "OPENAI_FINISH = [(''stop'', FStop), (''length'', FLength), (''tool_calls'', FToolCalls), (''content_filter'', FContentFilter)]"

definition openai_finish :: "pyval \<Rightarrow> ai_error exc + finish_reason" where
  "openai_finish reason = lookup_reason OPENAI_FINISH reason"

definition openai_handle_error :: "py_lib \<Rightarrow> adapter_config \<Rightarrow> http_response \<Rightarrow> ai_error exc" where
  "openai_handle_error L c r =
     status_error (cf_id c) (hr_status r) (error_message L r)
       (case dict_get (hr_headers r) ''retry-after'' of None \<Rightarrow> None | Some s \<Rightarrow> pl_float L s)"

text \<open>Arguments that cannot be parsed become the empty dictionary; what is parsed must be one.\<close>

definition openai_arguments :: "py_lib \<Rightarrow> pyval \<Rightarrow> pyval" where
  "openai_arguments L fn =
     (case (py_get fn ''arguments'' (PStr ''{}'') :: ai_error exc + pyval) of
        Inr (PStr s) \<Rightarrow> (case pl_loads L s of Some v \<Rightarrow> v | None \<Rightarrow> PDict [])
      | _ \<Rightarrow> PDict [])"

definition openai_parse_call :: "py_lib \<Rightarrow> pyval \<Rightarrow> ai_error exc + tool_call" where
  "openai_parse_call L tc =
     bind_res (py_get tc ''function'' (PDict [])) (\<lambda>fn.
     bind_res (py_item tc ''id'') (\<lambda>i.
     bind_res (py_get fn ''name'' (PStr [])) (\<lambda>n. mk_tool_call i n (openai_arguments L fn))))"

definition openai_parse_calls :: "py_lib \<Rightarrow> pyval \<Rightarrow> ai_error exc + tool_call list option" where
  "openai_parse_calls L msg =
     bind_res (py_truthy_item ''tool_calls'' msg) (\<lambda>calls.
       case calls of
         None \<Rightarrow> Inr None
       | Some v \<Rightarrow> bind_res (py_iter v) (\<lambda>xs. bind_res (map_res (openai_parse_call L) xs) (\<lambda>cs. Inr (Some cs))))"

definition openai_usage :: "py_lib \<Rightarrow> pyval \<Rightarrow> ai_error exc + token_usage" where
  "openai_usage L data =
     bind_res (py_get data ''usage'' (PDict [])) (\<lambda>u.
     bind_res (py_get u ''prompt_tokens'' (PInt 0)) (\<lambda>p.
     bind_res (py_get u ''completion_tokens'' (PInt 0)) (\<lambda>c.
     bind_res (py_get u ''total_tokens'' (PInt 0)) (\<lambda>t. mk_usage L p c t))))"

definition openai_answer :: "py_lib \<Rightarrow> adapter_config \<Rightarrow> llm_request \<Rightarrow> http_response \<Rightarrow> ai_error exc + llm_response" where
  "openai_answer L c q r =
     (if hr_is_error r then Inl (openai_handle_error L c r)
      else bind_res (response_json r) (\<lambda>data.
           bind_res (py_item data ''choices'') (\<lambda>choices.
           bind_res (py_first choices) (\<lambda>choice.
           bind_res (py_item choice ''message'') (\<lambda>msg.
           bind_res (openai_parse_calls L msg) (\<lambda>calls.
           bind_res (openai_usage L data) (\<lambda>usage.
           bind_res (py_get msg ''content'' PNone) (\<lambda>content.
           bind_res (bind_res (py_get choice ''finish_reason'' PNone) openai_finish) (\<lambda>finish.
           bind_res (py_get data ''model'' (PStr (or_default (lq_model q) (cf_default_model c)))) (\<lambda>model.
           bind_res (py_get data ''id'' PNone) (\<lambda>i.
             mk_llm_response content calls finish model (cf_id c) usage i)))))))))))"

definition openai_failure :: "adapter_config \<Rightarrow> http_failure \<Rightarrow> 'a outcome" where
  "openai_failure c = failure_outcome (cf_id c) ''OpenAI request timed out: '' ''Network error connecting to OpenAI: ''"

definition openai_generate ::
  "py_lib \<Rightarrow> 'w transport \<Rightarrow> adapter_config \<Rightarrow> llm_request \<Rightarrow> 'w \<Rightarrow> 'w \<times> llm_response outcome" where
  "openai_generate L T c q =
     exchange T (openai_request c q (openai_payload L c q)) (openai_failure c) (openai_answer L c q)"

section \<open>Streams\<close>

definition openai_delta :: "pyval \<Rightarrow> emission" where
  "openai_delta tc =
     emit_with (py_get tc ''function'' (PDict [])) (\<lambda>fn.
     emit_with (py_get tc ''id'' (PStr [])) (\<lambda>i.
     emit_with (py_get fn ''name'' (PStr [])) (\<lambda>n.
     emit_with (py_get fn ''arguments'' (PStr [])) (\<lambda>a. emit_call i n (PDict [(''delta'', a)])))))"

definition openai_chunk :: "pyval \<Rightarrow> emission" where
  "openai_chunk chunk =
     emit_with (bind_res (py_get chunk ''choices'' (PList [PDict []])) py_first) (\<lambda>choice.
     emit_with (py_get choice ''delta'' (PDict [])) (\<lambda>delta.
     emit_seq (emit_with (py_truthy_item ''content'' delta)
                 (\<lambda>x. case x of None \<Rightarrow> ([], None) | Some t \<Rightarrow> emit_text t))
    (emit_seq (emit_with (py_truthy_item ''tool_calls'' delta)
                 (\<lambda>x. case x of None \<Rightarrow> ([], None) | Some v \<Rightarrow> emit_with (py_iter v) (emit_each openai_delta)))
              (emit_with (py_get choice ''finish_reason'' PNone)
                 (\<lambda>f. if truthy f then emit_completed (openai_finish f) else ([], None))))))"

definition openai_line :: "py_lib \<Rightarrow> unit \<Rightarrow> string \<Rightarrow> unit \<times> stream_event list \<times> line_end" where
  "openai_line L s line =
     (case sse_data line of
        None \<Rightarrow> (s, [], Next)
      | Some d \<Rightarrow> if d = ''[DONE]'' then (s, [], Break)
                  else (case pl_loads L d of None \<Rightarrow> (s, [], Next) | Some chunk \<Rightarrow> line_of s (openai_chunk chunk)))"

definition openai_stream ::
  "py_lib \<Rightarrow> 'w transport \<Rightarrow> adapter_config \<Rightarrow> llm_request \<Rightarrow> 'w \<Rightarrow> 'w \<times> stream_event list \<times> unit outcome" where
  "openai_stream L T c q =
     stream_exchange T (openai_request c q (openai_stream_payload L c q))
       (failure_outcome (cf_id c) ''OpenAI stream timed out: '' ''Network error during OpenAI streaming: '')
       (openai_handle_error L c) (openai_line L) ()"

section \<open>The contract\<close>

lemma openai_parse_call_py: "py_only (openai_parse_call L tc)"
  unfolding openai_parse_call_def by (intro py_only_bind py_only_intros)

lemma openai_parse_calls_py: "py_only (openai_parse_calls L msg)"
  unfolding openai_parse_calls_def by (intro py_only_bind py_only_intros openai_parse_call_py)

lemma openai_usage_py: "py_only (openai_usage L data)"
  unfolding openai_usage_def by (intro py_only_bind py_only_intros)

lemma openai_answer_refused:
  assumes "openai_answer L c q r = Inl (Typed e)"
  shows "hr_is_error r \<and> ae_provider e = Some (cf_id c) \<and> (ae_is_retryable e \<longleftrightarrow> worth_retry (hr_status r))"
proof -
  have "hr_is_error r \<and> openai_handle_error L c r = Typed e"
    using assms unfolding openai_answer_def
    by (rule refused_by_status)
      (intro py_only_bind py_only_intros openai_parse_calls_py openai_usage_py, simp add: openai_finish_def py_only_intros)
  then show ?thesis unfolding openai_handle_error_def using status_error_facts by blast
qed

lemma openai_answer_ok:
  "openai_answer L c q r = Inr a \<Longrightarrow> \<not> hr_is_error r \<and> lr_provider a = cf_id c"
  by (auto simp: openai_answer_def bind_res_Inr dest!: mk_llm_response_provider split: if_splits)

interpretation openai: vendor_contract "cf_id c" "openai_failure c" "openai_answer L c" worth_retry
  for L :: py_lib and c :: adapter_config
  by unfold_locales (auto simp: openai_failure_def failure_outcome_facts
    dest: failure_outcome_facts(1) openai_answer_ok openai_answer_refused)

section \<open>What the stream does not say\<close>

text \<open>Only the first fragment of a call has an id; the others say by \<open>index\<close> which call they continue, which
  the adapter does not read: fragments of different calls give the same event.\<close>

lemma openai_fragments_anonymous:
  "openai_delta (PDict [(''index'', PInt i), (''function'', PDict [(''arguments'', PStr a)])]) =
     ([event_of ToolCallDelta\<lparr>se_tool_call := Some \<lparr>tcl_id = [], tcl_name = [], tcl_arguments = [(''delta'', PStr a)]\<rparr>\<rparr>], None)"
  by (simp add: openai_delta_def emit_with_def emit_call_def)

text \<open>A chunk without choices, such as the one that reports the usage, breaks the stream.\<close>

lemma openai_usage_chunk_fails:
  "openai_chunk (PDict [(''choices'', PList []), (''usage'', u)]) = ([], Some (PyExc ''IndexError''))"
  by (simp add: openai_chunk_def py_first_def emit_with_def)

text \<open>Arguments that are JSON but no object are not replaced by the empty dictionary.\<close>

lemma openai_list_arguments_rejected:
  assumes "pl_loads L ''[]'' = Some (PList [])"
  shows "openai_parse_call L (PDict [(''id'', PStr i),
     (''function'', PDict [(''name'', PStr n), (''arguments'', PStr ''[]'')])]) = Inl (PyExc ''ValidationError'')"
  using assms by (simp add: openai_parse_call_def openai_arguments_def mk_tool_call_def)

end
