(* ===== verification/Ai_Anthropic.thy ===== *)
theory Ai_Anthropic
  imports Ai_Http
begin

text \<open>
  The Anthropic adapter (\<open>ai/providers/anthropic.py\<close>): system messages are collected apart, tool calls and
  their results are content blocks, and a stream announces each tool call before its fragments, so the
  adapter carries the announced id and name from line to line. Shown: the vendor contract, and that
  every fragment names the call that was announced last.
\<close>

section \<open>Requests\<close>

definition anthropic_init :: "string option \<Rightarrow> string \<Rightarrow> adapter_config" where
  "anthropic_init key model = base_init ''anthropic'' model ''https://api.anthropic.com/v1'' key"

definition anthropic_headers :: "adapter_config \<Rightarrow> string dict" where
  "anthropic_headers c =
     [(''Content-Type'', ''application/json''), (''anthropic-version'', ''2023-06-01'')]
     @ cred_header ''x-api-key'' [] (cf_api_key c)"

definition anthropic_block :: "tool_call \<Rightarrow> pyval" where
  "anthropic_block tc =
     PDict [(''type'', PStr ''tool_use''), (''id'', PStr (tcl_id tc)), (''name'', PStr (tcl_name tc)),
            (''input'', PDict (tcl_arguments tc))]"

definition anthropic_blocks :: "chat_message \<Rightarrow> pyval list" where
  "anthropic_blocks m =
     (if cm_content m = [] then [] else [PDict [(''type'', PStr ''text''), (''text'', PStr (cm_content m))]])
     @ map anthropic_block (calls_of m)"

definition anthropic_message :: "chat_message \<Rightarrow> pyval" where
  "anthropic_message m =
     (if cm_role m = Tool_Role
      then PDict [(''role'', PStr ''user''),
             (''content'', PList [PDict [(''type'', PStr ''tool_result''),
                (''tool_use_id'', PStr (or_default (cm_tool_call_id m) [])), (''content'', PStr (cm_content m))]])]
      else if calls_of m \<noteq> []
      then PDict [(''role'', PStr ''assistant''), (''content'', PList (anthropic_blocks m))]
      else PDict [(''role'', PStr (role_value (cm_role m))), (''content'', PStr (cm_content m))])"

text \<open>System messages are joined by line breaks; an empty prompt so far is replaced.\<close>

definition anthropic_add :: "chat_message \<Rightarrow> string option \<times> pyval list \<Rightarrow> string option \<times> pyval list" where
  "anthropic_add m acc =
     (case acc of (prompt, out) \<Rightarrow>
        if cm_role m = System
        then (Some (case prompt of Some (c # p) \<Rightarrow> (c # p) @ [CHR 0x0A] @ cm_content m | _ \<Rightarrow> cm_content m), out)
        else (prompt, out @ [anthropic_message m]))"

definition anthropic_messages :: "chat_message list \<Rightarrow> string option \<times> pyval list" where
  "anthropic_messages ms = fold anthropic_add ms (None, [])"

definition anthropic_tools :: "ai_tool_definition list option \<Rightarrow> pyval list option" where
  "anthropic_tools tools =
     (case tools of
        None \<Rightarrow> None
      | Some ts \<Rightarrow>
          if ts = [] then None
          else Some (map (\<lambda>t. PDict [(''name'', PStr (atd_name t)), (''description'', PStr (atd_description t)),
                 (''input_schema'', PDict (atd_parameters t))]) ts))"

definition anthropic_fields :: "adapter_config \<Rightarrow> llm_request \<Rightarrow> pyval dict" where
  "anthropic_fields c q =
     [(''model'', PStr (or_default (lq_model q) (cf_default_model c))),
      (''messages'', PList (snd (anthropic_messages (lq_messages q)))),
      (''max_tokens'', PInt (case lq_max_tokens q of None \<Rightarrow> 4096 | Some n \<Rightarrow> if n = 0 then 4096 else n)),
      (''temperature'', PFloat (lq_temperature q))]"

definition anthropic_payload :: "adapter_config \<Rightarrow> llm_request \<Rightarrow> pyval" where
  "anthropic_payload c q =
     PDict (anthropic_fields c q
       @ put_opt (\<lambda>s. s \<noteq> []) PStr ''system'' (fst (anthropic_messages (lq_messages q)))
       @ put_opt (\<lambda>r. r \<noteq> 0) PFloat ''top_p'' (lq_top_p q)
       @ (case anthropic_tools (lq_tools q) of None \<Rightarrow> [] | Some ts \<Rightarrow> [(''tools'', PList ts)]))"

definition anthropic_stream_payload :: "adapter_config \<Rightarrow> llm_request \<Rightarrow> pyval" where
  "anthropic_stream_payload c q =
     PDict (anthropic_fields c q
       @ (''stream'', PBool True)
       # put_opt (\<lambda>s. s \<noteq> []) PStr ''system'' (fst (anthropic_messages (lq_messages q)))
       @ (case anthropic_tools (lq_tools q) of None \<Rightarrow> [] | Some ts \<Rightarrow> [(''tools'', PList ts)]))"

definition anthropic_request :: "adapter_config \<Rightarrow> llm_request \<Rightarrow> pyval \<Rightarrow> http_request" where
  "anthropic_request c q payload =
     \<lparr>rq_method = ''POST'', rq_url = cf_base_url c @ ''/messages'', rq_headers = anthropic_headers c,
      rq_json = Some payload, rq_timeout = lq_timeout q\<rparr>"

section \<open>Answers\<close>

definition ANTHROPIC_FINISH :: "finish_reason dict" where
  "ANTHROPIC_FINISH = [(''end_turn'', FStop), (''stop_sequence'', FStop), (''max_tokens'', FLength), (''tool_use'', FToolCalls)]"

definition anthropic_finish :: "pyval \<Rightarrow> ai_error exc + finish_reason" where
  "anthropic_finish reason = lookup_reason ANTHROPIC_FINISH reason"

definition anthropic_handle_error :: "py_lib \<Rightarrow> adapter_config \<Rightarrow> http_response \<Rightarrow> ai_error exc" where
  "anthropic_handle_error L c r = status_error (cf_id c) (hr_status r) (error_message L r) None"

text \<open>The texts and the tool calls collected from the content blocks.\<close>

type_synonym collected = "pyval list \<times> tool_call list option"

definition add_call :: "tool_call \<Rightarrow> tool_call list option \<Rightarrow> tool_call list option" where
  "add_call tc calls = Some ((case calls of None \<Rightarrow> [] | Some cs \<Rightarrow> cs) @ [tc])"

definition anthropic_collect :: "pyval \<Rightarrow> collected \<Rightarrow> ai_error exc + collected" where
  "anthropic_collect block acc =
     (case acc of (texts, calls) \<Rightarrow>
        bind_res (py_get block ''type'' PNone) (\<lambda>t.
          if t = PStr ''text'' then bind_res (py_get block ''text'' (PStr [])) (\<lambda>x. Inr (texts @ [x], calls))
          else if t = PStr ''tool_use''
          then bind_res (py_get block ''id'' (PStr [])) (\<lambda>i.
               bind_res (py_get block ''name'' (PStr [])) (\<lambda>n.
               bind_res (py_get block ''input'' (PDict [])) (\<lambda>a.
               bind_res (mk_tool_call i n a) (\<lambda>tc. Inr (texts, add_call tc calls)))))
          else Inr (texts, calls)))"

definition anthropic_answer :: "py_lib \<Rightarrow> adapter_config \<Rightarrow> llm_request \<Rightarrow> http_response \<Rightarrow> ai_error exc + llm_response" where
  "anthropic_answer L c q r =
     (if hr_is_error r then Inl (anthropic_handle_error L c r)
      else bind_res (response_json r) (\<lambda>data.
           bind_res (bind_res (py_get data ''content'' (PList [])) py_iter) (\<lambda>blocks.
           bind_res (fold_res anthropic_collect blocks ([], None)) (\<lambda>(texts, calls).
           bind_res (py_get data ''usage'' (PDict [])) (\<lambda>u.
           bind_res (py_get u ''input_tokens'' (PInt 0)) (\<lambda>pt.
           bind_res (py_get u ''output_tokens'' (PInt 0)) (\<lambda>ct.
           bind_res (join_texts texts) (\<lambda>content.
           bind_res (bind_res (py_get data ''stop_reason'' PNone) anthropic_finish) (\<lambda>finish.
           bind_res (py_get data ''model'' (PStr (or_default (lq_model q) (cf_default_model c)))) (\<lambda>model.
           bind_res (py_add pt ct) (\<lambda>total.
           bind_res (mk_usage L pt ct total) (\<lambda>usage.
           bind_res (py_get data ''id'' PNone) (\<lambda>i.
             mk_llm_response content calls finish model (cf_id c) usage i)))))))))))))"

definition anthropic_failure :: "adapter_config \<Rightarrow> http_failure \<Rightarrow> 'a outcome" where
  "anthropic_failure c =
     failure_outcome (cf_id c) ''Anthropic request timed out: '' ''Network error connecting to Anthropic: ''"

definition anthropic_generate ::
  "py_lib \<Rightarrow> 'w transport \<Rightarrow> adapter_config \<Rightarrow> llm_request \<Rightarrow> 'w \<Rightarrow> 'w \<times> llm_response outcome" where
  "anthropic_generate L T c q =
     exchange T (anthropic_request c q (anthropic_payload c q)) (anthropic_failure c) (anthropic_answer L c q)"

section \<open>Streams\<close>

text \<open>The state of the loop: id and name of the tool call announced last.\<close>

type_synonym announced = "pyval \<times> pyval"

definition anthropic_delta :: "announced \<Rightarrow> pyval \<Rightarrow> emission" where
  "anthropic_delta s delta =
     emit_with (py_get delta ''type'' PNone) (\<lambda>t.
       if t = PStr ''text_delta'' then emit_with (py_get delta ''text'' (PStr [])) emit_text
       else if t = PStr ''input_json_delta''
       then emit_with (py_get delta ''partial_json'' (PStr []))
              (\<lambda>p. emit_call (fst s) (snd s) (PDict [(''delta'', p)]))
       else ([], None))"

definition anthropic_announce :: "announced \<Rightarrow> pyval \<Rightarrow> ai_error exc + announced" where
  "anthropic_announce s chunk =
     bind_res (py_get chunk ''content_block'' (PDict [])) (\<lambda>block.
     bind_res (py_get block ''type'' PNone) (\<lambda>t.
       if t = PStr ''tool_use''
       then bind_res (py_get block ''id'' (PStr [])) (\<lambda>i.
            bind_res (py_get block ''name'' (PStr [])) (\<lambda>n. Inr (i, n)))
       else Inr s))"

definition anthropic_chunk :: "announced \<Rightarrow> pyval \<Rightarrow> announced \<times> stream_event list \<times> line_end" where
  "anthropic_chunk s chunk =
     (case py_get chunk ''type'' PNone of
        Inl x \<Rightarrow> (s, [], Fail x)
      | Inr t \<Rightarrow>
          if t = PStr ''content_block_start''
          then (case anthropic_announce s chunk of Inl x \<Rightarrow> (s, [], Fail x) | Inr s1 \<Rightarrow> (s1, [], Next))
          else if t = PStr ''content_block_delta''
          then line_of s (emit_with (py_get chunk ''delta'' (PDict [])) (anthropic_delta s))
          else if t = PStr ''message_delta''
          then line_of s (emit_with (py_get chunk ''delta'' (PDict [])) (\<lambda>delta.
                 emit_with (py_get delta ''stop_reason'' PNone)
                   (\<lambda>f. if truthy f then emit_completed (anthropic_finish f) else ([], None))))
          else (s, [], Next))"

definition anthropic_line :: "py_lib \<Rightarrow> announced \<Rightarrow> string \<Rightarrow> announced \<times> stream_event list \<times> line_end" where
  "anthropic_line L s line =
     (case sse_data line of
        None \<Rightarrow> (s, [], Next)
      | Some d \<Rightarrow> (case pl_loads L d of None \<Rightarrow> (s, [], Next) | Some chunk \<Rightarrow> anthropic_chunk s chunk))"

definition anthropic_stream ::
  "py_lib \<Rightarrow> 'w transport \<Rightarrow> adapter_config \<Rightarrow> llm_request \<Rightarrow> 'w \<Rightarrow> 'w \<times> stream_event list \<times> unit outcome" where
  "anthropic_stream L T c q =
     stream_exchange T (anthropic_request c q (anthropic_stream_payload c q))
       (failure_outcome (cf_id c) ''Anthropic stream timed out: '' ''Network error during Anthropic stream: '')
       (anthropic_handle_error L c) (anthropic_line L) (PStr [], PStr [])"

section \<open>The contract\<close>

lemma anthropic_collect_py: "py_only (anthropic_collect b acc)"
  unfolding anthropic_collect_def
  by (cases acc) (auto intro!: py_only_bind py_only_intros)

lemma anthropic_answer_refused:
  assumes "anthropic_answer L c q r = Inl (Typed e)"
  shows "hr_is_error r \<and> ae_provider e = Some (cf_id c) \<and> (ae_is_retryable e \<longleftrightarrow> worth_retry (hr_status r))"
proof -
  have "hr_is_error r \<and> anthropic_handle_error L c r = Typed e"
    using assms unfolding anthropic_answer_def
    by (rule refused_by_status)
      (auto intro!: py_only_bind py_only_intros anthropic_collect_py simp: anthropic_finish_def)
  then show ?thesis unfolding anthropic_handle_error_def using status_error_facts by blast
qed

lemma anthropic_answer_ok:
  "anthropic_answer L c q r = Inr a \<Longrightarrow> \<not> hr_is_error r \<and> lr_provider a = cf_id c"
  by (auto simp: anthropic_answer_def bind_res_Inr dest!: mk_llm_response_provider split: if_splits prod.splits)

interpretation anthropic: vendor_contract "cf_id c" "anthropic_failure c" "anthropic_answer L c" worth_retry
  for L :: py_lib and c :: adapter_config
  by unfold_locales (auto simp: anthropic_failure_def failure_outcome_facts
    dest: failure_outcome_facts(1) anthropic_answer_ok anthropic_answer_refused)

section \<open>Streams of tool calls\<close>

text \<open>The chunks of one call: its announcement and the fragments of its arguments.\<close>

record streamed_call =
  sc_id :: string
  sc_name :: string
  sc_fragments :: "string list"

definition fragment_chunk :: "string \<Rightarrow> pyval" where
  "fragment_chunk f =
     PDict [(''type'', PStr ''content_block_delta''),
            (''delta'', PDict [(''type'', PStr ''input_json_delta''), (''partial_json'', PStr f)])]"

definition call_chunks :: "streamed_call \<Rightarrow> pyval list" where
  "call_chunks c =
     PDict [(''type'', PStr ''content_block_start''),
            (''content_block'', PDict [(''type'', PStr ''tool_use''), (''id'', PStr (sc_id c)), (''name'', PStr (sc_name c))])]
     # map fragment_chunk (sc_fragments c)"

definition call_events :: "streamed_call \<Rightarrow> stream_event list" where
  "call_events c =
     map (\<lambda>f. event_of ToolCallDelta\<lparr>se_tool_call :=
            Some \<lparr>tcl_id = sc_id c, tcl_name = sc_name c, tcl_arguments = [(''delta'', PStr f)]\<rparr>\<rparr>) (sc_fragments c)"

text \<open>The line transports the chunk.\<close>

definition line_carries :: "py_lib \<Rightarrow> string \<Rightarrow> pyval \<Rightarrow> bool" where
  "line_carries L line chunk = (case sse_data line of None \<Rightarrow> False | Some d \<Rightarrow> pl_loads L d = Some chunk)"

lemma anthropic_line_carries: "line_carries L line chunk \<Longrightarrow> anthropic_line L s line = anthropic_chunk s chunk"
  by (cases "sse_data line") (simp_all add: line_carries_def anthropic_line_def)

lemma fragments_run:
  "list_all2 (line_carries L) ls (map fragment_chunk fs) \<Longrightarrow>
   stream_lines (anthropic_line L) (PStr i, PStr n) (ls @ rest) =
     (let (evs, e) = stream_lines (anthropic_line L) (PStr i, PStr n) rest
      in (call_events \<lparr>sc_id = i, sc_name = n, sc_fragments = fs\<rparr> @ evs, e))"
proof (induction fs arbitrary: ls)
  case Nil
  then show ?case by (simp add: call_events_def split: prod.splits)
next
  case (Cons f fs)
  then obtain l ls' where ls: "ls = l # ls'" and l: "line_carries L l (fragment_chunk f)" by (cases ls) auto
  have "anthropic_line L (PStr i, PStr n) l =
      ((PStr i, PStr n), call_events \<lparr>sc_id = i, sc_name = n, sc_fragments = [f]\<rparr>, Next)"
    by (simp add: anthropic_line_carries [OF l] fragment_chunk_def anthropic_chunk_def anthropic_delta_def line_of_def
        emit_with_def emit_call_def call_events_def)
  with Cons.IH [of ls'] Cons.prems show ?case
    by (simp add: ls Let_def call_events_def split: prod.splits)
qed

text \<open>
  C1. Every fragment names its call. On a stream that carries any number of tool calls, each announced and then
  continued by fragments, the events are the fragments in order, each with the id and the name of
  its own call, whatever was announced before: a consumer can put the arguments together again.
\<close>

theorem anthropic_calls_named:
  assumes "list_all2 (line_carries L) ls (concat (map call_chunks cs))"
  shows "stream_lines (anthropic_line L) s ls = (concat (map call_events cs), Next)"
  using assms
proof (induction cs arbitrary: ls s)
  case (Cons c cs)
  then obtain lc ls2 where lc: "list_all2 (line_carries L) lc (call_chunks c)" and ls: "ls = lc @ ls2"
    and ls2: "list_all2 (line_carries L) ls2 (concat (map call_chunks cs))"
    by (auto simp: list_all2_append2)
  then obtain l ls1 where lc': "lc = l # ls1" by (cases lc) (auto simp: call_chunks_def)
  have l: "line_carries L l (hd (call_chunks c))" and ls1: "list_all2 (line_carries L) ls1 (map fragment_chunk (sc_fragments c))"
    using lc by (simp_all add: lc' call_chunks_def)
  have "anthropic_line L s l = ((PStr (sc_id c), PStr (sc_name c)), [], Next)"
    by (simp add: anthropic_line_carries [OF l]) (simp add: call_chunks_def anthropic_chunk_def anthropic_announce_def)
  with fragments_run [OF ls1, of "sc_id c" "sc_name c" ls2] Cons.IH [OF ls2] show ?case
    by (simp add: ls lc' Let_def call_events_def)
qed simp

theorem anthropic_calls_named_witness:
  "\<exists>L. stream_lines (anthropic_line L) (PStr [], PStr []) [''data: a'', ''data: b''] =
     (call_events \<lparr>sc_id = ''c1'', sc_name = ''now'', sc_fragments = [''{}'']\<rparr>, Next)"
proof -
  let ?c = "\<lparr>sc_id = ''c1'', sc_name = ''now'', sc_fragments = [''{}'']\<rparr>"
  let ?L = "\<lparr>pl_loads = (\<lambda>s. if s = ''a'' then Some (hd (call_chunks ?c)) else Some (last (call_chunks ?c))),
      pl_dumps = (\<lambda>_. []), pl_str = (\<lambda>_. []), pl_float = (\<lambda>_. None), pl_int = (\<lambda>_. None)\<rparr>"
  have sse: "sse_data ''data: a'' = Some ''a''" "sse_data ''data: b'' = Some ''b''" by code_simp+
  have "list_all2 (line_carries ?L) [''data: a'', ''data: b''] (concat (map call_chunks [?c]))"
    by (simp add: line_carries_def sse call_chunks_def)
  from anthropic_calls_named [OF this] show ?thesis by (intro exI [of _ ?L]) simp
qed

end
