(* ===== verification/Ai_Gemini.thy ===== *)
theory Ai_Gemini
  imports Ai_Http
begin

text \<open>
  The Gemini adapter (\<open>ai/providers/gemini.py\<close>): contents and parts, the translation of candidates, and
  the stream. Shown: the vendor contract; that only the last system message is sent; and that the calls
  of a stream are told apart by the name of the tool only.
\<close>

section \<open>Requests\<close>

definition gemini_init :: "string option \<Rightarrow> string \<Rightarrow> adapter_config" where
  "gemini_init key model = base_init ''gemini'' model ''https://generativelanguage.googleapis.com/v1beta'' key"

definition gemini_headers :: "adapter_config \<Rightarrow> string dict" where
  "gemini_headers c = (''Content-Type'', ''application/json'') # cred_header ''x-goog-api-key'' [] (cf_api_key c)"

definition text_part :: "string \<Rightarrow> pyval" where
  "text_part s = PDict [(''text'', PStr s)]"

definition gemini_call_part :: "tool_call \<Rightarrow> pyval" where
  "gemini_call_part tc =
     PDict [(''functionCall'', PDict [(''name'', PStr (tcl_name tc)), (''args'', PDict (tcl_arguments tc))])]"

definition gemini_content :: "chat_message \<Rightarrow> pyval" where
  "gemini_content m =
     (if cm_role m = Tool_Role
      then PDict [(''role'', PStr ''function''),
             (''parts'', PList [PDict [(''functionResponse'',
                PDict [(''name'', PStr (or_default (cm_name m) ''tool'')),
                       (''response'', PDict [(''content'', PStr (cm_content m))])])]])]
      else if calls_of m \<noteq> []
      then PDict [(''role'', PStr ''model''),
             (''parts'', PList ((if cm_content m = [] then [] else [text_part (cm_content m)])
                              @ map gemini_call_part (calls_of m)))]
      else PDict [(''role'', PStr (if cm_role m = Assistant then ''model'' else ''user'')),
             (''parts'', PList [text_part (cm_content m)])])"

definition gemini_add :: "chat_message \<Rightarrow> pyval option \<times> pyval list \<Rightarrow> pyval option \<times> pyval list" where
  "gemini_add m acc =
     (case acc of (system, out) \<Rightarrow>
        if cm_role m = System then (Some (PDict [(''parts'', PList [text_part (cm_content m)])]), out)
        else (system, out @ [gemini_content m]))"

definition gemini_contents :: "chat_message list \<Rightarrow> pyval option \<times> pyval list" where
  "gemini_contents ms = fold gemini_add ms (None, [])"

definition gemini_tools :: "ai_tool_definition list option \<Rightarrow> pyval list option" where
  "gemini_tools tools =
     (case tools of
        None \<Rightarrow> None
      | Some ts \<Rightarrow>
          if ts = [] then None
          else Some [PDict [(''function_declarations'', PList (map (\<lambda>t.
                 PDict [(''name'', PStr (atd_name t)), (''description'', PStr (atd_description t)),
                        (''parameters'', PDict (atd_parameters t))]) ts))]])"

text \<open>The payloads differ in the sampling bound, which only \<open>generate\<close> sends.\<close>

definition gemini_fields :: "llm_request \<Rightarrow> pyval dict" where
  "gemini_fields q =
     (case gemini_contents (lq_messages q) of (system, contents) \<Rightarrow>
        (''contents'', PList contents)
        # (case system of None \<Rightarrow> [] | Some v \<Rightarrow> [(''system_instruction'', v)])
        @ (case gemini_tools (lq_tools q) of None \<Rightarrow> [] | Some ts \<Rightarrow> [(''tools'', PList ts)]))"

definition gemini_payload :: "llm_request \<Rightarrow> pyval" where
  "gemini_payload q =
     PDict (gemini_fields q @
       [(''generationConfig'', PDict ((''temperature'', PFloat (lq_temperature q))
          # put_opt (\<lambda>n. n \<noteq> 0) PInt ''maxOutputTokens'' (lq_max_tokens q)
          @ put_opt (\<lambda>r. r \<noteq> 0) PFloat ''topP'' (lq_top_p q)))])"

definition gemini_stream_payload :: "llm_request \<Rightarrow> pyval" where
  "gemini_stream_payload q =
     PDict (gemini_fields q @
       [(''generationConfig'', PDict ((''temperature'', PFloat (lq_temperature q))
          # put_opt (\<lambda>n. n \<noteq> 0) PInt ''maxOutputTokens'' (lq_max_tokens q)))])"

definition gemini_request :: "adapter_config \<Rightarrow> llm_request \<Rightarrow> string \<Rightarrow> pyval \<Rightarrow> http_request" where
  "gemini_request c q method payload =
     \<lparr>rq_method = ''POST'',
      rq_url = cf_base_url c @ ''/models/'' @ or_default (lq_model q) (cf_default_model c) @ method,
      rq_headers = gemini_headers c, rq_json = Some payload, rq_timeout = lq_timeout q\<rparr>"

section \<open>Answers\<close>

definition GEMINI_FINISH :: "finish_reason dict" where
  "GEMINI_FINISH = [(''STOP'', FStop), (''MAX_TOKENS'', FLength), (''SAFETY'', FContentFilter), (''RECITATION'', FContentFilter)]"

definition gemini_finish :: "pyval \<Rightarrow> ai_error exc + finish_reason" where
  "gemini_finish reason = lookup_reason GEMINI_FINISH reason"

definition gemini_handle_error :: "py_lib \<Rightarrow> adapter_config \<Rightarrow> http_response \<Rightarrow> ai_error exc" where
  "gemini_handle_error L c r = status_error (cf_id c) (hr_status r) (error_message L r) None"

text \<open>The first candidate and its parts, for answers and for chunks.\<close>

definition gemini_candidate :: "pyval \<Rightarrow> ai_error exc + pyval \<times> pyval list" where
  "gemini_candidate data =
     bind_res (bind_res (py_get data ''candidates'' (PList [PDict []])) py_first) (\<lambda>candidate.
     bind_res (py_get candidate ''content'' (PDict [])) (\<lambda>content.
     bind_res (py_get content ''parts'' (PList [])) (\<lambda>parts.
     bind_res (py_iter parts) (\<lambda>ps. Inr (candidate, ps)))))"

definition gemini_collect ::
  "py_lib \<Rightarrow> nat \<times> pyval \<Rightarrow> pyval list \<times> tool_call list option \<Rightarrow> ai_error exc + pyval list \<times> tool_call list option" where
  "gemini_collect L ip acc =
     (case (ip, acc) of ((i, part), (texts, calls)) \<Rightarrow>
        bind_res (py_has ''text'' part) (\<lambda>is_text.
          if is_text then bind_res (py_item part ''text'') (\<lambda>t. Inr (texts @ [t], calls))
          else bind_res (py_has ''functionCall'' part) (\<lambda>is_call.
            if is_call
            then bind_res (py_item part ''functionCall'') (\<lambda>fc.
                 bind_res (py_get fc ''name'' (PStr ''fn'')) (\<lambda>shown.
                 bind_res (py_get fc ''name'' (PStr [])) (\<lambda>n.
                 bind_res (py_get fc ''args'' (PDict [])) (\<lambda>a.
                 bind_res (mk_tool_call (PStr (''call_'' @ py_text L shown @ ''_'' @ show_nat i)) n a) (\<lambda>tc.
                   Inr (texts, Some ((case calls of None \<Rightarrow> [] | Some cs \<Rightarrow> cs) @ [tc])))))))
            else Inr (texts, calls))))"

definition gemini_answer :: "py_lib \<Rightarrow> adapter_config \<Rightarrow> llm_request \<Rightarrow> http_response \<Rightarrow> ai_error exc + llm_response" where
  "gemini_answer L c q r =
     (if hr_is_error r then Inl (gemini_handle_error L c r)
      else bind_res (response_json r) (\<lambda>data.
           bind_res (gemini_candidate data) (\<lambda>(candidate, parts).
           bind_res (fold_res (gemini_collect L) (enumerated parts) ([], None)) (\<lambda>(texts, calls).
           bind_res (py_get data ''usageMetadata'' (PDict [])) (\<lambda>u.
           bind_res (py_get u ''promptTokenCount'' (PInt 0)) (\<lambda>pt.
           bind_res (py_get u ''candidatesTokenCount'' (PInt 0)) (\<lambda>ct.
           bind_res (join_texts texts) (\<lambda>content.
           bind_res (bind_res (py_get candidate ''finishReason'' PNone) gemini_finish) (\<lambda>finish.
           bind_res (py_add pt ct) (\<lambda>total.
           bind_res (mk_usage L pt ct total) (\<lambda>usage.
             mk_llm_response content calls finish (PStr (or_default (lq_model q) (cf_default_model c))) (cf_id c) usage
               PNone)))))))))))"

definition gemini_failure :: "adapter_config \<Rightarrow> http_failure \<Rightarrow> 'a outcome" where
  "gemini_failure c = failure_outcome (cf_id c) ''Gemini request timed out: '' ''Network error connecting to Gemini: ''"

definition gemini_generate ::
  "py_lib \<Rightarrow> 'w transport \<Rightarrow> adapter_config \<Rightarrow> llm_request \<Rightarrow> 'w \<Rightarrow> 'w \<times> llm_response outcome" where
  "gemini_generate L T c q =
     exchange T (gemini_request c q '':generateContent'' (gemini_payload q)) (gemini_failure c) (gemini_answer L c q)"

section \<open>Streams\<close>

definition gemini_part :: "py_lib \<Rightarrow> pyval \<Rightarrow> emission" where
  "gemini_part L part =
     emit_with (py_has ''text'' part) (\<lambda>is_text.
       if is_text then emit_with (py_item part ''text'') emit_text
       else emit_with (py_has ''functionCall'' part) (\<lambda>is_call.
         if is_call
         then emit_with (py_item part ''functionCall'') (\<lambda>fc.
              emit_with (py_get fc ''name'' PNone) (\<lambda>shown.
              emit_with (py_get fc ''name'' (PStr [])) (\<lambda>n.
              emit_with (py_get fc ''args'' (PDict [])) (\<lambda>a.
                emit_call (PStr (''call_'' @ py_text L shown)) n a))))
         else ([], None)))"

definition gemini_chunk :: "py_lib \<Rightarrow> pyval \<Rightarrow> emission" where
  "gemini_chunk L chunk =
     emit_with (gemini_candidate chunk) (\<lambda>(candidate, parts).
       emit_seq (emit_each (gemini_part L) parts)
                (emit_with (py_get candidate ''finishReason'' PNone)
                   (\<lambda>f. if truthy f then emit_completed (gemini_finish f) else ([], None))))"

definition gemini_line :: "py_lib \<Rightarrow> unit \<Rightarrow> string \<Rightarrow> unit \<times> stream_event list \<times> line_end" where
  "gemini_line L s line =
     (case sse_data line of
        None \<Rightarrow> (s, [], Next)
      | Some d \<Rightarrow> (case pl_loads L d of None \<Rightarrow> (s, [], Next) | Some chunk \<Rightarrow> line_of s (gemini_chunk L chunk)))"

definition gemini_stream ::
  "py_lib \<Rightarrow> 'w transport \<Rightarrow> adapter_config \<Rightarrow> llm_request \<Rightarrow> 'w \<Rightarrow> 'w \<times> stream_event list \<times> unit outcome" where
  "gemini_stream L T c q =
     stream_exchange T (gemini_request c q '':streamGenerateContent?alt=sse'' (gemini_stream_payload q))
       (failure_outcome (cf_id c) ''Gemini stream timed out: '' ''Network error during Gemini stream: '')
       (gemini_handle_error L c) (gemini_line L) ()"

section \<open>The contract\<close>

lemma gemini_collect_py: "py_only (gemini_collect L ip acc)"
  unfolding gemini_collect_def
  by (cases acc; cases ip) (auto intro!: py_only_bind py_only_intros)

lemma gemini_candidate_py: "py_only (gemini_candidate d)"
  unfolding gemini_candidate_def by (auto intro!: py_only_bind py_only_intros)

lemma gemini_answer_refused:
  assumes "gemini_answer L c q r = Inl (Typed e)"
  shows "hr_is_error r \<and> ae_provider e = Some (cf_id c) \<and> (ae_is_retryable e \<longleftrightarrow> worth_retry (hr_status r))"
proof -
  have "hr_is_error r \<and> gemini_handle_error L c r = Typed e"
    using assms unfolding gemini_answer_def
    by (rule refused_by_status)
      (auto intro!: py_only_bind py_only_intros gemini_collect_py gemini_candidate_py simp: gemini_finish_def)
  then show ?thesis unfolding gemini_handle_error_def using status_error_facts by blast
qed

lemma gemini_answer_ok:
  "gemini_answer L c q r = Inr a \<Longrightarrow> \<not> hr_is_error r \<and> lr_provider a = cf_id c"
  by (auto simp: gemini_answer_def bind_res_Inr dest!: mk_llm_response_provider split: if_splits prod.splits)

interpretation gemini: vendor_contract "cf_id c" "gemini_failure c" "gemini_answer L c" worth_retry
  for L :: py_lib and c :: adapter_config
  by unfold_locales (auto simp: gemini_failure_def failure_outcome_facts
    dest: failure_outcome_facts(1) gemini_answer_ok gemini_answer_refused)

section \<open>What is lost on the way\<close>

lemma gemini_add_system:
  "fst (fold gemini_add ms (s, out)) =
     (case filter (\<lambda>m. cm_role m = System) ms of
        [] \<Rightarrow> s
      | x # xs \<Rightarrow> Some (PDict [(''parts'', PList [text_part (cm_content (last (x # xs)))])]))"
  by (induction ms arbitrary: s out) (auto simp: gemini_add_def split: list.splits)

text \<open>Of several system messages only the last one is sent.\<close>

lemma gemini_system_last:
  assumes "filter (\<lambda>m. cm_role m = System) ms = xs @ [x]"
  shows "fst (gemini_contents ms) = Some (PDict [(''parts'', PList [text_part (cm_content x)])])"
  using assms by (cases xs) (auto simp: gemini_contents_def gemini_add_system)

text \<open>Two calls of one tool in a stream carry the same id.\<close>

lemma gemini_stream_ids_collide:
  "gemini_part L (gemini_call_part tc) =
     ([event_of ToolCallDelta\<lparr>se_tool_call :=
         Some \<lparr>tcl_id = ''call_'' @ tcl_name tc, tcl_name = tcl_name tc, tcl_arguments = tcl_arguments tc\<rparr>\<rparr>], None)"
  by (simp add: gemini_part_def gemini_call_part_def py_has_def dict_has_def emit_with_def emit_call_def py_text_def)

end
