(* ===== verification/Ai_Ollama.thy ===== *)
theory Ai_Ollama
  imports Ai_Http
begin

text \<open>
  The adapter of a local Ollama daemon (\<open>ai/providers/ollama.py\<close>): the payload with its options, answers,
  the health probe and the stream of JSON lines. It handles fewer failures than the others: an exception
  of the HTTP client that is neither a refused connection nor a timeout passes through. Shown: the vendor
  contract, with every status but 404 worth another try, and that the bound on output tokens is not sent.
\<close>

section \<open>Requests\<close>

definition ollama_init :: "string \<Rightarrow> string \<Rightarrow> adapter_config" where
  "ollama_init url model = base_init ''ollama'' model url None"

definition ollama_headers :: "adapter_config \<Rightarrow> string dict" where
  "ollama_headers c = [(''Content-Type'', ''application/json'')]"

definition ollama_message :: "chat_message \<Rightarrow> pyval" where
  "ollama_message m =
     PDict ([(''role'', PStr (role_value (cm_role m))), (''content'', PStr (cm_content m))] @
       (if calls_of m \<noteq> []
        then [(''tool_calls'', PList (map (\<lambda>tc. PDict [(''function'',
                PDict [(''name'', PStr (tcl_name tc)), (''arguments'', PDict (tcl_arguments tc))])]) (calls_of m)))]
        else []))"

definition ollama_tools :: "ai_tool_definition list option \<Rightarrow> pyval list option" where
  "ollama_tools tools =
     (case tools of
        None \<Rightarrow> None
      | Some ts \<Rightarrow>
          if ts = [] then None
          else Some (map (\<lambda>t. PDict [(''type'', PStr ''function''),
                 (''function'', PDict [(''name'', PStr (atd_name t)), (''description'', PStr (atd_description t)),
                                     (''parameters'', PDict (atd_parameters t))])]) ts))"

definition ollama_payload :: "adapter_config \<Rightarrow> llm_request \<Rightarrow> pyval" where
  "ollama_payload c q =
     PDict ([(''model'', PStr (or_default (lq_model q) (cf_default_model c))),
             (''messages'', PList (map ollama_message (lq_messages q))), (''stream'', PBool False),
             (''options'', PDict ((''temperature'', PFloat (lq_temperature q))
                                # put_opt (\<lambda>r. r \<noteq> 0) PFloat ''top_p'' (lq_top_p q)))]
       @ (case ollama_tools (lq_tools q) of None \<Rightarrow> [] | Some ts \<Rightarrow> [(''tools'', PList ts)]))"

definition ollama_stream_payload :: "adapter_config \<Rightarrow> llm_request \<Rightarrow> pyval" where
  "ollama_stream_payload c q =
     PDict ([(''model'', PStr (or_default (lq_model q) (cf_default_model c))),
             (''messages'', PList (map ollama_message (lq_messages q))), (''stream'', PBool True),
             (''options'', PDict [(''temperature'', PFloat (lq_temperature q))])]
       @ (case ollama_tools (lq_tools q) of None \<Rightarrow> [] | Some ts \<Rightarrow> [(''tools'', PList ts)]))"

definition ollama_request :: "adapter_config \<Rightarrow> llm_request \<Rightarrow> pyval \<Rightarrow> http_request" where
  "ollama_request c q payload =
     \<lparr>rq_method = ''POST'', rq_url = cf_base_url c @ ''/api/chat'', rq_headers = ollama_headers c,
      rq_json = Some payload, rq_timeout = lq_timeout q\<rparr>"

section \<open>Answers\<close>

definition ollama_refuse :: "adapter_config \<Rightarrow> llm_request \<Rightarrow> http_response \<Rightarrow> ai_error" where
  "ollama_refuse c q r =
     (let target = or_default (lq_model q) (cf_default_model c)
      in if hr_status r = 404
         then mk_ai_error ModelNotFoundError (''Model '' @ quoted target @ '' not found in Ollama'') (Some (cf_id c)) (Some target)
         else mk_ai_error ProviderUnavailableError (''Ollama error: '' @ hr_text r) (Some (cf_id c)) None
                \<lparr>ae_status_code := Some (hr_status r)\<rparr>)"

definition ollama_parse_call :: "py_lib \<Rightarrow> nat \<times> pyval \<Rightarrow> ai_error exc + tool_call" where
  "ollama_parse_call L ic =
     bind_res (py_get (snd ic) ''function'' (PDict [])) (\<lambda>fn.
     bind_res (py_get fn ''name'' PNone) (\<lambda>shown.
     bind_res (py_get fn ''name'' (PStr [])) (\<lambda>n.
     bind_res (py_get fn ''arguments'' (PDict [])) (\<lambda>a.
       mk_tool_call (PStr (''ollama_'' @ py_text L shown @ ''_'' @ show_nat (fst ic))) n a))))"

definition ollama_parse_calls :: "py_lib \<Rightarrow> pyval \<Rightarrow> ai_error exc + tool_call list option" where
  "ollama_parse_calls L msg =
     bind_res (py_truthy_item ''tool_calls'' msg) (\<lambda>calls.
       case calls of
         None \<Rightarrow> Inr None
       | Some v \<Rightarrow> bind_res (py_iter v) (\<lambda>xs.
                   bind_res (map_res (ollama_parse_call L) (enumerated xs)) (\<lambda>cs. Inr (Some cs))))"

definition ollama_answer :: "py_lib \<Rightarrow> adapter_config \<Rightarrow> llm_request \<Rightarrow> http_response \<Rightarrow> ai_error exc + llm_response" where
  "ollama_answer L c q r =
     (if hr_is_error r then Inl (Typed (ollama_refuse c q r))
      else bind_res (response_json r) (\<lambda>data.
           bind_res (py_get data ''message'' (PDict [])) (\<lambda>msg.
           bind_res (ollama_parse_calls L msg) (\<lambda>calls.
           bind_res (py_get data ''prompt_eval_count'' (PInt 0)) (\<lambda>pt.
           bind_res (py_get data ''eval_count'' (PInt 0)) (\<lambda>ct.
           bind_res (py_get msg ''content'' PNone) (\<lambda>content.
           bind_res (py_get data ''done'' PNone) (\<lambda>finished.
           bind_res (py_get data ''model'' (PStr (or_default (lq_model q) (cf_default_model c)))) (\<lambda>model.
           bind_res (py_add pt ct) (\<lambda>total.
           bind_res (mk_usage L pt ct total) (\<lambda>usage.
             mk_llm_response content calls (if truthy finished then FStop else FOther) model (cf_id c) usage PNone)))))))))))"

text \<open>Only a refused connection and a timeout are caught.\<close>

definition ollama_failed :: "adapter_config \<Rightarrow> string \<Rightarrow> string \<Rightarrow> http_failure \<Rightarrow> 'a outcome" where
  "ollama_failed c connecting timed_out f =
     (case f of
        HConnect t \<Rightarrow> Raised (mk_ai_error ProviderUnavailableError
                       (''Could not connect to local Ollama '' @ connecting @ ''at '' @ cf_base_url c @ '': '' @ t) (Some (cf_id c)) None)
      | HTimeout t \<Rightarrow> Raised (mk_ai_error AITimeoutError (timed_out @ t) (Some (cf_id c)) None)
      | HRequest t \<Rightarrow> RaisedOther ''RequestError''
      | HCancelled \<Rightarrow> TaskCancelled)"

definition ollama_generate ::
  "py_lib \<Rightarrow> 'w transport \<Rightarrow> adapter_config \<Rightarrow> llm_request \<Rightarrow> 'w \<Rightarrow> 'w \<times> llm_response outcome" where
  "ollama_generate L T c q =
     exchange T (ollama_request c q (ollama_payload c q)) (ollama_failed c [] ''Ollama request timed out: '')
       (ollama_answer L c q)"

section \<open>Health\<close>

text \<open>Every exception of the probe makes the daemon degraded; \<open>shown\<close> is the text of one raised while the
  list of models is read. The list itself is part of the details.\<close>

definition ollama_models :: "pyval \<Rightarrow> ai_error exc + pyval list" where
  "ollama_models data =
     bind_res (py_get data ''models'' (PList [])) (\<lambda>ms.
     bind_res (py_iter ms) (map_res (\<lambda>m. py_get m ''name'' PNone)))"

definition ollama_health :: "(ai_error exc \<Rightarrow> string) \<Rightarrow> 'w transport \<Rightarrow> adapter_config \<Rightarrow> 'w \<Rightarrow> 'w \<times> component_health outcome" where
  "ollama_health shown T c w =
     (let report = (\<lambda>st m. Returned \<lparr>ch_name = ''ai_provider.'' @ cf_id c, ch_status = st, ch_message = m\<rparr>);
          down = (\<lambda>t. report DEGRADED (Some (''Local Ollama daemon not running at '' @ cf_base_url c @ '': '' @ t)));
          rq = \<lparr>rq_method = ''GET'', rq_url = cf_base_url c @ ''/api/tags'', rq_headers = ollama_headers c,
                rq_json = None, rq_timeout = 3\<rparr>
      in case tr_send T rq w of
           (w1, Inl HCancelled) \<Rightarrow> (w1, TaskCancelled)
         | (w1, Inl (HTimeout t)) \<Rightarrow> (w1, down t)
         | (w1, Inl (HConnect t)) \<Rightarrow> (w1, down t)
         | (w1, Inl (HRequest t)) \<Rightarrow> (w1, down t)
         | (w1, Inr r) \<Rightarrow>
             (w1, if hr_is_success r
                  then (case bind_res (response_json r) ollama_models of
                          Inr _ \<Rightarrow> report HEALTHY None
                        | Inl x \<Rightarrow> down (shown x))
                  else report DEGRADED (Some (''Ollama returned HTTP '' @ show_int (hr_status r)))))"

section \<open>Streams\<close>

definition ollama_chunk :: "py_lib \<Rightarrow> pyval \<Rightarrow> emission" where
  "ollama_chunk L chunk =
     emit_with (py_get chunk ''message'' (PDict [])) (\<lambda>msg.
     emit_seq (emit_with (py_truthy_item ''content'' msg)
                 (\<lambda>x. case x of None \<Rightarrow> ([], None) | Some t \<Rightarrow> emit_text t))
              (emit_with (py_get chunk ''done'' PNone) (\<lambda>finished.
                 if truthy finished
                 then emit_with (py_get chunk ''prompt_eval_count'' (PInt 0)) (\<lambda>pt.
                      emit_with (py_get chunk ''eval_count'' (PInt 0)) (\<lambda>ct.
                      emit_with (py_add pt ct) (\<lambda>total.
                      emit_with (mk_usage L pt ct total) (\<lambda>u.
                        ([event_of StreamCompleted\<lparr>se_finish_reason := Some FStop, se_usage := Some u\<rparr>], None)))))
                 else ([], None))))"

definition ollama_line :: "py_lib \<Rightarrow> unit \<Rightarrow> string \<Rightarrow> unit \<times> stream_event list \<times> line_end" where
  "ollama_line L s line =
     (if line = [] then (s, [], Next)
      else case pl_loads L line of None \<Rightarrow> (s, [], Next) | Some chunk \<Rightarrow> line_of s (ollama_chunk L chunk))"

definition ollama_stream ::
  "py_lib \<Rightarrow> 'w transport \<Rightarrow> adapter_config \<Rightarrow> llm_request \<Rightarrow> 'w \<Rightarrow> 'w \<times> stream_event list \<times> unit outcome" where
  "ollama_stream L T c q =
     stream_exchange T (ollama_request c q (ollama_stream_payload c q)) (ollama_failed c ''stream '' ''Ollama stream timed out: '')
       (\<lambda>r. Typed (mk_ai_error ProviderUnavailableError (''Ollama streaming error: '' @ hr_text r) (Some (cf_id c)) None))
       (ollama_line L) ()"

section \<open>The contract\<close>

definition ollama_worth :: "int \<Rightarrow> bool" where
  "ollama_worth s = (s \<noteq> 404)"

lemma ollama_refuse_facts:
  "ae_provider (ollama_refuse c q r) = Some (cf_id c)"
  "ae_is_retryable (ollama_refuse c q r) = ollama_worth (hr_status r)"
  by (auto simp: ollama_refuse_def ollama_worth_def mk_ai_error_def Let_def)

lemma ollama_parse_calls_py: "py_only (ollama_parse_calls L msg)"
  unfolding ollama_parse_calls_def ollama_parse_call_def by (auto intro!: py_only_bind py_only_intros)

lemma ollama_answer_refused:
  assumes "ollama_answer L c q r = Inl (Typed e)"
  shows "hr_is_error r \<and> ae_provider e = Some (cf_id c) \<and> (ae_is_retryable e \<longleftrightarrow> ollama_worth (hr_status r))"
proof -
  have "hr_is_error r \<and> Typed (ollama_refuse c q r) = Typed e"
    using assms unfolding ollama_answer_def
    by (rule refused_by_status) (auto intro!: py_only_bind py_only_intros ollama_parse_calls_py)
  then show ?thesis using ollama_refuse_facts [of c q r] by auto
qed

lemma ollama_answer_ok:
  "ollama_answer L c q r = Inr a \<Longrightarrow> \<not> hr_is_error r \<and> lr_provider a = cf_id c"
  by (auto simp: ollama_answer_def bind_res_Inr dest!: mk_llm_response_provider split: if_splits)

lemma ollama_failed_facts:
  "ollama_failed c a b f = Raised e \<Longrightarrow> ae_provider e = Some (cf_id c) \<and> ae_is_retryable e"
  "ollama_failed c a b f \<noteq> Returned x"
  "ollama_failed c a b f = TaskCancelled \<longleftrightarrow> f = HCancelled"
  by (cases f; auto simp: ollama_failed_def mk_ai_error_def)+

interpretation ollama: vendor_contract "cf_id c" "ollama_failed c []  ''Ollama request timed out: ''" "ollama_answer L c" ollama_worth
  for L :: py_lib and c :: adapter_config
  by unfold_locales (auto simp: ollama_failed_facts dest: ollama_failed_facts(1) ollama_answer_ok ollama_answer_refused)

text \<open>The bound on the length of the answer and the choice of a tool never reach the daemon.\<close>

lemma ollama_bound_ignored:
  "ollama_payload c (q\<lparr>lq_max_tokens := n, lq_tool_choice := t\<rparr>) = ollama_payload c q"
  by (simp add: ollama_payload_def)

end
