(* ===== verification/Ai_Router.thy ===== *)
theory Ai_Router
  imports Ai_Model
begin

text \<open>
  Retries (\<open>ai/retry.py\<close>), the router with provider failover (\<open>ai/router.py\<close>) and the wiring of
  \<open>ai/factory.py\<close>. \<open>random.random()\<close> and the sleeps are arguments: \<open>rnd n\<close> is the draw and \<open>slept n\<close>
  tells whether the sleep was not cancelled, for the \<open>n\<close>-th attempt. Operations return the world with
  their outcome, and the loops also return what they did: the delays slept, the providers contacted.
\<close>

section \<open>The retry policy\<close>

record retry_policy =
  rp_max_retries :: int
  rp_initial_delay :: rat
  rp_max_delay :: rat
  rp_backoff_multiplier :: rat
  rp_jitter :: bool

definition default_retry_policy :: retry_policy where
  "default_retry_policy = \<lparr>rp_max_retries = 2, rp_initial_delay = 1 / 2, rp_max_delay = 5,
     rp_backoff_multiplier = 2, rp_jitter = True\<rparr>"

definition compute_delay :: "retry_policy \<Rightarrow> rat \<Rightarrow> nat \<Rightarrow> rat option \<Rightarrow> rat" where
  "compute_delay p rnd attempt retry_after =
     (let backoff = (let delay = min (rp_initial_delay p * rp_backoff_multiplier p ^ attempt) (rp_max_delay p)
                     in if rp_jitter p then delay * (1 / 2 + rnd * (1 / 2)) else delay)
      in case retry_after of
           Some r \<Rightarrow> if 0 < r then min r (rp_max_delay p) else backoff
         | None \<Rightarrow> backoff)"

function retry_execute ::
  "retry_policy \<Rightarrow> (nat \<Rightarrow> rat) \<Rightarrow> (nat \<Rightarrow> bool) \<Rightarrow> ('w \<Rightarrow> 'w \<times> 'a outcome) \<Rightarrow> nat \<Rightarrow> 'w
     \<Rightarrow> 'w \<times> rat list \<times> 'a outcome" where
  "retry_execute p rnd slept operation attempt w =
     (case operation w of
        (w1, TaskCancelled) \<Rightarrow> (w1, [], Raised cancelled_error)
      | (w1, Raised exc) \<Rightarrow>
          if \<not> ae_is_retryable exc \<or> rp_max_retries p \<le> int attempt then (w1, [], Raised exc)
          else let delay = compute_delay p (rnd attempt) attempt (ae_retry_after exc)
               in if slept attempt
                  then let (w2, ds, out) = retry_execute p rnd slept operation (Suc attempt) w1
                       in (w2, delay # ds, out)
                  else (w1, [delay], TaskCancelled)
      | (w1, out) \<Rightarrow> (w1, [], out))"
  by pat_completeness auto
termination
  by (relation "measure (\<lambda>(p, rnd, slept, operation, attempt, w). nat (rp_max_retries p - int attempt))") auto

declare retry_execute.simps [simp del]

section \<open>The router\<close>

record 'w ai_router =
  ar_registry :: "'w ai_registry"
  ar_default_provider :: string
  ar_fallback_providers :: "string list"
  ar_retry_policy :: retry_policy

definition router_init ::
  "'w ai_registry \<Rightarrow> string \<Rightarrow> string list \<Rightarrow> retry_policy option \<Rightarrow> 'w ai_router" where
  "router_init r d fb rp =
     \<lparr>ar_registry = r, ar_default_provider = d,
      ar_fallback_providers = (if fb = [] then [''anthropic'', ''gemini'', ''ollama''] else fb),
      ar_retry_policy = (case rp of None \<Rightarrow> default_retry_policy | Some p \<Rightarrow> p)\<rparr>"

text \<open>One fallback id; a provider object is identified by its id.\<close>

definition add_fallback :: "'w ai_router \<Rightarrow> string \<Rightarrow> 'w ai_provider list \<Rightarrow> 'w ai_provider list" where
  "add_fallback R fb cs =
     (if fb \<noteq> ar_default_provider R
      then (case provider_get (ar_registry R) fb of
              Some p \<Rightarrow> if ap_id p \<in> set (map ap_id cs) then cs else cs @ [p]
            | None \<Rightarrow> cs)
      else cs)"

definition resolve_candidates ::
  "'w ai_router \<Rightarrow> string option \<Rightarrow> ai_error + 'w ai_provider list" where
  "resolve_candidates R requested =
     (let auto_list = (let primary = (case provider_get (ar_registry R) (ar_default_provider R) of
                                        Some p \<Rightarrow> [p] | None \<Rightarrow> []);
                           cs = fold (add_fallback R) (ar_fallback_providers R) primary
                       in if cs = []
                          then Inl (mk_ai_error ProviderUnavailableError
                                 ''No AI providers available in registry to serve request.'' None None)
                          else Inr cs)
      in case requested of
           Some k \<Rightarrow> if k = [] then auto_list
                     else (case provider_get (ar_registry R) k of
                             None \<Rightarrow> Inl (mk_ai_error ProviderUnavailableError
                               (''Requested provider '' @ quoted k @ '' is not registered.'') None None)
                           | Some p \<Rightarrow> Inr [p])
         | None \<Rightarrow> auto_list)"

definition verify_capabilities :: "'w ai_provider \<Rightarrow> llm_request \<Rightarrow> ai_error option" where
  "verify_capabilities p req =
     (if (case lq_tools req of None \<Rightarrow> False | Some ts \<Rightarrow> ts \<noteq> []) \<and>
         \<not> mc_tools (provider_capabilities p (lq_model req))
      then Some (mk_ai_error CapabilityNotSupportedError
             (''Model '' @ quoted (or_default (lq_model req) (ap_default_model p)) @ '' on ''
               @ quoted (ap_id p) @ '' does not support tool calling.'') (Some (ap_id p)) (lq_model req))
      else None)"

text \<open>A request fails over unless it was cancelled or the error blames the request or the key.\<close>

definition no_fallback :: "ai_error \<Rightarrow> bool" where
  "no_fallback e = (ae_class e = AICancelledError \<or>
     ae_class e \<noteq> CapabilityNotSupportedError \<and> \<not> ae_is_retryable e \<and>
     ae_status_code e \<in> {Some 400, Some 401, Some 403})"

definition try_generate ::
  "retry_policy \<Rightarrow> (nat \<Rightarrow> rat) \<Rightarrow> (nat \<Rightarrow> bool) \<Rightarrow> llm_request \<Rightarrow> 'w ai_provider \<Rightarrow> 'w
     \<Rightarrow> 'w \<times> llm_response outcome" where
  "try_generate rp rnd slept req p w =
     (case verify_capabilities p req of
        Some e \<Rightarrow> (w, Raised e)
      | None \<Rightarrow> (let (w1, _, out) = retry_execute rp rnd slept (ap_generate p req) 0 w in (w1, out)))"

fun generate_loop ::
  "retry_policy \<Rightarrow> (nat \<Rightarrow> rat) \<Rightarrow> (nat \<Rightarrow> bool) \<Rightarrow> llm_request \<Rightarrow> 'w ai_provider list \<Rightarrow> ai_error option
     \<Rightarrow> 'w \<Rightarrow> 'w \<times> string list \<times> llm_response outcome" where
  "generate_loop rp rnd slept req [] last_exc w =
     (w, [], Raised (case last_exc of
                Some e \<Rightarrow> e
              | None \<Rightarrow> mk_ai_error ProviderUnavailableError
                  ''All available AI provider candidates failed to satisfy the request.'' None None))"
| "generate_loop rp rnd slept req (p # ps) last_exc w =
     (case try_generate rp rnd slept req p w of
        (w1, Raised e) \<Rightarrow>
          if no_fallback e then (w1, [ap_id p], Raised e)
          else let (w2, tried, out) = generate_loop rp rnd slept req ps (Some e) w1
               in (w2, ap_id p # tried, out)
      | (w1, out) \<Rightarrow> (w1, [ap_id p], out))"

definition router_generate ::
  "'w ai_router \<Rightarrow> (nat \<Rightarrow> rat) \<Rightarrow> (nat \<Rightarrow> bool) \<Rightarrow> llm_request \<Rightarrow> string option \<Rightarrow> 'w
     \<Rightarrow> 'w \<times> string list \<times> llm_response outcome" where
  "router_generate R rnd slept req provider_id w =
     (case resolve_candidates R provider_id of
        Inl e \<Rightarrow> (w, [], Raised e)
      | Inr cs \<Rightarrow> generate_loop (ar_retry_policy R) rnd slept req cs None w)"

text \<open>Streaming: the events a consumer receives until the generator ends. There are no retries, and a
  capability error is an AI error like any other here.\<close>

definition stream_no_fallback :: "ai_error \<Rightarrow> bool" where
  "stream_no_fallback e = (\<not> ae_is_retryable e \<and> ae_status_code e \<in> {Some 400, Some 401, Some 403})"

fun stream_loop ::
  "llm_request \<Rightarrow> 'w ai_provider list \<Rightarrow> ai_error option \<Rightarrow> 'w
     \<Rightarrow> 'w \<times> stream_event list \<times> unit outcome" where
  "stream_loop req [] last_exc w =
     (w, [], Raised (case last_exc of
                Some e \<Rightarrow> e
              | None \<Rightarrow> mk_ai_error ProviderUnavailableError
                  ''All streaming AI provider candidates failed.'' None None))"
| "stream_loop req (p # ps) last_exc w =
     (let (w1, evs, out) = (case verify_capabilities p req of
                              Some e \<Rightarrow> (w, [], Raised e)
                            | None \<Rightarrow> ap_stream p req w)
      in case out of
           TaskCancelled \<Rightarrow> (w1, evs, Raised cancelled_error)
         | Raised e \<Rightarrow>
             if ae_class e = AICancelledError then (w1, evs, Raised cancelled_error)
             else if stream_no_fallback e then (w1, evs, Raised e)
             else let (w2, evs2, out2) = stream_loop req ps (Some e) w1 in (w2, evs @ evs2, out2)
         | _ \<Rightarrow> (w1, evs, out))"

definition router_stream ::
  "'w ai_router \<Rightarrow> llm_request \<Rightarrow> string option \<Rightarrow> 'w \<Rightarrow> 'w \<times> stream_event list \<times> unit outcome" where
  "router_stream R req provider_id w =
     (case resolve_candidates R provider_id of
        Inl e \<Rightarrow> (w, [], Raised e)
      | Inr cs \<Rightarrow> stream_loop req cs None w)"

section \<open>The wiring\<close>

text \<open>\<open>get_secret\<close> reads the vault, \<open>setting\<close> an attribute of the settings, if present; \<open>calls\<close>
  are the network calls of a vendor's adapter with its default model and its key or URL.\<close>

definition register_with_key ::
  "(string \<Rightarrow> string \<Rightarrow> string \<Rightarrow> 'w adapter_calls) \<Rightarrow> (string \<Rightarrow> string option) \<Rightarrow> string \<Rightarrow> string \<Rightarrow> string
     \<Rightarrow> string option \<Rightarrow> 'w ai_registry \<Rightarrow> 'w ai_registry" where
  "register_with_key calls setting pid attr default_model key r =
     (case key of
        None \<Rightarrow> r
      | Some k \<Rightarrow> if k = [] then r
                  else let model = (case setting attr of None \<Rightarrow> default_model | Some m \<Rightarrow> m)
                       in provider_register (base_provider (calls pid model k) pid model (Some k)) r)"

definition truthy_key :: "string option \<Rightarrow> bool" where
  "truthy_key k = (case k of None \<Rightarrow> False | Some s \<Rightarrow> s \<noteq> [])"

definition build_ai_system ::
  "(string \<Rightarrow> string \<Rightarrow> string \<Rightarrow> 'w adapter_calls) \<Rightarrow> (string \<Rightarrow> string option) \<Rightarrow> (string \<Rightarrow> string option)
     \<Rightarrow> 'w ai_registry \<times> 'w ai_router" where
  "build_ai_system calls setting get_secret =
     (let openai_key = get_secret ''OPENAI_API_KEY'';
          r1 = register_with_key calls setting ''openai'' ''openai_default_model'' ''gpt-4o'' openai_key [];
          r2 = register_with_key calls setting ''anthropic'' ''anthropic_default_model''
                 ''claude-3-5-sonnet-20241022'' (get_secret ''ANTHROPIC_API_KEY'') r1;
          r3 = register_with_key calls setting ''gemini'' ''gemini_default_model'' ''gemini-2.0-flash''
                 (get_secret ''GEMINI_API_KEY'') r2;
          url = (case setting ''ollama_base_url'' of None \<Rightarrow> ''http://127.0.0.1:11434'' | Some u \<Rightarrow> u);
          model = (case setting ''ollama_default_model'' of None \<Rightarrow> ''llama3'' | Some m \<Rightarrow> m);
          r4 = provider_register (base_provider (calls ''ollama'' model url) ''ollama'' model None) r3;
          default_provider = (if truthy_key openai_key then ''openai'' else ''ollama'')
      in (r4, router_init r4 default_provider [''anthropic'', ''gemini'', ''ollama'', ''openai''] None))"

section \<open>Retries are bounded\<close>

definition delays_sane :: "retry_policy \<Rightarrow> bool" where
  "delays_sane p = (0 \<le> rp_initial_delay p \<and> 0 \<le> rp_max_delay p \<and> 0 \<le> rp_backoff_multiplier p)"

lemma compute_delay_bounds:
  assumes "delays_sane p" and "0 \<le> r" and "r < 1"
  shows "0 \<le> compute_delay p r n ra \<and> compute_delay p r n ra \<le> rp_max_delay p"
proof -
  define d where "d = min (rp_initial_delay p * rp_backoff_multiplier p ^ n) (rp_max_delay p)"
  have d: "0 \<le> d" "d \<le> rp_max_delay p" using assms(1) by (auto simp: d_def delays_sane_def)
  have j: "0 \<le> 1 / 2 + r * (1 / 2)" "1 / 2 + r * (1 / 2) \<le> 1" using assms by auto
  have "0 \<le> d * (1 / 2 + r * (1 / 2))" using d j by (intro mult_nonneg_nonneg)
  moreover have "d * (1 / 2 + r * (1 / 2)) \<le> d" using mult_left_mono [OF j(2) d(1)] by simp
  ultimately show ?thesis
    using d assms(1) by (auto simp: compute_delay_def Let_def d_def [symmetric] delays_sane_def split: option.splits)
qed

definition after_attempts :: "('w \<Rightarrow> 'w \<times> 'a outcome) \<Rightarrow> nat \<Rightarrow> 'w \<Rightarrow> 'w" where
  "after_attempts operation n w = ((\<lambda>v. fst (operation v)) ^^ n) w"

lemma retry_execute_spec:
  assumes "retry_execute p rnd slept operation a w = (w', ds, out)"
    and "delays_sane p" and "\<forall>n. 0 \<le> rnd n \<and> rnd n < 1"
  shows "int (length ds) \<le> max 0 (rp_max_retries p - int a) \<and> (\<forall>d \<in> set ds. 0 \<le> d \<and> d \<le> rp_max_delay p) \<and>
    w' = after_attempts operation (length ds + (if out = TaskCancelled then 0 else 1)) w \<and>
    (\<forall>e. out = Raised e \<longrightarrow> e = cancelled_error \<or> \<not> ae_is_retryable e \<or>
           int (length ds) = max 0 (rp_max_retries p - int a))"
  using assms
proof (induction p rnd slept operation a w arbitrary: w' ds out rule: retry_execute.induct)
  case (1 p rnd slept operation a w)
  obtain w1 o1 where op: "operation w = (w1, o1)" by fastforce
  show ?case
  proof (cases "\<exists>exc. o1 = Raised exc \<and> ae_is_retryable exc \<and> int a < rp_max_retries p")
    case False
    with 1(2) op have "w' = w1 \<and> ds = [] \<and> out \<noteq> TaskCancelled \<and>
        (\<forall>e. out = Raised e \<longrightarrow> e = cancelled_error \<or> \<not> ae_is_retryable e \<or> rp_max_retries p \<le> int a)"
      by (subst (asm) retry_execute.simps) (auto split: outcome.splits if_splits)
    then show ?thesis by (auto simp: op after_attempts_def)
  next
    case True
    then obtain exc where exc: "o1 = Raised exc" "ae_is_retryable exc" "int a < rp_max_retries p" by blast
    define d where "d = compute_delay p (rnd a) a (ae_retry_after exc)"
    have db: "0 \<le> d \<and> d \<le> rp_max_delay p"
      unfolding d_def using 1(3,4) by (intro compute_delay_bounds) auto
    show ?thesis
    proof (cases "slept a")
      case False
      then have "w' = w1 \<and> ds = [d] \<and> out = TaskCancelled"
        using 1(2) op exc by (subst (asm) retry_execute.simps) (auto simp: d_def)
      then show ?thesis using db exc(3) by (auto simp: after_attempts_def op)
    next
      case True
      obtain w2 ds2 out2 where rec: "retry_execute p rnd slept operation (Suc a) w1 = (w2, ds2, out2)"
        by (metis prod_cases3)
      have res: "w' = w2 \<and> ds = d # ds2 \<and> out = out2"
        using 1(2) op exc True rec by (subst (asm) retry_execute.simps) (auto simp: d_def)
      have IH: "int (length ds2) \<le> max 0 (rp_max_retries p - int (Suc a)) \<and>
          (\<forall>d \<in> set ds2. 0 \<le> d \<and> d \<le> rp_max_delay p) \<and>
          w2 = after_attempts operation (length ds2 + (if out2 = TaskCancelled then 0 else 1)) w1 \<and>
          (\<forall>e. out2 = Raised e \<longrightarrow> e = cancelled_error \<or> \<not> ae_is_retryable e \<or>
             int (length ds2) = max 0 (rp_max_retries p - int (Suc a)))"
        using 1(1) [OF op [symmetric] exc(1) _ refl True rec] exc 1(3,4) by simp
      have w1: "after_attempts operation k w1 = after_attempts operation (Suc k) w" for k
        by (simp add: after_attempts_def funpow_Suc_right op del: funpow.simps(2))
      show ?thesis using IH res db exc(3) by (auto simp: w1 max_def)
    qed
  qed
qed

text \<open>
  C24. Retries are bounded. With a sane policy and draws in the unit interval, the operation is run
  at most \<open>max_retries\<close> times more than once, every delay lies between zero and \<open>max_delay\<close> (also when
  the provider asks for more), the world is the one after exactly those runs, and an error that comes
  out is the cancellation, an error that is not retryable, or the last one allowed.
\<close>

theorem retry_bounded:
  assumes "retry_execute p rnd slept operation 0 w = (w', ds, out)"
    and "delays_sane p" and "\<forall>n. 0 \<le> rnd n \<and> rnd n < 1"
  shows "int (length ds) \<le> max 0 (rp_max_retries p) \<and> (\<forall>d \<in> set ds. 0 \<le> d \<and> d \<le> rp_max_delay p) \<and>
    w' = after_attempts operation (length ds + (if out = TaskCancelled then 0 else 1)) w \<and>
    (\<forall>e. out = Raised e \<longrightarrow> e = cancelled_error \<or> \<not> ae_is_retryable e \<or>
           int (length ds) = max 0 (rp_max_retries p))"
  using retry_execute_spec [OF assms] by simp

definition demo_op :: "nat \<Rightarrow> nat \<times> string outcome" where
  "demo_op n = (Suc n, if n < 2 then Raised (mk_ai_error RateLimitError ''slow down'' None None) else Returned ''ok'')"

lemma demo_retry: "retry_execute default_retry_policy (\<lambda>_. 0) (\<lambda>_. True) demo_op 0 0 = (3, [1 / 4, 1 / 2], Returned ''ok'')"
  by (simp add: retry_execute.simps demo_op_def default_retry_policy_def compute_delay_def mk_ai_error_def)

theorem retry_bounded_witness:
  "int (length [1 / 4 :: rat, 1 / 2]) \<le> max 0 (rp_max_retries default_retry_policy) \<and>
   3 = after_attempts demo_op 3 0"
proof -
  have "delays_sane default_retry_policy" by (simp add: delays_sane_def default_retry_policy_def)
  from retry_bounded [OF demo_retry this] show ?thesis by (simp add: numeral_3_eq_3)
qed

section \<open>Candidates\<close>

text \<open>The first occurrences in a list.\<close>

definition dedup :: "'a list \<Rightarrow> 'a list" where
  "dedup xs = rev (remdups (rev xs))"

lemma dedup_Nil [simp]: "dedup [] = []"
  by (simp add: dedup_def)

lemma dedup_snoc: "dedup (xs @ [x]) = (if x \<in> set xs then dedup xs else dedup xs @ [x])"
  by (simp add: dedup_def)

lemma set_dedup [simp]: "set (dedup xs) = set xs"
  by (simp add: dedup_def)

lemma distinct_dedup [simp]: "distinct (dedup xs)"
  by (simp add: dedup_def)

definition wanted_ids :: "'w ai_router \<Rightarrow> string list" where
  "wanted_ids R = filter (has_provider (ar_registry R))
     (ar_default_provider R # filter (\<lambda>k. k \<noteq> ar_default_provider R) (ar_fallback_providers R))"

lemma has_provider_get: "has_provider r k = (provider_get r k \<noteq> None)"
  by (simp add: has_provider_def provider_get_def dict_has_def)

lemma fold_fallbacks:
  assumes "ai_registry_wf (ar_registry R)" and "map ap_id cs = dedup pre"
    and "\<forall>p \<in> set cs. provider_get (ar_registry R) (ap_id p) = Some p"
  shows "map ap_id (fold (add_fallback R) fbs cs) =
      dedup (pre @ filter (has_provider (ar_registry R)) (filter (\<lambda>k. k \<noteq> ar_default_provider R) fbs)) \<and>
    (\<forall>p \<in> set (fold (add_fallback R) fbs cs). provider_get (ar_registry R) (ap_id p) = Some p)"
  using assms(2,3)
proof (induction fbs arbitrary: cs pre)
  case (Cons fb fbs)
  have ids: "set (map ap_id cs) = set pre" using Cons.prems(1) by simp
  show ?case
  proof (cases "fb \<noteq> ar_default_provider R \<and> has_provider (ar_registry R) fb")
    case False
    then have "add_fallback R fb cs = cs" by (auto simp: add_fallback_def has_provider_get)
    with Cons.IH [OF Cons.prems] False show ?thesis by auto
  next
    case True
    then obtain p where p: "provider_get (ar_registry R) fb = Some p" by (auto simp: has_provider_get)
    then have pid: "ap_id p = fb" using provider_get_id [OF assms(1)] by blast
    have step: "add_fallback R fb cs = (if fb \<in> set pre then cs else cs @ [p])"
      using True p pid ids by (simp add: add_fallback_def)
    have "map ap_id (add_fallback R fb cs) = dedup (pre @ [fb])"
      using Cons.prems(1) pid by (simp add: step dedup_snoc)
    moreover have "\<forall>q \<in> set (add_fallback R fb cs). provider_get (ar_registry R) (ap_id q) = Some q"
      using Cons.prems(2) p pid by (simp add: step)
    ultimately show ?thesis using Cons.IH [of "add_fallback R fb cs" "pre @ [fb]"] True by simp
  qed
qed simp

lemma candidates_of:
  assumes "ai_registry_wf (ar_registry R)"
  shows "if wanted_ids R = []
          then \<exists>e. resolve_candidates R None = Inl e \<and> ae_class e = ProviderUnavailableError
          else \<exists>cs. resolve_candidates R None = Inr cs \<and> map ap_id cs = dedup (wanted_ids R) \<and>
                 list_all (\<lambda>p. provider_get (ar_registry R) (ap_id p) = Some p) cs"
proof -
  define d where "d = ar_default_provider R"
  define prim where "prim = (case provider_get (ar_registry R) d of Some p \<Rightarrow> [p] | None \<Rightarrow> [])"
  define pre where "pre = (if has_provider (ar_registry R) d then [d] else [])"
  have "map ap_id prim = dedup pre \<and> (\<forall>p \<in> set prim. provider_get (ar_registry R) (ap_id p) = Some p)"
    using provider_get_id [OF assms]
    by (auto simp: prim_def pre_def has_provider_get dedup_def split: option.splits)
  then have f: "map ap_id (fold (add_fallback R) (ar_fallback_providers R) prim) = dedup (wanted_ids R) \<and>
      (\<forall>p \<in> set (fold (add_fallback R) (ar_fallback_providers R) prim). provider_get (ar_registry R) (ap_id p) = Some p)"
    using fold_fallbacks [OF assms, of prim pre "ar_fallback_providers R"]
    by (simp add: wanted_ids_def pre_def d_def)
  then have "fold (add_fallback R) (ar_fallback_providers R) prim = [] \<longleftrightarrow> wanted_ids R = []"
    by (metis map_is_Nil_conv set_dedup set_empty)
  with f show ?thesis
    by (auto simp: resolve_candidates_def prim_def d_def mk_ai_error_def Let_def list_all_iff split: option.splits)
qed

text \<open>
  The candidates of a request. Without a requested provider they are the registered ones among
  the default provider and the fallback chain, the default first, the others in the chain's order,
  each once, and it is an error exactly when none is registered; a requested provider is the only
  candidate, or the error that it is not registered.
\<close>

theorem candidates_order:
  assumes "ai_registry_wf (ar_registry R)"
  shows "(if wanted_ids R = []
          then \<exists>e. resolve_candidates R None = Inl e \<and> ae_class e = ProviderUnavailableError
          else \<exists>cs. resolve_candidates R None = Inr cs \<and> map ap_id cs = dedup (wanted_ids R) \<and>
                 list_all (\<lambda>p. provider_get (ar_registry R) (ap_id p) = Some p) cs) \<and>
    resolve_candidates R (Some (c # k)) =
      (case provider_get (ar_registry R) (c # k) of
         Some p \<Rightarrow> Inr [p]
       | None \<Rightarrow> Inl (mk_ai_error ProviderUnavailableError
                   (''Requested provider '' @ quoted (c # k) @ '' is not registered.'') None None))"
  using candidates_of [OF assms] by (auto simp: resolve_candidates_def split: option.splits)

definition demo_provider :: "string \<Rightarrow> llm_response outcome \<Rightarrow> string \<Rightarrow> unit outcome \<Rightarrow> nat ai_provider" where
  "demo_provider k out txt fin =
     \<lparr>ap_id = k, ap_default_model = ''m'', ap_api_key = None, ap_generate = (\<lambda>_ n. (Suc n, out)),
      ap_stream = (\<lambda>_ n. (Suc n, [\<lparr>se_type = TextDelta, se_text = Some txt, se_tool_call = None,
         se_usage = None, se_error = None, se_finish_reason = None\<rparr>], fin)), ap_close = (\<lambda>n. (n, Returned ()))\<rparr>"

definition demo_down :: "'a outcome" where
  "demo_down = Raised (mk_ai_error ProviderUnavailableError ''down'' None None)"

definition demo_answer :: llm_response where
  "demo_answer = \<lparr>lr_content = Some ''hi'', lr_tool_calls = None, lr_finish_reason = FStop, lr_model = ''m'',
     lr_provider = ''gemini'', lr_usage = \<lparr>tu_prompt_tokens = 0, tu_completion_tokens = 0, tu_total_tokens = 0\<rparr>,
     lr_request_id = None\<rparr>"

definition demo_router :: "nat ai_router" where
  "demo_router = router_init
     (provider_register (demo_provider ''ollama'' (Returned demo_answer) ''c'' (Returned ()))
       (provider_register (demo_provider ''gemini'' (Returned demo_answer) ''b'' (Returned ()))
         (provider_register (demo_provider ''openai'' demo_down ''a'' demo_down) []))) ''openai'' [] None"

lemma demo_router_wf: "ai_registry_wf (ar_registry demo_router)"
  by (simp add: demo_router_def router_init_def provider_register_wf)

lemma demo_router_ids: "wanted_ids demo_router = [''openai'', ''gemini'', ''ollama'']"
  by code_simp

lemma demo_candidates:
  "\<exists>p ps. resolve_candidates demo_router None = Inr (p # ps)"
proof -
  have "case resolve_candidates demo_router None of Inr [] \<Rightarrow> False | Inr _ \<Rightarrow> True | Inl _ \<Rightarrow> False"
    by code_simp
  then show ?thesis by (auto split: sum.splits list.splits)
qed

theorem candidates_order_witness:
  "\<exists>cs. resolve_candidates demo_router None = Inr cs \<and> map ap_id cs = [''openai'', ''gemini'', ''ollama'']"
proof -
  have "dedup (wanted_ids demo_router) = [''openai'', ''gemini'', ''ollama'']" by code_simp
  with candidates_order [OF demo_router_wf, of "CHR ''x''" "[]"] show ?thesis
    by (auto simp: demo_router_ids)
qed

section \<open>Failover\<close>

text \<open>The outcomes of trying each provider of a list in turn.\<close>

fun try_all ::
  "retry_policy \<Rightarrow> (nat \<Rightarrow> rat) \<Rightarrow> (nat \<Rightarrow> bool) \<Rightarrow> llm_request \<Rightarrow> 'w ai_provider list \<Rightarrow> 'w
     \<Rightarrow> 'w \<times> llm_response outcome list" where
  "try_all rp rnd slept req [] w = (w, [])"
| "try_all rp rnd slept req (p # ps) w =
     (let (w1, out) = try_generate rp rnd slept req p w; (w2, outs) = try_all rp rnd slept req ps w1
      in (w2, out # outs))"

definition falls_over :: "'a outcome \<Rightarrow> bool" where
  "falls_over out = (case out of Raised e \<Rightarrow> \<not> no_fallback e | _ \<Rightarrow> False)"

lemma generate_loop_spec:
  assumes "generate_loop rp rnd slept req cs last_exc w = (w', tried, out)" and "cs \<noteq> []"
  shows "\<exists>n outs. n < length cs \<and> tried = map ap_id (take (Suc n) cs) \<and>
    try_all rp rnd slept req (take (Suc n) cs) w = (w', outs @ [out]) \<and>
    (\<forall>r \<in> set outs. falls_over r) \<and> (falls_over out \<longrightarrow> Suc n = length cs)"
  using assms
proof (induction cs arbitrary: last_exc w w' tried out)
  case (Cons p ps)
  obtain w1 o1 where t: "try_generate rp rnd slept req p w = (w1, o1)" by fastforce
  show ?case
  proof (cases "falls_over o1")
    case False
    then have "w' = w1 \<and> tried = [ap_id p] \<and> out = o1"
      using Cons.prems(1) t by (auto simp: falls_over_def split: outcome.splits)
    with False t show ?thesis by (intro exI [of _ 0] exI [of _ "[]"]) simp
  next
    case True
    then obtain e where e: "o1 = Raised e" "\<not> no_fallback e" by (auto simp: falls_over_def split: outcome.splits)
    obtain w2 tried2 out2 where rec: "generate_loop rp rnd slept req ps (Some e) w1 = (w2, tried2, out2)"
      by (metis prod_cases3)
    then have res: "w' = w2 \<and> tried = ap_id p # tried2 \<and> out = out2" using Cons.prems(1) t e by simp
    show ?thesis
    proof (cases "ps = []")
      case True
      with rec res t e \<open>falls_over o1\<close> show ?thesis by (intro exI [of _ 0] exI [of _ "[]"]) simp
    next
      case False
      from Cons.IH [OF rec False] obtain n outs where
        "n < length ps" "tried2 = map ap_id (take (Suc n) ps)"
        "try_all rp rnd slept req (take (Suc n) ps) w1 = (w2, outs @ [out2])"
        "\<forall>r \<in> set outs. falls_over r" "falls_over out2 \<longrightarrow> Suc n = length ps" by blast
      with res t \<open>falls_over o1\<close> show ?thesis
        by (intro exI [of _ "Suc n"] exI [of _ "o1 # outs"]) simp
    qed
  qed
qed simp

text \<open>
  C23. Failover. The providers contacted are a prefix of the candidates; every one before the last
  failed with an error that permits the fallback; the result is the outcome of the last one contacted,
  and if that is such an error too the candidates are exhausted. No provider is contacted after a
  success, a cancellation or an error that blames the request or the key.
\<close>

theorem generate_failover:
  assumes "router_generate R rnd slept req provider_id w = (w', tried, out)"
    and "resolve_candidates R provider_id = Inr cs"
  shows "\<exists>n outs. n < length cs \<and> tried = map ap_id (take (Suc n) cs) \<and>
    try_all (ar_retry_policy R) rnd slept req (take (Suc n) cs) w = (w', outs @ [out]) \<and>
    (\<forall>r \<in> set outs. falls_over r) \<and> (falls_over out \<longrightarrow> Suc n = length cs)"
proof -
  have "cs \<noteq> []" using assms(2) by (auto simp: resolve_candidates_def Let_def split: option.splits if_splits)
  with generate_loop_spec assms show ?thesis by (simp add: router_generate_def)
qed

theorem generate_failover_witness:
  "\<exists>cs n. resolve_candidates demo_router None = Inr cs \<and> n < length cs \<and>
     [''openai'', ''gemini''] = map ap_id (take (Suc n) cs)"
proof -
  obtain cs where cs: "resolve_candidates demo_router None = Inr cs" using demo_candidates by blast
  obtain w' tried out where g:
    "router_generate demo_router (\<lambda>_. 0) (\<lambda>_. True) (llm_request_of []) None 0 = (w', tried, out)"
    by (metis prod_cases3)
  have "fst (snd (router_generate demo_router (\<lambda>_. 0) (\<lambda>_. True) (llm_request_of []) None 0)) = [''openai'', ''gemini'']"
    by code_simp
  then have "tried = [''openai'', ''gemini'']" by (simp add: g)
  moreover obtain n where "n < length cs" "tried = map ap_id (take (Suc n) cs)"
    using generate_failover [OF g cs] by blast
  ultimately have "n < length cs \<and> [''openai'', ''gemini''] = map ap_id (take (Suc n) cs)" by simp
  then show ?thesis using cs by (intro exI [of _ cs] exI [of _ n]) simp
qed

text \<open>The streams of a list of providers, each followed whatever its end.\<close>

fun stream_all :: "llm_request \<Rightarrow> 'w ai_provider list \<Rightarrow> 'w \<Rightarrow> 'w \<times> stream_event list" where
  "stream_all req [] w = (w, [])"
| "stream_all req (p # ps) w =
     (let (w1, evs) = (case verify_capabilities p req of
                         Some e \<Rightarrow> (w, [])
                       | None \<Rightarrow> (case ap_stream p req w of (w1, evs, _) \<Rightarrow> (w1, evs)));
          (w2, evs2) = stream_all req ps w1
      in (w2, evs @ evs2))"

lemma stream_loop_spec:
  "stream_loop req cs last_exc w = (w', evs, out) \<Longrightarrow> \<exists>n. stream_all req (take n cs) w = (w', evs)"
proof (induction cs arbitrary: last_exc w w' evs out)
  case (Cons p ps)
  obtain w1 e1 o1 where s: "(case verify_capabilities p req of Some e \<Rightarrow> (w, [], Raised e)
      | None \<Rightarrow> ap_stream p req w) = (w1, e1, o1)" by (metis prod_cases3)
  then have a: "(case verify_capabilities p req of Some e \<Rightarrow> (w, [])
      | None \<Rightarrow> (case ap_stream p req w of (w1, evs, _) \<Rightarrow> (w1, evs))) = (w1, e1)"
    by (auto split: option.splits)
  show ?case
  proof (cases "\<exists>e. o1 = Raised e \<and> ae_class e \<noteq> AICancelledError \<and> \<not> stream_no_fallback e")
    case False
    with Cons.prems s have "w' = w1 \<and> evs = e1" by (auto split: outcome.splits if_splits)
    with a show ?thesis by (intro exI [of _ 1]) simp
  next
    case True
    then obtain e where e: "o1 = Raised e" "ae_class e \<noteq> AICancelledError" "\<not> stream_no_fallback e" by blast
    obtain w2 evs2 out2 where rec: "stream_loop req ps (Some e) w1 = (w2, evs2, out2)" by (metis prod_cases3)
    with Cons.prems s e have res: "w' = w2 \<and> evs = e1 @ evs2" by simp
    from Cons.IH [OF rec] obtain n where "stream_all req (take n ps) w1 = (w2, evs2)" by blast
    with a res show ?thesis by (intro exI [of _ "Suc n"]) simp
  qed
qed (auto intro: exI [of _ 0])

text \<open>
  A stream that breaks is started again from the beginning by the next provider. What the consumer
  receives is the concatenation of the events of a prefix of the candidates; when the first candidate
  breaks after some events with an error that permits the fallback, these events stay in front of the
  complete stream of the candidates that follow.
\<close>

theorem stream_restarts:
  assumes "resolve_candidates R provider_id = Inr (p # ps)"
  shows "(\<exists>n. stream_all req (take n (p # ps)) w =
              (fst (router_stream R req provider_id w), fst (snd (router_stream R req provider_id w)))) \<and>
    (\<forall>w1 evs e. verify_capabilities p req = None \<and> ap_stream p req w = (w1, evs, Raised e) \<and>
       ae_class e \<noteq> AICancelledError \<and> \<not> stream_no_fallback e \<longrightarrow>
       fst (snd (router_stream R req provider_id w)) = evs @ fst (snd (stream_loop req ps (Some e) w1)))"
proof -
  obtain w' evs out where r: "stream_loop req (p # ps) None w = (w', evs, out)" by (metis prod_cases3)
  from stream_loop_spec [OF r] r assms show ?thesis
    by (auto simp: router_stream_def split: prod.splits)
qed

definition event_texts :: "stream_event list \<Rightarrow> string list" where
  "event_texts evs = concat (map (\<lambda>e. case se_text e of Some t \<Rightarrow> [t] | None \<Rightarrow> []) evs)"

theorem stream_restarts_witness:
  "\<exists>p ps n evs. resolve_candidates demo_router None = Inr (p # ps) \<and>
     stream_all (llm_request_of []) (take n (p # ps)) 0 = (2, evs) \<and> event_texts evs = [''a'', ''b'']"
proof -
  obtain p ps where cs: "resolve_candidates demo_router None = Inr (p # ps)"
    using demo_candidates by blast
  have w: "fst (router_stream demo_router (llm_request_of []) None 0) = 2" by code_simp
  have e: "event_texts (fst (snd (router_stream demo_router (llm_request_of []) None 0))) = [''a'', ''b'']"
    by code_simp
  from stream_restarts [OF cs, of "llm_request_of []" 0] obtain n where
    "stream_all (llm_request_of []) (take n (p # ps)) 0 =
       (2, fst (snd (router_stream demo_router (llm_request_of []) None 0)))" by (auto simp: w)
  with cs e show ?thesis by blast
qed

section \<open>The system as it is built\<close>

lemma register_with_key_wf: "ai_registry_wf r \<Longrightarrow> ai_registry_wf (register_with_key calls st pid attr m key r)"
  by (auto simp: register_with_key_def provider_register_wf Let_def split: option.splits)

lemma has_provider_register: "has_provider (provider_register p r) k = (k = ap_id p \<or> has_provider r k)"
  by (simp add: has_provider_def provider_register_def dict_simps)

lemma has_provider_with_key:
  "has_provider (register_with_key calls st pid attr m key r) k = (k = pid \<and> truthy_key key \<or> has_provider r k)"
  by (auto simp: register_with_key_def truthy_key_def has_provider_register Let_def split: option.splits)

text \<open>What every registered provider keeps of the world, the router keeps.\<close>

lemma candidates_registered:
  assumes "resolve_candidates R pid = Inr cs" and "p \<in> set cs"
  shows "\<exists>k. provider_get (ar_registry R) k = Some p"
proof -
  have step: "p \<in> set (add_fallback R fb ps) \<Longrightarrow> p \<in> set ps \<or> (\<exists>k. provider_get (ar_registry R) k = Some p)" for fb ps
    by (auto simp: add_fallback_def split: option.splits if_splits)
  have all: "p \<in> set (fold (add_fallback R) fbs ps) \<Longrightarrow> p \<in> set ps \<or> (\<exists>k. provider_get (ar_registry R) k = Some p)" for fbs ps
    by (induction fbs arbitrary: ps) (auto dest!: step)
  from assms show ?thesis
    by (auto simp: resolve_candidates_def Let_def split: option.splits if_splits dest!: all)
qed

lemma retry_execute_keeps:
  assumes "\<And>v. I v \<Longrightarrow> I (fst (operation v))"
  shows "I w \<Longrightarrow> I (fst (retry_execute p rnd slept operation a w))"
  using assms
proof (induction p rnd slept operation a w rule: retry_execute.induct)
  case (1 p rnd slept operation a w)
  obtain w1 o1 where op: "operation w = (w1, o1)" by fastforce
  with 1(2) 1(3) [of w] have w1: "I w1" by simp
  have rest: "I (fst (retry_execute p rnd slept operation (Suc a) w1))"
    if "o1 = Raised exc" "\<not> (\<not> ae_is_retryable exc \<or> rp_max_retries p \<le> int a)" "slept a" for exc
    using 1(1) [OF op [symmetric] that(1,2) refl that(3) w1 1(3)] by simp
  show ?case
    using w1 rest by (subst retry_execute.simps) (auto simp: op Let_def split: outcome.splits prod.splits)
qed

lemma router_generate_keeps:
  assumes "\<And>k p v. provider_get (ar_registry R) k = Some p \<Longrightarrow> I v \<Longrightarrow> I (fst (ap_generate p q v))" and "I w"
  shows "I (fst (router_generate R rnd slept q pid w))"
proof -
  have "\<lbrakk>\<forall>p \<in> set cs. \<exists>k. provider_get (ar_registry R) k = Some p; I v\<rbrakk> \<Longrightarrow>
      I (fst (generate_loop rp rnd slept q cs e v))" for cs e v rp
  proof (induction cs arbitrary: e v)
    case (Cons p ps)
    obtain k where k: "provider_get (ar_registry R) k = Some p" using Cons.prems by auto
    obtain v1 o1 where t: "try_generate rp rnd slept q p v = (v1, o1)" by fastforce
    have "I (fst (retry_execute rp rnd slept (ap_generate p q) 0 v))"
      using Cons.prems(2) by (rule retry_execute_keeps [where I = I, rotated]) (rule assms(1) [OF k])
    with t Cons.prems(2) have "I v1"
      by (auto simp: try_generate_def split: option.splits prod.splits)
    moreover have "I (fst (generate_loop rp rnd slept q ps e' v1))" if "I v1" for e'
      using Cons.IH [OF _ that, of e'] Cons.prems(1) by simp
    ultimately show ?case using t by (auto split: outcome.splits prod.splits) (metis fst_conv)
  qed simp
  then show ?thesis
    using assms(2) candidates_registered [of R pid] by (auto simp: router_generate_def split: sum.splits)
qed

lemma router_stream_keeps:
  assumes "\<And>k p v. provider_get (ar_registry R) k = Some p \<Longrightarrow> I v \<Longrightarrow> I (fst (ap_stream p q v))" and "I w"
  shows "I (fst (router_stream R q pid w))"
proof -
  have "\<lbrakk>\<forall>p \<in> set cs. \<exists>k. provider_get (ar_registry R) k = Some p; I v\<rbrakk> \<Longrightarrow> I (fst (stream_loop q cs e v))" for cs e v
  proof (induction cs arbitrary: e v)
    case (Cons p ps)
    obtain k where k: "provider_get (ar_registry R) k = Some p" using Cons.prems by auto
    obtain v1 evs o1 where t: "(case verify_capabilities p q of Some e \<Rightarrow> (v, [], Raised e) | None \<Rightarrow> ap_stream p q v) = (v1, evs, o1)"
      by (metis prod_cases3)
    have "I v1"
      using t assms(1) [OF k Cons.prems(2)] Cons.prems(2) by (auto split: option.splits)
    moreover have "I (fst (stream_loop q ps e' v1))" if "I v1" for e'
      using Cons.IH [OF _ that, of e'] Cons.prems(1) by simp
    ultimately show ?case using t by (auto simp: Let_def split: outcome.splits prod.splits) (metis fst_conv)
  qed simp
  then show ?thesis
    using assms(2) candidates_registered [of R pid] by (auto simp: router_stream_def split: sum.splits)
qed

text \<open>
  The router that is built always has candidates. Whatever the vault and the settings hold, a
  request without a provider is offered to OpenAI first if its key is present and to the local Ollama
  first otherwise (also when keys of other vendors are present), then to Anthropic and Gemini if their
  keys are present, and with an OpenAI key to Ollama last.
\<close>

theorem built_system_candidates:
  "\<exists>cs. resolve_candidates (snd (build_ai_system calls setting get_secret)) None = Inr cs \<and>
    map ap_id cs =
      (if truthy_key (get_secret ''OPENAI_API_KEY'') then [''openai''] else [''ollama''])
      @ (if truthy_key (get_secret ''ANTHROPIC_API_KEY'') then [''anthropic''] else [])
      @ (if truthy_key (get_secret ''GEMINI_API_KEY'') then [''gemini''] else [])
      @ (if truthy_key (get_secret ''OPENAI_API_KEY'') then [''ollama''] else [])"
proof -
  define R where "R = snd (build_ai_system calls setting get_secret)"
  have wf: "ai_registry_wf (ar_registry R)"
    by (simp add: R_def build_ai_system_def Let_def router_init_def provider_register_wf register_with_key_wf)
  have empty: "has_provider [] k = False" for k by (simp add: has_provider_def dict_has_def)
  have has: "has_provider (ar_registry R) k = (k = ''ollama'' \<or>
      k = ''openai'' \<and> truthy_key (get_secret ''OPENAI_API_KEY'') \<or>
      k = ''anthropic'' \<and> truthy_key (get_secret ''ANTHROPIC_API_KEY'') \<or>
      k = ''gemini'' \<and> truthy_key (get_secret ''GEMINI_API_KEY''))" for k
    by (auto simp: R_def build_ai_system_def Let_def router_init_def has_provider_register
        has_provider_with_key empty)
  have d: "ar_default_provider R = (if truthy_key (get_secret ''OPENAI_API_KEY'') then ''openai'' else ''ollama'')"
    and f: "ar_fallback_providers R = [''anthropic'', ''gemini'', ''ollama'', ''openai'']"
    by (simp_all add: R_def build_ai_system_def Let_def router_init_def)
  have w: "wanted_ids R =
      (if truthy_key (get_secret ''OPENAI_API_KEY'') then [''openai''] else [''ollama''])
      @ (if truthy_key (get_secret ''ANTHROPIC_API_KEY'') then [''anthropic''] else [])
      @ (if truthy_key (get_secret ''GEMINI_API_KEY'') then [''gemini''] else [])
      @ (if truthy_key (get_secret ''OPENAI_API_KEY'') then [''ollama''] else [])"
    by (simp add: wanted_ids_def has d f)
  have "dedup (wanted_ids R) = wanted_ids R" by (simp add: w dedup_def)
  moreover have "wanted_ids R \<noteq> []" by (simp add: w)
  ultimately obtain cs where "resolve_candidates R None = Inr cs \<and> map ap_id cs = wanted_ids R"
    using candidates_of [OF wf] by auto
  then show ?thesis using w by (auto simp: R_def)
qed

text \<open>
  Entries of the capability table that can never be chosen. For every model name the result is
  the one of the table without its entries for \<open>gpt-4o-mini\<close> and \<open>llama3.1\<close>: an earlier key is contained
  in theirs.
\<close>

theorem capabilities_shadowed:
  "get_default_capabilities name is_local =
     (case first_match (filter (\<lambda>(k, _). k \<notin> {''gpt-4o-mini'', ''llama3.1''}) KNOWN_MODEL_CAPABILITIES) (lower name) of
        Some c \<Rightarrow> c
      | None \<Rightarrow> caps False False is_local 128000 4096)"
proof -
  let ?K = KNOWN_MODEL_CAPABILITIES
  have c: "contains ''gpt-4o-mini'' ''gpt-4o''" "contains ''llama3.1'' ''llama3''" by code_simp+
  have k: "?K = take 1 ?K @ (''gpt-4o-mini'', caps True False False 128000 4096) # drop 2 ?K"
    "take 1 ?K @ drop 2 ?K = take 9 (take 1 ?K @ drop 2 ?K) @ (''llama3.1'', caps False False True 128000 4096) #
       drop 10 (take 1 ?K @ drop 2 ?K)"
    "take 9 (take 1 ?K @ drop 2 ?K) @ drop 10 (take 1 ?K @ drop 2 ?K) =
       filter (\<lambda>(k, _). k \<notin> {''gpt-4o-mini'', ''llama3.1''}) ?K"
    by (simp_all add: KNOWN_MODEL_CAPABILITIES_def)
  have "first_match ?K s = first_match (take 1 ?K @ drop 2 ?K) s" for s
    by (subst k(1), rule first_match_shadowed [OF _ c(1)]) (simp add: KNOWN_MODEL_CAPABILITIES_def)
  also have "first_match (take 1 ?K @ drop 2 ?K) s = first_match (filter (\<lambda>(k, _). k \<notin> {''gpt-4o-mini'', ''llama3.1''}) ?K) s" for s
    by (subst k(2), subst first_match_shadowed [OF _ c(2)])
       (simp add: KNOWN_MODEL_CAPABILITIES_def, simp only: k(3))
  finally show ?thesis by (simp add: get_default_capabilities_def)
qed

end
