(* ===== verification/Ai_Vendors.thy ===== *)
theory Ai_Vendors
  imports Ai_Openai Ai_Anthropic Ai_Gemini Ai_Ollama Ai_Router
begin

text \<open>
  The four adapters behind the router: \<open>vendor_calls\<close> is what \<open>build_ai_system\<close> makes of them over one HTTP
  client. Shown across the adapters: how each outcome relates to the one request that was made, that keys
  go only to the vendor they belong to, that tool calls survive the way out and back, that a stream that is
  cut yields a beginning of the whole one, and which refusals escape the failover.
\<close>

section \<open>The adapters of the built system\<close>

text \<open>\<open>x\<close> is the key, or the URL for Ollama; \<open>close\<close> the closing of the client.\<close>

definition vendor_config :: "string \<Rightarrow> string \<Rightarrow> string \<Rightarrow> adapter_config" where
  "vendor_config pid model x =
     (if pid = ''openai'' then openai_init (Some x) model
      else if pid = ''anthropic'' then anthropic_init (Some x) model
      else if pid = ''gemini'' then gemini_init (Some x) model
      else ollama_init x model)"

definition vendor_calls ::
  "py_lib \<Rightarrow> 'w transport \<Rightarrow> ('w \<Rightarrow> 'w \<times> unit outcome) \<Rightarrow> string \<Rightarrow> string \<Rightarrow> string \<Rightarrow> 'w adapter_calls" where
  "vendor_calls L T close pid model x =
     (let c = vendor_config pid model x
      in if pid = ''openai''
         then \<lparr>ac_generate = openai_generate L T c, ac_stream = openai_stream L T c, ac_close = close\<rparr>
         else if pid = ''anthropic''
         then \<lparr>ac_generate = anthropic_generate L T c, ac_stream = anthropic_stream L T c, ac_close = close\<rparr>
         else if pid = ''gemini''
         then \<lparr>ac_generate = gemini_generate L T c, ac_stream = gemini_stream L T c, ac_close = close\<rparr>
         else \<lparr>ac_generate = ollama_generate L T c, ac_stream = ollama_stream L T c, ac_close = close\<rparr>)"

abbreviation vendor_system ::
  "py_lib \<Rightarrow> 'w transport \<Rightarrow> ('w \<Rightarrow> 'w \<times> unit outcome) \<Rightarrow> (string \<Rightarrow> string option) \<Rightarrow> (string \<Rightarrow> string option)
     \<Rightarrow> 'w ai_registry \<times> 'w ai_router" where
  "vendor_system L T close \<equiv> build_ai_system (vendor_calls L T close)"

text \<open>The key under which the vault holds a vendor's secret.\<close>

definition secret_name :: "string \<Rightarrow> string" where
  "secret_name pid =
     (if pid = ''openai'' then ''OPENAI_API_KEY''
      else if pid = ''anthropic'' then ''ANTHROPIC_API_KEY'' else ''GEMINI_API_KEY'')"

text \<open>\<open>p\<close> is the adapter that the wiring makes for \<open>pid\<close> from a model and a key or URL.\<close>

definition adapter_of :: "(string \<Rightarrow> string \<Rightarrow> string \<Rightarrow> 'w adapter_calls) \<Rightarrow> string \<Rightarrow> (string \<Rightarrow> bool) \<Rightarrow> 'w ai_provider \<Rightarrow> bool" where
  "adapter_of calls pid good p = (\<exists>model x key. good x \<and> p = base_provider (calls pid model x) pid model key)"

lemma register_with_key_get:
  "provider_get (register_with_key calls st v attr m key r) k = Some p \<Longrightarrow>
     provider_get r k = Some p \<or> k = v \<and> adapter_of calls v (\<lambda>x. x \<noteq> [] \<and> key = Some x) p"
  by (auto simp: register_with_key_def provider_get_register adapter_of_def Let_def split: option.splits if_splits)

lemma built_provider:
  assumes "provider_get (fst (build_ai_system calls setting get_secret)) pid = Some p"
  shows "pid = ''ollama'' \<and> adapter_of calls pid (\<lambda>x. True) p \<or>
    pid \<in> {''openai'', ''anthropic'', ''gemini''} \<and>
    adapter_of calls pid (\<lambda>x. x \<noteq> [] \<and> get_secret (secret_name pid) = Some x) p"
proof (cases "pid = ''ollama''")
  case True
  with assms show ?thesis
    by (auto simp: build_ai_system_def Let_def provider_get_register adapter_of_def)
next
  case False
  have none: "provider_get [] pid \<noteq> Some p" by (simp add: provider_get_def)
  note get = register_with_key_get [of calls setting, where k = pid and p = p]
  have "provider_get (register_with_key calls setting ''gemini'' ''gemini_default_model'' ''gemini-2.0-flash''
      (get_secret ''GEMINI_API_KEY'') (register_with_key calls setting ''anthropic'' ''anthropic_default_model''
      ''claude-3-5-sonnet-20241022'' (get_secret ''ANTHROPIC_API_KEY'') (register_with_key calls setting ''openai''
      ''openai_default_model'' ''gpt-4o'' (get_secret ''OPENAI_API_KEY'') []))) pid = Some p"
    using False assms by (simp add: build_ai_system_def Let_def provider_get_register)
  then show ?thesis
  proof (rule get [THEN disjE])
    assume "provider_get (register_with_key calls setting ''anthropic'' ''anthropic_default_model''
      ''claude-3-5-sonnet-20241022'' (get_secret ''ANTHROPIC_API_KEY'') (register_with_key calls setting ''openai''
      ''openai_default_model'' ''gpt-4o'' (get_secret ''OPENAI_API_KEY'') [])) pid = Some p"
    then show ?thesis
    proof (rule get [THEN disjE])
      assume "provider_get (register_with_key calls setting ''openai'' ''openai_default_model'' ''gpt-4o''
        (get_secret ''OPENAI_API_KEY'') []) pid = Some p"
      from get [OF this] none show ?thesis by (auto simp: secret_name_def)
    qed (auto simp: secret_name_def)
  qed (auto simp: secret_name_def)
qed

lemma base_provider_calls [simp]:
  "ap_generate (base_provider calls k m x) = ac_generate calls" "ap_stream (base_provider calls k m x) = ac_stream calls"
  by (simp_all add: base_provider_def)

lemma built_registry: "ar_registry (snd (build_ai_system calls setting get_secret)) = fst (build_ai_system calls setting get_secret)"
  by (simp add: build_ai_system_def Let_def router_init_def)

lemmas init_defs = openai_init_def anthropic_init_def gemini_init_def ollama_init_def base_init_def

lemma vendor_config_id:
  "pid \<in> {''openai'', ''anthropic'', ''gemini'', ''ollama''} \<Longrightarrow> cf_id (vendor_config pid model x) = pid"
  by (auto simp: vendor_config_def init_defs)

section \<open>Outcomes\<close>

definition may_retry :: "string \<Rightarrow> int \<Rightarrow> bool" where
  "may_retry pid = (if pid = ''ollama'' then ollama_worth else worth_retry)"


section \<open>Keys\<close>

text \<open>A transport that keeps a log of the requests.\<close>

definition logged :: "'w transport \<Rightarrow> (http_request list \<times> 'w) transport" where
  "logged T =
     \<lparr>tr_send = (\<lambda>rq (sent, w). case tr_send T rq w of (w1, x) \<Rightarrow> ((sent @ [rq], w1), x)),
      tr_stream = (\<lambda>rq (sent, w). case tr_stream T rq w of (w1, x) \<Rightarrow> ((sent @ [rq], w1), x))\<rparr>"

text \<open>The headers that carry a key, each with the vendor it belongs to, the words before the key and the host.\<close>

definition key_header :: "string \<Rightarrow> (string \<times> string \<times> string) option" where
  "key_header h =
     (if h = ''Authorization'' then Some (''openai'', ''Bearer '', ''https://api.openai.com/'')
      else if h = ''x-api-key'' then Some (''anthropic'', [], ''https://api.anthropic.com/'')
      else if h = ''x-goog-api-key'' then Some (''gemini'', [], ''https://generativelanguage.googleapis.com/'')
      else None)"

definition keys_at_home :: "(string \<Rightarrow> string option) \<Rightarrow> http_request \<Rightarrow> bool" where
  "keys_at_home get_secret rq =
     list_all (\<lambda>(h, v). case key_header h of
        None \<Rightarrow> v \<in> {''application/json'', ''2023-06-01''}
      | Some (pid, prefix, host) \<Rightarrow>
          starts_with (rq_url rq) host \<and> (\<exists>k. get_secret (secret_name pid) = Some k \<and> v = prefix @ k)) (rq_headers rq)"

lemma base_urls:
  "cf_base_url (openai_init k m) = ''https://api.openai.com/v1''"
  "cf_base_url (anthropic_init k m) = ''https://api.anthropic.com/v1''"
  "cf_base_url (gemini_init k m) = ''https://generativelanguage.googleapis.com/v1beta''"
  by (simp_all add: init_defs)

lemma requests_home:
  "get_secret (secret_name ''openai'') = Some x \<Longrightarrow> keys_at_home get_secret (openai_request (openai_init (Some x) m) q v)"
  "get_secret (secret_name ''anthropic'') = Some x \<Longrightarrow> keys_at_home get_secret (anthropic_request (anthropic_init (Some x) m) q v)"
  "get_secret (secret_name ''gemini'') = Some x \<Longrightarrow> keys_at_home get_secret (gemini_request (gemini_init (Some x) m) q meth v)"
  "keys_at_home get_secret (ollama_request c q v)"
  by (simp_all add: keys_at_home_def openai_request_def anthropic_request_def gemini_request_def ollama_request_def
      openai_headers_def anthropic_headers_def gemini_headers_def ollama_headers_def cred_header_def key_header_def
      base_urls openai_init_def [unfolded base_init_def] anthropic_init_def [unfolded base_init_def]
      gemini_init_def [unfolded base_init_def] starts_with_def)

lemma logged_exchange: "fst (fst (exchange (logged T) rq fail answer (sent, w))) = sent @ [rq]"
  by (auto simp: exchange_def logged_def split: prod.splits sum.splits)

lemma logged_stream: "fst (fst (stream_exchange (logged T) rq fail refuse step s (sent, w))) = sent @ [rq]"
proof -
  obtain w1 x where "tr_stream T rq w = (w1, x)" by fastforce
  then show ?thesis
    by (auto simp: stream_exchange_def logged_def Let_def split: sum.splits prod.splits line_end.splits)
qed

lemma vendor_calls_home:
  assumes "pid = ''ollama'' \<or> pid \<in> {''openai'', ''anthropic'', ''gemini''} \<and> get_secret (secret_name pid) = Some x"
    and "list_all (keys_at_home get_secret) (fst v)"
  shows "list_all (keys_at_home get_secret) (fst (fst (ac_generate (vendor_calls L (logged T) close pid model x) q v)))"
    and "list_all (keys_at_home get_secret) (fst (fst (ac_stream (vendor_calls L (logged T) close pid model x) q v)))"
proof -
  obtain sent w where v: "v = (sent, w)" by (cases v)
  note gens = openai_generate_def anthropic_generate_def gemini_generate_def ollama_generate_def
    and streams = openai_stream_def anthropic_stream_def gemini_stream_def ollama_stream_def
  show "list_all (keys_at_home get_secret) (fst (fst (ac_generate (vendor_calls L (logged T) close pid model x) q v)))"
    using assms by (auto simp: v vendor_calls_def Let_def gens logged_exchange vendor_config_def requests_home)
  show "list_all (keys_at_home get_secret) (fst (fst (ac_stream (vendor_calls L (logged T) close pid model x) q v)))"
    using assms by (auto simp: v vendor_calls_def Let_def streams logged_stream vendor_config_def requests_home)
qed

lemma provider_home:
  assumes "provider_get (fst (vendor_system L (logged T) close setting get_secret)) pid = Some p"
    and "list_all (keys_at_home get_secret) (fst v)"
  shows "list_all (keys_at_home get_secret) (fst (fst (ap_generate p q v)))"
    and "list_all (keys_at_home get_secret) (fst (fst (ap_stream p q v)))"
proof -
  obtain model x key where p: "p = base_provider (vendor_calls L (logged T) close pid model x) pid model key"
    and good: "pid = ''ollama'' \<or> pid \<in> {''openai'', ''anthropic'', ''gemini''} \<and> get_secret (secret_name pid) = Some x"
    using built_provider [OF assms(1)] by (auto simp: adapter_of_def)
  note home = vendor_calls_home [OF good assms(2), of L T close model q]
  show "list_all (keys_at_home get_secret) (fst (fst (ap_generate p q v)))"
    and "list_all (keys_at_home get_secret) (fst (fst (ap_stream p q v)))"
    using home by (simp_all add: p)
qed


section \<open>Streams that are cut\<close>

text \<open>
  C1. A stream that breaks off has yielded a beginning of the whole one. If the transport delivers only the
  first lines of every stream and then fails, the events of each adapter are a beginning of those that it
  yields without the cut.
\<close>

theorem cut_stream_prefix:
  "\<exists>rest. fst (snd (ac_stream (vendor_calls L T close pid model x) q w)) =
     fst (snd (ac_stream (vendor_calls L (cut_transport n f T) close pid model x) q w)) @ rest"
  unfolding vendor_calls_def Let_def
  by (simp add: openai_stream_def anthropic_stream_def gemini_stream_def ollama_stream_def stream_exchange_cut)

section \<open>Tool calls on the wire\<close>

text \<open>An answer of each vendor whose message is the assistant message \<open>m\<close> in the vendor's form.\<close>

definition http_ok :: "pyval \<Rightarrow> http_response" where
  "http_ok v = \<lparr>hr_status = 200, hr_text = [], hr_json = Some v, hr_headers = []\<rparr>"

definition openai_reply :: "py_lib \<Rightarrow> chat_message \<Rightarrow> pyval" where
  "openai_reply L m =
     PDict [(''choices'', PList [PDict [(''message'', openai_message L m), (''finish_reason'', PStr ''tool_calls'')]])]"

definition anthropic_reply :: "chat_message \<Rightarrow> pyval" where
  "anthropic_reply m = PDict [(''content'', PList (anthropic_blocks m)), (''stop_reason'', PStr ''tool_use'')]"

lemma map_res_calls:
  assumes "\<forall>tc \<in> set cs. pl_loads L (pl_dumps L (PDict (tcl_arguments tc))) = Some (PDict (tcl_arguments tc))"
  shows "map_res (openai_parse_call L) (map (openai_call L) cs) = Inr cs"
  using assms
  by (induction cs) (simp_all add: openai_parse_call_def openai_call_def openai_arguments_def)

lemma collect_blocks:
  "fold_res anthropic_collect (map anthropic_block cs) (texts, calls) =
     Inr (texts, if cs = [] then calls else Some ((case calls of None \<Rightarrow> [] | Some ds \<Rightarrow> ds) @ cs))"
  by (induction cs arbitrary: calls) (auto simp: anthropic_collect_def anthropic_block_def add_call_def split: option.splits)

lemma anthropic_blocks_collected:
  assumes "calls_of m \<noteq> []"
  shows "fold_res anthropic_collect (anthropic_blocks m) ([], None) =
     Inr (if cm_content m = [] then [] else [PStr (cm_content m)], Some (calls_of m))"
  using assms
  by (auto simp: anthropic_blocks_def fold_res_append collect_blocks anthropic_collect_def)


section \<open>Refusals outside the taxonomy\<close>

lemma other_status:
  assumes "hr_is_error r" and "hr_status r \<notin> {400, 401, 403, 404, 429}" and "hr_status r < 500"
  shows "status_error pid (hr_status r) m ra = PyExc ''HTTPStatusError''"
  using assms by (simp add: status_error_def)

text \<open>
  A refusal with another status escapes the router. If OpenAI is configured and answers with an error
  status below 500 that the adapter does not know (402, 408, 409, 413, 422 ...), the router raises the
  exception of the HTTP library: no other provider is asked, not even when the vendor ran out of time (408)
  or asks for a payment (402).
\<close>

theorem other_status_escapes:
  assumes "get_secret ''OPENAI_API_KEY'' = Some (k # ks)"
    and "\<And>rq v. \<exists>v' r. tr_send T rq v = (v', Inr r) \<and> hr_is_error r \<and> hr_status r \<notin> {400, 401, 403, 404, 429} \<and> hr_status r < 500"
    and "lq_tools q = None"
  shows "\<exists>w'. router_generate (snd (vendor_system L T close setting get_secret)) rnd slept q None w =
    (w', [''openai''], RaisedOther ''HTTPStatusError'')"
proof -
  let ?S = "vendor_system L T close setting get_secret"
  obtain cs where cs: "resolve_candidates (snd ?S) None = Inr cs" "map ap_id cs = ''openai'' # tl (map ap_id cs)"
    using built_system_candidates [of "vendor_calls L T close" setting get_secret] assms(1) by (auto simp: truthy_key_def)
  then obtain p ps where p: "cs = p # ps" "ap_id p = ''openai''" by (cases cs) auto
  obtain k' where k': "provider_get (fst ?S) k' = Some p"
    using candidates_registered [OF cs(1), of p] p by (auto simp: built_registry)
  then obtain model x key where b: "p = base_provider (vendor_calls L T close k' model x) k' model key"
    using built_provider [OF k'] by (auto simp: adapter_of_def)
  then have "k' = ''openai''" using p(2) by simp
  then have gen: "ap_generate p q = openai_generate L T (vendor_config ''openai'' model x) q"
    by (simp add: b vendor_calls_def Let_def)
  let ?c = "vendor_config ''openai'' model x"
  obtain w' r where "tr_send T (openai_request ?c q (openai_payload L ?c q)) w = (w', Inr r)" and r: "hr_is_error r"
      "hr_status r \<notin> {400, 401, 403, 404, 429}" "hr_status r < 500"
    using assms(2) [of "openai_request ?c q (openai_payload L ?c q)" w] by blast
  then have "ap_generate p q w = (w', RaisedOther ''HTTPStatusError'')"
    by (simp add: gen openai_generate_def exchange_def openai_answer_def openai_handle_error_def other_status [OF r])
  then have "retry_execute rp rnd slept (ap_generate p q) 0 w = (w', [], RaisedOther ''HTTPStatusError'')" for rp
    by (subst retry_execute.simps) simp
  then show ?thesis
    using cs(1) p assms(3) by (simp add: router_generate_def try_generate_def verify_capabilities_def)
qed

section \<open>Examples\<close>

definition demo_lib :: py_lib where
  "demo_lib = \<lparr>pl_loads = (\<lambda>s. if s = ''{}'' then Some (PDict []) else None), pl_dumps = (\<lambda>_. ''{}''),
     pl_str = (\<lambda>_. []), pl_float = (\<lambda>_. None), pl_int = (\<lambda>v. case v of PInt i \<Rightarrow> Some i | _ \<Rightarrow> None)\<rparr>"

text \<open>A network on which every request is answered alike.\<close>

definition demo_net :: "http_failure + http_response \<Rightarrow> unit transport" where
  "demo_net x = \<lparr>tr_send = (\<lambda>_ w. (w, x)), tr_stream = (\<lambda>_ w. (w, case x of Inl f \<Rightarrow> Inl f
     | Inr r \<Rightarrow> Inr \<lparr>hs_response = r, hs_lines = [], hs_cut = None\<rparr>))\<rparr>"

abbreviation demo_close :: "unit \<Rightarrow> unit \<times> unit outcome" where
  "demo_close \<equiv> (\<lambda>w. (w, Returned ()))"


definition demo_call_message :: chat_message where
  "demo_call_message =
     \<lparr>cm_role = Assistant, cm_content = ''calling'', cm_name = None, cm_tool_call_id = None,
      cm_tool_calls = Some [\<lparr>tcl_id = ''c1'', tcl_name = ''now'', tcl_arguments = []\<rparr>]\<rparr>"


definition demo_402 :: http_response where
  "demo_402 = \<lparr>hr_status = 402, hr_text = ''pay'', hr_json = None, hr_headers = []\<rparr>"

theorem other_status_escapes_witness:
  "\<exists>w'. router_generate (snd (vendor_system demo_lib (demo_net (Inr demo_402)) demo_close (\<lambda>_. None) (\<lambda>_. Some ''key'')))
     (\<lambda>_. 0) (\<lambda>_. True) (llm_request_of []) None () = (w', [''openai''], RaisedOther ''HTTPStatusError'')"
proof (rule other_status_escapes)
  show "(\<lambda>_. Some ''key'') ''OPENAI_API_KEY'' = Some (CHR ''k'' # ''ey'')" by simp
  show "\<exists>v' r. tr_send (demo_net (Inr demo_402)) rq v = (v', Inr r) \<and> hr_is_error r \<and>
      hr_status r \<notin> {400, 401, 403, 404, 429} \<and> hr_status r < 500" for rq v
    by (simp add: demo_net_def demo_402_def hr_is_error_def)
  show "lq_tools (llm_request_of []) = None" by (simp add: llm_request_of_def)
qed

end
