(* ===== verification/Voice_Audio.thy ===== *)
theory Voice_Audio
  imports Prelude "HOL-Library.Word"
begin

text \<open>
  Audio data of the voice pipeline: formats and chunks (\<open>voice/models.py\<close>), the energy of 16-bit PCM
  (\<open>voice/audio/base.py\<close>), the capture and playback controllers (\<open>voice/audio/capture.py\<close>,
  \<open>playback.py\<close>) and the memory-backed devices (\<open>voice/audio/virtual.py\<close>). Bytes are 8-bit words and
  samples 16-bit words. \<open>math.sqrt\<close> is an argument; a chunk's time stamp is left out.
\<close>

type_synonym bytes = "8 word list"

section \<open>Formats and chunks\<close>

datatype audio_encoding = PCM_S16LE | WAV

record audio_format =
  af_sample_rate :: int
  af_channels :: int
  af_sample_width :: int
  af_encoding :: audio_encoding

definition default_format :: audio_format where
  "default_format = \<lparr>af_sample_rate = 16000, af_channels = 1, af_sample_width = 2, af_encoding = PCM_S16LE\<rparr>"

definition bytes_per_second :: "audio_format \<Rightarrow> int" where
  "bytes_per_second f = af_sample_rate f * af_channels f * af_sample_width f"

definition frame_size :: "audio_format \<Rightarrow> int" where
  "frame_size f = af_channels f * af_sample_width f"

record audio_chunk =
  ac_data :: bytes
  ac_sequence :: nat
  ac_duration_sec :: rat
  ac_is_speech :: bool

record audio_metadata =
  am_duration_sec :: rat
  am_frame_count :: int
  am_sample_rate :: int
  am_channels :: int
  am_sample_width :: int
  am_file_size_bytes :: nat

section \<open>Energy\<close>

text \<open>\<open>struct.unpack\<close> of little-endian signed 16-bit samples; a last odd byte is cut off.\<close>

definition sample_of :: "8 word \<Rightarrow> 8 word \<Rightarrow> int" where
  "sample_of lo hi = sint (word_cat hi lo :: 16 word)"

fun samples_of :: "bytes \<Rightarrow> int list" where
  "samples_of (lo # hi # bs) = sample_of lo hi # samples_of bs"
| "samples_of _ = []"

definition mean_square :: "int list \<Rightarrow> rat" where
  "mean_square xs = of_int (sum_list (map (\<lambda>s. s * s) xs)) / of_nat (max 1 (length xs))"

definition calculate_pcm_rms :: "(rat \<Rightarrow> rat) \<Rightarrow> bytes \<Rightarrow> nat \<Rightarrow> rat" where
  "calculate_pcm_rms msqrt pcm width =
     (if pcm = [] \<or> length pcm < width then 0
      else if width \<noteq> 2 then 0
      else msqrt (mean_square (samples_of pcm)))"

lemma sample_bounds: "- 32768 \<le> sample_of lo hi \<and> sample_of lo hi \<le> 32767"
  using sint_ge [of "word_cat hi lo :: 16 word"] sint_lt [of "word_cat hi lo :: 16 word"]
  by (simp add: sample_of_def)

lemma samples_bounds: "s \<in> set (samples_of bs) \<Longrightarrow> s * s \<le> 2 ^ 30"
proof (induction bs rule: samples_of.induct)
  case (1 lo hi bs)
  have "s * s \<le> 2 ^ 30" if "s = sample_of lo hi"
  proof -
    have "\<bar>s\<bar> \<le> 32768" using that sample_bounds [of lo hi] by linarith
    then have "\<bar>s\<bar> * \<bar>s\<bar> \<le> 32768 * 32768" by (intro mult_mono) auto
    then show ?thesis by (simp add: abs_mult [symmetric])
  qed
  with 1 show ?case by auto
qed auto

lemma mean_square_bounds: "0 \<le> mean_square (samples_of bs) \<and> mean_square (samples_of bs) \<le> 2 ^ 30"
proof -
  let ?xs = "samples_of bs"
  let ?s = "sum_list (map (\<lambda>s. s * s) ?xs)"
  have "0 \<le> ?s" by (intro sum_list_nonneg) auto
  moreover have "?s \<le> int (length ?xs) * 2 ^ 30"
    using sum_list_mono [of ?xs "\<lambda>s. s * s" "\<lambda>_. 2 ^ 30"] samples_bounds by (simp add: sum_list_triv)
  then have "?s \<le> 2 ^ 30 * int (max 1 (length ?xs))" by (simp add: max_def)
  then have "(of_int ?s :: rat) \<le> of_int (2 ^ 30 * int (max 1 (length ?xs)))" by (simp only: of_int_le_iff)
  then have "(of_int ?s :: rat) \<le> 2 ^ 30 * of_nat (max 1 (length ?xs))" by simp
  ultimately show ?thesis
    by (auto simp: mean_square_def divide_le_eq zero_le_divide_iff)
qed

section \<open>Cutting a buffer into chunks\<close>

text \<open>The chunk size of \<open>play_bytes\<close> and \<open>feed_pcm_data\<close>: \<open>None\<close> when \<open>% frame_size\<close> divides by zero.
  The loops run over \<open>range(0, len(pcm), chunk_size)\<close>; a negative step gives no chunk.\<close>

definition py_int :: "rat \<Rightarrow> int" where
  "py_int r = (if 0 \<le> r then \<lfloor>r\<rfloor> else \<lceil>r\<rceil>)"

definition chunk_size_of :: "audio_format \<Rightarrow> rat \<Rightarrow> int option" where
  "chunk_size_of f chunk_duration =
     (if frame_size f = 0 then None
      else let n = py_int (of_int (bytes_per_second f) * chunk_duration); n = n - n mod frame_size f
           in Some (if n \<le> 0 then frame_size f else n))"

function cut :: "nat \<Rightarrow> bytes \<Rightarrow> bytes list" where
  "cut n bs = (if n = 0 \<or> bs = [] then [] else take n bs # cut n (drop n bs))"
  by pat_completeness auto
termination by (relation "measure (\<lambda>(n, bs). length bs)") auto

declare cut.simps [simp del]

lemma concat_cut: "0 < n \<Longrightarrow> concat (cut n bs) = bs"
proof (induction n bs rule: cut.induct)
  case (1 n bs)
  then show ?case by (subst cut.simps) simp
qed

lemma length_cut_chunk: "c \<in> set (cut n bs) \<Longrightarrow> 0 < length c \<and> length c \<le> n"
proof (induction n bs rule: cut.induct)
  case (1 n bs)
  then show ?case by (subst (asm) (2) cut.simps) (auto split: if_splits)
qed

lemma cut_Cons_full:
  assumes "cut n bs = c # cs" and "cs \<noteq> []"
  shows "length c = n"
proof -
  have "n \<noteq> 0 \<and> bs \<noteq> [] \<and> c = take n bs \<and> cs = cut n (drop n bs)"
    using assms(1) by (subst (asm) cut.simps) (auto split: if_splits)
  moreover have "cut n [] = []" by (simp add: cut.simps)
  then have "drop n bs \<noteq> []" using calculation assms(2) by auto
  ultimately show ?thesis by simp
qed

lemma cut_full: "\<forall>c \<in> set (butlast (cut n bs)). length c = n"
proof (induction n bs rule: cut.induct)
  case (1 n bs)
  show ?case
  proof (cases "cut n bs")
    case (Cons c cs)
    then have nb: "\<not> (n = 0 \<or> bs = [])" "cs = cut n (drop n bs)"
      by (subst (asm) cut.simps; simp split: if_splits)+
    with 1 [OF nb(1)] Cons cut_Cons_full [OF Cons] show ?thesis by auto
  qed simp
qed

definition number_chunks :: "nat \<Rightarrow> audio_format \<Rightarrow> bytes list \<Rightarrow> audio_chunk list" where
  "number_chunks seq f cs =
     map (\<lambda>(i, c). \<lparr>ac_data = c, ac_sequence = i,
                    ac_duration_sec = of_nat (length c) / of_int (bytes_per_second f), ac_is_speech = False\<rparr>)
       (zip [seq..<seq + length cs] cs)"

lemma number_chunks_data: "map ac_data (number_chunks seq f cs) = cs"
  by (simp add: number_chunks_def comp_def case_prod_beta map_snd_zip)

definition chunk_bytes :: "audio_chunk list \<Rightarrow> bytes" where
  "chunk_bytes cs = concat (map ac_data cs)"

definition split_pcm :: "nat \<Rightarrow> audio_format \<Rightarrow> rat \<Rightarrow> bytes \<Rightarrow> audio_chunk list option" where
  "split_pcm seq f chunk_duration pcm =
     (case chunk_size_of f chunk_duration of
        None \<Rightarrow> None
      | Some n \<Rightarrow> if bytes_per_second f = 0 \<and> 0 < n \<and> pcm \<noteq> [] then None
                  else Some (number_chunks seq f (cut (nat n) pcm)))"

section \<open>The memory-backed devices\<close>

text \<open>The queue of the capture device holds chunks and the sentinels \<open>None\<close> of \<open>stop\<close>. \<open>read_chunk\<close>
  on an empty queue waits for its timeout and gives \<open>None\<close>.\<close>

record vcapture =
  vc_format :: audio_format
  vc_queue :: "audio_chunk option list"
  vc_active :: bool
  vc_seq :: nat

definition vcapture_start :: "vcapture \<Rightarrow> vcapture" where
  "vcapture_start v = v\<lparr>vc_active := True\<rparr>"

definition vcapture_stop :: "vcapture \<Rightarrow> vcapture" where
  "vcapture_stop v = v\<lparr>vc_active := False, vc_queue := vc_queue v @ [None]\<rparr>"

definition vcapture_read :: "vcapture \<Rightarrow> vcapture \<times> audio_chunk option" where
  "vcapture_read v =
     (if \<not> vc_active v \<and> vc_queue v = [] then (v, None)
      else case vc_queue v of [] \<Rightarrow> (v, None) | c # q \<Rightarrow> (v\<lparr>vc_queue := q\<rparr>, c))"

definition feed_pcm_data :: "rat \<Rightarrow> bytes \<Rightarrow> vcapture \<Rightarrow> vcapture option" where
  "feed_pcm_data chunk_duration pcm v =
     (case split_pcm (vc_seq v) (vc_format v) chunk_duration pcm of
        None \<Rightarrow> None
      | Some cs \<Rightarrow> Some (v\<lparr>vc_queue := vc_queue v @ map Some cs, vc_seq := vc_seq v + length cs\<rparr>))"

record vplayback =
  vp_played :: "audio_chunk list"
  vp_playing :: bool
  vp_interrupted :: bool

definition vplayback_start :: "vplayback \<Rightarrow> vplayback" where
  "vplayback_start p = p\<lparr>vp_playing := True, vp_interrupted := False\<rparr>"

definition vplayback_stop :: "vplayback \<Rightarrow> vplayback" where
  "vplayback_stop p = p\<lparr>vp_playing := False, vp_interrupted := True\<rparr>"

definition vplayback_play_chunk :: "audio_chunk \<Rightarrow> vplayback \<Rightarrow> vplayback" where
  "vplayback_play_chunk c p = (if vp_interrupted p then p else p\<lparr>vp_played := vp_played p @ [c]\<rparr>)"

definition vplayback_drain :: "vplayback \<Rightarrow> vplayback" where
  "vplayback_drain p = p\<lparr>vp_playing := False\<rparr>"

section \<open>The capture controller\<close>

text \<open>On the memory-backed device. \<open>now\<close> is the clock; an exceeded limit is the left value.\<close>

record capture =
  cp_format :: audio_format
  cp_max_duration :: rat
  cp_device :: vcapture
  cp_start_time :: rat
  cp_total_bytes :: nat
  cp_capturing :: bool

definition capture_start :: "rat \<Rightarrow> capture \<Rightarrow> capture" where
  "capture_start now c = c\<lparr>cp_start_time := now, cp_total_bytes := 0, cp_capturing := True,
     cp_device := vcapture_start (cp_device c)\<rparr>"

definition capture_stop :: "capture \<Rightarrow> capture" where
  "capture_stop c = c\<lparr>cp_capturing := False, cp_device := vcapture_stop (cp_device c)\<rparr>"

definition capture_read :: "rat \<Rightarrow> capture \<Rightarrow> capture \<times> (string + audio_chunk option)" where
  "capture_read now c =
     (if \<not> cp_capturing c then (c, Inr None)
      else if cp_max_duration c < now - cp_start_time c
      then (capture_stop c, Inl ''Audio recording exceeded maximum duration limit'')
      else case vcapture_read (cp_device c) of
             (d, None) \<Rightarrow> (c\<lparr>cp_device := d\<rparr>, Inr None)
           | (d, Some ch) \<Rightarrow> (c\<lparr>cp_device := d, cp_total_bytes := cp_total_bytes c + length (ac_data ch)\<rparr>,
                             Inr (Some ch)))"

definition capture_metadata :: "rat \<Rightarrow> capture \<Rightarrow> audio_metadata" where
  "capture_metadata now c =
     (let f = cp_format c;
          d0 = (if 0 < cp_start_time c then now - cp_start_time c else 0);
          d = (if 0 < bytes_per_second f \<and> 0 < cp_total_bytes c
               then of_nat (cp_total_bytes c) / of_int (bytes_per_second f) else d0)
      in \<lparr>am_duration_sec = d,
          am_frame_count = (if 0 < frame_size f then int (cp_total_bytes c) div frame_size f else 0),
          am_sample_rate = af_sample_rate f, am_channels = af_channels f,
          am_sample_width = af_sample_width f, am_file_size_bytes = cp_total_bytes c\<rparr>)"

section \<open>The playback controller\<close>

record playback =
  pb_format :: audio_format
  pb_device :: vplayback
  pb_interrupted :: bool
  pb_playing :: bool

definition playback_start :: "playback \<Rightarrow> playback" where
  "playback_start p = p\<lparr>pb_interrupted := False, pb_playing := True, pb_device := vplayback_start (pb_device p)\<rparr>"

definition playback_stop :: "playback \<Rightarrow> playback" where
  "playback_stop p = p\<lparr>pb_interrupted := True, pb_playing := False, pb_device := vplayback_stop (pb_device p)\<rparr>"

definition playback_chunk :: "audio_chunk \<Rightarrow> playback \<Rightarrow> playback" where
  "playback_chunk c p = (if pb_interrupted p \<or> \<not> pb_playing p then p
                         else p\<lparr>pb_device := vplayback_play_chunk c (pb_device p)\<rparr>)"

text \<open>The loop of \<open>play_bytes\<close>. While it sleeps after a chunk another task may call \<open>stop\<close>: \<open>stops\<close>
  holds one flag per sleep (a list that ends means no further stop).\<close>

fun play_loop :: "audio_chunk list \<Rightarrow> bool list \<Rightarrow> playback \<Rightarrow> playback" where
  "play_loop [] stops p = p"
| "play_loop (c # cs) stops p =
     (if pb_interrupted p then p
      else let p1 = p\<lparr>pb_device := vplayback_play_chunk c (pb_device p)\<rparr>
           in case stops of
                [] \<Rightarrow> play_loop cs [] p1
              | b # bs \<Rightarrow> play_loop cs bs (if b then playback_stop p1 else p1))"

definition play_bytes :: "rat \<Rightarrow> bytes \<Rightarrow> bool list \<Rightarrow> playback \<Rightarrow> playback option" where
  "play_bytes chunk_duration pcm stops p =
     (let p0 = playback_start p
      in case split_pcm 0 (pb_format p) chunk_duration pcm of
           None \<Rightarrow> None
         | Some cs \<Rightarrow>
             let p1 = play_loop cs stops p0;
                 p2 = (if pb_interrupted p1 then p1 else p1\<lparr>pb_device := vplayback_drain (pb_device p1)\<rparr>)
             in Some (p2\<lparr>pb_playing := False\<rparr>))"

section \<open>Properties\<close>

lemma split_pcm_bytes:
  assumes "split_pcm seq f d pcm = Some cs" and "0 < af_channels f" and "0 < af_sample_width f"
  shows "chunk_bytes cs = pcm \<and> (\<forall>c \<in> set (butlast cs). int (length (ac_data c)) mod frame_size f = 0)"
proof -
  obtain n where n: "chunk_size_of f d = Some n" "cs = number_chunks seq f (cut (nat n) pcm)"
    using assms(1) by (auto simp: split_pcm_def split: option.splits if_splits)
  have fs: "0 < frame_size f" using assms(2,3) by (simp add: frame_size_def)
  have pos: "0 < n" and al: "n mod frame_size f = 0"
    using n(1) fs by (auto simp: chunk_size_of_def Let_def minus_mod_eq_mult_div split: if_splits)
  have "map ac_data cs = cut (nat n) pcm" by (simp add: n(2) number_chunks_data)
  then have m: "map ac_data (butlast cs) = butlast (cut (nat n) pcm)" by (simp add: map_butlast)
  have "int (length (ac_data c)) mod frame_size f = 0" if "c \<in> set (butlast cs)" for c
  proof -
    have "ac_data c \<in> set (butlast (cut (nat n) pcm))"
      using that unfolding m [symmetric] by (auto simp: image_iff)
    then have "length (ac_data c) = nat n" using cut_full by blast
    then show ?thesis using pos al by simp
  qed
  moreover have "chunk_bytes cs = pcm"
    unfolding chunk_bytes_def n(2) number_chunks_data using pos by (intro concat_cut) simp
  ultimately show ?thesis by blast
qed

lemma play_loop_played:
  "\<not> vp_interrupted (pb_device p) \<or> pb_interrupted p \<Longrightarrow>
   \<exists>k. vp_played (pb_device (play_loop cs stops p)) = vp_played (pb_device p) @ take k cs \<and>
       (list_all Not stops \<and> \<not> pb_interrupted p \<longrightarrow> length cs \<le> k \<and> \<not> pb_interrupted (play_loop cs stops p))"
proof (induction cs stops p rule: play_loop.induct)
  case (2 c cs stops p)
  show ?case
  proof (cases "pb_interrupted p")
    case False
    define p1 where "p1 = p\<lparr>pb_device := vplayback_play_chunk c (pb_device p)\<rparr>"
    have p1: "vp_played (pb_device p1) = vp_played (pb_device p) @ [c]" "\<not> vp_interrupted (pb_device p1)"
      "\<not> pb_interrupted p1" "pb_interrupted (playback_stop p1)"
      "vp_played (pb_device (playback_stop p1)) = vp_played (pb_device p1)"
      using 2 False by (auto simp: p1_def vplayback_play_chunk_def playback_stop_def vplayback_stop_def)
    show ?thesis
    proof (cases stops)
      case Nil
      with 2(1) [OF False refl Nil] p1 p1_def obtain k where
        "vp_played (pb_device (play_loop cs [] p1)) = vp_played (pb_device p1) @ take k cs"
        "length cs \<le> k" "\<not> pb_interrupted (play_loop cs [] p1)" by auto
      with Nil False p1 show ?thesis by (intro exI [of _ "Suc k"]) (simp add: p1_def [symmetric])
    next
      case (Cons b bs)
      let ?q = "if b then playback_stop p1 else p1"
      have "vp_interrupted (pb_device ?q) \<longrightarrow> pb_interrupted ?q" using p1 by simp
      then have ex: "\<exists>k. vp_played (pb_device (play_loop cs bs ?q)) = vp_played (pb_device ?q) @ take k cs \<and>
          (list_all Not bs \<and> \<not> pb_interrupted ?q \<longrightarrow> length cs \<le> k \<and> \<not> pb_interrupted (play_loop cs bs ?q))"
        by (intro 2(2) [OF False p1_def Cons]) blast
      then obtain k where
        "vp_played (pb_device (play_loop cs bs ?q)) = vp_played (pb_device ?q) @ take k cs"
        "list_all Not bs \<and> \<not> pb_interrupted ?q \<longrightarrow> length cs \<le> k \<and> \<not> pb_interrupted (play_loop cs bs ?q)"
        by (elim exE conjE)
      with Cons False p1 show ?thesis by (intro exI [of _ "Suc k"]) (auto simp: p1_def [symmetric])
    qed
  qed (auto intro: exI [of _ 0])
qed auto

text \<open>
  Playback of a buffer. With a format that has channels and a sample width, what \<open>play_bytes\<close>
  plays on an idle device is a sequence of chunks whose bytes are a prefix of the buffer, the whole
  buffer if nobody stops the playback, every chunk but the last holds whole frames, and the
  controller is not playing afterwards.
\<close>

theorem play_bytes_prefix:
  assumes "play_bytes d pcm stops p = Some p'" and "0 < af_channels (pb_format p)" and "0 < af_sample_width (pb_format p)"
  shows "\<exists>cs k. split_pcm 0 (pb_format p) d pcm = Some cs \<and> chunk_bytes cs = pcm \<and>
    vp_played (pb_device p') = vp_played (pb_device p) @ take k cs \<and>
    (list_all Not stops \<longrightarrow> take k cs = cs) \<and>
    (\<forall>c \<in> set (butlast cs). int (length (ac_data c)) mod frame_size (pb_format p) = 0) \<and> \<not> pb_playing p'"
proof -
  let ?p0 = "playback_start p"
  obtain cs where cs: "split_pcm 0 (pb_format p) d pcm = Some cs"
    using assms(1) by (auto simp: play_bytes_def Let_def playback_start_def split: option.splits)
  have start: "\<not> vp_interrupted (pb_device ?p0)" "\<not> pb_interrupted ?p0"
    "vp_played (pb_device ?p0) = vp_played (pb_device p)"
    by (simp_all add: playback_start_def vplayback_start_def)
  obtain k where k: "vp_played (pb_device (play_loop cs stops ?p0)) = vp_played (pb_device ?p0) @ take k cs"
    "list_all Not stops \<and> \<not> pb_interrupted ?p0 \<longrightarrow> length cs \<le> k"
    using play_loop_played [of ?p0 cs stops] start by blast
  have "vp_played (pb_device p') = vp_played (pb_device (play_loop cs stops ?p0)) \<and> \<not> pb_playing p'"
    using assms(1) cs by (auto simp: play_bytes_def Let_def playback_start_def vplayback_drain_def)
  with k start cs split_pcm_bytes [OF cs assms(2,3)] show ?thesis by auto
qed

definition demo_playback :: playback where
  "demo_playback = \<lparr>pb_format = default_format\<lparr>af_sample_rate := 2\<rparr>,
     pb_device = \<lparr>vp_played = [], vp_playing = False, vp_interrupted = False\<rparr>,
     pb_interrupted = False, pb_playing = False\<rparr>"

theorem play_bytes_prefix_witness:
  "\<exists>p' cs. play_bytes (1 / 2) [1, 2, 3, 4, 5] [] demo_playback = Some p' \<and>
     vp_played (pb_device p') = cs \<and> chunk_bytes cs = [1, 2, 3, 4, 5]"
proof -
  have "play_bytes (1 / 2) [1, 2, 3, 4, 5] [] demo_playback \<noteq> None" by code_simp
  then obtain p' where p: "play_bytes (1 / 2) [1, 2, 3, 4, 5] [] demo_playback = Some p'" by auto
  have f: "pb_format demo_playback = default_format\<lparr>af_sample_rate := 2\<rparr>" "vp_played (pb_device demo_playback) = []"
    by (simp_all add: demo_playback_def)
  from play_bytes_prefix [OF p] show ?thesis using p by (auto simp: f default_format_def)
qed

end
