(* ===== verification/Voice_Session.thy ===== *)
theory Voice_Session
  imports Voice_Audio
begin

text \<open>
  The voice state machine (\<open>voice/state.py\<close>), the session (\<open>voice/session.py\<close>), the speech and voice
  contracts (\<open>voice/models.py\<close>) and the speech-to-text router (\<open>voice/stt/router.py\<close>). A listener is
  seen only through the transitions it is told (its exceptions are caught). A playback task is its
  number; \<open>done\<close> tells whether it has ended, and the session records the tasks it cancels.
\<close>

section \<open>Contracts\<close>

record transcript_segment =
  ts_text :: string
  ts_start_sec :: rat
  ts_end_sec :: rat
  ts_confidence :: rat
  ts_language :: "string option"

datatype stt_confidence = HIGH | MEDIUM | LOW

definition from_score :: "rat \<Rightarrow> stt_confidence" where
  "from_score s = (if 4 / 5 \<le> s then HIGH else if 1 / 2 \<le> s then MEDIUM else LOW)"

record transcript =
  tn_text :: string
  tn_segments :: "transcript_segment list"
  tn_language :: string
  tn_confidence :: rat
  tn_is_final :: bool
  tn_raw_text :: "string option"

definition confidence_tier :: "transcript \<Rightarrow> stt_confidence" where
  "confidence_tier t = from_score (tn_confidence t)"

record stt_request =
  sq_audio_bytes :: bytes
  sq_audio_format :: audio_format
  sq_language :: "string option"
  sq_prompt :: "string option"

record stt_result =
  st_text :: string
  st_segments :: "transcript_segment list"
  st_language :: string
  st_confidence :: rat
  st_is_final :: bool
  st_provider :: string
  st_latency_ms :: rat

definition to_transcript :: "stt_result \<Rightarrow> transcript" where
  "to_transcript r = \<lparr>tn_text = st_text r, tn_segments = st_segments r, tn_language = st_language r,
     tn_confidence = st_confidence r, tn_is_final = st_is_final r, tn_raw_text = Some (st_text r)\<rparr>"

record tts_request =
  tq_text :: string
  tq_voice :: string
  tq_speed :: rat
  tq_audio_format :: audio_format

record tts_result =
  tt_audio_bytes :: bytes
  tt_audio_format :: audio_format
  tt_duration_sec :: rat
  tt_provider :: string

record voice_request =
  vq_session_id :: string
  vq_correlation_id :: string
  vq_transcript :: transcript
  vq_language :: string
  vq_confidence :: rat

record voice_response =
  vs_session_id :: string
  vs_correlation_id :: string
  vs_text :: string
  vs_audio_metadata :: "audio_metadata option"
  vs_agent_status :: string
  vs_duration_sec :: rat

section \<open>The state machine\<close>

datatype voice_state = VIDLE | VLISTENING | VPROCESSING | VSPEAKING | VINTERRUPTED | VERROR

fun voice_state_value :: "voice_state \<Rightarrow> string" where
  "voice_state_value VIDLE = ''IDLE''"
| "voice_state_value VLISTENING = ''LISTENING''"
| "voice_state_value VPROCESSING = ''PROCESSING''"
| "voice_state_value VSPEAKING = ''SPEAKING''"
| "voice_state_value VINTERRUPTED = ''INTERRUPTED''"
| "voice_state_value VERROR = ''ERROR''"

fun VALID_TRANSITIONS :: "voice_state \<Rightarrow> voice_state list" where
  "VALID_TRANSITIONS VIDLE = [VLISTENING, VPROCESSING, VERROR]"
| "VALID_TRANSITIONS VLISTENING = [VPROCESSING, VIDLE, VERROR]"
| "VALID_TRANSITIONS VPROCESSING = [VSPEAKING, VIDLE, VERROR]"
| "VALID_TRANSITIONS VSPEAKING = [VIDLE, VINTERRUPTED, VERROR]"
| "VALID_TRANSITIONS VINTERRUPTED = [VLISTENING, VIDLE, VERROR]"
| "VALID_TRANSITIONS VERROR = [VIDLE]"

record state_machine =
  sm_current :: voice_state
  sm_notified :: "(voice_state \<times> voice_state) list"

definition machine_init :: "voice_state \<Rightarrow> state_machine" where
  "machine_init st = \<lparr>sm_current = st, sm_notified = []\<rparr>"

definition transition_to :: "voice_state \<Rightarrow> state_machine \<Rightarrow> state_machine \<times> string option" where
  "transition_to new m =
     (if new = sm_current m then (m, None)
      else if new \<notin> set (VALID_TRANSITIONS (sm_current m))
      then (m, Some (''Invalid voice state transition: '' @ quoted (voice_state_value (sm_current m)) @ '' -> ''
              @ quoted (voice_state_value new)))
      else (m\<lparr>sm_current := new, sm_notified := sm_notified m @ [(sm_current m, new)]\<rparr>, None))"

definition machine_reset :: "state_machine \<Rightarrow> state_machine" where
  "machine_reset m = (if sm_current m \<noteq> VIDLE then m\<lparr>sm_current := VIDLE\<rparr> else m)"

section \<open>The session\<close>

record voice_session =
  se_id :: string
  se_machine :: state_machine
  se_task :: "nat option"
  se_history :: "(voice_request \<times> voice_response) list"
  se_interrupted :: bool
  se_cancelled :: "nat list"

definition session_init :: "string \<Rightarrow> voice_session" where
  "session_init k = \<lparr>se_id = k, se_machine = machine_init VIDLE, se_task = None, se_history = [],
     se_interrupted = False, se_cancelled = []\<rparr>"

definition session_state :: "voice_session \<Rightarrow> voice_state" where
  "session_state s = sm_current (se_machine s)"

definition move :: "voice_state \<Rightarrow> voice_session \<Rightarrow> voice_session \<times> string option" where
  "move new s = (let (m, e) = transition_to new (se_machine s) in (s\<lparr>se_machine := m\<rparr>, e))"

definition start_listening :: "voice_session \<Rightarrow> voice_session \<times> string option" where
  "start_listening s = move VLISTENING (s\<lparr>se_interrupted := False\<rparr>)"

definition start_processing :: "voice_session \<Rightarrow> voice_session \<times> string option" where
  "start_processing s = move VPROCESSING s"

definition start_speaking :: "nat option \<Rightarrow> voice_session \<Rightarrow> voice_session \<times> string option" where
  "start_speaking task s = move VSPEAKING (s\<lparr>se_task := task\<rparr>)"

definition complete_turn ::
  "voice_request \<Rightarrow> voice_response \<Rightarrow> voice_session \<Rightarrow> voice_session \<times> string option" where
  "complete_turn q r s =
     (let s1 = s\<lparr>se_history := se_history s @ [(q, r)], se_task := None\<rparr>
      in if session_state s1 \<noteq> VIDLE then move VIDLE s1 else (s1, None))"

definition cancel_task :: "(nat \<Rightarrow> bool) \<Rightarrow> voice_session \<Rightarrow> voice_session" where
  "cancel_task done s =
     (case se_task s of
        None \<Rightarrow> s
      | Some t \<Rightarrow> s\<lparr>se_task := None, se_cancelled := (if done t then se_cancelled s else se_cancelled s @ [t])\<rparr>)"

definition session_interrupt :: "(nat \<Rightarrow> bool) \<Rightarrow> voice_session \<Rightarrow> voice_session \<times> string option" where
  "session_interrupt done s =
     (if session_state s = VSPEAKING then move VINTERRUPTED (cancel_task done (s\<lparr>se_interrupted := True\<rparr>))
      else (s, None))"

definition session_fail :: "voice_session \<Rightarrow> voice_session \<times> string option" where
  "session_fail s = move VERROR s"

definition session_reset :: "(nat \<Rightarrow> bool) \<Rightarrow> voice_session \<Rightarrow> voice_session" where
  "session_reset done s =
     (let s1 = cancel_task done s in s1\<lparr>se_machine := machine_reset (se_machine s1), se_interrupted := False\<rparr>)"

section \<open>Sequences of session calls\<close>

datatype session_call =
    CListen
  | CProcess
  | CSpeak nat
  | CComplete voice_request voice_response
  | CInterrupt
  | CFail
  | CReset

fun session_do :: "(nat \<Rightarrow> bool) \<Rightarrow> session_call \<Rightarrow> voice_session \<Rightarrow> voice_session \<times> string option" where
  "session_do done CListen s = start_listening s"
| "session_do done CProcess s = start_processing s"
| "session_do done (CSpeak t) s = start_speaking (Some t) s"
| "session_do done (CComplete q r) s = complete_turn q r s"
| "session_do done CInterrupt s = session_interrupt done s"
| "session_do done CFail s = session_fail s"
| "session_do done CReset s = (session_reset done s, None)"

inductive session_run :: "voice_session \<Rightarrow> session_call list \<Rightarrow> voice_session \<Rightarrow> bool" for s0 where
  start: "session_run s0 [] s0"
| call: "\<lbrakk>session_run s0 cs s; session_do done c s = (s', e)\<rbrakk> \<Longrightarrow> session_run s0 (cs @ [c]) s'"

lemma move_state: "move new s = (s', e) \<Longrightarrow>
    (if e = None then session_state s' = new else session_state s' = session_state s)"
  by (auto simp: move_def transition_to_def session_state_def split: if_splits)

lemma move_frame: "move new s = (s', e) \<Longrightarrow> se_task s' = se_task s \<and> se_history s' = se_history s \<and>
    se_interrupted s' = se_interrupted s \<and> se_cancelled s' = se_cancelled s \<and> se_id s' = se_id s"
  by (auto simp: move_def split: prod.splits)

lemma move_fails_iff: "(snd (move new s) = None) =
    (new = session_state s \<or> new \<in> set (VALID_TRANSITIONS (session_state s)))"
  by (auto simp: move_def transition_to_def session_state_def)

lemma move_notified: "move new s = (s', e) \<Longrightarrow>
    \<exists>l. sm_notified (se_machine s') = sm_notified (se_machine s) @ l \<and>
        (l = [] \<or> l = [(session_state s, session_state s')] \<and> session_state s' \<in> set (VALID_TRANSITIONS (session_state s)))"
  by (auto simp: move_def transition_to_def session_state_def split: if_splits)

lemma cancel_task_frame [simp]:
  "se_machine (cancel_task d s) = se_machine s" "session_state (cancel_task d s) = session_state s"
  "se_task (cancel_task d s) = None"
  by (auto simp: cancel_task_def session_state_def split: option.splits)

lemma session_state_update [simp]:
  "session_state (s\<lparr>se_interrupted := b\<rparr>) = session_state s" "session_state (s\<lparr>se_task := t\<rparr>) = session_state s"
  "session_state (s\<lparr>se_history := h, se_task := t\<rparr>) = session_state s"
  by (simp_all add: session_state_def)

text \<open>Every call is a reset or one move, on a session with the same machine.\<close>

lemma session_do_move:
  assumes "session_do done c s = (s', e)"
  shows "c = CReset \<and> s' = session_reset done s \<or> se_machine s' = se_machine s \<or>
         (\<exists>new t. move new t = (s', e) \<and> se_machine t = se_machine s)"
proof (cases c)
  case (CComplete q r)
  let ?t = "s\<lparr>se_history := se_history s @ [(q, r)], se_task := None\<rparr>"
  have "move VIDLE ?t = (s', e) \<or> s' = ?t"
    using assms CComplete by (auto simp: complete_turn_def Let_def split: if_splits)
  moreover have "se_machine ?t = se_machine s" by simp
  ultimately show ?thesis by metis
next
  case CInterrupt
  let ?t = "cancel_task done (s\<lparr>se_interrupted := True\<rparr>)"
  have "move VINTERRUPTED ?t = (s', e) \<or> s' = s"
    using assms CInterrupt by (auto simp: session_interrupt_def split: if_splits)
  moreover have "se_machine ?t = se_machine s" by simp
  ultimately show ?thesis by metis
next
  case CListen
  with assms show ?thesis
    by (intro disjI2 exI [of _ VLISTENING] exI [of _ "s\<lparr>se_interrupted := False\<rparr>"]) (simp add: start_listening_def)
next
  case (CSpeak t)
  with assms show ?thesis
    by (intro disjI2 exI [of _ VSPEAKING] exI [of _ "s\<lparr>se_task := Some t\<rparr>"]) (simp add: start_speaking_def)
qed (use assms in \<open>auto simp: start_processing_def session_fail_def\<close>)

text \<open>What the listeners are told is valid, whatever is called.\<close>

lemma session_do_notified:
  assumes "session_do done c s = (s', e)"
  shows "\<exists>l. sm_notified (se_machine s') = sm_notified (se_machine s) @ l \<and>
             list_all (\<lambda>(a, b). b \<in> set (VALID_TRANSITIONS a)) l"
  using session_do_move [OF assms]
proof (elim disjE exE conjE)
  fix new t
  assume "move new t = (s', e)" and "se_machine t = se_machine s"
  then show ?thesis using move_notified [of new t s' e] by fastforce
qed (auto simp: session_reset_def machine_reset_def Let_def intro: exI [of _ "[]"])

text \<open>
  The session follows the transition table. In every sequence of calls on a session, with whatever
  results, all transitions the listeners were told are in the table; and in the state ERROR no call
  but \<open>reset\<close> and \<open>complete_turn\<close> changes the state, and \<open>start_listening\<close>, \<open>start_processing\<close> and
  \<open>start_speaking\<close> raise; after \<open>reset\<close> the session is idle, has no playback task and can listen again.
\<close>

theorem session_follows_table:
  assumes "session_run (session_init k) cs s"
  shows "list_all (\<lambda>(a, b). b \<in> set (VALID_TRANSITIONS a)) (sm_notified (se_machine s)) \<and>
    (session_state s = VERROR \<longrightarrow>
       snd (start_listening s) \<noteq> None \<and> snd (start_processing s) \<noteq> None \<and> snd (start_speaking t s) \<noteq> None \<and>
       session_state (fst (start_listening s)) = VERROR \<and> session_state (fst (session_interrupt done s)) = VERROR) \<and>
    session_state (session_reset done s) = VIDLE \<and> se_task (session_reset done s) = None \<and>
    snd (start_listening (session_reset done s)) = None"
proof -
  have valid: "list_all (\<lambda>(a, b). b \<in> set (VALID_TRANSITIONS a)) (sm_notified (se_machine s))"
    using assms
  proof (induction rule: session_run.induct)
    case start
    show ?case by (simp add: session_init_def machine_init_def)
  next
    case (call cs s d c s' e)
    then show ?case using session_do_notified [OF call.hyps(2)] by auto
  qed
  have err: "snd (start_listening s) \<noteq> None \<and> snd (start_processing s) \<noteq> None \<and> snd (start_speaking t s) \<noteq> None \<and>
       session_state (fst (start_listening s)) = VERROR \<and> session_state (fst (session_interrupt done s)) = VERROR"
    if "session_state s = VERROR"
    using that by (auto simp: start_listening_def start_processing_def start_speaking_def session_interrupt_def
        move_def transition_to_def session_state_def)
  have idle: "session_state (session_reset done s) = VIDLE" "se_task (session_reset done s) = None"
    by (simp_all add: session_reset_def machine_reset_def session_state_def Let_def)
  have "snd (start_listening (session_reset done s)) = None"
    unfolding start_listening_def move_fails_iff using idle(1) by simp
  with valid err idle show ?thesis by blast
qed

section \<open>The speech-to-text router\<close>

text \<open>A provider: whether it is available, and how a transcription ends (left: an exception).\<close>

record 'w stt_provider =
  pr_available :: bool
  pr_transcribe :: "stt_request \<Rightarrow> 'w \<Rightarrow> 'w \<times> (string + stt_result)"

record 'w stt_router =
  sr_providers :: "'w stt_provider dict"
  sr_fastpath :: string
  sr_accurate :: string
  sr_threshold :: rat
  sr_max_duration :: rat

definition available_providers :: "'w stt_router \<Rightarrow> string list" where
  "available_providers R = map fst (filter (\<lambda>(_, p). pr_available p) (sr_providers R))"

definition audio_duration :: "stt_request \<Rightarrow> rat" where
  "audio_duration q = (let bps = bytes_per_second (sq_audio_format q)
     in if 0 < bps then of_nat (length (sq_audio_bytes q)) / of_int bps else 0)"

fun auxiliary :: "'w stt_router \<Rightarrow> stt_request \<Rightarrow> 'w stt_provider dict \<Rightarrow> 'w \<Rightarrow> 'w \<times> string list \<times> stt_result option" where
  "auxiliary R q [] w = (w, [], None)"
| "auxiliary R q ((k, p) # ps) w =
     (if k \<notin> {sr_fastpath R, sr_accurate R} \<and> pr_available p
      then case pr_transcribe p q w of
             (w1, Inr r) \<Rightarrow> (w1, [k], Some r)
           | (w1, Inl _) \<Rightarrow> (let (w2, ks, r) = auxiliary R q ps w1 in (w2, k # ks, r))
      else auxiliary R q ps w)"

text \<open>The result, with the providers asked; the left value is \<open>STTProviderUnavailableError\<close>.\<close>

definition stt_transcribe ::
  "'w stt_router \<Rightarrow> stt_request \<Rightarrow> 'w \<Rightarrow> 'w \<times> string list \<times> (string + stt_result)" where
  "stt_transcribe R q w =
     (let fast = dict_get (sr_providers R) (sr_fastpath R);
          accurate = dict_get (sr_providers R) (sr_accurate R);
          rest = (\<lambda>w asked. case auxiliary R q (sr_providers R) w of
                    (w2, ks, Some r) \<Rightarrow> (w2, asked @ ks, Inr r)
                  | (w2, ks, None) \<Rightarrow> (w2, asked @ ks,
                      Inl ''No STT provider was available or able to transcribe the audio payload.''));
          slow = (\<lambda>w asked. case accurate of
                    Some p \<Rightarrow> if pr_available p
                              then (case pr_transcribe p q w of
                                      (w1, Inr r) \<Rightarrow> (w1, asked @ [sr_accurate R], Inr r)
                                    | (w1, Inl _) \<Rightarrow> rest w1 (asked @ [sr_accurate R]))
                              else rest w asked
                  | None \<Rightarrow> rest w asked)
      in case fast of
           Some p \<Rightarrow>
             if pr_available p \<and> audio_duration q \<le> sr_max_duration R
             then (case pr_transcribe p q w of
                     (w1, Inr r) \<Rightarrow> if sr_threshold R \<le> st_confidence r \<and> strip (st_text r) \<noteq> []
                                   then (w1, [sr_fastpath R], Inr r) else slow w1 [sr_fastpath R]
                   | (w1, Inl _) \<Rightarrow> slow w1 [sr_fastpath R])
             else slow w []
         | None \<Rightarrow> slow w [])"

text \<open>The providers in the order in which the router may ask them.\<close>

definition stt_candidates :: "'w stt_router \<Rightarrow> stt_request \<Rightarrow> string list" where
  "stt_candidates R q =
     (case dict_get (sr_providers R) (sr_fastpath R) of
        Some p \<Rightarrow> if pr_available p \<and> audio_duration q \<le> sr_max_duration R then [sr_fastpath R] else []
      | None \<Rightarrow> [])
     @ (case dict_get (sr_providers R) (sr_accurate R) of
          Some p \<Rightarrow> if pr_available p then [sr_accurate R] else []
        | None \<Rightarrow> [])
     @ map fst (filter (\<lambda>(k, p). k \<notin> {sr_fastpath R, sr_accurate R} \<and> pr_available p) (sr_providers R))"

lemma auxiliary_asked:
  "auxiliary R q ps w = (w', ks, r) \<Longrightarrow>
     \<exists>rest. map fst (filter (\<lambda>(k, p). k \<notin> {sr_fastpath R, sr_accurate R} \<and> pr_available p) ps) = ks @ rest \<and>
            (r = None \<longrightarrow> rest = [])"
proof (induction R q ps w arbitrary: w' ks r rule: auxiliary.induct)
  case (2 R q k p ps w)
  show ?case
  proof (cases "k \<notin> {sr_fastpath R, sr_accurate R} \<and> pr_available p")
    case True
    obtain w1 o1 where t: "pr_transcribe p q w = (w1, o1)" by fastforce
    show ?thesis
    proof (cases o1)
      case (Inr x)
      with 2(3) True t show ?thesis by auto
    next
      case (Inl e)
      obtain w2 ks2 r2 where rec: "auxiliary R q ps w1 = (w2, ks2, r2)" by (metis prod_cases3)
      with 2(3) True t Inl have "ks = k # ks2 \<and> r = r2" by auto
      with 2(1) [OF True t [symmetric] Inl rec] True show ?thesis by auto
    qed
  next
    case False
    with 2(3) have "auxiliary R q ps w = (w', ks, r)" by auto
    with 2(2) [OF False] False show ?thesis by auto
  qed
qed simp

text \<open>
  Speech-to-text routing. The providers asked are a prefix of the candidates (the fast one if it is
  available and the audio short enough, the accurate one, then the other available ones in the order of
  registration); the error means that every candidate was asked, and no other error comes out. When the
  fast provider is the only candidate, a result below the confidence threshold is thrown away and
  the caller gets the error.
\<close>

theorem stt_router_outcome:
  "(\<exists>rest. stt_candidates R q = fst (snd (stt_transcribe R q w)) @ rest \<and>
      (case snd (snd (stt_transcribe R q w)) of
         Inr _ \<Rightarrow> True
       | Inl e \<Rightarrow> rest = [] \<and> e = ''No STT provider was available or able to transcribe the audio payload.'')) \<and>
   (\<forall>p w1 r. stt_candidates R q = [sr_fastpath R] \<and> sr_accurate R \<noteq> sr_fastpath R \<and>
      dict_get (sr_providers R) (sr_fastpath R) = Some p \<and> pr_transcribe p q w = (w1, Inr r) \<and>
      st_confidence r < sr_threshold R \<longrightarrow> (\<exists>e. snd (snd (stt_transcribe R q w)) = Inl e))"
proof -
  define aux where "aux = map fst (filter (\<lambda>(k, p). k \<notin> {sr_fastpath R, sr_accurate R} \<and> pr_available p) (sr_providers R))"
  define bad where "bad = ''No STT provider was available or able to transcribe the audio payload.''"
  define acc where "acc = (case dict_get (sr_providers R) (sr_accurate R) of
      Some p \<Rightarrow> if pr_available p then [sr_accurate R] else [] | None \<Rightarrow> [])"
  define rest where "rest = (\<lambda>w asked. case auxiliary R q (sr_providers R) w of
      (w2, ks, Some r) \<Rightarrow> (w2, asked @ ks, Inr r) | (w2, ks, None) \<Rightarrow> (w2, asked @ ks, Inl bad))"
  define slow where "slow = (\<lambda>w asked. case dict_get (sr_providers R) (sr_accurate R) of
      Some p \<Rightarrow> if pr_available p
                then (case pr_transcribe p q w of
                        (w1, Inr r) \<Rightarrow> (w1, asked @ [sr_accurate R], Inr r)
                      | (w1, Inl _) \<Rightarrow> rest w1 (asked @ [sr_accurate R]))
                else rest w asked
    | None \<Rightarrow> rest w asked)"
  define ok where "ok = (\<lambda>(cands :: string list) (res :: 'a \<times> string list \<times> (string + stt_result)). \<exists>rest. cands = fst (snd res) @ rest \<and>
      (case snd (snd res) of Inr _ \<Rightarrow> True | Inl e \<Rightarrow> rest = [] \<and> e = bad))"
  have rest_ok: "ok (asked @ aux) (rest w asked)" for w :: 'a and asked
  proof -
    obtain w2 ks r where a: "auxiliary R q (sr_providers R) w = (w2, ks, r)" by (metis prod_cases3)
    from auxiliary_asked [OF a] show ?thesis by (cases r) (auto simp: ok_def rest_def a aux_def)
  qed
  have slow_ok: "ok (asked @ acc @ aux) (slow w asked)" for w :: 'a and asked
  proof (cases "dict_get (sr_providers R) (sr_accurate R)")
    case None
    then show ?thesis using rest_ok by (simp add: slow_def acc_def)
  next
    case (Some p)
    obtain w1 o1 where t: "pr_transcribe p q w = (w1, o1)" by fastforce
    show ?thesis
    proof (cases "pr_available p")
      case True
      with rest_ok [of "asked @ [sr_accurate R]"] Some t show ?thesis
        by (cases o1) (auto simp: slow_def acc_def ok_def)
    qed (use rest_ok Some in \<open>simp add: slow_def acc_def\<close>)
  qed
  have eq: "stt_transcribe R q w = (case dict_get (sr_providers R) (sr_fastpath R) of
      Some p \<Rightarrow> if pr_available p \<and> audio_duration q \<le> sr_max_duration R
        then (case pr_transcribe p q w of
                (w1, Inr r) \<Rightarrow> if sr_threshold R \<le> st_confidence r \<and> strip (st_text r) \<noteq> []
                              then (w1, [sr_fastpath R], Inr r) else slow w1 [sr_fastpath R]
              | (w1, Inl _) \<Rightarrow> slow w1 [sr_fastpath R])
        else slow w []
    | None \<Rightarrow> slow w [])"
    by (simp only: stt_transcribe_def Let_def slow_def rest_def bad_def)
  have cand: "stt_candidates R q = (case dict_get (sr_providers R) (sr_fastpath R) of
        Some p \<Rightarrow> if pr_available p \<and> audio_duration q \<le> sr_max_duration R then [sr_fastpath R] else []
      | None \<Rightarrow> []) @ acc @ aux"
    by (simp only: stt_candidates_def acc_def aux_def)
  have 1: "ok (stt_candidates R q) (stt_transcribe R q w)"
  proof (cases "dict_get (sr_providers R) (sr_fastpath R)")
    case None
    with slow_ok [of "[]"] show ?thesis by (simp add: eq cand)
  next
    case (Some p)
    obtain w1 o1 where t: "pr_transcribe p q w = (w1, o1)" by fastforce
    show ?thesis
    proof (cases "pr_available p \<and> audio_duration q \<le> sr_max_duration R")
      case True
      with slow_ok [of "[sr_fastpath R]" w1] Some t show ?thesis
        by (cases o1) (auto simp: eq cand ok_def)
    qed (use slow_ok [of "[]" w] Some in \<open>auto simp: eq cand\<close>)
  qed
  moreover have "\<exists>e. snd (snd (stt_transcribe R q w)) = Inl e"
    if h: "stt_candidates R q = [sr_fastpath R]" "sr_accurate R \<noteq> sr_fastpath R"
      "dict_get (sr_providers R) (sr_fastpath R) = Some p" "pr_transcribe p q w = (w1, Inr r)"
      "st_confidence r < sr_threshold R" for p w1 r
  proof -
    have n: "sr_fastpath R \<notin> set (acc @ aux)" using h(2) by (auto simp: acc_def aux_def split: option.splits if_splits)
    have e: "pr_available p \<and> audio_duration q \<le> sr_max_duration R" "acc = []" "aux = []"
    proof -
      show e1: "pr_available p \<and> audio_duration q \<le> sr_max_duration R"
      proof (rule ccontr)
        assume "\<not> ?thesis"
        then have "acc @ aux = [sr_fastpath R]" using h(1,3) unfolding cand by auto
        with n show False by simp
      qed
      show "acc = []" "aux = []" using h(1,3) e1 unfolding cand by auto
    qed
    have "stt_transcribe R q w = slow w1 [sr_fastpath R]" using h e(1) by (simp add: eq)
    moreover have "ok ([sr_fastpath R] @ acc @ aux) (slow w1 [sr_fastpath R])" by (rule slow_ok)
    moreover have "slow w1 [sr_fastpath R] = rest w1 [sr_fastpath R]"
      using e(2) by (auto simp: slow_def acc_def split: option.splits if_splits)
    moreover obtain w2 ks r2 where a: "auxiliary R q (sr_providers R) w1 = (w2, ks, r2)" by (metis prod_cases3)
    moreover have "r2 = None"
    proof -
      have "map fst (filter (\<lambda>(k, p). k \<notin> {sr_fastpath R, sr_accurate R} \<and> pr_available p) ps) = [] \<Longrightarrow>
          snd (snd (auxiliary R q ps v)) = None" for ps v
        by (induction ps arbitrary: v) (auto split: if_splits)
      from this [of "sr_providers R" w1] e(3) a show ?thesis by (simp add: aux_def)
    qed
    ultimately show ?thesis by (simp add: rest_def)
  qed
  ultimately show ?thesis unfolding ok_def bad_def by blast
qed

definition demo_stt :: "nat stt_router" where
  "demo_stt = \<lparr>sr_providers = [(''vosk'', \<lparr>pr_available = True,
     pr_transcribe = (\<lambda>_ n. (Suc n, Inr \<lparr>st_text = ''hi'', st_segments = [], st_language = ''en'', st_confidence = 1 / 2,
        st_is_final = True, st_provider = ''vosk'', st_latency_ms = 0\<rparr>))\<rparr>)],
     sr_fastpath = ''vosk'', sr_accurate = ''whisper'', sr_threshold = 3 / 4, sr_max_duration = 5\<rparr>"

definition demo_stt_request :: stt_request where
  "demo_stt_request = \<lparr>sq_audio_bytes = [1, 2], sq_audio_format = default_format, sq_language = None, sq_prompt = None\<rparr>"

theorem stt_router_outcome_witness:
  "\<exists>e. snd (snd (stt_transcribe demo_stt demo_stt_request 0)) = Inl e"
proof -
  have "stt_candidates demo_stt demo_stt_request = [sr_fastpath demo_stt]" by code_simp
  moreover have "sr_accurate demo_stt \<noteq> sr_fastpath demo_stt" by (simp add: demo_stt_def)
  ultimately show ?thesis using stt_router_outcome [of demo_stt demo_stt_request 0]
    by (simp add: demo_stt_def)
qed

theorem session_follows_table_witness:
  "\<exists>s. session_run (session_init ''s'') [CFail, CListen] s \<and> session_state s = VERROR \<and>
       snd (start_listening s) \<noteq> None"
proof -
  define s1 where "s1 = fst (session_fail (session_init ''s''))"
  define s2 where "s2 = fst (start_listening s1)"
  have "session_run (session_init ''s'') [] (session_init ''s'')" by (rule session_run.start)
  from session_run.call [OF this, of "\<lambda>_. False" CFail s1 None]
  have "session_run (session_init ''s'') [CFail] s1"
    by (simp add: s1_def session_fail_def move_def transition_to_def session_init_def machine_init_def)
  from session_run.call [OF this, of "\<lambda>_. False" CListen s2 "snd (start_listening s1)"]
  have run: "session_run (session_init ''s'') [CFail, CListen] s2" by (simp add: s2_def)
  have "session_state s2 = VERROR" unfolding s2_def s1_def by code_simp
  with session_follows_table [OF run] run show ?thesis by blast
qed

end
