(* ===== verification/Voice_Vad.thy ===== *)
theory Voice_Vad
  imports Voice_Audio
begin

text \<open>
  Voice activity detection: the energy detector (\<open>voice/vad/energy.py\<close>), the scripted detector
  (\<open>voice/vad/mock.py\<close>) and the segmenter that cuts a stream of chunks into utterances
  (\<open>voice/vad/base.py\<close>). The clock is an argument. The locale \<open>detector\<close> is what the segmenter needs of
  a detector; both detectors are interpretations.
\<close>

record vad_result =
  vr_is_speech :: bool
  vr_confidence :: rat
  vr_energy :: rat

section \<open>The interface of a detector\<close>

text \<open>A reset forgets what the detector has heard.\<close>

locale detector =
  fixes proc :: "'v \<Rightarrow> audio_chunk \<Rightarrow> 'v \<times> vad_result"
    and rst :: "'v \<Rightarrow> 'v"
  assumes rst_proc: "rst (fst (proc v c)) = rst v"
    and rst_rst: "rst (rst v) = rst v"
begin

lemma rst_run: "rst (fold (\<lambda>c v. fst (proc v c)) cs v) = rst v"
  by (induction cs arbitrary: v) (simp_all add: rst_proc)

text \<open>After a reset nothing that was heard before it matters.\<close>

lemma proc_after_rst: "proc (rst (fold (\<lambda>c v. fst (proc v c)) cs v)) c = proc (rst v) c"
  by (simp add: rst_run)

end

section \<open>The energy detector\<close>

record energy_vad =
  ev_threshold :: rat
  ev_adaptive :: bool
  ev_rate :: rat
  ev_hangover :: nat
  ev_noise_floor :: rat
  ev_counter :: nat

definition energy_vad_init :: "rat \<Rightarrow> bool \<Rightarrow> rat \<Rightarrow> nat \<Rightarrow> energy_vad" where
  "energy_vad_init threshold adaptive rate hangover =
     \<lparr>ev_threshold = threshold, ev_adaptive = adaptive, ev_rate = rate, ev_hangover = hangover,
      ev_noise_floor = 100, ev_counter = 0\<rparr>"

definition energy_reset :: "energy_vad \<Rightarrow> energy_vad" where
  "energy_reset v = v\<lparr>ev_noise_floor := 100, ev_counter := 0\<rparr>"

definition active_threshold :: "energy_vad \<Rightarrow> rat" where
  "active_threshold v = (if ev_adaptive v then max (ev_threshold v) (ev_noise_floor v * (5 / 2)) else ev_threshold v)"

definition energy_step :: "energy_vad \<Rightarrow> rat \<Rightarrow> energy_vad \<times> vad_result" where
  "energy_step v rms =
     (let thr = active_threshold v;
          (v', speech) =
            (if thr \<le> rms then (v\<lparr>ev_counter := ev_hangover v\<rparr>, True)
             else if 0 < ev_counter v then (v\<lparr>ev_counter := ev_counter v - 1\<rparr>, True)
             else (if ev_adaptive v \<and> 10 < rms
                   then v\<lparr>ev_noise_floor := (1 - ev_rate v) * ev_noise_floor v + ev_rate v * rms\<rparr> else v, False));
          confidence = (if speech then min 1 (rms / max 1 (thr * (3 / 2))) else 0)
      in (v', \<lparr>vr_is_speech = speech, vr_confidence = confidence, vr_energy = rms\<rparr>))"

definition energy_process :: "(rat \<Rightarrow> rat) \<Rightarrow> energy_vad \<Rightarrow> audio_chunk \<Rightarrow> energy_vad \<times> vad_result" where
  "energy_process msqrt v c = energy_step v (calculate_pcm_rms msqrt (ac_data c) 2)"

interpretation energy: detector "energy_process msqrt" energy_reset for msqrt
  by unfold_locales
     (auto simp: energy_process_def energy_step_def energy_reset_def Let_def split: prod.splits if_splits)

section \<open>The scripted detector\<close>

record mock_vad =
  mv_default_speech :: bool
  mv_script :: "bool list"
  mv_calls :: nat

definition script_decisions :: "bool list \<Rightarrow> mock_vad \<Rightarrow> mock_vad" where
  "script_decisions ds v = v\<lparr>mv_script := ds, mv_calls := 0\<rparr>"

definition mock_reset :: "mock_vad \<Rightarrow> mock_vad" where
  "mock_reset v = v\<lparr>mv_calls := 0\<rparr>"

definition mock_process :: "mock_vad \<Rightarrow> audio_chunk \<Rightarrow> mock_vad \<times> vad_result" where
  "mock_process v c =
     (let speech = (if mv_calls v < length (mv_script v) then mv_script v ! mv_calls v else mv_default_speech v)
      in (v\<lparr>mv_calls := mv_calls v + 1\<rparr>,
          \<lparr>vr_is_speech = speech, vr_confidence = (if speech then 1 else 0), vr_energy = (if speech then 1000 else 50)\<rparr>))"

interpretation scripted: detector mock_process mock_reset
  by unfold_locales (auto simp: mock_process_def mock_reset_def Let_def)

section \<open>The segmenter\<close>

record seg_config =
  sc_format :: audio_format
  sc_silence_timeout :: rat
  sc_min_speech :: rat
  sc_max_utterance :: rat
  sc_padding :: int

record 'v segmenter =
  sg_vad :: 'v
  sg_pre :: "audio_chunk list"
  sg_speech :: "audio_chunk list"
  sg_detected :: bool
  sg_speech_start :: "rat option"
  sg_last_speech :: "rat option"
  sg_utterance_start :: "rat option"

definition seg_reset :: "('v \<Rightarrow> 'v) \<Rightarrow> 'v segmenter \<Rightarrow> 'v segmenter" where
  "seg_reset rst s = s\<lparr>sg_vad := rst (sg_vad s), sg_pre := [], sg_speech := [], sg_detected := False,
     sg_speech_start := None, sg_last_speech := None, sg_utterance_start := None\<rparr>"

definition seg_finalize ::
  "('v \<Rightarrow> 'v) \<Rightarrow> seg_config \<Rightarrow> bool \<Rightarrow> 'v segmenter \<Rightarrow> 'v segmenter \<times> bool \<times> bytes option" where
  "seg_finalize rst cfg forced s =
     (if sg_speech s = [] then (seg_reset rst s, True, Some [])
      else let total_bytes = sum_list (map (\<lambda>c. length (ac_data c)) (sg_speech s));
               bps = bytes_per_second (sc_format cfg);
               duration = (if 0 < bps then of_nat total_bytes / of_int bps else 0)
           in if \<not> forced \<and> duration < sc_min_speech cfg then (seg_reset rst s, False, None)
              else (seg_reset rst s, True, Some (chunk_bytes (sg_speech s))))"

definition seg_process ::
  "('v \<Rightarrow> audio_chunk \<Rightarrow> 'v \<times> vad_result) \<Rightarrow> ('v \<Rightarrow> 'v) \<Rightarrow> seg_config \<Rightarrow> rat \<Rightarrow> audio_chunk
     \<Rightarrow> 'v segmenter \<Rightarrow> 'v segmenter \<times> bool \<times> bytes option" where
  "seg_process proc rst cfg now chunk s =
     (let start = (case sg_utterance_start s of None \<Rightarrow> now | Some t \<Rightarrow> t);
          (v, r) = proc (sg_vad s) chunk;
          s = s\<lparr>sg_utterance_start := Some start, sg_vad := v\<rparr>;
          chunk = chunk\<lparr>ac_is_speech := vr_is_speech r\<rparr>
      in if sc_max_utterance cfg < now - start then seg_finalize rst cfg True s
         else if vr_is_speech r
         then let s1 = (if sg_detected s then s
                        else s\<lparr>sg_detected := True, sg_speech_start := Some now,
                               sg_speech := sg_speech s @ sg_pre s, sg_pre := []\<rparr>)
              in (s1\<lparr>sg_last_speech := Some now, sg_speech := sg_speech s1 @ [chunk]\<rparr>, False, None)
         else if \<not> sg_detected s
         then let pre = sg_pre s @ [chunk]
              in (s\<lparr>sg_pre := if sc_padding cfg < int (length pre) then tl pre else pre\<rparr>, False, None)
         else let s1 = s\<lparr>sg_speech := sg_speech s @ [chunk]\<rparr>;
                  last = (case sg_last_speech s of None \<Rightarrow> now | Some t \<Rightarrow> if t = 0 then now else t)
              in if sc_silence_timeout cfg \<le> now - last then seg_finalize rst cfg False s1
                 else (s1, False, None))"

section \<open>The energy detector: properties\<close>

fun energy_run :: "energy_vad \<Rightarrow> rat list \<Rightarrow> energy_vad \<times> bool list" where
  "energy_run v [] = (v, [])"
| "energy_run v (r # rs) =
     (let (v1, res) = energy_step v r; (v2, flags) = energy_run v1 rs in (v2, vr_is_speech res # flags))"

lemma threshold_le_active: "ev_threshold v \<le> active_threshold v"
  by (simp add: active_threshold_def)

lemma energy_run_Cons:
  "snd (energy_run v (r # rs)) = vr_is_speech (snd (energy_step v r)) # snd (energy_run (fst (energy_step v r)) rs)"
  by (simp split: prod.splits)

declare energy_run.simps(2) [simp del]

lemma silent_run:
  assumes "list_all (\<lambda>r. r < ev_threshold v) rs"
  shows "snd (energy_run v rs) =
    replicate (min (ev_counter v) (length rs)) True @ replicate (length rs - ev_counter v) False"
  using assms
proof (induction rs arbitrary: v)
  case (Cons r rs)
  then have low: "\<not> active_threshold v \<le> r" using threshold_le_active [of v] by auto
  obtain v1 res where st: "energy_step v r = (v1, res)" by fastforce
  have v1: "ev_threshold v1 = ev_threshold v" "ev_counter v1 = ev_counter v - 1"
    "vr_is_speech res = (0 < ev_counter v)"
    using st low by (auto simp: energy_step_def Let_def split: if_splits prod.splits)
  have "snd (energy_run v1 rs) =
      replicate (min (ev_counter v1) (length rs)) True @ replicate (length rs - ev_counter v1) False"
    using Cons v1 by simp
  moreover have "snd (energy_run v (r # rs)) = vr_is_speech res # snd (energy_run v1 rs)"
    by (simp add: st energy_run_Cons)
  ultimately show ?case using v1 by (cases "ev_counter v") auto
qed simp

text \<open>
  The hangover of the energy detector. After a chunk at or above the active threshold, the next
  \<open>hangover_frames\<close> chunks below the static threshold still count as speech and all further ones as
  silence, whatever the noise floor does; the confidence of every result lies between 0 and 1 for a
  non-negative energy and is 0 for silence.
\<close>

theorem energy_hangover:
  assumes "active_threshold v \<le> r" and "list_all (\<lambda>x. x < ev_threshold v) rs"
  shows "snd (energy_run v (r # rs)) =
      True # replicate (min (ev_hangover v) (length rs)) True @ replicate (length rs - ev_hangover v) False \<and>
    (0 \<le> x \<longrightarrow> 0 \<le> vr_confidence (snd (energy_step v x)) \<and> vr_confidence (snd (energy_step v x)) \<le> 1) \<and>
    (if vr_is_speech (snd (energy_step v x)) then True else vr_confidence (snd (energy_step v x)) = 0)"
proof -
  have st: "fst (energy_step v r) = v\<lparr>ev_counter := ev_hangover v\<rparr>" "vr_is_speech (snd (energy_step v r))"
    using assms(1) by (simp_all add: energy_step_def Let_def)
  then have "snd (energy_run v (r # rs)) = True # snd (energy_run (v\<lparr>ev_counter := ev_hangover v\<rparr>) rs)"
    by (simp add: energy_run_Cons st)
  moreover have "snd (energy_run (v\<lparr>ev_counter := ev_hangover v\<rparr>) rs) =
      replicate (min (ev_hangover v) (length rs)) True @ replicate (length rs - ev_hangover v) False"
    using silent_run [of "v\<lparr>ev_counter := ev_hangover v\<rparr>" rs] assms(2) by simp
  moreover have "0 \<le> x \<longrightarrow> 0 \<le> vr_confidence (snd (energy_step v x)) \<and> vr_confidence (snd (energy_step v x)) \<le> 1"
  proof
    assume "0 \<le> x"
    then have u: "0 \<le> min 1 (x / max 1 y)" "min 1 (x / max 1 y) \<le> 1" for y
      by (rule_tac min.boundedI, simp, intro divide_nonneg_nonneg) (auto simp: min.coboundedI1)
    have "vr_confidence (snd (energy_step v x)) =
        (if vr_is_speech (snd (energy_step v x)) then min 1 (x / max 1 (active_threshold v * (3 / 2))) else 0)"
      unfolding energy_step_def Let_def by (simp only: prod.case_distrib [of snd] split: prod.split) simp
    then show "0 \<le> vr_confidence (snd (energy_step v x)) \<and> vr_confidence (snd (energy_step v x)) \<le> 1"
      using u by simp
  qed
  moreover have "if vr_is_speech (snd (energy_step v x)) then True else vr_confidence (snd (energy_step v x)) = 0"
    by (simp add: energy_step_def Let_def split: prod.splits)
  ultimately show ?thesis by simp
qed

theorem energy_hangover_witness:
  "snd (energy_run (energy_vad_init 500 True (1 / 20) 2) [600, 20, 20, 20]) = [True, True, True, False]"
  using energy_hangover [of "energy_vad_init 500 True (1 / 20) 2" 600 "[20, 20, 20]" 0]
  by (simp add: energy_vad_init_def active_threshold_def numeral_2_eq_2)

section \<open>The segmenter: properties\<close>

text \<open>The segmenter over a timed stream, with the chunks heard since its last reset (as the segmenter
  marked them) as history and the utterances it completed.\<close>

fun seg_feed ::
  "('v \<Rightarrow> audio_chunk \<Rightarrow> 'v \<times> vad_result) \<Rightarrow> ('v \<Rightarrow> 'v) \<Rightarrow> seg_config \<Rightarrow> (rat \<times> audio_chunk) list
     \<Rightarrow> audio_chunk list \<times> 'v segmenter \<Rightarrow> audio_chunk list \<times> 'v segmenter" where
  "seg_feed proc rst cfg [] hs = hs"
| "seg_feed proc rst cfg ((now, c) # tcs) (h, s) =
     (let (s', _) = seg_process proc rst cfg now c s
      in seg_feed proc rst cfg tcs
           (if sg_utterance_start s' = None then []
            else h @ [c\<lparr>ac_is_speech := vr_is_speech (snd (proc (sg_vad s) c))\<rparr>], s'))"

text \<open>A piece of the stream that starts at most \<open>padding\<close> chunks before its first chunk of speech.\<close>

definition utterance_of :: "int \<Rightarrow> audio_chunk list \<Rightarrow> audio_chunk list \<Rightarrow> bool" where
  "utterance_of padding before seg =
     (\<exists>p c r. seg = p @ c # r \<and> ac_is_speech c \<and> (\<forall>x \<in> set (before @ p). \<not> ac_is_speech x) \<and>
        int (length p) \<le> max 0 padding \<and> (before \<noteq> [] \<longrightarrow> max 0 padding = int (length p)))"

definition seg_inv :: "seg_config \<Rightarrow> audio_chunk list \<Rightarrow> 'v segmenter \<Rightarrow> bool" where
  "seg_inv cfg h s =
     (if sg_detected s
      then sg_pre s = [] \<and> (\<exists>a. h = a @ sg_speech s \<and> utterance_of (sc_padding cfg) a (sg_speech s))
      else sg_speech s = [] \<and> (\<forall>x \<in> set h. \<not> ac_is_speech x) \<and>
           (\<exists>a. h = a @ sg_pre s \<and> int (length (sg_pre s)) \<le> max 0 (sc_padding cfg) \<and>
              (a \<noteq> [] \<longrightarrow> max 0 (sc_padding cfg) = int (length (sg_pre s)))))"

lemma seg_inv_reset: "seg_inv cfg [] (seg_reset rst s)"
  by (simp add: seg_inv_def seg_reset_def)

lemma utterance_of_snoc: "utterance_of k a seg \<Longrightarrow> utterance_of k a (seg @ [c])"
  unfolding utterance_of_def by fastforce

lemma seg_finalize_cases:
  assumes "seg_finalize rst cfg forced s = (s', b, out)"
  shows "s' = seg_reset rst s \<and> (b = (out \<noteq> None)) \<and> (\<forall>bs. out = Some bs \<longrightarrow> bs = chunk_bytes (sg_speech s))"
  using assms by (auto simp: seg_finalize_def Let_def chunk_bytes_def split: if_splits)

lemma pad_tl:
  assumes "h = a @ pre" and "int (length pre) \<le> max 0 k" and "a \<noteq> [] \<longrightarrow> max 0 k = int (length pre)"
    and pre'_def: "pre' = (if k < int (length (pre @ [c])) then tl (pre @ [c]) else pre @ [c])"
  shows "\<exists>a'. h @ [c] = a' @ pre' \<and> int (length pre') \<le> max 0 k \<and> (a' \<noteq> [] \<longrightarrow> max 0 k = int (length pre'))"
proof (cases "k < int (length (pre @ [c]))")
  case True
  then have len: "max 0 k = int (length pre)" using assms(2) by auto
  show ?thesis
  proof (cases pre)
    case Nil
    with True len show ?thesis by (intro exI [of _ "h @ [c]"]) (simp add: pre'_def)
  next
    case (Cons x xs)
    with True len assms(1) show ?thesis by (intro exI [of _ "a @ [x]"]) (simp add: pre'_def)
  qed
next
  case False
  then show ?thesis using assms by (intro exI [of _ a]) auto
qed

lemma seg_process_inv:
  assumes "seg_inv cfg h s" and "seg_process proc rst cfg now c s = (s', b, out)"
  defines "c' \<equiv> c\<lparr>ac_is_speech := vr_is_speech (snd (proc (sg_vad s) c))\<rparr>"
  shows "(if sg_utterance_start s' = None then s' = seg_reset rst (s'\<lparr>sg_vad := fst (proc (sg_vad s) c)\<rparr>)
          else b = False \<and> out = None \<and> seg_inv cfg (h @ [c']) s') \<and>
    (\<forall>bs. out = Some bs \<longrightarrow> (\<exists>a seg r. h @ [c'] = a @ seg @ r \<and> length r \<le> 1 \<and> bs = chunk_bytes seg \<and>
        (seg = [] \<or> utterance_of (sc_padding cfg) a seg)))"
proof -
  obtain v r where vr: "proc (sg_vad s) c = (v, r)" by fastforce
  define start where "start = (case sg_utterance_start s of None \<Rightarrow> now | Some t \<Rightarrow> t)"
  define s0 where "s0 = s\<lparr>sg_utterance_start := Some start, sg_vad := v\<rparr>"
  have c': "c' = c\<lparr>ac_is_speech := vr_is_speech r\<rparr>" by (simp add: c'_def vr)
  have s0: "sg_detected s0 = sg_detected s" "sg_speech s0 = sg_speech s" "sg_pre s0 = sg_pre s"
    "sg_vad s0 = v" "sg_last_speech s0 = sg_last_speech s" by (simp_all add: s0_def)
  have reset: "seg_reset rst t = seg_reset rst ((seg_reset rst t)\<lparr>sg_vad := v\<rparr>)" if "sg_vad t = v" for t
    using that by (simp add: seg_reset_def)
  note P = assms(2) [unfolded seg_process_def Let_def vr prod.case start_def [symmetric] s0_def [symmetric] c' [symmetric]]
  consider (forced) "sc_max_utterance cfg < now - start"
    | (speech) "\<not> sc_max_utterance cfg < now - start" "vr_is_speech r"
    | (silent) "\<not> sc_max_utterance cfg < now - start" "\<not> vr_is_speech r" "\<not> sg_detected s"
    | (ending) "\<not> sc_max_utterance cfg < now - start" "\<not> vr_is_speech r" "sg_detected s" by blast
  then show ?thesis
  proof cases
    case forced
    then have f: "seg_finalize rst cfg True s0 = (s', b, out)" using P by simp
    have "sg_speech s = [] \<or> (\<exists>a. h = a @ sg_speech s \<and> utterance_of (sc_padding cfg) a (sg_speech s))"
      using assms(1) by (auto simp: seg_inv_def split: if_splits)
    then have seg: "\<exists>a seg r. h @ [c'] = a @ seg @ r \<and> length r \<le> 1 \<and> chunk_bytes (sg_speech s) = chunk_bytes seg \<and>
        (seg = [] \<or> utterance_of (sc_padding cfg) a seg)"
    proof
      assume "sg_speech s = []"
      then show ?thesis by (intro exI [of _ "h @ [c']"] exI [of _ "[]"]) simp
    next
      assume "\<exists>a. h = a @ sg_speech s \<and> utterance_of (sc_padding cfg) a (sg_speech s)"
      then obtain a where "h = a @ sg_speech s" "utterance_of (sc_padding cfg) a (sg_speech s)" by blast
      then show ?thesis by (intro exI [of _ a] exI [of _ "sg_speech s"] exI [of _ "[c']"]) simp
    qed
    from seg_finalize_cases [OF f] seg reset [of s0] show ?thesis
      by (auto simp: s0 vr seg_reset_def)
  next
    case speech
    have out: "b = False" "out = None" "sg_utterance_start s' \<noteq> None" "sg_detected s'" "sg_pre s' = (if sg_detected s then sg_pre s else [])"
      "sg_speech s' = (if sg_detected s then sg_speech s else sg_speech s @ sg_pre s) @ [c']"
      using P speech by (auto simp: s0 s0_def)
    have "seg_inv cfg (h @ [c']) s'"
    proof (cases "sg_detected s")
      case True
      with assms(1) out show ?thesis by (auto simp: seg_inv_def utterance_of_snoc)
    next
      case False
      with assms(1) obtain a where a: "h = a @ sg_pre s" "sg_speech s = []" "\<forall>x \<in> set h. \<not> ac_is_speech x"
        "int (length (sg_pre s)) \<le> max 0 (sc_padding cfg)"
        "a \<noteq> [] \<longrightarrow> max 0 (sc_padding cfg) = int (length (sg_pre s))" by (auto simp: seg_inv_def)
      have "utterance_of (sc_padding cfg) a (sg_pre s @ [c'])"
        unfolding utterance_of_def using a speech(2)
        by (intro exI [of _ "sg_pre s"] exI [of _ c'] exI [of _ "[]"]) (auto simp: c')
      with a out False show ?thesis by (simp add: seg_inv_def)
    qed
    with out show ?thesis by auto
  next
    case silent
    let ?pre = "sg_pre s @ [c']"
    have out: "b = False" "out = None" "sg_utterance_start s' \<noteq> None" "\<not> sg_detected s'" "sg_speech s' = sg_speech s"
      "sg_pre s' = (if sc_padding cfg < int (length ?pre) then tl ?pre else ?pre)"
      using P silent by (auto simp: s0 s0_def)
    from assms(1) silent(3) obtain a where a: "h = a @ sg_pre s" "sg_speech s = []" "\<forall>x \<in> set h. \<not> ac_is_speech x"
        "int (length (sg_pre s)) \<le> max 0 (sc_padding cfg)"
        "a \<noteq> [] \<longrightarrow> max 0 (sc_padding cfg) = int (length (sg_pre s))" by (auto simp: seg_inv_def)
    have "\<exists>a'. h @ [c'] = a' @ sg_pre s' \<and> int (length (sg_pre s')) \<le> max 0 (sc_padding cfg) \<and>
        (a' \<noteq> [] \<longrightarrow> max 0 (sc_padding cfg) = int (length (sg_pre s')))"
      unfolding out(6) by (rule pad_tl [OF a(1,4,5) refl])
    with out a silent(2) show ?thesis by (auto simp: seg_inv_def c')
  next
    case ending
    define s1 where "s1 = s0\<lparr>sg_speech := sg_speech s0 @ [c']\<rparr>"
    from assms(1) ending(3) obtain a where a: "sg_pre s = []" "h = a @ sg_speech s"
      "utterance_of (sc_padding cfg) a (sg_speech s)" by (auto simp: seg_inv_def)
    have u: "utterance_of (sc_padding cfg) a (sg_speech s @ [c'])" by (rule utterance_of_snoc [OF a(3)])
    have "seg_finalize rst cfg False s1 = (s', b, out) \<or> (s' = s1 \<and> b = False \<and> out = None)"
      using P ending by (auto simp: s0 s1_def split: if_splits)
    then show ?thesis
    proof
      assume f: "seg_finalize rst cfg False s1 = (s', b, out)"
      have "\<exists>a seg r. h @ [c'] = a @ seg @ r \<and> length r \<le> 1 \<and> chunk_bytes (sg_speech s1) = chunk_bytes seg \<and>
          (seg = [] \<or> utterance_of (sc_padding cfg) a seg)"
        using a(2) u by (intro exI [of _ a] exI [of _ "sg_speech s @ [c']"] exI [of _ "[]"]) (simp add: s1_def s0)
      with seg_finalize_cases [OF f] reset [of s1] show ?thesis
        by (auto simp: s1_def s0 vr seg_reset_def)
    next
      assume "s' = s1 \<and> b = False \<and> out = None"
      then show ?thesis using a u ending(3) by (auto simp: seg_inv_def s1_def s0 s0_def)
    qed
  qed
qed

lemma seg_feed_inv:
  "seg_feed proc rst cfg tcs (h0, s0) = (h, s) \<Longrightarrow> seg_inv cfg h0 s0 \<Longrightarrow>
     seg_inv cfg h s \<and> (\<exists>pre. map ac_data h0 @ map (ac_data \<circ> snd) tcs = pre @ map ac_data h)"
proof (induction tcs arbitrary: h0 s0)
  case (Cons tc tcs)
  obtain now c where tc: "tc = (now, c)" by fastforce
  obtain s1 b out where p: "seg_process proc rst cfg now c s0 = (s1, b, out)" by (metis prod_cases3)
  define c' where "c' = c\<lparr>ac_is_speech := vr_is_speech (snd (proc (sg_vad s0) c))\<rparr>"
  define h1 where "h1 = (if sg_utterance_start s1 = None then [] else h0 @ [c'])"
  have feed: "seg_feed proc rst cfg tcs (h1, s1) = (h, s)"
    using Cons.prems(1) by (simp only: tc seg_feed.simps Let_def p prod.case h1_def c'_def)
  note step = seg_process_inv [OF Cons.prems(2) p, folded c'_def]
  have inv: "seg_inv cfg h1 s1"
  proof (cases "sg_utterance_start s1 = None")
    case True
    with step have "s1 = seg_reset rst (s1\<lparr>sg_vad := fst (proc (sg_vad s0) c)\<rparr>)" by simp
    then have "seg_inv cfg [] s1" by (metis seg_inv_reset)
    with True show ?thesis by (simp add: h1_def)
  next
    case False
    with step show ?thesis by (auto simp: h1_def)
  qed
  obtain pre where "map ac_data h1 @ map (ac_data \<circ> snd) tcs = pre @ map ac_data h" "seg_inv cfg h s"
    using Cons.IH [OF feed inv] by blast
  moreover have "ac_data c' = ac_data c" by (simp add: c'_def)
  ultimately show ?case
  proof (cases "sg_utterance_start s1 = None")
    case True
    with \<open>map ac_data h1 @ _ = _\<close> \<open>seg_inv cfg h s\<close> show ?thesis
      by (intro conjI exI [of _ "map ac_data h0 @ ac_data c # pre"]) (simp_all add: h1_def tc comp_def)
  next
    case False
    with \<open>map ac_data h1 @ _ = _\<close> \<open>seg_inv cfg h s\<close> \<open>ac_data c' = _\<close> show ?thesis
      by (intro conjI exI [of _ pre]) (auto simp: h1_def tc comp_def)
  qed
qed (auto intro: exI [of _ "[]"])

text \<open>
  C34. An utterance is one uninterrupted piece of the stream. Whatever the detector says and however
  the stream went on since the segmenter was last reset, an utterance it completes consists of
  consecutive chunks of the stream: it starts with the padding before the first chunk of speech (the
  configured number of chunks, or all there are) and leaves out nothing until the current chunk, which
  is missing only when the time limit cut the utterance; it is empty when no speech was heard, and the
  segmenter is reset.
\<close>

theorem utterance_contiguous:
  assumes "seg_feed proc rst cfg tcs ([], seg_reset rst s0) = (h, s)"
    and "seg_process proc rst cfg now c s = (s', True, Some bs)"
  defines "c' \<equiv> c\<lparr>ac_is_speech := vr_is_speech (snd (proc (sg_vad s) c))\<rparr>"
  shows "(\<exists>pre. map (ac_data \<circ> snd) tcs = pre @ map ac_data h) \<and>
    (\<exists>a seg r. h @ [c'] = a @ seg @ r \<and> length r \<le> 1 \<and> bs = chunk_bytes seg \<and>
       (seg = [] \<or> utterance_of (sc_padding cfg) a seg)) \<and>
    sg_speech s' = [] \<and> sg_pre s' = [] \<and> sg_utterance_start s' = None"
proof -
  have inv: "seg_inv cfg h s" "\<exists>pre. map (ac_data \<circ> snd) tcs = pre @ map ac_data h"
    using seg_feed_inv [OF assms(1) seg_inv_reset] by auto
  note step = seg_process_inv [OF inv(1) assms(2), folded c'_def]
  then have n: "sg_utterance_start s' = None" by (rule_tac ccontr) simp
  with step have eq: "s' = seg_reset rst (s'\<lparr>sg_vad := fst (proc (sg_vad s) c)\<rparr>)" by simp
  have "sg_speech s' = []" "sg_pre s' = []" by (subst eq, simp add: seg_reset_def)+
  moreover have "\<exists>a seg r. h @ [c'] = a @ seg @ r \<and> length r \<le> 1 \<and> bs = chunk_bytes seg \<and>
       (seg = [] \<or> utterance_of (sc_padding cfg) a seg)" using conjunct2 [OF step] by blast
  ultimately show ?thesis using n inv(2) by blast
qed

text \<open>
  Recording ends. Once the time since the first chunk of an utterance exceeds the limit, the next
  chunk completes it, whatever the detector says and however short the speech was; within the limit a
  chunk of speech never completes it.
\<close>

theorem utterance_ends:
  assumes "sg_utterance_start s = Some t"
  shows "if sc_max_utterance cfg < now - t
    then fst (snd (seg_process proc rst cfg now c s))
    else vr_is_speech (snd (proc (sg_vad s) c)) \<longrightarrow> \<not> fst (snd (seg_process proc rst cfg now c s))"
  using assms by (auto simp: seg_process_def seg_finalize_def Let_def split: prod.splits)

definition demo_chunk :: "8 word \<Rightarrow> audio_chunk" where
  "demo_chunk b = \<lparr>ac_data = [b], ac_sequence = 0, ac_duration_sec = 0, ac_is_speech = False\<rparr>"

definition demo_seg :: "mock_vad segmenter" where
  "demo_seg = \<lparr>sg_vad = \<lparr>mv_default_speech = False, mv_script = [False, False, True], mv_calls = 0\<rparr>,
     sg_pre = [], sg_speech = [], sg_detected = False, sg_speech_start = None, sg_last_speech = None,
     sg_utterance_start = None\<rparr>"

definition demo_seg_config :: seg_config where
  "demo_seg_config = \<lparr>sc_format = default_format, sc_silence_timeout = 1, sc_min_speech = 0,
     sc_max_utterance = 30, sc_padding = 1\<rparr>"

definition demo_stream :: "(rat \<times> audio_chunk) list" where
  "demo_stream = [(1, demo_chunk 1), (2, demo_chunk 2), (3, demo_chunk 3)]"

theorem utterance_contiguous_witness:
  "\<exists>a seg r. seg_process mock_process mock_reset demo_seg_config 4 (demo_chunk 4)
       (snd (seg_feed mock_process mock_reset demo_seg_config demo_stream ([], seg_reset mock_reset demo_seg)))
       = (seg_reset mock_reset (demo_seg\<lparr>sg_vad := (sg_vad demo_seg)\<lparr>mv_calls := 0\<rparr>\<rparr>), True, Some [2, 3, 4]) \<and>
     [2, 3, 4] = chunk_bytes seg \<and> length (a @ seg @ r) = 4"
proof -
  let ?h = "fst (seg_feed mock_process mock_reset demo_seg_config demo_stream ([], seg_reset mock_reset demo_seg))"
  let ?s = "snd (seg_feed mock_process mock_reset demo_seg_config demo_stream ([], seg_reset mock_reset demo_seg))"
  have f: "seg_feed mock_process mock_reset demo_seg_config demo_stream ([], seg_reset mock_reset demo_seg) = (?h, ?s)"
    by simp
  have e: "seg_process mock_process mock_reset demo_seg_config 4 (demo_chunk 4) ?s
      = (seg_reset mock_reset (demo_seg\<lparr>sg_vad := (sg_vad demo_seg)\<lparr>mv_calls := 0\<rparr>\<rparr>), True, Some [2, 3, 4])"
    by code_simp
  have l: "length ?h = 3" by code_simp
  from utterance_contiguous [OF f e] obtain a seg r where
    "?h @ [(demo_chunk 4)\<lparr>ac_is_speech := vr_is_speech (snd (mock_process (sg_vad ?s) (demo_chunk 4)))\<rparr>] = a @ seg @ r"
    "[2, 3, 4] = chunk_bytes seg" by blast
  moreover from arg_cong [OF calculation(1), of length] have "length (a @ seg @ r) = 4" by (simp add: l)
  ultimately show ?thesis using e by blast
qed

theorem utterance_ends_witness:
  "fst (snd (seg_process mock_process mock_reset demo_seg_config 32 (demo_chunk 1)
     (demo_seg\<lparr>sg_utterance_start := Some 1\<rparr>)))"
  using utterance_ends [where s = "demo_seg\<lparr>sg_utterance_start := Some 1\<rparr>" and t = 1 and cfg = demo_seg_config and now = 32]
  by (simp add: demo_seg_config_def)

end
