(* ===== verification/Voice_Security.thy ===== *)
theory Voice_Security
  imports Voice_Audio Sandbox Py_Regex
begin

text \<open>
  The audio security manager (\<open>voice/security/manager.py\<close>): limits, formats, temporary file names and
  the scrubbing of event payloads. Symbolic links are a predicate of the file system, the parameter
  \<open>symlink\<close>. The promise of \<open>resolve_safe_temp_path\<close> is that of the path sandbox, the locale \<open>confined\<close>.
\<close>

record audio_security =
  as_temp_dir :: "string list"
  as_max_duration :: rat
  as_max_size :: nat

datatype audio_error = VoiceSecurityError string | VoiceTimeoutError string | UnsupportedAudioFormatError string

definition validate_audio_size :: "audio_security \<Rightarrow> bytes \<Rightarrow> audio_error option" where
  "validate_audio_size a bs =
     (if as_max_size a < length bs
      then Some (VoiceSecurityError (''Audio payload size ('' @ show_nat (length bs) @ '' bytes) exceeds maximum allowable limit of ''
             @ show_nat (as_max_size a) @ '' bytes''))
      else None)"

definition validate_audio_duration :: "audio_security \<Rightarrow> rat \<Rightarrow> audio_error option" where
  "validate_audio_duration a d =
     (if as_max_duration a < d then Some (VoiceTimeoutError ''Audio duration exceeds maximum allowed recording limit'') else None)"

definition validate_audio_format :: "audio_format \<Rightarrow> audio_error option" where
  "validate_audio_format f =
     (if af_sample_rate f \<notin> {8000, 16000, 22050, 24000, 44100, 48000}
      then Some (UnsupportedAudioFormatError (''Unsupported sample rate: '' @ show_int (af_sample_rate f)
             @ ''Hz. Must be one of [8000, 16000, 22050, 24000, 44100, 48000]''))
      else if af_channels f \<notin> {1, 2}
      then Some (UnsupportedAudioFormatError (''Unsupported channel count: '' @ show_int (af_channels f)
             @ ''. Only mono (1) and stereo (2) are supported.''))
      else if af_sample_width f \<notin> {1, 2, 4}
      then Some (UnsupportedAudioFormatError (''Unsupported sample width: '' @ show_int (af_sample_width f)
             @ '' bytes. Must be 1 (8-bit), 2 (16-bit), or 4 (32-bit).''))
      else None)"

section \<open>Temporary files\<close>

definition backslash :: char where "backslash = char_of (92::nat)"

definition name_class :: "char \<Rightarrow> bool" where
  "name_class c = (is_word c \<or> c = CHR ''.'' \<or> c = CHR ''-'')"

definition dots_pattern :: rx where
  "dots_pattern = r_seq [r_one (\<lambda>c. c = CHR ''.''), r_plus (\<lambda>c. c = CHR ''.'')]"

definition audio_sanitize_filename :: "string \<Rightarrow> string" where
  "audio_sanitize_filename filename =
     (let s1 = map (\<lambda>c. if c = CHR ''/'' \<or> c = backslash then CHR ''_'' else c) (filter (\<lambda>c. c \<noteq> nul) filename);
          s2 = rx_sub dots_pattern (\<lambda>_. ''_'') s1;
          cleaned = rx_sub (r_one (\<lambda>c. \<not> name_class c)) (\<lambda>_. ''_'') s2
      in if cleaned = [] \<or> starts_with cleaned ''.'' then ''audio_'' @ cleaned else cleaned)"

definition resolve_safe_temp_path ::
  "file_system \<Rightarrow> (string list \<Rightarrow> bool) \<Rightarrow> string list \<Rightarrow> string \<Rightarrow> string + string list" where
  "resolve_safe_temp_path fs symlink temp filename =
     (if contains filename ''..'' \<or> starts_with filename ''/'' \<or> starts_with filename [backslash]
      then Inl (''Path traversal detected in audio temporary filename: '' @ quoted filename @ '' attempts directory traversal'')
      else let safe_name = audio_sanitize_filename filename
           in case fs_resolve fs (temp @ [safe_name]) of
                Inl e \<Rightarrow> Inl e
              | Inr candidate \<Rightarrow>
                  if \<not> is_relative_to candidate temp
                  then Inl (''Path traversal detected in audio temporary filename: '' @ quoted filename
                            @ '' resolves outside '' @ quoted (path_text temp))
                  else if symlink candidate
                  then Inl (''Symlinks are prohibited in audio temp files: '' @ quoted (path_text candidate))
                  else Inr candidate)"

text \<open>\<open>cleanup_temp_file\<close>: the file it removes, if any; its exceptions are caught.\<close>

definition cleanup_temp_file :: "file_system \<Rightarrow> (string list \<Rightarrow> bool) \<Rightarrow> string list \<Rightarrow> string list \<Rightarrow> string list option" where
  "cleanup_temp_file fs is_file temp path =
     (case fs_resolve fs path of
        Inl _ \<Rightarrow> None
      | Inr resolved \<Rightarrow> if is_relative_to resolved temp \<and> fs_exists fs resolved \<and> is_file resolved
                       then Some resolved else None)"

interpretation tmp: confined "resolve_safe_temp_path fs symlink temp" "inside_root temp" for fs symlink temp
  by unfold_locales
     (auto simp: resolve_safe_temp_path_def Let_def is_relative_to_iff split: if_splits sum.splits)

section \<open>Event payloads\<close>

definition token_chars :: "char \<Rightarrow> bool" where
  "token_chars c = (is_ascii_alnum c \<or> c = CHR ''_'' \<or> c = CHR ''-'')"

definition VOICE_SECRET_PATTERNS :: "(rx \<times> string) list" where
  "VOICE_SECRET_PATTERNS =
     [(RSeq (r_lit ''sk-ant-'') (r_atleast 20 token_chars), ''[REDACTED_ANTHROPIC_KEY]''),
      (RSeq (r_lit ''sk-'') (r_atleast 20 token_chars), ''[REDACTED_OPENAI_KEY]''),
      (RSeq (r_lit ''AIza'') (r_times 35 token_chars), ''[REDACTED_GEMINI_KEY]''),
      (RSeq (r_lit ''ghp_'') (r_times 36 is_ascii_alnum), ''[REDACTED_GITHUB_TOKEN]''),
      (RSeq (r_lit ''hf_'') (r_times 34 is_ascii_alnum), ''[REDACTED_HF_TOKEN]''),
      (RSeq (RSeq (r_lit_ci ''Bearer'') (r_plus is_space)) (r_atleast 20 (\<lambda>c. token_chars c \<or> c = CHR ''.'')),
       ''Bearer [REDACTED_TOKEN]'')]"

definition scrub_voice_text :: "string \<Rightarrow> string" where
  "scrub_voice_text s = fold (\<lambda>(pat, repl) t. rx_sub pat (\<lambda>_. repl) t) VOICE_SECRET_PATTERNS s"

definition RAW_AUDIO_KEYS :: "string list" where
  "RAW_AUDIO_KEYS = [''audio_bytes'', ''raw_audio'', ''pcm_bytes'', ''wav_bytes'']"

definition omitted_audio :: string where "omitted_audio = ''[OMITTED_RAW_AUDIO]''"

fun scrub_payload_value :: "pyval \<Rightarrow> pyval" and scrub_telemetry_payload :: "pyval dict \<Rightarrow> pyval dict" where
  "scrub_payload_value (PStr s) = PStr (scrub_voice_text s)"
| "scrub_payload_value (PDict d) = PDict (scrub_telemetry_payload d)"
| "scrub_payload_value v = v"
| "scrub_telemetry_payload [] = []"
| "scrub_telemetry_payload ((k, v) # d) =
     (k, if lower k \<in> set RAW_AUDIO_KEYS then PStr omitted_audio else scrub_payload_value v) # scrub_telemetry_payload d"

text \<open>All entries of a payload and of the dictionaries nested in it.\<close>

fun entries_of :: "pyval \<Rightarrow> (string \<times> pyval) list" and payload_entries :: "pyval dict \<Rightarrow> (string \<times> pyval) list" where
  "entries_of (PDict d) = payload_entries d"
| "entries_of v = []"
| "payload_entries [] = []"
| "payload_entries ((k, v) # d) = (k, v) # entries_of v @ payload_entries d"

lemma scrub_no_audio:
  "\<forall>(k, u) \<in> set (entries_of (scrub_payload_value v)). lower k \<in> set RAW_AUDIO_KEYS \<longrightarrow> u = PStr omitted_audio"
  "\<forall>(k, u) \<in> set (payload_entries (scrub_telemetry_payload d)). lower k \<in> set RAW_AUDIO_KEYS \<longrightarrow> u = PStr omitted_audio"
  by (induction v and d rule: scrub_payload_value_scrub_telemetry_payload.induct) auto

section \<open>File names: properties\<close>

definition is_dot :: "char \<Rightarrow> bool" where "is_dot c = (c = CHR ''.'')"

lemma dots_run:
  "rx_run dots_pattern (p, c # s, None) =
     (if is_dot c \<and> s \<noteq> [] \<and> is_dot (hd s)
      then (let k = length (takeWhile is_dot (c # s)) in
            map (\<lambda>j. advance j (p, c # s, None)) (rev [2..<Suc k])) else [])"
  (is "?l = ?r")
proof -
  have d: "(\<lambda>c. c = CHR ''.'') = is_dot" by (simp add: is_dot_def fun_eq_iff)
  have one: "rx_run (r_one is_dot) (p, c # s, None) = (if is_dot c then [(Some c, s, None)] else [])"
    by (simp add: r_one_def cls_reach_def Let_def advance_def)
  have plus: "rx_run (RSeq (r_plus is_dot) r_empty) (q, s, None) =
      map (\<lambda>k. advance k (q, s, None)) (rev [1..<Suc (length (takeWhile is_dot s))])" for q
  proof -
    have e: "rx_run r_empty st = [st]" for st
    proof (cases st)
      case (fields q b g)
      have "takeWhile (\<lambda>_. False) b = []" by (cases b) auto
      with fields show ?thesis by (simp add: r_empty_def cls_reach_def advance_def Let_def)
    qed
    have c: "concat (map (rx_run r_empty) xs) = xs" for xs by (induction xs) (simp_all add: e)
    show ?thesis unfolding rx_run.simps(2) c by (simp add: r_plus_def cls_reach_def Let_def del: upt_Suc)
  qed
  have adv: "advance k (Some c, s, None) = advance (Suc k) (p, c # s, None)" if "1 \<le> k" for k
    using that by (cases k) (auto simp: advance_def)
  have shift: "map (\<lambda>k. advance k (Some c, s, None)) (rev [1..<Suc n]) =
      map (\<lambda>j. advance j (p, c # s, None)) (rev [2..<Suc (Suc n)])" for n
  proof -
    have "[2..<Suc (Suc n)] = map Suc [1..<Suc n]" by (simp add: map_Suc_upt numeral_2_eq_2)
    then have "rev [2..<Suc (Suc n)] = map Suc (rev [1..<Suc n])" by (simp only: rev_map)
    then show ?thesis using adv by (auto simp del: upt_Suc)
  qed
  have "?l = concat (map (rx_run (RSeq (r_plus is_dot) r_empty)) (rx_run (r_one is_dot) (p, c # s, None)))"
    by (simp add: dots_pattern_def r_seq_def d)
  then have l: "?l = (if is_dot c then map (\<lambda>k. advance k (Some c, s, None)) (rev [1..<Suc (length (takeWhile is_dot s))]) else [])"
    unfolding one by (cases "is_dot c") (simp_all only: plus if_True if_False list.map concat.simps append_Nil2)
  show ?thesis
  proof (cases "is_dot c \<and> s \<noteq> [] \<and> is_dot (hd s)")
    case True
    then show ?thesis by (simp only: l shift if_True Let_def takeWhile.simps list.size) simp
  next
    case False
    then have "is_dot c \<Longrightarrow> takeWhile is_dot s = []" by (cases s) auto
    with False show ?thesis by (auto simp: l)
  qed
qed

lemma dots_gone:
  "\<not> contains (rx_sub_at dots_pattern (\<lambda>_. ''_'') p s) ''..'' \<and>
   (starts_with (rx_sub_at dots_pattern (\<lambda>_. ''_'') p s) ''.'' \<longrightarrow> starts_with s ''.'')"
proof (induction "length s" arbitrary: p s rule: less_induct)
  case less
  show ?case
  proof (cases s)
    case Nil
    then show ?thesis by (simp add: starts_with_def)
  next
    case (Cons c t)
    show ?thesis
    proof (cases "is_dot c \<and> t \<noteq> [] \<and> is_dot (hd t)")
      case False
      then have run: "rx_run dots_pattern (p, c # t, None) = []" unfolding dots_run by simp
      have IH: "\<not> contains (rx_sub_at dots_pattern (\<lambda>_. ''_'') (Some c) t) ''..''"
        "starts_with (rx_sub_at dots_pattern (\<lambda>_. ''_'') (Some c) t) ''.'' \<longrightarrow> starts_with t ''.''"
        using less [of t "Some c"] Cons by auto
      have "\<not> starts_with (c # rx_sub_at dots_pattern (\<lambda>_. ''_'') (Some c) t) ''..''"
        using IH(2) False by (cases t; cases "rx_sub_at dots_pattern (\<lambda>_. ''_'') (Some c) t")
          (auto simp: starts_with_def is_dot_def)
      with IH(1) run show ?thesis by (simp add: Cons starts_with_def)
    next
      case True
      define k where "k = length (takeWhile is_dot (c # t))"
      have k2: "2 \<le> k" using True by (cases t) (auto simp: k_def)
      then have "rev [2..<Suc k] = k # rev [2..<k]" by simp
      then have "rx_run dots_pattern (p, c # t, None) = advance k (p, c # t, None) #
          map (\<lambda>j. advance j (p, c # t, None)) (rev [2..<k])"
        using True by (simp only: dots_run if_True Let_def k_def [symmetric] list.map) simp
      then obtain ms p' g' where run: "rx_run dots_pattern (p, c # t, None) = (p', drop k (c # t), g') # ms"
        by (auto simp: advance_def)
      have len: "length (drop k (c # t)) < length (c # t)" using k2 by simp
      have IH: "\<not> contains (rx_sub_at dots_pattern (\<lambda>_. ''_'') p' (drop k (c # t))) ''..''"
        using less [of "drop k (c # t)" p'] len Cons by blast
      have "rx_sub_at dots_pattern (\<lambda>_. ''_'') p (c # t) = CHR ''_'' # rx_sub_at dots_pattern (\<lambda>_. ''_'') p' (drop k (c # t))"
        using run len by simp
      with IH True show ?thesis unfolding Cons by (simp only: contains.simps) (simp add: starts_with_def is_dot_def)
    qed
  qed
qed

lemma contains_map_dots:
  assumes "contains (map f s) ''..''" and "\<And>c. f c = CHR ''.'' \<Longrightarrow> c = CHR ''.''"
  shows "contains s ''..''"
proof -
  from assms(1) obtain a b where "map f s = a @ CHR ''.'' # CHR ''.'' # b" by (auto simp: contains_iff)
  then obtain s1 x y s2 where "s = s1 @ x # y # s2" "f x = CHR ''.''" "f y = CHR ''.''"
    by (auto simp: map_eq_append_conv map_eq_Cons_conv)
  with assms(2) show ?thesis unfolding contains_iff by (metis append_Cons append_Nil)
qed

lemma audio_name_ok:
  "audio_sanitize_filename f \<noteq> [] \<and> list_all name_class (audio_sanitize_filename f) \<and>
   \<not> contains (audio_sanitize_filename f) ''..'' \<and> \<not> starts_with (audio_sanitize_filename f) ''.''"
proof -
  define s2 where "s2 = rx_sub dots_pattern (\<lambda>_. ''_'')
     (map (\<lambda>c. if c = CHR ''/'' \<or> c = backslash then CHR ''_'' else c) (filter (\<lambda>c. c \<noteq> nul) f))"
  define cl where "cl = map (\<lambda>c. if \<not> name_class c then CHR ''_'' else c) s2"
  have eq: "audio_sanitize_filename f = (if cl = [] \<or> starts_with cl ''.'' then ''audio_'' @ cl else cl)"
    by (simp add: audio_sanitize_filename_def Let_def s2_def [symmetric] rx_sub_one cl_def)
  have under: "name_class (CHR ''_'')" by (simp add: name_class_def is_word_def)
  have nc: "list_all name_class cl" using under by (auto simp: cl_def list_all_iff)
  have "\<not> contains s2 ''..''" using dots_gone by (simp add: s2_def rx_sub_def)
  moreover have "c = CHR ''.''" if "(if \<not> name_class c then CHR ''_'' else c) = CHR ''.''" for c
    using that by (simp split: if_splits)
  ultimately have nd: "\<not> contains cl ''..''"
    unfolding cl_def using contains_map_dots [of "\<lambda>c. if \<not> name_class c then CHR ''_'' else c" s2] by blast
  have nd': "\<not> contains (''audio_'' @ cl) ''..''"
    using nd by (simp add: starts_with_def)
  have "list_all name_class ''audio_''" by code_simp
  with nc nd nd' show ?thesis by (simp add: eq starts_with_def)
qed

text \<open>
  Temporary audio files stay in their directory. Whatever the file system resolves paths to, a path
  that \<open>resolve_safe_temp_path\<close> returns lies inside the directory, is no symbolic link, and is what the
  directory's entry with a single safe name resolves to: a non-empty name of word characters, dots and
  dashes that does not start with a dot and has no two dots in a row. The name given has no \<open>..\<close> and
  is not absolute.
\<close>

theorem temp_path_confined:
  assumes "resolve_safe_temp_path fs symlink temp filename = Inr q"
  shows "inside_root temp q \<and> \<not> symlink q \<and>
    (\<exists>name. fs_resolve fs (temp @ [name]) = Inr q \<and> name \<noteq> [] \<and> list_all name_class name \<and>
       \<not> contains name ''..'' \<and> \<not> starts_with name ''.'') \<and>
    \<not> contains filename ''..'' \<and> \<not> starts_with filename ''/''"
proof -
  have "fs_resolve fs (temp @ [audio_sanitize_filename filename]) = Inr q \<and> \<not> symlink q \<and>
      \<not> contains filename ''..'' \<and> \<not> starts_with filename ''/''"
    using assms by (auto simp: resolve_safe_temp_path_def Let_def split: if_splits sum.splits)
  with tmp.res_inside [OF assms] audio_name_ok [of filename] show ?thesis by blast
qed

theorem temp_path_confined_witness:
  "resolve_safe_temp_path plain_fs (\<lambda>_. False) [''tmp''] ''a b.wav'' = Inr [''tmp'', ''a_b.wav''] \<and>
   inside_root [''tmp''] [''tmp'', ''a_b.wav'']"
proof -
  have run: "resolve_safe_temp_path plain_fs (\<lambda>_. False) [''tmp''] ''a b.wav'' = Inr [''tmp'', ''a_b.wav'']"
    by code_simp
  from temp_path_confined [OF run] run show ?thesis by blast
qed

end
