(* ===== verification/Voice_Pipeline.thy ===== *)
theory Voice_Pipeline
  imports Voice_Session Voice_Vad Voice_Security Synthesizer
begin

text \<open>
  The voice pipeline (\<open>voice/pipeline.py\<close>): listening for an utterance and one conversational turn. The
  speech-to-text router, the session, the segmenter, the security manager and the playback controller
  are those of their theories; the speech synthesiser and the agent runtime are functions on an abstract
  world. What happens at the awaits comes with the environment \<open>turn_env\<close>: the await at which the
  task is cancelled, if any, and how the playback ends. Emission of events drops them when the bus is
  down; clock values are arguments or left out.
\<close>

datatype 'a awaited = AOk 'a | AExc string

datatype stage = STranscribe | SAgent | SSynthesis

datatype play_end =
    PlayDone
  | BargeIn nat
  | LateBargeIn
  | PlayCancelled nat
  | PlayRaised string

record turn_env =
  te_cancel :: "stage option"
  te_play :: play_end
  te_duration :: rat

record 'w voice_pipeline =
  vp_format :: audio_format
  vp_tts_voice :: string
  vp_tts_speed :: rat
  vp_security :: audio_security
  vp_stt :: "'w stt_router"
  vp_tts_name :: string
  vp_synthesize :: "tts_request \<Rightarrow> 'w \<Rightarrow> 'w \<times> tts_result awaited"
  vp_orchestrator :: "(string \<Rightarrow> 'w \<Rightarrow> 'w \<times> final_response awaited) option"
  vp_show_response :: "final_response \<Rightarrow> string"
  vp_bus_running :: bool

record 'w turn_state =
  tn_world :: 'w
  tn_session :: voice_session
  tn_playback :: playback
  tn_events :: "(string \<times> pyval dict) list"
  tn_next_task :: nat

datatype turn_end =
    TurnDone voice_response
  | TurnInterrupted
  | TurnFailed string
  | TurnCancelled

section \<open>Events\<close>

definition voice_emit ::
  "'w voice_pipeline \<Rightarrow> string \<Rightarrow> string \<Rightarrow> string \<Rightarrow> pyval dict \<Rightarrow> 'w turn_state \<Rightarrow> 'w turn_state" where
  "voice_emit vp ty session_id corr payload s =
     (if \<not> vp_bus_running vp then s
      else let raw = dict_merge [(''session_id'', PStr session_id), (''correlation_id'', PStr corr)] payload
           in s\<lparr>tn_events := tn_events s @ [(ty, scrub_telemetry_payload raw)]\<rparr>)"

definition with_session :: "(voice_session \<Rightarrow> voice_session \<times> string option) \<Rightarrow> 'w turn_state \<Rightarrow> 'w turn_state \<times> string option" where
  "with_session f s = (let (ses, e) = f (tn_session s) in (s\<lparr>tn_session := ses\<rparr>, e))"

section \<open>Transcription\<close>

definition audio_error_text :: "audio_error \<Rightarrow> string" where
  "audio_error_text e = (case e of VoiceSecurityError m \<Rightarrow> m | VoiceTimeoutError m \<Rightarrow> m | UnsupportedAudioFormatError m \<Rightarrow> m)"

text \<open>The three outcomes of a part of a turn: a value, an exception, or the cancellation of the task.\<close>

datatype 'a part = Value 'a | Exc string | Cancelled

definition pipeline_transcribe ::
  "'w voice_pipeline \<Rightarrow> turn_env \<Rightarrow> bytes \<Rightarrow> string \<Rightarrow> string \<Rightarrow> 'w turn_state \<Rightarrow> 'w turn_state \<times> transcript part" where
  "pipeline_transcribe vp env audio session_id corr s =
     (case validate_audio_size (vp_security vp) audio of
        Some e \<Rightarrow> (s, Exc (audio_error_text e))
      | None \<Rightarrow>
        (case validate_audio_format (vp_format vp) of
           Some e \<Rightarrow> (s, Exc (audio_error_text e))
         | None \<Rightarrow>
             let s1 = voice_emit vp ''voice.transcription.started'' session_id corr
                        [(''bytes'', PInt (int (length audio)))] s
             in if te_cancel env = Some STranscribe then (s1, Cancelled)
                else case stt_transcribe (vp_stt vp)
                            \<lparr>sq_audio_bytes = audio, sq_audio_format = vp_format vp, sq_language = None, sq_prompt = None\<rparr>
                            (tn_world s1) of
                       (w, _, Inl e) \<Rightarrow> (s1\<lparr>tn_world := w\<rparr>, Exc e)
                     | (w, _, Inr r) \<Rightarrow>
                         (voice_emit vp ''voice.transcription.completed'' session_id corr
                            [(''text'', PStr (st_text r)), (''confidence'', PFloat (st_confidence r)),
                             (''provider'', PStr (st_provider r))] (s1\<lparr>tn_world := w\<rparr>),
                          Value (to_transcript r))))"

section \<open>Synthesis and playback\<close>

definition tts_request_of :: "'w voice_pipeline \<Rightarrow> string \<Rightarrow> string + tts_request" where
  "tts_request_of vp text =
     (if text = [] then Inl ''validation error: text''
      else if vp_tts_speed vp < 1 / 4 \<or> 4 < vp_tts_speed vp then Inl ''validation error: speed''
      else Inr \<lparr>tq_text = text, tq_voice = vp_tts_voice vp, tq_speed = vp_tts_speed vp, tq_audio_format = vp_format vp\<rparr>)"

definition playback_metadata :: "tts_result \<Rightarrow> audio_metadata" where
  "playback_metadata r =
     (let f = tt_audio_format r
      in \<lparr>am_duration_sec = tt_duration_sec r,
          am_frame_count = int (length (tt_audio_bytes r)) div max 1 (frame_size f),
          am_sample_rate = af_sample_rate f, am_channels = af_channels f, am_sample_width = af_sample_width f,
          am_file_size_bytes = length (tt_audio_bytes r)\<rparr>)"

text \<open>What is played until the task is cancelled in the sleep after chunk \<open>k\<close>; then the playback
  controller is stopped.\<close>

definition play_some :: "nat \<Rightarrow> bytes \<Rightarrow> playback \<Rightarrow> playback" where
  "play_some k pcm p =
     (case split_pcm 0 (pb_format p) (1 / 20) pcm of
        None \<Rightarrow> playback_start p
      | Some cs \<Rightarrow> (play_loop (take k cs) [] (playback_start p))\<lparr>pb_playing := False\<rparr>)"

datatype play_result = Played audio_metadata | Interrupted | PlayExc string | PlayStopped

definition synthesize_and_play ::
  "'w voice_pipeline \<Rightarrow> turn_env \<Rightarrow> string \<Rightarrow> string \<Rightarrow> 'w turn_state \<Rightarrow> 'w turn_state \<times> play_result" where
  "synthesize_and_play vp env text corr s =
     (let sid = se_id (tn_session s);
          s1 = voice_emit vp ''voice.tts.started'' sid corr
                 [(''text_length'', PInt (int (length text))), (''provider'', PStr (vp_tts_name vp))] s
      in case tts_request_of vp text of
           Inl e \<Rightarrow> (s1, PlayExc e)
         | Inr q \<Rightarrow>
             if te_cancel env = Some SSynthesis then (s1, PlayStopped)
             else case vp_synthesize vp q (tn_world s1) of
                    (w, AExc e) \<Rightarrow> (s1\<lparr>tn_world := w\<rparr>, PlayExc e)
                  | (w, AOk r) \<Rightarrow>
                      let s2 = voice_emit vp ''voice.tts.completed'' sid corr
                                 [(''duration_sec'', PFloat (tt_duration_sec r)), (''provider'', PStr (tt_provider r))]
                                 (s1\<lparr>tn_world := w\<rparr>);
                          task = tn_next_task s2;
                          (s3, err) = with_session (start_speaking (Some task)) (s2\<lparr>tn_next_task := Suc task\<rparr>);
                          stopped = (\<lambda>k s. voice_emit vp ''voice.interrupted'' sid corr []
                                       (s\<lparr>tn_playback := playback_stop (play_some k (tt_audio_bytes r) (tn_playback s))\<rparr>))
                      in case err of
                           Some e \<Rightarrow> (s3, PlayExc e)
                         | None \<Rightarrow>
                             (case te_play env of
                                PlayRaised e \<Rightarrow> (s3, PlayExc e)
                              | BargeIn k \<Rightarrow>
                                  (stopped k (fst (with_session (session_interrupt (\<lambda>_. False)) s3)), Interrupted)
                              | PlayCancelled k \<Rightarrow> (stopped k s3, Interrupted)
                              | done \<Rightarrow>
                                  (case play_bytes (1 / 20) (tt_audio_bytes r) [] (tn_playback s3) of
                                     None \<Rightarrow> (s3, PlayExc ''integer modulo by zero'')
                                   | Some pb \<Rightarrow>
                                       let s4 = s3\<lparr>tn_playback := pb\<rparr>
                                       in (if done = LateBargeIn
                                           then fst (with_session (session_interrupt (\<lambda>_. True)) s4) else s4,
                                           Played (playback_metadata r)))))"

section \<open>A turn\<close>

text \<open>The agent's part: the text of the answer and the reported status.\<close>

definition agent_answer ::
  "'w voice_pipeline \<Rightarrow> turn_env \<Rightarrow> string \<Rightarrow> 'w turn_state \<Rightarrow> 'w turn_state \<times> (string \<times> string) part" where
  "agent_answer vp env prompt s =
     (case vp_orchestrator vp of
        None \<Rightarrow> (s, Value (''Received: '' @ prompt, ''completed''))
      | Some run \<Rightarrow>
          if te_cancel env = Some SAgent then (s, Cancelled)
          else case run prompt (tn_world s) of
                 (w, AExc e) \<Rightarrow> (s\<lparr>tn_world := w\<rparr>, Exc e)
               | (w, AOk r) \<Rightarrow>
                   (s\<lparr>tn_world := w\<rparr>,
                    Value (if fr_summary r \<noteq> [] then fr_summary r else vp_show_response vp r,
                           if fr_status r = ACOMPLETED then ''completed'' else ''unverified'')))"

text \<open>The handler of \<open>except Exception\<close>.\<close>

definition turn_failed :: "'w voice_pipeline \<Rightarrow> string \<Rightarrow> string \<Rightarrow> 'w turn_state \<Rightarrow> 'w turn_state \<times> turn_end" where
  "turn_failed vp corr exc s =
     (let (s1, _) = with_session session_fail s
      in (voice_emit vp ''voice.failed'' (se_id (tn_session s1)) corr [(''error'', PStr exc)] s1, TurnFailed exc))"

definition mk_response :: "turn_env \<Rightarrow> string \<Rightarrow> string \<Rightarrow> string \<Rightarrow> audio_metadata option \<Rightarrow> string \<Rightarrow> voice_response" where
  "mk_response env sid corr text meta status =
     \<lparr>vs_session_id = sid, vs_correlation_id = corr, vs_text = text, vs_audio_metadata = meta,
      vs_agent_status = status, vs_duration_sec = te_duration env\<rparr>"

definition process_speech ::
  "'w voice_pipeline \<Rightarrow> turn_env \<Rightarrow> bytes \<Rightarrow> string \<Rightarrow> 'w turn_state \<Rightarrow> 'w turn_state \<times> turn_end" where
  "process_speech vp env audio corr s =
     (let sid = se_id (tn_session s);
          s0 = voice_emit vp ''voice.session.started'' sid corr [] s
      in case pipeline_transcribe vp env audio sid corr s0 of
           (s1, Exc e) \<Rightarrow> turn_failed vp corr e s1
         | (s1, Cancelled) \<Rightarrow> (s1, TurnCancelled)
         | (s1, Value t) \<Rightarrow>
             if strip (tn_text t) = []
             then (s1\<lparr>tn_session := session_reset (\<lambda>_. False) (tn_session s1)\<rparr>,
                   TurnDone (mk_response env sid corr ''I did not catch that.'' None ''completed''))
             else
               let q = \<lparr>vq_session_id = sid, vq_correlation_id = corr, vq_transcript = t,
                        vq_language = tn_language t, vq_confidence = tn_confidence t\<rparr>
               in case with_session start_processing s1 of
                    (s2, Some e) \<Rightarrow> turn_failed vp corr e s2
                  | (s2, None) \<Rightarrow>
                      (case agent_answer vp env (tn_text t)
                              (voice_emit vp ''voice.processing.started'' sid corr [(''prompt'', PStr (tn_text t))] s2) of
                         (s3, Exc e) \<Rightarrow> turn_failed vp corr e s3
                       | (s3, Cancelled) \<Rightarrow> (s3, TurnCancelled)
                       | (s3, Value (answer, status)) \<Rightarrow>
                           (case synthesize_and_play vp env answer corr
                                   (voice_emit vp ''voice.processing.completed'' sid corr [(''status'', PStr status)] s3) of
                              (s4, PlayExc e) \<Rightarrow> turn_failed vp corr e s4
                            | (s4, PlayStopped) \<Rightarrow> (s4, TurnCancelled)
                            | (s4, Interrupted) \<Rightarrow>
                                (fst (with_session (session_interrupt (\<lambda>_. True)) s4), TurnInterrupted)
                            | (s4, Played meta) \<Rightarrow>
                                let resp = mk_response env sid corr answer (Some meta) status
                                in (case with_session (complete_turn q resp) s4 of
                                      (s5, Some e) \<Rightarrow> turn_failed vp corr e s5
                                    | (s5, None) \<Rightarrow> (s5, TurnDone resp)))))"

section \<open>Listening\<close>

text \<open>\<open>listen_once\<close>: the reads of the capture device are a timed list, each a chunk, nothing, or the
  capture's own limit (left). The loop ends when the list or the time is used up.\<close>

fun listen_loop ::
  "('v \<Rightarrow> audio_chunk \<Rightarrow> 'v \<times> vad_result) \<Rightarrow> ('v \<Rightarrow> 'v) \<Rightarrow> seg_config \<Rightarrow> rat \<Rightarrow> rat
     \<Rightarrow> (rat \<times> (string + audio_chunk option)) list \<Rightarrow> 'v segmenter \<Rightarrow> 'v segmenter \<times> (string + bytes option)" where
  "listen_loop proc rst cfg start timeout [] g = (g, Inr None)"
| "listen_loop proc rst cfg start timeout ((now, rd) # rds) g =
     (if timeout \<le> now - start then (g, Inr None)
      else case rd of
             Inl e \<Rightarrow> (g, Inl e)
           | Inr None \<Rightarrow> listen_loop proc rst cfg start timeout rds g
           | Inr (Some c) \<Rightarrow>
               (case seg_process proc rst cfg now c g of
                  (g1, True, bs) \<Rightarrow> (g1, Inr bs)
                | (g1, False, _) \<Rightarrow> listen_loop proc rst cfg start timeout rds g1))"

definition listen_once ::
  "'w voice_pipeline \<Rightarrow> ('v \<Rightarrow> audio_chunk \<Rightarrow> 'v \<times> vad_result) \<Rightarrow> ('v \<Rightarrow> 'v) \<Rightarrow> seg_config \<Rightarrow> rat \<Rightarrow> rat \<Rightarrow> string
     \<Rightarrow> (rat \<times> (string + audio_chunk option)) list \<Rightarrow> 'v segmenter \<Rightarrow> 'w turn_state
     \<Rightarrow> 'w turn_state \<times> 'v segmenter \<times> (string + bytes option)" where
  "listen_once vp proc rst cfg start timeout corr reads g s =
     (let sid = se_id (tn_session s);
          s0 = voice_emit vp ''voice.listening.started'' sid corr [] s;
          (s1, err) = with_session start_listening s0
      in case err of
           Some e \<Rightarrow> (s1, g, Inl e)
         | None \<Rightarrow>
             (case listen_loop proc rst cfg start timeout reads (seg_reset rst g) of
                (g1, Inl e) \<Rightarrow> (s1, g1, Inl e)
              | (g1, Inr None) \<Rightarrow>
                  (voice_emit vp ''voice.listening.stopped'' sid corr
                     [(''speech_detected'', PBool False), (''timed_out'', PBool True)] s1, g1, Inr None)
              | (g1, Inr (Some bs)) \<Rightarrow>
                  (voice_emit vp ''voice.listening.stopped'' sid corr
                     [(''speech_detected'', PBool (bs \<noteq> []))] s1, g1, Inr (Some bs))))"

section \<open>What a turn does to the session\<close>

named_theorems turn_simps

lemma voice_emit_frame [turn_simps]:
  "tn_session (voice_emit vp ty sid corr d s) = tn_session s"
  "tn_world (voice_emit vp ty sid corr d s) = tn_world s"
  "tn_playback (voice_emit vp ty sid corr d s) = tn_playback s"
  "tn_next_task (voice_emit vp ty sid corr d s) = tn_next_task s"
  by (simp_all add: voice_emit_def Let_def)

lemma with_session_eq: "with_session f s = (s', e) \<longleftrightarrow>
    f (tn_session s) = (tn_session s', e) \<and> s' = s\<lparr>tn_session := tn_session s'\<rparr>"
  by (auto simp: with_session_def split: prod.splits)

lemma transcribe_session:
  "pipeline_transcribe vp env audio sid corr s = (s', r) \<Longrightarrow> tn_session s' = tn_session s"
  by (auto simp: pipeline_transcribe_def Let_def turn_simps split: option.splits if_splits prod.splits sum.splits)

lemma answer_session: "agent_answer vp env prompt s = (s', r) \<Longrightarrow> tn_session s' = tn_session s"
  by (auto simp: agent_answer_def split: option.splits if_splits prod.splits awaited.splits)

lemma session_fail_state: "session_fail s = (s', e) \<Longrightarrow> session_state s' = VERROR"
  by (cases "session_state s") (auto simp: session_fail_def move_def transition_to_def session_state_def split: if_splits)

lemma turn_failed_session: "turn_failed vp corr exc s = (s', out) \<Longrightarrow>
    session_state (tn_session s') = VERROR \<and> out = TurnFailed exc"
  by (auto simp: turn_failed_def turn_simps with_session_eq split: prod.splits dest: session_fail_state)

lemma start_speaking_ok:
  "session_state s = VPROCESSING \<Longrightarrow> start_speaking t s = (s', e) \<Longrightarrow>
     e = None \<and> session_state s' = VSPEAKING \<and> se_task s' = t"
  by (auto simp: start_speaking_def move_def transition_to_def session_state_def split: if_splits)

lemma interrupt_speaking:
  "session_state s = VSPEAKING \<Longrightarrow> session_state (fst (session_interrupt d s)) = VINTERRUPTED \<and>
     se_task (fst (session_interrupt d s)) = None"
  by (auto simp: session_interrupt_def move_def transition_to_def session_state_def cancel_task_def
      split: if_splits option.splits prod.splits)

lemma interrupt_other: "session_state s \<noteq> VSPEAKING \<Longrightarrow> session_interrupt d s = (s, None)"
  by (simp add: session_interrupt_def)

lemma fst_with_session: "tn_session (fst (with_session f s)) = fst (f (tn_session s))"
  by (simp add: with_session_def split: prod.splits)

text \<open>Playback begins in PROCESSING; how it ends decides the state.\<close>

lemma play_session:
  assumes "synthesize_and_play vp env text corr s = (s', r)" and "session_state (tn_session s) = VPROCESSING"
  shows "case r of
      Played m \<Rightarrow> session_state (tn_session s') \<in> {VSPEAKING, VINTERRUPTED}
    | Interrupted \<Rightarrow> session_state (tn_session s') \<in> {VSPEAKING, VINTERRUPTED} \<and>
        (session_state (tn_session s') = VINTERRUPTED \<longrightarrow> se_task (tn_session s') = None)
    | PlayExc e \<Rightarrow> True
    | PlayStopped \<Rightarrow> session_state (tn_session s') = VPROCESSING"
proof (cases "tts_request_of vp text")
  case (Inl e)
  with assms show ?thesis by (auto simp: synthesize_and_play_def Let_def)
next
  case (Inr q)
  show ?thesis
  proof (cases "te_cancel env = Some SSynthesis")
    case True
    with assms Inr show ?thesis by (auto simp: synthesize_and_play_def Let_def turn_simps)
  next
    case False
    define s1 where "s1 = voice_emit vp ''voice.tts.started'' (se_id (tn_session s)) corr
        [(''text_length'', PInt (int (length text))), (''provider'', PStr (vp_tts_name vp))] s"
    obtain w o1 where t: "vp_synthesize vp q (tn_world s1) = (w, o1)" by fastforce
    show ?thesis
    proof (cases o1)
      case (AExc e)
      with assms Inr False t show ?thesis by (auto simp: synthesize_and_play_def Let_def s1_def)
    next
      case (AOk x)
      define s2 where "s2 = voice_emit vp ''voice.tts.completed'' (se_id (tn_session s)) corr
          [(''duration_sec'', PFloat (tt_duration_sec x)), (''provider'', PStr (tt_provider x))] (s1\<lparr>tn_world := w\<rparr>)"
      obtain s3 e3 where sp: "with_session (start_speaking (Some (tn_next_task s2))) (s2\<lparr>tn_next_task := Suc (tn_next_task s2)\<rparr>) = (s3, e3)"
        by fastforce
      have "tn_session s2 = tn_session s" by (simp add: s2_def s1_def turn_simps)
      with start_speaking_ok [OF assms(2)] sp have s3: "e3 = None" "session_state (tn_session s3) = VSPEAKING"
        by (auto simp: with_session_eq)
      note P = assms(1) [unfolded synthesize_and_play_def Let_def s1_def [symmetric]]
      have P2: "(case te_play env of
            PlayRaised e \<Rightarrow> (s3, PlayExc e)
          | BargeIn k \<Rightarrow> (voice_emit vp ''voice.interrupted'' (se_id (tn_session s)) corr []
              ((fst (with_session (session_interrupt (\<lambda>_. False)) s3))\<lparr>tn_playback := playback_stop (play_some k (tt_audio_bytes x)
                 (tn_playback (fst (with_session (session_interrupt (\<lambda>_. False)) s3))))\<rparr>), Interrupted)
          | PlayCancelled k \<Rightarrow> (voice_emit vp ''voice.interrupted'' (se_id (tn_session s)) corr []
              (s3\<lparr>tn_playback := playback_stop (play_some k (tt_audio_bytes x) (tn_playback s3))\<rparr>), Interrupted)
          | done \<Rightarrow> (case play_bytes (1 / 20) (tt_audio_bytes x) [] (tn_playback s3) of
              None \<Rightarrow> (s3, PlayExc ''integer modulo by zero'')
            | Some pb \<Rightarrow> (if done = LateBargeIn then fst (with_session (session_interrupt (\<lambda>_. True)) (s3\<lparr>tn_playback := pb\<rparr>))
                else s3\<lparr>tn_playback := pb\<rparr>, Played (playback_metadata x)))) = (s', r)"
        using P Inr False t AOk sp s3(1) by (simp add: s2_def cong: play_end.case_cong)
      show ?thesis
      proof (cases "te_play env")
        case (BargeIn k)
        with P2 s3 interrupt_speaking [of "tn_session s3"] show ?thesis
          by (auto simp: turn_simps fst_with_session)
      next
        case (PlayCancelled k)
        with P2 s3 show ?thesis by (auto simp: turn_simps)
      next
        case (PlayRaised e)
        with P2 show ?thesis by auto
      next
        case PlayDone
        with P2 s3 show ?thesis by (auto split: option.splits)
      next
        case LateBargeIn
        with P2 s3 interrupt_speaking [of "tn_session s3"] show ?thesis
          by (auto simp: fst_with_session split: option.splits)
      qed
    qed
  qed
qed

lemma complete_turn_ok:
  "session_state s \<in> {VSPEAKING, VINTERRUPTED} \<Longrightarrow> complete_turn q r s = (s', e) \<Longrightarrow>
     e = None \<and> session_state s' = VIDLE \<and> se_task s' = None \<and> se_history s' = se_history s @ [(q, r)]"
  by (auto simp: complete_turn_def move_def transition_to_def session_state_def Let_def split: if_splits)

lemma start_processing_None: "start_processing s = (s', None) \<Longrightarrow> session_state s' = VPROCESSING"
  using move_state [of VPROCESSING s s' None] by (simp add: start_processing_def)

text \<open>The stages of a turn, one after the other.\<close>

lemma process_speech_cases:
  fixes s s' :: "'w turn_state"
  assumes "process_speech vp env audio corr s = (s', out)"
  obtains (failed) e and s1 :: "'w turn_state" where "turn_failed vp corr e s1 = (s', out)"
    | (early) "out = TurnCancelled" "tn_session s' = tn_session s" "te_cancel env = Some STranscribe"
    | (empty) r where "out = TurnDone r" "tn_session s' = session_reset (\<lambda>_. False) (tn_session s)"
    | (stopped) "out = TurnCancelled" "session_state (tn_session s') = VPROCESSING"
        "te_cancel env \<in> {Some SAgent, Some SSynthesis}"
    | (barged) s4 :: "'w turn_state" where "out = TurnInterrupted" "session_state (tn_session s4) \<in> {VSPEAKING, VINTERRUPTED}"
        "session_state (tn_session s4) = VINTERRUPTED \<longrightarrow> se_task (tn_session s4) = None"
        "tn_session s' = fst (session_interrupt (\<lambda>_. True) (tn_session s4))"
    | (complete) s4 :: "'w turn_state" and q r where "out = TurnDone r" "session_state (tn_session s4) \<in> {VSPEAKING, VINTERRUPTED}"
        "complete_turn q r (tn_session s4) = (tn_session s', None)"
proof -
  define sid where "sid = se_id (tn_session s)"
  define s0 where "s0 = voice_emit vp ''voice.session.started'' sid corr [] s"
  note P = assms [unfolded process_speech_def Let_def sid_def [symmetric] s0_def [symmetric]]
  have s0: "tn_session s0 = tn_session s" by (simp add: s0_def turn_simps)
  obtain s1 r1 where t: "pipeline_transcribe vp env audio sid corr s0 = (s1, r1)" by fastforce
  have s1: "tn_session s1 = tn_session s" using transcribe_session [OF t] s0 by simp
  show ?thesis
  proof (cases r1)
    case (Exc e)
    with P t show ?thesis by (intro failed [of e s1]) simp
  next
    case Cancelled
    then have "te_cancel env = Some STranscribe"
      using t by (auto simp: pipeline_transcribe_def Let_def split: option.splits if_splits prod.splits sum.splits)
    with Cancelled P t s1 show ?thesis by (intro early) auto
  next
    case (Value tr)
    show ?thesis
    proof (cases "strip (tn_text tr) = []")
      case True
      with P t Value s1 show ?thesis by (intro empty) auto
    next
      case False
      obtain s2 e2 where p: "with_session start_processing s1 = (s2, e2)" by fastforce
      show ?thesis
      proof (cases e2)
        case (Some e)
        with P t Value False p show ?thesis by (intro failed [of e s2]) (simp add: Let_def)
      next
        case None
        define s2' where "s2' = voice_emit vp ''voice.processing.started'' sid corr [(''prompt'', PStr (tn_text tr))] s2"
        have s2: "session_state (tn_session s2') = VPROCESSING"
          using p None start_processing_None by (auto simp: s2'_def turn_simps with_session_eq)
        obtain s3 r3 where a: "agent_answer vp env (tn_text tr) s2' = (s3, r3)" by fastforce
        have s3: "session_state (tn_session s3) = VPROCESSING" using answer_session [OF a] s2 by simp
        show ?thesis
        proof (cases r3)
          case (Exc e)
          with P t Value False p None a show ?thesis by (intro failed [of e s3]) (simp add: s2'_def)
        next
          case Cancelled
          then have "te_cancel env = Some SAgent"
            using a by (auto simp: agent_answer_def split: option.splits if_splits prod.splits awaited.splits)
          with Cancelled P t Value False p None a s3 show ?thesis by (intro stopped) (auto simp: s2'_def)
        next
          case (Value av)
          obtain answer status where av: "av = (answer, status)" by fastforce
          define s3' where "s3' = voice_emit vp ''voice.processing.completed'' sid corr [(''status'', PStr status)] s3"
          have s3': "session_state (tn_session s3') = VPROCESSING" using s3 by (simp add: s3'_def turn_simps)
          obtain s4 r4 where pl: "synthesize_and_play vp env answer corr s3' = (s4, r4)" by fastforce
          note ps = play_session [OF pl s3']
          note P2 = P [unfolded t part.case prod.case \<open>r1 = Value tr\<close> if_not_P [OF False] p None option.case
              s2'_def [symmetric] a Value av s3'_def [symmetric] pl]
          show ?thesis
          proof (cases r4)
            case (PlayExc e)
            with P2 show ?thesis by (intro failed [of e s4]) simp
          next
            case PlayStopped
            then have "te_cancel env = Some SSynthesis"
              using pl by (auto simp: synthesize_and_play_def Let_def
                  split: if_splits prod.splits sum.splits awaited.splits play_end.splits option.splits)
            with PlayStopped P2 ps show ?thesis by (intro stopped) auto
          next
            case Interrupted
            with P2 ps show ?thesis by (intro barged [of s4]) (auto simp: fst_with_session)
          next
            case (Played meta)
            define resp where "resp = mk_response env sid corr answer (Some meta) status"
            define q where "q = \<lparr>vq_session_id = sid, vq_correlation_id = corr, vq_transcript = tr,
                        vq_language = tn_language tr, vq_confidence = tn_confidence tr\<rparr>"
            obtain s5 e5 where c: "with_session (complete_turn q resp) s4 = (s5, e5)" by fastforce
            have st: "session_state (tn_session s4) \<in> {VSPEAKING, VINTERRUPTED}" using ps Played by simp
            have e5: "e5 = None" using c complete_turn_ok [OF st] by (auto simp: with_session_eq)
            have "s5 = s' \<and> out = TurnDone resp"
              using P2 by (simp add: Played resp_def [symmetric] q_def [symmetric] c e5)
            with c e5 st show ?thesis
              by (intro complete [of resp s4 q]) (auto simp: with_session_eq)
          qed
        qed
      qed
    qed
  qed
qed

text \<open>
  C33. The session after a turn. However a turn of \<open>process_speech\<close> ends, from whatever state of the
  session: after a response the session is idle without a playback task; after a barge-in it is
  INTERRUPTED without a playback task; after an exception it is in ERROR. Only a turn whose task was
  cancelled leaves it in between: in the state it had, or in PROCESSING.
\<close>

theorem turn_session_outcome:
  "case process_speech vp env audio corr s of
     (s', TurnDone r) \<Rightarrow> session_state (tn_session s') = VIDLE \<and> se_task (tn_session s') = None
   | (s', TurnInterrupted) \<Rightarrow> session_state (tn_session s') = VINTERRUPTED \<and> se_task (tn_session s') = None
   | (s', TurnFailed e) \<Rightarrow> session_state (tn_session s') = VERROR
   | (s', TurnCancelled) \<Rightarrow> te_cancel env \<noteq> None \<and>
       session_state (tn_session s') \<in> {session_state (tn_session s), VPROCESSING}"
proof -
  obtain s' out where p: "process_speech vp env audio corr s = (s', out)" by fastforce
  from p show ?thesis
  proof (cases rule: process_speech_cases)
    case (failed e s1)
    with turn_failed_session [OF failed] p show ?thesis by simp
  next
    case early
    with p show ?thesis by simp
  next
    case (empty r)
    with p show ?thesis by (simp add: session_reset_def machine_reset_def session_state_def Let_def)
  next
    case stopped
    with p show ?thesis by auto
  next
    case (barged s4)
    have "session_state (tn_session s') = VINTERRUPTED \<and> se_task (tn_session s') = None"
    proof (cases "session_state (tn_session s4) = VSPEAKING")
      case True
      with interrupt_speaking [OF True] barged(4) show ?thesis by simp
    next
      case False
      with interrupt_other [OF False] barged show ?thesis by auto
    qed
    with p barged(1) show ?thesis by simp
  next
    case (complete s4 q r)
    with complete_turn_ok [OF complete(2,3)] p show ?thesis by simp
  qed
qed

text \<open>
  A turn that is cancelled or interrupted blocks the session. When the task of a turn is cancelled
  while the agent or the speech synthesiser works, the session stays in PROCESSING, and listening and
  failing over to another turn are refused until somebody resets it; after a barge-in, speech that is
  processed without listening first ends in ERROR, unless it is cancelled early or is silence.
\<close>

theorem turn_blocks_session:
  "(case process_speech vp env audio corr s of
      (s', TurnCancelled) \<Rightarrow> te_cancel env = Some STranscribe \<or>
         (session_state (tn_session s') = VPROCESSING \<and> snd (start_listening (tn_session s')) \<noteq> None)
    | _ \<Rightarrow> True) \<and>
   (if session_state (tn_session s) = VINTERRUPTED
    then case process_speech vp env audio corr s of
           (s', TurnFailed e) \<Rightarrow> session_state (tn_session s') = VERROR
         | (s', TurnDone r) \<Rightarrow> vs_text r = ''I did not catch that.'' \<and> se_history (tn_session s') = se_history (tn_session s)
         | (s', TurnInterrupted) \<Rightarrow> False
         | (s', TurnCancelled) \<Rightarrow> te_cancel env = Some STranscribe
    else True)"
proof -
  obtain s' out where p: "process_speech vp env audio corr s = (s', out)" by fastforce
  have 1: "case (s', out) of (s', TurnCancelled) \<Rightarrow> te_cancel env = Some STranscribe \<or>
         (session_state (tn_session s') = VPROCESSING \<and> snd (start_listening (tn_session s')) \<noteq> None) | _ \<Rightarrow> True"
  proof (cases out)
    case TurnCancelled
    from p show ?thesis
    proof (cases rule: process_speech_cases)
      case (failed e s1)
      with turn_failed_session [OF failed] TurnCancelled show ?thesis by simp
    next
      case stopped
      then have "snd (start_listening (tn_session s')) \<noteq> None"
        by (simp add: start_listening_def move_def transition_to_def session_state_def)
      with stopped show ?thesis by simp
    qed (use TurnCancelled in auto)
  qed auto
  have 2: "case (s', out) of
           (s', TurnFailed e) \<Rightarrow> session_state (tn_session s') = VERROR
         | (s', TurnDone r) \<Rightarrow> vs_text r = ''I did not catch that.'' \<and> se_history (tn_session s') = se_history (tn_session s)
         | (s', TurnInterrupted) \<Rightarrow> False
         | (s', TurnCancelled) \<Rightarrow> te_cancel env = Some STranscribe"
    if i: "session_state (tn_session s) = VINTERRUPTED"
  proof -
    define sid where "sid = se_id (tn_session s)"
    define s0 where "s0 = voice_emit vp ''voice.session.started'' sid corr [] s"
    note P = p [unfolded process_speech_def Let_def sid_def [symmetric] s0_def [symmetric]]
    obtain s1 r1 where t: "pipeline_transcribe vp env audio sid corr s0 = (s1, r1)" by fastforce
    have s1: "tn_session s1 = tn_session s" using transcribe_session [OF t] by (simp add: s0_def turn_simps)
    have blocked: "\<exists>e. snd (start_processing (tn_session s)) = Some e"
      using i by (simp add: start_processing_def move_def transition_to_def session_state_def)
    show ?thesis
    proof (cases r1)
      case (Exc e)
      with P t have "turn_failed vp corr e s1 = (s', out)" by simp
      from turn_failed_session [OF this] show ?thesis by simp
    next
      case Cancelled
      then have "te_cancel env = Some STranscribe"
        using t by (auto simp: pipeline_transcribe_def Let_def split: option.splits if_splits prod.splits sum.splits)
      with Cancelled P t show ?thesis by auto
    next
      case (Value tr)
      show ?thesis
      proof (cases "strip (tn_text tr) = []")
        case True
        with P t Value s1 show ?thesis
          by (auto simp: mk_response_def session_reset_def cancel_task_def Let_def split: option.splits)
      next
        case False
        obtain s2 e2 where sp: "with_session start_processing s1 = (s2, e2)" by fastforce
        then obtain e where "e2 = Some e" using blocked s1 by (auto simp: with_session_eq)
        with P t Value False sp have "turn_failed vp corr e s2 = (s', out)" by simp
        from turn_failed_session [OF this] show ?thesis by simp
      qed
    qed
  qed
  from 1 2 show ?thesis unfolding p by simp
qed

end
