(* ===== verification/Memory_Model.thy ===== *)
theory Memory_Model
  imports Py_Regex
begin

text \<open>
  Durable memory: the data of \<open>memory/models.py\<close>, the redaction of secrets (\<open>memory/security/sanitizer.py\<close>),
  the classification of content (\<open>memory/security/classifier.py\<close>) and the retention policy
  (\<open>memory/security/retention.py\<close>). Time stamps are the strings the code stores; the clock is a number
  of seconds, and the conversions between both (\<open>isoformat\<close>, \<open>datetime.fromisoformat\<close>) are arguments.
\<close>

section \<open>Records\<close>

datatype memory_type =
    MConversation | MFact | MPreference | MTask | MProject | MArtifact | MSummary | MEvent | MEpisodic | MSemantic

fun memory_type_value :: "memory_type \<Rightarrow> string" where
  "memory_type_value MConversation = ''conversation''"
| "memory_type_value MFact = ''fact''"
| "memory_type_value MPreference = ''preference''"
| "memory_type_value MTask = ''task''"
| "memory_type_value MProject = ''project''"
| "memory_type_value MArtifact = ''artifact''"
| "memory_type_value MSummary = ''summary''"
| "memory_type_value MEvent = ''event''"
| "memory_type_value MEpisodic = ''episodic''"
| "memory_type_value MSemantic = ''semantic''"

datatype memory_scope = ScSession | ScConversation | ScUser | ScProject | ScGlobal

datatype trust_level = TrSystem | TrUserVerified | TrModelGenerated | TrUntrusted

fun trust_level_value :: "trust_level \<Rightarrow> string" where
  "trust_level_value TrSystem = ''system''"
| "trust_level_value TrUserVerified = ''user_verified''"
| "trust_level_value TrModelGenerated = ''model_generated''"
| "trust_level_value TrUntrusted = ''untrusted''"

datatype embedding_status = EmPending | EmEmbedded | EmFailed | EmSkipped

record memory_record =
  mr_id :: string
  mr_type :: memory_type
  mr_content :: string
  mr_summary :: "string option"
  mr_scope :: memory_scope
  mr_source :: string
  mr_importance :: rat
  mr_confidence :: rat
  mr_created :: string
  mr_updated :: string
  mr_expires :: "string option"
  mr_conversation :: "string option"
  mr_task :: "string option"
  mr_artifact :: "string option"
  mr_project :: "string option"
  mr_metadata :: "pyval dict"
  mr_embedding :: embedding_status
  mr_trust :: trust_level

record retrieval_query =
  rq_query :: string
  rq_scope :: "memory_scope option"
  rq_project :: "string option"
  rq_conversation :: "string option"
  rq_types :: "memory_type list option"
  rq_min_importance :: rat
  rq_min_confidence :: rat
  rq_top_k :: nat
  rq_include_expired :: bool

record scored_memory =
  sc_record :: memory_record
  sc_final :: rat
  sc_semantic :: rat
  sc_recency :: rat
  sc_importance :: rat
  sc_confidence :: rat
  sc_scope :: rat
  sc_task :: rat

record context_budget =
  cb_max_total :: int
  cb_max_memory :: int
  cb_max_working :: int

record memory_metrics =
  mm_reads :: nat
  mm_writes :: nat
  mm_rejections :: nat
  mm_semantic_queries :: nat
  mm_semantic_fallbacks :: nat
  mm_embedding_success :: nat
  mm_embedding_failure :: nat
  mm_cleanups :: nat

text \<open>An optional string that Python counts as true: present and not empty.\<close>

definition given :: "string option \<Rightarrow> bool" where
  "given x = (case x of None \<Rightarrow> False | Some s \<Rightarrow> s \<noteq> [])"

text \<open>The checks of the record's fields (\<open>validate_content_non_empty\<close> and the ranges); the content is
  stripped.\<close>

definition validate_record :: "memory_record \<Rightarrow> string + memory_record" where
  "validate_record r =
     (if mr_content r = [] \<or> strip (mr_content r) = [] then Inl ''Memory record content cannot be empty.''
      else if mr_importance r < 0 \<or> 1 < mr_importance r then Inl ''importance''
      else if mr_confidence r < 0 \<or> 1 < mr_confidence r then Inl ''confidence''
      else Inr (r\<lparr>mr_content := strip (mr_content r)\<rparr>))"

section \<open>Redaction\<close>

definition mem_key_class :: "char \<Rightarrow> bool" where
  "mem_key_class c = (is_ascii_alnum c \<or> c = CHR ''_'' \<or> c = CHR ''-'')"

definition mem_stop_class :: "char \<Rightarrow> bool" where
  "mem_stop_class c = (is_space c \<or> code_of c \<in> {34, 39})"

definition mem_value_class :: "char \<Rightarrow> bool" where
  "mem_value_class c = (\<not> mem_stop_class c \<and> c \<noteq> CHR '','' \<and> c \<noteq> CHR '';'')"

definition mem_assignment :: "string list \<Rightarrow> rx" where
  "mem_assignment names = r_seq
     [RGrp (r_alt (map r_lit_ci names)), r_star is_space, r_one (\<lambda>c. c = CHR '':'' \<or> c = CHR ''=''),
      r_star is_space, r_plus mem_value_class]"

definition mem_key_assignment :: rx where
  "mem_key_assignment = r_seq
     [RGrp (r_alt [r_seq [r_lit_ci ''api'', r_opt (\<lambda>c. c = CHR ''_'' \<or> c = CHR ''-''), r_lit_ci ''key''],
                   r_seq [r_lit_ci ''secret'', r_opt (\<lambda>c. c = CHR ''_'' \<or> c = CHR ''-''), r_lit_ci ''key''],
                   r_seq [r_lit_ci ''access'', r_opt (\<lambda>c. c = CHR ''_'' \<or> c = CHR ''-''), r_lit_ci ''token'']]),
      r_star is_space, r_one (\<lambda>c. c = CHR '':'' \<or> c = CHR ''=''), r_star is_space, r_plus mem_value_class]"

definition mem_env_assignment :: rx where
  "mem_env_assignment = r_seq
     [RGrp (r_alt (map r_lit_ci [''OPENAI_API_KEY'', ''ANTHROPIC_API_KEY'', ''GEMINI_API_KEY'', ''AWS_SECRET_ACCESS_KEY''])),
      r_star is_space, r_char (CHR ''=''), r_star is_space, r_plus mem_value_class]"

definition keep_group :: "string \<Rightarrow> string option \<Rightarrow> string" where
  "keep_group s g = (case g of None \<Rightarrow> [] | Some t \<Rightarrow> t) @ s"

definition MEMORY_SECRET_PATTERNS :: "(rx \<times> (string option \<Rightarrow> string)) list" where
  "MEMORY_SECRET_PATTERNS =
     [(RSeq (r_lit_ci ''sk-ant-'') (r_atleast 20 mem_key_class), \<lambda>_. ''[REDACTED_ANTHROPIC_KEY]''),
      (RSeq (r_lit_ci ''sk-'') (r_atleast 20 mem_key_class), \<lambda>_. ''[REDACTED_OPENAI_KEY]''),
      (RSeq (r_lit ''AIza'') (r_times 35 mem_key_class), \<lambda>_. ''[REDACTED_GOOGLE_KEY]''),
      (RAlt (RSeq (r_lit ''ghp_'') (r_times 36 is_ascii_alnum))
            (RSeq (r_lit ''github_pat_'') (r_atleast 30 (\<lambda>c. is_ascii_alnum c \<or> c = CHR ''_''))), \<lambda>_. ''[REDACTED_GITHUB_TOKEN]''),
      (r_seq [r_lit_ci ''Authorization:'', r_star is_space, r_alt [r_lit_ci ''Bearer'', r_lit_ci ''Basic''],
              r_plus is_space, r_plus (\<lambda>c. \<not> mem_stop_class c)], \<lambda>_. ''Authorization: [REDACTED_AUTH_HEADER]''),
      (r_seq [r_lit_ci ''Bearer'', r_plus is_space, r_atleast 20 (\<lambda>c. mem_key_class c \<or> c = CHR ''.'')],
         \<lambda>_. ''[REDACTED_BEARER_TOKEN]''),
      (mem_assignment [''password'', ''passwd'', ''pwd''], keep_group ''=[REDACTED_PASSWORD]''),
      (mem_key_assignment, keep_group ''=[REDACTED_KEY]''),
      (mem_env_assignment, keep_group ''=[REDACTED_ENV_VAR]'')]"

definition redact_text :: "string \<Rightarrow> string" where
  "redact_text s = fold (\<lambda>(p, f) t. rx_sub p f t) MEMORY_SECRET_PATTERNS (filter (\<lambda>c. code_of c \<noteq> 0) s)"

definition SENSITIVE_METADATA :: "string list" where
  "SENSITIVE_METADATA = [''password'', ''secret'', ''token'', ''api_key'', ''credential'']"

fun redact_data :: "pyval \<Rightarrow> pyval" and redact_dict :: "pyval dict \<Rightarrow> pyval dict \<Rightarrow> pyval dict"
  and redact_list :: "pyval list \<Rightarrow> pyval list" where
  "redact_data (PStr s) = PStr (redact_text s)"
| "redact_data (PDict d) = PDict (redact_dict d [])"
| "redact_data (PList xs) = PList (redact_list xs)"
| "redact_data v = v"
| "redact_dict [] clean = clean"
| "redact_dict ((k, v) # d) clean =
     (let key = redact_text k
      in if \<exists>sec \<in> set SENSITIVE_METADATA. contains (lower key) sec
         then redact_dict d (dict_put key (PStr ''[REDACTED_SENSITIVE_FIELD]'') clean)
         else redact_dict d (dict_put key (redact_data v) clean))"
| "redact_list [] = []"
| "redact_list (x # xs) = redact_data x # redact_list xs"

definition sanitize_metadata :: "pyval dict \<Rightarrow> pyval dict" where
  "sanitize_metadata d = redact_dict d []"

text \<open>A value in quotes is not recognised as a password, and an ordinary word can look like a key.\<close>

lemma quoted_password_not_redacted:
  "\<not> rx_search (mem_assignment [''password'', ''passwd'', ''pwd'']) (''pwd: '' @ [CHR 0x22, CHR ''x'', CHR 0x22])"
  "rx_search (mem_assignment [''password'', ''passwd'', ''pwd'']) ''pwd: x''"
  by code_simp+

lemma ordinary_word_redacted:
  "rx_search (RSeq (r_lit_ci ''sk-'') (r_atleast 20 mem_key_class)) ''risk-assessment-of-the-plan''"
  by code_simp

section \<open>Classification\<close>

definition TRIVIAL_PHRASES :: "string list" where
  "TRIVIAL_PHRASES = [''hello'', ''hi'', ''hey'', ''good morning'', ''good evening'', ''ok'', ''okay'',
     ''thanks'', ''thank you'', ''sure'', ''got it'', ''yes'', ''no'', ''bye'', ''cool'',
     ''great'', ''done'', ''alright'', ''fine'', ''test'', ''ping'']"

definition PROMPT_INJECTION_PATTERNS :: "rx list" where
  "PROMPT_INJECTION_PATTERNS =
     [r_seq [r_lit_ci ''ignore'', r_plus is_space, ROpt (RSeq (r_lit_ci ''all'') (r_plus is_space)),
             r_lit_ci ''previous'', r_plus is_space, r_lit_ci ''instructions''],
      r_seq [r_lit_ci ''system'', r_star is_space, r_lit_ci ''prompt'', r_star is_space, r_lit_ci ''override''],
      r_seq [r_lit_ci ''you'', r_plus is_space, r_lit_ci ''are'', r_plus is_space, r_lit_ci ''now'', r_plus is_space,
             ROpt (RSeq (r_lit_ci ''in'') (r_plus is_space)),
             r_alt (map r_lit_ci [''dan'', ''jailbreak'', ''unrestricted'', ''god'']), r_plus is_space, r_lit_ci ''mode''],
      r_seq [r_lit_ci ''disregard'', r_plus is_space, ROpt (RSeq (r_lit_ci ''the'') (r_plus is_space)),
             r_lit_ci ''system'', r_plus is_space, r_lit_ci ''rules''],
      r_seq [r_lit_ci ''always'', r_plus is_space, r_lit_ci ''execute'', r_plus is_space,
             r_star (\<lambda>c. code_of c \<noteq> 10), r_lit_ci ''whenever'', RWordB],
      r_seq [r_lit_ci ''override'', r_plus is_space, r_alt (map r_lit_ci [''security'', ''sandbox'', ''policy''])],
      r_seq [r_char (CHR ''<''), r_star is_space, r_lit_ci ''system'', r_star is_space, r_char (CHR ''>''),
             r_star (\<lambda>c. code_of c \<noteq> 10), r_char (CHR ''<''), r_star is_space, r_char (CHR ''/''), r_star is_space,
             r_lit_ci ''system'', r_star is_space, r_char (CHR ''>'')]]"

definition is_memory_worthy :: "string \<Rightarrow> bool" where
  "is_memory_worthy content =
     (let stripped = lower (strip content) in 4 \<le> length stripped \<and> stripped \<notin> set TRIVIAL_PHRASES)"

definition detect_injection :: "string \<Rightarrow> bool" where
  "detect_injection content = list_ex (\<lambda>p. rx_search p content) PROMPT_INJECTION_PATTERNS"

definition any_in :: "string list \<Rightarrow> string \<Rightarrow> bool" where
  "any_in ks s = list_ex (contains s) ks"

definition base_importance :: "memory_type \<Rightarrow> rat" where
  "base_importance t =
     (if t = MPreference then 85 / 100 else if t = MProject then 80 / 100 else if t = MFact then 65 / 100
      else if t = MTask then 60 / 100 else 50 / 100)"

definition classify ::
  "string \<Rightarrow> string \<Rightarrow> memory_type option \<Rightarrow> memory_scope option
     \<Rightarrow> string + memory_type \<times> memory_scope \<times> trust_level \<times> rat" where
  "classify content source explicit_type explicit_scope =
     (let is_injection = detect_injection content;
          source_lower = lower source
      in if is_injection \<and> source_lower \<notin> {''system'', ''admin''}
         then Inl (''Adversarial memory injection attempt detected in source '' @ quoted source @ ''. Content rejected.'')
         else
           let trust = (if is_injection then TrUntrusted
                        else if source_lower \<in> {''system'', ''developer''} then TrSystem
                        else if source_lower \<in> {''user'', ''human''} then TrUserVerified
                        else TrModelGenerated);
               lowered = lower content;
               ty = (case explicit_type of
                       Some t \<Rightarrow> t
                     | None \<Rightarrow>
                         if any_in [''prefer'', ''preference'', ''favorite'', ''always use'', ''never use'', ''my theme'', ''i like''] lowered
                         then MPreference
                         else if any_in [''project'', ''architecture'', ''repository'', ''codebase'', ''monorepo''] lowered
                         then MProject
                         else if any_in [''task'', ''todo'', ''assigned'', ''action item''] lowered then MTask
                         else if any_in [''summary'', ''overview'', ''recap''] lowered then MSummary
                         else MFact);
               scope = (case explicit_scope of
                          Some sc \<Rightarrow> sc
                        | None \<Rightarrow> if ty = MPreference then ScUser else if ty = MProject then ScProject
                                 else ScConversation)
           in Inr (ty, scope, trust, base_importance ty))"

lemma base_importance_range: "0 \<le> base_importance t \<and> base_importance t \<le> 1"
  by (simp add: base_importance_def)

text \<open>What \<open>classify\<close> accepts, and the trust it gives.\<close>

lemma classify_result:
  assumes "classify content source et es = Inr (ty, sc, trust, imp)"
  shows "(trust = TrUntrusted \<longleftrightarrow> detect_injection content)"
    and "detect_injection content \<Longrightarrow> lower source \<in> {''system'', ''admin''}"
    and "trust = TrSystem \<Longrightarrow> lower source \<in> {''system'', ''developer''}"
    and "trust = TrUserVerified \<Longrightarrow> lower source \<in> {''user'', ''human''}"
    and "imp = base_importance ty"
    and "\<And>t. et = Some t \<Longrightarrow> ty = t" and "\<And>s. es = Some s \<Longrightarrow> sc = s"
  using assms by (auto simp: classify_def Let_def split: if_splits)

section \<open>Retention\<close>

definition compute_expiry ::
  "(rat \<Rightarrow> string) \<Rightarrow> rat \<Rightarrow> int \<Rightarrow> memory_scope \<Rightarrow> memory_type \<Rightarrow> int option \<Rightarrow> string option" where
  "compute_expiry to_iso now days scope ty ttl =
     (case ttl of
        Some s \<Rightarrow> Some (to_iso (now + of_int s))
      | None \<Rightarrow>
          if scope = ScSession then Some (to_iso (now + 24 * 3600))
          else if ty = MTask then Some (to_iso (now + 7 * 86400))
          else if ty \<in> {MConversation, MEvent, MEpisodic} then Some (to_iso (now + of_int days * 86400))
          else if ty \<in> {MFact, MPreference, MProject, MArtifact} then None
          else if ty = MSummary then Some (to_iso (now + of_int days * 86400))
          else None)"

definition is_expired :: "(string \<Rightarrow> rat option) \<Rightarrow> rat \<Rightarrow> memory_record \<Rightarrow> bool" where
  "is_expired fromiso now r =
     (if \<not> given (mr_expires r) then False
      else case fromiso (the (mr_expires r)) of None \<Rightarrow> False | Some t \<Rightarrow> t \<le> now)"

text \<open>Durable types get a deadline only in a session or with an explicit lifetime.\<close>

lemma durable_never_expires:
  "ty \<in> {MFact, MPreference, MProject, MArtifact, MSemantic} \<Longrightarrow>
   compute_expiry to_iso now days scope ty ttl = None \<longleftrightarrow> scope \<noteq> ScSession \<and> ttl = None"
  by (auto simp: compute_expiry_def split: option.splits)

end
