(* ===== verification/Memory_Store.thy ===== *)
theory Memory_Store
  imports Memory_Model "HOL-Library.Char_ord" "HOL-Library.List_Lexorder" "HOL-Library.Multiset"
begin

text \<open>
  The stores of durable memory: the SQLite repository (\<open>memory/structured/repository.py\<close>), the migrations
  of its schema (\<open>memory/structured/migrations.py\<close>), the embeddings (\<open>memory/semantic/embeddings.py\<close>) and the
  vector store in its pure Python mode (\<open>memory/semantic/store.py\<close>). A table is the list of its rows in the
  order of insertion; a statement is a function on the tables. The order in which the database visits rows
  that the \<open>ORDER BY\<close> clause does not separate is the argument \<open>visit\<close>. Failures of the database itself
  (locks, disk) are left out, and so is the native extension, which \<open>Memory_Retrieval\<close> takes as an argument.
\<close>

section \<open>Tables\<close>

record preference_row =
  pf_id :: string
  pf_key :: string
  pf_value :: string
  pf_scope :: memory_scope
  pf_source :: string
  pf_memory :: string
  pf_updated :: string

record memory_db =
  db_memories :: "memory_record list"
  db_preferences :: "preference_row list"
  db_vectors :: "(string \<times> rat list) list"

definition empty_db :: memory_db where
  "empty_db = \<lparr>db_memories = [], db_preferences = [], db_vectors = []\<rparr>"

text \<open>The operator \<open>LIKE\<close>: \<open>%\<close> stands for any text, \<open>_\<close> for any character, ASCII letters match in both cases.\<close>

definition ascii_fold :: "char \<Rightarrow> char" where
  "ascii_fold c = (if 65 \<le> code_of c \<and> code_of c \<le> 90 then char_of (code_of c + 32) else c)"

function sql_like :: "string \<Rightarrow> string \<Rightarrow> bool" where
  "sql_like [] s = (s = [])"
| "sql_like (p # ps) s =
     (if p = CHR ''%'' then sql_like ps s \<or> (case s of [] \<Rightarrow> False | _ # cs \<Rightarrow> sql_like (p # ps) cs)
      else case s of [] \<Rightarrow> False
                   | c # cs \<Rightarrow> (p = CHR ''_'' \<or> ascii_fold p = ascii_fold c) \<and> sql_like ps cs)"
  by pat_completeness auto
termination
  by (relation "measure (\<lambda>(p, s). length p + length s)") auto

text \<open>\<open>text.split()\<close>: the maximal runs of characters that are no white space.\<close>

fun words_acc :: "string \<Rightarrow> string \<Rightarrow> string list" where
  "words_acc w [] = (if w = [] then [] else [rev w])"
| "words_acc w (c # s) =
     (if is_space c then (if w = [] then words_acc [] s else rev w # words_acc [] s) else words_acc (c # w) s)"

definition words :: "string \<Rightarrow> string list" where
  "words s = words_acc [] s"

section \<open>The repository\<close>

text \<open>\<open>_row_to_record\<close>: building the record strips the content again.\<close>

definition row_to_record :: "memory_record \<Rightarrow> memory_record" where
  "row_to_record r = r\<lparr>mr_content := strip (mr_content r)\<rparr>"

definition has_row :: "string \<Rightarrow> memory_db \<Rightarrow> bool" where
  "has_row k db = (k \<in> mr_id ` set (db_memories db))"

definition repo_insert :: "memory_record \<Rightarrow> memory_db \<Rightarrow> memory_db \<times> string option" where
  "repo_insert r db =
     (if has_row (mr_id r) db
      then (db, Some (''Failed to insert memory record '' @ quoted (mr_id r) @ '': UNIQUE constraint failed: memories.id''))
      else (db\<lparr>db_memories := db_memories db @ [r]\<rparr>, None))"

definition repo_get :: "string \<Rightarrow> memory_db \<Rightarrow> memory_record option" where
  "repo_get k db = map_option row_to_record (find (\<lambda>r. mr_id r = k) (db_memories db))"

text \<open>The columns \<open>UPDATE\<close> sets; type, scope, source and the ids keep their values.\<close>

definition repo_update :: "string \<Rightarrow> memory_record \<Rightarrow> memory_db \<Rightarrow> memory_db \<times> (string + memory_record)" where
  "repo_update now_iso r db =
     (let r = r\<lparr>mr_updated := now_iso\<rparr>
      in if \<not> has_row (mr_id r) db
         then (db, Inl (''Memory record with ID '' @ quoted (mr_id r) @ '' not found for update.''))
         else (db\<lparr>db_memories := map (\<lambda>x. if mr_id x = mr_id r
                    then x\<lparr>mr_content := mr_content r, mr_summary := mr_summary r, mr_importance := mr_importance r,
                           mr_confidence := mr_confidence r, mr_updated := mr_updated r, mr_expires := mr_expires r,
                           mr_metadata := mr_metadata r, mr_embedding := mr_embedding r, mr_trust := mr_trust r\<rparr>
                    else x) (db_memories db)\<rparr>, Inr r))"

text \<open>Rows of memories are deleted with the preferences that refer to them (\<open>ON DELETE CASCADE\<close>).\<close>

definition delete_where :: "(memory_record \<Rightarrow> bool) \<Rightarrow> memory_db \<Rightarrow> memory_db \<times> nat" where
  "delete_where P db =
     (let gone = filter P (db_memories db)
      in (db\<lparr>db_memories := filter (\<lambda>r. \<not> P r) (db_memories db),
            db_preferences := filter (\<lambda>p. pf_memory p \<notin> mr_id ` set gone) (db_preferences db)\<rparr>, length gone))"

definition repo_delete :: "string \<Rightarrow> memory_db \<Rightarrow> memory_db \<times> bool" where
  "repo_delete k db = (let (db1, n) = delete_where (\<lambda>r. mr_id r = k) db in (db1, 0 < n))"

text \<open>The conditions of the \<open>WHERE\<close> clause of \<open>search\<close>.\<close>

definition optional :: "'a option \<Rightarrow> ('a \<Rightarrow> bool) \<Rightarrow> bool" where
  "optional x P = (case x of None \<Rightarrow> True | Some a \<Rightarrow> P a)"

definition keyword_match :: "retrieval_query \<Rightarrow> memory_record \<Rightarrow> bool" where
  "keyword_match q r =
     (let kws = filter (\<lambda>w. 2 < length w) (words (rq_query q))
      in kws = [] \<or> list_ex (\<lambda>kw. sql_like (''%'' @ kw @ ''%'') (mr_content r) \<or>
           (case mr_summary r of None \<Rightarrow> False | Some s \<Rightarrow> sql_like (''%'' @ kw @ ''%'') s)) kws)"

definition search_match :: "string \<Rightarrow> retrieval_query \<Rightarrow> memory_record \<Rightarrow> bool" where
  "search_match now_iso q r \<longleftrightarrow>
     (rq_include_expired q \<or> optional (mr_expires r) (\<lambda>e. now_iso < e)) \<and>
     optional (rq_scope q) (\<lambda>s. mr_scope r = s) \<and>
     (\<not> given (rq_project q) \<or> mr_project r = rq_project q \<or> mr_scope r = ScGlobal) \<and>
     (\<not> given (rq_conversation q) \<or> mr_conversation r = rq_conversation q \<or>
        mr_scope r \<in> {ScUser, ScGlobal, ScProject}) \<and>
     optional (rq_types q) (\<lambda>ts. ts = [] \<or> mr_type r \<in> set ts) \<and>
     (rq_min_importance q \<le> 0 \<or> rq_min_importance q \<le> mr_importance r) \<and>
     (rq_min_confidence q \<le> 0 \<or> rq_min_confidence q \<le> mr_confidence r) \<and>
     keyword_match q r"

text \<open>\<open>ORDER BY importance DESC, created_at DESC\<close>: two stable sorts.\<close>

definition search_order :: "memory_record list \<Rightarrow> memory_record list" where
  "search_order rs = sort_key (\<lambda>r. - mr_importance r) (rev (sort_key mr_created (rev rs)))"

definition repo_search ::
  "(memory_record list \<Rightarrow> memory_record list) \<Rightarrow> string \<Rightarrow> retrieval_query \<Rightarrow> memory_db \<Rightarrow> memory_record list" where
  "repo_search visit now_iso q db =
     map row_to_record (take (rq_top_k q) (search_order (visit (filter (search_match now_iso q) (db_memories db)))))"

definition preference_text :: "string \<Rightarrow> string \<Rightarrow> string" where
  "preference_text key value = ''Preference '' @ key @ '': '' @ value"

text \<open>\<open>upsert_preference\<close>; \<open>mid\<close> is the generated id of a new record.\<close>

definition upsert_preference ::
  "string \<Rightarrow> string \<Rightarrow> string \<Rightarrow> string \<Rightarrow> memory_scope \<Rightarrow> string \<Rightarrow> memory_db \<Rightarrow> memory_db \<times> (string + memory_record)" where
  "upsert_preference now_iso mid key value scope source db =
     (case find (\<lambda>p. pf_key p = key \<and> pf_scope p = scope) (db_preferences db) of
        Some p \<Rightarrow>
          let db1 = db\<lparr>db_preferences := map (\<lambda>x. if pf_id x = pf_id p then x\<lparr>pf_value := value, pf_updated := now_iso\<rparr> else x)
                         (db_preferences db),
                       db_memories := map (\<lambda>x. if mr_id x = pf_memory p
                         then x\<lparr>mr_content := preference_text key value, mr_updated := now_iso, mr_confidence := 1\<rparr> else x)
                         (db_memories db)\<rparr>
          in (case repo_get (pf_memory p) db1 of
                None \<Rightarrow> (db1, Inl (''Failed to fetch updated preference memory '' @ quoted (pf_memory p) @ ''.''))
              | Some r \<Rightarrow> (db1, Inr r))
      | None \<Rightarrow>
          let r = \<lparr>mr_id = mid, mr_type = MPreference, mr_content = strip (preference_text key value), mr_summary = None,
                   mr_scope = scope, mr_source = source, mr_importance = 9 / 10, mr_confidence = 1,
                   mr_created = now_iso, mr_updated = now_iso, mr_expires = None, mr_conversation = None,
                   mr_task = None, mr_artifact = None, mr_project = None,
                   mr_metadata = [(''preference_key'', PStr key), (''preference_value'', PStr value)],
                   mr_embedding = EmPending, mr_trust = TrModelGenerated\<rparr>
          in (case repo_insert r db of
                (db1, Some e) \<Rightarrow> (db1, Inl e)
              | (db1, None) \<Rightarrow>
                  (db1\<lparr>db_preferences := db_preferences db1 @
                      [\<lparr>pf_id = ''pref_'' @ drop 4 mid, pf_key = key, pf_value = value, pf_scope = scope,
                        pf_source = source, pf_memory = mid, pf_updated = now_iso\<rparr>]\<rparr>, Inr r)))"

definition prune_expired :: "string \<Rightarrow> memory_db \<Rightarrow> memory_db \<times> nat" where
  "prune_expired now_iso db = delete_where (\<lambda>r. \<not> optional (mr_expires r) (\<lambda>e. now_iso < e)) db"

definition repo_count :: "memory_scope option \<Rightarrow> memory_db \<Rightarrow> nat" where
  "repo_count scope db = length (filter (\<lambda>r. optional scope (\<lambda>s. mr_scope r = s)) (db_memories db))"

section \<open>Search returns the best matches\<close>

definition before_or_tied :: "memory_record \<Rightarrow> memory_record \<Rightarrow> bool" where
  "before_or_tied a b \<longleftrightarrow> mr_importance b < mr_importance a \<or>
     mr_importance a = mr_importance b \<and> mr_created b \<le> mr_created a"

lemma mset_search_order [simp]: "mset (search_order rs) = mset rs"
  by (simp add: search_order_def)

lemma sorted_wrt_by_stability:
  assumes "sorted (map f xs)"
    and "\<And>k. sorted_wrt R (filter (\<lambda>x. f x = k) xs)"
  shows "sorted_wrt (\<lambda>a b. f a < f b \<or> f a = f b \<and> R a b) xs"
  using assms
proof (induction xs)
  case (Cons x xs)
  have "sorted_wrt R (filter (\<lambda>y. f y = k) xs)" for k
    using Cons.prems(2) [of k] by (auto split: if_splits)
  moreover have "f x < f y \<or> f x = f y \<and> R x y" if "y \<in> set xs" for y
    using Cons.prems(1) Cons.prems(2) [of "f x"] that by (auto simp: le_less)
  ultimately show ?case using Cons by auto
qed simp

lemma filter_const_sort_key: "filter (\<lambda>x. f x = k) (sort_key f xs) = filter (\<lambda>x. f x = k) xs"
  by (rule sort_key_stable)

lemma search_order_sorted: "sorted_wrt before_or_tied (search_order rs)"
proof -
  let ?ys = "rev (sort_key mr_created (rev rs))"
  have "sorted_wrt (\<lambda>a b. mr_created b \<le> mr_created a) ?ys"
    using sorted_sort_key [of mr_created "rev rs"] unfolding sorted_map sorted_wrt_rev .
  then have "sorted_wrt (\<lambda>a b. mr_created b \<le> mr_created a) (filter (\<lambda>x. - mr_importance x = k) (search_order rs))" for k
    unfolding search_order_def filter_const_sort_key by (rule sorted_wrt_filter)
  from sorted_wrt_by_stability [of "\<lambda>r. - mr_importance r", OF _ this]
  have "sorted_wrt (\<lambda>a b. - mr_importance a < - mr_importance b \<or>
      - mr_importance a = - mr_importance b \<and> mr_created b \<le> mr_created a) (search_order rs)"
    by (simp add: search_order_def)
  then show ?thesis by (rule sorted_wrt_mono_rel [rotated]) (auto simp: before_or_tied_def)
qed

text \<open>
  What a search returns. Whatever the order in which the database visits the rows, the result holds as
  many rows as match the query, but at most \<open>top_k\<close>; every row in it matches the query, the rows are
  ordered by importance and then by creation time, newest first, and no row left out comes before a row
  in the result.
\<close>

theorem search_returns_best:
  assumes "mset (visit (filter (search_match now_iso q) (db_memories db))) = mset (filter (search_match now_iso q) (db_memories db))"
  shows "\<exists>best rest. repo_search visit now_iso q db = map row_to_record best \<and>
    mset (best @ rest) = mset (filter (search_match now_iso q) (db_memories db)) \<and>
    length best = min (rq_top_k q) (length (filter (search_match now_iso q) (db_memories db))) \<and>
    sorted_wrt before_or_tied best \<and> list_all (\<lambda>r. list_all (before_or_tied r) rest) best"
proof -
  let ?m = "filter (search_match now_iso q) (db_memories db)"
  let ?o = "search_order (visit ?m)"
  have ms: "mset ?o = mset ?m" using assms by simp
  have len: "length ?o = length ?m" using ms by (metis size_mset)
  have "sorted_wrt before_or_tied (take (rq_top_k q) ?o @ drop (rq_top_k q) ?o)"
    by (simp add: search_order_sorted)
  then have "sorted_wrt before_or_tied (take (rq_top_k q) ?o) \<and>
      list_all (\<lambda>r. list_all (before_or_tied r) (drop (rq_top_k q) ?o)) (take (rq_top_k q) ?o)"
    by (simp only: sorted_wrt_append list_all_iff) blast
  moreover have "mset (take (rq_top_k q) ?o @ drop (rq_top_k q) ?o) = mset ?m" by (simp only: append_take_drop_id ms)
  moreover have "length (take (rq_top_k q) ?o) = min (rq_top_k q) (length ?m)" by (simp add: len min.commute)
  ultimately show ?thesis unfolding repo_search_def by blast
qed

definition demo_record :: "string \<Rightarrow> rat \<Rightarrow> string \<Rightarrow> string option \<Rightarrow> memory_record" where
  "demo_record k imp content expires =
     \<lparr>mr_id = k, mr_type = MFact, mr_content = content, mr_summary = None, mr_scope = ScConversation,
      mr_source = ''user'', mr_importance = imp, mr_confidence = 1, mr_created = k, mr_updated = k,
      mr_expires = expires, mr_conversation = None, mr_task = None, mr_artifact = None, mr_project = None,
      mr_metadata = [], mr_embedding = EmPending, mr_trust = TrUserVerified\<rparr>"

definition demo_query :: retrieval_query where
  "demo_query = \<lparr>rq_query = ''tea'', rq_scope = None, rq_project = None, rq_conversation = None, rq_types = None,
     rq_min_importance = 0, rq_min_confidence = 0, rq_top_k = 1, rq_include_expired = False\<rparr>"

definition demo_db :: memory_db where
  "demo_db = empty_db\<lparr>db_memories := [demo_record ''a'' (1 / 2) ''Tea'' None, demo_record ''b'' (2 / 3) ''old tea'' (Some ''1''),
     demo_record ''c'' (3 / 5) ''tea pot'' (Some ''9'')], db_vectors := [(''b'', [1]), (''c'', [1])]\<rparr>"

theorem search_returns_best_witness:
  "map mr_id (repo_search id ''5'' demo_query demo_db) = [''c''] \<and>
   length (repo_search id ''5'' demo_query demo_db) = 1"
proof
  show "map mr_id (repo_search id ''5'' demo_query demo_db) = [''c'']" by code_simp
  have "min (rq_top_k demo_query) (length (filter (search_match ''5'' demo_query) (db_memories demo_db))) = 1" by code_simp
  with search_returns_best [of id "''5''" demo_query demo_db]
  show "length (repo_search id ''5'' demo_query demo_db) = 1" by auto
qed

section \<open>Pruning\<close>

lemma search_match_pruned:
  "filter (search_match now_iso q) (filter (\<lambda>r. optional (mr_expires r) (\<lambda>e. now_iso < e)) rs) =
   filter (search_match now_iso (q\<lparr>rq_include_expired := False\<rparr>)) rs"
  by (auto simp: search_match_def keyword_match_def intro!: filter_cong)



section \<open>Runs of the repository\<close>

definition db_wf :: "memory_db \<Rightarrow> bool" where
  "db_wf db \<longleftrightarrow> distinct (map mr_id (db_memories db)) \<and>
     distinct (map (\<lambda>p. (pf_key p, pf_scope p)) (db_preferences db)) \<and>
     distinct (map pf_id (db_preferences db)) \<and>
     list_all (\<lambda>p. has_row (pf_memory p) db) (db_preferences db)"

text \<open>The calls that change the tables; generated ids are fresh.\<close>

inductive repo_step :: "memory_db \<Rightarrow> memory_db \<Rightarrow> bool" where
  insert: "repo_step db (fst (repo_insert r db))"
| update: "repo_step db (fst (repo_update now_iso r db))"
| delete: "repo_step db (fst (repo_delete k db))"
| prune: "repo_step db (fst (prune_expired now_iso db))"
| upsert: "\<lbrakk>\<not> has_row mid db; ''pref_'' @ drop 4 mid \<notin> pf_id ` set (db_preferences db)\<rbrakk>
    \<Longrightarrow> repo_step db (fst (upsert_preference now_iso mid key value scope source db))"

inductive_cases repo_stepE: "repo_step db db'"

lemma has_row_simps:
  "has_row k (db\<lparr>db_memories := ms\<rparr>) \<longleftrightarrow> k \<in> mr_id ` set ms"
  "has_row k (db\<lparr>db_preferences := ps\<rparr>) \<longleftrightarrow> has_row k db"
  by (auto simp: has_row_def)

lemma db_wf_insert: "db_wf db \<Longrightarrow> db_wf (fst (repo_insert r db))"
  by (auto simp: db_wf_def repo_insert_def has_row_def list_all_iff)

text \<open>Only the keys of the rows matter.\<close>

definition pref_keys :: "preference_row \<Rightarrow> string \<times> memory_scope \<times> string \<times> string" where
  "pref_keys p = (pf_key p, pf_scope p, pf_id p, pf_memory p)"

lemma db_wf_keys:
  "db_wf db \<longleftrightarrow> distinct (map mr_id (db_memories db)) \<and>
     distinct (map (\<lambda>(k, s, _, _). (k, s)) (map pref_keys (db_preferences db))) \<and>
     distinct (map (\<lambda>(_, _, i, _). i) (map pref_keys (db_preferences db))) \<and>
     list_all (\<lambda>(_, _, _, m). m \<in> set (map mr_id (db_memories db))) (map pref_keys (db_preferences db))"
  by (simp add: db_wf_def pref_keys_def comp_def has_row_def list.pred_map)

lemma db_wf_same_keys:
  assumes "map mr_id (db_memories db') = map mr_id (db_memories db)"
    and "map pref_keys (db_preferences db') = map pref_keys (db_preferences db)"
  shows "db_wf db' = db_wf db"
  unfolding db_wf_keys assms ..

lemma db_wf_update: "db_wf db \<Longrightarrow> db_wf (fst (repo_update now_iso r db))"
  by (subst db_wf_same_keys [of _ db]) (auto simp: repo_update_def Let_def)

lemma db_wf_delete_where: "db_wf db \<Longrightarrow> db_wf (fst (delete_where P db))"
  by (auto simp: db_wf_def delete_where_def has_row_def list_all_iff Let_def distinct_map_filter)

lemma db_wf_delete: "db_wf db \<Longrightarrow> db_wf (fst (repo_delete k db))"
  using db_wf_delete_where by (simp add: repo_delete_def split: prod.splits) (metis fst_conv)

lemma db_wf_prune: "db_wf db \<Longrightarrow> db_wf (fst (prune_expired now_iso db))"
  by (simp add: prune_expired_def db_wf_delete_where)

lemma find_None: "find P xs = None \<longleftrightarrow> (\<forall>x \<in> set xs. \<not> P x)"
  by (auto simp: find_None_iff)

lemma db_wf_upsert:
  assumes "db_wf db" and "\<not> has_row mid db" and "''pref_'' @ drop 4 mid \<notin> pf_id ` set (db_preferences db)"
  shows "db_wf (fst (upsert_preference now_iso mid key value scope source db))"
proof (cases "find (\<lambda>p. pf_key p = key \<and> pf_scope p = scope) (db_preferences db)")
  case None
  then have "(key, scope) \<notin> (\<lambda>p. (pf_key p, pf_scope p)) ` set (db_preferences db)" by (auto simp: find_None)
  with None assms show ?thesis
    by (auto simp: upsert_preference_def repo_insert_def db_wf_def has_row_def list_all_iff Let_def)
next
  case (Some p)
  then show ?thesis using assms(1)
    by (subst db_wf_same_keys [of _ db]) (auto simp: upsert_preference_def Let_def pref_keys_def split: option.splits)
qed

lemma db_wf_step: "repo_step db db' \<Longrightarrow> db_wf db \<Longrightarrow> db_wf db'"
  by (erule repo_stepE) (auto intro: db_wf_insert db_wf_update db_wf_delete db_wf_prune db_wf_upsert)

lemma db_wf_run: "repo_step\<^sup>*\<^sup>* db db' \<Longrightarrow> db_wf db \<Longrightarrow> db_wf db'"
  by (induction rule: rtranclp_induct) (auto intro: db_wf_step)

lemma db_wf_empty: "db_wf empty_db"
  by (simp add: db_wf_def empty_db_def)

section \<open>Preferences\<close>

lemma find_unique:
  assumes "distinct (map g xs)" and "find (\<lambda>x. g x = c) xs = Some p"
  shows "filter (\<lambda>x. g x = c) xs = [p]"
  using assms
proof (induction xs)
  case (Cons x xs)
  then show ?case by (cases "g x = c") (auto simp: filter_empty_conv image_iff)
qed simp

lemma find_append_None: "find P xs = None \<Longrightarrow> find P (xs @ ys) = find P ys"
  by (induction xs) (auto split: if_splits)

lemma find_map_same: "(\<And>x. P (f x) = P x) \<Longrightarrow> find P (map f xs) = map_option f (find P xs)"
  by (induction xs) auto

lemma find_has_row: "has_row k db \<Longrightarrow> \<exists>r. find (\<lambda>r. mr_id r = k) (db_memories db) = Some r \<and> mr_id r = k"
  unfolding has_row_def by (cases "find (\<lambda>r. mr_id r = k) (db_memories db)") (auto simp: find_None_iff find_Some_iff)

lemma preference_superseded_wf:
  assumes wf: "db_wf db" and mid: "\<not> has_row mid db"
    and up: "upsert_preference now_iso mid key value scope source db = (db1, res)"
  shows "\<exists>r p. res = Inr r \<and> mr_content r = strip (preference_text key value) \<and>
    filter (\<lambda>p. pf_key p = key \<and> pf_scope p = scope) (db_preferences db1) = [p] \<and> pf_value p = value \<and>
    pf_memory p = mr_id r \<and> repo_get (mr_id r) db1 = Some (row_to_record r) \<and>
    (if list_ex (\<lambda>p. pf_key p = key \<and> pf_scope p = scope) (db_preferences db)
     then map mr_id (db_memories db1) = map mr_id (db_memories db) \<and>
          map mr_metadata (db_memories db1) = map mr_metadata (db_memories db)
     else db_memories db1 = db_memories db @ [r])"
proof (cases "find (\<lambda>p. pf_key p = key \<and> pf_scope p = scope) (db_preferences db)")
  case None
  then have no: "filter (\<lambda>p. pf_key p = key \<and> pf_scope p = scope) (db_preferences db) = []"
    "\<not> list_ex (\<lambda>p. pf_key p = key \<and> pf_scope p = scope) (db_preferences db)"
    by (auto simp: find_None filter_empty_conv list_ex_iff)
  have "find (\<lambda>r. mr_id r = mid) (db_memories db) = None" using mid by (auto simp: find_None has_row_def)
  then have "find (\<lambda>r. mr_id r = mid) (db_memories db @ [r]) = Some r" if "mr_id r = mid" for r
    using that by (simp add: find_append_None)
  then show ?thesis using up mid None no
    by (auto simp: upsert_preference_def repo_insert_def repo_get_def Let_def)
next
  case (Some p)
  have key: "pf_key p = key" "pf_scope p = scope" "p \<in> set (db_preferences db)"
    using Some by (auto simp: find_Some_iff)
  have "distinct (map (\<lambda>p. (pf_key p, pf_scope p)) (db_preferences db))" using wf by (simp add: db_wf_def)
  from find_unique [OF this, of "(key, scope)" p]
  have one: "filter (\<lambda>p. pf_key p = key \<and> pf_scope p = scope) (db_preferences db) = [p]" using Some by simp
  have "has_row (pf_memory p) db" using wf key(3) by (auto simp: db_wf_def list_all_iff)
  from find_has_row [OF this] obtain r where r: "find (\<lambda>r. mr_id r = pf_memory p) (db_memories db) = Some r" "mr_id r = pf_memory p"
    by blast
  have ex: "list_ex (\<lambda>p. pf_key p = key \<and> pf_scope p = scope) (db_preferences db)" using key by (auto simp: list_ex_iff)
  let ?g = "\<lambda>x. if pf_id x = pf_id p then x\<lparr>pf_value := value, pf_updated := now_iso\<rparr> else x"
  let ?f = "\<lambda>x. if mr_id x = pf_memory p
      then x\<lparr>mr_content := preference_text key value, mr_updated := now_iso, mr_confidence := 1\<rparr> else x"
  have f: "find (\<lambda>r. mr_id r = pf_memory p) (map ?f (db_memories db)) = Some (?f r)"
    by (subst find_map_same) (auto simp: r(1))
  have g: "filter (\<lambda>p. pf_key p = key \<and> pf_scope p = scope) (map ?g (db_preferences db)) = [?g p]"
  proof -
    have c: "(\<lambda>p. pf_key p = key \<and> pf_scope p = scope) \<circ> ?g = (\<lambda>p. pf_key p = key \<and> pf_scope p = scope)" by (rule ext) simp
    show ?thesis by (simp only: filter_map c one) simp
  qed
  have "db1 = db\<lparr>db_preferences := map ?g (db_preferences db), db_memories := map ?f (db_memories db)\<rparr>"
    "res = Inr (row_to_record (?f r))"
    using up Some f by (auto simp: upsert_preference_def repo_get_def Let_def)
  then show ?thesis using f g r(2) ex by (auto simp: repo_get_def row_to_record_def)
qed

text \<open>
  Preferences are superseded. In every state the repository can reach, storing a preference succeeds;
  afterwards exactly one row holds the key in the scope, with the new value, and it refers to the record
  returned, which is in the table and states the new value. When the key was there no record is
  added and no metadata changes, so the metadata of the record goes on naming the first value.
\<close>

theorem preference_superseded:
  assumes "repo_step\<^sup>*\<^sup>* empty_db db" and "\<not> has_row mid db"
    and "upsert_preference now_iso mid key value scope source db = (db1, res)"
  shows "\<exists>r p. res = Inr r \<and> mr_content r = strip (preference_text key value) \<and>
    filter (\<lambda>p. pf_key p = key \<and> pf_scope p = scope) (db_preferences db1) = [p] \<and> pf_value p = value \<and>
    pf_memory p = mr_id r \<and> repo_get (mr_id r) db1 = Some (row_to_record r) \<and>
    (if list_ex (\<lambda>p. pf_key p = key \<and> pf_scope p = scope) (db_preferences db)
     then map mr_id (db_memories db1) = map mr_id (db_memories db) \<and>
          map mr_metadata (db_memories db1) = map mr_metadata (db_memories db)
     else db_memories db1 = db_memories db @ [r])"
  by (rule preference_superseded_wf [OF db_wf_run [OF assms(1) db_wf_empty] assms(2,3)])

definition demo_pref_db :: memory_db where
  "demo_pref_db = fst (upsert_preference ''1'' ''mem_1'' ''theme'' ''dark'' ScUser ''user'' empty_db)"

theorem preference_superseded_witness:
  "map mr_content (db_memories (fst (upsert_preference ''2'' ''mem_2'' ''theme'' ''light'' ScUser ''user'' demo_pref_db)))
     = [''Preference theme: light''] \<and>
   map mr_metadata (db_memories (fst (upsert_preference ''2'' ''mem_2'' ''theme'' ''light'' ScUser ''user'' demo_pref_db)))
     = [[(''preference_key'', PStr ''theme''), (''preference_value'', PStr ''dark'')]]"
proof
  show "map mr_content (db_memories (fst (upsert_preference ''2'' ''mem_2'' ''theme'' ''light'' ScUser ''user'' demo_pref_db)))
     = [''Preference theme: light'']" by code_simp
  have "repo_step empty_db demo_pref_db"
    unfolding demo_pref_db_def by (rule repo_step.upsert) (simp_all add: empty_db_def has_row_def)
  then have run: "repo_step\<^sup>*\<^sup>* empty_db demo_pref_db" by simp
  have mid: "\<not> has_row ''mem_2'' demo_pref_db" by code_simp
  have ex: "list_ex (\<lambda>p. pf_key p = ''theme'' \<and> pf_scope p = ScUser) (db_preferences demo_pref_db)" by code_simp
  have m: "map mr_metadata (db_memories demo_pref_db) = [[(''preference_key'', PStr ''theme''), (''preference_value'', PStr ''dark'')]]"
    by code_simp
  from preference_superseded [OF run mid prod.collapse [symmetric], of "''2''" "''theme''" "''light''" ScUser "''user''"] ex
  show "map mr_metadata (db_memories (fst (upsert_preference ''2'' ''mem_2'' ''theme'' ''light'' ScUser ''user'' demo_pref_db)))
     = [[(''preference_key'', PStr ''theme''), (''preference_value'', PStr ''dark'')]]"
    unfolding m [symmetric] by auto
qed

section \<open>Migrations\<close>

text \<open>\<open>apply_migrations\<close> over the versions recorded as applied; \<open>run v\<close> is whether the script of version
  \<open>v\<close> succeeds. The result is the number of new versions, or the version that failed.\<close>

fun apply_migrations :: "(nat \<Rightarrow> bool) \<Rightarrow> nat list \<Rightarrow> nat list \<Rightarrow> nat list \<times> (nat + nat)" where
  "apply_migrations run [] applied = (applied, Inr 0)"
| "apply_migrations run (v # vs) applied =
     (if v \<in> set applied then apply_migrations run vs applied
      else if \<not> run v then (applied, Inl v)
      else case apply_migrations run vs (applied @ [v]) of
             (a, Inr n) \<Rightarrow> (a, Inr (Suc n))
           | (a, Inl e) \<Rightarrow> (a, Inl e))"

lemma apply_migrations_done:
  "apply_migrations run vs applied = (a, Inr n) \<Longrightarrow> set a = set applied \<union> set vs"
proof (induction vs arbitrary: applied a n)
  case (Cons v vs)
  show ?case
  proof (cases "v \<in> set applied")
    case True
    then show ?thesis using Cons.IH [of applied a n] Cons.prems by auto
  next
    case False
    then obtain m where "apply_migrations run vs (applied @ [v]) = (a, Inr m)"
      using Cons.prems by (auto split: if_splits prod.splits sum.splits)
    from Cons.IH [OF this] show ?thesis by auto
  qed
qed simp

lemma apply_migrations_idempotent: "set vs \<subseteq> set applied \<Longrightarrow> apply_migrations run vs applied = (applied, Inr 0)"
  by (induction vs) auto

section \<open>Embeddings and the vector store\<close>

text \<open>\<open>math.sqrt\<close> is the argument \<open>msqrt\<close>, \<open>sha256\<close> the argument \<open>digest\<close>.\<close>

definition dot :: "rat list \<Rightarrow> rat list \<Rightarrow> rat" where
  "dot v w = sum_list (map2 (*) v w)"

definition cosine_similarity :: "(rat \<Rightarrow> rat) \<Rightarrow> rat list \<Rightarrow> rat list \<Rightarrow> rat" where
  "cosine_similarity msqrt v w =
     (if v = [] \<or> w = [] \<or> length v \<noteq> length w then 0
      else let norm_a = msqrt (dot v v); norm_b = msqrt (dot w w)
           in if norm_a = 0 \<or> norm_b = 0 then 0
              else max 0 (min 1 ((dot v w / (norm_a * norm_b) + 1) / 2)))"

definition trigrams :: "string \<Rightarrow> string list" where
  "trigrams w = (if length w < 3 then [] else map (\<lambda>i. take 3 (drop i w)) [0..<length w - 2])"

definition embed_token :: "(string \<Rightarrow> nat list) \<Rightarrow> string \<Rightarrow> rat list \<Rightarrow> rat list" where
  "embed_token digest t v =
     (let d = digest t;
          i = (((d ! 0 * 256 + d ! 1) * 256 + d ! 2) * 256 + d ! 3) mod length v;
          sign = (if d ! 4 mod 2 = 0 then 1 else - 1)
      in v[i := v ! i + sign])"

definition hash_embed :: "(rat \<Rightarrow> rat) \<Rightarrow> (string \<Rightarrow> nat list) \<Rightarrow> nat \<Rightarrow> string \<Rightarrow> rat list" where
  "hash_embed msqrt digest n s =
     (if s = [] \<or> strip s = [] then replicate n 0
      else let ws = words (strip (lower s));
               tokens = ws @ concat (map trigrams ws);
               v = fold (embed_token digest) tokens (replicate n 0);
               norm = msqrt (dot v v)
           in if 0 < norm then map (\<lambda>x. x / norm) v else v)"

definition vec_index :: "string \<Rightarrow> rat list \<Rightarrow> memory_db \<Rightarrow> memory_db" where
  "vec_index k v db = db\<lparr>db_vectors := filter (\<lambda>(i, _). i \<noteq> k) (db_vectors db) @ [(k, v)]\<rparr>"

definition search_knn ::
  "(rat \<Rightarrow> rat) \<Rightarrow> rat list \<Rightarrow> nat \<Rightarrow> rat \<Rightarrow> memory_db \<Rightarrow> (string \<times> rat) list" where
  "search_knn msqrt q k min_sim db =
     (let scored = filter (\<lambda>(_, sim). min_sim \<le> sim) (map (\<lambda>(i, v). (i, cosine_similarity msqrt q v)) (db_vectors db))
      in take k (sort_desc snd scored))"

definition vec_delete :: "string \<Rightarrow> memory_db \<Rightarrow> memory_db \<times> bool" where
  "vec_delete k db =
     (db\<lparr>db_vectors := filter (\<lambda>(i, _). i \<noteq> k) (db_vectors db)\<rparr>, k \<in> fst ` set (db_vectors db))"

section \<open>What a vector store promises\<close>

text \<open>The interface the retriever and the manager rely on, over an abstract store.\<close>

locale vector_index =
  fixes index_record :: "string \<Rightarrow> 'v \<Rightarrow> 's \<Rightarrow> 's"
    and delete_record :: "string \<Rightarrow> 's \<Rightarrow> 's \<times> bool"
    and knn :: "'v \<Rightarrow> nat \<Rightarrow> 's \<Rightarrow> (string \<times> rat) list"
    and ids :: "'s \<Rightarrow> string set"
    and wf :: "'s \<Rightarrow> bool"
  assumes wf_index: "wf s \<Longrightarrow> wf (index_record k v s)"
    and wf_delete: "wf s \<Longrightarrow> wf (fst (delete_record k s))"
    and ids_index: "ids (index_record k v s) = insert k (ids s)"
    and ids_delete: "ids (fst (delete_record k s)) = ids s - {k}"
    and deleted: "snd (delete_record k s) \<longleftrightarrow> k \<in> ids s"
    and knn_ids: "fst ` set (knn q n s) \<subseteq> ids s"
    and knn_range: "p \<in> set (knn q n s) \<Longrightarrow> 0 \<le> snd p \<and> snd p \<le> 1"
    and knn_length: "length (knn q n s) \<le> n"
    and knn_distinct: "wf s \<Longrightarrow> distinct (map fst (knn q n s))"
begin

lemma deleted_not_found: "k \<notin> fst ` set (knn q n (fst (delete_record k s)))"
  using knn_ids [of q n "fst (delete_record k s)"] by (auto simp: ids_delete)

lemma reindex_keeps_ids: "k \<in> ids s \<Longrightarrow> ids (index_record k v s) = ids s"
  by (auto simp: ids_index)

lemma delete_twice: "\<not> snd (delete_record k (fst (delete_record k s)))"
  by (simp add: deleted ids_delete)

end

lemma cosine_range: "0 \<le> cosine_similarity msqrt v w \<and> cosine_similarity msqrt v w \<le> 1"
  by (simp add: cosine_similarity_def Let_def)

lemma search_knn_subset:
  "set (search_knn msqrt q k m db) \<subseteq> set (map (\<lambda>(i, v). (i, cosine_similarity msqrt q v)) (db_vectors db))"
  unfolding search_knn_def Let_def by (rule order.trans [OF set_take_subset]) auto

interpretation fallback: vector_index vec_index vec_delete "\<lambda>q n db. search_knn msqrt q n 0 db"
  "\<lambda>db. fst ` set (db_vectors db)" "\<lambda>db. distinct (map fst (db_vectors db))" for msqrt
proof unfold_locales
  fix q :: "rat list" and n :: nat and s :: memory_db and p :: "string \<times> rat"
  show "fst ` set (search_knn msqrt q n 0 s) \<subseteq> fst ` set (db_vectors s)"
    using search_knn_subset [of msqrt q n 0 s] by force
  show "p \<in> set (search_knn msqrt q n 0 s) \<Longrightarrow> 0 \<le> snd p \<and> snd p \<le> 1"
    using search_knn_subset [of msqrt q n 0 s] cosine_range by fastforce
  show "length (search_knn msqrt q n 0 s) \<le> n" by (simp add: search_knn_def Let_def)
  assume d: "distinct (map fst (db_vectors s))"
  let ?xs = "filter (\<lambda>(_, sim). 0 \<le> sim) (map (\<lambda>(i, v). (i, cosine_similarity msqrt q v)) (db_vectors s))"
  have "map fst (map (\<lambda>(i, v). (i, cosine_similarity msqrt q v)) (db_vectors s)) = map fst (db_vectors s)" by auto
  then have "distinct (map fst ?xs)" using d distinct_map_filter by metis
  then have "distinct (map fst (sort_desc snd ?xs))"
    by (subst mset_eq_imp_distinct_iff [of _ "map fst ?xs"]) (simp_all add: sort_desc_def)
  then have "distinct (take n (map fst (sort_desc snd ?xs)))" by (rule distinct_take)
  then show "distinct (map fst (search_knn msqrt q n 0 s))"
    by (simp only: search_knn_def Let_def take_map)
qed (auto simp: vec_index_def vec_delete_def distinct_map_filter inj_on_def)

text \<open>Embeddings have the dimension asked for.\<close>

lemma length_hash_embed [simp]: "length (hash_embed msqrt digest n s) = n"
proof -
  have "length (fold (embed_token digest) ts v) = length v" for ts v
    by (induction ts arbitrary: v) (auto simp: embed_token_def Let_def)
  then show ?thesis by (simp add: hash_embed_def Let_def)
qed

end
