(* ===== verification/Working_Memory.thy ===== *)
theory Working_Memory
  imports Prelude "HOL-Library.Sublist"
begin

text \<open>
  The working memory of a conversation: \<open>memory/working/buffer.py\<close> and \<open>memory/working/window.py\<close>.
  The buffer is a list of messages, oldest first; the window bounds their number and their estimated
  tokens by evicting messages of low priority first, and keeps a short summary of what it evicted.
  The clock and \<open>datetime.fromisoformat\<close> (None stands for its ValueError) are arguments. Metadata
  and creation times, which nothing here reads, are left out.
\<close>

section \<open>Messages and the buffer\<close>

record working_message =
  wm_id :: string
  wm_role :: string
  wm_content :: string
  wm_tokens :: int
  wm_expires :: "string option"
  wm_priority :: int

definition estimate_tokens :: "string \<Rightarrow> int" where
  "estimate_tokens s = (if s = [] then 0 else max 1 \<lceil>of_nat (length s) / (4 :: rat)\<rceil>)"

definition buf_append :: "working_message \<Rightarrow> working_message list \<Rightarrow> working_message list" where
  "buf_append m b =
     b @ [if wm_tokens m \<le> 0 then m\<lparr>wm_tokens := estimate_tokens (wm_content m)\<rparr> else m]"

definition buf_total :: "working_message list \<Rightarrow> int" where
  "buf_total b = sum_list (map wm_tokens b)"

definition is_past :: "(string \<Rightarrow> rat option) \<Rightarrow> rat \<Rightarrow> working_message \<Rightarrow> bool" where
  "is_past fromiso now m =
     (case wm_expires m of
        None \<Rightarrow> False
      | Some e \<Rightarrow> if e = [] then False else (case fromiso e of None \<Rightarrow> False | Some t \<Rightarrow> t \<le> now))"

fun remove_expired ::
  "(string \<Rightarrow> rat option) \<Rightarrow> rat \<Rightarrow> working_message list \<Rightarrow> working_message list \<times> working_message list" where
  "remove_expired fromiso now [] = ([], [])"
| "remove_expired fromiso now (m # ms) =
     (let (valid, removed) = remove_expired fromiso now ms
      in if is_past fromiso now m then (valid, m # removed) else (m # valid, removed))"

definition pop_oldest :: "nat \<Rightarrow> working_message list \<Rightarrow> working_message list \<times> working_message list" where
  "pop_oldest n b = (take n b, drop n b)"

definition remove_by_id :: "string \<Rightarrow> working_message list \<Rightarrow> working_message list \<times> bool" where
  "remove_by_id k b = (let b1 = filter (\<lambda>m. wm_id m \<noteq> k) b in (b1, length b1 < length b))"

section \<open>The window\<close>

record wm_config =
  wc_max_messages :: int
  wc_max_tokens :: int
  wc_max_summary :: nat
  wc_threshold :: int

record working_memory =
  wk_buffer :: "working_message list"
  wk_system :: "string option"
  wk_task :: "string option"
  wk_summary :: "string option"

record wm_snapshot =
  sn_system :: "string option"
  sn_task :: "string option"
  sn_messages :: "working_message list"
  sn_summary :: "string option"
  sn_total :: int

definition window_init :: working_memory where
  "window_init = \<lparr>wk_buffer = [], wk_system = None, wk_task = None, wk_summary = None\<rparr>"

definition set_system_context :: "string option \<Rightarrow> working_memory \<Rightarrow> working_memory" where
  "set_system_context c w = w\<lparr>wk_system := c\<rparr>"

definition set_task_context :: "string option \<Rightarrow> working_memory \<Rightarrow> working_memory" where
  "set_task_context c w = w\<lparr>wk_task := c\<rparr>"

text \<open>\<open>_update_overflow_summary\<close>; an empty summary counts as none.\<close>

definition update_overflow_summary :: "wm_config \<Rightarrow> working_message \<Rightarrow> string option \<Rightarrow> string option" where
  "update_overflow_summary cfg m summary =
     (let snippet = wm_role m @ '': '' @ take 80 (wm_content m);
          s = (case summary of
                 None \<Rightarrow> ''Prior conversation: '' @ snippet
               | Some t \<Rightarrow> if t = [] then ''Prior conversation: '' @ snippet else t @ '' | '' @ snippet)
      in Some (if wc_max_summary cfg < length s then ''...'' @ last_n (wc_max_summary cfg) s else s))"

definition over_limit :: "wm_config \<Rightarrow> working_message list \<Rightarrow> bool" where
  "over_limit cfg b \<longleftrightarrow> wc_max_messages cfg < int (length b) \<or> wc_max_tokens cfg < buf_total b"

text \<open>The message evicted from a non-empty buffer.\<close>

definition eviction_candidate :: "wm_config \<Rightarrow> working_message list \<Rightarrow> working_message" where
  "eviction_candidate cfg b =
     (case find (\<lambda>m. wm_priority m < wc_threshold cfg) b of Some m \<Rightarrow> m | None \<Rightarrow> hd b)"

lemma eviction_candidate_in: "b \<noteq> [] \<Longrightarrow> eviction_candidate cfg b \<in> set b"
  by (auto simp: eviction_candidate_def find_Some_iff split: option.splits)

lemma remove_by_id_shorter: "m \<in> set b \<Longrightarrow> length (fst (remove_by_id (wm_id m) b)) < length b"
  by (auto simp: remove_by_id_def Let_def intro: length_filter_less)

text \<open>The loop of \<open>_enforce_bounds\<close>.\<close>

function evict_loop ::
  "wm_config \<Rightarrow> working_message list \<times> string option \<Rightarrow> working_message list \<times> string option" where
  "evict_loop cfg (b, summary) =
     (if over_limit cfg b \<and> b \<noteq> []
      then let m = eviction_candidate cfg b
           in evict_loop cfg (fst (remove_by_id (wm_id m) b), update_overflow_summary cfg m summary)
      else (b, summary))"
  by pat_completeness auto
termination
  by (relation "measure (\<lambda>(cfg, b, summary). length b)") (auto simp: remove_by_id_shorter eviction_candidate_in)

declare evict_loop.simps [simp del]

definition enforce_bounds ::
  "(string \<Rightarrow> rat option) \<Rightarrow> rat \<Rightarrow> wm_config \<Rightarrow> working_memory \<Rightarrow> working_memory" where
  "enforce_bounds fromiso now cfg w =
     (let (b, summary) = evict_loop cfg (fst (remove_expired fromiso now (wk_buffer w)), wk_summary w)
      in w\<lparr>wk_buffer := b, wk_summary := summary\<rparr>)"

definition append_message ::
  "(string \<Rightarrow> rat option) \<Rightarrow> rat \<Rightarrow> wm_config \<Rightarrow> string \<Rightarrow> string \<Rightarrow> string \<Rightarrow> int \<Rightarrow> string option
     \<Rightarrow> working_memory \<Rightarrow> working_memory \<times> working_message" where
  "append_message fromiso now cfg k role content priority expires w =
     (let m = \<lparr>wm_id = k, wm_role = role, wm_content = content, wm_tokens = estimate_tokens content,
               wm_expires = expires, wm_priority = priority\<rparr>
      in (enforce_bounds fromiso now cfg (w\<lparr>wk_buffer := buf_append m (wk_buffer w)\<rparr>), m))"

definition get_recent_messages ::
  "(string \<Rightarrow> rat option) \<Rightarrow> rat \<Rightarrow> int option \<Rightarrow> working_memory \<Rightarrow> working_memory \<times> working_message list" where
  "get_recent_messages fromiso now limit w =
     (let b = fst (remove_expired fromiso now (wk_buffer w));
          w1 = w\<lparr>wk_buffer := b\<rparr>
      in case limit of
           None \<Rightarrow> (w1, b)
         | Some n \<Rightarrow> if 0 < n then (w1, last_n (nat n) b) else (w1, b))"

text \<open>The backward scan: the messages selected so far, and the rest of the messages, newest first.\<close>

fun scan_back :: "int \<Rightarrow> int \<Rightarrow> working_message list \<Rightarrow> working_message list \<Rightarrow> working_message list" where
  "scan_back limit acc selected [] = selected"
| "scan_back limit acc selected (m # ms) =
     (if limit < acc + wm_tokens m then selected
      else scan_back limit (acc + wm_tokens m) (m # selected) ms)"

definition get_messages_within_tokens ::
  "(string \<Rightarrow> rat option) \<Rightarrow> rat \<Rightarrow> int \<Rightarrow> working_memory \<Rightarrow> working_memory \<times> working_message list" where
  "get_messages_within_tokens fromiso now limit w =
     (let b = fst (remove_expired fromiso now (wk_buffer w))
      in (w\<lparr>wk_buffer := b\<rparr>, scan_back limit 0 [] (rev b)))"

definition window_clear :: "working_memory \<Rightarrow> working_memory" where
  "window_clear w = w\<lparr>wk_buffer := [], wk_task := None, wk_summary := None\<rparr>"

definition snapshot :: "working_memory \<Rightarrow> wm_snapshot" where
  "snapshot w = \<lparr>sn_system = wk_system w, sn_task = wk_task w, sn_messages = wk_buffer w,
     sn_summary = wk_summary w, sn_total = buf_total (wk_buffer w)\<rparr>"

definition restore ::
  "(string \<Rightarrow> rat option) \<Rightarrow> rat \<Rightarrow> wm_config \<Rightarrow> wm_snapshot \<Rightarrow> working_memory \<Rightarrow> working_memory" where
  "restore fromiso now cfg sn w =
     enforce_bounds fromiso now cfg
       (w\<lparr>wk_system := sn_system sn, wk_task := sn_task sn, wk_summary := sn_summary sn,
          wk_buffer := fold buf_append (sn_messages sn) []\<rparr>)"

section \<open>Properties of the buffer\<close>

lemma remove_expired_filter:
  "remove_expired fromiso now b = (filter (\<lambda>m. \<not> is_past fromiso now m) b, filter (is_past fromiso now) b)"
  by (induction b) (auto simp: Let_def)

lemma estimate_tokens_nonneg [simp]: "0 \<le> estimate_tokens s"
  by (simp add: estimate_tokens_def)

lemma estimate_tokens_bound: "int (length s) \<le> 4 * estimate_tokens s"
proof -
  define c where "c = \<lceil>of_nat (length s) / (4 :: rat)\<rceil>"
  have "of_nat (length s) / (4 :: rat) \<le> of_int c" unfolding c_def by (rule le_of_int_ceiling)
  then have "(of_int (int (length s)) :: rat) \<le> of_int (4 * c)" by simp
  then have "int (length s) \<le> 4 * c" by (simp only: of_int_le_iff)
  then show ?thesis by (auto simp: estimate_tokens_def c_def)
qed

lemma buf_append_new: "wm_tokens m = estimate_tokens (wm_content m) \<Longrightarrow> buf_append m b = b @ [m]"
  by (simp add: buf_append_def)

lemma buf_total_simps [simp]:
  "buf_total [] = 0" "buf_total (m # b) = wm_tokens m + buf_total b" "buf_total (a @ b) = buf_total a + buf_total b"
  by (simp_all add: buf_total_def)

lemma buf_total_nonneg: "list_all (\<lambda>m. 0 \<le> wm_tokens m) b \<Longrightarrow> 0 \<le> buf_total b"
  by (induction b) auto

lemma buf_total_member: "list_all (\<lambda>m. 0 \<le> wm_tokens m) b \<Longrightarrow> m \<in> set b \<Longrightarrow> wm_tokens m \<le> buf_total b"
  using buf_total_nonneg by (induction b) fastforce+

section \<open>Eviction implements an order\<close>

text \<open>The policy: messages below the threshold from the oldest on, then the others from the oldest on.\<close>

definition evict_order :: "wm_config \<Rightarrow> working_message list \<Rightarrow> working_message list" where
  "evict_order cfg b =
     filter (\<lambda>m. wm_priority m < wc_threshold cfg) b @ filter (\<lambda>m. \<not> wm_priority m < wc_threshold cfg) b"

text \<open>What is left of \<open>b\<close> when the first \<open>n\<close> messages of that order are gone.\<close>

definition keep_after :: "wm_config \<Rightarrow> nat \<Rightarrow> working_message list \<Rightarrow> working_message list" where
  "keep_after cfg n b = filter (\<lambda>m. m \<notin> set (take n (evict_order cfg b))) b"

lemma find_filter: "find P xs = (case filter P xs of [] \<Rightarrow> None | x # _ \<Rightarrow> Some x)"
  by (induction xs) auto

lemma evict_order_hd:
  assumes "b \<noteq> []"
  shows "\<exists>r. evict_order cfg b = eviction_candidate cfg b # r"
proof (cases "filter (\<lambda>m. wm_priority m < wc_threshold cfg) b")
  case Nil
  then have "filter (\<lambda>m. \<not> wm_priority m < wc_threshold cfg) b = b"
    by (simp add: filter_empty_conv filter_id_conv)
  with Nil assms show ?thesis
    by (cases b) (auto simp: evict_order_def eviction_candidate_def find_filter)
next
  case (Cons c r)
  then show ?thesis by (simp add: evict_order_def eviction_candidate_def find_filter)
qed

lemma evict_order_filter: "evict_order cfg (filter P b) = filter P (evict_order cfg b)"
  by (simp add: evict_order_def conj_commute)

lemma set_evict_order [simp]: "set (evict_order cfg b) = set b"
  by (auto simp: evict_order_def)

lemma length_evict_order [simp]: "length (evict_order cfg b) = length b"
  by (induction b) (auto simp: evict_order_def)

lemma distinct_evict_order: "distinct b \<Longrightarrow> distinct (evict_order cfg b)"
  by (auto simp: evict_order_def)

lemma keep_after_0 [simp]: "keep_after cfg 0 b = b"
  by (simp add: keep_after_def)

lemma remove_by_id_unique:
  assumes "distinct (map wm_id b)" and "m \<in> set b"
  shows "fst (remove_by_id (wm_id m) b) = filter (\<lambda>x. x \<noteq> m) b"
  using assms by (auto simp: remove_by_id_def Let_def distinct_map inj_on_def intro!: filter_cong)

lemma keep_after_step:
  assumes "distinct (map wm_id b)" and "b \<noteq> []"
  shows "keep_after cfg n (fst (remove_by_id (wm_id (eviction_candidate cfg b)) b)) = keep_after cfg (Suc n) b"
proof -
  let ?c = "eviction_candidate cfg b"
  obtain r where r: "evict_order cfg b = ?c # r" using evict_order_hd [OF assms(2)] by blast
  have "distinct (?c # r)" using assms(1) distinct_evict_order [of b cfg] by (simp add: r distinct_map)
  then have "filter (\<lambda>x. x \<noteq> ?c) (?c # r) = r" by (auto simp: filter_id_conv)
  then have "evict_order cfg (filter (\<lambda>x. x \<noteq> ?c) b) = r" by (simp add: evict_order_filter r)
  then show ?thesis
    using assms by (simp add: remove_by_id_unique eviction_candidate_in keep_after_def r)
qed

lemma evict_loop_refines:
  assumes "distinct (map wm_id b)"
  shows "\<exists>n. fst (evict_loop cfg (b, summary)) = keep_after cfg n b \<and>
    (keep_after cfg n b = [] \<or> \<not> over_limit cfg (keep_after cfg n b)) \<and>
    (\<forall>j < n. over_limit cfg (keep_after cfg j b))"
  using assms
proof (induction cfg "(b, summary)" arbitrary: b summary rule: evict_loop.induct)
  case (1 cfg b summary)
  show ?case
  proof (cases "over_limit cfg b \<and> b \<noteq> []")
    case False
    then show ?thesis by (auto simp: evict_loop.simps [of cfg b] intro!: exI [of _ 0])
  next
    case True
    let ?c = "eviction_candidate cfg b"
    let ?b = "fst (remove_by_id (wm_id ?c) b)"
    have "distinct (map wm_id ?b)" using 1(2) by (simp add: remove_by_id_def Let_def distinct_map_filter)
    from 1(1) [OF True refl this] obtain n where
      n: "fst (evict_loop cfg (?b, update_overflow_summary cfg ?c summary)) = keep_after cfg n ?b"
        "keep_after cfg n ?b = [] \<or> \<not> over_limit cfg (keep_after cfg n ?b)"
        "\<forall>j < n. over_limit cfg (keep_after cfg j ?b)" by blast
    note st = keep_after_step [OF 1(2) conjunct2 [OF True], of cfg]
    have "over_limit cfg (keep_after cfg j b)" if "j < Suc n" for j
      using that n(3) True by (cases j) (auto simp: st)
    then show ?thesis using n True
      by (intro exI [of _ "Suc n"]) (simp add: st evict_loop.simps [of cfg b] Let_def)
  qed
qed

lemma append_message_result:
  assumes "append_message fromiso now cfg k role content priority expires w = (w', m)"
  shows "wm_id m = k" and "wm_tokens m = estimate_tokens content" and "wm_priority m = priority"
    and "wk_buffer w' =
      fst (evict_loop cfg (filter (\<lambda>x. \<not> is_past fromiso now x) (wk_buffer w @ [m]), wk_summary w))"
proof -
  have m: "m = \<lparr>wm_id = k, wm_role = role, wm_content = content, wm_tokens = estimate_tokens content,
      wm_expires = expires, wm_priority = priority\<rparr>"
    and w': "w' = enforce_bounds fromiso now cfg (w\<lparr>wk_buffer := buf_append m (wk_buffer w)\<rparr>)"
    using assms by (auto simp: append_message_def Let_def)
  show "wm_id m = k" and tok: "wm_tokens m = estimate_tokens content" and "wm_priority m = priority"
    by (simp_all add: m)
  have "buf_append m (wk_buffer w) = wk_buffer w @ [m]"
    by (rule buf_append_new) (simp add: m)
  then show "wk_buffer w' =
      fst (evict_loop cfg (filter (\<lambda>x. \<not> is_past fromiso now x) (wk_buffer w @ [m]), wk_summary w))"
    by (simp add: w' enforce_bounds_def remove_expired_filter del: filter_append split: prod.splits)
qed

text \<open>
  C20. Appending to the working memory implements an abstract eviction policy. Of the unexpired messages
  and the new one, those left are the ones after the shortest prefix of an order that brings the rest
  within both limits; the order takes the messages of low priority from the oldest on, then the others
  from the oldest on. So a message of high priority is evicted only when no message of low priority
  is left, and nothing is evicted that need not be.
\<close>

theorem append_evicts_by_policy:
  assumes "distinct (map wm_id (wk_buffer w))" and "k \<notin> wm_id ` set (wk_buffer w)"
    and "0 \<le> wc_max_messages cfg" and "0 \<le> wc_max_tokens cfg"
    and "append_message fromiso now cfg k role content priority expires w = (w', m)"
  defines "all \<equiv> filter (\<lambda>x. \<not> is_past fromiso now x) (wk_buffer w @ [m])"
  shows "\<exists>n. wk_buffer w' = keep_after cfg n all \<and> \<not> over_limit cfg (wk_buffer w') \<and>
      (\<forall>j < n. over_limit cfg (keep_after cfg j all)) \<and>
      (list_ex (\<lambda>x. \<not> wm_priority x < wc_threshold cfg \<and> x \<notin> set (wk_buffer w')) all \<longrightarrow>
         list_all (\<lambda>x. \<not> wm_priority x < wc_threshold cfg) (wk_buffer w'))"
proof -
  note m = append_message_result [OF assms(5)]
  have "distinct (map wm_id all)" using assms(1,2) m(1) unfolding all_def by (auto simp: distinct_map_filter)
  from evict_loop_refines [OF this, of cfg "wk_summary w"] obtain n where
    n: "wk_buffer w' = keep_after cfg n all" "keep_after cfg n all = [] \<or> \<not> over_limit cfg (keep_after cfg n all)"
      "\<forall>j < n. over_limit cfg (keep_after cfg j all)"
    unfolding m(4) all_def by blast
  have "\<not> over_limit cfg (wk_buffer w')" using n(1,2) assms(3,4) by (auto simp: over_limit_def)
  moreover have "list_all (\<lambda>x. \<not> wm_priority x < wc_threshold cfg) (wk_buffer w')"
    if "x \<in> set all" "\<not> wm_priority x < wc_threshold cfg" "x \<notin> set (wk_buffer w')" for x
  proof -
    let ?lo = "filter (\<lambda>m. wm_priority m < wc_threshold cfg) all"
    have "x \<in> set (take n (evict_order cfg all))" using that n(1) by (simp add: keep_after_def)
    then have "x \<in> set (take n ?lo) \<or> x \<in> set (take (n - length ?lo) (filter (\<lambda>m. \<not> wm_priority m < wc_threshold cfg) all))"
      by (auto simp: evict_order_def)
    then have "length ?lo \<le> n" using that(2) by (cases "n \<le> length ?lo") (auto dest: in_set_takeD)
    then show ?thesis by (auto simp: n(1) keep_after_def evict_order_def list_all_iff)
  qed
  ultimately show ?thesis using n(1,3) by (auto simp: list_ex_iff)
qed

definition demo_wm_config :: wm_config where
  "demo_wm_config = \<lparr>wc_max_messages = 2, wc_max_tokens = 100, wc_max_summary = 100, wc_threshold = 5\<rparr>"

definition demo_message :: "string \<Rightarrow> int \<Rightarrow> working_message" where
  "demo_message k p = \<lparr>wm_id = k, wm_role = ''user'', wm_content = ''hello'', wm_tokens = 2,
     wm_expires = None, wm_priority = p\<rparr>"

definition demo_window :: working_memory where
  "demo_window = window_init\<lparr>wk_buffer := [demo_message ''a'' 7, demo_message ''b'' 1]\<rparr>"

theorem append_evicts_by_policy_witness:
  "map wm_id (wk_buffer (fst (append_message (\<lambda>_. None) 0 demo_wm_config ''c'' ''user'' ''hi'' 1 None demo_window)))
     = [''a'', ''c''] \<and>
   \<not> over_limit demo_wm_config
       (wk_buffer (fst (append_message (\<lambda>_. None) 0 demo_wm_config ''c'' ''user'' ''hi'' 1 None demo_window)))"
proof
  show "map wm_id (wk_buffer (fst (append_message (\<lambda>_. None) 0 demo_wm_config ''c'' ''user'' ''hi'' 1 None demo_window)))
     = [''a'', ''c'']" by code_simp
  have "distinct (map wm_id (wk_buffer demo_window))" "''c'' \<notin> wm_id ` set (wk_buffer demo_window)"
    "0 \<le> wc_max_messages demo_wm_config" "0 \<le> wc_max_tokens demo_wm_config"
    by (simp_all add: demo_window_def demo_wm_config_def demo_message_def)
  from append_evicts_by_policy [OF this prod.collapse [symmetric]]
  show "\<not> over_limit demo_wm_config
       (wk_buffer (fst (append_message (\<lambda>_. None) 0 demo_wm_config ''c'' ''user'' ''hi'' 1 None demo_window)))"
    by blast
qed

section \<open>An oversized message\<close>

lemma keep_after_mem:
  assumes "\<not> over_limit cfg (keep_after cfg n b)" and "list_all (\<lambda>x. 0 \<le> wm_tokens x) b"
    and "m \<in> set b" and "wc_max_tokens cfg < wm_tokens m"
  shows "m \<in> set (take n (evict_order cfg b))"
proof (rule ccontr)
  assume "\<not> ?thesis"
  then have "m \<in> set (keep_after cfg n b)" using assms(3) by (simp add: keep_after_def)
  moreover have "list_all (\<lambda>x. 0 \<le> wm_tokens x) (keep_after cfg n b)"
    using assms(2) by (auto simp: keep_after_def list_all_iff)
  ultimately have "wm_tokens m \<le> buf_total (keep_after cfg n b)" by (rule buf_total_member [rotated])
  then show False using assms(1,4) by (simp add: over_limit_def)
qed

text \<open>
  A message over the token limit destroys the conversation. When an unexpired message whose estimate
  exceeds the limit is appended, no message of low priority is left; when it has high priority itself,
  nothing at all is left, although rejecting it alone would have kept everything.
\<close>

theorem oversized_message_evicts_all:
  assumes "distinct (map wm_id (wk_buffer w))" and "k \<notin> wm_id ` set (wk_buffer w)"
    and "0 \<le> wc_max_messages cfg" and "0 \<le> wc_max_tokens cfg"
    and "append_message fromiso now cfg k role content priority expires w = (w', m)"
    and "list_all (\<lambda>x. 0 \<le> wm_tokens x) (wk_buffer w)"
    and "wc_max_tokens cfg < estimate_tokens content" and "\<not> is_past fromiso now m"
  shows "list_all (\<lambda>x. wc_threshold cfg \<le> wm_priority x) (wk_buffer w') \<and>
    (wc_threshold cfg \<le> priority \<longrightarrow> wk_buffer w' = [])"
proof -
  define all where "all = filter (\<lambda>x. \<not> is_past fromiso now x) (wk_buffer w) @ [m]"
  note m = append_message_result [OF assms(5)]
  have all: "filter (\<lambda>x. \<not> is_past fromiso now x) (wk_buffer w @ [m]) = all"
    using assms(8) by (simp add: all_def)
  have dist: "distinct (map wm_id all)" using assms(1,2) m(1) unfolding all_def by (auto simp: distinct_map_filter)
  have tok: "list_all (\<lambda>x. 0 \<le> wm_tokens x) all"
    using assms(6) m(2) by (auto simp: all_def list_all_iff)
  from evict_loop_refines [OF dist, of cfg "wk_summary w"] obtain n where
    n: "wk_buffer w' = keep_after cfg n all" "keep_after cfg n all = [] \<or> \<not> over_limit cfg (keep_after cfg n all)"
    unfolding m(4) all by blast
  have "\<not> over_limit cfg (keep_after cfg n all)" using n(2) assms(3,4) by (auto simp: over_limit_def)
  then have ev: "m \<in> set (take n (evict_order cfg all))"
    by (rule keep_after_mem) (use tok m(2) assms(7) in \<open>simp_all add: all_def\<close>)
  let ?lo = "filter (\<lambda>m. wm_priority m < wc_threshold cfg) all"
  let ?hi = "filter (\<lambda>m. \<not> wm_priority m < wc_threshold cfg) all"
  have lst: "all = butlast all @ [m]" "m \<notin> set (butlast all)"
    using dist by (auto simp: all_def distinct_map)
  show ?thesis
  proof (cases "priority < wc_threshold cfg")
    case True
    have "?lo = filter (\<lambda>m. wm_priority m < wc_threshold cfg) (butlast all) @ [m]"
      using True m(3) by (subst lst(1)) simp
    then have "n < length ?lo \<Longrightarrow> m \<notin> set (take n ?lo)" using lst(2) by (auto dest: in_set_takeD)
    moreover have "n < length ?lo \<Longrightarrow> take n (evict_order cfg all) = take n ?lo" by (simp add: evict_order_def)
    ultimately have "length ?lo \<le> n" using ev by (cases "n < length ?lo") auto
    then show ?thesis using True by (auto simp: n(1) keep_after_def evict_order_def list_all_iff)
  next
    case False
    have "?hi = filter (\<lambda>m. \<not> wm_priority m < wc_threshold cfg) (butlast all) @ [m]"
      using False m(3) by (subst lst(1)) simp
    then have eo: "evict_order cfg all =
        (?lo @ filter (\<lambda>m. \<not> wm_priority m < wc_threshold cfg) (butlast all)) @ [m]"
      by (simp add: evict_order_def)
    have "m \<notin> set (?lo @ filter (\<lambda>m. \<not> wm_priority m < wc_threshold cfg) (butlast all))"
      using lst(2) False m(3) by auto
    then have "length all \<le> n"
      using ev length_evict_order [of cfg all] unfolding eo by (cases "n < length all") (auto dest: in_set_takeD)
    then have "keep_after cfg n all = []" by (simp add: keep_after_def filter_empty_conv)
    then show ?thesis by (simp add: n(1))
  qed
qed

theorem oversized_message_evicts_all_witness:
  "wk_buffer (fst (append_message (\<lambda>_. None) 0 (demo_wm_config\<lparr>wc_max_tokens := 4\<rparr>) ''c'' ''user''
     ''a text of more than sixteen'' 8 None demo_window)) = []"
proof -
  let ?cfg = "demo_wm_config\<lparr>wc_max_tokens := 4\<rparr>"
  have "distinct (map wm_id (wk_buffer demo_window))" "''c'' \<notin> wm_id ` set (wk_buffer demo_window)"
    "0 \<le> wc_max_messages ?cfg" "0 \<le> wc_max_tokens ?cfg"
    by (simp_all add: demo_window_def demo_wm_config_def demo_message_def)
  note prem = this
  let ?r = "append_message (\<lambda>_. None) 0 ?cfg ''c'' ''user'' ''a text of more than sixteen'' 8 None demo_window"
  have m: "snd ?r = \<lparr>wm_id = ''c'', wm_role = ''user'', wm_content = ''a text of more than sixteen'',
      wm_tokens = 7, wm_expires = None, wm_priority = 8\<rparr>"
    by code_simp
  have "list_all (\<lambda>x. 0 \<le> wm_tokens x) (wk_buffer demo_window)" "wc_max_tokens ?cfg < estimate_tokens ''a text of more than sixteen''"
    "\<not> is_past (\<lambda>_. None) 0 (snd ?r)" "wc_threshold ?cfg \<le> 8"
    by (code_simp, code_simp, simp add: m is_past_def, code_simp)
  with oversized_message_evicts_all [OF prem prod.collapse [symmetric] this(1-3)] show ?thesis by blast
qed

section \<open>Reading, snapshots and the summary\<close>

lemma scan_back_result:
  assumes "0 \<le> limit - acc"
  shows "\<exists>n \<le> length ms. scan_back limit acc sel ms = rev (take n ms) @ sel \<and>
    acc + buf_total (take n ms) \<le> limit \<and> (n = length ms \<or> limit < acc + buf_total (take (Suc n) ms))"
  using assms
proof (induction limit acc sel ms rule: scan_back.induct)
  case (2 limit acc sel m ms)
  show ?case
  proof (cases "limit < acc + wm_tokens m")
    case True
    then show ?thesis using 2(2) by (intro exI [of _ 0]) auto
  next
    case False
    then obtain n where "n \<le> length ms" "scan_back limit (acc + wm_tokens m) (m # sel) ms = rev (take n ms) @ m # sel"
      "acc + wm_tokens m + buf_total (take n ms) \<le> limit"
      "n = length ms \<or> limit < acc + wm_tokens m + buf_total (take (Suc n) ms)" using 2 by fastforce
    then show ?thesis using False by (intro exI [of _ "Suc n"]) auto
  qed
qed simp

lemma buf_total_rev [simp]: "buf_total (rev b) = buf_total b"
  by (simp add: buf_total_def rev_map [symmetric])

lemma rev_take_rev: "rev (take n (rev b)) = last_n n b"
  by (simp add: take_rev last_n_def)

text \<open>
  Reading within a token limit. With a limit that is not negative, the messages returned are the
  longest run of the most recent unexpired messages whose estimates add up to at most the limit.
\<close>

theorem within_tokens_longest_suffix:
  assumes "0 \<le> limit" and "get_messages_within_tokens fromiso now limit w = (w', ms)"
  defines "valid \<equiv> filter (\<lambda>m. \<not> is_past fromiso now m) (wk_buffer w)"
  shows "wk_buffer w' = valid \<and> (\<exists>n \<le> length valid. ms = last_n n valid \<and> buf_total ms \<le> limit \<and>
    (if n < length valid then limit < buf_total (last_n (Suc n) valid) else ms = valid))"
proof -
  from assms(2) have ms: "ms = scan_back limit 0 [] (rev valid)" and w': "wk_buffer w' = valid"
    by (auto simp: get_messages_within_tokens_def remove_expired_filter valid_def Let_def)
  obtain n where n: "n \<le> length valid" "ms = rev (take n (rev valid))" "buf_total (take n (rev valid)) \<le> limit"
    "n = length valid \<or> limit < buf_total (take (Suc n) (rev valid))"
    using scan_back_result [of limit 0 "rev valid" "[]"] assms(1) unfolding ms by auto
  have tot: "buf_total (take k (rev valid)) = buf_total (last_n k valid)" for k
    using buf_total_rev [of "last_n k valid"] by (simp add: rev_take_rev [symmetric])
  have ms': "ms = last_n n valid" using n(2) by (simp add: rev_take_rev)
  have "if n < length valid then limit < buf_total (last_n (Suc n) valid) else ms = valid"
  proof (cases "n < length valid")
    case True
    then show ?thesis using n(4) by (simp add: tot)
  next
    case False
    then show ?thesis by (simp add: ms' last_n_def)
  qed
  then show ?thesis using n(1,3) ms' w' unfolding tot by blast
qed

theorem within_tokens_longest_suffix_witness:
  "snd (get_messages_within_tokens (\<lambda>_. None) 0 3 demo_window) = [demo_message ''b'' 1] \<and>
   wk_buffer (fst (get_messages_within_tokens (\<lambda>_. None) 0 3 demo_window)) = wk_buffer demo_window"
proof
  show "snd (get_messages_within_tokens (\<lambda>_. None) 0 3 demo_window) = [demo_message ''b'' 1]" by code_simp
  have "filter (\<lambda>m. \<not> is_past (\<lambda>_. None) 0 m) (wk_buffer demo_window) = wk_buffer demo_window"
    by (simp add: demo_window_def demo_message_def is_past_def)
  with within_tokens_longest_suffix [of 3, OF _ prod.collapse [symmetric]]
  show "wk_buffer (fst (get_messages_within_tokens (\<lambda>_. None) 0 3 demo_window)) = wk_buffer demo_window"
    by (metis zero_le_numeral)
qed

lemma fold_buf_append:
  assumes "list_all (\<lambda>m. 0 < wm_tokens m \<or> wm_tokens m = estimate_tokens (wm_content m)) ms"
  shows "fold buf_append ms b = b @ ms"
  using assms by (induction ms arbitrary: b) (auto simp: buf_append_def)

text \<open>
  A snapshot restores the working memory it was taken of, into any other working memory: context,
  summary and messages, when the messages carry their estimates, none has expired and the limits hold.
\<close>

theorem snapshot_restores:
  assumes "list_all (\<lambda>m. 0 < wm_tokens m \<or> wm_tokens m = estimate_tokens (wm_content m)) (wk_buffer w)"
    and "list_all (\<lambda>m. \<not> is_past fromiso now m) (wk_buffer w)" and "\<not> over_limit cfg (wk_buffer w)"
  shows "restore fromiso now cfg (snapshot w) v = w"
proof -
  have "filter (\<lambda>m. \<not> is_past fromiso now m) (wk_buffer w) = wk_buffer w"
    using assms(2) by (simp add: filter_id_conv list_all_iff)
  then show ?thesis using assms(1,3)
    by (simp add: restore_def snapshot_def enforce_bounds_def remove_expired_filter fold_buf_append evict_loop.simps)
qed

theorem snapshot_restores_witness:
  "restore (\<lambda>_. None) 0 demo_wm_config (snapshot demo_window) window_init = demo_window"
  by (rule snapshot_restores)
    (simp_all add: demo_window_def demo_message_def demo_wm_config_def is_past_def over_limit_def)

text \<open>The summary of evicted messages may be longer than its maximum, by the three dots in front.\<close>

lemma summary_length:
  "update_overflow_summary cfg m summary = Some s \<Longrightarrow> length s \<le> wc_max_summary cfg + 3"
  by (auto simp: update_overflow_summary_def Let_def split: option.splits if_splits)

lemma summary_exceeds_limit:
  "length (the (update_overflow_summary demo_wm_config (demo_message ''a'' 1) (Some (replicate 95 CHR ''x'')))) = 103"
  by code_simp

end
