(* ===== verification/Memory_Manager.thy ===== *)
theory Memory_Manager
  imports Memory_Retrieval
begin

text \<open>
  The facade of the memory engine, \<open>memory/manager.py\<close>: the write pipeline (normalise, redact, classify,
  retention, persist, index, telemetry), consolidation of working memory, retrieval, clean-up.
  The vector index is the table \<open>db_vectors\<close>; an exception of the embedding model is \<open>None\<close>, one of
  \<open>index_record\<close> a predicate on ids. Latencies are left out of the events.
\<close>

section \<open>State\<close>

record manager =
  mg_window :: wm_config
  mg_weights :: ranking_weights
  mg_days :: int
  mg_bus :: bool
  mg_semantic :: bool
  mg_degraded :: bool
  mg_embed :: "string \<Rightarrow> rat list option"
  mg_index_fails :: "string \<Rightarrow> bool"
  mg_fromiso :: "string \<Rightarrow> rat option"
  mg_to_iso :: "rat \<Rightarrow> string"

record manager_state =
  ms_db :: memory_db
  ms_working :: working_memory
  ms_metrics :: memory_metrics
  ms_events :: "(string \<times> pyval dict) list"

definition no_metrics :: memory_metrics where
  "no_metrics = \<lparr>mm_reads = 0, mm_writes = 0, mm_rejections = 0, mm_semantic_queries = 0, mm_semantic_fallbacks = 0,
     mm_embedding_success = 0, mm_embedding_failure = 0, mm_cleanups = 0\<rparr>"

definition manager_init :: manager_state where
  "manager_init = \<lparr>ms_db = empty_db, ms_working = window_init, ms_metrics = no_metrics, ms_events = []\<rparr>"

definition mem_emit :: "manager \<Rightarrow> string \<Rightarrow> pyval dict \<Rightarrow> manager_state \<Rightarrow> manager_state" where
  "mem_emit mg ty payload s =
     (if mg_bus mg then s\<lparr>ms_events := ms_events s @ [(ty, sanitize_metadata payload)]\<rparr> else s)"

definition count_metric :: "(memory_metrics \<Rightarrow> memory_metrics) \<Rightarrow> manager_state \<Rightarrow> manager_state" where
  "count_metric f s = s\<lparr>ms_metrics := f (ms_metrics s)\<rparr>"

section \<open>Working memory surface\<close>

definition append_working_message ::
  "manager \<Rightarrow> rat \<Rightarrow> string \<Rightarrow> string \<Rightarrow> string \<Rightarrow> int \<Rightarrow> manager_state \<Rightarrow> manager_state \<times> working_message" where
  "append_working_message mg now k role content priority s =
     (let (w, m) = append_message (mg_fromiso mg) now (mg_window mg) k role (redact_text content) priority None (ms_working s)
      in (s\<lparr>ms_working := w\<rparr>, m))"

definition sanitize_context :: "string option \<Rightarrow> string option" where
  "sanitize_context c = (case c of None \<Rightarrow> None | Some t \<Rightarrow> if t = [] then None else Some (redact_text t))"

definition manager_system_context :: "string option \<Rightarrow> manager_state \<Rightarrow> manager_state" where
  "manager_system_context c s = s\<lparr>ms_working := set_system_context (sanitize_context c) (ms_working s)\<rparr>"

definition manager_task_context :: "string option \<Rightarrow> manager_state \<Rightarrow> manager_state" where
  "manager_task_context c s = s\<lparr>ms_working := set_task_context (sanitize_context c) (ms_working s)\<rparr>"

section \<open>The write pipeline\<close>

record store_request =
  sr_content :: string
  sr_source :: string
  sr_type :: "memory_type option"
  sr_scope :: "memory_scope option"
  sr_importance :: "rat option"
  sr_confidence :: "rat option"
  sr_conversation :: "string option"
  sr_task :: "string option"
  sr_artifact :: "string option"
  sr_project :: "string option"
  sr_metadata :: "pyval dict"
  sr_ttl :: "int option"

text \<open>What the clock and the id generator answer during one call.\<close>

record store_env =
  en_id :: string
  en_now :: rat
  en_created :: string
  en_updated :: string

datatype store_error = Rejected string | StorageFailed string

text \<open>Stages 1 to 4 and the checks of the record: the record, or the reason of the rejection.\<close>

definition prepare_record :: "manager \<Rightarrow> store_env \<Rightarrow> store_request \<Rightarrow> string + memory_record" where
  "prepare_record mg en rq =
     (let raw = strip (sr_content rq)
      in if raw = [] then Inl ''Cannot persist empty memory content.''
         else
           let clean = redact_text raw
           in case classify clean (sr_source rq) (sr_type rq) (sr_scope rq) of
                Inl e \<Rightarrow> Inl e
              | Inr (ty, scope, trust, base) \<Rightarrow>
                  validate_record
                    \<lparr>mr_id = en_id en, mr_type = ty, mr_content = clean, mr_summary = None, mr_scope = scope,
                     mr_source = sr_source rq,
                     mr_importance = (case sr_importance rq of None \<Rightarrow> base | Some i \<Rightarrow> i),
                     mr_confidence = (case sr_confidence rq of None \<Rightarrow> if trust = TrUserVerified then 1 else 8 / 10 | Some c \<Rightarrow> c),
                     mr_created = en_created en, mr_updated = en_created en,
                     mr_expires = compute_expiry (mg_to_iso mg) (en_now en) (mg_days mg) scope ty (sr_ttl rq),
                     mr_conversation = sr_conversation rq, mr_task = sr_task rq, mr_artifact = sr_artifact rq,
                     mr_project = sr_project rq, mr_metadata = sanitize_metadata (sr_metadata rq),
                     mr_embedding = EmPending, mr_trust = trust\<rparr>)"

text \<open>Stage 6: the vector of a saved record, with the embedding status written back.\<close>

definition save_status ::
  "store_env \<Rightarrow> embedding_status \<Rightarrow> memory_record \<Rightarrow> memory_db \<Rightarrow> memory_db \<times> (string + memory_record)" where
  "save_status en st r db = repo_update (en_updated en) (r\<lparr>mr_embedding := st\<rparr>) db"

definition index_failed :: "store_env \<Rightarrow> memory_record \<Rightarrow> manager_state \<Rightarrow> manager_state \<times> (store_error + memory_record)" where
  "index_failed en r s =
     (case save_status en EmFailed r (ms_db s) of
        (db1, Inl e) \<Rightarrow> (s\<lparr>ms_db := db1\<rparr>, Inl (StorageFailed e))
      | (db1, Inr r1) \<Rightarrow>
          (count_metric (\<lambda>m. m\<lparr>mm_embedding_failure := mm_embedding_failure m + 1\<rparr>) (s\<lparr>ms_db := db1\<rparr>), Inr r1))"

definition index_saved :: "manager \<Rightarrow> store_env \<Rightarrow> memory_record \<Rightarrow> manager_state \<Rightarrow> manager_state \<times> (store_error + memory_record)" where
  "index_saved mg en r s =
     (let s = mem_emit mg ''memory.embedding.started'' [(''memory_id'', PStr (mr_id r))] s
      in case mg_embed mg (mr_content r) of
           None \<Rightarrow> index_failed en r s
         | Some v \<Rightarrow>
             if mg_index_fails mg (mr_id r) then index_failed en r s
             else
               (case save_status en EmEmbedded r (vec_index (mr_id r) v (ms_db s)) of
                  (db1, Inl _) \<Rightarrow> index_failed en r (s\<lparr>ms_db := db1\<rparr>)
                | (db1, Inr r1) \<Rightarrow>
                    (mem_emit mg ''memory.embedding.completed'' [(''memory_id'', PStr (mr_id r))]
                       (count_metric (\<lambda>m. m\<lparr>mm_embedding_success := mm_embedding_success m + 1\<rparr>) (s\<lparr>ms_db := db1\<rparr>)),
                     Inr r1)))"

fun scope_value :: "memory_scope \<Rightarrow> string" where
  "scope_value ScSession = ''session''"
| "scope_value ScConversation = ''conversation''"
| "scope_value ScUser = ''user''"
| "scope_value ScProject = ''project''"
| "scope_value ScGlobal = ''global''"

definition mem_store ::
  "manager \<Rightarrow> store_env \<Rightarrow> store_request \<Rightarrow> manager_state \<Rightarrow> manager_state \<times> (store_error + memory_record)" where
  "mem_store mg en rq s =
     (let s = mem_emit mg ''memory.write.started'' [(''source'', PStr (sr_source rq))]
                (count_metric (\<lambda>m. m\<lparr>mm_writes := mm_writes m + 1\<rparr>) s)
      in case prepare_record mg en rq of
           Inl e \<Rightarrow>
             (mem_emit mg ''memory.write.rejected'' [(''reason'', PStr e)]
                (count_metric (\<lambda>m. m\<lparr>mm_rejections := mm_rejections m + 1\<rparr>) s), Inl (Rejected e))
         | Inr r \<Rightarrow>
             (case repo_insert r (ms_db s) of
                (db1, Some e) \<Rightarrow> (s\<lparr>ms_db := db1\<rparr>, Inl (StorageFailed e))
              | (db1, None) \<Rightarrow>
                  (case (if mg_semantic mg then index_saved mg en r (s\<lparr>ms_db := db1\<rparr>) else (s\<lparr>ms_db := db1\<rparr>, Inr r)) of
                     (s1, Inl e) \<Rightarrow> (s1, Inl e)
                   | (s1, Inr r1) \<Rightarrow>
                       (mem_emit mg ''memory.write.completed''
                          [(''memory_id'', PStr (mr_id r1)), (''scope'', PStr (scope_value (mr_scope r1)))] s1, Inr r1))))"

section \<open>Retrieval, consolidation and clean-up\<close>

text \<open>The vector tier the manager's retriever uses: its own table, or the native extension \<open>knn\<close>.\<close>

definition manager_tier :: "manager \<Rightarrow> (memory_db \<Rightarrow> rat list \<Rightarrow> nat \<Rightarrow> (string \<times> rat) list) \<Rightarrow> memory_db \<Rightarrow> semantic_tier option" where
  "manager_tier mg knn db =
     (if mg_semantic mg then Some \<lparr>se_embed = mg_embed mg, se_knn = knn db, se_degraded = mg_degraded mg\<rparr> else None)"

definition manager_retrieve ::
  "manager \<Rightarrow> (memory_db \<Rightarrow> rat list \<Rightarrow> nat \<Rightarrow> (string \<times> rat) list) \<Rightarrow> (rat \<Rightarrow> rat) \<Rightarrow> rat \<Rightarrow> string
     \<Rightarrow> (memory_record list \<Rightarrow> memory_record list) \<Rightarrow> retrieval_query \<Rightarrow> manager_state \<Rightarrow> manager_state \<times> retrieval_result" where
  "manager_retrieve mg knn pexp now now_iso visit q s =
     (let s = mem_emit mg ''memory.search.started'' [(''query'', PStr (rq_query q))]
                (count_metric (\<lambda>m. m\<lparr>mm_reads := mm_reads m + 1\<rparr>) s);
          s = (if mg_semantic mg
               then count_metric (\<lambda>m. m\<lparr>mm_semantic_queries := mm_semantic_queries m + 1,
                      mm_semantic_fallbacks := mm_semantic_fallbacks m + (if mg_degraded mg then 1 else 0)\<rparr>) s
               else s);
          (w, res) = retrieve (mg_weights mg) (mg_fromiso mg) pexp now now_iso visit (manager_tier mg knn (ms_db s)) q
                       (ms_db s) (ms_working s);
          s = s\<lparr>ms_working := w\<rparr>
      in (mem_emit mg ''memory.search.completed''
            [(''query'', PStr (rq_query q)), (''results_count'', PInt (int (length (rr_results res)))),
             (''degraded'', PBool (rr_degraded res))] s, res))"

definition build_context_for_prompt ::
  "context_budget \<Rightarrow> retrieval_result \<Rightarrow> string option \<Rightarrow> manager_state \<Rightarrow> string" where
  "build_context_for_prompt b res task s =
     build_context b res (if given task then task else wk_task (ms_working s)) (wk_system (ms_working s))"

definition consolidation_request :: "working_message \<Rightarrow> store_request" where
  "consolidation_request m =
     \<lparr>sr_content = wm_content m, sr_source = ''working_memory.'' @ wm_role m, sr_type = None,
      sr_scope = Some ScConversation, sr_importance = None, sr_confidence = None, sr_conversation = None,
      sr_task = None, sr_artifact = None, sr_project = None, sr_metadata = [], sr_ttl = None\<rparr>"

text \<open>The loop of \<open>consolidate\<close>: each message with what clock and ids answer in its call of \<open>store\<close>.\<close>

fun consolidate_loop ::
  "manager \<Rightarrow> (working_message \<times> store_env) list \<Rightarrow> manager_state \<Rightarrow> manager_state \<times> nat" where
  "consolidate_loop mg [] s = (s, 0)"
| "consolidate_loop mg ((m, en) # ms) s =
     (if is_memory_worthy (wm_content m)
      then let (s1, res) = mem_store mg en (consolidation_request m) s;
               (s2, n) = consolidate_loop mg ms s1
           in (s2, case res of Inl _ \<Rightarrow> n | Inr _ \<Rightarrow> Suc n)
      else consolidate_loop mg ms s)"

definition consolidate :: "manager \<Rightarrow> rat \<Rightarrow> (nat \<Rightarrow> store_env) \<Rightarrow> manager_state \<Rightarrow> manager_state \<times> nat" where
  "consolidate mg now envs s =
     (let s = mem_emit mg ''memory.consolidation.started'' [] s;
          (w, msgs) = get_recent_messages (mg_fromiso mg) now None (ms_working s);
          (s1, n) = consolidate_loop mg (zip msgs (map envs [0..<length msgs])) (s\<lparr>ms_working := w\<rparr>)
      in (mem_emit mg ''memory.consolidation.completed'' [(''promoted_count'', PInt (int n))] s1, n))"

definition cleanup_expired :: "manager \<Rightarrow> string \<Rightarrow> manager_state \<Rightarrow> manager_state \<times> nat" where
  "cleanup_expired mg now_iso s =
     (let s = mem_emit mg ''memory.cleanup.started'' [] s;
          (db1, n) = prune_expired now_iso (ms_db s);
          s = count_metric (\<lambda>m. m\<lparr>mm_cleanups := mm_cleanups m + 1\<rparr>) (s\<lparr>ms_db := db1\<rparr>)
      in (mem_emit mg ''memory.cleanup.completed'' [(''deleted_count'', PInt (int n))] s, n))"

section \<open>What a write does\<close>

lemma mem_emit_simps [simp]:
  "ms_db (mem_emit mg ty p s) = ms_db s" "ms_working (mem_emit mg ty p s) = ms_working s"
  "ms_metrics (mem_emit mg ty p s) = ms_metrics s"
  by (simp_all add: mem_emit_def)

lemma count_metric_simps [simp]:
  "ms_db (count_metric f s) = ms_db s" "ms_working (count_metric f s) = ms_working s"
  "ms_metrics (count_metric f s) = f (ms_metrics s)"
  by (simp_all add: count_metric_def)

text \<open>What is known of a record the pipeline builds.\<close>

definition guarded :: "memory_record \<Rightarrow> bool" where
  "guarded r \<longleftrightarrow> mr_content r \<noteq> [] \<and> 0 \<le> mr_importance r \<and> mr_importance r \<le> 1 \<and>
     0 \<le> mr_confidence r \<and> mr_confidence r \<le> 1 \<and>
     (\<exists>meta. mr_metadata r = sanitize_metadata meta) \<and>
     (\<exists>raw. mr_content r = strip (redact_text raw) \<and>
        (mr_trust r = TrUntrusted \<longleftrightarrow> detect_injection (redact_text raw)) \<and>
        (detect_injection (redact_text raw) \<longrightarrow> lower (mr_source r) \<in> {''system'', ''admin''}) \<and>
        (mr_trust r = TrSystem \<longrightarrow> lower (mr_source r) \<in> {''system'', ''developer''}) \<and>
        (mr_trust r = TrUserVerified \<longrightarrow> lower (mr_source r) \<in> {''user'', ''human''}))"

lemma prepare_record_guarded:
  assumes "prepare_record mg en rq = Inr r"
  shows "guarded r" and "mr_id r = en_id en" and "mr_embedding r = EmPending" and "mr_content r = strip (mr_content r)"
    and "mr_source r = sr_source rq"
proof -
  let ?clean = "redact_text (strip (sr_content rq))"
  obtain ty scope trust base where c: "classify ?clean (sr_source rq) (sr_type rq) (sr_scope rq) = Inr (ty, scope, trust, base)"
    and v: "validate_record
                    \<lparr>mr_id = en_id en, mr_type = ty, mr_content = ?clean, mr_summary = None, mr_scope = scope,
                     mr_source = sr_source rq,
                     mr_importance = (case sr_importance rq of None \<Rightarrow> base | Some i \<Rightarrow> i),
                     mr_confidence = (case sr_confidence rq of None \<Rightarrow> if trust = TrUserVerified then 1 else 8 / 10 | Some c \<Rightarrow> c),
                     mr_created = en_created en, mr_updated = en_created en,
                     mr_expires = compute_expiry (mg_to_iso mg) (en_now en) (mg_days mg) scope ty (sr_ttl rq),
                     mr_conversation = sr_conversation rq, mr_task = sr_task rq, mr_artifact = sr_artifact rq,
                     mr_project = sr_project rq, mr_metadata = sanitize_metadata (sr_metadata rq),
                     mr_embedding = EmPending, mr_trust = trust\<rparr> = Inr r"
    using assms unfolding prepare_record_def Let_def by (auto split: if_splits sum.splits)
  have r: "mr_content r = strip ?clean" "strip ?clean \<noteq> []" "0 \<le> mr_importance r" "mr_importance r \<le> 1"
      "0 \<le> mr_confidence r" "mr_confidence r \<le> 1" "mr_metadata r = sanitize_metadata (sr_metadata rq)"
      "mr_trust r = trust" "mr_source r = sr_source rq" "mr_id r = en_id en" "mr_embedding r = EmPending"
    using v by (auto simp: validate_record_def not_less split: if_splits)
  show "guarded r" unfolding guarded_def r(1,8,9) using r(2-7) classify_result(1-4) [OF c] by blast
  show "mr_id r = en_id en" "mr_embedding r = EmPending" "mr_content r = strip (mr_content r)" "mr_source r = sr_source rq"
    by (simp_all add: r)
qed

lemma save_status_last:
  assumes "\<not> has_row (mr_id r) db" and "db_memories db1 = db_memories db @ [r]"
  shows "save_status en st r db1 =
    (db1\<lparr>db_memories := db_memories db @ [r\<lparr>mr_embedding := st, mr_updated := en_updated en\<rparr>]\<rparr>,
     Inr (r\<lparr>mr_embedding := st, mr_updated := en_updated en\<rparr>))"
proof -
  have "map (\<lambda>x. if mr_id x = mr_id r then f x else x) (db_memories db) = db_memories db" for f
  proof (rule map_idI)
    fix x assume "x \<in> set (db_memories db)"
    then have "mr_id x \<noteq> mr_id r" using assms(1) by (metis has_row_def imageI)
    then show "(if mr_id x = mr_id r then f x else x) = x" by simp
  qed
  then show ?thesis using assms(2) by (simp add: save_status_def repo_update_def has_row_def Let_def)
qed

definition index_status :: "manager \<Rightarrow> memory_record \<Rightarrow> embedding_status" where
  "index_status mg r =
     (if \<not> mg_semantic mg then EmPending
      else if mg_embed mg (mr_content r) = None \<or> mg_index_fails mg (mr_id r) then EmFailed else EmEmbedded)"

lemma index_saved_last:
  assumes "mg_semantic mg" and "\<not> has_row (mr_id r) db" and "db_memories (ms_db s) = db_memories db @ [r]"
  shows "\<exists>s'. index_saved mg en r s = (s', Inr (r\<lparr>mr_embedding := index_status mg r, mr_updated := en_updated en\<rparr>)) \<and>
    db_memories (ms_db s') = db_memories db @ [r\<lparr>mr_embedding := index_status mg r, mr_updated := en_updated en\<rparr>] \<and>
    db_preferences (ms_db s') = db_preferences (ms_db s) \<and> ms_working s' = ms_working s \<and>
    db_vectors (ms_db s') = (if index_status mg r = EmEmbedded
      then filter (\<lambda>(i, _). i \<noteq> mr_id r) (db_vectors (ms_db s)) @ [(mr_id r, the (mg_embed mg (mr_content r)))]
      else db_vectors (ms_db s)) \<and>
    mm_writes (ms_metrics s') = mm_writes (ms_metrics s) \<and> mm_rejections (ms_metrics s') = mm_rejections (ms_metrics s)"
proof -
  note last = save_status_last [OF assms(2), of _ en]
  have v: "db_memories (vec_index k v (ms_db s)) = db_memories db @ [r]" for k v
    using assms(3) by (simp add: vec_index_def)
  show ?thesis
    using assms(1,3) v
    by (cases "mg_embed mg (mr_content r)")
       (auto simp: index_saved_def index_failed_def index_status_def Let_def last vec_index_def)
qed

lemma guarded_cong [simp]: "guarded (r\<lparr>mr_embedding := st, mr_updated := t\<rparr>) = guarded r"
  by (simp add: guarded_def)

text \<open>
  What a write does. With a fresh id a write either is rejected, and then counted as such and no table
  changes, or adds exactly one row, the record it returns; no other error comes out. The content is a
  redacted text without surrounding space, the metadata is redacted, importance and confidence are in
  range; the record is untrusted exactly if the redacted text looks like an injection, which only the sources
  system and admin may store; the embedding status says what became of the vector, and the vector table
  changes only by an embedded record.
\<close>

theorem store_outcome:
  assumes "\<not> has_row (en_id en) (ms_db s)" and "mem_store mg en rq s = (s', res)"
  shows "mm_writes (ms_metrics s') = mm_writes (ms_metrics s) + 1 \<and> ms_working s' = ms_working s \<and>
    (case res of
       Inl (Rejected e) \<Rightarrow> ms_db s' = ms_db s \<and> mm_rejections (ms_metrics s') = mm_rejections (ms_metrics s) + 1
     | Inl (StorageFailed e) \<Rightarrow> False
     | Inr r \<Rightarrow> guarded r \<and> mr_id r = en_id en \<and> mm_rejections (ms_metrics s') = mm_rejections (ms_metrics s) \<and>
         db_memories (ms_db s') = db_memories (ms_db s) @ [r] \<and> db_preferences (ms_db s') = db_preferences (ms_db s) \<and>
         mr_embedding r = index_status mg r \<and>
         db_vectors (ms_db s') = (if mr_embedding r = EmEmbedded
           then filter (\<lambda>(i, _). i \<noteq> mr_id r) (db_vectors (ms_db s)) @ [(mr_id r, the (mg_embed mg (mr_content r)))]
           else db_vectors (ms_db s)))"
proof (cases "prepare_record mg en rq")
  case (Inl e)
  then show ?thesis using assms(2) by (auto simp: mem_store_def Let_def)
next
  case (Inr r)
  note p = prepare_record_guarded [OF Inr]
  let ?s = "mem_emit mg ''memory.write.started'' [(''source'', PStr (sr_source rq))]
                (count_metric (\<lambda>m. m\<lparr>mm_writes := mm_writes m + 1\<rparr>) s)"
  let ?s1 = "?s\<lparr>ms_db := (ms_db s)\<lparr>db_memories := db_memories (ms_db s) @ [r]\<rparr>\<rparr>"
  have fresh: "\<not> has_row (mr_id r) (ms_db s)" using assms(1) p(2) by simp
  then have ins: "repo_insert r (ms_db ?s) = ((ms_db s)\<lparr>db_memories := db_memories (ms_db s) @ [r]\<rparr>, None)"
    by (simp add: repo_insert_def)
  show ?thesis
  proof (cases "mg_semantic mg")
    case False
    then show ?thesis using assms(2) p ins by (auto simp: mem_store_def Let_def Inr index_status_def)
  next
    case True
    have m: "db_memories (ms_db ?s1) = db_memories (ms_db s) @ [r]" by simp
    obtain s2 where s2: "index_saved mg en r ?s1 = (s2, Inr (r\<lparr>mr_embedding := index_status mg r, mr_updated := en_updated en\<rparr>))"
      "db_memories (ms_db s2) = db_memories (ms_db s) @ [r\<lparr>mr_embedding := index_status mg r, mr_updated := en_updated en\<rparr>]"
      "db_preferences (ms_db s2) = db_preferences (ms_db ?s1)" "ms_working s2 = ms_working ?s1"
      "db_vectors (ms_db s2) = (if index_status mg r = EmEmbedded
        then filter (\<lambda>(i, _). i \<noteq> mr_id r) (db_vectors (ms_db ?s1)) @ [(mr_id r, the (mg_embed mg (mr_content r)))]
        else db_vectors (ms_db ?s1))"
      "mm_writes (ms_metrics s2) = mm_writes (ms_metrics ?s1)" "mm_rejections (ms_metrics s2) = mm_rejections (ms_metrics ?s1)"
      using index_saved_last [OF True fresh m, of en] by blast
    have st: "index_status mg (r\<lparr>mr_embedding := e, mr_updated := t\<rparr>) = index_status mg r" for e t
      by (simp add: index_status_def)
    have "mem_store mg en rq s = (mem_emit mg ''memory.write.completed''
        [(''memory_id'', PStr (mr_id r)), (''scope'', PStr (scope_value (mr_scope r)))] s2,
        Inr (r\<lparr>mr_embedding := index_status mg r, mr_updated := en_updated en\<rparr>))"
      using ins s2(1) True by (simp add: mem_store_def Let_def Inr)
    then show ?thesis using assms(2) p s2 by (auto simp: st)
  qed
qed

definition demo_manager :: manager where
  "demo_manager = \<lparr>mg_window = demo_wm_config, mg_weights = default_weights, mg_days = 90, mg_bus = False,
     mg_semantic = True, mg_degraded = True, mg_embed = (\<lambda>_. Some [1]), mg_index_fails = (\<lambda>_. False),
     mg_fromiso = (\<lambda>_. None), mg_to_iso = (\<lambda>_. ''later'')\<rparr>"

definition demo_env :: "string \<Rightarrow> store_env" where
  "demo_env k = \<lparr>en_id = k, en_now = 0, en_created = ''1'', en_updated = ''2''\<rparr>"

definition demo_request :: "string \<Rightarrow> store_request" where
  "demo_request c = \<lparr>sr_content = c, sr_source = ''user'', sr_type = Some MFact, sr_scope = None, sr_importance = Some 2,
     sr_confidence = None, sr_conversation = None, sr_task = None, sr_artifact = None, sr_project = None,
     sr_metadata = [], sr_ttl = None\<rparr>"

theorem store_outcome_witness:
  "mm_writes (ms_metrics (fst (mem_store demo_manager (demo_env ''m'') (demo_request '' '') manager_init))) = 1 \<and>
   (case snd (mem_store demo_manager (demo_env ''m'') (demo_request '' '') manager_init) of
      Inl (Rejected e) \<Rightarrow> e = ''Cannot persist empty memory content.'' | _ \<Rightarrow> False)"
proof
  have "\<not> has_row (en_id (demo_env ''m'')) (ms_db manager_init)"
    by (simp add: has_row_def manager_init_def empty_db_def)
  from store_outcome [OF this prod.collapse [symmetric], of demo_manager "demo_request '' ''"]
  show "mm_writes (ms_metrics (fst (mem_store demo_manager (demo_env ''m'') (demo_request '' '') manager_init))) = 1"
    by (simp add: manager_init_def no_metrics_def)
  have "prepare_record demo_manager (demo_env ''m'') (demo_request '' '') = Inl ''Cannot persist empty memory content.''"
    by code_simp
  then show "case snd (mem_store demo_manager (demo_env ''m'') (demo_request '' '') manager_init) of
      Inl (Rejected e) \<Rightarrow> e = ''Cannot persist empty memory content.'' | _ \<Rightarrow> False"
    by (simp add: mem_store_def Let_def)
qed

section \<open>Every memory is guarded\<close>

lemma mem_store_rows:
  "db_memories (ms_db (fst (mem_store mg en rq s))) = db_memories (ms_db s) \<or>
   (\<exists>r. guarded r \<and> mr_id r = en_id en \<and> \<not> has_row (en_id en) (ms_db s) \<and>
      db_memories (ms_db (fst (mem_store mg en rq s))) = db_memories (ms_db s) @ [r])"
  "ms_working (fst (mem_store mg en rq s)) = ms_working s"
proof -
  have old: "db_memories (ms_db (fst (mem_store mg en rq s))) = db_memories (ms_db s) \<and>
      ms_working (fst (mem_store mg en rq s)) = ms_working s" if "has_row (en_id en) (ms_db s)"
    using that prepare_record_guarded(2) [of mg en rq]
    by (cases "prepare_record mg en rq") (auto simp: mem_store_def Let_def repo_insert_def)
  show "db_memories (ms_db (fst (mem_store mg en rq s))) = db_memories (ms_db s) \<or>
   (\<exists>r. guarded r \<and> mr_id r = en_id en \<and> \<not> has_row (en_id en) (ms_db s) \<and>
      db_memories (ms_db (fst (mem_store mg en rq s))) = db_memories (ms_db s) @ [r])"
    using old store_outcome [OF _ prod.collapse [symmetric], of en s mg rq]
    by (cases "has_row (en_id en) (ms_db s)") (auto split: sum.splits store_error.splits)
  show "ms_working (fst (mem_store mg en rq s)) = ms_working s"
    using old store_outcome [OF _ prod.collapse [symmetric], of en s mg rq]
    by (cases "has_row (en_id en) (ms_db s)") auto
qed

definition memory_ok :: "manager_state \<Rightarrow> bool" where
  "memory_ok s \<longleftrightarrow> list_all guarded (db_memories (ms_db s)) \<and> distinct (map mr_id (db_memories (ms_db s))) \<and>
     list_all (\<lambda>m. \<exists>t. wm_content m = redact_text t) (wk_buffer (ms_working s))"

lemma memory_ok_store: "memory_ok s \<Longrightarrow> memory_ok (fst (mem_store mg en rq s))"
  using mem_store_rows(1) [of mg en rq s] by (auto simp: memory_ok_def mem_store_rows(2) has_row_def)

lemma memory_ok_loop: "memory_ok s \<Longrightarrow> memory_ok (fst (consolidate_loop mg ms s))"
proof (induction ms arbitrary: s)
  case (Cons x ms)
  have "fst (consolidate_loop mg (x # ms) s) =
      (if is_memory_worthy (wm_content (fst x))
       then fst (consolidate_loop mg ms (fst (mem_store mg (snd x) (consolidation_request (fst x)) s)))
       else fst (consolidate_loop mg ms s))"
    by (cases x) (simp add: Let_def split: prod.splits)
  then show ?case using Cons memory_ok_store by simp
qed simp

lemma memory_ok_emit [simp]: "memory_ok (mem_emit mg ty p s) = memory_ok s"
  by (simp add: memory_ok_def)

lemma memory_ok_count [simp]: "memory_ok (count_metric f s) = memory_ok s"
  by (simp add: memory_ok_def)

lemma memory_ok_working:
  "memory_ok s \<Longrightarrow> list_all (\<lambda>m. \<exists>t. wm_content m = redact_text t) (wk_buffer w) \<Longrightarrow> memory_ok (s\<lparr>ms_working := w\<rparr>)"
  by (simp add: memory_ok_def)

lemma evict_loop_subset: "set (fst (evict_loop cfg (b, summary))) \<subseteq> set b"
proof (induction cfg "(b, summary)" arbitrary: b summary rule: evict_loop.induct)
  case (1 cfg b summary)
  show ?case
  proof (cases "over_limit cfg b \<and> b \<noteq> []")
    case True
    let ?c = "eviction_candidate cfg b"
    have "set (fst (evict_loop cfg (fst (remove_by_id (wm_id ?c) b), update_overflow_summary cfg ?c summary)))
        \<subseteq> set (fst (remove_by_id (wm_id ?c) b))" by (rule 1 [OF True refl])
    then show ?thesis using True by (subst evict_loop.simps) (auto simp: Let_def remove_by_id_def)
  next
    case False
    then have "evict_loop cfg (b, summary) = (b, summary)" by (subst evict_loop.simps) auto
    then show ?thesis by simp
  qed
qed

lemma append_buffer_subset:
  assumes "append_message fromiso now cfg k role content priority expires w = (w', m)"
  shows "set (wk_buffer w') \<subseteq> insert m (set (wk_buffer w))" and "wm_content m = content"
proof -
  show "set (wk_buffer w') \<subseteq> insert m (set (wk_buffer w))"
    unfolding append_message_result(4) [OF assms] by (rule order.trans [OF evict_loop_subset]) auto
  show "wm_content m = content" using assms by (auto simp: append_message_def Let_def)
qed

lemma recent_buffer_subset: "set (wk_buffer (fst (get_recent_messages fromiso now limit w))) \<subseteq> set (wk_buffer w)"
  by (auto simp: get_recent_messages_def remove_expired_filter Let_def split: option.splits)

inductive mem_step :: "manager \<Rightarrow> manager_state \<Rightarrow> manager_state \<Rightarrow> bool" for mg where
  store: "mem_step mg s (fst (mem_store mg en rq s))"
| consolidate: "mem_step mg s (fst (consolidate mg now envs s))"
| cleanup: "mem_step mg s (fst (cleanup_expired mg now_iso s))"
| append: "mem_step mg s (fst (append_working_message mg now k role content priority s))"
| system: "mem_step mg s (manager_system_context c s)"
| task: "mem_step mg s (manager_task_context c s)"
| retrieve: "mem_step mg s (fst (manager_retrieve mg knn pexp now now_iso visit q s))"

inductive_cases mem_stepE: "mem_step mg s s'"

lemma memory_ok_step: "mem_step mg s s' \<Longrightarrow> memory_ok s \<Longrightarrow> memory_ok s'"
proof (erule mem_stepE)
  fix now envs assume "s' = fst (consolidate mg now envs s)" and ok: "memory_ok s"
  then obtain ms where s': "s' = fst (let (s1, n) = consolidate_loop mg ms
       ((mem_emit mg ''memory.consolidation.started'' [] s)\<lparr>ms_working := fst (get_recent_messages (mg_fromiso mg) now None (ms_working s))\<rparr>)
     in (mem_emit mg ''memory.consolidation.completed'' [(''promoted_count'', PInt (int n))] s1, n))"
    by (auto simp: consolidate_def Let_def split: prod.splits)
  have "memory_ok ((mem_emit mg ''memory.consolidation.started'' [] s)\<lparr>ms_working := fst (get_recent_messages (mg_fromiso mg) now None (ms_working s))\<rparr>)"
    using ok recent_buffer_subset [of "mg_fromiso mg" now None "ms_working s"]
    by (intro memory_ok_working) (auto simp: memory_ok_def list_all_iff)
  from memory_ok_loop [OF this, of mg ms] show "memory_ok s'" unfolding s' by (auto simp: Let_def split: prod.splits)
next
  fix now_iso assume "s' = fst (cleanup_expired mg now_iso s)" and ok: "memory_ok s"
  then have s': "memory_ok s' = memory_ok (s\<lparr>ms_db := fst (prune_expired now_iso (ms_db s))\<rparr>)"
    by (simp add: cleanup_expired_def Let_def memory_ok_def split: prod.splits)
  show "memory_ok s'" unfolding s' using ok
    by (auto simp: memory_ok_def prune_expired_def delete_where_def Let_def list_all_iff distinct_map_filter)
next
  fix now k role content priority
  assume s': "s' = fst (append_working_message mg now k role content priority s)" and ok: "memory_ok s"
  obtain w m where a: "append_message (mg_fromiso mg) now (mg_window mg) k role (redact_text content) priority None (ms_working s) = (w, m)"
    by (metis prod.exhaust)
  have "list_all (\<lambda>m. \<exists>t. wm_content m = redact_text t) (wk_buffer w)"
    using append_buffer_subset [OF a] ok by (auto simp: memory_ok_def list_all_iff)
  then show "memory_ok s'" using ok by (simp add: s' append_working_message_def a memory_ok_working)
next
  fix knn pexp now now_iso visit q
  assume s': "s' = fst (manager_retrieve mg knn pexp now now_iso visit q s)" and ok: "memory_ok s"
  have "memory_ok s' = memory_ok (s\<lparr>ms_working := fst (get_recent_messages (mg_fromiso mg) now (Some 10) (ms_working s))\<rparr>)"
    unfolding s' manager_retrieve_def retrieve_def by (simp add: Let_def memory_ok_def split: prod.splits)
  then show "memory_ok s'" using ok recent_buffer_subset [of "mg_fromiso mg" now "Some 10" "ms_working s"]
    by (auto simp: memory_ok_def list_all_iff)
next
  fix en rq assume "s' = fst (mem_store mg en rq s)" and "memory_ok s"
  then show "memory_ok s'" by (simp add: memory_ok_store)
qed (auto simp: memory_ok_def manager_system_context_def manager_task_context_def
       set_system_context_def set_task_context_def)

text \<open>
  C19. Everything remembered is guarded. Whatever sequence of writes, consolidations, clean-ups, retrievals and
  working messages the engine has gone through, every durable record has a redacted content without
  surrounding space, redacted metadata, an importance and a confidence between 0 and 1, and a trust level that
  fits its source: untrusted exactly for texts that look like an injection, and those only from the sources
  system and admin; ids are unique; and every working message is a redacted text.
\<close>

theorem memory_guarded:
  assumes "(mem_step mg)\<^sup>*\<^sup>* manager_init s"
  shows "list_all guarded (db_memories (ms_db s)) \<and> distinct (map mr_id (db_memories (ms_db s))) \<and>
    list_all (\<lambda>m. \<exists>t. wm_content m = redact_text t) (wk_buffer (ms_working s))"
proof -
  have "memory_ok manager_init" by (simp add: memory_ok_def manager_init_def empty_db_def window_init_def)
  with assms have "memory_ok s" by (induction rule: rtranclp_induct) (auto intro: memory_ok_step)
  then show ?thesis by (simp add: memory_ok_def)
qed

theorem memory_guarded_witness:
  "length (wk_buffer (ms_working (fst (append_working_message demo_manager 0 ''w'' ''user'' ''hi'' 1 manager_init)))) = 1 \<and>
   list_all (\<lambda>m. \<exists>t. wm_content m = redact_text t)
     (wk_buffer (ms_working (fst (append_working_message demo_manager 0 ''w'' ''user'' ''hi'' 1 manager_init))))"
proof
  show "length (wk_buffer (ms_working (fst (append_working_message demo_manager 0 ''w'' ''user'' ''hi'' 1 manager_init)))) = 1"
    by code_simp
  have "(mem_step demo_manager)\<^sup>*\<^sup>* manager_init (fst (append_working_message demo_manager 0 ''w'' ''user'' ''hi'' 1 manager_init))"
    by (rule r_into_rtranclp) (rule mem_step.append)
  from memory_guarded [OF this]
  show "list_all (\<lambda>m. \<exists>t. wm_content m = redact_text t)
     (wk_buffer (ms_working (fst (append_working_message demo_manager 0 ''w'' ''user'' ''hi'' 1 manager_init))))" by blast
qed

section \<open>Consolidation\<close>

text \<open>The messages consolidation stores, and the text it stores of each.\<close>

definition promoted_text :: "working_message \<Rightarrow> string" where
  "promoted_text m = strip (redact_text (strip (wm_content m)))"

definition promotable :: "working_message \<Rightarrow> bool" where
  "promotable m \<longleftrightarrow> is_memory_worthy (wm_content m) \<and> promoted_text m \<noteq> [] \<and>
     \<not> detect_injection (redact_text (strip (wm_content m)))"

lemma classify_other:
  assumes "lower src \<notin> {''system'', ''admin'', ''developer'', ''user'', ''human''}"
  shows "detect_injection t \<Longrightarrow> \<exists>e. classify t src None (Some sc) = Inl e"
    and "\<not> detect_injection t \<Longrightarrow>
      \<exists>ty. classify t src None (Some sc) = Inr (ty, sc, TrModelGenerated, base_importance ty)"
  using assms by (auto simp: classify_def Let_def)

lemma working_source: "lower (''working_memory.'' @ r) \<notin> {''system'', ''admin'', ''developer'', ''user'', ''human''}"
  by (simp add: lower_def lower_char_def code_of_def)

lemma promoted_record:
  assumes "is_memory_worthy (wm_content m)"
  shows "(\<exists>r. prepare_record mg en (consolidation_request m) = Inr r) = promotable m"
    and "prepare_record mg en (consolidation_request m) = Inr r \<Longrightarrow>
      mr_content r = promoted_text m \<and> mr_trust r = TrModelGenerated"
proof -
  let ?clean = "redact_text (strip (wm_content m))"
  have ne: "strip (wm_content m) \<noteq> []" using assms by (auto simp: is_memory_worthy_def lower_def)
  define src where "src = ''working_memory.'' @ wm_role m"
  note other = classify_other [OF working_source [of "wm_role m", folded src_def], of ?clean ScConversation]
  have rq: "sr_content (consolidation_request m) = wm_content m" "sr_source (consolidation_request m) = src"
    "sr_type (consolidation_request m) = None" "sr_scope (consolidation_request m) = Some ScConversation"
    "sr_importance (consolidation_request m) = None" "sr_confidence (consolidation_request m) = None"
    by (simp_all add: consolidation_request_def src_def)
  have red: "?clean = [] \<Longrightarrow> strip ?clean = []" by (simp add: strip_def lstrip_def rstrip_def)
  show "(\<exists>r. prepare_record mg en (consolidation_request m) = Inr r) = promotable m"
  proof (cases "detect_injection ?clean")
    case True
    then show ?thesis using other(1) ne by (auto simp: prepare_record_def rq Let_def promotable_def)
  next
    case False
    then obtain ty where "classify ?clean src None (Some ScConversation) = Inr (ty, ScConversation, TrModelGenerated, base_importance ty)"
      using other(2) by blast
    then show ?thesis using ne red assms False base_importance_range [of ty]
      by (auto simp: prepare_record_def rq Let_def promotable_def promoted_text_def validate_record_def)
  qed
  assume p: "prepare_record mg en (consolidation_request m) = Inr r"
  then have "\<not> detect_injection ?clean" using other(1) ne by (auto simp: prepare_record_def rq Let_def)
  then obtain ty where "classify ?clean src None (Some ScConversation) = Inr (ty, ScConversation, TrModelGenerated, base_importance ty)"
    using other(2) by blast
  then show "mr_content r = promoted_text m \<and> mr_trust r = TrModelGenerated" using p ne
    by (auto simp: prepare_record_def rq Let_def promoted_text_def validate_record_def split: if_splits)
qed

lemma store_promoted:
  assumes "is_memory_worthy (wm_content m)" and "\<not> has_row (en_id en) (ms_db s)"
  shows "if promotable m
    then \<exists>r. snd (mem_store mg en (consolidation_request m) s) = Inr r \<and>
      db_memories (ms_db (fst (mem_store mg en (consolidation_request m) s))) = db_memories (ms_db s) @ [r] \<and>
      mr_id r = en_id en \<and> mr_content r = promoted_text m \<and> mr_trust r = TrModelGenerated
    else (\<exists>e. snd (mem_store mg en (consolidation_request m) s) = Inl e) \<and>
      db_memories (ms_db (fst (mem_store mg en (consolidation_request m) s))) = db_memories (ms_db s)"
proof (cases "prepare_record mg en (consolidation_request m)")
  case (Inl e)
  then have "\<not> promotable m" using promoted_record(1) [OF assms(1), of mg en] by simp
  with Inl show ?thesis by (simp add: mem_store_def Let_def)
next
  case (Inr r0)
  then have p: "promotable m" using promoted_record(1) [OF assms(1), of mg en] by simp
  note r0 = promoted_record(2) [OF assms(1) Inr] prepare_record_guarded(2) [OF Inr]
  have ins: "repo_insert r0 (ms_db s) = ((ms_db s)\<lparr>db_memories := db_memories (ms_db s) @ [r0]\<rparr>, None)"
    using assms(2) r0(2) by (simp add: repo_insert_def)
  have fresh: "\<not> has_row (mr_id r0) (ms_db s)" using assms(2) r0(2) by simp
  show ?thesis
  proof (cases "mg_semantic mg")
    case False
    then show ?thesis using p r0 ins by (simp add: mem_store_def Let_def Inr)
  next
    case True
    let ?s1 = "(mem_emit mg ''memory.write.started'' [(''source'', PStr (sr_source (consolidation_request m)))]
        (count_metric (\<lambda>m. m\<lparr>mm_writes := mm_writes m + 1\<rparr>) s))
          \<lparr>ms_db := (ms_db s)\<lparr>db_memories := db_memories (ms_db s) @ [r0]\<rparr>\<rparr>"
    have "db_memories (ms_db ?s1) = db_memories (ms_db s) @ [r0]" by simp
    from index_saved_last [OF True fresh this, of en] show ?thesis
      using p r0 ins True by (auto simp: mem_store_def Let_def Inr)
  qed
qed

lemma consolidate_loop_result:
  assumes "distinct (map (en_id \<circ> snd) ms)" and "list_all (\<lambda>(m, en). \<not> has_row (en_id en) (ms_db s)) ms"
    and "consolidate_loop mg ms s = (s', n)"
  shows "\<exists>new. db_memories (ms_db s') = db_memories (ms_db s) @ new \<and> length new = n \<and>
    map mr_content new = map promoted_text (filter promotable (map fst ms)) \<and>
    set (map mr_id new) \<subseteq> (en_id \<circ> snd) ` set ms \<and>
    list_all (\<lambda>r. mr_trust r = TrModelGenerated) new \<and> ms_working s' = ms_working s"
  using assms
proof (induction ms arbitrary: s s' n)
  case (Cons x ms)
  obtain m en where x: "x = (m, en)" by (cases x)
  show ?case
  proof (cases "is_memory_worthy (wm_content m)")
    case False
    then have "\<not> promotable m" by (simp add: promotable_def)
    moreover obtain new where "db_memories (ms_db s') = db_memories (ms_db s) @ new" "length new = n"
        "map mr_content new = map promoted_text (filter promotable (map fst ms))"
        "set (map mr_id new) \<subseteq> (en_id \<circ> snd) ` set ms" "list_all (\<lambda>r. mr_trust r = TrModelGenerated) new"
        "ms_working s' = ms_working s"
      using Cons.IH [of s s' n] Cons.prems False by (auto simp: x)
    ultimately show ?thesis by (intro exI [of _ new]) (auto simp: x)
  next
    case True
    let ?s1 = "fst (mem_store mg en (consolidation_request m) s)" and ?res = "snd (mem_store mg en (consolidation_request m) s)"
    obtain k where k: "consolidate_loop mg ms ?s1 = (s', k)" "n = (case ?res of Inl _ \<Rightarrow> k | Inr _ \<Rightarrow> Suc k)"
      using Cons.prems(3) True by (auto simp: x Let_def split: prod.splits)
    have fr: "\<not> has_row (en_id en) (ms_db s)" using Cons.prems(2) by (simp add: x)
    note st = store_promoted [OF True fr, of mg]
    have wk: "ms_working ?s1 = ms_working s" by (rule mem_store_rows(2))
    have rows: "has_row j (ms_db ?s1) \<Longrightarrow> has_row j (ms_db s) \<or> j = en_id en" for j
      using st by (auto simp: has_row_def split: if_splits)
    have "list_all (\<lambda>(m, en). \<not> has_row (en_id en) (ms_db ?s1)) ms"
      using Cons.prems(1,2) rows by (force simp: list_all_iff x image_iff)
    from Cons.IH [OF _ this k(1)] Cons.prems(1) obtain new where
      new: "db_memories (ms_db s') = db_memories (ms_db ?s1) @ new" "length new = k"
        "map mr_content new = map promoted_text (filter promotable (map fst ms))"
        "set (map mr_id new) \<subseteq> (en_id \<circ> snd) ` set ms" "list_all (\<lambda>r. mr_trust r = TrModelGenerated) new"
        "ms_working s' = ms_working ?s1" by auto
    show ?thesis
    proof (cases "promotable m")
      case False
      then show ?thesis using st new k(2) wk by (intro exI [of _ new]) (auto simp: x)
    next
      case True
      then obtain r where "?res = Inr r" "db_memories (ms_db ?s1) = db_memories (ms_db s) @ [r]"
        "mr_id r = en_id en" "mr_content r = promoted_text m" "mr_trust r = TrModelGenerated" using st by auto
      then show ?thesis using True new k(2) wk by (intro exI [of _ "r # new"]) (auto simp: x)
    qed
  qed
qed simp

lemma consolidate_result:
  assumes "list_all (\<lambda>m. wm_expires m = None) (wk_buffer (ms_working s))" and "inj (\<lambda>i. en_id (envs i))"
    and "\<forall>i. \<not> has_row (en_id (envs i)) (ms_db s)" and "consolidate mg now envs s = (s', n)"
  shows "n = length (filter promotable (wk_buffer (ms_working s))) \<and> ms_working s' = ms_working s \<and>
    (\<exists>new. db_memories (ms_db s') = db_memories (ms_db s) @ new \<and>
       map mr_content new = map promoted_text (filter promotable (wk_buffer (ms_working s))) \<and>
       set (map mr_id new) \<subseteq> range (\<lambda>i. en_id (envs i)) \<and>
       list_all (\<lambda>r. mr_trust r = TrModelGenerated) new)"
proof -
  let ?b = "wk_buffer (ms_working s)"
  let ?ms = "zip ?b (map envs [0..<length ?b])"
  have "filter (\<lambda>m. \<not> is_past (mg_fromiso mg) now m) ?b = ?b"
    using assms(1) by (simp add: filter_id_conv list_all_iff is_past_def)
  then have rec: "get_recent_messages (mg_fromiso mg) now None (ms_working s) = (ms_working s, ?b)"
    by (simp add: get_recent_messages_def remove_expired_filter Let_def)
  let ?s1 = "(mem_emit mg ''memory.consolidation.started'' [] s)\<lparr>ms_working := ms_working s\<rparr>"
  obtain s1 where l: "consolidate_loop mg ?ms ?s1 = (s1, n)" and s': "ms_db s' = ms_db s1" "ms_working s' = ms_working s1"
    using assms(4) by (auto simp: consolidate_def Let_def rec split: prod.splits)
  have ids: "map (en_id \<circ> snd) ?ms = map (\<lambda>i. en_id (envs i)) [0..<length ?b]"
  proof -
    have "map (en_id \<circ> snd) ?ms = map en_id (map snd ?ms)" by (rule map_map [symmetric])
    also have "map snd ?ms = map envs [0..<length ?b]" by simp
    finally show ?thesis by (simp add: comp_def)
  qed
  have "distinct (map (en_id \<circ> snd) ?ms)"
    unfolding ids using assms(2) by (simp add: distinct_map inj_on_def inj_def)
  moreover have "list_all (\<lambda>(m, en). \<not> has_row (en_id en) (ms_db ?s1)) ?ms"
    using assms(3) by (auto simp: list_all_iff dest!: set_zip_rightD)
  moreover have "map fst ?ms = ?b" by simp
  ultimately obtain new where new:
    "db_memories (ms_db s1) = db_memories (ms_db s) @ new" "length new = n"
    "map mr_content new = map promoted_text (filter promotable ?b)"
    "set (map mr_id new) \<subseteq> (en_id \<circ> snd) ` set ?ms"
    "list_all (\<lambda>r. mr_trust r = TrModelGenerated) new" "ms_working s1 = ms_working s"
    using consolidate_loop_result [OF _ _ l] by auto
  have sub: "(en_id \<circ> snd) ` set ?ms \<subseteq> range (\<lambda>i. en_id (envs i))"
    by (auto dest!: set_zip_rightD)
  have nn: "n = length (filter promotable ?b)" using new(2) arg_cong [OF new(3), of length] by simp
  have mem: "db_memories (ms_db s') = db_memories (ms_db s) @ new" "ms_working s' = ms_working s"
    using new(1,6) by (simp_all add: s')
  show ?thesis by (intro conjI exI [of _ new] nn mem new(3,5) order.trans [OF new(4) sub])
qed

text \<open>
  Consolidation promotes the same messages every time. With messages that do not expire and fresh ids, it
  stores exactly the messages worth remembering that do not look like an injection, with the trust of a
  model whoever spoke, and leaves the working memory as it is; so consolidating again stores all of them
  again, as further records with the same texts.
\<close>

theorem consolidate_again:
  assumes "list_all (\<lambda>m. wm_expires m = None) (wk_buffer (ms_working s))"
    and "inj (\<lambda>i. en_id (envs i))" and "\<forall>i. \<not> has_row (en_id (envs i)) (ms_db s)"
    and "consolidate mg now envs s = (s1, n)"
    and "inj (\<lambda>i. en_id (envs2 i))" and "\<forall>i. \<not> has_row (en_id (envs2 i)) (ms_db s1)"
    and "consolidate mg now2 envs2 s1 = (s2, n2)"
  shows "n = length (filter promotable (wk_buffer (ms_working s))) \<and> n2 = n \<and> ms_working s2 = ms_working s \<and>
    (\<exists>new new2. db_memories (ms_db s2) = db_memories (ms_db s) @ new @ new2 \<and>
       map mr_content new = map promoted_text (filter promotable (wk_buffer (ms_working s))) \<and>
       map mr_content new2 = map mr_content new \<and> list_all (\<lambda>r. mr_trust r = TrModelGenerated) (new @ new2))"
proof -
  note one = consolidate_result [OF assms(1-4)]
  then have w: "ms_working s1 = ms_working s" by blast
  note two = consolidate_result [OF assms(1) [folded w] assms(5-7)]
  from one obtain new where new: "db_memories (ms_db s1) = db_memories (ms_db s) @ new"
    "map mr_content new = map promoted_text (filter promotable (wk_buffer (ms_working s)))"
    "list_all (\<lambda>r. mr_trust r = TrModelGenerated) new" by blast
  from two obtain new2 where new2: "db_memories (ms_db s2) = db_memories (ms_db s1) @ new2"
    "map mr_content new2 = map promoted_text (filter promotable (wk_buffer (ms_working s)))"
    "list_all (\<lambda>r. mr_trust r = TrModelGenerated) new2" unfolding w by blast
  have "\<exists>new new2. db_memories (ms_db s2) = db_memories (ms_db s) @ new @ new2 \<and>
       map mr_content new = map promoted_text (filter promotable (wk_buffer (ms_working s))) \<and>
       map mr_content new2 = map mr_content new \<and> list_all (\<lambda>r. mr_trust r = TrModelGenerated) (new @ new2)"
    using new new2 by (intro exI [of _ new] exI [of _ new2]) simp
  then show ?thesis using one two unfolding w by auto
qed

definition demo_envs :: "char \<Rightarrow> nat \<Rightarrow> store_env" where
  "demo_envs c i = demo_env (replicate i (CHR ''x'') @ [c])"

definition demo_chat :: manager_state where
  "demo_chat = manager_init\<lparr>ms_working := window_init\<lparr>wk_buffer := [(demo_message ''a'' 1)\<lparr>wm_content := ''tea.''\<rparr>]\<rparr>\<rparr>"

lemma demo_chat_promotable: "filter promotable (wk_buffer (ms_working demo_chat)) = wk_buffer (ms_working demo_chat)"
  by code_simp

theorem consolidate_again_witness:
  "let (s1, n) = consolidate demo_manager 0 (demo_envs CHR ''a'') demo_chat;
       (s2, n2) = consolidate demo_manager 0 (demo_envs CHR ''b'') s1
   in n = 1 \<and> n2 = 1"
proof -
  obtain s1 n where a: "consolidate demo_manager 0 (demo_envs CHR ''a'') demo_chat = (s1, n)" by (metis prod.exhaust)
  obtain s2 n2 where b: "consolidate demo_manager 0 (demo_envs CHR ''b'') s1 = (s2, n2)" by (metis prod.exhaust)
  have inj: "inj (\<lambda>i. en_id (demo_envs c i))" for c
    by (rule injI) (auto simp: demo_envs_def demo_env_def dest: arg_cong [of _ _ length])
  have e: "list_all (\<lambda>m. wm_expires m = None) (wk_buffer (ms_working demo_chat))"
    "\<forall>i. \<not> has_row (en_id (demo_envs CHR ''a'' i)) (ms_db demo_chat)"
    by (simp_all add: demo_chat_def demo_message_def manager_init_def window_init_def empty_db_def has_row_def)
  have "en_id (demo_envs CHR ''b'' i) \<noteq> en_id (demo_envs CHR ''a'' j)" for i j
    by (simp add: demo_envs_def demo_env_def)
  then have ids: "\<not> has_row (en_id (demo_envs CHR ''b'' i)) (ms_db s1)" for i
    using consolidate_result [OF e(1) inj e(2) a] by (auto simp: has_row_def demo_chat_def manager_init_def empty_db_def)
  from consolidate_again [OF e(1) inj e(2) a inj _ b] ids
  have "n = length (filter promotable (wk_buffer (ms_working demo_chat))) \<and> n2 = n" by blast
  then have "n = 1 \<and> n2 = 1" by (simp add: demo_chat_promotable) (simp add: demo_chat_def)
  then show ?thesis by (simp add: a b)
qed

end
