(* ===== verification/Planner.thy ===== *)
theory Planner
  imports Plan_Validator Agent_Runtime
begin

text \<open>
  The planner agent, \<open>agents/builtins/planner.py\<close>: the plan a language model proposes, checked and turned
  into tasks, or else the deterministic plan chosen by keywords of the goal; and the plan as the dictionary
  that passes between planner and orchestrator (\<open>model_dump\<close> and \<open>model_validate\<close> of \<open>AgentPlan\<close>).
  The language model and the JSON parser are parameters. Times and the free metadata are left out.
\<close>

section \<open>Steps of a plan\<close>

definition plan_task ::
  "string \<Rightarrow> string \<Rightarrow> string \<Rightarrow> string \<Rightarrow> string list \<Rightarrow> string list \<Rightarrow> pyval dict \<Rightarrow> agent_task" where
  "plan_task i title desc ag deps tools input =
     \<lparr>at_id = i, at_title = title, at_description = desc, at_assigned_agent = ag, at_dependencies = deps,
      at_required_tools = tools, at_input_data = input, at_retry_count = 0, at_artifacts = []\<rparr>"

definition tool_step :: "string \<Rightarrow> string \<Rightarrow> string \<Rightarrow> string \<Rightarrow> string \<Rightarrow> pyval dict \<Rightarrow> agent_task" where
  "tool_step goal i title desc tool args =
     plan_task i title desc ''agent.coding'' [] [tool] [(''tool_args'', PDict args), (''goal_prompt'', PStr goal)]"

definition verify_after :: "string \<Rightarrow> string \<Rightarrow> string \<Rightarrow> string \<Rightarrow> agent_task" where
  "verify_after goal dep title desc =
     plan_task ''task_verify'' title desc ''agent.verifier'' [dep] [] [(''goal_prompt'', PStr goal)]"

text \<open>The three steps that make an office document.\<close>

definition office_plan ::
  "string \<Rightarrow> string \<Rightarrow> string \<Rightarrow> string \<Rightarrow> string \<Rightarrow> string \<Rightarrow> string \<Rightarrow> string \<Rightarrow> agent_task list" where
  "office_plan research_title research_desc i title desc tool verify_title verify_desc =
     [plan_task ''task_research'' research_title research_desc ''agent.research'' [] [] [],
      plan_task i title desc ''agent.coding'' [''task_research''] [tool] [],
      plan_task ''task_verify'' verify_title verify_desc ''agent.verifier'' [i] [] []]"

section \<open>Keywords\<close>

definition has_any :: "string list \<Rightarrow> string \<Rightarrow> bool" where
  "has_any ws s = list_ex (contains s) ws"

definition starts_any :: "string list \<Rightarrow> string \<Rightarrow> bool" where
  "starts_any ps s = list_ex (starts_with s) ps"

text \<open>What follows the first prefix that fits, else the whole goal.\<close>

definition after_prefix :: "string list \<Rightarrow> string \<Rightarrow> string" where
  "after_prefix ps goal =
     (case find (starts_with (lower goal)) ps of
        None \<Rightarrow> goal
      | Some p \<Rightarrow> strip (drop (length p) goal))"

text \<open>\<open>s.index(sub)\<close>; the length when it does not occur.\<close>

fun index_of :: "string \<Rightarrow> string \<Rightarrow> nat" where
  "index_of sub [] = 0"
| "index_of sub (c # s) = (if starts_with (c # s) sub then 0 else Suc (index_of sub s))"

definition youtube_query :: "string \<Rightarrow> string" where
  "youtube_query goal =
     (let q = after_prefix [''open youtube and play'', ''open youtube and search for'', ''open youtube and search'',
                ''search youtube for'', ''play on youtube'', ''open youtube'', ''play''] goal;
          q = (if contains (lower q) '' on youtube'' then strip (take (index_of '' on youtube'' (lower q)) q) else q)
      in if q = [] \<or> lower q \<in> {''youtube'', ''video'', ''song''} then ''lofi hip hop beats'' else q)"

definition SEARCH_PREFIXES :: "string list" where
  "SEARCH_PREFIXES = [''search the web for'', ''search web for'', ''search google for'', ''search for'', ''look up'', ''google'']"

definition folder_of :: "string \<Rightarrow> string" where
  "folder_of g =
     (if contains g ''downloads'' then ''downloads'' else if contains g ''documents'' then ''documents''
      else if contains g ''desktop'' then ''desktop'' else if contains g ''workspace'' then ''workspace'' else ''downloads'')"

definition capitalize :: "string \<Rightarrow> string" where
  "capitalize s = (case s of [] \<Rightarrow> [] | c # cs \<Rightarrow> upper_char c # lower cs)"

definition APP_KEYWORDS :: "(string \<times> string) list" where
  "APP_KEYWORDS =
     [(''calculator'', ''Calculator''), (''calc'', ''Calculator''), (''notepad'', ''Notepad''), (''text editor'', ''Notepad''),
      (''visual studio code'', ''VS Code''), (''vs code'', ''VS Code''), (''vscode'', ''VS Code''), (''code'', ''VS Code''),
      (''chrome'', ''Chrome''), (''google chrome'', ''Chrome''), (''edge'', ''Edge''), (''settings'', ''Settings''),
      (''file explorer'', ''File Explorer''), (''explorer'', ''File Explorer''), (''paint'', ''Paint''),
      (''terminal'', ''PowerShell''), (''powershell'', ''PowerShell''), (''task manager'', ''Task Manager'')]"

definition wants_youtube :: "string \<Rightarrow> bool" where
  "wants_youtube g = (contains g ''youtube'' \<or> (starts_with g ''play '' \<and> has_any [''song'', ''music'', ''video''] g))"

definition wants_folder :: "string \<Rightarrow> bool" where
  "wants_folder g = (has_any [''downloads'', ''documents'', ''desktop'', ''workspace''] g \<and>
                     has_any [''open'', ''show'', ''explore'', ''folder'', ''directory''] g)"

definition wanted_app :: "string \<Rightarrow> string option" where
  "wanted_app g =
     (if starts_any [''open '', ''launch '', ''start '', ''run ''] g
      then map_option snd (find (\<lambda>(kw, _). contains g kw) APP_KEYWORDS) else None)"

section \<open>The deterministic plan\<close>

text \<open>The goals that ask for a document, and all others.\<close>

definition office_goal_plan :: "string \<Rightarrow> agent_task list" where
  "office_goal_plan goal =
     (let g = lower goal
      in if has_any [''presentation'', ''pptx'', ''slide''] g
     then office_plan ''Topic Research & Outline'' (''Gather outline and structured points for: '' @ goal)
            ''task_generate_pptx'' ''Generate PowerPoint Presentation'' ''Create presentation deck using office.create_pptx''
            ''office.create_pptx'' ''Verify Presentation Artifact'' ''Confirm physical existence and slide integrity''
     else if has_any [''spreadsheet'', ''excel'', ''xlsx''] g
     then office_plan ''Gather Data & Dimensions'' (''Formulate data schema for: '' @ goal)
            ''task_generate_xlsx'' ''Generate Excel Workbook'' ''Create workbook using office.create_xlsx''
            ''office.create_xlsx'' ''Verify Workbook Artifact'' ''Confirm worksheet integrity''
     else if has_any [''document'', ''docx'', ''word''] g
     then office_plan ''Draft Document Content'' (''Draft sections and narrative for: '' @ goal)
            ''task_generate_docx'' ''Generate Word Document'' ''Create formatted document using office.create_docx''
            ''office.create_docx'' ''Verify Document Artifact'' ''Confirm paragraphs and table structure''
     else if contains g ''pdf''
     then office_plan ''Draft PDF Sections'' (''Draft report structure for: '' @ goal)
            ''task_generate_pdf'' ''Generate PDF Document'' ''Create PDF document using office.create_pdf''
            ''office.create_pdf'' ''Verify PDF Artifact'' ''Confirm binary header and page integrity''
     else [plan_task ''task_analyze'' ''Goal Analysis'' (''Analyze requirements and implications of: '' @ goal)
             ''agent.reasoning'' [] [] [],
           plan_task ''task_review'' ''Security & Consistency Review'' ''Review findings for security and logical consistency''
             ''agent.review'' [''task_analyze''] [] []])"

definition screen_goal_plan :: "string \<Rightarrow> agent_task list" where
  "screen_goal_plan goal =
     (let g = lower goal
      in if has_any [''screenshot'', ''capture screen'', ''scan screen'', ''take a screenshot''] g
     then [tool_step goal ''task_screen_capture'' ''Screen Capture'' ''Capture primary display screenshot''
             ''os.screen.capture'' [],
           verify_after goal ''task_screen_capture'' ''Verify Screen Capture'' ''Verify screen capture image artifact'']
     else if contains g ''window'' \<and> has_any [''list'', ''show''] g
     then [tool_step goal ''task_window_list'' ''List Open Windows'' ''Enumerate visible desktop application windows''
             ''os.window.list'' []]
         else office_goal_plan goal)"

definition deterministic_decompose :: "string \<Rightarrow> agent_task list" where
  "deterministic_decompose goal =
     (let g = lower goal
      in if wants_youtube g
         then let q = youtube_query goal
              in [tool_step goal ''task_youtube'' (''YouTube: '' @ q) (''Search and open YouTube for query: '' @ q)
                    ''youtube.search_and_play'' [(''query'', PStr q)],
                  verify_after goal ''task_youtube'' ''Verify Browser Launch'' ''Verify default browser process invocation'']
         else if starts_any SEARCH_PREFIXES g
         then let q = after_prefix SEARCH_PREFIXES goal
              in [tool_step goal ''task_search'' (''Search Web: '' @ q) (''Search the web for: '' @ q)
                    ''browser.search'' [(''query'', PStr q)],
                  verify_after goal ''task_search'' ''Verify Search Launch'' ''Verify default browser search launch'']
         else if wants_folder g
         then let f = folder_of g
              in [tool_step goal ''task_open_directory'' (''Open '' @ capitalize f @ '' Folder'')
                    (''Open '' @ f @ '' in Windows File Explorer'') ''file.open_directory'' [(''directory_name'', PStr f)],
                  verify_after goal ''task_open_directory'' ''Verify Explorer Launch'' (''Verify File Explorer launched for '' @ f)]
         else case wanted_app g of
           Some a \<Rightarrow>
             [tool_step goal ''task_launch_app'' (''Launch '' @ a) (''Launch application: '' @ a)
                ''app.launch'' [(''app_name'', PStr a)],
              verify_after goal ''task_launch_app'' (''Verify '' @ a @ '' Execution'') (''Verify process state for '' @ a)]
         | None \<Rightarrow> screen_goal_plan goal)"

section \<open>The plan of a language model\<close>

definition str_of :: "pyval \<Rightarrow> string option" where
  "str_of v = (case v of PStr s \<Rightarrow> Some s | _ \<Rightarrow> None)"

fun all_some :: "('a \<Rightarrow> 'b option) \<Rightarrow> 'a list \<Rightarrow> 'b list option" where
  "all_some f [] = Some []"
| "all_some f (x # xs) = (case f x of None \<Rightarrow> None | Some y \<Rightarrow> map_option (Cons y) (all_some f xs))"

definition strs_of :: "pyval \<Rightarrow> string list option" where
  "strs_of v = (case v of PList xs \<Rightarrow> all_some str_of xs | _ \<Rightarrow> None)"

text \<open>A field of a dictionary: its value converted, or the default when it is missing.\<close>

definition field :: "(pyval \<Rightarrow> 'a option) \<Rightarrow> 'a option \<Rightarrow> pyval dict \<Rightarrow> string \<Rightarrow> 'a option" where
  "field conv dflt d k = (case dict_get d k of None \<Rightarrow> dflt | Some v \<Rightarrow> conv v)"

text \<open>One task of the answer; \<open>None\<close> is any exception, of a missing key or of the checks of \<open>AgentTask\<close>.\<close>

definition parse_llm_task :: "string \<Rightarrow> pyval \<Rightarrow> agent_task option" where
  "parse_llm_task goal v =
     (case v of
        PDict d \<Rightarrow>
          (case (field str_of None d ''id'', field str_of None d ''title'', field str_of None d ''description'',
                 field str_of (Some ''agent.reasoning'') d ''assigned_agent'', field strs_of (Some []) d ''dependencies'',
                 field strs_of (Some []) d ''required_tools'') of
             (Some i, Some t, Some e, Some a, Some ds, Some rs) \<Rightarrow> Some (plan_task i t e a ds rs [(''goal_prompt'', PStr goal)])
           | _ \<Rightarrow> None)
      | _ \<Rightarrow> None)"

definition parse_llm_plan :: "string \<Rightarrow> pyval \<Rightarrow> (agent_task list \<times> string) option" where
  "parse_llm_plan goal v =
     (case v of
        PDict d \<Rightarrow>
          (case (case dict_get d ''tasks'' of
                   None \<Rightarrow> Some []
                 | Some (PList xs) \<Rightarrow> all_some (parse_llm_task goal) xs
                 | Some w \<Rightarrow> None) of
             Some (t # ts) \<Rightarrow> map_option (\<lambda>r. (t # ts, r)) (field str_of (Some ''AI generated plan'') d ''rationale'')
           | _ \<Rightarrow> None)
      | _ \<Rightarrow> None)"

text \<open>The plan with its rationale. The router is there or not; it answers with a text or an exception.\<close>

definition choose_plan ::
  "(string \<Rightarrow> string option) option \<Rightarrow> (string \<Rightarrow> pyval option) \<Rightarrow> string \<Rightarrow> agent_task list \<times> string" where
  "choose_plan router loads goal =
     (let fallback = (deterministic_decompose goal, ''Deterministic workflow decomposition'')
      in case router of
           None \<Rightarrow> fallback
         | Some ask \<Rightarrow>
             (case ask (''Goal: '' @ goal) of
                None \<Rightarrow> fallback
              | Some text \<Rightarrow>
                  if text = [] then fallback
                  else (case loads text of
                          None \<Rightarrow> fallback
                        | Some v \<Rightarrow> (case parse_llm_plan goal v of None \<Rightarrow> fallback | Some pr \<Rightarrow> pr))))"

section \<open>Plans as dictionaries\<close>

definition dump_task :: "agent_task \<Rightarrow> pyval" where
  "dump_task t =
     PDict [(''id'', PStr (at_id t)), (''title'', PStr (at_title t)), (''description'', PStr (at_description t)),
            (''assigned_agent'', PStr (at_assigned_agent t)), (''dependencies'', PList (map PStr (at_dependencies t))),
            (''required_tools'', PList (map PStr (at_required_tools t))), (''state'', PStr ''pending''),
            (''timeout_seconds'', PFloat 60), (''input_data'', PDict (at_input_data t)), (''output_data'', PNone),
            (''error'', PNone), (''retry_count'', PInt (int (at_retry_count t))),
            (''artifacts'', PList (map PStr (at_artifacts t))), (''metadata'', PDict [])]"

definition dump_plan :: "string \<Rightarrow> string \<Rightarrow> agent_task list \<times> string \<Rightarrow> pyval" where
  "dump_plan goal_id plan_id pr =
     PDict [(''goal_id'', PStr goal_id), (''plan_id'', PStr plan_id), (''tasks'', PList (map dump_task (fst pr))),
            (''rationale'', PStr (snd pr)), (''estimated_steps'', PInt (int (length (fst pr)))), (''metadata'', PDict [])]"

definition dict_of :: "pyval \<Rightarrow> pyval dict option" where
  "dict_of v = (case v of PDict d \<Rightarrow> Some d | _ \<Rightarrow> None)"

definition int_of :: "pyval \<Rightarrow> int option" where
  "int_of v = (case v of PInt i \<Rightarrow> Some i | _ \<Rightarrow> None)"

definition opt_str_of :: "pyval \<Rightarrow> string option option" where
  "opt_str_of v = (case v of PNone \<Rightarrow> Some None | PStr s \<Rightarrow> Some (Some s) | _ \<Rightarrow> None)"

definition timeout_of :: "pyval \<Rightarrow> rat option" where
  "timeout_of v =
     (let ok = (\<lambda>r. if 1 \<le> r \<and> r \<le> 600 then Some r else None)
      in case v of PFloat r \<Rightarrow> ok r | PInt i \<Rightarrow> ok (of_int i) | _ \<Rightarrow> None)"

definition TASK_STATES :: "string list" where
  "TASK_STATES = [''pending'', ''running'', ''waiting_approval'', ''completed'', ''failed'', ''skipped'', ''cancelled'']"

definition state_of :: "pyval \<Rightarrow> string option" where
  "state_of v = (case v of PStr s \<Rightarrow> if s \<in> set TASK_STATES then Some s else None | _ \<Rightarrow> None)"

text \<open>
  \<open>AgentTask.model_validate\<close>: every field has its type, missing ones their defaults. State, timeout, error
  and metadata are checked and dropped; conversions between number types are left out.
\<close>

definition validate_task :: "pyval \<Rightarrow> agent_task option" where
  "validate_task v =
     (case dict_of v of
        None \<Rightarrow> None
      | Some d \<Rightarrow>
          if field state_of (Some ''pending'') d ''state'' = None \<or> field timeout_of (Some 60) d ''timeout_seconds'' = None \<or>
             field opt_str_of (Some None) d ''error'' = None \<or> field dict_of (Some []) d ''metadata'' = None
          then None
          else (case (field str_of None d ''id'', field str_of None d ''title'', field str_of None d ''description'',
                      field str_of None d ''assigned_agent'', field strs_of (Some []) d ''dependencies'',
                      field strs_of (Some []) d ''required_tools'', field dict_of (Some []) d ''input_data'',
                      field int_of (Some 0) d ''retry_count'', field strs_of (Some []) d ''artifacts'') of
                  (Some i, Some t, Some e, Some a, Some ds, Some rs, Some inp, Some n, Some fs) \<Rightarrow>
                    Some \<lparr>at_id = i, at_title = t, at_description = e, at_assigned_agent = a, at_dependencies = ds,
                          at_required_tools = rs, at_input_data = inp, at_retry_count = nat n, at_artifacts = fs\<rparr>
                | _ \<Rightarrow> None))"

definition validate_plan :: "string \<Rightarrow> pyval \<Rightarrow> string + agent_plan" where
  "validate_plan fresh_id v =
     (let bad = Inl ''validation error for AgentPlan''
      in case dict_of v of
           None \<Rightarrow> bad
         | Some d \<Rightarrow>
             if field str_of (Some []) d ''rationale'' = None \<or> field int_of (Some 0) d ''estimated_steps'' = None \<or>
                field dict_of (Some []) d ''metadata'' = None
             then bad
             else (case (field str_of None d ''goal_id'', field str_of (Some fresh_id) d ''plan_id'',
                         field (\<lambda>w. case w of PList xs \<Rightarrow> all_some validate_task xs | _ \<Rightarrow> None) (Some []) d ''tasks'') of
                     (Some g, Some i, Some ts) \<Rightarrow> Inr \<lparr>pl_goal_id = g, pl_plan_id = i, pl_tasks = ts\<rparr>
                   | _ \<Rightarrow> bad))"

section \<open>The agent\<close>

definition planner_execute ::
  "(string \<Rightarrow> string option) option \<Rightarrow> (string \<Rightarrow> pyval option) \<Rightarrow> string \<Rightarrow> agent_task \<Rightarrow> string + agent_step_result" where
  "planner_execute router loads plan_id t =
     (let plan = (\<lambda>goal. Inr \<lparr>sr_task_id = at_id t, sr_agent_id = ''agent.planner'', sr_status = KCOMPLETED,
              sr_output = PDict [(''plan'', dump_plan (at_id t) plan_id (choose_plan router loads goal))],
              sr_artifacts = [], sr_observations = [], sr_error = None\<rparr>)
      in case dict_get (at_input_data t) ''goal_prompt'' of
           None \<Rightarrow> plan (at_description t)
         | Some (PStr goal) \<Rightarrow> plan goal
         | Some v \<Rightarrow> Inl (quoted (type_name v) @ '' object has no attribute '' @ quoted ''lower''))"

section \<open>Plans in order\<close>

text \<open>Every task depends only on tasks that stand before it.\<close>

fun ordered_plan :: "string list \<Rightarrow> agent_task list \<Rightarrow> bool" where
  "ordered_plan seen [] = True"
| "ordered_plan seen (t # ts) =
     (at_id t \<noteq> [] \<and> at_id t \<notin> set seen \<and> set (at_dependencies t) \<subseteq> set seen \<and> ordered_plan (at_id t # seen) ts)"

lemma ordered_ids: "ordered_plan seen ts \<Longrightarrow> distinct (ids ts) \<and> set (ids ts) \<inter> set seen = {} \<and> [] \<notin> set (ids ts)"
proof (induction ts arbitrary: seen)
  case (Cons t ts)
  then show ?case using Cons.IH [of "at_id t # seen"] by (auto simp: ids_def)
qed (simp add: ids_def)

lemma ordered_layered: "ordered_plan seen ts \<Longrightarrow> layered (set seen) (map (\<lambda>t. [t]) ts)"
proof (induction ts arbitrary: seen)
  case (Cons t ts)
  then show ?case using Cons.IH [of "at_id t # seen"] by (simp add: ids_def)
qed simp

lemma ordered_deps:
  "ordered_plan seen ts \<Longrightarrow> t \<in> set ts \<Longrightarrow> d \<in> set (at_dependencies t) \<Longrightarrow> d \<in> set seen \<union> set (ids ts) \<and> d \<noteq> at_id t"
proof (induction ts arbitrary: seen)
  case (Cons a ts)
  then show ?case using Cons.IH [of "at_id a # seen"] by (auto simp: ids_def)
qed simp

definition plan_for :: "string list \<Rightarrow> string list \<Rightarrow> agent_task list \<Rightarrow> bool" where
  "plan_for agents tools ts \<longleftrightarrow> ts \<noteq> [] \<and> ordered_plan [] ts \<and>
     list_all (\<lambda>t. at_assigned_agent t \<in> set agents \<and> set (at_required_tools t) \<subseteq> set tools) ts"

text \<open>Such a plan is accepted when its agents and tools are registered and enabled.\<close>

lemma plan_for_accepted:
  assumes "plan_for agents tools (pl_tasks p)" and "length (pl_tasks p) \<le> pv_max_steps pv"
    and "\<And>r k. pv_agents pv = Some r \<Longrightarrow> k \<in> set agents \<Longrightarrow> \<exists>a. dict_get r k = Some a \<and> ad_enabled (ag_definition a)"
    and "\<And>r k. pv_tools pv = Some r \<Longrightarrow> k \<in> set tools \<Longrightarrow> \<exists>d. dict_get (tg_tools r) k = Some d \<and> td_enabled d"
  shows "\<exists>waves. validate_and_sort pv p = Inr waves"
proof -
  have o: "ordered_plan [] (pl_tasks p)" "pl_tasks p \<noteq> []" using assms(1) by (auto simp: plan_for_def)
  note i = ordered_ids [OF o(1)]
  have "acyclic (dep_rel p)"
    using layered_acyclic [of "map (\<lambda>t. [t]) (pl_tasks p)"] ordered_layered [OF o(1)] i by simp
  moreover have "plan_well_formed pv p"
    unfolding plan_well_formed_def
  proof (intro conjI ballI allI impI)
    fix t assume t: "t \<in> set (pl_tasks p)"
    then have at: "at_assigned_agent t \<in> set agents" "set (at_required_tools t) \<subseteq> set tools"
      using assms(1) by (auto simp: plan_for_def list_all_iff)
    show "at_id t \<noteq> []" using i t by (force simp: ids_def)
    show "\<exists>a. dict_get r (at_assigned_agent t) = Some a \<and> ad_enabled (ag_definition a)" if "pv_agents pv = Some r" for r
      using assms(3) [OF that at(1)] .
    show "\<exists>d. dict_get (tg_tools r) k = Some d \<and> td_enabled d" if "pv_tools pv = Some r" "k \<in> set (at_required_tools t)" for r k
      using assms(4) [OF that(1)] at(2) that(2) by blast
    fix d assume "d \<in> set (at_dependencies t)"
    from ordered_deps [OF o(1) t this] show "d \<noteq> at_id t" "d \<in> set (ids (pl_tasks p))" by simp_all
  qed (use o assms(2) i in simp_all)
  ultimately show ?thesis by (simp add: validate_and_sort_iff)
qed

section \<open>The deterministic plan is in order\<close>

definition PLAN_AGENTS :: "string list" where
  "PLAN_AGENTS = [''agent.coding'', ''agent.verifier'', ''agent.research'', ''agent.reasoning'', ''agent.review'']"

definition PLAN_TOOLS :: "string list" where
  "PLAN_TOOLS = [''youtube.search_and_play'', ''browser.search'', ''file.open_directory'', ''app.launch'', ''os.screen.capture'',
     ''os.window.list'', ''office.create_pptx'', ''office.create_xlsx'', ''office.create_docx'', ''office.create_pdf'']"

definition good_plan :: "agent_task list \<Rightarrow> bool" where
  "good_plan ts \<longleftrightarrow> plan_for PLAN_AGENTS PLAN_TOOLS ts \<and> length ts \<le> 3"

lemma good_if: "good_plan a \<Longrightarrow> good_plan b \<Longrightarrow> good_plan (if c then a else b)"
  by simp

lemma good_case: "(\<And>x. good_plan (f x)) \<Longrightarrow> good_plan b \<Longrightarrow> good_plan (case m of Some x \<Rightarrow> f x | None \<Rightarrow> b)"
  by (cases m) simp_all

lemma good_two:
  "i \<noteq> [] \<Longrightarrow> i \<noteq> ''task_verify'' \<Longrightarrow> tool \<in> set PLAN_TOOLS \<Longrightarrow>
   good_plan [tool_step g i a b tool args, verify_after g i c d]"
  by (auto simp: good_plan_def plan_for_def tool_step_def verify_after_def plan_task_def PLAN_AGENTS_def)

lemma good_one: "i \<noteq> [] \<Longrightarrow> tool \<in> set PLAN_TOOLS \<Longrightarrow> good_plan [tool_step g i a b tool args]"
  by (simp add: good_plan_def plan_for_def tool_step_def plan_task_def PLAN_AGENTS_def)

lemma good_office:
  "i \<noteq> [] \<Longrightarrow> i \<noteq> ''task_research'' \<Longrightarrow> i \<noteq> ''task_verify'' \<Longrightarrow> tool \<in> set PLAN_TOOLS \<Longrightarrow>
   good_plan (office_plan a b i c d tool e f)"
  by (auto simp: good_plan_def plan_for_def office_plan_def plan_task_def PLAN_AGENTS_def)

lemma good_general:
  "good_plan [plan_task ''task_analyze'' a b ''agent.reasoning'' [] [] [],
     plan_task ''task_review'' c d ''agent.review'' [''task_analyze''] [] []]"
  by (simp add: good_plan_def plan_for_def plan_task_def PLAN_AGENTS_def)

lemma plan_tools_mem:
  "list_all (\<lambda>t. t \<in> set PLAN_TOOLS) [''youtube.search_and_play'', ''browser.search'', ''file.open_directory'', ''app.launch'',
     ''os.screen.capture'', ''os.window.list'', ''office.create_pptx'', ''office.create_xlsx'', ''office.create_docx'', ''office.create_pdf'']"
  by code_simp

lemma deterministic_good: "good_plan (deterministic_decompose goal)"
  unfolding deterministic_decompose_def screen_goal_plan_def office_goal_plan_def Let_def
  by (intro good_if good_case good_two good_one good_office good_general)
     (use plan_tools_mem in \<open>simp_all only: list.pred_inject list.distinct not_False_eq_True, simp_all\<close>)

section \<open>Round trip of plans\<close>

text \<open>What dictionaries and lists of a kind of value need of it: its dictionary form can be read back.\<close>

locale wire_form =
  fixes dump :: "'a \<Rightarrow> pyval" and parse :: "pyval \<Rightarrow> 'a option"
  assumes parse_dump: "parse (dump x) = Some x"
begin

lemma list_roundtrip: "all_some parse (map dump xs) = Some xs"
  by (induction xs) (simp_all add: parse_dump)

lemma dump_inj: "dump x = dump y \<Longrightarrow> x = y"
  by (metis parse_dump option.inject)

end

interpretation str_wire: wire_form PStr str_of
  by unfold_locales (simp add: str_of_def)

lemma strs_of_map [simp]: "strs_of (PList (map PStr xs)) = Some xs"
  by (simp add: strs_of_def str_wire.list_roundtrip)

interpretation task_wire: wire_form dump_task validate_task
  by unfold_locales (simp add: validate_task_def dump_task_def dict_of_def field_def state_of_def TASK_STATES_def timeout_of_def opt_str_of_def
      str_of_def int_of_def)

lemma plan_wire:
  "validate_plan fresh (dump_plan goal_id plan_id pr) = Inr \<lparr>pl_goal_id = goal_id, pl_plan_id = plan_id, pl_tasks = fst pr\<rparr>"
  by (simp add: validate_plan_def dump_plan_def dict_of_def field_def str_of_def int_of_def task_wire.list_roundtrip)


text \<open>Keywords are looked for inside words: a knowledge base opens a browser, a password asks for a document.\<close>

lemma keyword_inside_word:
  "wanted_app ''open the knowledge base'' = Some ''Edge''"
  "map at_id (deterministic_decompose ''reset password'') = [''task_research'', ''task_generate_docx'', ''task_verify'']"
  by code_simp+

end
