(* ===== verification/Os_Security.thy ===== *)
theory Os_Security
  imports Sandbox Py_Regex
begin

text \<open>
  Guards of operating system control: the geometry of \<open>os/models.py\<close> and the checks of \<open>os/security.py\<close>
  (coordinates, keys, typed text, screenshot paths, telemetry). Screenshot paths keep the promise of the path
  sandbox, the locale \<open>confined\<close>; the file system and its symbolic links are parameters.
\<close>

section \<open>Geometry\<close>

record monitor_info =
  mo_id :: int
  mo_name :: string
  mo_x :: int
  mo_y :: int
  mo_width :: int
  mo_height :: int
  mo_primary :: bool
  mo_scaling :: rat

record screen_info =
  si_x :: int
  si_y :: int
  si_width :: int
  si_height :: int
  si_monitors :: "monitor_info list"
  si_primary_id :: int

record window_info =
  wi_handle :: int
  wi_title :: string
  wi_process :: string
  wi_pid :: int
  wi_x :: int
  wi_y :: int
  wi_width :: int
  wi_height :: int
  wi_foreground :: bool
  wi_minimized :: bool
  wi_maximized :: bool
  wi_visible :: bool

datatype coordinate_space = SpScreen | SpMonitor | SpWindow

datatype mouse_button = BLeft | BRight | BMiddle

datatype window_action = WFocus | WMinimize | WMaximize | WRestore | WClose

definition in_rect :: "int \<Rightarrow> int \<Rightarrow> int \<Rightarrow> int \<Rightarrow> int \<times> int \<Rightarrow> bool" where
  "in_rect x y w h p \<longleftrightarrow> x \<le> fst p \<and> fst p < x + w \<and> y \<le> snd p \<and> snd p < y + h"

definition point_text :: "int \<Rightarrow> int \<Rightarrow> string" where
  "point_text x y = ''('' @ show_int x @ '', '' @ show_int y @ '')''"

text \<open>The monitor of the request: the first with the id asked for, else the first of all.\<close>

definition pick_monitor :: "int option \<Rightarrow> monitor_info list \<Rightarrow> monitor_info option" where
  "pick_monitor target ms =
     (case (case target of None \<Rightarrow> None | Some i \<Rightarrow> find (\<lambda>m. mo_id m = i) ms) of
        Some m \<Rightarrow> Some m
      | None \<Rightarrow> (case ms of [] \<Rightarrow> None | m # _ \<Rightarrow> Some m))"

definition primary_monitor :: "screen_info \<Rightarrow> monitor_info" where
  "primary_monitor si =
     (case find mo_primary (si_monitors si) of
        Some m \<Rightarrow> m
      | None \<Rightarrow> (case si_monitors si of
            m # _ \<Rightarrow> m
          | [] \<Rightarrow> \<lparr>mo_id = 0, mo_name = ''Generic Monitor'', mo_x = 0, mo_y = 0, mo_width = 1920, mo_height = 1080,
                   mo_primary = False, mo_scaling = 1\<rparr>))"

definition validate_coordinates ::
  "int \<Rightarrow> int \<Rightarrow> screen_info \<Rightarrow> coordinate_space \<Rightarrow> window_info option \<Rightarrow> int option \<Rightarrow> string + int \<times> int" where
  "validate_coordinates x y si space win mon =
     (case space of
        SpScreen \<Rightarrow>
          if x < si_x si \<or> si_x si + si_width si \<le> x \<or> y < si_y si \<or> si_y si + si_height si \<le> y
          then Inl (''Screen coordinates '' @ point_text x y @ '' out of virtual desktop bounds: ['' @ show_int (si_x si) @ '', ''
                 @ show_int (si_x si + si_width si) @ '') x ['' @ show_int (si_y si) @ '', ''
                 @ show_int (si_y si + si_height si) @ '')'')
          else Inr (x, y)
      | SpMonitor \<Rightarrow>
          (case pick_monitor mon (si_monitors si) of
             None \<Rightarrow> Inl ''No monitor available for MONITOR coordinate space''
           | Some m \<Rightarrow>
               if x < 0 \<or> mo_width m \<le> x \<or> y < 0 \<or> mo_height m \<le> y
               then Inl (''Monitor coordinates '' @ point_text x y @ '' out of monitor '' @ show_int (mo_id m) @ '' bounds (''
                      @ show_int (mo_width m) @ ''x'' @ show_int (mo_height m) @ '')'')
               else Inr (mo_x m + x, mo_y m + y))
      | SpWindow \<Rightarrow>
          (case win of
             None \<Rightarrow> Inl ''Target window must be provided for WINDOW coordinate space''
           | Some w \<Rightarrow>
               if x < 0 \<or> wi_width w \<le> x \<or> y < 0 \<or> wi_height w \<le> y
               then Inl (''Window coordinates '' @ point_text x y @ '' out of window '' @ quoted (wi_title w) @ '' bounds (''
                      @ show_int (wi_width w) @ ''x'' @ show_int (wi_height w) @ '')'')
               else Inr (wi_x w + x, wi_y w + y)))"

section \<open>Keys and text\<close>

definition upper :: "string \<Rightarrow> string" where
  "upper s = map upper_char s"

definition SUPPORTED_KEYS :: "string list" where
  "SUPPORTED_KEYS =
     [''CTRL'', ''CONTROL'', ''ALT'', ''SHIFT'', ''WIN'', ''WINDOWS'',
      ''ENTER'', ''RETURN'', ''ESC'', ''ESCAPE'', ''TAB'', ''SPACE'', ''BACKSPACE'',
      ''DELETE'', ''DEL'', ''INSERT'', ''HOME'', ''END'', ''PAGEUP'', ''PAGEDOWN'', ''PGUP'', ''PGDN'',
      ''UP'', ''DOWN'', ''LEFT'', ''RIGHT'', ''CAPSLOCK'', ''NUMLOCK'', ''SCROLLLOCK'', ''PRINTSCREEN'', ''PAUSE'',
      ''F1'', ''F2'', ''F3'', ''F4'', ''F5'', ''F6'', ''F7'', ''F8'', ''F9'', ''F10'', ''F11'', ''F12'']
     @ map (\<lambda>i. [char_of i]) ([65..<91] @ [97..<123] @ [48..<58 :: nat])
     @ [''.'', '','', '';'', '':'', ''-'', ''_'', ''='', ''+'', ''/'', [CHR 0x5C], ''['', '']'', ''('', '')'', ''{'', ''}'']"

definition validate_key :: "string \<Rightarrow> string + string" where
  "validate_key key =
     (let normalized = upper (strip key)
      in if normalized \<notin> set SUPPORTED_KEYS \<and> key \<notin> set SUPPORTED_KEYS
         then Inl (''Key '' @ quoted key @ '' is not in the supported key allowlist. Arbitrary scan codes are prohibited.'')
         else Inr (if key \<in> set SUPPORTED_KEYS then key else normalized))"

definition validate_hotkey_sequence :: "string list \<Rightarrow> string + string list" where
  "validate_hotkey_sequence keys =
     (if length keys < 2 \<or> 4 < length keys
      then Inl (''Hotkey sequence must contain 2 to 4 keys, got '' @ show_nat (length keys))
      else map_res validate_key keys)"

definition validate_text_for_typing :: "nat \<Rightarrow> string \<Rightarrow> string option" where
  "validate_text_for_typing max_len text =
     (if max_len < length text
      then Some (''Typing text length ('' @ show_nat (length text) @ '') exceeds maximum allowed limit of ''
             @ show_nat max_len @ '' characters'')
      else None)"

definition os_key_class :: "char \<Rightarrow> bool" where
  "os_key_class c = (is_ascii_alnum c \<or> c = CHR ''_'' \<or> c = CHR ''-'')"

definition SENSITIVE_TEXT_PATTERNS :: "rx list" where
  "SENSITIVE_TEXT_PATTERNS =
     [RSeq (r_lit ''sk-'') (r_atleast 20 os_key_class),
      RSeq (r_lit ''sk-ant-'') (r_atleast 20 os_key_class),
      RSeq (r_lit ''ghp_'') (r_times 36 is_ascii_alnum),
      r_seq [r_lit_ci ''Bearer'', r_plus is_space, r_atleast 20 (\<lambda>c. os_key_class c \<or> c = CHR ''.'')],
      r_seq [r_alt (map r_lit_ci [''password'', ''passwd'', ''pwd'', ''secret'', ''api_key'', ''token'']), r_star is_space,
             r_one (\<lambda>c. c = CHR '':'' \<or> c = CHR ''=''), r_star is_space, r_plus (\<lambda>c. \<not> is_space c)]]"

definition is_sensitive_text :: "string \<Rightarrow> bool" where
  "is_sensitive_text text = list_ex (\<lambda>p. rx_search p text) SENSITIVE_TEXT_PATTERNS"

definition redact_sensitive_text :: "string \<Rightarrow> string" where
  "redact_sensitive_text text = fold (\<lambda>p t. rx_sub p (\<lambda>_. ''[REDACTED_SECRET]'') t) SENSITIVE_TEXT_PATTERNS text"

section \<open>Screenshots and telemetry\<close>

definition resolve_safe_screenshot_path ::
  "file_system \<Rightarrow> (string list \<Rightarrow> bool) \<Rightarrow> string list \<Rightarrow> string \<Rightarrow> string + string list" where
  "resolve_safe_screenshot_path fs symlink temp filename =
     (if contains filename ''..'' \<or> starts_with filename ''/'' \<or> starts_with filename [CHR 0x5C]
      then Inl (''Path traversal detected in screenshot filename: '' @ quoted filename)
      else
        let cleaned = map (\<lambda>c. if is_word c \<or> c = CHR ''.'' \<or> c = CHR ''-'' then c else CHR ''_'') filename;
            name = (if list_ex (ends_with (lower cleaned)) [''.png'', ''.jpg'', ''.jpeg''] then cleaned else cleaned @ ''.png'')
        in case fs_resolve fs (temp @ [name]) of
             Inl e \<Rightarrow> Inl e
           | Inr candidate \<Rightarrow>
               if \<not> is_relative_to candidate temp
               then Inl (''Screenshot path '' @ quoted (path_text candidate) @ '' escapes sandboxed temp dir '' @ quoted (path_text temp))
               else if symlink candidate
               then Inl (''Symlinks are prohibited in screenshot files: '' @ quoted (path_text candidate))
               else Inr candidate)"

interpretation shots: confined "resolve_safe_screenshot_path fs symlink temp" "inside_root temp" for fs symlink temp
  by unfold_locales
     (auto simp: resolve_safe_screenshot_path_def Let_def is_relative_to_iff split: if_splits sum.splits)

fun scrub_os_value :: "pyval \<Rightarrow> pyval" and scrub_os_payload :: "pyval dict \<Rightarrow> pyval dict" where
  "scrub_os_value (PStr s) = PStr (redact_sensitive_text s)"
| "scrub_os_value (PDict d) = PDict (scrub_os_payload d)"
| "scrub_os_value v = v"
| "scrub_os_payload [] = []"
| "scrub_os_payload ((k, v) # d) =
     (k, if lower k \<in> {''image_bytes'', ''raw_image'', ''screenshot_bytes'', ''image_base64''}
         then PStr ''[OMITTED_SCREENSHOT_DATA]''
         else if lower k \<in> {''clipboard_content'', ''clipboard_text'', ''typed_text'', ''password''}
         then PStr ''[OMITTED_SENSITIVE_TEXT]''
         else scrub_os_value v) # scrub_os_payload d"

text \<open>Strings inside lists are not scrubbed.\<close>

lemma list_values_not_scrubbed: "scrub_os_value (PList xs) = PList xs"
  by simp

section \<open>What the checks guarantee\<close>

lemma validate_key_supported: "validate_key k = Inr k' \<Longrightarrow> k' \<in> set SUPPORTED_KEYS"
  by (auto simp: validate_key_def Let_def split: if_splits)

lemma validate_hotkey_ok:
  "validate_hotkey_sequence ks = Inr ks' \<Longrightarrow>
   2 \<le> length ks' \<and> length ks' \<le> 4 \<and> set ks' \<subseteq> set SUPPORTED_KEYS"
  using map_res_Inr [of validate_key ks ks'] validate_key_supported
  by (fastforce simp: validate_hotkey_sequence_def split: if_splits)

text \<open>The rectangle in which a validated point lies.\<close>

lemma pick_monitor_mem: "pick_monitor t ms = Some m \<Longrightarrow> m \<in> set ms"
  by (auto simp: pick_monitor_def find_Some_iff split: option.splits list.splits)

lemma validate_coordinates_ok:
  assumes "validate_coordinates x y si sp win mon = Inr p"
  shows "case sp of
      SpScreen \<Rightarrow> in_rect (si_x si) (si_y si) (si_width si) (si_height si) p
    | SpMonitor \<Rightarrow> (\<exists>m \<in> set (si_monitors si). in_rect (mo_x m) (mo_y m) (mo_width m) (mo_height m) p)
    | SpWindow \<Rightarrow> (\<exists>w. win = Some w \<and> in_rect (wi_x w) (wi_y w) (wi_width w) (wi_height w) p)"
proof (cases sp)
  case SpMonitor
  then obtain m where "m \<in> set (si_monitors si)" "in_rect (mo_x m) (mo_y m) (mo_width m) (mo_height m) p"
    using assms pick_monitor_mem [of mon "si_monitors si"]
    by (auto simp: validate_coordinates_def in_rect_def not_less not_le split: if_splits option.splits)
  then show ?thesis using SpMonitor by auto
qed (use assms in \<open>auto simp: validate_coordinates_def in_rect_def not_less not_le split: if_splits option.splits\<close>)

text \<open>A request for a monitor that does not exist is served on the first one.\<close>

lemma unknown_monitor_uses_first:
  "find (\<lambda>m. mo_id m = i) ms = None \<Longrightarrow> ms = m # rest \<Longrightarrow> pick_monitor (Some i) ms = Some m"
  by (simp add: pick_monitor_def)

end
