(* ===== verification/Os_Control.thy ===== *)
theory Os_Control
  imports Os_Security "HOL-Library.AList"
begin

text \<open>
  Operating system control over an abstract desktop: mouse (\<open>os/input/mouse.py\<close>), keyboard
  (\<open>os/input/keyboard.py\<close>), clipboard (\<open>os/clipboard/manager.py\<close>), windows (\<open>os/window/manager.py\<close>), screen
  capture (\<open>os/screen/capture.py\<close>) and the verifier (\<open>os/verification/verifier.py\<close>). The provider is a
  record of functions on a world, as in \<open>os/providers/base.py\<close>; the Windows provider is
  modelled in \<open>Os_Windows\<close>, the mock provider (\<open>os/providers/mock.py\<close>) is modelled and satisfies the locale \<open>desktop\<close>.
  Exceptions of the provider itself and pauses between key strokes are left out.
\<close>

section \<open>The provider\<close>

record system_info =
  sy_os_name :: string
  sy_os_version :: string
  sy_architecture :: string
  sy_hostname :: string
  sy_cpu_count :: int
  sy_memory_total :: int
  sy_memory_available :: int
  sy_foreground_title :: "string option"

record 'w os_provider =
  op_screen :: "'w \<Rightarrow> screen_info"
  op_cursor :: "'w \<Rightarrow> int \<times> int"
  op_move :: "int \<Rightarrow> int \<Rightarrow> 'w \<Rightarrow> 'w"
  op_click :: "mouse_button \<Rightarrow> int \<Rightarrow> 'w \<Rightarrow> 'w"
  op_scroll :: "int \<Rightarrow> 'w \<Rightarrow> 'w"
  op_type :: "string \<Rightarrow> 'w \<Rightarrow> 'w"
  op_key :: "string \<Rightarrow> 'w \<Rightarrow> 'w"
  op_hotkey :: "string list \<Rightarrow> 'w \<Rightarrow> 'w"
  op_windows :: "'w \<Rightarrow> window_info list"
  op_foreground :: "'w \<Rightarrow> window_info option"
  op_set_foreground :: "int \<Rightarrow> 'w \<Rightarrow> 'w \<times> bool"
  op_set_state :: "int \<Rightarrow> window_action \<Rightarrow> 'w \<Rightarrow> 'w \<times> bool"
  op_read_clip :: "'w \<Rightarrow> string"
  op_write_clip :: "string \<Rightarrow> 'w \<Rightarrow> 'w \<times> bool"
  op_clear_clip :: "'w \<Rightarrow> 'w \<times> bool"
  op_system :: "'w \<Rightarrow> system_info"

datatype os_error =
    OSSecurityError string
  | OSPolicyViolation string
  | WindowNotFound string
  | WindowAmbiguity string "(int \<times> string \<times> int) list"
  | ScreenCaptureError string

fun os_error_text :: "os_error \<Rightarrow> string" where
  "os_error_text (OSSecurityError m) = m"
| "os_error_text (OSPolicyViolation m) = m"
| "os_error_text (WindowNotFound m) = m"
| "os_error_text (WindowAmbiguity m _) = m"
| "os_error_text (ScreenCaptureError m) = m"

record os_security =
  ox_max_type :: nat
  ox_max_clipboard :: nat
  ox_max_screen :: nat
  ox_require_approval :: bool
  ox_temp :: "string list"

section \<open>Mouse\<close>

record mouse_move_request =
  mv_x :: int
  mv_y :: int
  mv_space :: coordinate_space
  mv_window :: "int option"
  mv_monitor :: "int option"

record mouse_click_request =
  mc_x :: "int option"
  mc_y :: "int option"
  mc_button :: mouse_button
  mc_clicks :: int
  mc_space :: coordinate_space
  mc_window :: "int option"
  mc_destructive :: bool

definition mouse_move ::
  "'w os_provider \<Rightarrow> mouse_move_request \<Rightarrow> window_info option \<Rightarrow> 'w \<Rightarrow> 'w \<times> (os_error + int \<times> int)" where
  "mouse_move p rq win w =
     (case validate_coordinates (mv_x rq) (mv_y rq) (op_screen p w) (mv_space rq) win (mv_monitor rq) of
        Inl e \<Rightarrow> (w, Inl (OSSecurityError e))
      | Inr (x, y) \<Rightarrow> (op_move p x y w, Inr (x, y)))"

definition mouse_click ::
  "os_security \<Rightarrow> 'w os_provider \<Rightarrow> mouse_click_request \<Rightarrow> window_info option \<Rightarrow> bool \<Rightarrow> 'w
     \<Rightarrow> 'w \<times> (os_error + int \<times> int)" where
  "mouse_click sec p rq win approved w =
     (if mc_destructive rq \<and> ox_require_approval sec \<and> \<not> approved
      then (w, Inl (OSPolicyViolation ''Destructive mouse click action requires explicit user approval before execution.''))
      else case (mc_x rq, mc_y rq) of
             (Some x, Some y) \<Rightarrow>
               (case validate_coordinates x y (op_screen p w) (mc_space rq) win None of
                  Inl e \<Rightarrow> (w, Inl (OSSecurityError e))
                | Inr (tx, ty) \<Rightarrow> (op_click p (mc_button rq) (mc_clicks rq) (op_move p tx ty w), Inr (tx, ty)))
           | _ \<Rightarrow> (op_click p (mc_button rq) (mc_clicks rq) w, Inr (op_cursor p w)))"

definition mouse_scroll ::
  "'w os_provider \<Rightarrow> int \<Rightarrow> (int \<times> int) option \<Rightarrow> 'w \<Rightarrow> 'w \<times> (os_error + int)" where
  "mouse_scroll p clicks pos w =
     (case pos of
        None \<Rightarrow> (op_scroll p clicks w, Inr clicks)
      | Some (x, y) \<Rightarrow>
          (case validate_coordinates x y (op_screen p w) SpScreen None None of
             Inl e \<Rightarrow> (w, Inl (OSSecurityError e))
           | Inr (tx, ty) \<Rightarrow> (op_scroll p clicks (op_move p tx ty w), Inr clicks)))"

section \<open>Keyboard and clipboard\<close>

definition type_text ::
  "os_security \<Rightarrow> 'w os_provider \<Rightarrow> string \<Rightarrow> bool \<Rightarrow> bool \<Rightarrow> 'w \<Rightarrow> 'w \<times> (os_error + nat)" where
  "type_text sec p text sensitive approved w =
     (case validate_text_for_typing (ox_max_type sec) text of
        Some e \<Rightarrow> (w, Inl (OSSecurityError e))
      | None \<Rightarrow>
          if (sensitive \<or> is_sensitive_text text) \<and> \<not> approved
          then (w, Inl (OSPolicyViolation ''Typing sensitive text (passwords, tokens, or credentials) requires explicit user approval.''))
          else (op_type p text w, Inr (length text)))"

definition press_key :: "'w os_provider \<Rightarrow> string \<Rightarrow> 'w \<Rightarrow> 'w \<times> (os_error + string)" where
  "press_key p key w =
     (case validate_key key of
        Inl e \<Rightarrow> (w, Inl (OSSecurityError e))
      | Inr k \<Rightarrow> (op_key p k w, Inr k))"

definition send_hotkey :: "'w os_provider \<Rightarrow> string list \<Rightarrow> 'w \<Rightarrow> 'w \<times> (os_error + string list)" where
  "send_hotkey p keys w =
     (case validate_hotkey_sequence keys of
        Inl e \<Rightarrow> (w, Inl (OSSecurityError e))
      | Inr ks \<Rightarrow> (op_hotkey p ks w, Inr ks))"

text \<open>\<open>s[:n]\<close>, with the negative bounds of the language.\<close>

definition py_prefix :: "int \<Rightarrow> string \<Rightarrow> string" where
  "py_prefix n s = take (nat (if n < 0 then int (length s) + n else n)) s"

definition clipboard_read :: "os_security \<Rightarrow> 'w os_provider \<Rightarrow> int option \<Rightarrow> 'w \<Rightarrow> string \<times> nat" where
  "clipboard_read sec p max_chars w =
     (let m = (case max_chars of None \<Rightarrow> int (ox_max_clipboard sec) | Some n \<Rightarrow> if n = 0 then int (ox_max_clipboard sec) else n);
          content = op_read_clip p w;
          content = (if m < int (length content) then py_prefix m content else content)
      in (content, length content))"

definition clipboard_write :: "os_security \<Rightarrow> 'w os_provider \<Rightarrow> string \<Rightarrow> 'w \<Rightarrow> 'w \<times> (os_error + nat \<times> bool)" where
  "clipboard_write sec p text w =
     (if ox_max_clipboard sec < length text
      then (w, Inl (OSSecurityError (''Clipboard write content length ('' @ show_nat (length text) @ '') exceeds limit of ''
              @ show_nat (ox_max_clipboard sec) @ '' characters'')))
      else case op_write_clip p text w of (w1, success) \<Rightarrow> (w1, Inr (length text, success)))"

definition clipboard_clear :: "'w os_provider \<Rightarrow> 'w \<Rightarrow> 'w \<times> bool" where
  "clipboard_clear p w = op_clear_clip p w"

section \<open>Windows\<close>

record window_query =
  wq_title_pattern :: "string option"
  wq_process :: "string option"
  wq_exact :: bool

definition opt_given :: "string option \<Rightarrow> bool" where
  "opt_given x = (case x of None \<Rightarrow> False | Some s \<Rightarrow> s \<noteq> [])"

definition window_matches :: "window_query \<Rightarrow> window_info \<Rightarrow> bool" where
  "window_matches q w \<longleftrightarrow>
     (opt_given (wq_title_pattern q) \<longrightarrow>
        (if wq_exact q then lower (wi_title w) = lower (the (wq_title_pattern q))
         else contains (lower (wi_title w)) (lower (the (wq_title_pattern q))))) \<and>
     (opt_given (wq_process q) \<longrightarrow> contains (lower (wi_process w)) (lower (the (wq_process q))))"

definition show_opt :: "string option \<Rightarrow> string" where
  "show_opt x = (case x of None \<Rightarrow> ''None'' | Some s \<Rightarrow> s)"

definition find_window :: "'w os_provider \<Rightarrow> window_query \<Rightarrow> 'w \<Rightarrow> os_error + window_info" where
  "find_window p q w =
     (case filter (window_matches q) (op_windows p w) of
        [] \<Rightarrow> Inl (WindowNotFound (''No window matched query: title_pattern='' @ [CHR 0x27] @ show_opt (wq_title_pattern q)
                @ [CHR 0x27] @ '', process_name='' @ [CHR 0x27] @ show_opt (wq_process q) @ [CHR 0x27]))
      | [x] \<Rightarrow> Inr x
      | xs \<Rightarrow> Inl (WindowAmbiguity (''Multiple windows ('' @ show_nat (length xs) @ '') matched query: '' @ [CHR 0x27]
                @ show_opt (wq_title_pattern q) @ [CHR 0x27] @ ''. Ambiguous resolution prohibited.'')
                (map (\<lambda>x. (wi_handle x, wi_title x, wi_pid x)) xs)))"

section \<open>Verification of actions\<close>

record os_verification =
  vn_verified :: bool
  vn_observation :: string
  vn_confidence :: rat
  vn_details :: "pyval dict"

definition verdict :: "bool \<Rightarrow> string \<Rightarrow> pyval dict \<Rightarrow> os_verification" where
  "verdict matched obs details =
     \<lparr>vn_verified = matched, vn_observation = obs, vn_confidence = (if matched then 1 else 0), vn_details = details\<rparr>"

lemma verdict_sel [simp]:
  "vn_verified (verdict m obs d) = m" "vn_observation (verdict m obs d) = obs" "vn_details (verdict m obs d) = d"
  by (simp_all add: verdict_def)

definition verify_mouse_position :: "'w os_provider \<Rightarrow> int \<Rightarrow> int \<Rightarrow> 'w \<Rightarrow> os_verification" where
  "verify_mouse_position p x y w =
     (let (ax, ay) = op_cursor p w;
          matched = (ax = x \<and> ay = y)
      in verdict matched
           (if matched then ''Cursor position matches target '' @ point_text x y
            else ''Cursor position mismatch: expected '' @ point_text x y @ '', got '' @ point_text ax ay)
           [(''expected'', PList [PInt x, PInt y]), (''actual'', PList [PInt ax, PInt ay])])"

definition verify_window_focus :: "'w os_provider \<Rightarrow> int \<Rightarrow> 'w \<Rightarrow> os_verification" where
  "verify_window_focus p h w =
     (case op_foreground p w of
        None \<Rightarrow> verdict False ''No foreground window detected'' []
      | Some i \<Rightarrow>
          let matched = (wi_handle i = h)
          in verdict matched
               (if matched then ''Window '' @ quoted (wi_title i) @ '' (HWND '' @ show_int (wi_handle i) @ '') is in foreground.''
                else ''Window focus mismatch: expected HWND '' @ show_int h @ '', but HWND '' @ show_int (wi_handle i)
                       @ '' ('' @ quoted (wi_title i) @ '') is focused.'')
               [(''target_hwnd'', PInt h), (''actual_hwnd'', PInt (wi_handle i))])"

definition verify_clipboard_write :: "'w os_provider \<Rightarrow> string \<Rightarrow> 'w \<Rightarrow> os_verification" where
  "verify_clipboard_write p text w =
     (let current = op_read_clip p w;
          matched = (current = text)
      in verdict matched
           (if matched then ''Clipboard write verified (length: '' @ show_nat (length text) @ '')''
            else ''Clipboard write mismatch: expected length '' @ show_nat (length text) @ '', actual length ''
                   @ show_nat (length current))
           [(''expected_len'', PInt (int (length text))), (''actual_len'', PInt (int (length current)))])"

section \<open>Screen capture\<close>

record capture_request =
  cq_monitor :: "int option"
  cq_region :: "(int \<times> int \<times> int \<times> int) option"
  cq_format :: string
  cq_max_width :: "int option"
  cq_max_height :: "int option"
  cq_base64 :: bool

record capture_result =
  cr_path :: "string list"
  cr_base64 :: "string option"
  cr_width :: int
  cr_height :: int
  cr_format :: string
  cr_size :: nat

text \<open>\<open>capture\<close>; \<open>raw\<close> holds the bytes the provider returns for the request, \<open>b64\<close> is the
  library's encoding and \<open>stamp\<close> the generated part of the file name; the scale is exact. The first component is the file that was written.\<close>

definition screen_capture ::
  "os_security \<Rightarrow> 'w os_provider \<Rightarrow> file_system \<Rightarrow> (string list \<Rightarrow> bool) \<Rightarrow> (string \<Rightarrow> string) \<Rightarrow> string \<Rightarrow> string
     \<Rightarrow> capture_request \<Rightarrow> 'w
     \<Rightarrow> string list option \<times> (os_error + capture_result)" where
  "screen_capture sec p fs symlink b64 raw stamp rq w =
     (if ox_max_screen sec < length raw
      then (None, Inl (ScreenCaptureError (''Captured screenshot size ('' @ show_nat (length raw) @ '' bytes) exceeds safety limit of ''
              @ show_nat (ox_max_screen sec) @ '' bytes'')))
      else case resolve_safe_screenshot_path fs symlink (ox_temp sec) (''screen_'' @ stamp @ ''.'' @ cq_format rq) of
             Inl e \<Rightarrow> (None, Inl (OSSecurityError e))
           | Inr path \<Rightarrow>
               let (wd, ht) = (case cq_region rq of
                      Some (_, _, a, b) \<Rightarrow> (a, b)
                    | None \<Rightarrow> (si_width (op_screen p w), si_height (op_screen p w)));
                   (wd, ht) = (case cq_max_width rq of
                      None \<Rightarrow> (wd, ht)
                    | Some m \<Rightarrow> if m \<noteq> 0 \<and> m < wd then (m, \<lfloor>of_int ht * (of_int m / of_int wd :: rat)\<rfloor>) else (wd, ht))
               in (Some path,
                   if wd \<le> 0 \<or> ht \<le> 0 then Inl (ScreenCaptureError ''width and height must be positive'')
                   else Inr \<lparr>cr_path = path,
                     cr_base64 = (if cq_base64 rq then Some (''data:image/'' @ cq_format rq @ '';base64,'' @ b64 raw) else None),
                     cr_width = wd, cr_height = ht, cr_format = cq_format rq, cr_size = length raw\<rparr>))"

section \<open>The mock desktop\<close>

record mock_desktop =
  md_width :: int
  md_height :: int
  md_cursor :: "int \<times> int"
  md_clicks :: "(mouse_button \<times> int \<times> int \<times> int) list"
  md_scrolls :: "int list"
  md_typed :: "string list"
  md_keys :: "string list"
  md_hotkeys :: "string list list"
  md_clipboard :: string
  md_windows :: "(int \<times> window_info) list"
  md_foreground :: int

definition mock_window :: "int \<Rightarrow> string \<Rightarrow> string \<Rightarrow> int \<Rightarrow> int \<Rightarrow> int \<Rightarrow> int \<Rightarrow> int \<Rightarrow> bool \<Rightarrow> window_info" where
  "mock_window h title process pid x y wd ht fg =
     \<lparr>wi_handle = h, wi_title = title, wi_process = process, wi_pid = pid, wi_x = x, wi_y = y, wi_width = wd,
      wi_height = ht, wi_foreground = fg, wi_minimized = False, wi_maximized = False, wi_visible = True\<rparr>"

definition mock_init :: mock_desktop where
  "mock_init =
     \<lparr>md_width = 1920, md_height = 1080, md_cursor = (100, 100), md_clicks = [], md_scrolls = [], md_typed = [],
      md_keys = [], md_hotkeys = [], md_clipboard = [],
      md_windows = [(1001, mock_window 1001 ''Calculator'' ''calculator.exe'' 4520 200 150 400 500 False),
                    (1002, mock_window 1002 ''Notepad - Untitled'' ''notepad.exe'' 5812 650 150 800 600 True)],
      md_foreground = 1002\<rparr>"

definition mock_screen :: "mock_desktop \<Rightarrow> screen_info" where
  "mock_screen w =
     \<lparr>si_x = 0, si_y = 0, si_width = md_width w, si_height = md_height w,
      si_monitors = [\<lparr>mo_id = 0, mo_name = ''Mock Display 1'', mo_x = 0, mo_y = 0, mo_width = md_width w,
                      mo_height = md_height w, mo_primary = True, mo_scaling = 1\<rparr>],
      si_primary_id = 0\<rparr>"

definition update_window :: "int \<Rightarrow> (window_info \<Rightarrow> window_info) \<Rightarrow> mock_desktop \<Rightarrow> mock_desktop" where
  "update_window h f w =
     (case map_of (md_windows w) h of
        None \<Rightarrow> w
      | Some i \<Rightarrow> w\<lparr>md_windows := AList.update h (f i) (md_windows w)\<rparr>)"

definition mock_set_foreground :: "int \<Rightarrow> mock_desktop \<Rightarrow> mock_desktop \<times> bool" where
  "mock_set_foreground h w =
     (case map_of (md_windows w) h of
        None \<Rightarrow> (w, False)
      | Some _ \<Rightarrow>
          let w1 = update_window (md_foreground w) (\<lambda>i. i\<lparr>wi_foreground := False\<rparr>) w
          in (update_window h (\<lambda>i. i\<lparr>wi_foreground := True\<rparr>) (w1\<lparr>md_foreground := h\<rparr>), True))"

definition mock_set_state :: "int \<Rightarrow> window_action \<Rightarrow> mock_desktop \<Rightarrow> mock_desktop \<times> bool" where
  "mock_set_state h a w =
     (case map_of (md_windows w) h of
        None \<Rightarrow> (w, False)
      | Some _ \<Rightarrow>
          ((case a of
             WMinimize \<Rightarrow> update_window h (\<lambda>i. i\<lparr>wi_minimized := True, wi_maximized := False\<rparr>) w
           | WMaximize \<Rightarrow> update_window h (\<lambda>i. i\<lparr>wi_maximized := True, wi_minimized := False\<rparr>) w
           | WRestore \<Rightarrow> update_window h (\<lambda>i. i\<lparr>wi_minimized := False, wi_maximized := False\<rparr>) w
           | WFocus \<Rightarrow> fst (mock_set_foreground h w)
           | WClose \<Rightarrow> w\<lparr>md_windows := AList.delete h (md_windows w)\<rparr>), True))"

definition mock_system :: "mock_desktop \<Rightarrow> system_info" where
  "mock_system w =
     \<lparr>sy_os_name = ''Windows (Mock)'', sy_os_version = ''10.0.22631'', sy_architecture = ''AMD64'',
      sy_hostname = ''JARVIS-VIRTUAL-NODE'', sy_cpu_count = 8, sy_memory_total = 16 * 1024 * 1024 * 1024,
      sy_memory_available = 8 * 1024 * 1024 * 1024,
      sy_foreground_title = map_option wi_title (map_of (md_windows w) (md_foreground w))\<rparr>"

definition mock_provider :: "mock_desktop os_provider" where
  "mock_provider =
     \<lparr>op_screen = mock_screen, op_cursor = md_cursor, op_move = (\<lambda>x y w. w\<lparr>md_cursor := (x, y)\<rparr>),
      op_click = (\<lambda>b n w. w\<lparr>md_clicks := md_clicks w @ [(b, n, fst (md_cursor w), snd (md_cursor w))]\<rparr>),
      op_scroll = (\<lambda>n w. w\<lparr>md_scrolls := md_scrolls w @ [n]\<rparr>),
      op_type = (\<lambda>t w. w\<lparr>md_typed := md_typed w @ [t]\<rparr>),
      op_key = (\<lambda>k w. w\<lparr>md_keys := md_keys w @ [k]\<rparr>),
      op_hotkey = (\<lambda>ks w. w\<lparr>md_hotkeys := md_hotkeys w @ [ks]\<rparr>),
      op_windows = (\<lambda>w. map snd (md_windows w)), op_foreground = (\<lambda>w. map_of (md_windows w) (md_foreground w)),
      op_set_foreground = mock_set_foreground, op_set_state = mock_set_state,
      op_read_clip = md_clipboard, op_write_clip = (\<lambda>t w. (w\<lparr>md_clipboard := t\<rparr>, True)),
      op_clear_clip = (\<lambda>w. (w\<lparr>md_clipboard := []\<rparr>, True)), op_system = mock_system\<rparr>"

section \<open>What a provider promises\<close>

text \<open>A desktop obeys: what was set is what is read. \<open>ok\<close> is its consistency.\<close>

locale desktop =
  fixes p :: "'w os_provider" and ok :: "'w \<Rightarrow> bool"
  assumes ok_move: "ok w \<Longrightarrow> ok (op_move p x y w)"
    and ok_focus: "ok w \<Longrightarrow> ok (fst (op_set_foreground p h w))"
    and cursor_move: "op_cursor p (op_move p x y w) = (x, y)"
    and cursor_click: "op_cursor p (op_click p b n w) = op_cursor p w"
    and read_write: "snd (op_write_clip p t w) \<Longrightarrow> op_read_clip p (fst (op_write_clip p t w)) = t"
    and focused: "ok w \<Longrightarrow> snd (op_set_foreground p h w) \<Longrightarrow>
      \<exists>i. op_foreground p (fst (op_set_foreground p h w)) = Some i \<and> wi_handle i = h"
begin

lemma move_verified:
  assumes "mouse_move p rq win w = (w', Inr (x, y))"
  shows "vn_verified (verify_mouse_position p x y w')"
  using assms cursor_move by (auto simp: mouse_move_def verify_mouse_position_def split: sum.splits prod.splits)

lemma click_verified:
  assumes "mouse_click sec p rq win approved w = (w', Inr (x, y))"
  shows "vn_verified (verify_mouse_position p x y w')"
  using assms cursor_move cursor_click
  by (auto simp: mouse_click_def verify_mouse_position_def split: sum.splits option.splits if_splits prod.splits)

lemma write_verified:
  assumes "clipboard_write sec p t w = (w', Inr (n, True))"
  shows "vn_verified (verify_clipboard_write p t w')"
  using assms read_write [of t w]
  by (auto simp: clipboard_write_def verify_clipboard_write_def split: if_splits prod.splits)

lemma focus_verified:
  assumes "ok w" and "op_set_foreground p h w = (w', True)"
  shows "vn_verified (verify_window_focus p h w')"
  using focused [OF assms(1), of h] assms(2) by (auto simp: verify_window_focus_def)

end

definition windows_ok :: "mock_desktop \<Rightarrow> bool" where
  "windows_ok w \<longleftrightarrow> (\<forall>k i. map_of (md_windows w) k = Some i \<longrightarrow> wi_handle i = k)"

lemma windows_ok_update:
  "windows_ok w \<Longrightarrow> (\<And>i. wi_handle (f i) = wi_handle i) \<Longrightarrow> windows_ok (update_window h f w)"
  by (auto simp: windows_ok_def update_window_def update_Some_unfold split: option.splits)

lemma update_window_get:
  "map_of (md_windows (update_window h f w)) k =
     (if k = h then map_option f (map_of (md_windows w) h) else map_of (md_windows w) k)"
  by (auto simp: update_window_def update_conv' split: option.splits)

interpretation mock: desktop mock_provider windows_ok
proof unfold_locales
  fix w :: mock_desktop and h :: int
  assume ok: "windows_ok w"
  show ok': "windows_ok (fst (op_set_foreground mock_provider h w))"
    using ok by (auto simp: mock_provider_def mock_set_foreground_def Let_def windows_ok_def update_window_get
        split: option.splits if_splits)
  assume s: "snd (op_set_foreground mock_provider h w)"
  then obtain i where "map_of (md_windows w) h = Some i" "wi_handle i = h"
    using ok by (auto simp: mock_provider_def mock_set_foreground_def windows_ok_def split: option.splits)
  moreover have "md_foreground (fst (mock_set_foreground h w)) = h"
    using s by (auto simp: mock_provider_def mock_set_foreground_def Let_def update_window_def split: option.splits)
  ultimately show "\<exists>i. op_foreground mock_provider (fst (op_set_foreground mock_provider h w)) = Some i \<and> wi_handle i = h"
    by (auto simp: mock_provider_def mock_set_foreground_def Let_def update_window_get split: option.splits)
qed (auto simp: mock_provider_def windows_ok_def)

section \<open>Sequences of input actions\<close>

datatype os_action =
    AMove mouse_move_request "window_info option"
  | AClick mouse_click_request "window_info option" bool
  | AScroll int "(int \<times> int) option"
  | AType string bool bool
  | AKey string
  | AHotkey "string list"
  | AWrite string

fun os_do :: "os_security \<Rightarrow> 'w os_provider \<Rightarrow> os_action \<Rightarrow> 'w \<Rightarrow> 'w" where
  "os_do sec p (AMove rq win) w = fst (mouse_move p rq win w)"
| "os_do sec p (AClick rq win approved) w = fst (mouse_click sec p rq win approved w)"
| "os_do sec p (AScroll n pos) w = fst (mouse_scroll p n pos w)"
| "os_do sec p (AType t sensitive approved) w = fst (type_text sec p t sensitive approved w)"
| "os_do sec p (AKey k) w = fst (press_key p k w)"
| "os_do sec p (AHotkey ks) w = fst (send_hotkey p ks w)"
| "os_do sec p (AWrite t) w = fst (clipboard_write sec p t w)"

definition inside_screen :: "mock_desktop \<Rightarrow> window_info \<Rightarrow> bool" where
  "inside_screen w i \<longleftrightarrow> 0 \<le> wi_x i \<and> 0 \<le> wi_y i \<and> wi_x i + wi_width i \<le> md_width w \<and> wi_y i + wi_height i \<le> md_height w"

fun target_inside :: "mock_desktop \<Rightarrow> os_action \<Rightarrow> bool" where
  "target_inside w (AMove rq (Some i)) = inside_screen w i"
| "target_inside w (AClick rq (Some i) approved) = inside_screen w i"
| "target_inside w a = True"

fun may_click :: "os_security \<Rightarrow> os_action \<Rightarrow> bool" where
  "may_click sec (AClick rq win approved) = (\<not> mc_destructive rq \<or> \<not> ox_require_approval sec \<or> approved)"
| "may_click sec a = False"

definition on_screen :: "mock_desktop \<Rightarrow> int \<times> int \<Rightarrow> bool" where
  "on_screen w p = in_rect 0 0 (md_width w) (md_height w) p"

definition typed_ok :: "os_security \<Rightarrow> os_action list \<Rightarrow> string \<Rightarrow> bool" where
  "typed_ok sec acts t \<longleftrightarrow> length t \<le> ox_max_type sec \<and> (is_sensitive_text t \<longrightarrow> (\<exists>s. AType t s True \<in> set acts))"

definition hotkey_ok :: "string list \<Rightarrow> bool" where
  "hotkey_ok ks \<longleftrightarrow> 2 \<le> length ks \<and> length ks \<le> 4 \<and> set ks \<subseteq> set SUPPORTED_KEYS"

definition input_inv :: "os_security \<Rightarrow> os_action list \<Rightarrow> mock_desktop \<Rightarrow> mock_desktop \<Rightarrow> bool" where
  "input_inv sec acts w0 w \<longleftrightarrow> md_width w = md_width w0 \<and> md_height w = md_height w0 \<and> on_screen w0 (md_cursor w) \<and>
     list_all (\<lambda>(b, n, x, y). on_screen w0 (x, y)) (md_clicks w) \<and> list_all (typed_ok sec acts) (md_typed w) \<and>
     set (md_keys w) \<subseteq> set SUPPORTED_KEYS \<and> list_all hotkey_ok (md_hotkeys w) \<and>
     length (md_clipboard w) \<le> ox_max_clipboard sec"

lemma mock_coordinates:
  assumes "validate_coordinates x y (mock_screen w) sp win mon = Inr p"
    and "\<And>i. win = Some i \<Longrightarrow> inside_screen w i"
  shows "on_screen w p"
  using validate_coordinates_ok [OF assms(1)] assms(2)
  by (cases sp) (fastforce simp: on_screen_def in_rect_def mock_screen_def inside_screen_def)+

lemma inside_screen_cong: "md_width w = md_width w0 \<Longrightarrow> md_height w = md_height w0 \<Longrightarrow> inside_screen w = inside_screen w0"
  "md_width w = md_width w0 \<Longrightarrow> md_height w = md_height w0 \<Longrightarrow> on_screen w = on_screen w0"
  by (auto simp: fun_eq_iff inside_screen_def on_screen_def)

lemmas mock_sel = mock_provider_def os_provider.simps

lemma input_step:
  assumes "input_inv sec acts w0 w" and "a \<in> set acts" and "target_inside w0 a"
  shows "input_inv sec acts w0 (os_do sec mock_provider a w)"
proof -
  have sz: "md_width w = md_width w0" "md_height w = md_height w0" using assms(1) by (auto simp: input_inv_def)
  note same = inside_screen_cong [OF sz]
  have pt: "on_screen w0 q" if "validate_coordinates x y (mock_screen w) sp win mon = Inr q"
    "\<And>i. win = Some i \<Longrightarrow> inside_screen w0 i" for x y sp win mon q
    using mock_coordinates [OF that(1)] that(2) by (simp add: same)
  show ?thesis
  proof (cases a)
    case (AMove rq win)
    then have "win = Some i \<Longrightarrow> inside_screen w0 i" for i using assms(3) by simp
    then show ?thesis using assms(1) AMove pt
      by (auto simp: mouse_move_def mock_sel input_inv_def split: sum.splits)
  next
    case (AClick rq win approved)
    then have "win = Some i \<Longrightarrow> inside_screen w0 i" for i using assms(3) by simp
    then show ?thesis using assms(1) AClick pt
      by (auto simp: mouse_click_def mock_sel input_inv_def split: sum.splits option.splits)
  next
    case (AScroll n pos)
    then show ?thesis using assms(1) pt [of _ _ SpScreen None]
      by (auto simp: mouse_scroll_def mock_sel input_inv_def split: sum.splits option.splits)
  next
    case (AType t s approved)
    then show ?thesis using assms(1,2)
      by (auto simp: type_text_def validate_text_for_typing_def mock_sel input_inv_def typed_ok_def split: if_splits)
  next
    case (AKey k)
    then show ?thesis using assms(1) validate_key_supported
      by (auto simp: press_key_def mock_sel input_inv_def split: sum.splits)
  next
    case (AHotkey ks)
    then show ?thesis using assms(1) validate_hotkey_ok
      by (auto simp: send_hotkey_def mock_sel input_inv_def hotkey_ok_def split: sum.splits)
  next
    case (AWrite t)
    then show ?thesis using assms(1) by (auto simp: clipboard_write_def mock_sel input_inv_def)
  qed
qed

lemma input_run:
  assumes "set as \<subseteq> set acts" and "list_all (target_inside w0) as" and "input_inv sec acts w0 w"
  shows "input_inv sec acts w0 (fold (os_do sec mock_provider) as w)"
  using assms by (induction as arbitrary: w) (auto intro: input_step)

lemma click_count_step:
  "length (md_clicks (os_do sec mock_provider a w)) \<le> length (md_clicks w) + (if may_click sec a then 1 else 0)"
  by (cases a) (auto simp: mouse_move_def mouse_click_def mouse_scroll_def type_text_def press_key_def send_hotkey_def
      clipboard_write_def mock_sel split: sum.splits option.splits)

lemma click_count:
  "length (md_clicks (fold (os_do sec mock_provider) as w)) \<le> length (md_clicks w) + length (filter (may_click sec) as)"
proof (induction as arbitrary: w)
  case (Cons a as)
  show ?case using Cons.IH [of "os_do sec mock_provider a w"] click_count_step [of sec a w] by auto
qed simp


definition demo_os :: os_security where
  "demo_os = \<lparr>ox_max_type = 500, ox_max_clipboard = 50, ox_max_screen = 1000, ox_require_approval = True, ox_temp = [''t'']\<rparr>"

definition demo_click :: "int option \<Rightarrow> bool \<Rightarrow> mouse_click_request" where
  "demo_click y d = \<lparr>mc_x = Some 5, mc_y = y, mc_button = BLeft, mc_clicks = 1, mc_space = SpScreen, mc_window = None, mc_destructive = d\<rparr>"

definition demo_actions :: "os_action list" where
  "demo_actions = [AClick (demo_click (Some 7) False) None False, AClick (demo_click (Some 7) True) None False, AType ''hi'' False False]"


text \<open>
  The verifier confirms what was done. On a consistent mock desktop, after a mouse move or a click the
  position is verified, after a clipboard write that succeeded its content, and after focusing a window that
  exists its focus.
\<close>

theorem actions_verified:
  assumes "windows_ok w"
  shows "(case mouse_move mock_provider rq win w of (w', Inr (x, y)) \<Rightarrow> vn_verified (verify_mouse_position mock_provider x y w') | _ \<Rightarrow> True) \<and>
    (case mouse_click sec mock_provider crq win approved w of
       (w', Inr (x, y)) \<Rightarrow> vn_verified (verify_mouse_position mock_provider x y w') | _ \<Rightarrow> True) \<and>
    (case clipboard_write sec mock_provider t w of
       (w', Inr (n, True)) \<Rightarrow> vn_verified (verify_clipboard_write mock_provider t w') | _ \<Rightarrow> True) \<and>
    (case mock_set_foreground h w of
       (w', True) \<Rightarrow> vn_verified (verify_window_focus mock_provider h w')
     | (w', False) \<Rightarrow> map_of (md_windows w) h = None \<and> w' = w)"
proof -
  have "mock_set_foreground h w = (w', False) \<Longrightarrow> map_of (md_windows w) h = None \<and> w' = w" for w'
    by (auto simp: mock_set_foreground_def Let_def split: option.splits)
  moreover have "op_set_foreground mock_provider = mock_set_foreground" by (simp add: mock_provider_def)
  ultimately show ?thesis
    using mock.move_verified mock.click_verified mock.write_verified mock.focus_verified [OF assms]
    by (auto split: prod.splits sum.splits bool.splits)
qed

theorem actions_verified_witness:
  "vn_verified (verify_window_focus mock_provider 1001 (fst (mock_set_foreground 1001 mock_init)))"
proof -
  have "windows_ok mock_init" by (simp add: windows_ok_def mock_init_def mock_window_def)
  have "case mock_set_foreground 1001 mock_init of
       (w', True) \<Rightarrow> vn_verified (verify_window_focus mock_provider 1001 w')
     | (w', False) \<Rightarrow> map_of (md_windows mock_init) 1001 = None \<and> w' = mock_init"
    by (rule conjunct2 [OF conjunct2 [OF conjunct2 [OF actions_verified [OF \<open>windows_ok mock_init\<close>]]]])
  then show ?thesis by (auto simp: mock_init_def split: prod.splits bool.splits)
qed

text \<open>A click for which only one coordinate is given happens where the cursor is.\<close>

lemma half_position_ignored:
  "md_clicks (fst (mouse_click demo_os mock_provider (demo_click None False) None False mock_init)) = [(BLeft, 1, 100, 100)]"
  by code_simp

text \<open>A point inside a window may lie outside the desktop.\<close>

lemma window_point_off_screen:
  "validate_coordinates 0 0 (mock_screen mock_init) SpWindow
     (Some (mock_window 1 ''w'' ''p'' 1 (- 300) 0 400 300 True)) None = Inr (- 300, 0)"
  by code_simp

text \<open>A window is found exactly if it alone matches.\<close>

lemma find_window_unique: "find_window p q w = Inr x \<longleftrightarrow> filter (window_matches q) (op_windows p w) = [x]"
  by (auto simp: find_window_def split: list.splits)

end
