(* ===== verification/Os_Tools.thy ===== *)
theory Os_Tools
  imports Os_Control Tool_Model
begin

text \<open>
  The tools through which agents reach the desktop, \<open>os/tools/\<close>: thin functions that build a request,
  call a manager of \<open>Os_Control\<close>, verify, publish an event and return a dictionary; and the application and
  file tools, which act on the operating system directly. Timestamps are left out; the field checks of the
  request models (ranges, lengths) are kept. Starting a process, searching the path and the file system are
  parameters.
\<close>

section \<open>Common parts\<close>

record 'w os_manager =
  om_sec :: os_security
  om_provider :: "'w os_provider"
  om_bus :: bool
  om_fs :: file_system
  om_symlink :: "string list \<Rightarrow> bool"
  om_capture :: "capture_request \<Rightarrow> 'w \<Rightarrow> string"
  om_stamp :: "'w \<Rightarrow> string"

record 'w os_state =
  ot_world :: 'w
  ot_files :: "string list list"
  ot_events :: "(string \<times> string option \<times> pyval dict) list"

datatype os_tool_error =
    TEOs os_error
  | TEValue string
  | TEValidation string

text \<open>\<open>emit_event\<close>; a failure of the bus is swallowed.\<close>

definition os_emit :: "'w os_manager \<Rightarrow> string \<Rightarrow> tool_context option \<Rightarrow> pyval dict \<Rightarrow> 'w os_state \<Rightarrow> 'w os_state" where
  "os_emit m ty ctx payload st =
     (if om_bus m
      then st\<lparr>ot_events := ot_events st @
               [(ty, (case ctx of None \<Rightarrow> Some ''default_corr'' | Some c \<Rightarrow> tc_correlation_id c), scrub_os_payload payload)]\<rparr>
      else st)"

definition os_call ::
  "('w \<Rightarrow> 'w \<times> (os_error + 'a)) \<Rightarrow> ('a \<Rightarrow> 'w os_state \<Rightarrow> 'w os_state \<times> pyval) \<Rightarrow> 'w os_state
     \<Rightarrow> 'w os_state \<times> (os_tool_error + pyval)" where
  "os_call f k st =
     (case f (ot_world st) of
        (w, Inl e) \<Rightarrow> (st\<lparr>ot_world := w\<rparr>, Inl (TEOs e))
      | (w, Inr a) \<Rightarrow> map_prod id Inr (k a (st\<lparr>ot_world := w\<rparr>)))"

text \<open>
  The approval of the user as the tools read it: the attribute \<open>user_approved\<close> of the context when it is
  there. The class of contexts declares no such field and its instances take no others, so no context has it.
\<close>

definition user_approved :: "tool_context \<Rightarrow> bool option" where
  "user_approved c = None"

definition is_approved :: "tool_context option \<Rightarrow> bool" where
  "is_approved ctx =
     (case ctx of
        None \<Rightarrow> True
      | Some c \<Rightarrow> (case user_approved c of Some b \<Rightarrow> b | None \<Rightarrow> True))"

definition parse_space :: "string \<Rightarrow> string + coordinate_space" where
  "parse_space s =
     (let u = upper s
      in if u = ''SCREEN'' then Inr SpScreen else if u = ''MONITOR'' then Inr SpMonitor
         else if u = ''WINDOW'' then Inr SpWindow else Inl (quoted u @ '' is not a valid CoordinateSpace''))"

definition parse_button :: "string \<Rightarrow> string + mouse_button" where
  "parse_button s =
     (let u = upper s
      in if u = ''LEFT'' then Inr BLeft else if u = ''RIGHT'' then Inr BRight
         else if u = ''MIDDLE'' then Inr BMiddle else Inl (quoted u @ '' is not a valid MouseButton''))"

fun button_value :: "mouse_button \<Rightarrow> string" where
  "button_value BLeft = ''LEFT''"
| "button_value BRight = ''RIGHT''"
| "button_value BMiddle = ''MIDDLE''"

section \<open>Mouse tools\<close>

definition mouse_move_tool ::
  "'w os_manager \<Rightarrow> int \<Rightarrow> int \<Rightarrow> string \<Rightarrow> int option \<Rightarrow> int option \<Rightarrow> tool_context option \<Rightarrow> 'w os_state
     \<Rightarrow> 'w os_state \<times> (os_tool_error + pyval)" where
  "mouse_move_tool m x y space window monitor ctx st =
     (case parse_space space of
        Inl e \<Rightarrow> (st, Inl (TEValue e))
      | Inr sp \<Rightarrow>
          let p = om_provider m;
              win = (case window of
                  Some h \<Rightarrow> if sp = SpWindow then find (\<lambda>i. wi_handle i = h) (op_windows p (ot_world st)) else None
                | None \<Rightarrow> None);
              rq = \<lparr>mv_x = x, mv_y = y, mv_space = sp, mv_window = window, mv_monitor = monitor\<rparr>
          in os_call (mouse_move p rq win)
               (\<lambda>(ax, ay) st1.
                  let v = verify_mouse_position p ax ay (ot_world st1)
                  in (os_emit m ''os.input.executed'' ctx
                        [(''action'', PStr ''mouse_move''), (''x'', PInt ax), (''y'', PInt ay), (''verified'', PBool (vn_verified v))] st1,
                      PDict [(''x'', PInt ax), (''y'', PInt ay), (''verified'', PBool (vn_verified v)),
                             (''observation'', PStr (vn_observation v))])) st)"

definition mouse_click_tool ::
  "'w os_manager \<Rightarrow> int option \<Rightarrow> int option \<Rightarrow> string \<Rightarrow> int \<Rightarrow> string \<Rightarrow> bool \<Rightarrow> tool_context option \<Rightarrow> 'w os_state
     \<Rightarrow> 'w os_state \<times> (os_tool_error + pyval)" where
  "mouse_click_tool m x y button clicks space destructive ctx st =
     (case parse_space space of
        Inl e \<Rightarrow> (st, Inl (TEValue e))
      | Inr sp \<Rightarrow>
          (case parse_button button of
             Inl e \<Rightarrow> (st, Inl (TEValue e))
           | Inr b \<Rightarrow>
               if clicks < 1 \<or> 3 < clicks then (st, Inl (TEValidation ''clicks''))
               else os_call
                      (mouse_click (om_sec m) (om_provider m)
                         \<lparr>mc_x = x, mc_y = y, mc_button = b, mc_clicks = clicks, mc_space = sp, mc_window = None,
                          mc_destructive = destructive\<rparr> None (is_approved ctx))
                      (\<lambda>(ax, ay) st1.
                         (os_emit m ''os.input.executed'' ctx
                            [(''action'', PStr ''mouse_click''), (''button'', PStr (button_value b)), (''clicks'', PInt clicks),
                             (''x'', PInt ax), (''y'', PInt ay)] st1,
                          PDict [(''clicked'', PBool True), (''button'', PStr (button_value b)), (''clicks'', PInt clicks),
                                 (''position'', PList [PInt ax, PInt ay])])) st))"

definition mouse_double_click_tool ::
  "'w os_manager \<Rightarrow> int option \<Rightarrow> int option \<Rightarrow> tool_context option \<Rightarrow> 'w os_state
     \<Rightarrow> 'w os_state \<times> (os_tool_error + pyval)" where
  "mouse_double_click_tool m x y ctx = mouse_click_tool m x y ''LEFT'' 2 ''SCREEN'' False ctx"

definition mouse_right_click_tool ::
  "'w os_manager \<Rightarrow> int option \<Rightarrow> int option \<Rightarrow> tool_context option \<Rightarrow> 'w os_state
     \<Rightarrow> 'w os_state \<times> (os_tool_error + pyval)" where
  "mouse_right_click_tool m x y ctx = mouse_click_tool m x y ''RIGHT'' 1 ''SCREEN'' False ctx"

definition mouse_scroll_tool ::
  "'w os_manager \<Rightarrow> int \<Rightarrow> int option \<Rightarrow> int option \<Rightarrow> tool_context option \<Rightarrow> 'w os_state
     \<Rightarrow> 'w os_state \<times> (os_tool_error + pyval)" where
  "mouse_scroll_tool m clicks x y ctx =
     os_call (mouse_scroll (om_provider m) clicks (case (x, y) of (Some a, Some b) \<Rightarrow> Some (a, b) | _ \<Rightarrow> None))
       (\<lambda>_ st1. (os_emit m ''os.input.executed'' ctx [(''action'', PStr ''mouse_scroll''), (''clicks'', PInt clicks)] st1,
                 PDict [(''scrolled'', PBool True), (''clicks'', PInt clicks)]))"

section \<open>Keyboard tools\<close>

definition keyboard_type_tool ::
  "'w os_manager \<Rightarrow> string \<Rightarrow> rat \<Rightarrow> bool \<Rightarrow> tool_context option \<Rightarrow> 'w os_state \<Rightarrow> 'w os_state \<times> (os_tool_error + pyval)" where
  "keyboard_type_tool m text delay sensitive ctx st =
     (if 1000 < length text then (st, Inl (TEValidation ''text''))
      else if delay < 0 \<or> 1000 < delay then (st, Inl (TEValidation ''delay_ms''))
      else os_call (type_text (om_sec m) (om_provider m) text sensitive (is_approved ctx))
             (\<lambda>n st1.
                (os_emit m ''os.input.executed'' ctx
                   [(''action'', PStr ''keyboard_type''), (''chars_typed'', PInt (int n)), (''is_sensitive'', PBool sensitive)] st1,
                 PDict [(''typed'', PBool True), (''chars_count'', PInt (int n))])) st)"

definition keyboard_press_tool ::
  "'w os_manager \<Rightarrow> string \<Rightarrow> rat \<Rightarrow> tool_context option \<Rightarrow> 'w os_state \<Rightarrow> 'w os_state \<times> (os_tool_error + pyval)" where
  "keyboard_press_tool m key duration ctx st =
     (if duration < 1 / 100 \<or> 5 < duration then (st, Inl (TEValidation ''duration_sec''))
      else os_call (press_key (om_provider m) key)
             (\<lambda>k st1. (os_emit m ''os.input.executed'' ctx [(''action'', PStr ''keyboard_press''), (''key'', PStr k)] st1,
                       PDict [(''pressed'', PBool True), (''key'', PStr k)])) st)"

definition keyboard_hotkey_tool ::
  "'w os_manager \<Rightarrow> string list \<Rightarrow> tool_context option \<Rightarrow> 'w os_state \<Rightarrow> 'w os_state \<times> (os_tool_error + pyval)" where
  "keyboard_hotkey_tool m keys ctx st =
     (if length keys < 2 \<or> 4 < length keys then (st, Inl (TEValidation ''keys''))
      else os_call (send_hotkey (om_provider m) keys)
             (\<lambda>ks st1. (os_emit m ''os.input.executed'' ctx
                          [(''action'', PStr ''keyboard_hotkey''), (''keys'', PList (map PStr ks))] st1,
                        PDict [(''executed'', PBool True), (''keys'', PList (map PStr ks))])) st)"

section \<open>Clipboard, window, screen and system tools\<close>

definition clipboard_read_tool ::
  "'w os_manager \<Rightarrow> int option \<Rightarrow> tool_context option \<Rightarrow> 'w os_state \<Rightarrow> 'w os_state \<times> (os_tool_error + pyval)" where
  "clipboard_read_tool m max_chars ctx st =
     (if (case max_chars of Some n \<Rightarrow> 200000 < n | None \<Rightarrow> False) then (st, Inl (TEValidation ''max_chars''))
      else let (text, n) = clipboard_read (om_sec m) (om_provider m) max_chars (ot_world st)
           in (os_emit m ''os.input.executed'' ctx [(''action'', PStr ''clipboard_read''), (''length'', PInt (int n))] st,
               Inr (PDict [(''text'', PStr text), (''length'', PInt (int n))])))"

definition clipboard_write_tool ::
  "'w os_manager \<Rightarrow> string \<Rightarrow> tool_context option \<Rightarrow> 'w os_state \<Rightarrow> 'w os_state \<times> (os_tool_error + pyval)" where
  "clipboard_write_tool m text ctx st =
     (if 100000 < length text then (st, Inl (TEValidation ''text''))
      else os_call (clipboard_write (om_sec m) (om_provider m) text)
             (\<lambda>(n, success) st1.
                let v = verify_clipboard_write (om_provider m) text (ot_world st1)
                in (os_emit m ''os.input.executed'' ctx
                      [(''action'', PStr ''clipboard_write''), (''length'', PInt (int n)), (''verified'', PBool (vn_verified v))] st1,
                    PDict [(''success'', PBool success), (''length'', PInt (int n)), (''verified'', PBool (vn_verified v))])) st)"

definition clipboard_clear_tool ::
  "'w os_manager \<Rightarrow> 'w os_state \<Rightarrow> 'w os_state \<times> (os_tool_error + pyval)" where
  "clipboard_clear_tool m st =
     (let (w, success) = clipboard_clear (om_provider m) (ot_world st)
      in (st\<lparr>ot_world := w\<rparr>, Inr (PDict [(''cleared'', PBool success)])))"

definition dump_window :: "window_info \<Rightarrow> pyval" where
  "dump_window i =
     PDict [(''handle_id'', PInt (wi_handle i)), (''title'', PStr (wi_title i)), (''process_name'', PStr (wi_process i)),
            (''process_id'', PInt (wi_pid i)), (''x'', PInt (wi_x i)), (''y'', PInt (wi_y i)), (''width'', PInt (wi_width i)),
            (''height'', PInt (wi_height i)), (''is_foreground'', PBool (wi_foreground i)),
            (''is_minimized'', PBool (wi_minimized i)), (''is_maximized'', PBool (wi_maximized i)),
            (''is_visible'', PBool (wi_visible i))]"

definition window_list_tool :: "'w os_manager \<Rightarrow> 'w os_state \<Rightarrow> pyval" where
  "window_list_tool m st = PList (map dump_window (op_windows (om_provider m) (ot_world st)))"

definition window_focus_tool ::
  "'w os_manager \<Rightarrow> int option \<Rightarrow> string option \<Rightarrow> string option \<Rightarrow> tool_context option \<Rightarrow> 'w os_state
     \<Rightarrow> 'w os_state \<times> (os_tool_error + pyval)" where
  "window_focus_tool m handle title process ctx st =
     (let p = om_provider m;
          target = (case handle of
              Some h \<Rightarrow> Inr h
            | None \<Rightarrow> (case find_window p \<lparr>wq_title_pattern = title, wq_process = process, wq_exact = False\<rparr> (ot_world st) of
                  Inl e \<Rightarrow> Inl e
                | Inr i \<Rightarrow> Inr (wi_handle i)))
      in case target of
           Inl e \<Rightarrow> (st, Inl (TEOs e))
         | Inr h \<Rightarrow>
             let (w, success) = op_set_foreground p h (ot_world st);
                 v = verify_window_focus p h w
             in (os_emit m ''os.window.changed'' ctx
                   [(''action'', PStr ''focus''), (''handle_id'', PInt h), (''verified'', PBool (vn_verified v))] (st\<lparr>ot_world := w\<rparr>),
                 Inr (PDict [(''focused'', PBool success), (''handle_id'', PInt h), (''verified'', PBool (vn_verified v)),
                             (''observation'', PStr (vn_observation v))])))"

definition set_state_tool ::
  "string \<Rightarrow> window_action \<Rightarrow> 'w os_manager \<Rightarrow> int \<Rightarrow> 'w os_state \<Rightarrow> 'w os_state \<times> pyval" where
  "set_state_tool key a m h st =
     (let (w, success) = op_set_state (om_provider m) h a (ot_world st)
      in (st\<lparr>ot_world := w\<rparr>, PDict [(key, PBool success), (''handle_id'', PInt h)]))"

definition window_minimize_tool :: "'w os_manager \<Rightarrow> int \<Rightarrow> 'w os_state \<Rightarrow> 'w os_state \<times> pyval" where
  "window_minimize_tool = set_state_tool ''minimized'' WMinimize"

definition window_maximize_tool :: "'w os_manager \<Rightarrow> int \<Rightarrow> 'w os_state \<Rightarrow> 'w os_state \<times> pyval" where
  "window_maximize_tool = set_state_tool ''maximized'' WMaximize"

definition window_restore_tool :: "'w os_manager \<Rightarrow> int \<Rightarrow> 'w os_state \<Rightarrow> 'w os_state \<times> pyval" where
  "window_restore_tool = set_state_tool ''restored'' WRestore"

definition window_close_tool :: "'w os_manager \<Rightarrow> int \<Rightarrow> 'w os_state \<Rightarrow> 'w os_state \<times> pyval" where
  "window_close_tool = set_state_tool ''closed'' WClose"

definition screen_capture_tool ::
  "(string \<Rightarrow> string) \<Rightarrow> 'w os_manager \<Rightarrow> int option \<Rightarrow> int option \<times> int option \<times> int option \<times> int option \<Rightarrow> string
     \<Rightarrow> int option \<Rightarrow> int option \<Rightarrow> tool_context option \<Rightarrow> 'w os_state \<Rightarrow> 'w os_state \<times> (os_tool_error + pyval)" where
  "screen_capture_tool b64 m monitor box format max_w max_h ctx st =
     (let region = (case box of (Some x, Some y, Some a, Some b) \<Rightarrow> Some (x, y, a, b) | _ \<Rightarrow> None);
          rq = \<lparr>cq_monitor = monitor, cq_region = region, cq_format = format, cq_max_width = max_w, cq_max_height = max_h,
                cq_base64 = False\<rparr>;
          w = ot_world st;
          (file, r) = screen_capture (om_sec m) (om_provider m) (om_fs m) (om_symlink m) b64 (om_capture m rq w) (om_stamp m w) rq w;
          st1 = (case file of None \<Rightarrow> st | Some f \<Rightarrow> st\<lparr>ot_files := ot_files st @ [f]\<rparr>)
      in case r of
           Inl e \<Rightarrow> (st1, Inl (TEOs e))
         | Inr c \<Rightarrow>
             (os_emit m ''os.screen.captured'' ctx
                [(''width'', PInt (cr_width c)), (''height'', PInt (cr_height c)), (''size_bytes'', PInt (int (cr_size c)))] st1,
              Inr (PDict [(''image_path'', PStr (path_text (cr_path c))), (''width'', PInt (cr_width c)),
                          (''height'', PInt (cr_height c)), (''format'', PStr (cr_format c)),
                          (''size_bytes'', PInt (int (cr_size c)))])))"

definition dump_monitor :: "monitor_info \<Rightarrow> pyval" where
  "dump_monitor i =
     PDict [(''id'', PInt (mo_id i)), (''name'', PStr (mo_name i)), (''x'', PInt (mo_x i)), (''y'', PInt (mo_y i)),
            (''width'', PInt (mo_width i)), (''height'', PInt (mo_height i)), (''is_primary'', PBool (mo_primary i)),
            (''scaling'', PFloat (mo_scaling i))]"

definition screen_monitors_tool :: "'w os_manager \<Rightarrow> 'w os_state \<Rightarrow> pyval" where
  "screen_monitors_tool m st = PList (map dump_monitor (si_monitors (op_screen (om_provider m) (ot_world st))))"

definition screen_info_tool :: "'w os_manager \<Rightarrow> 'w os_state \<Rightarrow> pyval" where
  "screen_info_tool m st =
     (let i = op_screen (om_provider m) (ot_world st)
      in PDict [(''virtual_x'', PInt (si_x i)), (''virtual_y'', PInt (si_y i)), (''virtual_width'', PInt (si_width i)),
                (''virtual_height'', PInt (si_height i)), (''monitors'', PList (map dump_monitor (si_monitors i))),
                (''primary_monitor_id'', PInt (si_primary_id i))])"

definition system_info_tool :: "'w os_manager \<Rightarrow> 'w os_state \<Rightarrow> pyval" where
  "system_info_tool m st =
     (let i = op_system (om_provider m) (ot_world st)
      in PDict [(''os_name'', PStr (sy_os_name i)), (''os_version'', PStr (sy_os_version i)),
                (''architecture'', PStr (sy_architecture i)), (''hostname'', PStr (sy_hostname i)),
                (''cpu_count'', PInt (sy_cpu_count i)), (''memory_total_bytes'', PInt (sy_memory_total i)),
                (''memory_available_bytes'', PInt (sy_memory_available i)),
                (''foreground_window_title'', (case sy_foreground_title i of None \<Rightarrow> PNone | Some t \<Rightarrow> PStr t))])"

text \<open>The tools that \<open>register_os_tools\<close> registers, by id.\<close>

definition ALL_OS_TOOLS :: "string list" where
  "ALL_OS_TOOLS =
     [''os.screen.capture'', ''os.screen.monitors'', ''os.screen.info'', ''os.mouse.move'', ''os.mouse.click'',
      ''os.mouse.double_click'', ''os.mouse.right_click'', ''os.mouse.scroll'', ''os.keyboard.type'', ''os.keyboard.press'',
      ''os.keyboard.hotkey'', ''os.window.list'', ''os.window.focus'', ''os.window.minimize'', ''os.window.maximize'',
      ''os.window.restore'', ''os.clipboard.read'', ''os.clipboard.write'', ''os.clipboard.clear'', ''os.system.info'']"

section \<open>Properties\<close>

lemma always_approved [simp]: "is_approved ctx"
  by (simp add: is_approved_def user_approved_def split: option.splits)

text \<open>
  The approval guard of the desktop never fires behind a tool. With whatever context, the typing tool
  types every text within the limits, also one marked sensitive or that looks like a secret, and the click
  tool clicks wherever the guard accepts the coordinates, also when the click is marked destructive; no
  tool call ends with a policy violation.
\<close>

theorem tools_never_ask:
  "(keyboard_type_tool m text delay sensitive ctx st =
      (if 1000 < length text then (st, Inl (TEValidation ''text''))
       else if delay < 0 \<or> 1000 < delay then (st, Inl (TEValidation ''delay_ms''))
       else if ox_max_type (om_sec m) < length text
       then (st, Inl (TEOs (OSSecurityError (the (validate_text_for_typing (ox_max_type (om_sec m)) text)))))
       else (os_emit m ''os.input.executed'' ctx
               [(''action'', PStr ''keyboard_type''), (''chars_typed'', PInt (int (length text))), (''is_sensitive'', PBool sensitive)]
               (st\<lparr>ot_world := op_type (om_provider m) text (ot_world st)\<rparr>),
             Inr (PDict [(''typed'', PBool True), (''chars_count'', PInt (int (length text)))])))) \<and>
   snd (mouse_click_tool m x y b n sp destructive ctx st) \<noteq> Inl (TEOs (OSPolicyViolation e)) \<and>
   mouse_click_tool m x y b n sp True ctx st = mouse_click_tool m x y b n sp False ctx st"
proof (intro conjI)
  show "keyboard_type_tool m text delay sensitive ctx st =
      (if 1000 < length text then (st, Inl (TEValidation ''text''))
       else if delay < 0 \<or> 1000 < delay then (st, Inl (TEValidation ''delay_ms''))
       else if ox_max_type (om_sec m) < length text
       then (st, Inl (TEOs (OSSecurityError (the (validate_text_for_typing (ox_max_type (om_sec m)) text)))))
       else (os_emit m ''os.input.executed'' ctx
               [(''action'', PStr ''keyboard_type''), (''chars_typed'', PInt (int (length text))), (''is_sensitive'', PBool sensitive)]
               (st\<lparr>ot_world := op_type (om_provider m) text (ot_world st)\<rparr>),
             Inr (PDict [(''typed'', PBool True), (''chars_count'', PInt (int (length text)))])))"
    by (simp add: keyboard_type_tool_def os_call_def type_text_def validate_text_for_typing_def)
  show "snd (mouse_click_tool m x y b n sp destructive ctx st) \<noteq> Inl (TEOs (OSPolicyViolation e))"
    by (auto simp: mouse_click_tool_def os_call_def mouse_click_def split: sum.splits option.splits prod.splits)
  show "mouse_click_tool m x y b n sp True ctx st = mouse_click_tool m x y b n sp False ctx st"
    by (simp add: mouse_click_tool_def os_call_def mouse_click_def split: sum.splits option.splits)
qed

text \<open>A click in window coordinates is always refused: the tool has no window to give.\<close>

lemma window_click_refused:
  "mouse_click_tool m (Some x) (Some y) ''LEFT'' 1 ''window'' d ctx st =
     (st, Inl (TEOs (OSSecurityError ''Target window must be provided for WINDOW coordinate space'')))"
proof -
  have "parse_space ''window'' = Inr SpWindow" "parse_button ''LEFT'' = Inr BLeft" by code_simp+
  then show ?thesis by (simp add: mouse_click_tool_def os_call_def mouse_click_def validate_coordinates_def)
qed

end
