(* ===== verification/Os_Apps.thy ===== *)
theory Os_Apps
  imports Os_Tools
begin

text \<open>
  Application tools (\<open>os/tools/app_tools.py\<close>) and file tools (\<open>os/tools/file_tools.py\<close>). The platform is a
  record of what these tools ask of it: the search path, starting a process or opening a document (with the
  text of the exception when it fails), and the directories of the user. What was started, opened or
  written is recorded.
\<close>

section \<open>Applications\<close>

record app_config =
  ap_names :: "string list"
  ap_executable :: "string option"
  ap_fallback :: "string option"
  ap_protocol :: "string option"
  ap_display :: string

definition app :: "string list \<Rightarrow> string \<Rightarrow> string \<Rightarrow> app_config" where
  "app names exe display =
     \<lparr>ap_names = names, ap_executable = Some exe, ap_fallback = None, ap_protocol = None, ap_display = display\<rparr>"

definition ALLOWED_APPLICATIONS :: "app_config dict" where
  "ALLOWED_APPLICATIONS =
     [(''chrome'', app [''chrome'', ''google chrome'', ''browser''] ''chrome.exe'' ''Google Chrome''),
      (''edge'', app [''edge'', ''msedge'', ''microsoft edge''] ''msedge.exe'' ''Microsoft Edge''),
      (''code'', (app [''code'', ''vscode'', ''visual studio code'', ''vs code''] ''code.cmd'' ''Visual Studio Code'')
                   \<lparr>ap_fallback := Some ''Code.exe''\<rparr>),
      (''calculator'', app [''calculator'', ''calc''] ''calc.exe'' ''Calculator''),
      (''notepad'', app [''notepad'', ''text editor''] ''notepad.exe'' ''Notepad''),
      (''explorer'', app [''explorer'', ''file explorer'', ''files''] ''explorer.exe'' ''File Explorer''),
      (''settings'', \<lparr>ap_names = [''settings'', ''windows settings''], ap_executable = None, ap_fallback = None,
                      ap_protocol = Some ''ms-settings:'', ap_display = ''Windows Settings''\<rparr>),
      (''paint'', app [''paint'', ''mspaint''] ''mspaint.exe'' ''Paint''),
      (''taskmgr'', app [''task manager'', ''taskmgr''] ''taskmgr.exe'' ''Task Manager''),
      (''terminal'', app [''terminal'', ''powershell'', ''windows terminal'', ''wt''] ''powershell.exe'' ''PowerShell'')]"

definition resolve_app :: "string \<Rightarrow> app_config option" where
  "resolve_app name =
     (let n = lower (strip name)
      in map_option snd (find (\<lambda>(i, c). n = i \<or> n \<in> set (ap_names c)) ALLOWED_APPLICATIONS))"

record platform =
  pf_windows :: bool
  pf_which :: "string \<Rightarrow> string option"
  pf_local_code :: "string option"
  pf_popen :: "string list \<Rightarrow> string + int"
  pf_startfile :: "string \<Rightarrow> string option"
  pf_home :: "string list"
  pf_cwd :: "string list"
  pf_exists :: "string list \<Rightarrow> bool"
  pf_is_dir :: "string list \<Rightarrow> bool"
  pf_listdir :: "string list \<Rightarrow> string + (string \<times> bool \<times> int) list"
  pf_write :: "string list \<Rightarrow> string \<Rightarrow> string option"

datatype started = SProcess "string list" | SOpen string

definition app_failed :: "string \<Rightarrow> string \<Rightarrow> string \<Rightarrow> pyval" where
  "app_failed display exc msg =
     PDict [(''launched'', PBool False), (''app'', PStr display), (''error'', PStr exc), (''message'', PStr msg)]"

definition find_executable :: "platform \<Rightarrow> app_config \<Rightarrow> string" where
  "find_executable pf c =
     (let target = (case ap_executable c of None \<Rightarrow> [] | Some e \<Rightarrow> e);
          full = pf_which pf target;
          full = (case (full, ap_fallback c) of
              (None, Some fb) \<Rightarrow> (case pf_which pf fb of None \<Rightarrow> pf_local_code pf | Some x \<Rightarrow> Some x)
            | _ \<Rightarrow> full)
      in case full of None \<Rightarrow> target | Some x \<Rightarrow> x)"

definition launch_args :: "string option \<Rightarrow> string list" where
  "launch_args arguments = (case arguments of Some a \<Rightarrow> if a = [] then [] else [a] | None \<Rightarrow> [])"

text \<open>\<open>app_launch\<close>: what was started (successfully) and the answer.\<close>

definition app_launch :: "platform \<Rightarrow> string \<Rightarrow> string option \<Rightarrow> started list \<times> pyval" where
  "app_launch pf app_name arguments =
     (case resolve_app app_name of
        None \<Rightarrow>
          ([], PDict [(''launched'', PBool False),
                 (''error'', PStr (''Application '' @ quoted app_name @ '' is not in the approved allowlist. Allowed: ''
                     @ join '', '' (map (ap_display \<circ> snd) ALLOWED_APPLICATIONS))),
                 (''message'', PStr (''Security policy blocked launch: '' @ quoted app_name
                     @ '' is not in the approved application allowlist.''))])
      | Some c \<Rightarrow>
          (case ap_protocol c of
             Some proto \<Rightarrow>
               (case (if pf_windows pf then pf_startfile pf proto else None) of
                  None \<Rightarrow>
                    (if pf_windows pf then [SOpen proto] else [],
                     PDict [(''launched'', PBool True), (''app'', PStr (ap_display c)), (''protocol'', PStr proto),
                            (''message'', PStr (''Launched '' @ ap_display c @ '' successfully.''))])
                | Some exc \<Rightarrow> ([], app_failed (ap_display c) exc (''Failed to open '' @ ap_display c @ '': '' @ exc)))
           | None \<Rightarrow>
               let target = (case ap_executable c of None \<Rightarrow> [] | Some e \<Rightarrow> e);
                   cmd = find_executable pf c # launch_args arguments;
                   launched = (\<lambda>pid. PDict [(''launched'', PBool True), (''app'', PStr (ap_display c)), (''pid'', PInt pid),
                                (''message'', PStr (''Launched '' @ ap_display c @ '' successfully.''))])
               in if \<not> pf_windows pf then ([], launched 99999)
                  else case pf_popen pf cmd of
                         Inr pid \<Rightarrow> ([SProcess cmd], launched pid)
                       | Inl exc \<Rightarrow>
                           (case pf_startfile pf target of
                              None \<Rightarrow> ([SOpen target],
                                PDict [(''launched'', PBool True), (''app'', PStr (ap_display c)),
                                       (''message'', PStr (''Launched '' @ ap_display c @ '' successfully via system shell.''))])
                            | Some _ \<Rightarrow> ([], app_failed (ap_display c) exc (''Failed to launch '' @ ap_display c @ '': '' @ exc)))))"

text \<open>\<open>app_focus\<close> and \<open>app_close\<close>; every exception becomes an answer.\<close>

definition app_window ::
  "string \<Rightarrow> string \<Rightarrow> string \<Rightarrow> string \<Rightarrow> (int \<Rightarrow> 'w \<Rightarrow> 'w \<times> bool) \<Rightarrow> 'w os_provider \<Rightarrow> string \<Rightarrow> 'w \<Rightarrow> 'w \<times> pyval" where
  "app_window key pre post miss act p app_name w =
     (case find_window p \<lparr>wq_title_pattern = Some app_name, wq_process = Some app_name, wq_exact = False\<rparr> w of
        Inl e \<Rightarrow> (w, PDict [(key, PBool False), (''error'', PStr (os_error_text e)),
                          (''message'', PStr (miss @ quoted app_name @ ''.''))])
      | Inr i \<Rightarrow>
          let (w1, success) = act (wi_handle i) w
          in (w1, PDict [(key, PBool success), (''handle_id'', PInt (wi_handle i)), (''title'', PStr (wi_title i)),
                         (''message'', PStr (pre @ quoted (wi_title i) @ post))]))"

definition app_focus :: "'w os_provider \<Rightarrow> string \<Rightarrow> 'w \<Rightarrow> 'w \<times> pyval" where
  "app_focus p = app_window ''focused'' ''Brought '' '' to the foreground.'' ''Could not find an active window for ''
     (op_set_foreground p) p"

definition app_close :: "'w os_provider \<Rightarrow> string \<Rightarrow> 'w \<Rightarrow> 'w \<times> pyval" where
  "app_close p = app_window ''closed'' ''Closed window '' ''.'' ''Could not find an active window to close for ''
     (\<lambda>h. op_set_state p h WClose) p"

section \<open>Directories and files\<close>

definition KNOWN_DIRECTORIES :: "(string list \<Rightarrow> string list) dict" where
  "KNOWN_DIRECTORIES =
     [(''downloads'', \<lambda>h. h @ [''Downloads'']), (''documents'', \<lambda>h. h @ [''Documents'']), (''desktop'', \<lambda>h. h @ [''Desktop'']),
      (''pictures'', \<lambda>h. h @ [''Pictures'']), (''music'', \<lambda>h. h @ [''Music'']), (''videos'', \<lambda>h. h @ [''Videos'']),
      (''home'', \<lambda>h. h)]"

definition workspace_dir :: "platform \<Rightarrow> string list" where
  "workspace_dir pf = pf_cwd pf @ [''data'', ''workspace'']"

definition join_path :: "string list \<Rightarrow> string \<Rightarrow> string list" where
  "join_path base s = (let p = parse_path s in if pp_absolute p then pp_parts p else base @ pp_parts p)"

text \<open>The directory a name stands for; making the workspace is taken to succeed.\<close>

definition open_target :: "platform \<Rightarrow> string \<Rightarrow> string list option" where
  "open_target pf directory_name =
     (let n = lower (strip directory_name)
      in case dict_get KNOWN_DIRECTORIES n of
           Some f \<Rightarrow> if pf_exists pf (f (pf_home pf)) then Some (f (pf_home pf)) else None
         | None \<Rightarrow>
             if n = ''workspace'' \<or> n = ''project'' then Some (workspace_dir pf)
             else let candidate = join_path (pf_home pf) (strip directory_name)
                  in if pf_exists pf candidate \<and> pf_is_dir pf candidate then Some candidate else None)"

definition file_open_directory :: "platform \<Rightarrow> string \<Rightarrow> started list \<times> pyval" where
  "file_open_directory pf directory_name =
     (let supported = join '', '' (map fst KNOWN_DIRECTORIES @ [''workspace''])
      in case open_target pf directory_name of
           None \<Rightarrow>
             ([], PDict [(''opened'', PBool False),
                (''error'', PStr (''Directory '' @ quoted directory_name @ '' could not be resolved or does not exist. Supported: ''
                    @ supported)),
                (''message'', PStr (''Could not find folder '' @ quoted directory_name @ ''. Supported folders: '' @ supported @ ''.''))])
         | Some d \<Rightarrow>
             let opened = PDict [(''opened'', PBool True), (''directory'', PStr (path_text d)),
                            (''message'', PStr (''Opened '' @ quoted (path_name d) @ '' in File Explorer.''))]
             in if \<not> pf_windows pf then ([], opened)
                else case pf_startfile pf (path_text d) of
                       None \<Rightarrow> ([SOpen (path_text d)], opened)
                     | Some exc \<Rightarrow>
                         (case pf_popen pf [''explorer.exe'', path_text d] of
                            Inr pid \<Rightarrow> ([SProcess [''explorer.exe'', path_text d]], opened)
                          | Inl _ \<Rightarrow>
                              ([], PDict [(''opened'', PBool False), (''directory'', PStr (path_text d)), (''error'', PStr exc),
                                 (''message'', PStr (''Failed to open '' @ quoted (path_name d) @ '' in File Explorer: '' @ exc))])))"

text \<open>\<open>file_list_files\<close>; an entry is its name, whether it is a directory, and its size (0 unless it is a file).\<close>

definition file_list_files :: "platform \<Rightarrow> string option \<Rightarrow> pyval" where
  "file_list_files pf directory_name =
     (let d = (case directory_name of
             None \<Rightarrow> workspace_dir pf
           | Some s \<Rightarrow> (case dict_get KNOWN_DIRECTORIES (lower s) of Some f \<Rightarrow> f (pf_home pf) | None \<Rightarrow> workspace_dir pf))
      in if \<not> pf_exists pf d
         then PDict [(''files'', PList []), (''directory'', PStr (path_text d)), (''count'', PInt 0)]
         else case pf_listdir pf d of
                Inl exc \<Rightarrow> PDict [(''files'', PList []), (''error'', PStr exc), (''directory'', PStr (path_text d)),
                             (''message'', PStr (''Failed to list directory contents: '' @ exc))]
              | Inr es \<Rightarrow>
                  PDict [(''files'', PList (take 50 (map (\<lambda>(n, b, z).
                             PDict [(''name'', PStr n), (''is_dir'', PBool b), (''size_bytes'', PInt z)]) es))),
                         (''count'', PInt (int (length es))), (''directory'', PStr (path_text d)),
                         (''message'', PStr (''Found '' @ show_nat (length es) @ '' items in '' @ path_name d @ ''.''))])"

text \<open>The length in UTF-8; characters of the model are the first 256 code points.\<close>

definition utf8_length :: "string \<Rightarrow> nat" where
  "utf8_length s = sum_list (map (\<lambda>c. if code_of c < 128 then 1 else 2) s)"

definition file_create_text_file :: "platform \<Rightarrow> string \<Rightarrow> string \<Rightarrow> (string list \<times> string) list \<times> pyval" where
  "file_create_text_file pf file_name content =
     (let clean = basename (strip file_name);
          target = join_path (workspace_dir pf) clean
      in case pf_write pf target content of
           None \<Rightarrow>
             ([(target, content)],
              PDict [(''created'', PBool True), (''filename'', PStr clean), (''path'', PStr (path_text target)),
                     (''size_bytes'', PInt (int (utf8_length content))),
                     (''message'', PStr (''Created file '' @ quoted clean @ '' successfully.''))])
         | Some exc \<Rightarrow>
             ([], PDict [(''created'', PBool False), (''filename'', PStr clean), (''error'', PStr exc),
                     (''message'', PStr (''Failed to create file '' @ quoted clean @ '': '' @ exc))]))"

section \<open>Properties\<close>

text \<open>The programs that can stand for an application: its executable, as named or as found.\<close>

definition programs :: "platform \<Rightarrow> app_config \<Rightarrow> string set" where
  "programs pf c = {find_executable pf c} \<inter>
     ({e. ap_executable c = Some e} \<union> {x. \<exists>e. ap_executable c = Some e \<and> pf_which pf e = Some x} \<union>
      {x. \<exists>e. ap_fallback c = Some e \<and> pf_which pf e = Some x} \<union> {x. pf_local_code pf = Some x \<and> ap_fallback c \<noteq> None})"

lemma allowed_apps_complete:
  "list_all (\<lambda>(i, c). (ap_executable c = None) = (ap_protocol c \<noteq> None)) ALLOWED_APPLICATIONS"
  by code_simp

lemma resolve_app_allowed:
  assumes "resolve_app name = Some c"
  shows "c \<in> snd ` set ALLOWED_APPLICATIONS" and "(ap_executable c = None) = (ap_protocol c \<noteq> None)"
proof -
  from assms obtain i where "(i, c) \<in> set ALLOWED_APPLICATIONS"
    unfolding resolve_app_def Let_def by (auto simp: find_Some_iff dest: nth_mem)
  then show "c \<in> snd ` set ALLOWED_APPLICATIONS" "(ap_executable c = None) = (ap_protocol c \<noteq> None)"
    using allowed_apps_complete by (force simp: list_all_iff)+
qed

lemma find_executable_program: "ap_executable c = Some e \<Longrightarrow> find_executable pf c \<in> programs pf c"
  by (auto simp: programs_def find_executable_def Let_def split: option.splits)


definition demo_platform :: platform where
  "demo_platform =
     \<lparr>pf_windows = True, pf_which = (\<lambda>e. if e = ''powershell.exe'' then Some ''ps'' else None), pf_local_code = None,
      pf_popen = (\<lambda>_. Inr 7), pf_startfile = (\<lambda>_. None), pf_home = [''home''], pf_cwd = [''app''], pf_exists = (\<lambda>_. True),
      pf_is_dir = (\<lambda>_. True), pf_listdir = (\<lambda>_. Inr []),
      pf_write = (\<lambda>p _. if p \<in> {[''app'', ''data'', ''workspace''], [''app'', ''data'', ''workspace'', ''..'']}
                        then Some ''Is a directory'' else None)\<rparr>"


text \<open>Arguments are passed on unchecked, also to the shell of the allow list.\<close>

lemma launch_arguments_unchecked:
  "fst (app_launch demo_platform ''powershell'' (Some a)) = [SProcess (''ps'' # launch_args (Some a))]"
proof -
  have "map_option ap_executable (resolve_app ''powershell'') = Some (Some ''powershell.exe'')"
    "map_option ap_protocol (resolve_app ''powershell'') = Some None" "map_option ap_fallback (resolve_app ''powershell'') = Some None"
    by code_simp+
  then show ?thesis by (auto simp: app_launch_def find_executable_def demo_platform_def)
qed

text \<open>
  Text files stay in the workspace. When writing to the workspace directory itself and to its parent is
  refused (they are directories), every file the tool writes lies directly in the workspace, under a name
  without a slash that is neither empty nor a dot name, and has the given content; one file at most.
\<close>

theorem file_create_confined:
  assumes "pf_write pf (workspace_dir pf) content \<noteq> None" and "pf_write pf (workspace_dir pf @ [''..'']) content \<noteq> None"
    and "file_create_text_file pf file_name content = (written, answer)"
  shows "written = [] \<or> (\<exists>name. written = [(workspace_dir pf @ [name], content)] \<and> name = basename (strip file_name) \<and>
           CHR ''/'' \<notin> set name \<and> name \<notin> {[], ''.'', ''..''})"
proof -
  define name where "name = basename (strip file_name)"
  have sep: "CHR ''/'' \<notin> set name"
    using takeWhile_no_sep [of "CHR ''/''" "rev (strip file_name)"] by (simp add: name_def basename_def)
  have whole: "CHR ''/'' \<notin> set s \<Longrightarrow> split_on (CHR ''/'') s = [s]" for s by (induction s) auto
  have "\<not> pp_absolute (parse_path name)" using sep by (cases name) (auto simp: parse_path_def)
  then have target: "join_path (workspace_dir pf) name = (if name = [] \<or> name = ''.'' then workspace_dir pf else workspace_dir pf @ [name])"
    by (simp add: join_path_def Let_def) (simp add: parse_path_def whole [OF sep])
  show ?thesis
  proof (cases "name \<in> {[], ''.'', ''..''}")
    case True
    then have "pf_write pf (join_path (workspace_dir pf) name) content \<noteq> None" using assms(1,2) target by auto
    then show ?thesis using assms(3) by (auto simp: file_create_text_file_def name_def Let_def)
  next
    case False
    then show ?thesis using assms(3) target sep
      by (auto simp: file_create_text_file_def name_def Let_def split: option.splits)
  qed
qed

theorem file_create_confined_witness:
  "fst (file_create_text_file demo_platform ''../etc/x.md '' ''hi'') = [([''app'', ''data'', ''workspace'', ''x.md''], ''hi'')] \<and>
   (\<exists>name. fst (file_create_text_file demo_platform ''../etc/x.md '' ''hi'') = [([''app'', ''data'', ''workspace''] @ [name], ''hi'')] \<and>
      CHR ''/'' \<notin> set name)"
proof
  show run: "fst (file_create_text_file demo_platform ''../etc/x.md '' ''hi'') = [([''app'', ''data'', ''workspace'', ''x.md''], ''hi'')]"
    by code_simp
  have ws: "workspace_dir demo_platform = [''app'', ''data'', ''workspace'']" by code_simp
  have "pf_write demo_platform (workspace_dir demo_platform) ''hi'' \<noteq> None"
    "pf_write demo_platform (workspace_dir demo_platform @ [''..'']) ''hi'' \<noteq> None"
    by (simp_all add: ws) (simp_all add: demo_platform_def)
  note c = file_create_confined [OF this prod.collapse [symmetric], of "''../etc/x.md ''", unfolded ws]
  show "\<exists>name. fst (file_create_text_file demo_platform ''../etc/x.md '' ''hi'') = [([''app'', ''data'', ''workspace''] @ [name], ''hi'')] \<and>
      CHR ''/'' \<notin> set name"
    by (rule disjE [OF c]) (simp add: run, blast)
qed

text \<open>Any directory of the machine can be opened, not only the ones named as supported.\<close>

lemma open_any_directory:
  "fst (file_open_directory demo_platform ''/etc'') = [SOpen ''/etc'']"
  "fst (file_open_directory demo_platform ''../root'') = [SOpen ''/home/../root'']"
  by code_simp+

text \<open>An application window is found only if both its title and its process contain the name.\<close>

lemma app_needs_title_and_process:
  "fst (app_close mock_provider ''Untitled'' mock_init) = mock_init"
  "md_windows (fst (app_close mock_provider ''Notepad'' mock_init)) = [(1001, mock_window 1001 ''Calculator'' ''calculator.exe'' 4520 200 150 400 500 False)]"
  by code_simp+

end
