(* ===== verification/Builtin_Agents.thy ===== *)
theory Builtin_Agents
  imports Planner Orchestrator Os_Apps
begin

text \<open>
  The built-in agents, \<open>agents/builtins/\<close>, as agents of the runtime: their definitions, what each does with
  its task, and their registration. The coding agent works through the tool executor; the others answer
  from their task, the earlier observations and, where they ask one, a language model (a parameter:
  \<open>None\<close> is an exception). The evidence dictionaries of step results are left out.
\<close>

section \<open>Environment\<close>

record 'w agent_world =
  aw_exec :: "'w exec_state"
  aw_memory :: "(string \<times> string \<times> string \<times> string option) list"

record 'w agent_env =
  av_router :: "(string \<Rightarrow> string option) option"
  av_loads :: "string \<Rightarrow> pyval option"
  av_str :: "pyval \<Rightarrow> string"
  av_tools :: "'w tool_executor option"
  av_memory :: bool
  av_float_text :: "rat \<Rightarrow> string"
  av_duration :: rat
  av_execution_id :: "string \<Rightarrow> nat \<Rightarrow> string"
  av_plan_id :: string
  av_run_id :: string

definition agent_def :: "string \<Rightarrow> string \<Rightarrow> string \<Rightarrow> agent_capability \<Rightarrow> agent_definition" where
  "agent_def i name desc cap =
     \<lparr>ad_id = i, ad_name = name, ad_description = desc, ad_capabilities = [cap], ad_allowed_tools = [],
      ad_risk_level = ''low'', ad_enabled = True\<rparr>"

text \<open>\<open>memory.store\<close>; its exceptions are swallowed by the callers.\<close>

definition remember :: "'w agent_env \<Rightarrow> string \<times> string \<times> string \<times> string option \<Rightarrow> 'w agent_world \<Rightarrow> 'w agent_world" where
  "remember env m w = (if av_memory env then w\<lparr>aw_memory := aw_memory w @ [m]\<rparr> else w)"

definition completed :: "agent_definition \<Rightarrow> agent_task \<Rightarrow> pyval \<Rightarrow> string list \<Rightarrow> agent_observation list \<Rightarrow> agent_step_result" where
  "completed ad t out arts obs =
     \<lparr>sr_task_id = at_id t, sr_agent_id = ad_id ad, sr_status = KCOMPLETED, sr_output = out, sr_artifacts = arts,
      sr_observations = obs, sr_error = None\<rparr>"

definition computed :: "agent_task \<Rightarrow> pyval \<Rightarrow> string list \<Rightarrow> pyval dict \<Rightarrow> agent_observation" where
  "computed t out arts evidence =
     (from_agent_computation (at_id t) out ''success'' None)\<lparr>ob_artifacts := arts, ob_evidence := evidence\<rparr>"

text \<open>The text a model gives for a task, or the default.\<close>

definition ask_model :: "'w agent_env \<Rightarrow> string \<Rightarrow> string \<Rightarrow> string" where
  "ask_model env desc dflt =
     (case av_router env of
        None \<Rightarrow> dflt
      | Some ask \<Rightarrow> (case ask desc of None \<Rightarrow> dflt | Some c \<Rightarrow> if c = [] then dflt else strip c))"

section \<open>Agents that only answer\<close>

definition planner_definition :: agent_definition where
  "planner_definition = agent_def ''agent.planner'' ''Planner Agent''
     ''Decomposes user objectives into structured, dependency-ordered tasks.'' CPLANNING"

definition research_definition :: agent_definition where
  "research_definition = agent_def ''agent.research'' ''Research Agent''
     ''Performs structured information synthesis and evidence gathering.'' CRESEARCH"

definition research_execute :: "'w agent_env \<Rightarrow> agent_task \<Rightarrow> 'w agent_world \<Rightarrow> 'w agent_world \<times> agent_step_result" where
  "research_execute env t w =
     (let findings = ask_model env (at_description t) (''Research findings for: '' @ at_description t)
      in (remember env (findings, ''agent.research'', at_id t, None) w,
          completed research_definition t (PStr findings) []
            [computed t (PStr findings) [] [(''topic'', PStr (at_description t))]]))"

definition reasoning_definition :: agent_definition where
  "reasoning_definition = agent_def ''agent.reasoning'' ''Reasoning Agent''
     ''Evaluates logical trade-offs, architecture options, and deductive reasoning.'' CREASONING"

definition reasoning_execute :: "'w agent_env \<Rightarrow> agent_task \<Rightarrow> agent_step_result" where
  "reasoning_execute env t =
     (let conclusion = ask_model env (at_description t) (''Logical deduction and analysis for: '' @ at_description t)
      in completed reasoning_definition t (PStr conclusion) []
           [computed t (PStr conclusion) [] [(''task'', PStr (at_description t))]])"

definition security_definition :: agent_definition where
  "security_definition = agent_def ''agent.security'' ''Security Agent''
     ''Performs pre-execution security audits, risk checks, and threat modeling.'' CSECURITY"

definition security_execute :: "agent_task \<Rightarrow> agent_step_result" where
  "security_execute t =
     (let a = PDict [(''threats_detected'', PList []), (''sandbox_confinement'', PStr ''confirmed''),
                     (''shell_execution_risk'', PStr ''zero (no shell tools permitted)''), (''audit_passed'', PBool True)]
      in completed security_definition t
           (PStr ''Security verification passed. Zero arbitrary shell or path escape risks detected.'') []
           [computed t a [] [(''policy'', PStr ''Phase 04 ToolPolicyEngine active'')]])"

definition testing_definition :: agent_definition where
  "testing_definition = agent_def ''agent.testing'' ''Testing Agent''
     ''Formulates test strategies, verification criteria, and quality checks.'' CTESTING"

definition testing_execute :: "agent_task \<Rightarrow> agent_step_result" where
  "testing_execute t =
     (let p = PDict [(''validation_mode'', PStr ''evidence_based''), (''artifact_inspection'', PStr ''active''),
                     (''regression_risk'', PStr ''low'')]
      in completed testing_definition t (PStr ''Test strategy and verification criteria formulated.'') []
           [computed t p [] [(''task'', PStr (at_description t))]])"

definition review_definition :: agent_definition where
  "review_definition = agent_def ''agent.review'' ''Review Agent''
     ''Reviews intermediate task outputs for quality, consistency, and alignment.'' CREVIEW"

definition review_execute :: "agent_task \<Rightarrow> agent_step_result" where
  "review_execute t =
     (let r = PDict [(''quality_score'', PFloat 1), (''consistency_verified'', PBool True), (''anomalies'', PList [])]
      in completed review_definition t (PStr ''Review passed with full conformance to quality criteria.'') []
           [computed t r [] [(''task'', PStr (at_description t))]])"

definition verifier_definition :: agent_definition where
  "verifier_definition = agent_def ''agent.verifier'' ''Verifier Agent''
     ''Performs independent, evidence-based verification on intermediate task results.'' CVERIFICATION"

definition verifier_execute ::
  "'w agent_env \<Rightarrow> agent_task \<Rightarrow> agent_observation list \<Rightarrow> 'w agent_world \<Rightarrow> 'w agent_world \<times> agent_step_result" where
  "verifier_execute env t prior w =
     (let arts = concat (map ob_artifacts prior);
          n = show_nat (length prior);
          v = PDict [(''evidence_count'', PInt (int (length prior))), (''artifacts_inspected'', PList (map PStr arts)),
                     (''verification_status'', PStr ''passed'')]
      in (remember env (''Verification confirmed for '' @ n @ '' prior observations with '' @ show_nat (length arts) @ '' artifacts.'',
             ''agent.verifier'', at_id t, None) w,
          completed verifier_definition t (PStr (''Verification confirmed for '' @ n @ '' prior observations.'')) arts
            [computed t v arts [(''independent_check'', PStr ''complete'')]]))"

definition recovery_definition :: agent_definition where
  "recovery_definition = agent_def ''agent.recovery'' ''Recovery Agent''
     ''Analyzes task failures and recommends bounded recovery or replanning strategies.'' CRECOVERY"

text \<open>The error of a task is never set before it is executed, so the diagnosis is the default.\<close>

definition recovery_execute :: "agent_task \<Rightarrow> agent_step_result" where
  "recovery_execute t =
     (let r = PDict [(''failure_diagnosis'', PStr ''Unknown failure''),
                     (''recommended_strategy'', PStr ''replan_with_alternative_tool''), (''alternative_agent'', PStr ''agent.coding'')]
      in completed recovery_definition t (PStr ''Recovery strategy formulated: replan_with_alternative_tool'') []
           [computed t r [] [(''task'', PStr (at_description t))]])"

definition synthesis_definition :: agent_definition where
  "synthesis_definition = agent_def ''agent.synthesis'' ''Synthesis Agent''
     ''Synthesizes intermediate agent observations into a unified narrative.'' CSYNTHESIS"

definition synthesis_execute :: "agent_task \<Rightarrow> agent_observation list \<Rightarrow> agent_step_result" where
  "synthesis_execute t prior =
     (let arts = concat (map ob_artifacts prior);
          out = PStr (''Successfully unified findings from '' @ show_nat (length prior) @ '' task observations. Verified ''
                  @ show_nat (length arts) @ '' generated artifacts.'')
      in completed synthesis_definition t out arts [computed t out arts [(''observations_count'', PInt (int (length prior)))]])"

section \<open>The coding agent\<close>

definition CODING_TOOLS :: "string list" where
  "CODING_TOOLS =
     [''office.create_docx'', ''office.create_xlsx'', ''office.create_pptx'', ''office.create_pdf'',
      ''app.launch'', ''app.focus'', ''app.close'', ''browser.open'', ''browser.search'', ''youtube.search_and_play'',
      ''file.open_directory'', ''file.list_files'', ''file.create_text_file'',
      ''os.window.list'', ''os.window.focus'', ''os.window.minimize'', ''os.window.maximize'', ''os.window.restore'',
      ''os.window.close'', ''os.screen.capture'', ''os.screen.monitors'', ''os.screen.info'',
      ''os.clipboard.read'', ''os.clipboard.write'', ''os.clipboard.clear'', ''os.system.info'']"

definition coding_definition :: agent_definition where
  "coding_definition =
     (agent_def ''agent.coding'' ''Coding Agent'' ''Coordinates implementation tasks and approved automation/generation tools.''
        CCODING)\<lparr>ad_allowed_tools := CODING_TOOLS, ad_risk_level := ''medium''\<rparr>"

definition build_tool_arguments :: "string \<Rightarrow> agent_task \<Rightarrow> pyval dict" where
  "build_tool_arguments tool_id t =
     (let title = PStr (if at_title t = [] then ''JARVIS Generated Document'' else at_title t);
          desc = PStr (at_description t)
      in if tool_id = ''office.create_docx''
         then [(''filename'', PStr ''generated_document.docx''), (''title'', title),
               (''sections'', PList
                 [PDict [(''heading'', PStr ''Executive Summary''), (''level'', PInt 1), (''paragraph'', desc)],
                  PDict [(''heading'', PStr ''Key Deliverables''), (''level'', PInt 2),
                         (''bullets'', PList [PStr ''Autonomous Agent Execution'', PStr ''Verified Artifacts''])]])]
         else if tool_id = ''office.create_xlsx''
         then [(''filename'', PStr ''generated_model.xlsx''),
               (''sheets'', PList
                 [PDict [(''name'', PStr ''Summary''), (''headers'', PList [PStr ''Task'', PStr ''Status'', PStr ''Confidence'']),
                         (''rows'', PList [PList [PStr (at_title t), PStr ''Complete'', PFloat 1]])]])]
         else if tool_id = ''office.create_pptx''
         then [(''filename'', PStr ''generated_presentation.pptx''), (''title'', title),
               (''subtitle'', PStr ''Synthesized by JARVIS Autonomous Agent''),
               (''slides'', PList
                 [PDict [(''title'', PStr ''Overview''), (''bullets'', PList [desc, PStr ''Evidence verified by VerifierAgent''])]])]
         else if tool_id = ''office.create_pdf''
         then [(''filename'', PStr ''generated_report.pdf''), (''title'', title),
               (''sections'', PList
                 [PDict [(''heading'', PStr ''Report Objective''), (''paragraph'', desc)],
                  PDict [(''bullets'', PList [PStr ''Zero arbitrary shell execution'', PStr ''Strict sandbox enforcement''])]])]
         else [])"

text \<open>The message of a successful tool: \<open>output.get("message") or str(output)\<close>, the text, or a stock phrase.\<close>

definition tool_message :: "(pyval \<Rightarrow> string) \<Rightarrow> string \<Rightarrow> pyval \<Rightarrow> pyval" where
  "tool_message str tool_id out =
     (case out of
        PDict d \<Rightarrow> (case dict_get d ''message'' of Some m \<Rightarrow> if truthy m then m else PStr (str out) | None \<Rightarrow> PStr (str out))
      | PStr s \<Rightarrow> PStr s
      | _ \<Rightarrow> PStr (''Executed '' @ tool_id @ '' successfully.''))"

text \<open>The loop over the required tools: an exception, the failure of a tool, or what was gathered.\<close>

datatype coding_run =
    CRaised string
  | CFailed "agent_observation list" string
  | CDone "agent_observation list" "string list" "pyval list"

fun coding_loop ::
  "'w agent_env \<Rightarrow> 'w tool_executor \<Rightarrow> agent_task \<Rightarrow> nat \<Rightarrow> string list \<Rightarrow> agent_observation list \<Rightarrow> string list \<Rightarrow> pyval list
     \<Rightarrow> 'w exec_state \<Rightarrow> 'w exec_state \<times> coding_run" where
  "coding_loop env te t n [] obs arts msgs x = (x, CDone obs arts msgs)"
| "coding_loop env te t n (k # ks) obs arts msgs x =
     (if k \<notin> set CODING_TOOLS then coding_loop env te t (Suc n) ks obs arts msgs x
      else case (case dict_get (at_input_data t) ''tool_args'' of
                   Some (PDict d) \<Rightarrow> Some d
                 | Some _ \<Rightarrow> None
                 | None \<Rightarrow> Some (build_tool_arguments k t)) of
             None \<Rightarrow> (x, CRaised ''validation error for ToolRequest'')
           | Some args \<Rightarrow>
               (case execute (av_float_text env) (av_duration env) te
                       \<lparr>tq_execution_id = av_execution_id env (at_id t) n, tq_tool_id = k, tq_arguments = args,
                        tq_correlation_id = Some (av_run_id env), tq_caller = ''agent.coding''\<rparr> None x of
                  (x1, Inl ExCancelled) \<Rightarrow> (x1, CRaised ''cancelled'')
                | (x1, Inl ExInvalidArtifacts) \<Rightarrow> (x1, CRaised ''invalid artifacts'')
                | (x1, Inr r) \<Rightarrow>
                    let obs1 = obs @ [from_tool_result (at_id t) r []]
                    in if tr_is_success r
                       then coding_loop env te t (Suc n) ks obs1 (arts @ tr_artifacts r)
                              (msgs @ [tool_message (av_str env) k (tr_output r)]) x1
                       else (x1, CFailed obs1 (''Tool '' @ quoted k @ '' execution failed: '' @ opt_text (tr_error r)))))"

definition coding_execute ::
  "'w agent_env \<Rightarrow> agent_task \<Rightarrow> 'w agent_world \<Rightarrow> 'w agent_world \<times> (string + agent_step_result)" where
  "coding_execute env t w =
     (case (at_required_tools t, av_tools env) of
        (k # ks, Some te) \<Rightarrow>
          (case coding_loop env te t 0 (k # ks) [] [] [] (aw_exec w) of
             (x, CRaised e) \<Rightarrow> (w\<lparr>aw_exec := x\<rparr>, Inl e)
           | (x, CFailed obs e) \<Rightarrow>
               (w\<lparr>aw_exec := x\<rparr>, Inr ((completed coding_definition t PNone [] obs)\<lparr>sr_status := KFAILED, sr_error := Some e\<rparr>))
           | (x, CDone obs arts msgs) \<Rightarrow>
               let w1 = fold (\<lambda>a. remember env (''Created artifact: '' @ a, ''agent.coding'', at_id t, Some a)) arts (w\<lparr>aw_exec := x\<rparr>)
               in case all_some str_of msgs of
                    None \<Rightarrow> (w1, Inl ''sequence item: expected str instance'')
                  | Some ms \<Rightarrow>
                      (w1, Inr (completed coding_definition t
                         (PStr (if ms \<noteq> [] then join '' '' ms else ''Successfully executed tools: '' @ repr_list (k # ks))) arts obs)))
      | _ \<Rightarrow> (w, Inr (completed coding_definition t (PStr (''Completed implementation analysis: '' @ at_title t)) []
               [computed t (PStr (''Implementation plan for: '' @ at_description t)) [] []])))"

section \<open>Registration\<close>

definition builtin_agents :: "'w agent_env \<Rightarrow> 'w agent_world agent list" where
  "builtin_agents env =
     [\<lparr>ag_definition = planner_definition,
       ag_execute = (\<lambda>t prior w. (w, planner_execute (av_router env) (av_loads env) (av_plan_id env) t))\<rparr>,
      \<lparr>ag_definition = research_definition, ag_execute = (\<lambda>t prior w. map_prod id Inr (research_execute env t w))\<rparr>,
      \<lparr>ag_definition = reasoning_definition, ag_execute = (\<lambda>t prior w. (w, Inr (reasoning_execute env t)))\<rparr>,
      \<lparr>ag_definition = coding_definition, ag_execute = (\<lambda>t prior w. coding_execute env t w)\<rparr>,
      \<lparr>ag_definition = security_definition, ag_execute = (\<lambda>t prior w. (w, Inr (security_execute t)))\<rparr>,
      \<lparr>ag_definition = testing_definition, ag_execute = (\<lambda>t prior w. (w, Inr (testing_execute t)))\<rparr>,
      \<lparr>ag_definition = review_definition, ag_execute = (\<lambda>t prior w. (w, Inr (review_execute t)))\<rparr>,
      \<lparr>ag_definition = verifier_definition, ag_execute = (\<lambda>t prior w. map_prod id Inr (verifier_execute env t prior w))\<rparr>,
      \<lparr>ag_definition = recovery_definition, ag_execute = (\<lambda>t prior w. (w, Inr (recovery_execute t)))\<rparr>,
      \<lparr>ag_definition = synthesis_definition, ag_execute = (\<lambda>t prior w. (w, Inr (synthesis_execute t prior)))\<rparr>]"

definition register_builtin_agents :: "'w agent_env \<Rightarrow> 'w agent_world agent_registry \<Rightarrow> string + 'w agent_world agent_registry" where
  "register_builtin_agents env r = fold (\<lambda>a acc. bind_res acc (agent_register a)) (builtin_agents env) (Inr r)"

lemma agent_def_sel [simp]:
  "ad_id (agent_def i n d c) = i" "ad_enabled (agent_def i n d c)" "ad_allowed_tools (agent_def i n d c) = []"
  by (simp_all add: agent_def_def)

lemmas builtin_definitions = planner_definition_def research_definition_def reasoning_definition_def coding_definition_def
  security_definition_def testing_definition_def review_definition_def verifier_definition_def recovery_definition_def
  synthesis_definition_def

text \<open>Into an empty registry all ten go in, each under its id.\<close>

lemma register_builtin_ok:
  "register_builtin_agents env [] = Inr (map (\<lambda>a. (ad_id (ag_definition a), a)) (builtin_agents env))"
  by (simp add: register_builtin_agents_def builtin_agents_def agent_register_def builtin_definitions Let_def dict_has_def)

section \<open>Every goal gets a plan that runs\<close>

lemma builtin_lookup:
  assumes "register_builtin_agents env [] = Inr reg" and "k \<in> set PLAN_AGENTS"
  shows "\<exists>a. dict_get reg k = Some a \<and> ad_enabled (ag_definition a)"
proof -
  have "list_all (\<lambda>k. \<exists>a. dict_get reg k = Some a \<and> ad_enabled (ag_definition a)) PLAN_AGENTS"
    using assms(1) by (simp add: register_builtin_ok PLAN_AGENTS_def builtin_agents_def builtin_definitions [abs_def] Let_def)
      (auto simp: builtin_definitions)
  then show ?thesis using assms(2) by (auto simp: list_all_iff)
qed

lemma builtin_planner:
  "register_builtin_agents env [] = Inr reg \<Longrightarrow>
   dict_get reg ''agent.planner'' = Some \<lparr>ag_definition = planner_definition,
     ag_execute = (\<lambda>t prior w. (w, planner_execute (av_router env) (av_loads env) (av_plan_id env) t))\<rparr>"
  by (auto simp: register_builtin_ok builtin_agents_def builtin_definitions)

text \<open>
  Without a language model every goal is planned and started. With the built-in agents registered, the
  tools the plans name registered and enabled, and a limit of at least three steps, a run on whatever goal text passes
  planning and validation: it is running its first wave, on the deterministic plan, and has
  touched nothing yet.
\<close>

lemma every_goal_planned:
  assumes "register_builtin_agents env [] = Inr reg" and "av_router env = None"
    and "or_agents orc = reg" and "or_parse_plan orc = validate_plan fresh"
    and "pv_agents (or_validator orc) = Some reg" and "3 \<le> pv_max_steps (or_validator orc)"
    and "\<And>tr k. pv_tools (or_validator orc) = Some tr \<Longrightarrow> k \<in> set PLAN_TOOLS \<Longrightarrow>
           \<exists>d. dict_get (tg_tools tr) k = Some d \<and> td_enabled d"
  shows "\<exists>wave rest. os_phase (begin_run orc g run_id False w) = InWave (map Waiting wave) rest \<and> wave \<noteq> [] \<and>
    ar_state (os_run (begin_run orc g run_id False w)) = ARUNNING \<and>
    pl_tasks (os_plan (begin_run orc g run_id False w)) = deterministic_decompose (gl_user_prompt g) \<and>
    os_world (begin_run orc g run_id False w) = w"
proof -
  let ?plan = "\<lparr>pl_goal_id = ''planning_task'', pl_plan_id = av_plan_id env, pl_tasks = deterministic_decompose (gl_user_prompt g)\<rparr>"
  let ?pr = "(deterministic_decompose (gl_user_prompt g), ''Deterministic workflow decomposition'')"
  have good: "plan_for PLAN_AGENTS PLAN_TOOLS (pl_tasks ?plan)" "length (pl_tasks ?plan) \<le> 3"
    using deterministic_good [of "gl_user_prompt g"] by (simp_all add: good_plan_def)
  have "\<exists>waves. validate_and_sort (or_validator orc) ?plan = Inr waves"
  proof (rule plan_for_accepted [OF good(1)])
    show "length (pl_tasks ?plan) \<le> pv_max_steps (or_validator orc)" using good(2) assms(6) by simp
  qed (use assms(5,7) builtin_lookup [OF assms(1)] in auto)
  then obtain waves where v: "validate_and_sort (or_validator orc) ?plan = Inr waves" ..
  then obtain wave rest where w: "waves = wave # rest" "wave \<noteq> []"
    using validate_and_sort_facts [OF v] good(1) by (cases waves) (auto simp: plan_for_def)
  have ag: "agent_get (or_agents orc) ''agent.planner'' = Inr \<lparr>ag_definition = planner_definition,
     ag_execute = (\<lambda>t prior w. (w, planner_execute (av_router env) (av_loads env) (av_plan_id env) t))\<rparr>"
    using builtin_planner [OF assms(1)] assms(3) by (simp add: agent_get_def)
  have ex: "planner_execute (av_router env) (av_loads env) (av_plan_id env) (planning_task g pid) =
      Inr \<lparr>sr_task_id = ''planning_task'', sr_agent_id = ''agent.planner'', sr_status = KCOMPLETED,
              sr_output = PDict [(''plan'', dump_plan ''planning_task'' (av_plan_id env) ?pr)],
              sr_artifacts = [], sr_observations = [], sr_error = None\<rparr>" for pid
    by (simp add: planner_execute_def planning_task_def choose_plan_def assms(2))
  have "bind_res (raw_plan \<lparr>sr_task_id = ''planning_task'', sr_agent_id = ''agent.planner'', sr_status = KCOMPLETED,
              sr_output = PDict [(''plan'', dump_plan ''planning_task'' (av_plan_id env) ?pr)],
              sr_artifacts = [], sr_observations = [], sr_error = None\<rparr>) (or_parse_plan orc) = Inr ?plan"
    by (simp add: raw_plan_def assms(4) plan_wire)
  then show ?thesis using v w
    by (intro exI [of _ wave] exI [of _ rest]) (simp add: begin_run_def ag ex Let_def next_wave_def emit_def set_state_def save_run_def)
qed

section \<open>What the coding agent runs\<close>

lemma execute_result_tool:
  assumes "execute sf dur te q cp x = (x', Inr r)"
  shows "tr_tool_id r = tq_tool_id q"
proof (cases rule: execute_cases [of te q cp sf dur x])
  case (run d h)
  show ?thesis
    by (rule run_tool_cases [of sf dur te d h q "emit_event ''tool.authorized'' q [] (requested q x)"])
       (use run assms in \<open>auto simp: Let_def mk_result_def split: option.splits\<close>)
qed (use assms in \<open>auto simp: mk_result_def\<close>)

abbreviation succeeded :: "agent_observation \<Rightarrow> bool" where
  "succeeded ob \<equiv> ob_status ob = ''success''"

abbreviation permitted :: "string list \<Rightarrow> string list" where
  "permitted ks \<equiv> filter (\<lambda>k. k \<in> set CODING_TOOLS) ks"

lemma tool_observation:
  "ob_tool_id (from_tool_result i r e) = Some (tr_tool_id r)" "succeeded (from_tool_result i r e) = tr_is_success r"
  by (cases "tr_status r"; simp add: from_tool_result_def Let_def tr_is_success_def)+

lemma coding_loop_step:
  assumes "coding_loop env te t n (k # ks) obs arts msgs x = (x', run)" and "k \<in> set CODING_TOOLS" and "\<nexists>e. run = CRaised e"
  obtains q x1 r where "tq_tool_id q = k" "execute (av_float_text env) (av_duration env) te q None x = (x1, Inr r)"
    "(if tr_is_success r
      then coding_loop env te t (Suc n) ks (obs @ [from_tool_result (at_id t) r []]) (arts @ tr_artifacts r)
             (msgs @ [tool_message (av_str env) k (tr_output r)]) x1
      else (x1, CFailed (obs @ [from_tool_result (at_id t) r []]) (''Tool '' @ quoted k @ '' execution failed: '' @ opt_text (tr_error r))))
     = (x', run)"
proof -
  define args where "args = (case dict_get (at_input_data t) ''tool_args'' of
      Some (PDict d) \<Rightarrow> Some d | Some _ \<Rightarrow> None | None \<Rightarrow> Some (build_tool_arguments k t))"
  show ?thesis
  proof (cases args)
    case None
    then show ?thesis using assms by (simp add: args_def [symmetric]) auto
  next
    case (Some as)
    define q where "q = \<lparr>tq_execution_id = av_execution_id env (at_id t) n, tq_tool_id = k, tq_arguments = as,
       tq_correlation_id = Some (av_run_id env), tq_caller = ''agent.coding''\<rparr>"
    obtain x1 o1 where ex: "execute (av_float_text env) (av_duration env) te q None x = (x1, o1)" by fastforce
    note loop = assms(1) [unfolded coding_loop.simps args_def [symmetric] Some option.case q_def [symmetric] ex prod.case]
    show ?thesis
    proof (cases o1)
      case (Inl e)
      then show ?thesis using loop assms(2,3) by (cases e) auto
    next
      case (Inr r)
      show ?thesis
        by (rule that [of q x1 r]) (use loop assms(2) ex Inr in \<open>simp_all add: q_def Let_def\<close>)
    qed
  qed
qed

text \<open>One observation for each permitted tool, in order, up to the first that does not succeed.\<close>

lemma coding_loop_observations:
  assumes "coding_loop env te t n ks obs arts msgs x = (x', run)"
  shows "case run of
      CDone obs' arts' msgs' \<Rightarrow> \<exists>new. obs' = obs @ new \<and> map ob_tool_id new = map Some (permitted ks) \<and> list_all succeeded new
    | CFailed obs' e \<Rightarrow> \<exists>new ob pre k post. obs' = obs @ new @ [ob] \<and> permitted ks = pre @ k # post \<and>
        map ob_tool_id (new @ [ob]) = map Some (pre @ [k]) \<and> list_all succeeded new \<and> \<not> succeeded ob
    | CRaised e \<Rightarrow> True"
  using assms
proof (induction ks arbitrary: n obs arts msgs x)
  case Nil
  then have "run = CDone obs arts msgs" by simp
  then show ?case by simp
next
  case (Cons k ks)
  show ?case
  proof (cases "k \<in> set CODING_TOOLS")
    case False
    then have "coding_loop env te t (Suc n) ks obs arts msgs x = (x', run)" using Cons.prems by simp
    from Cons.IH [OF this] False show ?thesis by (cases run) simp_all
  next
    case perm: True
    show ?thesis
    proof (cases "\<exists>e. run = CRaised e")
      case False
      with coding_loop_step [OF Cons.prems perm] obtain q x1 r where q: "tq_tool_id q = k"
        and ex: "execute (av_float_text env) (av_duration env) te q None x = (x1, Inr r)"
        and run: "(if tr_is_success r
           then coding_loop env te t (Suc n) ks (obs @ [from_tool_result (at_id t) r []]) (arts @ tr_artifacts r)
                  (msgs @ [tool_message (av_str env) k (tr_output r)]) x1
           else (x1, CFailed (obs @ [from_tool_result (at_id t) r []]) (''Tool '' @ quoted k @ '' execution failed: '' @ opt_text (tr_error r))))
          = (x', run)" by blast
      have tool: "tr_tool_id r = k" using execute_result_tool [OF ex] q by simp
      show ?thesis
      proof (cases "tr_is_success r")
        case True
        with run have "coding_loop env te t (Suc n) ks (obs @ [from_tool_result (at_id t) r []]) (arts @ tr_artifacts r)
                  (msgs @ [tool_message (av_str env) k (tr_output r)]) x1 = (x', run)" by simp
        from Cons.IH [OF this] show ?thesis
        proof (cases run)
          case (CDone obs' arts' msgs')
          with Cons.IH [OF \<open>coding_loop _ _ _ _ ks _ _ _ _ = _\<close>] obtain new where
            "obs' = (obs @ [from_tool_result (at_id t) r []]) @ new" "map ob_tool_id new = map Some (permitted ks)" "list_all succeeded new"
            by auto
          then show ?thesis using CDone perm True tool
            by (auto simp: tool_observation intro!: exI [of _ "from_tool_result (at_id t) r [] # new"])
        next
          case (CFailed obs' e)
          with Cons.IH [OF \<open>coding_loop _ _ _ _ ks _ _ _ _ = _\<close>] obtain new ob pre l post where
            "obs' = (obs @ [from_tool_result (at_id t) r []]) @ new @ [ob]" "permitted ks = pre @ l # post"
            "map ob_tool_id (new @ [ob]) = map Some (pre @ [l])" "list_all succeeded new" "\<not> succeeded ob"
            by auto
          then show ?thesis unfolding CFailed coding_run.case
            by (intro exI [of _ "from_tool_result (at_id t) r [] # new"] exI [of _ ob] exI [of _ "k # pre"] exI [of _ l] exI [of _ post])
               (use perm True tool in \<open>simp add: tool_observation\<close>)
        qed simp
      next
        case False
        with run have "run = CFailed (obs @ [from_tool_result (at_id t) r []]) (''Tool '' @ quoted k @ '' execution failed: '' @ opt_text (tr_error r))"
          by simp
        then show ?thesis using False perm tool
          by (auto simp: tool_observation intro!: exI [of _ "[]"])
      qed
    qed auto
  qed
qed

text \<open>
  What the coding agent runs. Of the tools a task requires it runs exactly those of its allow list, in order, one
  observation each, and stops at the first that does not succeed, which fails the step. A tool outside the
  list is skipped without a trace: a task that requires only such tools changes nothing and its step passes verification.
\<close>

theorem coding_runs_permitted:
  assumes "coding_execute env t w = (w', Inr res)" and "at_required_tools t \<noteq> []" and "av_tools env = Some te"
  shows "(sr_status res = KCOMPLETED \<and> map ob_tool_id (sr_observations res) = map Some (permitted (at_required_tools t)) \<and>
       list_all succeeded (sr_observations res) \<or>
     sr_status res = KFAILED \<and> (\<exists>new ob pre k post. sr_observations res = new @ [ob] \<and>
       permitted (at_required_tools t) = pre @ k # post \<and> map ob_tool_id (new @ [ob]) = map Some (pre @ [k]) \<and>
       list_all succeeded new \<and> \<not> succeeded ob)) \<and>
    (permitted (at_required_tools t) = [] \<and> at_artifacts t = [] \<longrightarrow> w' = w \<and> vr_state (verify_step av t res) = VPASSED)"
proof -
  obtain x run where loop: "coding_loop env te t 0 (at_required_tools t) [] [] [] (aw_exec w) = (x, run)" by fastforce
  obtain k ks where ks: "at_required_tools t = k # ks" using assms(2) by (cases "at_required_tools t") auto
  note obs = coding_loop_observations [OF loop]
  have skipped: "permitted ls = [] \<Longrightarrow> coding_loop env te t n ls o1 a1 m1 y = (y, CDone o1 a1 m1)" for ls n o1 a1 m1 y
    by (induction ls arbitrary: n) (auto split: if_splits)
  have skip: "w' = w \<and> vr_state (verify_step av t res) = VPASSED" if none: "permitted (at_required_tools t) = []" "at_artifacts t = []"
  proof -
    have "coding_execute env t w = (w, Inr (completed coding_definition t
        (PStr (''Successfully executed tools: '' @ repr_list (at_required_tools t))) [] []))"
      using skipped [OF none(1)] ks by (simp add: coding_execute_def assms(3))
    then have "w' = w" "res = completed coding_definition t
        (PStr (''Successfully executed tools: '' @ repr_list (at_required_tools t))) [] []" using assms(1) by auto
    moreover have "strip (''Successfully executed tools: '' @ s) \<noteq> []" for s
      by (simp add: strip_def lstrip_def rstrip_def is_space_def code_of_def)
    ultimately show ?thesis by (simp add: verify_step_def completed_def none(2) has_output_def)
  qed
  have "sr_status res = KCOMPLETED \<and> map ob_tool_id (sr_observations res) = map Some (permitted (at_required_tools t)) \<and>
       list_all succeeded (sr_observations res) \<or>
     sr_status res = KFAILED \<and> (\<exists>new ob pre k post. sr_observations res = new @ [ob] \<and>
       permitted (at_required_tools t) = pre @ k # post \<and> map ob_tool_id (new @ [ob]) = map Some (pre @ [k]) \<and>
       list_all succeeded new \<and> \<not> succeeded ob)"
  proof (cases run)
    case (CDone obs1 arts msgs)
    then have "sr_status res = KCOMPLETED" "sr_observations res = obs1"
      using assms(1,3) loop ks by (auto simp: coding_execute_def completed_def Let_def split: option.splits)
    then show ?thesis using obs CDone by simp
  next
    case (CFailed obs1 e)
    then have "sr_status res = KFAILED" "sr_observations res = obs1"
      using assms(1,3) loop ks by (auto simp: coding_execute_def completed_def)
    then show ?thesis using obs CFailed by simp
  next
    case (CRaised e)
    then show ?thesis using assms(1,3) loop ks by (auto simp: coding_execute_def)
  qed
  with skip show ?thesis by blast
qed

section \<open>Examples and consequences\<close>

definition demo_env :: "nat agent_env" where
  "demo_env = \<lparr>av_router = None, av_loads = (\<lambda>_. None), av_str = (\<lambda>_. []), av_tools = Some demo_executor, av_memory = True,
     av_float_text = (\<lambda>_. []), av_duration = 0, av_execution_id = (\<lambda>i n. i), av_plan_id = ''p'', av_run_id = ''r''\<rparr>"

definition demo_registry :: "nat agent_world agent_registry" where
  "demo_registry = map (\<lambda>a. (ad_id (ag_definition a), a)) (builtin_agents demo_env)"

definition demo_runtime :: "nat agent_world orchestrator" where
  "demo_runtime = \<lparr>or_agents = demo_registry,
     or_validator = \<lparr>pv_max_steps = 20, pv_agents = Some demo_registry, pv_tools = None\<rparr>,
     or_verifier = \<lparr>av_sandbox = None, av_files = \<lparr>ff_exists = (\<lambda>_. True), ff_size = (\<lambda>_. 1)\<rparr>\<rparr>,
     or_recovery = \<lparr>re_max_step_retries = 2, re_max_replans = 2, re_max_recovery_attempts = 5\<rparr>,
     or_parse_plan = validate_plan ''f''\<rparr>"

definition demo_world :: "nat agent_world" where
  "demo_world = \<lparr>aw_exec = demo_exec_state, aw_memory = []\<rparr>"

lemma every_goal_planned_example:
  "ar_state (os_run (begin_run demo_runtime demo_goal ''r'' False demo_world)) = ARUNNING \<and>
   map at_id (pl_tasks (os_plan (begin_run demo_runtime demo_goal ''r'' False demo_world))) = [''task_analyze'', ''task_review'']"
proof -
  have "map at_id (deterministic_decompose (gl_user_prompt demo_goal)) = [''task_analyze'', ''task_review'']" by code_simp
  moreover have "register_builtin_agents demo_env [] = Inr demo_registry" by (simp add: register_builtin_ok demo_registry_def)
  from every_goal_planned [OF this, of demo_runtime "''f''" demo_goal "''r''" demo_world]
  have "ar_state (os_run (begin_run demo_runtime demo_goal ''r'' False demo_world)) = ARUNNING \<and>
    pl_tasks (os_plan (begin_run demo_runtime demo_goal ''r'' False demo_world)) = deterministic_decompose (gl_user_prompt demo_goal)"
    by (auto simp: demo_env_def demo_runtime_def simp del: One_nat_def)
  ultimately show ?thesis by simp
qed

theorem coding_runs_permitted_witness:
  "let t = plan_task ''a'' [] [] ''agent.coding'' [] [''t''] []
   in \<exists>res. coding_execute demo_env t demo_world = (demo_world, Inr res) \<and>
        vr_state (verify_step (or_verifier demo_orchestrator) t res) = VPASSED"
proof -
  let ?t = "plan_task ''a'' [] [] ''agent.coding'' [] [''t''] []"
  have "map_prod id (\<lambda>r. case r of Inl _ \<Rightarrow> False | Inr _ \<Rightarrow> True) (coding_execute demo_env ?t demo_world) = (demo_world, True)"
    by (simp add: coding_execute_def demo_env_def plan_task_def CODING_TOOLS_def demo_world_def)
  then obtain res where e: "coding_execute demo_env ?t demo_world = (demo_world, Inr res)"
    by (cases "coding_execute demo_env ?t demo_world") (auto split: sum.splits)
  from coding_runs_permitted [OF e, of demo_executor "or_verifier demo_orchestrator"]
  have "vr_state (verify_step (or_verifier demo_orchestrator) ?t res) = VPASSED"
    by (simp add: plan_task_def CODING_TOOLS_def demo_env_def)
  with e show ?thesis by auto
qed

text \<open>
  The reviewing agents do not look: security, testing and review give the same approving answer for every
  task, and the verifier reports that everything passed, whatever the observations say.
\<close>

lemma audits_always_pass:
  "sr_output (security_execute t) = sr_output (security_execute t')" "sr_status (security_execute t) = KCOMPLETED"
  "sr_output (review_execute t) = sr_output (review_execute t')" "sr_status (review_execute t) = KCOMPLETED"
  "sr_status (snd (verifier_execute env t prior w)) = KCOMPLETED"
  by (simp_all add: security_execute_def review_execute_def verifier_execute_def completed_def Let_def)

text \<open>Every application and directory a plan names is one the tools know.\<close>

lemma planned_app_names:
  "lower (strip ''Calculator'') = ''calculator''" "lower (strip ''Notepad'') = ''notepad''" "lower (strip ''VS Code'') = ''vs code''"
  "lower (strip ''Chrome'') = ''chrome''" "lower (strip ''Edge'') = ''edge''" "lower (strip ''Settings'') = ''settings''"
  "lower (strip ''File Explorer'') = ''file explorer''" "lower (strip ''Paint'') = ''paint''"
  "lower (strip ''PowerShell'') = ''powershell''" "lower (strip ''Task Manager'') = ''task manager''"
  by code_simp+

lemma planned_apps_known: "list_all (\<lambda>(_, a). resolve_app a \<noteq> None) APP_KEYWORDS"
  by (simp add: APP_KEYWORDS_def resolve_app_def planned_app_names ALLOWED_APPLICATIONS_def app_def Let_def)

lemma planned_folders_known: "folder_of g \<in> insert ''workspace'' (fst ` set KNOWN_DIRECTORIES)"
  by (simp add: folder_of_def KNOWN_DIRECTORIES_def)

text \<open>The coding agent may close windows, but the tool for it is never registered.\<close>

lemma close_tool_unregistered: "''os.window.close'' \<in> set CODING_TOOLS \<and> ''os.window.close'' \<notin> set ALL_OS_TOOLS"
  by code_simp

text \<open>A plan never closes an application: \<open>close\<close> is no keyword, and other goals fall through to general reasoning.\<close>

lemma close_goal_only_reasoned: "map at_id (deterministic_decompose ''close notepad'') = [''task_analyze'', ''task_review'']"
  by code_simp

end
