(* ===== verification/Vision_Model.thy ===== *)
theory Vision_Model
  imports Py_Regex
begin

text \<open>
  The data of the vision subsystem (\<open>vision/models.py\<close>, \<open>vision/config.py\<close>, \<open>vision/errors.py\<close>), the geometry of
  bounding boxes, its privacy rules (\<open>vision/security.py\<close>) and the perception pipeline (\<open>vision/perception/\<close>).
  Times and scores are exact rationals; attributes, metadata and the messages of errors are left out.
\<close>

section \<open>Element, region and confidence kinds\<close>

datatype element_type =
    EButton | EInputText | EInputPassword | ECheckbox | ERadio | ELink | EIcon | ETab | EMenuItem
  | EHeading | EText | EImage | EWindow | EModal | EScrollbar | EUnknown

fun element_type_value :: "element_type \<Rightarrow> string" where
  "element_type_value EButton = ''button''"
| "element_type_value EInputText = ''input_text''"
| "element_type_value EInputPassword = ''input_password''"
| "element_type_value ECheckbox = ''checkbox''"
| "element_type_value ERadio = ''radio''"
| "element_type_value ELink = ''link''"
| "element_type_value EIcon = ''icon''"
| "element_type_value ETab = ''tab''"
| "element_type_value EMenuItem = ''menu_item''"
| "element_type_value EHeading = ''heading''"
| "element_type_value EText = ''text''"
| "element_type_value EImage = ''image''"
| "element_type_value EWindow = ''window''"
| "element_type_value EModal = ''modal''"
| "element_type_value EScrollbar = ''scrollbar''"
| "element_type_value EUnknown = ''unknown''"

definition ELEMENT_TYPES :: "element_type list" where
  "ELEMENT_TYPES = [EButton, EInputText, EInputPassword, ECheckbox, ERadio, ELink, EIcon, ETab, EMenuItem,
     EHeading, EText, EImage, EWindow, EModal, EScrollbar, EUnknown]"

text \<open>\<open>ElementType(v)\<close>; \<open>None\<close> is its \<open>ValueError\<close>.\<close>

definition element_type_of :: "string \<Rightarrow> element_type option" where
  "element_type_of v = find (\<lambda>t. element_type_value t = v) ELEMENT_TYPES"

datatype region_type =
  RgWindow | RgModal | RgToolbar | RgSidebar | RgStatusBar | RgContentArea | RgForm | RgSensitive

fun region_type_value :: "region_type \<Rightarrow> string" where
  "region_type_value RgWindow = ''window''"
| "region_type_value RgModal = ''modal''"
| "region_type_value RgToolbar = ''toolbar''"
| "region_type_value RgSidebar = ''sidebar''"
| "region_type_value RgStatusBar = ''status_bar''"
| "region_type_value RgContentArea = ''content_area''"
| "region_type_value RgForm = ''form''"
| "region_type_value RgSensitive = ''sensitive''"

datatype confidence_level = CHigh | CMedium | CLow

fun confidence_level_value :: "confidence_level \<Rightarrow> string" where
  "confidence_level_value CHigh = ''high''"
| "confidence_level_value CMedium = ''medium''"
| "confidence_level_value CLow = ''low''"

section \<open>Errors\<close>

datatype vision_error =
    VisionFault string
  | ProviderFault string
  | ElementNotFound string
  | TargetAmbiguity string nat rat
  | ConfidenceRejected string rat rat
  | StaleObservation rat rat
  | InvalidBoundingBox int int

section \<open>Boxes\<close>

record vision_point =
  vp_x :: int
  vp_y :: int

definition point_dict :: "vision_point \<Rightarrow> pyval" where
  "point_dict p = PDict [(''x'', PInt (vp_x p)), (''y'', PInt (vp_y p))]"

record bounding_box =
  bx_x :: int
  bx_y :: int
  bx_width :: int
  bx_height :: int

definition box_ok :: "bounding_box \<Rightarrow> bool" where
  "box_ok b = (0 \<le> bx_width b \<and> 0 \<le> bx_height b)"

definition mk_box :: "int \<Rightarrow> int \<Rightarrow> int \<Rightarrow> int \<Rightarrow> vision_error + bounding_box" where
  "mk_box x y w h =
     (if w < 0 \<or> h < 0 then Inl (InvalidBoundingBox w h)
      else Inr \<lparr>bx_x = x, bx_y = y, bx_width = w, bx_height = h\<rparr>)"

definition bx_right :: "bounding_box \<Rightarrow> int" where
  "bx_right b = bx_x b + bx_width b"

definition bx_bottom :: "bounding_box \<Rightarrow> int" where
  "bx_bottom b = bx_y b + bx_height b"

definition bx_center :: "bounding_box \<Rightarrow> vision_point" where
  "bx_center b = \<lparr>vp_x = bx_x b + bx_width b div 2, vp_y = bx_y b + bx_height b div 2\<rparr>"

definition bx_area :: "bounding_box \<Rightarrow> int" where
  "bx_area b = bx_width b * bx_height b"

definition bx_contains :: "bounding_box \<Rightarrow> vision_point \<Rightarrow> bool" where
  "bx_contains b p =
     (bx_x b \<le> vp_x p \<and> vp_x p \<le> bx_right b \<and> bx_y b \<le> vp_y p \<and> vp_y p \<le> bx_bottom b)"

definition bx_intersects :: "bounding_box \<Rightarrow> bounding_box \<Rightarrow> bool" where
  "bx_intersects a b =
     (\<not> (bx_right a < bx_x b \<or> bx_x a > bx_right b \<or> bx_bottom a < bx_y b \<or> bx_y a > bx_bottom b))"

definition bx_intersection :: "bounding_box \<Rightarrow> bounding_box \<Rightarrow> bounding_box option" where
  "bx_intersection a b =
     (if \<not> bx_intersects a b then None
      else let ix = max (bx_x a) (bx_x b); iy = max (bx_y a) (bx_y b)
           in Some \<lparr>bx_x = ix, bx_y = iy,
                    bx_width = max 0 (min (bx_right a) (bx_right b) - ix),
                    bx_height = max 0 (min (bx_bottom a) (bx_bottom b) - iy)\<rparr>)"

definition bx_iou :: "bounding_box \<Rightarrow> bounding_box \<Rightarrow> rat" where
  "bx_iou a b =
     (case bx_intersection a b of
        None \<Rightarrow> 0
      | Some i \<Rightarrow>
          let union = bx_area a + bx_area b - bx_area i
          in if 0 < union then of_int (bx_area i) / of_int union else 0)"

definition box_dict :: "bounding_box \<Rightarrow> pyval" where
  "box_dict b =
     PDict [(''x'', PInt (bx_x b)), (''y'', PInt (bx_y b)), (''width'', PInt (bx_width b)), (''height'', PInt (bx_height b)),
            (''center_x'', PInt (vp_x (bx_center b))), (''center_y'', PInt (vp_y (bx_center b)))]"

section \<open>Elements, regions, observations\<close>

record visual_element =
  ve_id :: string
  ve_type :: element_type
  ve_bounds :: bounding_box
  ve_label :: string
  ve_ocr :: string
  ve_placeholder :: "string option"
  ve_confidence :: rat
  ve_clickable :: bool
  ve_focusable :: bool
  ve_sensitive :: bool
  ve_region :: "string option"

definition opt_str :: "string option \<Rightarrow> string" where
  "opt_str s = (case s of None \<Rightarrow> [] | Some t \<Rightarrow> t)"

definition display_text :: "visual_element \<Rightarrow> string" where
  "display_text e = (if ve_label e \<noteq> [] then ve_label e else if ve_ocr e \<noteq> [] then ve_ocr e else opt_str (ve_placeholder e))"

definition element_summary :: "visual_element \<Rightarrow> pyval" where
  "element_summary e =
     PDict [(''element_id'', PStr (ve_id e)), (''element_type'', PStr (element_type_value (ve_type e))),
            (''bounds'', box_dict (ve_bounds e)), (''center'', point_dict (bx_center (ve_bounds e))),
            (''label'', PStr (ve_label e)), (''ocr_text'', PStr (ve_ocr e)), (''confidence'', PFloat (ve_confidence e)),
            (''is_clickable'', PBool (ve_clickable e)), (''is_sensitive'', PBool (ve_sensitive e))]"

record screen_region =
  sr_id :: string
  sr_type :: region_type
  sr_bounds :: bounding_box
  sr_title :: string
  sr_focused :: bool
  sr_sensitive :: bool
  sr_elements :: "string list"

definition region_summary :: "screen_region \<Rightarrow> pyval" where
  "region_summary r =
     PDict [(''region_id'', PStr (sr_id r)), (''region_type'', PStr (region_type_value (sr_type r))),
            (''bounds'', box_dict (sr_bounds r)), (''title'', PStr (sr_title r)), (''is_focused'', PBool (sr_focused r)),
            (''is_sensitive'', PBool (sr_sensitive r)), (''element_count'', PInt (int (length (sr_elements r))))]"

record screen_observation =
  so_id :: string
  so_time :: rat
  so_path :: "string option"
  so_width :: int
  so_height :: int
  so_monitor :: int
  so_elements :: "visual_element list"
  so_regions :: "screen_region list"
  so_window :: "string option"
  so_stale :: bool
  so_raw_text :: string

definition obs_age :: "rat \<Rightarrow> screen_observation \<Rightarrow> rat" where
  "obs_age now ob = max 0 (now - so_time ob)"

definition is_past :: "rat \<Rightarrow> rat \<Rightarrow> screen_observation \<Rightarrow> bool" where
  "is_past ttl now ob = (obs_age now ob > ttl)"

text \<open>The flag is written into the observation, which is returned with the answer.\<close>

definition check_staleness :: "rat \<Rightarrow> rat \<Rightarrow> screen_observation \<Rightarrow> screen_observation \<times> bool" where
  "check_staleness ttl now ob = (ob\<lparr>so_stale := is_past ttl now ob\<rparr>, is_past ttl now ob)"

definition find_by_id :: "string \<Rightarrow> screen_observation \<Rightarrow> visual_element option" where
  "find_by_id i ob = find (\<lambda>e. ve_id e = i) (so_elements ob)"

definition find_at_point :: "vision_point \<Rightarrow> screen_observation \<Rightarrow> visual_element list" where
  "find_at_point p ob = filter (\<lambda>e. bx_contains (ve_bounds e) p) (so_elements ob)"

definition find_in_region :: "string \<Rightarrow> screen_observation \<Rightarrow> visual_element list" where
  "find_in_region r ob = filter (\<lambda>e. ve_region e = Some r) (so_elements ob)"

definition obs_summary :: "rat \<Rightarrow> screen_observation \<Rightarrow> pyval" where
  "obs_summary now ob =
     PDict [(''observation_id'', PStr (so_id ob)), (''timestamp'', PFloat (so_time ob)),
            (''age_seconds'', PFloat (round_to 2 (obs_age now ob))), (''is_stale'', PBool (so_stale ob)),
            (''dimensions'', PDict [(''width'', PInt (so_width ob)), (''height'', PInt (so_height ob))]),
            (''monitor_index'', PInt (so_monitor ob)), (''element_count'', PInt (int (length (so_elements ob)))),
            (''region_count'', PInt (int (length (so_regions ob)))),
            (''active_window'', case so_window ob of None \<Rightarrow> PNone | Some t \<Rightarrow> PStr t)]"

section \<open>Configuration\<close>

definition DEFAULT_SENSITIVE_KEYWORDS :: "string list" where
  "DEFAULT_SENSITIVE_KEYWORDS =
     [''password'', ''passwd'', ''pin'', ''secret'', ''api_key'', ''apikey'', ''token'', ''auth_token'', ''access_token'',
      ''credit_card'', ''cvv'', ''ssn'', ''social_security'', ''private_key'']"

record vision_config =
  vc_enabled :: bool
  vc_provider :: string
  vc_high :: rat
  vc_medium :: rat
  vc_ttl :: rat
  vc_max_elements :: nat
  vc_ambiguity :: rat
  vc_keywords :: "string list"

definition default_vision_config :: vision_config where
  "default_vision_config =
     \<lparr>vc_enabled = True, vc_provider = ''mock'', vc_high = 85 / 100, vc_medium = 60 / 100, vc_ttl = 15, vc_max_elements = 200,
      vc_ambiguity = 8 / 100, vc_keywords = DEFAULT_SENSITIVE_KEYWORDS\<rparr>"

section \<open>Privacy\<close>

definition sensitive_regex :: "vision_config \<Rightarrow> rx" where
  "sensitive_regex cfg =
     r_seq [RWordB, RGrp (if vc_keywords cfg = [] then r_empty else r_alt (map r_lit_ci (vc_keywords cfg))), RWordB]"

definition is_text_sensitive :: "vision_config \<Rightarrow> string \<Rightarrow> bool" where
  "is_text_sensitive cfg t = (t \<noteq> [] \<and> rx_search (sensitive_regex cfg) t)"

definition detect_sensitive_element :: "vision_config \<Rightarrow> visual_element \<Rightarrow> bool" where
  "detect_sensitive_element cfg e =
     (ve_type e = EInputPassword \<or> is_text_sensitive cfg (ve_label e) \<or> is_text_sensitive cfg (ve_ocr e) \<or>
      is_text_sensitive cfg (opt_str (ve_placeholder e)))"

definition sanitize_element :: "vision_config \<Rightarrow> visual_element \<Rightarrow> visual_element" where
  "sanitize_element cfg e =
     (if \<not> ve_sensitive e \<and> \<not> detect_sensitive_element cfg e then e
      else if ve_type e = EInputPassword
      then e\<lparr>ve_sensitive := True, ve_label := ''[PASSWORD FIELD]'', ve_ocr := ''********'', ve_placeholder := Some ''********''\<rparr>
      else e\<lparr>ve_sensitive := True,
             ve_label := (if is_text_sensitive cfg (ve_label e) then ''[REDACTED_LABEL]'' else ve_label e),
             ve_ocr := (if is_text_sensitive cfg (ve_ocr e) then ''[REDACTED_OCR]'' else ve_ocr e),
             ve_placeholder := (if is_text_sensitive cfg (opt_str (ve_placeholder e)) then Some ''[REDACTED_PLACEHOLDER]''
                                else ve_placeholder e)\<rparr>)"

definition sanitize_region :: "vision_config \<Rightarrow> screen_region \<Rightarrow> screen_region" where
  "sanitize_region cfg r =
     (if is_text_sensitive cfg (sr_title r) then r\<lparr>sr_title := ''[REDACTED_REGION]'', sr_sensitive := True\<rparr> else r)"

definition sanitize_observation :: "vision_config \<Rightarrow> screen_observation \<Rightarrow> screen_observation" where
  "sanitize_observation cfg ob =
     ob\<lparr>so_elements := map (sanitize_element cfg) (so_elements ob),
        so_regions := map (sanitize_region cfg) (so_regions ob),
        so_window := (if is_text_sensitive cfg (opt_str (so_window ob)) then Some ''[REDACTED_WINDOW]'' else so_window ob),
        so_raw_text := (if so_raw_text ob = [] then [] else rx_sub (sensitive_regex cfg) (\<lambda>_. ''[REDACTED]'') (so_raw_text ob))\<rparr>"

definition validate_point :: "vision_point \<Rightarrow> bounding_box option \<Rightarrow> vision_error option" where
  "validate_point p bounds =
     (if vp_x p < 0 \<or> vp_y p < 0 then Some (VisionFault ''negative coordinates'')
      else case bounds of
             None \<Rightarrow> None
           | Some b \<Rightarrow> if bx_contains b p then None else Some (VisionFault ''coordinates outside screen bounds''))"

section \<open>Perception\<close>

definition filter_elements ::
  "element_type option \<Rightarrow> bool \<Rightarrow> bool \<Rightarrow> (visual_element \<Rightarrow> bool) option \<Rightarrow> visual_element list \<Rightarrow> visual_element list" where
  "filter_elements et clickable_only non_sensitive_only pred es =
     filter (\<lambda>e. (case et of None \<Rightarrow> True | Some t \<Rightarrow> ve_type e = t) \<and> (clickable_only \<longrightarrow> ve_clickable e) \<and>
                 (non_sensitive_only \<longrightarrow> \<not> ve_sensitive e) \<and> (case pred of None \<Rightarrow> True | Some f \<Rightarrow> f e)) es"

definition find_elements_at_point :: "visual_element list \<Rightarrow> vision_point \<Rightarrow> visual_element list" where
  "find_elements_at_point es p = sort_key (\<lambda>e. bx_area (ve_bounds e)) (filter (\<lambda>e. bx_contains (ve_bounds e) p) es)"

definition find_elements_in_bounds :: "visual_element list \<Rightarrow> bounding_box \<Rightarrow> visual_element list" where
  "find_elements_in_bounds es b =
     filter (\<lambda>e. bx_x (ve_bounds e) \<ge> bx_x b \<and> bx_right (ve_bounds e) \<le> bx_right b \<and>
                 bx_y (ve_bounds e) \<ge> bx_y b \<and> bx_bottom (ve_bounds e) \<le> bx_bottom b) es"

text \<open>The smallest region around a point, the first of equals, by its position.\<close>

definition enclosing_index :: "screen_region list \<Rightarrow> vision_point \<Rightarrow> nat option" where
  "enclosing_index rs p =
     (case sort_key (\<lambda>i. bx_area (sr_bounds (rs ! i))) (filter (\<lambda>i. bx_contains (sr_bounds (rs ! i)) p) [0..<length rs]) of
        [] \<Rightarrow> None
      | i # _ \<Rightarrow> Some i)"

definition find_enclosing_region :: "screen_region list \<Rightarrow> vision_point \<Rightarrow> screen_region option" where
  "find_enclosing_region rs p = map_option (\<lambda>i. rs ! i) (enclosing_index rs p)"

definition assign_element :: "visual_element \<Rightarrow> screen_region list \<Rightarrow> visual_element \<times> screen_region list" where
  "assign_element e rs =
     (case enclosing_index rs (bx_center (ve_bounds e)) of
        None \<Rightarrow> (e, rs)
      | Some i \<Rightarrow>
          let r = rs ! i;
              r' = (if ve_id e \<in> set (sr_elements r) then r else r\<lparr>sr_elements := sr_elements r @ [ve_id e]\<rparr>)
          in (e\<lparr>ve_region := Some (sr_id r), ve_sensitive := (ve_sensitive e \<or> sr_sensitive r)\<rparr>, rs[i := r']))"

fun assign_elements_to_regions ::
  "visual_element list \<Rightarrow> screen_region list \<Rightarrow> visual_element list \<times> screen_region list" where
  "assign_elements_to_regions [] rs = ([], rs)"
| "assign_elements_to_regions (e # es) rs =
     (let (e1, rs1) = assign_element e rs; (es2, rs2) = assign_elements_to_regions es rs1 in (e1 # es2, rs2))"

definition get_focused_region :: "screen_region list \<Rightarrow> screen_region option" where
  "get_focused_region rs = find sr_focused rs"

definition flag_element :: "vision_config \<Rightarrow> visual_element \<Rightarrow> visual_element" where
  "flag_element cfg e = (if detect_sensitive_element cfg e then e\<lparr>ve_sensitive := True\<rparr> else e)"

definition flag_region :: "vision_config \<Rightarrow> screen_region \<Rightarrow> screen_region" where
  "flag_region cfg r = (if is_text_sensitive cfg (sr_title r) then r\<lparr>sr_sensitive := True\<rparr> else r)"

text \<open>What the analyser makes of the observation of the provider.\<close>

definition enrich :: "vision_config \<Rightarrow> screen_observation \<Rightarrow> screen_observation" where
  "enrich cfg ob =
     (let (es, rs) = assign_elements_to_regions (so_elements ob) (so_regions ob);
          es1 = map (flag_element cfg) es
      in ob\<lparr>so_elements := (if length es1 > vc_max_elements cfg then take (vc_max_elements cfg) (sort_desc ve_confidence es1) else es1),
            so_regions := map (flag_region cfg) rs\<rparr>)"

section \<open>Geometry\<close>

named_theorems box_simps

lemmas box_defs [box_simps] = box_ok_def bx_right_def bx_bottom_def bx_contains_def bx_intersects_def bx_area_def

lemma mk_box_ok: "mk_box x y w h = Inr b \<Longrightarrow> box_ok b"
  by (auto simp: mk_box_def box_ok_def split: if_splits)

lemma center_inside: "box_ok b \<Longrightarrow> bx_contains b (bx_center b)"
  by (simp add: box_simps bx_center_def) presburger

lemma intersection_common:
  assumes "box_ok a" "box_ok b" "bx_intersection a b = Some i"
  shows "bx_contains i p \<longleftrightarrow> bx_contains a p \<and> bx_contains b p"
proof -
  let ?ix = "max (bx_x a) (bx_x b)" and ?iy = "max (bx_y a) (bx_y b)"
  have m: "bx_intersects a b" and i: "i = \<lparr>bx_x = ?ix, bx_y = ?iy, bx_width = max 0 (min (bx_right a) (bx_right b) - ?ix),
      bx_height = max 0 (min (bx_bottom a) (bx_bottom b) - ?iy)\<rparr>"
    using assms(3) by (auto simp: bx_intersection_def Let_def split: if_splits)
  have "?ix \<le> min (bx_right a) (bx_right b)" "?iy \<le> min (bx_bottom a) (bx_bottom b)"
    using m assms(1,2) by (simp_all add: bx_intersects_def box_ok_def bx_right_def bx_bottom_def)
  then have "bx_right i = min (bx_right a) (bx_right b)" "bx_bottom i = min (bx_bottom a) (bx_bottom b)"
    by (simp_all add: i bx_right_def bx_bottom_def)
  then show ?thesis unfolding bx_contains_def by (auto simp: i)
qed

lemma intersection_none: "bx_intersection a b = None \<Longrightarrow> bx_contains a p \<Longrightarrow> bx_contains b p \<Longrightarrow> False"
  by (auto simp: bx_intersection_def box_simps Let_def split: if_splits)

lemma intersection_ok: "bx_intersection a b = Some i \<Longrightarrow> box_ok i"
  by (auto simp: bx_intersection_def box_ok_def Let_def split: if_splits)

lemma intersection_sym: "bx_intersection a b = bx_intersection b a"
  by (auto simp: bx_intersection_def bx_intersects_def Let_def max.commute min.commute)

lemma intersection_smaller:
  assumes "box_ok a" "bx_intersection a b = Some i"
  shows "0 \<le> bx_area i" "bx_area i \<le> bx_area a"
proof -
  have w: "0 \<le> bx_width i" "0 \<le> bx_height i" "bx_width i \<le> bx_width a" "bx_height i \<le> bx_height a"
    using assms by (auto simp: bx_intersection_def box_ok_def bx_right_def bx_bottom_def Let_def split: if_splits)
  then show "0 \<le> bx_area i" "bx_area i \<le> bx_area a"
    using assms(1) by (auto simp: bx_area_def box_ok_def intro: mult_mono)
qed

lemma iou_range: "box_ok a \<Longrightarrow> box_ok b \<Longrightarrow> 0 \<le> bx_iou a b \<and> bx_iou a b \<le> 1"
proof (cases "bx_intersection a b")
  case (Some i)
  assume ok: "box_ok a" "box_ok b"
  note A = intersection_smaller [OF ok(1) Some]
  note B = intersection_smaller [OF ok(2) Some [unfolded intersection_sym [of a b]]]
  have "of_int (bx_area i) \<le> (of_int (bx_area a + bx_area b - bx_area i) :: rat)"
    unfolding of_int_le_iff using A B by linarith
  then show ?thesis using A B by (simp add: bx_iou_def Some Let_def divide_le_eq del: of_int_add of_int_diff)
qed (simp add: bx_iou_def)

lemma iou_sym: "bx_iou a b = bx_iou b a"
  unfolding bx_iou_def intersection_sym [of a b] by (simp add: add.commute [of "bx_area a"] split: option.split)

lemma iou_self: "box_ok a \<Longrightarrow> bx_iou a a = (if 0 < bx_area a then 1 else 0)"
  by (auto simp: bx_iou_def bx_intersection_def box_simps Let_def)

text \<open>
  The geometry of boxes. The intersection of two boxes holds exactly their common points and is missing only when
  they have none; the overlap measure is symmetric, lies between 0 and 1, and is 1 for a box with itself (0 for a
  box without area).
\<close>

theorem box_overlap:
  assumes "box_ok a" and "box_ok b"
  shows "(case bx_intersection a b of
            None \<Rightarrow> \<not> (\<exists>p. bx_contains a p \<and> bx_contains b p)
          | Some i \<Rightarrow> box_ok i \<and> (\<forall>p. bx_contains i p \<longleftrightarrow> bx_contains a p \<and> bx_contains b p)) \<and>
    0 \<le> bx_iou a b \<and> bx_iou a b \<le> 1 \<and> bx_iou a b = bx_iou b a \<and> bx_iou a a = (if 0 < bx_area a then 1 else 0)"
proof -
  have "case bx_intersection a b of
            None \<Rightarrow> \<not> (\<exists>p. bx_contains a p \<and> bx_contains b p)
          | Some i \<Rightarrow> box_ok i \<and> (\<forall>p. bx_contains i p \<longleftrightarrow> bx_contains a p \<and> bx_contains b p)"
    using intersection_none [of a b] intersection_common [OF assms] intersection_ok [of a b]
    by (cases "bx_intersection a b") auto
  with iou_range [OF assms] iou_self [OF assms(1)] iou_sym [of a b] show ?thesis by simp
qed

theorem box_overlap_witness:
  "let a = \<lparr>bx_x = 0, bx_y = 0, bx_width = 4, bx_height = 2\<rparr>; b = \<lparr>bx_x = 2, bx_y = 0, bx_width = 4, bx_height = 2\<rparr>
   in bx_iou a b = 1 / 3 \<and> bx_iou b a = 1 / 3 \<and> bx_iou a a = 1"
  using box_overlap [of "\<lparr>bx_x = 0, bx_y = 0, bx_width = 4, bx_height = 2\<rparr>" "\<lparr>bx_x = 2, bx_y = 0, bx_width = 4, bx_height = 2\<rparr>"]
  by (simp add: box_simps bx_iou_def bx_intersection_def)

text \<open>Two boxes side by side share the points of their common edge, although neither pixel row nor column overlaps.\<close>

lemma adjacent_boxes_intersect:
  "0 < w \<Longrightarrow> 0 < h \<Longrightarrow> bx_intersects \<lparr>bx_x = x, bx_y = y, bx_width = w, bx_height = h\<rparr> \<lparr>bx_x = x + w, bx_y = y, bx_width = w, bx_height = h\<rparr>"
  by (simp add: box_simps)

section \<open>What sanitising leaves\<close>

text \<open>The marks that replace sensitive text are not sensitive themselves.\<close>

definition marks_clean :: "vision_config \<Rightarrow> bool" where
  "marks_clean cfg =
     list_all (\<lambda>m. \<not> is_text_sensitive cfg m)
       [''[REDACTED_LABEL]'', ''[REDACTED_OCR]'', ''[REDACTED_PLACEHOLDER]'', ''[REDACTED_REGION]'', ''[REDACTED_WINDOW]'']"

lemma sensitive_occurs:
  "is_text_sensitive cfg t \<Longrightarrow> vc_keywords cfg \<noteq> [] \<Longrightarrow> \<exists>k \<in> set (vc_keywords cfg). contains (lower t) (lower k)"
  using word_search_occurs [of "vc_keywords cfg" t] by (simp add: is_text_sensitive_def sensitive_regex_def)

lemma default_marks_clean: "marks_clean default_vision_config"
proof -
  let ?marks = "[''[REDACTED_LABEL]'', ''[REDACTED_OCR]'', ''[REDACTED_PLACEHOLDER]'', ''[REDACTED_REGION]'', ''[REDACTED_WINDOW]'']"
  have "list_all (\<lambda>m. list_all (\<lambda>k. \<not> contains m k) (map lower DEFAULT_SENSITIVE_KEYWORDS)) (map lower ?marks)"
    by code_simp
  then show ?thesis
    using sensitive_occurs [of default_vision_config] unfolding marks_clean_def list_all_iff
    by (force simp: default_vision_config_def DEFAULT_SENSITIVE_KEYWORDS_def)
qed

definition element_clean :: "vision_config \<Rightarrow> visual_element \<Rightarrow> bool" where
  "element_clean cfg e =
     (if ve_type e = EInputPassword
      then ve_label e = ''[PASSWORD FIELD]'' \<and> ve_ocr e = ''********'' \<and> ve_placeholder e = Some ''********'' \<and> ve_sensitive e
      else \<not> is_text_sensitive cfg (ve_label e) \<and> \<not> is_text_sensitive cfg (ve_ocr e) \<and>
           \<not> is_text_sensitive cfg (opt_str (ve_placeholder e)))"

lemma sanitize_element_clean: "marks_clean cfg \<Longrightarrow> element_clean cfg (sanitize_element cfg e)"
  by (auto simp: element_clean_def sanitize_element_def detect_sensitive_element_def marks_clean_def opt_str_def)

lemma sanitize_element_frame [simp]:
  "ve_id (sanitize_element cfg e) = ve_id e" "ve_type (sanitize_element cfg e) = ve_type e"
  "ve_bounds (sanitize_element cfg e) = ve_bounds e" "ve_clickable (sanitize_element cfg e) = ve_clickable e"
  "ve_region (sanitize_element cfg e) = ve_region e" "ve_confidence (sanitize_element cfg e) = ve_confidence e"
  by (simp_all add: sanitize_element_def)

lemma sanitize_element_again: "element_clean cfg e \<Longrightarrow> sanitize_element cfg e = e"
  by (cases e) (auto simp: element_clean_def sanitize_element_def detect_sensitive_element_def)

section \<open>What the analysis flags\<close>

lemma enclosing_index_least:
  assumes "enclosing_index rs p = Some i"
  shows "i < length rs \<and> bx_contains (sr_bounds (rs ! i)) p \<and>
    (\<forall>j < length rs. bx_contains (sr_bounds (rs ! j)) p \<longrightarrow> bx_area (sr_bounds (rs ! i)) \<le> bx_area (sr_bounds (rs ! j)))"
proof -
  let ?f = "\<lambda>i. bx_area (sr_bounds (rs ! i))" and ?js = "filter (\<lambda>i. bx_contains (sr_bounds (rs ! i)) p) [0..<length rs]"
  obtain js where s: "sort_key ?f ?js = i # js"
    using assms by (auto simp: enclosing_index_def split: list.splits)
  have "set (i # js) = {j. j < length rs \<and> bx_contains (sr_bounds (rs ! j)) p}"
    unfolding s [symmetric] by auto
  moreover have "sorted (map ?f (i # js))" unfolding s [symmetric] by (rule sorted_sort_key)
  ultimately show ?thesis by (auto simp: set_eq_iff)
qed

lemma enclosing_index_None: "enclosing_index rs p = None \<longleftrightarrow> (\<forall>r \<in> set rs. \<not> bx_contains (sr_bounds r) p)"
proof -
  have "enclosing_index rs p = None \<longleftrightarrow> filter (\<lambda>i. bx_contains (sr_bounds (rs ! i)) p) [0..<length rs] = []"
    by (auto simp: enclosing_index_def split: list.splits) (metis length_0_conv length_sort)+
  also have "\<dots> \<longleftrightarrow> (\<forall>r \<in> set rs. \<not> bx_contains (sr_bounds r) p)"
    by (auto simp add: filter_empty_conv all_set_conv_all_nth)
  finally show ?thesis .
qed

text \<open>Assigning an element only ever appends to the element lists of the regions.\<close>

definition region_frame :: "screen_region \<Rightarrow> screen_region" where
  "region_frame r = r\<lparr>sr_elements := []\<rparr>"

lemma region_frame_eq:
  assumes "map region_frame rs = map region_frame rs'" "i < length rs"
  shows "sr_bounds (rs ! i) = sr_bounds (rs' ! i)" "sr_id (rs ! i) = sr_id (rs' ! i)"
    "sr_sensitive (rs ! i) = sr_sensitive (rs' ! i)" "sr_title (rs ! i) = sr_title (rs' ! i)"
proof -
  have "i < length rs'" using assms by (metis length_map)
  with assms have "region_frame (rs ! i) = region_frame (rs' ! i)" by (metis nth_map)
  then show "sr_bounds (rs ! i) = sr_bounds (rs' ! i)" "sr_id (rs ! i) = sr_id (rs' ! i)"
    "sr_sensitive (rs ! i) = sr_sensitive (rs' ! i)" "sr_title (rs ! i) = sr_title (rs' ! i)"
    by (cases "rs ! i"; cases "rs' ! i"; simp add: region_frame_def)+
qed

lemma insort_key_cong: "\<forall>y \<in> insert x (set ys). f y = g y \<Longrightarrow> insort_key f x ys = insort_key g x ys"
  by (induction ys) auto

lemma sort_key_eq: "\<forall>x \<in> set xs. f x = g x \<Longrightarrow> sort_key f xs = sort_key g xs"
proof (induction xs)
  case (Cons x xs)
  then show ?case using insort_key_cong [of x "sort_key g xs" f g] by (simp add: sort_key_simps)
qed (simp add: sort_key_simps)

lemma enclosing_index_frame:
  assumes "map region_frame rs = map region_frame rs'"
  shows "enclosing_index rs p = enclosing_index rs' p"
proof -
  have l: "length rs = length rs'" using assms by (metis length_map)
  have "filter (\<lambda>i. bx_contains (sr_bounds (rs ! i)) p) [0..<length rs] = filter (\<lambda>i. bx_contains (sr_bounds (rs' ! i)) p) [0..<length rs']"
    unfolding l by (rule filter_cong) (use region_frame_eq(1) [OF assms] l in auto)
  moreover have "sort_key (\<lambda>i. bx_area (sr_bounds (rs ! i))) js = sort_key (\<lambda>i. bx_area (sr_bounds (rs' ! i))) js"
    if "js = filter (\<lambda>i. bx_contains (sr_bounds (rs' ! i)) p) [0..<length rs']" for js
    using that l by (intro sort_key_eq) (auto simp: region_frame_eq(1) [OF assms])
  ultimately show ?thesis unfolding enclosing_index_def by simp
qed

lemma assign_element_frame: "map region_frame (snd (assign_element e rs)) = map region_frame rs"
proof (cases "enclosing_index rs (bx_center (ve_bounds e))")
  case (Some i)
  then have "i < length rs" using enclosing_index_least by blast
  then show ?thesis
    by (simp add: assign_element_def Some Let_def map_update region_frame_def list_update_same_conv)
qed (simp add: assign_element_def)

lemma assign_element_cong:
  assumes "map region_frame rs = map region_frame rs'"
  shows "fst (assign_element e rs) = fst (assign_element e rs')"
proof (cases "enclosing_index rs (bx_center (ve_bounds e))")
  case (Some i)
  then have "i < length rs" using enclosing_index_least by blast
  with Some enclosing_index_frame [OF assms, of "bx_center (ve_bounds e)"] show ?thesis
    by (simp add: assign_element_def Let_def region_frame_eq [OF assms])
next
  case None
  with enclosing_index_frame [OF assms, of "bx_center (ve_bounds e)"] show ?thesis by (simp add: assign_element_def)
qed

lemma assign_all:
  "fst (assign_elements_to_regions es rs) = map (\<lambda>e. fst (assign_element e rs)) es \<and>
   map region_frame (snd (assign_elements_to_regions es rs)) = map region_frame rs"
proof (induction es arbitrary: rs)
  case (Cons e es)
  have f: "map region_frame (snd (assign_element e rs)) = map region_frame rs" by (rule assign_element_frame)
  from Cons.IH [of "snd (assign_element e rs)"] f show ?case
    by (auto simp: Let_def split: prod.splits) (metis assign_element_cong snd_conv f)
qed simp

text \<open>An element as the analysis leaves it: assigned to its innermost region and flagged.\<close>

definition analysed :: "vision_config \<Rightarrow> screen_region list \<Rightarrow> visual_element \<Rightarrow> visual_element" where
  "analysed cfg rs e = flag_element cfg (fst (assign_element e rs))"

lemma assign_element_keeps [simp]:
  "ve_id (fst (assign_element e rs)) = ve_id e" "ve_type (fst (assign_element e rs)) = ve_type e"
  "ve_bounds (fst (assign_element e rs)) = ve_bounds e" "ve_label (fst (assign_element e rs)) = ve_label e"
  "ve_ocr (fst (assign_element e rs)) = ve_ocr e" "ve_placeholder (fst (assign_element e rs)) = ve_placeholder e"
  "ve_confidence (fst (assign_element e rs)) = ve_confidence e"
  by (auto simp: assign_element_def Let_def split: option.splits)

lemma detect_frame: "ve_type e = ve_type e' \<Longrightarrow> ve_label e = ve_label e' \<Longrightarrow> ve_ocr e = ve_ocr e' \<Longrightarrow>
    ve_placeholder e = ve_placeholder e' \<Longrightarrow> detect_sensitive_element cfg e = detect_sensitive_element cfg e'"
  by (simp add: detect_sensitive_element_def)

lemma detect_assigned [simp]: "detect_sensitive_element cfg (fst (assign_element e rs)) = detect_sensitive_element cfg e"
  by (rule detect_frame) simp_all

lemma enrich_elements:
  "so_elements (enrich cfg ob) =
     (let es = map (analysed cfg (so_regions ob)) (so_elements ob)
      in if length es > vc_max_elements cfg then take (vc_max_elements cfg) (sort_desc ve_confidence es) else es)"
  using assign_all [of "so_elements ob" "so_regions ob"]
  by (cases "assign_elements_to_regions (so_elements ob) (so_regions ob)") (simp add: enrich_def Let_def analysed_def [abs_def] comp_def)

lemma sort_desc_take_best:
  assumes "x \<in> set (take n (sort_desc f xs))" "y \<in> set (drop n (sort_desc f xs))"
  shows "f y \<le> f x"
proof -
  have "sorted (map (\<lambda>x. - f x) (take n (sort_desc f xs)) @ map (\<lambda>x. - f x) (drop n (sort_desc f xs)))"
    using sorted_sort_desc [of f xs] by (simp flip: map_append)
  then show ?thesis using assms by (auto simp: sorted_append)
qed

lemma analysed_marks:
  "(detect_sensitive_element cfg e \<longrightarrow> ve_sensitive (analysed cfg rs e)) \<and>
   (\<forall>i. enclosing_index rs (bx_center (ve_bounds e)) = Some i \<longrightarrow>
      ve_region (analysed cfg rs e) = Some (sr_id (rs ! i)) \<and> (sr_sensitive (rs ! i) \<longrightarrow> ve_sensitive (analysed cfg rs e)))"
proof -
  have "detect_sensitive_element cfg e \<longrightarrow> ve_sensitive (analysed cfg rs e)"
    by (simp add: analysed_def flag_element_def)
  then show ?thesis by (auto simp: analysed_def flag_element_def assign_element_def Let_def)
qed

lemma analysed_confidence [simp]: "ve_confidence (analysed cfg rs e) = ve_confidence e"
  by (simp add: analysed_def flag_element_def)

lemma enrich_from:
  assumes "e' \<in> set (so_elements (enrich cfg ob))"
  shows "\<exists>e \<in> set (so_elements ob). e' = analysed cfg (so_regions ob) e"
proof -
  have "e' \<in> set (map (analysed cfg (so_regions ob)) (so_elements ob))"
    using assms by (auto simp: enrich_elements Let_def dest: in_set_takeD split: if_splits)
  then show ?thesis by auto
qed

lemma enrich_kept:
  assumes "e' \<in> set (so_elements (enrich cfg ob))" "x \<in> set (so_elements ob)"
  shows "analysed cfg (so_regions ob) x \<in> set (so_elements (enrich cfg ob)) \<or> ve_confidence x \<le> ve_confidence e'"
proof (cases "length (so_elements ob) > vc_max_elements cfg")
  case True
  let ?es = "map (analysed cfg (so_regions ob)) (so_elements ob)"
  let ?s = "sort_desc ve_confidence ?es" and ?n = "vc_max_elements cfg"
  have "set (take ?n ?s) \<union> set (drop ?n ?s) = set ?es"
    by (simp only: set_append [symmetric] append_take_drop_id set_sort_desc)
  moreover have "analysed cfg (so_regions ob) x \<in> set ?es" using assms(2) by simp
  ultimately have "analysed cfg (so_regions ob) x \<in> set (take ?n ?s) \<or> analysed cfg (so_regions ob) x \<in> set (drop ?n ?s)"
    by blast
  moreover have e: "so_elements (enrich cfg ob) = take ?n ?s" using True by (simp add: enrich_elements)
  ultimately show ?thesis
    using assms(1) sort_desc_take_best [of e' ?n ve_confidence ?es "analysed cfg (so_regions ob) x"] unfolding e by auto
next
  case False
  then show ?thesis using assms(2) by (simp add: enrich_elements)
qed

text \<open>
  What the analysis of a screen promises. At most the configured number of elements is kept, and a dropped element
  is not more certain than any kept one; every element carries its innermost region, and is marked sensitive
  when it is a password field, when one of its texts holds a keyword, or when the provider marked that region.
\<close>

theorem analysis_flags:
  "length (so_elements (enrich cfg ob)) = min (vc_max_elements cfg) (length (so_elements ob)) \<and>
   (\<forall>e' \<in> set (so_elements (enrich cfg ob)).
     (\<exists>e \<in> set (so_elements ob). e' = analysed cfg (so_regions ob) e \<and> (detect_sensitive_element cfg e \<longrightarrow> ve_sensitive e') \<and>
        (\<forall>i. enclosing_index (so_regions ob) (bx_center (ve_bounds e)) = Some i \<longrightarrow>
           ve_region e' = Some (sr_id (so_regions ob ! i)) \<and> (sr_sensitive (so_regions ob ! i) \<longrightarrow> ve_sensitive e'))) \<and>
     (\<forall>x \<in> set (so_elements ob). analysed cfg (so_regions ob) x \<in> set (so_elements (enrich cfg ob)) \<or>
        ve_confidence x \<le> ve_confidence e'))"
proof (intro conjI ballI)
  show "length (so_elements (enrich cfg ob)) = min (vc_max_elements cfg) (length (so_elements ob))"
    by (auto simp: enrich_elements Let_def)
next
  fix e' assume "e' \<in> set (so_elements (enrich cfg ob))"
  then obtain e where "e \<in> set (so_elements ob)" "e' = analysed cfg (so_regions ob) e" using enrich_from by blast
  then show "\<exists>e \<in> set (so_elements ob). e' = analysed cfg (so_regions ob) e \<and> (detect_sensitive_element cfg e \<longrightarrow> ve_sensitive e') \<and>
        (\<forall>i. enclosing_index (so_regions ob) (bx_center (ve_bounds e)) = Some i \<longrightarrow>
           ve_region e' = Some (sr_id (so_regions ob ! i)) \<and> (sr_sensitive (so_regions ob ! i) \<longrightarrow> ve_sensitive e'))"
    using analysed_marks by (intro bexI [of _ e]) auto
qed (rule enrich_kept)

text \<open>
  Regions with a sensitive title are marked after their elements were assigned, so what stands in them is
  not marked, and a value without a keyword passes the sanitiser as it is.
\<close>

definition demo_box :: bounding_box where
  "demo_box = \<lparr>bx_x = 0, bx_y = 0, bx_width = 10, bx_height = 10\<rparr>"

definition demo_element :: visual_element where
  "demo_element = \<lparr>ve_id = ''e'', ve_type = EInputText, ve_bounds = demo_box, ve_label = [], ve_ocr = ''hunter2'',
     ve_placeholder = None, ve_confidence = 1, ve_clickable = True, ve_focusable = False, ve_sensitive = False, ve_region = None\<rparr>"

definition demo_region :: screen_region where
  "demo_region = \<lparr>sr_id = ''r'', sr_type = RgForm, sr_bounds = demo_box, sr_title = ''pin'', sr_focused = False,
     sr_sensitive = False, sr_elements = []\<rparr>"

definition demo_observation :: screen_observation where
  "demo_observation = \<lparr>so_id = ''o'', so_time = 0, so_path = None, so_width = 10, so_height = 10, so_monitor = 0,
     so_elements = [demo_element], so_regions = [demo_region], so_window = None, so_stale = False, so_raw_text = []\<rparr>"

theorem analysis_flags_witness:
  "\<exists>e \<in> set (so_elements (enrich default_vision_config demo_observation)). ve_region e = Some ''r''"
proof -
  have "length (so_elements (enrich default_vision_config demo_observation)) = 1 \<and>
      (\<forall>e' \<in> set (so_elements (enrich default_vision_config demo_observation)). ve_region e' = Some ''r'')"
    using analysis_flags [of default_vision_config demo_observation]
    by (simp add: demo_observation_def demo_element_def demo_region_def demo_box_def default_vision_config_def enclosing_index_def
        bx_center_def bx_contains_def bx_right_def bx_bottom_def)
  then show ?thesis by (cases "so_elements (enrich default_vision_config demo_observation)") auto
qed

lemma region_flag_too_late:
  "let ob = enrich default_vision_config demo_observation
   in map sr_sensitive (so_regions ob) = [True] \<and> map ve_sensitive (so_elements ob) = [False]"
  by code_simp

end
