(* ===== verification/Vision_Grounding.thy ===== *)
theory Vision_Grounding
  imports Vision_Model "HOL-Library.Multiset"
begin

text \<open>
  Grounding of queries on a screen, \<open>vision/grounding/\<close>: the similarity of texts (\<open>confidence.py\<close>), the scores of
  elements (\<open>matcher.py\<close>) and the resolution of a query to one target point (\<open>resolver.py\<close>). Floating point
  numbers are exact rationals; the texts that explain a score and the details of errors are left out.
\<close>

section \<open>Similarity of texts\<close>

text \<open>\<open>s.split()\<close>.\<close>

fun words_from :: "string \<Rightarrow> string \<Rightarrow> string list" where
  "words_from w [] = (if w = [] then [] else [rev w])"
| "words_from w (c # s) =
     (if is_space c then (if w = [] then words_from [] s else rev w # words_from [] s) else words_from (c # w) s)"

definition words :: "string \<Rightarrow> string list" where
  "words s = words_from [] s"

definition bigrams :: "string \<Rightarrow> string list" where
  "bigrams s = remdups (map (\<lambda>i. take 2 (drop i s)) [0..<length s - 1])"

definition common :: "'a list \<Rightarrow> 'a list \<Rightarrow> 'a list" where
  "common xs ys = filter (\<lambda>x. x \<in> set ys) (remdups xs)"

definition dice_similarity :: "string \<Rightarrow> string \<Rightarrow> rat" where
  "dice_similarity q t =
     (if length q < 2 \<or> length t < 2 then 0
      else let c = common (bigrams q) (bigrams t)
           in if c = [] then 0
              else let dice = 2 * of_nat (length c) / (of_nat (length (bigrams q)) + of_nat (length (bigrams t)))
                   in if dice \<ge> 3 / 10 then dice else 0)"

definition text_similarity :: "string \<Rightarrow> string \<Rightarrow> rat" where
  "text_similarity query target =
     (if query = [] \<or> target = [] then 0
      else let q = lower (strip query); t = lower (strip target)
           in if q = t then 1
              else if contains t q then 9 / 10 + 1 / 10 * (of_nat (length q) / of_nat (length t))
              else if contains q t then 85 / 100 + 1 / 10 * (of_nat (length t) / of_nat (length q))
              else let c = common (words q) (words t)
                   in if c \<noteq> []
                      then 7 / 10 + of_nat (length c) / of_nat (length (remdups (words q @ words t))) * (1 / 4)
                      else dice_similarity q t)"

definition categorize_confidence :: "rat \<Rightarrow> rat \<Rightarrow> rat \<Rightarrow> confidence_level" where
  "categorize_confidence high medium score = (if score \<ge> high then CHigh else if score \<ge> medium then CMedium else CLow)"

section \<open>Scores of elements\<close>

definition TYPE_HINTS :: "(element_type \<times> string list) list" where
  "TYPE_HINTS =
     [(EButton, [''button'', ''btn'', ''press'', ''click'']),
      (EInputText, [''input'', ''text box'', ''textbox'', ''field'', ''type'', ''search bar'', ''url bar'', ''address bar'']),
      (EInputPassword, [''password'', ''pin'', ''passcode'']),
      (ECheckbox, [''checkbox'', ''check box'', ''tick'']),
      (ERadio, [''radio'', ''radio button'', ''option'']),
      (ELink, [''link'', ''hyperlink'', ''anchor'']),
      (EIcon, [''icon'', ''symbol'', ''glyph'', ''close'', ''settings'', ''gear'']),
      (ETab, [''tab'', ''page tab'']),
      (EMenuItem, [''menu'', ''item'', ''option'', ''dropdown''])]"

definition STRIP_WORDS :: "string list" where
  "STRIP_WORDS =
     [''click'', ''press'', ''tap'', ''type'', ''enter'', ''select'', ''the'', ''a'', ''an''] @ concat (map snd TYPE_HINTS)"

definition strip_pattern :: rx where
  "strip_pattern = r_seq [RWordB, RGrp (r_alt (map r_lit_ci STRIP_WORDS)), RWordB]"

definition extract_type_hints :: "string \<Rightarrow> element_type list" where
  "extract_type_hints query =
     map fst (filter (\<lambda>(_, ks). list_ex (\<lambda>k. rx_search (r_seq [RWordB, r_lit k, RWordB]) (lower query)) ks) TYPE_HINTS)"

definition clean_query_text :: "string \<Rightarrow> string" where
  "clean_query_text query = join '' '' (words (rx_sub strip_pattern (\<lambda>_. []) query))"

text \<open>The greatest similarity of a query with one of the texts of an element.\<close>

definition best_text :: "string \<Rightarrow> visual_element \<Rightarrow> rat" where
  "best_text q e =
     max (text_similarity q (ve_label e)) (max (text_similarity q (ve_ocr e)) (text_similarity q (opt_str (ve_placeholder e))))"

definition score_element ::
  "string \<Rightarrow> visual_element \<Rightarrow> string option \<Rightarrow> element_type list option \<Rightarrow> rat" where
  "score_element query e clean hints =
     (let cq = strip query
      in if lower cq = lower (ve_id e) then 1
         else let ctq = (case clean of None \<Rightarrow> clean_query_text cq | Some c \<Rightarrow> c);
                  sim = (if ctq \<noteq> [] \<and> ctq \<noteq> cq then max (best_text cq e) (best_text ctq e) else best_text cq e);
                  hs = (case hints of None \<Rightarrow> extract_type_hints cq | Some h \<Rightarrow> h);
                  adj = (if hs = [] then 0 else if ve_type e \<in> set hs then 15 / 100 else - (20 / 100));
                  bonus = (if ve_clickable e \<and> list_ex (contains (lower cq)) [''click'', ''press'', ''tap''] then 4 / 100 else 0)
              in if ctq \<noteq> [] \<and> sim < 25 / 100 then 0
                 else let total =
                          (if sim \<ge> 95 / 100 then 92 / 100 + (sim - 95 / 100) * 1 + adj + bonus
                           else if sim \<ge> 70 / 100 then 75 / 100 + (sim - 70 / 100) * (1 / 2) + adj + bonus
                           else if sim \<ge> 35 / 100 then 40 / 100 + (sim - 35 / 100) * (8 / 10) + adj + bonus
                           else if hs \<noteq> [] \<and> ve_type e \<in> set hs then 45 / 100 + adj + bonus
                           else sim * (4 / 10) + adj)
                      in min 1 (max 0 (total * ve_confidence e)))"

record grounding_candidate =
  gc_element :: visual_element
  gc_score :: rat

text \<open>The score of an element in a match.\<close>

definition match_score :: "string \<Rightarrow> visual_element \<Rightarrow> rat" where
  "match_score q e = score_element q e (Some (clean_query_text (strip q))) (Some (extract_type_hints (strip q)))"

definition match_elements :: "string \<Rightarrow> visual_element list \<Rightarrow> grounding_candidate list" where
  "match_elements q es =
     sort_desc gc_score (map (\<lambda>e. \<lparr>gc_element = e, gc_score = match_score q e\<rparr>) (filter (\<lambda>e. match_score q e \<ge> 30 / 100) es))"

section \<open>Resolution\<close>

record grounding_result =
  gr_query :: string
  gr_element :: visual_element
  gr_point :: vision_point
  gr_confidence :: rat
  gr_level :: confidence_level
  gr_observation :: string
  gr_candidates :: "grounding_candidate list"
  gr_ambiguous :: bool
  gr_action :: string

definition result_dict :: "grounding_result \<Rightarrow> pyval" where
  "result_dict r =
     PDict [(''query'', PStr (gr_query r)), (''element_id'', PStr (ve_id (gr_element r))),
            (''element_type'', PStr (element_type_value (ve_type (gr_element r)))), (''target_point'', point_dict (gr_point r)),
            (''confidence'', PFloat (round_to 4 (gr_confidence r))),
            (''confidence_level'', PStr (confidence_level_value (gr_level r))),
            (''observation_id'', PStr (gr_observation r)), (''is_ambiguous'', PBool (gr_ambiguous r)),
            (''candidate_count'', PInt (int (length (gr_candidates r)))), (''bounds'', box_dict (ve_bounds (gr_element r))),
            (''suggested_action'', PStr (gr_action r))]"

record target_query =
  tg_query :: string
  tg_type :: "element_type option"
  tg_region :: "string option"
  tg_clickable :: bool
  tg_min :: "rat option"
  tg_allow :: bool

text \<open>The scope of a query: an empty region id restricts nothing.\<close>

definition in_scope :: "target_query \<Rightarrow> visual_element \<Rightarrow> bool" where
  "in_scope tq e =
     ((case tg_region tq of None \<Rightarrow> True | Some r \<Rightarrow> r = [] \<or> ve_region e = Some r) \<and>
      (case tg_type tq of None \<Rightarrow> True | Some t \<Rightarrow> ve_type e = t) \<and> (tg_clickable tq \<longrightarrow> ve_clickable e))"

definition required_score :: "vision_config \<Rightarrow> target_query \<Rightarrow> rat" where
  "required_score cfg tq = (case tg_min tq of None \<Rightarrow> vc_medium cfg | Some m \<Rightarrow> m)"

definition suggested_action :: "visual_element \<Rightarrow> string" where
  "suggested_action e =
     (if ve_type e \<in> {EInputText, EInputPassword} then ''type'' else if ve_clickable e then ''click'' else ''inspect'')"

definition resolve :: "vision_config \<Rightarrow> target_query \<Rightarrow> rat \<Rightarrow> screen_observation \<Rightarrow> vision_error + grounding_result" where
  "resolve cfg tq now ob =
     (if obs_age now ob > vc_ttl cfg then Inl (StaleObservation (obs_age now ob) (vc_ttl cfg))
      else let es = filter (in_scope tq) (so_elements ob)
           in if es = [] then Inl (ElementNotFound (tg_query tq))
              else case match_elements (tg_query tq) es of
                     [] \<Rightarrow> Inl (ElementNotFound (tg_query tq))
                   | best # rest \<Rightarrow>
                       if gc_score best < required_score cfg tq
                       then Inl (ConfidenceRejected (tg_query tq) (gc_score best) (required_score cfg tq))
                       else let close = (rest \<noteq> [] \<and> gc_score best - gc_score (hd rest) \<le> vc_ambiguity cfg)
                            in if close \<and> \<not> tg_allow tq
                               then Inl (TargetAmbiguity (tg_query tq) (length (take 3 (best # rest))) (gc_score best - gc_score (hd rest)))
                               else let p = bx_center (ve_bounds (gc_element best))
                                    in case validate_point p None of
                                         Some err \<Rightarrow> Inl err
                                       | None \<Rightarrow>
                                           Inr \<lparr>gr_query = tg_query tq, gr_element = gc_element best, gr_point = p,
                                                gr_confidence = gc_score best,
                                                gr_level = categorize_confidence (vc_high cfg) (vc_medium cfg) (gc_score best),
                                                gr_observation = so_id ob, gr_candidates = take 5 (best # rest),
                                                gr_ambiguous = close, gr_action = suggested_action (gc_element best)\<rparr>)"

section \<open>Scores lie between 0 and 1\<close>

lemma length_common: "length (common xs ys) \<le> length (remdups xs)" "length (common xs ys) \<le> length (remdups ys)"
proof -
  show "length (common xs ys) \<le> length (remdups xs)" by (simp add: common_def)
  have "length (common xs ys) = card (set xs \<inter> set ys)"
    unfolding common_def by (subst distinct_card [symmetric]) (auto simp: Int_def)
  also have "\<dots> \<le> card (set ys)" by (intro card_mono) auto
  finally show "length (common xs ys) \<le> length (remdups ys)" by (simp add: length_remdups_card_conv)
qed

lemma dice_range: "0 \<le> dice_similarity q t \<and> dice_similarity q t \<le> 1"
proof -
  let ?c = "length (common (bigrams q) (bigrams t))" and ?a = "length (bigrams q)" and ?b = "length (bigrams t)"
  have "distinct (bigrams q)" "distinct (bigrams t)" by (simp_all add: bigrams_def)
  then have "?c \<le> ?a" "?c \<le> ?b" using length_common [of "bigrams q" "bigrams t"] by (simp_all add: distinct_remdups_id)
  then have "2 * of_nat ?c \<le> (of_nat ?a + of_nat ?b :: rat)"
    by (metis add_mono mult_2 of_nat_add of_nat_mono)
  then show ?thesis by (auto simp: dice_similarity_def Let_def divide_le_eq)
qed

lemma ratio_range: "a \<le> b \<Longrightarrow> 0 \<le> (of_nat a / of_nat b :: rat) \<and> of_nat a / of_nat b \<le> (1 :: rat)"
  by (cases "b = 0") (auto simp: divide_le_eq)

lemma contains_length: "contains s k \<Longrightarrow> length k \<le> length s"
  by (auto simp: contains_iff)

abbreviation unit_range :: "rat \<Rightarrow> bool" where
  "unit_range r \<equiv> 0 \<le> r \<and> r \<le> 1"

lemma unit_branches:
  "(b3 \<Longrightarrow> unit_range x) \<Longrightarrow> (b4 \<Longrightarrow> unit_range y) \<Longrightarrow> unit_range z \<Longrightarrow> unit_range u \<Longrightarrow>
   unit_range (if b1 then 0 else if b2 then 1 else if b3 then x else if b4 then y else if b5 then z else u)"
  by auto

lemma similarity_range: "unit_range (text_similarity q t)"
proof -
  let ?q = "lower (strip q)" and ?t = "lower (strip t)"
  let ?c = "common (words ?q) (words ?t)"
  have "card (set (words ?q)) \<le> card (set (words ?q @ words ?t))" by (intro card_mono) auto
  then have c: "length ?c \<le> length (remdups (words ?q @ words ?t))"
    using length_common(1) [of "words ?q" "words ?t"] by (simp only: length_remdups_card_conv)
  have scaled: "unit_range (9 / 10 + 1 / 10 * r)" "unit_range (85 / 100 + 1 / 10 * r)" "unit_range (7 / 10 + r * (1 / 4))"
    if "unit_range r" for r using that by auto
  have A: "contains ?t ?q \<Longrightarrow> unit_range (9 / 10 + 1 / 10 * (of_nat (length ?q) / of_nat (length ?t)))"
    by (intro scaled ratio_range contains_length)
  have B: "contains ?q ?t \<Longrightarrow> unit_range (85 / 100 + 1 / 10 * (of_nat (length ?t) / of_nat (length ?q)))"
    by (intro scaled ratio_range contains_length)
  have C: "unit_range (7 / 10 + of_nat (length ?c) / of_nat (length (remdups (words ?q @ words ?t))) * (1 / 4))"
    by (intro scaled ratio_range c)
  show ?thesis
    unfolding text_similarity_def Let_def by (rule unit_branches) (erule A, erule B, rule C, rule dice_range)
qed

lemma best_text_range: "0 \<le> best_text q e \<and> best_text q e \<le> 1"
  using similarity_range [of q] by (auto simp: best_text_def max_def)

lemma score_range: "0 \<le> score_element q e c h \<and> score_element q e c h \<le> 1"
proof -
  have "unit_range (if b1 then 1 else if b2 then 0 else min 1 (max 0 x))" for b1 b2 and x :: rat by simp
  then show ?thesis unfolding score_element_def Let_def .
qed

lemma match_score_range: "unit_range (match_score q e)"
  unfolding match_score_def by (rule score_range)

section \<open>What resolution returns\<close>

lemma match_elements_mset:
  "mset (match_elements q es) = mset (map (\<lambda>e. \<lparr>gc_element = e, gc_score = match_score q e\<rparr>) (filter (\<lambda>e. match_score q e \<ge> 30 / 100) es))"
  by (simp add: match_elements_def sort_desc_def)

lemma match_elements_mem:
  "c \<in> set (match_elements q es) \<longleftrightarrow>
   gc_element c \<in> set es \<and> gc_score c = match_score q (gc_element c) \<and> 30 / 100 \<le> gc_score c"
  unfolding match_elements_def set_sort_desc by (cases c) auto

lemma match_elements_best:
  assumes "match_elements q es = c # cs" "e \<in> set es"
  shows "match_score q e \<le> gc_score c"
proof (cases "match_score q e \<ge> 30 / 100")
  case True
  have "\<lparr>gc_element = e, gc_score = match_score q e\<rparr> \<in> set (match_elements q es)"
    unfolding match_elements_mem using True assms(2) by simp
  from sort_desc_hd [OF assms(1) [unfolded match_elements_def] this [unfolded match_elements_def set_sort_desc]]
  show ?thesis by simp
next
  case False
  have "c \<in> set (match_elements q es)" using assms(1) by simp
  then have "30 / 100 \<le> gc_score c" unfolding match_elements_mem by simp
  with False show ?thesis by linarith
qed

lemma match_elements_rest:
  assumes "match_elements q es = c # cs" "c' \<in> set cs"
  shows "gc_score c' \<le> gc_score (hd cs)"
proof -
  have "sorted (map (\<lambda>c. - gc_score c) (c # cs))"
    using sorted_sort_desc [of gc_score] assms(1) unfolding match_elements_def by metis
  then show ?thesis using assms(2) by (cases cs) auto
qed

lemma resolve_Inr:
  assumes "resolve cfg tq now ob = Inr r"
  obtains c cs where "match_elements (tg_query tq) (filter (in_scope tq) (so_elements ob)) = c # cs"
    and "obs_age now ob \<le> vc_ttl cfg" and "required_score cfg tq \<le> gc_score c"
    and "gr_ambiguous r \<longleftrightarrow> cs \<noteq> [] \<and> gc_score c - gc_score (hd cs) \<le> vc_ambiguity cfg"
    and "gr_ambiguous r \<longrightarrow> tg_allow tq" and "gr_element r = gc_element c" and "gr_confidence r = gc_score c"
    and "gr_point r = bx_center (ve_bounds (gc_element c))" and "0 \<le> vp_x (gr_point r)" and "0 \<le> vp_y (gr_point r)"
    and "gr_level r = categorize_confidence (vc_high cfg) (vc_medium cfg) (gc_score c)"
  using assms
  by (cases "match_elements (tg_query tq) (filter (in_scope tq) (so_elements ob))")
     (auto simp: resolve_def Let_def validate_point_def split: if_splits option.splits)

lemma resolve_sound_facts:
  assumes "resolve cfg tq now ob = Inr r" and "\<forall>e \<in> set (so_elements ob). box_ok (ve_bounds e)"
  shows "obs_age now ob \<le> vc_ttl cfg \<and> gr_element r \<in> set (so_elements ob) \<and> in_scope tq (gr_element r) \<and>
    gr_confidence r = match_score (tg_query tq) (gr_element r) \<and> unit_range (gr_confidence r) \<and>
    required_score cfg tq \<le> gr_confidence r \<and>
    (\<forall>e \<in> set (so_elements ob). in_scope tq e \<longrightarrow> match_score (tg_query tq) e \<le> gr_confidence r) \<and>
    bx_contains (ve_bounds (gr_element r)) (gr_point r) \<and> 0 \<le> vp_x (gr_point r) \<and> 0 \<le> vp_y (gr_point r) \<and>
    (gr_ambiguous r \<longrightarrow> tg_allow tq) \<and>
    (\<not> gr_ambiguous r \<longrightarrow> (\<forall>e \<in> set (so_elements ob). in_scope tq e \<and> e \<noteq> gr_element r \<and> 30 / 100 \<le> match_score (tg_query tq) e
        \<longrightarrow> match_score (tg_query tq) e < gr_confidence r - vc_ambiguity cfg))"
proof -
  let ?es = "filter (in_scope tq) (so_elements ob)"
  from assms(1) obtain c cs where m: "match_elements (tg_query tq) ?es = c # cs"
    and r: "obs_age now ob \<le> vc_ttl cfg" "required_score cfg tq \<le> gc_score c"
      "gr_ambiguous r \<longleftrightarrow> cs \<noteq> [] \<and> gc_score c - gc_score (hd cs) \<le> vc_ambiguity cfg" "gr_ambiguous r \<longrightarrow> tg_allow tq"
      "gr_element r = gc_element c" "gr_confidence r = gc_score c" "gr_point r = bx_center (ve_bounds (gc_element c))"
      "0 \<le> vp_x (gr_point r)" "0 \<le> vp_y (gr_point r)"
    by (rule resolve_Inr)
  have "c \<in> set (match_elements (tg_query tq) ?es)" using m by simp
  then have c: "gc_element c \<in> set (so_elements ob)" "in_scope tq (gc_element c)" "gc_score c = match_score (tg_query tq) (gc_element c)"
    unfolding match_elements_mem by auto
  have best: "match_score (tg_query tq) e \<le> gc_score c" if "e \<in> set (so_elements ob)" "in_scope tq e" for e
    using match_elements_best [OF m] that by simp
  have clear: "match_score (tg_query tq) e < gc_score c - vc_ambiguity cfg"
    if "\<not> gr_ambiguous r" "e \<in> set (so_elements ob)" "in_scope tq e" "e \<noteq> gc_element c" "30 / 100 \<le> match_score (tg_query tq) e" for e
  proof -
    have "\<lparr>gc_element = e, gc_score = match_score (tg_query tq) e\<rparr> \<in> set (match_elements (tg_query tq) ?es)"
      unfolding match_elements_mem using that by simp
    then have "\<lparr>gc_element = e, gc_score = match_score (tg_query tq) e\<rparr> \<in> set cs"
      unfolding m using that(4) by auto
    from match_elements_rest [OF m this] this that(1) r(3) show ?thesis by (cases cs) auto
  qed
  show ?thesis
    using r c best clear match_score_range [of "tg_query tq" "gc_element c"] center_inside [of "ve_bounds (gc_element c)"] assms(2)
    by auto
qed

text \<open>
  C18. What a resolved target is. The observation is not past its time to live; the target is an element of it within
  the scope of the query, no element in scope scores higher, its score is the confidence, lies in [0, 1] and reaches
  the required one; the point lies in the box of the element and has no negative coordinate; and unless the answer
  is marked ambiguous, which the caller must have allowed, every other match is behind by more than the margin.
\<close>

theorem resolve_sound:
  assumes "resolve cfg tq now ob = Inr r" and "\<forall>e \<in> set (so_elements ob). box_ok (ve_bounds e)"
  shows "obs_age now ob \<le> vc_ttl cfg \<and> gr_element r \<in> set (so_elements ob) \<and> in_scope tq (gr_element r) \<and>
    gr_confidence r = match_score (tg_query tq) (gr_element r) \<and> unit_range (gr_confidence r) \<and>
    required_score cfg tq \<le> gr_confidence r \<and>
    (\<forall>e \<in> set (so_elements ob). in_scope tq e \<longrightarrow> match_score (tg_query tq) e \<le> gr_confidence r) \<and>
    bx_contains (ve_bounds (gr_element r)) (gr_point r) \<and> 0 \<le> vp_x (gr_point r) \<and> 0 \<le> vp_y (gr_point r) \<and>
    (gr_ambiguous r \<longrightarrow> tg_allow tq) \<and>
    (\<not> gr_ambiguous r \<longrightarrow> (\<forall>e \<in> set (so_elements ob). in_scope tq e \<and> e \<noteq> gr_element r \<and> 30 / 100 \<le> match_score (tg_query tq) e
        \<longrightarrow> match_score (tg_query tq) e < gr_confidence r - vc_ambiguity cfg))"
  using assms by (rule resolve_sound_facts)

lemma mset_pick: "P e \<Longrightarrow> mset (map f (filter P (xs @ e # ys))) = mset (f e # map f (filter P (xs @ ys)))"
  by simp

text \<open>A query with a clear winner is resolved to it.\<close>

lemma clear_winner_resolves:
  assumes "obs_age now ob \<le> vc_ttl cfg" and "filter (in_scope tq) (so_elements ob) = xs @ e # ys"
    and "30 / 100 \<le> match_score (tg_query tq) e" and "required_score cfg tq \<le> match_score (tg_query tq) e"
    and "\<forall>x \<in> set (xs @ ys). 30 / 100 \<le> match_score (tg_query tq) x \<longrightarrow> match_score (tg_query tq) x < match_score (tg_query tq) e - vc_ambiguity cfg"
    and "0 \<le> vc_ambiguity cfg" and "0 \<le> vp_x (bx_center (ve_bounds e))" and "0 \<le> vp_y (bx_center (ve_bounds e))"
  shows "\<exists>r. resolve cfg tq now ob = Inr r \<and> gr_element r = e \<and> \<not> gr_ambiguous r"
proof -
  let ?q = "tg_query tq" and ?c = "\<lambda>e. \<lparr>gc_element = e, gc_score = match_score (tg_query tq) e\<rparr>"
  let ?zs = "filter (\<lambda>e. match_score ?q e \<ge> 30 / 100) (xs @ ys)"
  have ms: "mset (match_elements ?q (xs @ e # ys)) = mset (?c e # map ?c ?zs)"
    unfolding match_elements_mset by (rule mset_pick) (rule assms(3))
  have "?c e \<in> set (match_elements ?q (xs @ e # ys))" unfolding match_elements_mem using assms(3) by simp
  then obtain c cs where m: "match_elements ?q (xs @ e # ys) = c # cs" by (cases "match_elements ?q (xs @ e # ys)") auto
  have "match_score ?q e \<le> gc_score c" using match_elements_best [OF m] by simp
  moreover have "c \<in> set (?c e # map ?c ?zs)" using mset_eq_setD [OF ms] unfolding m by auto
  ultimately have c: "c = ?c e" using assms(5,6) by force
  have "mset cs = mset (map ?c ?zs)" using ms unfolding m c by simp
  then have cs: "set cs = set (map ?c ?zs)" by (rule mset_eq_setD)
  have gap: "gc_score (hd cs) < match_score ?q e - vc_ambiguity cfg" if "cs \<noteq> []"
  proof -
    have "hd cs \<in> set (map ?c ?zs)" using that cs by auto
    then show ?thesis using assms(5) by auto
  qed
  have "\<not> (cs \<noteq> [] \<and> match_score ?q e - gc_score (hd cs) \<le> vc_ambiguity cfg)"
    using gap by (cases "cs = []") (simp_all add: not_le)
  moreover have "\<not> obs_age now ob > vc_ttl cfg" "\<not> match_score ?q e < required_score cfg tq" using assms(1,4) by simp_all
  moreover have "validate_point (bx_center (ve_bounds e)) None = None" using assms(7,8) by (simp add: validate_point_def)
  ultimately show ?thesis
    unfolding resolve_def assms(2) Let_def m c by (simp only: list.case if_False if_True option.case append_is_Nil_conv list.distinct
        grounding_candidate.select_convs grounding_result.select_convs sum.inject simp_thms ex_simps)
qed

lemma match_by_id: "lower (strip q) = lower (ve_id e) \<Longrightarrow> match_score q e = 1"
  by (simp add: match_score_def score_element_def)

definition demo_query :: target_query where
  "demo_query = \<lparr>tg_query = ''e'', tg_type = None, tg_region = None, tg_clickable = True, tg_min = None, tg_allow = False\<rparr>"

lemma demo_resolved: "\<exists>r. resolve default_vision_config demo_query 3 demo_observation = Inr r \<and> gr_element r = demo_element \<and> \<not> gr_ambiguous r"
proof (rule clear_winner_resolves [of _ _ _ _ "[]" _ "[]"])
  have "lower (strip (tg_query demo_query)) = lower (ve_id demo_element)" by code_simp
  then have m: "match_score (tg_query demo_query) demo_element = 1" by (rule match_by_id)
  show "30 / 100 \<le> match_score (tg_query demo_query) demo_element" "required_score default_vision_config demo_query \<le> match_score (tg_query demo_query) demo_element"
    unfolding m by (simp_all add: required_score_def demo_query_def default_vision_config_def)
qed (simp_all add: demo_observation_def demo_element_def demo_box_def demo_query_def in_scope_def default_vision_config_def obs_age_def bx_center_def)

theorem resolve_sound_witness:
  "\<exists>r. resolve default_vision_config demo_query 3 demo_observation = Inr r \<and> bx_contains demo_box (gr_point r)"
proof -
  obtain r where r: "resolve default_vision_config demo_query 3 demo_observation = Inr r" "gr_element r = demo_element"
    using demo_resolved by blast
  have "\<forall>e \<in> set (so_elements demo_observation). box_ok (ve_bounds e)"
    by (simp add: demo_observation_def demo_element_def demo_box_def box_ok_def)
  from resolve_sound [OF r(1) this] have "bx_contains (ve_bounds (gr_element r)) (gr_point r)" by blast
  then show ?thesis using r by (auto simp: demo_element_def)
qed

section \<open>Blank texts match everything\<close>

text \<open>
  A label of spaces is not empty, but its stripped form is, and the empty text occurs in every query: such an
  element is similar to every query, strongly enough to be clicked.
\<close>

lemma blank_text_similar:
  assumes "t \<noteq> []" "strip t = []" "strip q \<noteq> []"
  shows "text_similarity q t = 85 / 100"
proof -
  have "q \<noteq> []" using assms(3) by (auto simp: strip_def lstrip_def rstrip_def)
  moreover have "lower (strip q) \<noteq> []" using assms(3) by (simp add: lower_def)
  moreover have "lower (strip t) = []" by (simp add: assms(2) lower_def)
  ultimately show ?thesis using assms(1) by (simp add: text_similarity_def Let_def)
qed

lemma blank_label_matches:
  assumes "ve_label e \<noteq> []" "strip (ve_label e) = []" "strip q \<noteq> []" "ve_confidence e = 1"
  shows "60 / 100 \<le> match_score q e"
proof (cases "lower (strip q) = lower (ve_id e)")
  case False
  let ?cq = "strip q" and ?ctq = "clean_query_text (strip q)" and ?hs = "extract_type_hints (strip q)"
  define sim where "sim = (if ?ctq \<noteq> [] \<and> ?ctq \<noteq> ?cq then max (best_text ?cq e) (best_text ?ctq e) else best_text ?cq e)"
  define adj :: rat where "adj = (if ?hs = [] then 0 else if ve_type e \<in> set ?hs then 15 / 100 else - (20 / 100))"
  define bonus :: rat where "bonus = (if ve_clickable e \<and> list_ex (contains (lower ?cq)) [''click'', ''press'', ''tap''] then 4 / 100 else 0)"
  have "text_similarity ?cq (ve_label e) = 85 / 100" using blank_text_similar assms by simp
  then have "85 / 100 \<le> best_text ?cq e" by (simp add: best_text_def)
  then have sim: "85 / 100 \<le> sim" by (auto simp: sim_def)
  have adj: "- (20 / 100) \<le> adj" and bonus: "0 \<le> bonus" by (simp_all add: adj_def bonus_def)
  define total where "total = (if sim \<ge> 95 / 100 then 92 / 100 + (sim - 95 / 100) * 1 + adj + bonus
      else 75 / 100 + (sim - 70 / 100) * (1 / 2) + adj + bonus)"
  have "match_score q e = min 1 (max 0 total)"
    using False sim assms(4)
    unfolding match_score_def score_element_def Let_def strip_idem option.case sim_def [symmetric] adj_def [symmetric] bonus_def [symmetric] total_def
    by simp
  moreover have "60 / 100 \<le> 75 / 100 + (sim - 70 / 100) * (1 / 2) + adj + bonus"
    using sim adj bonus by (auto simp: field_simps)
  moreover have "60 / 100 \<le> 92 / 100 + (sim - 95 / 100) * 1 + adj + bonus" if "sim \<ge> 95 / 100"
    using that adj bonus by (auto simp: field_simps)
  ultimately have "60 / 100 \<le> total" "match_score q e = min 1 (max 0 total)"
    unfolding total_def by (simp_all only: split: if_split) blast
  then show ?thesis by (simp add: le_max_iff_disj)
qed (simp add: match_by_id)

end
