(* ===== verification/Vision_Manager.thy ===== *)
theory Vision_Manager
  imports Vision_Grounding
begin

text \<open>
  The vision manager (\<open>vision/manager.py\<close>) with its cache of observations, the three vision tools
  (\<open>vision/tools/\<close>) and the mock provider (\<open>vision/providers/mock.py\<close>) behind the provider interface. The
  provider and the screen capture are functions on an abstract world; time is an argument of each call.
  Correlation ids, event ids and time stamps of events, and the logger are left out.
\<close>

section \<open>The mock provider\<close>

record mock_vision =
  mv_fail :: bool
  mv_elements :: "visual_element list"
  mv_regions :: "screen_region list"
  mv_window :: "string option"
  mv_raw :: string

definition mock_vision_init :: "bool \<Rightarrow> mock_vision" where
  "mock_vision_init fail =
     \<lparr>mv_fail = fail, mv_elements = [], mv_regions = [], mv_window = Some ''Google Chrome - Search'', mv_raw = []\<rparr>"

definition mock_vision_reset :: "mock_vision \<Rightarrow> mock_vision" where
  "mock_vision_reset mv = mock_vision_init False"

definition mock_add_element :: "visual_element \<Rightarrow> mock_vision \<Rightarrow> mock_vision" where
  "mock_add_element e mv = mv\<lparr>mv_elements := mv_elements mv @ [e]\<rparr>"

definition mock_add_region :: "screen_region \<Rightarrow> mock_vision \<Rightarrow> mock_vision" where
  "mock_add_region r mv = mv\<lparr>mv_regions := mv_regions mv @ [r]\<rparr>"

definition mock_set_window :: "string \<Rightarrow> mock_vision \<Rightarrow> mock_vision" where
  "mock_set_window t mv = mv\<lparr>mv_window := Some t\<rparr>"

definition mock_set_raw :: "string \<Rightarrow> mock_vision \<Rightarrow> mock_vision" where
  "mock_set_raw t mv = mv\<lparr>mv_raw := t\<rparr>"

definition box_at :: "int \<Rightarrow> int \<Rightarrow> int \<Rightarrow> int \<Rightarrow> bounding_box" where
  "box_at x y w h = \<lparr>bx_x = x, bx_y = y, bx_width = w, bx_height = h\<rparr>"

definition element_at ::
  "string \<Rightarrow> element_type \<Rightarrow> bounding_box \<Rightarrow> string \<Rightarrow> string \<Rightarrow> string option \<Rightarrow> rat \<Rightarrow> string \<Rightarrow> visual_element" where
  "element_at i ty b label ocr ph conf region =
     \<lparr>ve_id = i, ve_type = ty, ve_bounds = b, ve_label = label, ve_ocr = ocr, ve_placeholder = ph, ve_confidence = conf,
      ve_clickable = True, ve_focusable = False, ve_sensitive = (ty = EInputPassword), ve_region = Some region\<rparr>"

definition desktop_regions :: "int \<Rightarrow> int \<Rightarrow> int \<Rightarrow> screen_region list" where
  "desktop_regions w h k =
     (let x = k * 1920; i = show_int k
      in [\<lparr>sr_id = ''reg_browser_'' @ i, sr_type = RgWindow, sr_bounds = box_at (x + 100) 50 1200 800,
           sr_title = ''Google Chrome - Search'', sr_focused = True, sr_sensitive = False, sr_elements = []\<rparr>,
          \<lparr>sr_id = ''reg_taskbar_'' @ i, sr_type = RgToolbar, sr_bounds = box_at x (h - 40) w 40,
           sr_title = ''Windows Taskbar'', sr_focused = False, sr_sensitive = False, sr_elements = []\<rparr>,
          \<lparr>sr_id = ''reg_login_'' @ i, sr_type = RgForm, sr_bounds = box_at (x + 400) 400 400 300,
           sr_title = ''Account Login'', sr_focused = False, sr_sensitive = True, sr_elements = []\<rparr>])"

definition desktop_elements :: "int \<Rightarrow> int \<Rightarrow> int \<Rightarrow> visual_element list" where
  "desktop_elements w h k =
     (let x = k * 1920; b = ''reg_browser_'' @ show_int k; t = ''reg_taskbar_'' @ show_int k; l = ''reg_login_'' @ show_int k
      in [element_at ''elem_url_bar'' EInputText (box_at (x + 200) 80 800 32) ''Address Bar'' ''https://www.google.com''
            (Some ''Search or enter web address'') (98 / 100) b,
          element_at ''elem_search_input'' EInputText (box_at (x + 350) 250 500 44) ''Search Box'' []
            (Some ''Search Google or type a URL'') (95 / 100) b,
          element_at ''elem_search_btn'' EButton (box_at (x + 500) 320 120 36) ''Google Search'' ''Google Search'' None (99 / 100) b,
          element_at ''elem_lucky_btn'' EButton (box_at (x + 640) 320 140 36)
            (''I'' @ [char_of (39 :: nat)] @ ''m Feeling Lucky'') (''I'' @ [char_of (39 :: nat)] @ ''m Feeling Lucky'') None (92 / 100) b,
          element_at ''elem_settings_btn'' EButton (box_at (x + 1220) 60 32 32) ''Settings'' ''Settings'' None (90 / 100) b,
          element_at ''elem_close_btn'' EButton (box_at (x + 1260) 55 35 30) ''Close window'' ''X'' None (97 / 100) b,
          element_at ''elem_start_btn'' EButton (box_at (x + 5) (h - 35) 30 30) ''Start Menu'' ''Start'' None (99 / 100) t,
          element_at ''elem_clock_txt'' EText (box_at (x + w - 90) (h - 35) 80 30) ''System Clock'' ''12:00 PM'' None (88 / 100) t,
          element_at ''elem_username_field'' EInputText (box_at (x + 420) 430 360 34) ''Username'' ''admin@zarvis.local''
            (Some ''Enter username'') (95 / 100) l,
          element_at ''elem_password_field'' EInputPassword (box_at (x + 420) 480 360 34) ''Password'' ''s3cr3tP@ss!''
            (Some ''Enter password'') (96 / 100) l,
          element_at ''elem_login_btn'' EButton (box_at (x + 420) 530 120 36) ''Sign In'' ''Sign In'' None (94 / 100) l])"

definition default_desktop :: "int \<Rightarrow> int \<Rightarrow> int \<Rightarrow> visual_element list \<times> screen_region list" where
  "default_desktop w h k =
     (let es = desktop_elements w h k
      in (es, map (\<lambda>r. r\<lparr>sr_elements := map ve_id (filter (\<lambda>e. ve_region e = Some (sr_id r)) es)\<rparr>) (desktop_regions w h k)))"

text \<open>The world of the mock is its own state; the taskbar is as wide as the screen, so a negative width fails.\<close>

definition mock_analyze ::
  "string \<Rightarrow> string \<Rightarrow> int \<Rightarrow> int \<Rightarrow> int \<Rightarrow> rat \<Rightarrow> mock_vision \<Rightarrow> mock_vision \<times> (vision_error + screen_observation)" where
  "mock_analyze new_id path w h k now mv =
     (if mv_fail mv then (mv, Inl (ProviderFault ''Simulated vision provider failure in MockVisionProvider''))
      else if w < 0 then (mv, Inl (InvalidBoundingBox w 40))
      else let es = fst (default_desktop w h k) @ mv_elements mv
           in (mv, Inr \<lparr>so_id = new_id, so_time = now, so_path = Some path, so_width = w, so_height = h, so_monitor = k,
                so_elements = es, so_regions = snd (default_desktop w h k) @ mv_regions mv,
                so_window = (case mv_window mv of Some (c # t) \<Rightarrow> Some (c # t) | _ \<Rightarrow> Some ''Google Chrome - Search''),
                so_stale = False,
                so_raw_text = (if mv_raw mv \<noteq> [] then mv_raw mv
                   else join [char_of (10 :: nat)] (filter (\<lambda>t. t \<noteq> []) (map ve_ocr es)))\<rparr>))"

section \<open>The manager\<close>

record 'w vision_manager =
  vm_config :: vision_config
  vm_analyze :: "string \<Rightarrow> int \<Rightarrow> int \<Rightarrow> int \<Rightarrow> rat \<Rightarrow> 'w \<Rightarrow> 'w \<times> (vision_error + screen_observation)"
  vm_healthy :: "'w \<Rightarrow> bool"
  vm_capture :: "(int \<Rightarrow> 'w \<Rightarrow> 'w \<times> (string \<times> int \<times> int) option) option"
  vm_bus :: bool

record 'w vision_state =
  vs_world :: 'w
  vs_cache :: "(int \<times> screen_observation) list"
  vs_events :: "(string \<times> pyval dict) list"

definition vision_init :: "'w \<Rightarrow> 'w vision_state" where
  "vision_init w = \<lparr>vs_world = w, vs_cache = [], vs_events = []\<rparr>"

definition vision_emit :: "'w vision_manager \<Rightarrow> string \<Rightarrow> pyval dict \<Rightarrow> 'w vision_state \<Rightarrow> 'w vision_state" where
  "vision_emit m ty payload st = (if vm_bus m then st\<lparr>vs_events := vs_events st @ [(ty, payload)]\<rparr> else st)"

definition get_latest_observation ::
  "'w vision_manager \<Rightarrow> int \<Rightarrow> rat \<Rightarrow> 'w vision_state \<Rightarrow> 'w vision_state \<times> screen_observation option" where
  "get_latest_observation m k now st =
     (case map_of (vs_cache st) k of
        None \<Rightarrow> (st, None)
      | Some ob \<Rightarrow>
          (case check_staleness (vc_ttl (vm_config m)) now ob of
             (ob', stale) \<Rightarrow> (st\<lparr>vs_cache := AList.update k ob' (vs_cache st)\<rparr>, if stale then None else Some ob')))"

text \<open>Where the picture comes from: the path given, else the screen capture, else a mock path.\<close>

definition screenshot ::
  "'w vision_manager \<Rightarrow> int \<Rightarrow> string option \<Rightarrow> int \<Rightarrow> int \<Rightarrow> 'w \<Rightarrow> 'w \<times> string \<times> int \<times> int" where
  "screenshot m k path w h x =
     (let mock = ''mock_screen_mon_'' @ show_int k @ ''.png''
      in if opt_str path \<noteq> [] then (x, opt_str path, w, h)
         else case vm_capture m of
                None \<Rightarrow> (x, mock, w, h)
              | Some cap \<Rightarrow>
                  (case cap k x of
                     (x1, None) \<Rightarrow> (x1, mock, w, h)
                   | (x1, Some (p, w1, h1)) \<Rightarrow> (x1, if p = [] then mock else p, w1, h1)))"

definition opt_value :: "string option \<Rightarrow> pyval" where
  "opt_value s = (case s of None \<Rightarrow> PNone | Some t \<Rightarrow> PStr t)"

definition capture_payload :: "int \<Rightarrow> screen_observation \<Rightarrow> pyval dict" where
  "capture_payload k sane =
     [(''observation_id'', PStr (so_id sane)), (''monitor_index'', PInt k),
      (''element_count'', PInt (int (length (so_elements sane)))), (''region_count'', PInt (int (length (so_regions sane)))),
      (''active_window'', opt_value (so_window sane))]"

text \<open>A new observation.\<close>

definition capture_now ::
  "'w vision_manager \<Rightarrow> int \<Rightarrow> string option \<Rightarrow> int \<Rightarrow> int \<Rightarrow> rat \<Rightarrow> 'w vision_state
     \<Rightarrow> 'w vision_state \<times> (vision_error + screen_observation)" where
  "capture_now m k path w h now st =
     (case screenshot m k path w h (vs_world st) of
        (x, p, w1, h1) \<Rightarrow>
          (case vm_analyze m p w1 h1 k now x of
             (x1, Inl e) \<Rightarrow> (st\<lparr>vs_world := x1\<rparr>, Inl e)
           | (x1, Inr raw) \<Rightarrow>
               let ob = enrich (vm_config m) raw
               in (vision_emit m ''vision.observation.captured''
                     (capture_payload k (sanitize_observation (vm_config m) ob))
                     (st\<lparr>vs_world := x1, vs_cache := AList.update k ob (vs_cache st)\<rparr>), Inr ob)))"

definition capture_and_analyze ::
  "'w vision_manager \<Rightarrow> int \<Rightarrow> bool \<Rightarrow> string option \<Rightarrow> int \<Rightarrow> int \<Rightarrow> rat \<Rightarrow> 'w vision_state
     \<Rightarrow> 'w vision_state \<times> (vision_error + screen_observation)" where
  "capture_and_analyze m k force path w h now st =
     (case (if force then (st, None) else get_latest_observation m k now st) of
        (st0, Some ob) \<Rightarrow> (st0, Inr ob)
      | (st0, None) \<Rightarrow> capture_now m k path w h now st0)"

text \<open>The call that the other operations make: no path, the default screen size.\<close>

definition observe :: "'w vision_manager \<Rightarrow> int \<Rightarrow> bool \<Rightarrow> rat \<Rightarrow> 'w vision_state \<Rightarrow> 'w vision_state \<times> (vision_error + screen_observation)" where
  "observe m k force now st = capture_and_analyze m k force None 1920 1080 now st"

definition find_elements ::
  "'w vision_manager \<Rightarrow> string option \<Rightarrow> element_type option \<Rightarrow> int \<Rightarrow> bool \<Rightarrow> string option \<Rightarrow> bool \<Rightarrow> rat \<Rightarrow> 'w vision_state
     \<Rightarrow> 'w vision_state \<times> (vision_error + visual_element list)" where
  "find_elements m query et k clickable region force now st =
     (case observe m k force now st of
        (st1, Inl e) \<Rightarrow> (st1, Inl e)
      | (st1, Inr ob) \<Rightarrow>
          let es = (if opt_str region \<noteq> [] then filter (\<lambda>e. ve_region e = region) (so_elements ob) else so_elements ob);
              es1 = (if opt_str query \<noteq> [] then map gc_element (match_elements (opt_str query) es) else es)
          in (st1, Inr (filter_elements et clickable False None es1)))"

definition grounded_payload :: "grounding_result \<Rightarrow> pyval dict" where
  "grounded_payload r =
     [(''query'', PStr (gr_query r)), (''target_point'', point_dict (gr_point r)), (''confidence'', PFloat (gr_confidence r)),
      (''confidence_level'', PStr (confidence_level_value (gr_level r))), (''element_id'', PStr (ve_id (gr_element r))),
      (''element_type'', PStr (element_type_value (ve_type (gr_element r)))), (''is_ambiguous'', PBool (gr_ambiguous r))]"

text \<open>The resolver reads the clock again, after the observation was made or found.\<close>

definition resolve_target ::
  "'w vision_manager \<Rightarrow> target_query \<Rightarrow> int \<Rightarrow> bool \<Rightarrow> rat \<Rightarrow> rat \<Rightarrow> 'w vision_state
     \<Rightarrow> 'w vision_state \<times> (vision_error + grounding_result)" where
  "resolve_target m tq k force now later st =
     (case observe m k force now st of
        (st1, Inl e) \<Rightarrow> (st1, Inl e)
      | (st1, Inr ob) \<Rightarrow>
          (case resolve (vm_config m) tq later ob of
             Inr r \<Rightarrow> (vision_emit m ''vision.target.grounded'' (grounded_payload r) st1, Inr r)
           | Inl (TargetAmbiguity q n d) \<Rightarrow>
               (vision_emit m ''vision.target.ambiguous''
                  [(''query'', PStr q), (''candidate_count'', PInt (int n)), (''score_diff'', PFloat d)] st1,
                Inl (TargetAmbiguity q n d))
           | Inl e \<Rightarrow> (st1, Inl e)))"

definition vision_health :: "'w vision_manager \<Rightarrow> 'w vision_state \<Rightarrow> pyval" where
  "vision_health m st =
     PDict [(''status'', PStr (if vm_healthy m (vs_world st) then ''healthy'' else ''degraded'')),
            (''provider'', PStr (vc_provider (vm_config m))), (''provider_healthy'', PBool (vm_healthy m (vs_world st))),
            (''cached_observations'', PInt (int (length (vs_cache st))))]"

section \<open>The tools\<close>

definition analyze_answer :: "rat \<Rightarrow> screen_observation \<Rightarrow> pyval" where
  "analyze_answer now sane =
     PDict [(''success'', PBool True), (''observation_id'', PStr (so_id sane)), (''timestamp'', PFloat (so_time sane)),
            (''age_seconds'', PFloat (round_to 2 (obs_age now sane))),
            (''dimensions'', PDict [(''width'', PInt (so_width sane)), (''height'', PInt (so_height sane))]),
            (''active_window'', opt_value (so_window sane)), (''element_count'', PInt (int (length (so_elements sane)))),
            (''region_count'', PInt (int (length (so_regions sane)))),
            (''elements'', PList (map element_summary (so_elements sane))), (''regions'', PList (map region_summary (so_regions sane)))]"

definition screen_analyze_tool ::
  "'w vision_manager \<Rightarrow> int \<Rightarrow> bool \<Rightarrow> rat \<Rightarrow> rat \<Rightarrow> 'w vision_state \<Rightarrow> 'w vision_state \<times> (vision_error + pyval)" where
  "screen_analyze_tool m k force now later st =
     (case observe m k force now st of
        (st1, Inl e) \<Rightarrow> (st1, Inl e)
      | (st1, Inr ob) \<Rightarrow> (st1, Inr (analyze_answer later (sanitize_observation (vm_config m) ob))))"

text \<open>The type filter of the tools: an unknown name restricts nothing.\<close>

definition parse_element_type :: "string option \<Rightarrow> element_type option" where
  "parse_element_type t = (if opt_str t = [] then None else element_type_of (lower (opt_str t)))"

definition element_find_tool ::
  "'w vision_manager \<Rightarrow> string option \<Rightarrow> string option \<Rightarrow> bool \<Rightarrow> int \<Rightarrow> string option \<Rightarrow> bool \<Rightarrow> rat \<Rightarrow> 'w vision_state
     \<Rightarrow> 'w vision_state \<times> (vision_error + pyval)" where
  "element_find_tool m query et clickable k region force now st =
     (case find_elements m query (parse_element_type et) k clickable region force now st of
        (st1, Inl e) \<Rightarrow> (st1, Inl e)
      | (st1, Inr es) \<Rightarrow>
          (st1, Inr (PDict [(''success'', PBool True), (''query'', opt_value query), (''match_count'', PInt (int (length es))),
             (''elements'', PList (map (\<lambda>e. element_summary (sanitize_element (vm_config m) e)) es))])))"

definition target_resolve_tool ::
  "'w vision_manager \<Rightarrow> string \<Rightarrow> int \<Rightarrow> string option \<Rightarrow> bool \<Rightarrow> string option \<Rightarrow> rat option \<Rightarrow> bool \<Rightarrow> bool \<Rightarrow> rat \<Rightarrow> rat
     \<Rightarrow> 'w vision_state \<Rightarrow> 'w vision_state \<times> (vision_error + pyval)" where
  "target_resolve_tool m query k et clickable region min_conf allow force now later st =
     (case resolve_target m \<lparr>tg_query = query, tg_type = parse_element_type et, tg_region = region, tg_clickable = clickable,
              tg_min = min_conf, tg_allow = allow\<rparr> k force now later st of
        (st1, Inl e) \<Rightarrow> (st1, Inl e)
      | (st1, Inr r) \<Rightarrow>
          (st1, Inr (PDict [(''success'', PBool True), (''query'', PStr (gr_query r)), (''target_point'', point_dict (gr_point r)),
             (''element_id'', PStr (ve_id (gr_element r))), (''element_type'', PStr (element_type_value (ve_type (gr_element r)))),
             (''confidence'', PFloat (round_to 4 (gr_confidence r))),
             (''confidence_level'', PStr (confidence_level_value (gr_level r))), (''is_ambiguous'', PBool (gr_ambiguous r)),
             (''bounds'', box_dict (ve_bounds (gr_element r))), (''suggested_action'', PStr (gr_action r)),
             (''candidate_count'', PInt (int (length (gr_candidates r))))])))"

section \<open>The provider interface\<close>

definition observation_ok :: "int \<Rightarrow> screen_observation \<Rightarrow> bool" where
  "observation_ok k ob = (so_monitor ob = k \<and> list_all (\<lambda>e. box_ok (ve_bounds e)) (so_elements ob))"

definition cache_ok :: "'w vision_state \<Rightarrow> bool" where
  "cache_ok st \<longleftrightarrow> (\<forall>k ob. map_of (vs_cache st) k = Some ob \<longrightarrow> observation_ok k ob)"

lemma cache_ok_init: "cache_ok (vision_init w)"
  by (simp add: cache_ok_def vision_init_def)

lemma enrich_frame [simp]:
  "so_monitor (enrich cfg ob) = so_monitor ob" "so_time (enrich cfg ob) = so_time ob"
  by (simp_all add: enrich_def Let_def split: prod.splits)

lemma analysed_bounds [simp]: "ve_bounds (analysed cfg rs e) = ve_bounds e"
  by (simp add: analysed_def flag_element_def)

lemma enrich_ok: "observation_ok k ob \<Longrightarrow> observation_ok k (enrich cfg ob)"
  using enrich_from [of _ cfg ob] by (fastforce simp: observation_ok_def list_all_iff)

lemma vision_emit_frame [simp]:
  "vs_cache (vision_emit m ty p st) = vs_cache st" "vs_world (vision_emit m ty p st) = vs_world st"
  by (simp_all add: vision_emit_def)

text \<open>What the manager relies on: an observation is of the monitor asked for, taken now, and its boxes are no inverted ones.\<close>

locale vision_provider =
  fixes analyze :: "string \<Rightarrow> int \<Rightarrow> int \<Rightarrow> int \<Rightarrow> rat \<Rightarrow> 'w \<Rightarrow> 'w \<times> (vision_error + screen_observation)"
    and good :: "'w \<Rightarrow> bool"
  assumes analyzed: "good x \<Longrightarrow> analyze p w h k now x = (x', Inr ob) \<Longrightarrow> observation_ok k ob \<and> so_time ob = now"
    and good_analyze: "good x \<Longrightarrow> good (fst (analyze p w h k now x))"
begin

lemma observation_current:
  assumes "vm_analyze m = analyze" "cache_ok st" "0 \<le> vc_ttl (vm_config m)" "good (vs_world st)"
    and cap: "\<And>cap y. vm_capture m = Some cap \<Longrightarrow> good y \<Longrightarrow> good (fst (cap k y))"
    and res: "capture_and_analyze m k force path w h now st = (st', r)"
  shows "cache_ok st' \<and> good (vs_world st') \<and> (\<forall>ob. r = Inr ob \<longrightarrow>
    observation_ok k ob \<and> obs_age now ob \<le> vc_ttl (vm_config m) \<and> map_of (vs_cache st') k = Some ob)"
proof (cases "if force then (st, None) else get_latest_observation m k now st")
  case (Pair st0 found)
  have st0: "cache_ok st0" "good (vs_world st0)" using Pair assms(2,4)
    by (auto simp: get_latest_observation_def check_staleness_def cache_ok_def observation_ok_def update_conv' split: if_splits option.splits)
  show ?thesis
  proof (cases found)
    case (Some ob)
    then have "st' = st0" "r = Inr ob" using res Pair by (simp_all add: capture_and_analyze_def)
    moreover have "observation_ok k ob \<and> obs_age now ob \<le> vc_ttl (vm_config m) \<and> map_of (vs_cache st0) k = Some ob"
      using Pair Some assms(2)
      by (auto simp: get_latest_observation_def check_staleness_def cache_ok_def observation_ok_def update_conv' is_past_def obs_age_def
          split: if_splits option.splits)
    ultimately show ?thesis using st0 by simp
  next
    case None
    obtain x p w1 h1 where sc: "screenshot m k path w h (vs_world st0) = (x, p, w1, h1)" by (metis prod_cases4)
    have inv0: "good x" using sc st0(2) cap
      by (auto simp: screenshot_def Let_def split: if_splits option.splits prod.splits) (metis fst_conv)+
    show ?thesis
    proof (cases "analyze p w1 h1 k now x")
      case (Pair x1 out)
      note an = this
      have vm: "vm_analyze m p w1 h1 k now x = (x1, out)" using Pair assms(1) by simp
      from an have inv1: "good x1" using good_analyze [OF inv0, of p w1 h1 k now] by simp
      show ?thesis
      proof (cases out)
        case (Inl e)
        then show ?thesis using res \<open>_ = (st0, found)\<close> None sc vm st0 inv1 by (auto simp: capture_and_analyze_def capture_now_def cache_ok_def)
      next
        case (Inr raw)
        note ok = analyzed [OF inv0 an [unfolded Inr]]
        have "st' = vision_emit m ''vision.observation.captured''
                (capture_payload k (sanitize_observation (vm_config m) (enrich (vm_config m) raw)))
                (st0\<lparr>vs_world := x1, vs_cache := AList.update k (enrich (vm_config m) raw) (vs_cache st0)\<rparr>)"
            "r = Inr (enrich (vm_config m) raw)"
          using res \<open>_ = (st0, found)\<close> None sc vm Inr by (simp_all add: capture_and_analyze_def capture_now_def Let_def)
        with ok st0 inv1 assms(3) show ?thesis
          by (auto simp: cache_ok_def update_conv' obs_age_def enrich_ok split: if_splits)
      qed
    qed
  qed
qed

end

text \<open>The mock keeps the law as long as the elements added to it have proper boxes, as every \<open>BoundingBox\<close> has.\<close>

definition mock_ok :: "mock_vision \<Rightarrow> bool" where
  "mock_ok mv = list_all (\<lambda>e. box_ok (ve_bounds e)) (mv_elements mv)"

lemma mock_ok_ops:
  "mock_ok (mock_vision_init b)" "mock_ok (mock_vision_reset mv)" "mock_ok mv \<Longrightarrow> mock_ok (mock_add_region r mv)"
  "mock_ok mv \<Longrightarrow> mock_ok (mock_set_window t mv)" "mock_ok mv \<Longrightarrow> mock_ok (mock_set_raw t mv)"
  "mock_ok mv \<Longrightarrow> box_ok (ve_bounds e) \<Longrightarrow> mock_ok (mock_add_element e mv)"
  by (simp_all add: mock_ok_def mock_vision_init_def mock_vision_reset_def mock_add_region_def mock_set_window_def mock_set_raw_def
      mock_add_element_def)

lemma desktop_boxes: "list_all (\<lambda>e. box_ok (ve_bounds e)) (fst (default_desktop w h k))"
  by (simp add: default_desktop_def desktop_elements_def Let_def element_at_def box_at_def box_ok_def)

interpretation mock_provider: vision_provider "mock_analyze i" mock_ok
proof unfold_locales
  fix p w h k now x x' ob
  assume "mock_ok x" "mock_analyze i p w h k now x = (x', Inr ob)"
  then show "observation_ok k ob \<and> so_time ob = now"
    using desktop_boxes [of w h k] by (auto simp: mock_ok_def mock_analyze_def observation_ok_def Let_def split: if_splits)
qed (simp add: mock_analyze_def Let_def)

section \<open>Grounding through the manager\<close>

lemma obs_age_later: "now \<le> later \<Longrightarrow> obs_age now ob \<le> obs_age later ob"
  by (simp add: obs_age_def)

text \<open>
  Where a target comes from. When the provider keeps its contract, a query resolved through the manager, whether
  the observation was made for it or cached, is grounded on the observation now cached for the monitor asked for,
  which is not older than the time to live at the moment of resolution; the target is an element of it in the
  scope of the query, the point lies in the box of the element, and exactly the grounded event follows.
\<close>

theorem grounding_current:
  assumes "vision_provider (vm_analyze m) good" and "cache_ok st" and "0 \<le> vc_ttl (vm_config m)" and "good (vs_world st)"
    and "\<And>cap y. vm_capture m = Some cap \<Longrightarrow> good y \<Longrightarrow> good (fst (cap k y))"
    and "resolve_target m tq k force now later st = (st', Inr r)"
  shows "cache_ok st' \<and> good (vs_world st') \<and>
    (\<exists>ob. map_of (vs_cache st') k = Some ob \<and> so_monitor ob = k \<and> obs_age later ob \<le> vc_ttl (vm_config m) \<and>
       gr_observation r = so_id ob \<and> gr_element r \<in> set (so_elements ob) \<and> in_scope tq (gr_element r) \<and>
       bx_contains (ve_bounds (gr_element r)) (gr_point r) \<and> required_score (vm_config m) tq \<le> gr_confidence r) \<and>
    vs_events st' = vs_events (fst (observe m k force now st)) @
      (if vm_bus m then [(''vision.target.grounded'', grounded_payload r)] else [])"
proof -
  obtain st1 out where o: "observe m k force now st = (st1, out)" by fastforce
  have cur: "cache_ok st1 \<and> good (vs_world st1) \<and> (\<forall>ob. out = Inr ob \<longrightarrow>
      observation_ok k ob \<and> obs_age now ob \<le> vc_ttl (vm_config m) \<and> map_of (vs_cache st1) k = Some ob)"
    using vision_provider.observation_current [where analyze = "vm_analyze m", OF assms(1) refl assms(2,3,4) _ o [unfolded observe_def]]
      assms(5) by blast
  show ?thesis
  proof (cases out)
    case (Inl e)
    then show ?thesis using assms(6) o by (simp add: resolve_target_def)
  next
    case (Inr ob)
    then have rs: "resolve (vm_config m) tq later ob = Inr r"
      and st': "st' = vision_emit m ''vision.target.grounded'' (grounded_payload r) st1"
      using assms(6) o by (auto simp: resolve_target_def split: sum.splits vision_error.splits)
    have ob: "observation_ok k ob" "map_of (vs_cache st1) k = Some ob" using cur Inr by auto
    then have "\<forall>e \<in> set (so_elements ob). box_ok (ve_bounds e)" by (simp add: observation_ok_def list_all_iff)
    note target = resolve_sound_facts [OF rs this]
    have "gr_observation r = so_id ob"
      using rs by (auto simp: resolve_def Let_def split: if_splits list.splits option.splits)
    moreover have "cache_ok st'" "good (vs_world st')" using cur by (simp_all add: st' cache_ok_def)
    moreover have "vs_events st' = vs_events (fst (observe m k force now st)) @
      (if vm_bus m then [(''vision.target.grounded'', grounded_payload r)] else [])"
      using o by (simp add: st' vision_emit_def)
    ultimately show ?thesis using target ob by (auto simp: st' observation_ok_def)
  qed
qed

definition demo_manager :: "mock_vision vision_manager" where
  "demo_manager = \<lparr>vm_config = default_vision_config,
     vm_analyze = (\<lambda>p w h k now x. (x, Inr (demo_observation\<lparr>so_monitor := k, so_time := now\<rparr>))),
     vm_healthy = (\<lambda>_. True), vm_capture = None, vm_bus = True\<rparr>"

interpretation demo_provider: vision_provider "vm_analyze demo_manager" "\<lambda>_. True"
  by unfold_locales (simp_all add: demo_manager_def observation_ok_def demo_observation_def demo_element_def demo_box_def box_ok_def)

section \<open>What passwords do to the answers\<close>

text \<open>An observation with the texts of its password fields and its raw text blanked out.\<close>

definition hide :: "visual_element \<Rightarrow> visual_element" where
  "hide e = (if ve_type e = EInputPassword then e\<lparr>ve_label := [], ve_ocr := [], ve_placeholder := None\<rparr> else e)"

definition hide_obs :: "screen_observation \<Rightarrow> screen_observation" where
  "hide_obs ob = ob\<lparr>so_elements := map hide (so_elements ob), so_raw_text := []\<rparr>"

definition hide_cache :: "(int \<times> screen_observation) list \<Rightarrow> (int \<times> screen_observation) list" where
  "hide_cache c = map (\<lambda>(k, ob). (k, hide_obs ob)) c"

definition hide_state :: "'w vision_state \<Rightarrow> 'w vision_state" where
  "hide_state st = st\<lparr>vs_cache := hide_cache (vs_cache st)\<rparr>"

definition hide_result :: "'w \<times> (vision_error + screen_observation) \<Rightarrow> 'w \<times> (vision_error + screen_observation)" where
  "hide_result = map_prod id (map_sum id hide_obs)"

lemma hide_frame [simp]:
  "ve_id (hide e) = ve_id e" "ve_type (hide e) = ve_type e" "ve_bounds (hide e) = ve_bounds e" "hide (hide e) = hide e"
  "ve_confidence (hide e) = ve_confidence e" "ve_region (hide e) = ve_region e" "ve_sensitive (hide e) = ve_sensitive e"
  by (simp_all add: hide_def)

lemma sanitize_hide [simp]: "sanitize_element cfg (hide e) = sanitize_element cfg e"
  by (cases e) (simp add: hide_def sanitize_element_def detect_sensitive_element_def)

lemma assign_hide: "assign_element (hide e) rs = map_prod hide id (assign_element e rs)"
  by (simp add: assign_element_def Let_def hide_def split: option.split)

lemma flag_hide: "flag_element cfg (hide e) = hide (flag_element cfg e)"
  by (simp add: flag_element_def hide_def detect_sensitive_element_def)

lemma analysed_hide: "analysed cfg rs (hide e) = hide (analysed cfg rs e)"
  by (simp add: analysed_def assign_hide flag_hide)

lemma assign_all_hide: "snd (assign_elements_to_regions (map hide es) rs) = snd (assign_elements_to_regions es rs)"
proof (induction es arbitrary: rs)
  case (Cons e es)
  have step: "snd (assign_elements_to_regions (x # xs) rs) = snd (assign_elements_to_regions xs (snd (assign_element x rs)))" for x xs
    by (cases "assign_element x rs"; cases "assign_elements_to_regions xs (snd (assign_element x rs))") simp
  show ?case using Cons.IH [of "snd (assign_element e rs)"] by (simp add: step assign_hide del: assign_elements_to_regions.simps)
qed simp

lemma sort_desc_map: "(\<And>x. f (h x) = f x) \<Longrightarrow> sort_desc f (map h xs) = map h (sort_desc f xs)"
proof -
  assume f: "\<And>x. f (h x) = f x"
  have ins: "insort_key (\<lambda>x. - f x) (h x) (map h ys) = map h (insort_key (\<lambda>x. - f x) x ys)" for x ys
    by (induction ys) (simp_all add: f)
  have "sort_key (\<lambda>x. - f x) (map h xs) = map h (sort_key (\<lambda>x. - f x) xs)"
    by (induction xs) (simp_all add: sort_key_simps ins)
  then show ?thesis by (simp add: sort_desc_def)
qed

lemma enrich_regions:
  "so_regions (enrich cfg ob) = map (flag_region cfg) (snd (assign_elements_to_regions (so_elements ob) (so_regions ob)))"
  by (cases "assign_elements_to_regions (so_elements ob) (so_regions ob)") (simp add: enrich_def Let_def)

lemma enrich_hide: "enrich cfg (hide_obs ob) = hide_obs (enrich cfg ob)"
proof -
  have es: "so_elements (enrich cfg (hide_obs ob)) = map hide (so_elements (enrich cfg ob))"
    by (simp add: enrich_elements hide_obs_def Let_def analysed_hide comp_def take_map)
       (simp add: sort_desc_map [of ve_confidence hide, symmetric] take_map [symmetric] comp_def)
  moreover have "so_regions (enrich cfg (hide_obs ob)) = so_regions (enrich cfg ob)"
    using assign_all_hide [of "so_elements ob" "so_regions ob"]
    by (simp add: enrich_regions hide_obs_def)
  moreover have "screen_observation.truncate (enrich cfg o1) = (screen_observation.truncate o1)
      \<lparr>so_elements := so_elements (enrich cfg o1), so_regions := so_regions (enrich cfg o1)\<rparr>" for o1
    by (cases o1) (simp add: enrich_def Let_def screen_observation.truncate_def split: prod.splits)
  ultimately show ?thesis by (cases ob) (simp add: hide_obs_def screen_observation.truncate_def)
qed

lemma hide_obs_idem [simp]: "hide_obs (hide_obs ob) = hide_obs ob"
  by (simp add: hide_obs_def comp_def)
lemma check_staleness_hide: "check_staleness ttl now (hide_obs ob) = map_prod hide_obs id (check_staleness ttl now ob)"
  by (simp add: check_staleness_def is_past_def obs_age_def hide_obs_def)

lemma hide_cache_get: "map_of (hide_cache c) k = map_option hide_obs (map_of c k)"
  by (induction c) (auto simp: hide_cache_def)

lemma hide_cache_update: "AList.update k (hide_obs ob) (hide_cache c) = hide_cache (AList.update k ob c)"
  by (induction c) (auto simp: hide_cache_def)

lemma hide_state_sel [simp]:
  "vs_world (hide_state st) = vs_world st" "vs_events (hide_state st) = vs_events st"
  "vs_cache (hide_state st) = hide_cache (vs_cache st)"
  by (simp_all add: hide_state_def)

lemma get_latest_hide:
  "get_latest_observation m k now (hide_state st) = map_prod hide_state (map_option hide_obs) (get_latest_observation m k now st)"
  by (auto simp: get_latest_observation_def hide_cache_get check_staleness_hide hide_cache_update hide_state_def split: option.split prod.split)

lemma hide_state_idem [simp]: "hide_state (hide_state st) = hide_state st"
  by (cases st) (simp add: hide_state_def hide_cache_def comp_def case_prod_unfold)

lemma payload_hide: "capture_payload k (sanitize_observation cfg (hide_obs ob)) = capture_payload k (sanitize_observation cfg ob)"
  by (simp add: capture_payload_def sanitize_observation_def hide_obs_def)

lemma answer_hide: "analyze_answer now (sanitize_observation cfg (hide_obs ob)) = analyze_answer now (sanitize_observation cfg ob)"
  by (simp add: analyze_answer_def sanitize_observation_def hide_obs_def obs_age_def comp_def)

lemma emit_hide: "hide_state (vision_emit m ty p st) = vision_emit m ty p (hide_state st)"
  by (simp add: vision_emit_def hide_state_def)

text \<open>The manager whose provider never shows the text of a password.\<close>

definition blind :: "'w vision_manager \<Rightarrow> 'w vision_manager" where
  "blind m = m\<lparr>vm_analyze := (\<lambda>p w h k now x. hide_result (vm_analyze m p w h k now x))\<rparr>"

lemma blind_sel [simp]:
  "vm_config (blind m) = vm_config m" "vm_capture (blind m) = vm_capture m" "vm_bus (blind m) = vm_bus m"
  by (simp_all add: blind_def)

lemma blind_ops [simp]:
  "screenshot (blind m) = screenshot m" "get_latest_observation (blind m) = get_latest_observation m"
  "vision_emit (blind m) = vision_emit m"
  by (intro ext; simp only: screenshot_def get_latest_observation_def vision_emit_def blind_sel)+

lemma capture_blind:
  "map_prod hide_state (map_sum id hide_obs) (capture_now m k p0 w h now st) = capture_now (blind m) k p0 w h now (hide_state st)"
proof -
  obtain x p w1 h1 where sc: "screenshot m k p0 w h (vs_world st) = (x, p, w1, h1)" by (metis prod_cases4)
  obtain x1 out where an: "vm_analyze m p w1 h1 k now x = (x1, out)" by fastforce
  have bn: "vm_analyze (blind m) p w1 h1 k now x = (x1, map_sum id hide_obs out)"
    by (simp add: blind_def hide_result_def an)
  show ?thesis
  proof (cases out)
    case (Inl e)
    then show ?thesis using sc an bn by (simp add: capture_now_def hide_state_def)
  next
    case (Inr raw)
    let ?ob = "enrich (vm_config m) raw"
    have "hide_state (st\<lparr>vs_world := x1, vs_cache := AList.update k ?ob (vs_cache st)\<rparr>) =
        (hide_state st)\<lparr>vs_world := x1, vs_cache := AList.update k (hide_obs ?ob) (vs_cache (hide_state st))\<rparr>"
      by (simp add: hide_state_def hide_cache_update)
    then show ?thesis using sc an bn Inr by (simp add: capture_now_def Let_def enrich_hide emit_hide payload_hide)
  qed
qed

lemma observe_blind:
  "map_prod hide_state (map_sum id hide_obs) (observe m k force now st) = observe (blind m) k force now (hide_state st)"
proof (cases "if force then (st, None) else get_latest_observation m k now st")
  case (Pair st0 found)
  then have hp: "(if force then (hide_state st, None) else get_latest_observation m k now (hide_state st)) =
      (hide_state st0, map_option hide_obs found)"
    by (auto simp: get_latest_hide)
  have "observe m k force now st =
      (case found of Some ob \<Rightarrow> (st0, Inr ob) | None \<Rightarrow> capture_now m k None 1920 1080 now st0)"
    unfolding observe_def capture_and_analyze_def Pair by (simp split: option.split)
  moreover have "observe (blind m) k force now (hide_state st) =
      (case map_option hide_obs found of Some ob \<Rightarrow> (hide_state st0, Inr ob)
       | None \<Rightarrow> capture_now (blind m) k None 1920 1080 now (hide_state st0))"
    unfolding observe_def capture_and_analyze_def blind_ops hp by (simp split: option.split)
  ultimately show ?thesis by (cases found) (simp_all add: capture_blind)
qed

lemma screen_analyze_blind:
  "map_prod hide_state id (screen_analyze_tool m k force now later st) = screen_analyze_tool (blind m) k force now later (hide_state st)"
proof (cases "observe m k force now st")
  case (Pair st1 out)
  have "observe (blind m) k force now (hide_state st) = (hide_state st1, map_sum id hide_obs out)"
    unfolding observe_blind [symmetric] Pair by simp
  with Pair show ?thesis
    by (cases out) (auto simp: screen_analyze_tool_def answer_hide)
qed

text \<open>
  C17. The screen analysis tool gives nothing away about passwords. When two screens, and what is cached of them, differ
  only in the texts of password fields, the tool gives the same answer for both, publishes the same events, and
  leaves states that again differ only there.
\<close>

theorem screen_analyze_hides_passwords:
  assumes "\<And>p w h i t x. hide_result (vm_analyze m p w h i t x) = hide_result (screen2 p w h i t x)"
    and "hide_state st = hide_state st2"
  shows "snd (screen_analyze_tool m k force now later st) = snd (screen_analyze_tool (m\<lparr>vm_analyze := screen2\<rparr>) k force now later st2) \<and>
    hide_state (fst (screen_analyze_tool m k force now later st)) =
    hide_state (fst (screen_analyze_tool (m\<lparr>vm_analyze := screen2\<rparr>) k force now later st2))"
proof -
  have "blind m = blind (m\<lparr>vm_analyze := screen2\<rparr>)" by (simp add: blind_def assms(1))
  then have "map_prod hide_state id (screen_analyze_tool m k force now later st) =
      map_prod hide_state id (screen_analyze_tool (m\<lparr>vm_analyze := screen2\<rparr>) k force now later st2)"
    using screen_analyze_blind [of m] screen_analyze_blind [of "m\<lparr>vm_analyze := screen2\<rparr>"] assms(2) by metis
  then show ?thesis by (simp add: prod_eq_iff)
qed

section \<open>Examples\<close>

definition password_screen :: "string \<Rightarrow> screen_observation" where
  "password_screen s = demo_observation\<lparr>so_elements := [demo_element\<lparr>ve_type := EInputPassword, ve_ocr := s\<rparr>], so_raw_text := s\<rparr>"

definition password_manager :: "string \<Rightarrow> unit vision_manager" where
  "password_manager s = \<lparr>vm_config = default_vision_config, vm_analyze = (\<lambda>p w h k now x. (x, Inr (password_screen s))),
     vm_healthy = (\<lambda>_. True), vm_capture = None, vm_bus = True\<rparr>"

theorem screen_analyze_hides_passwords_witness:
  "snd (screen_analyze_tool (password_manager ''a'') 0 False 1 1 (vision_init ())) =
   snd (screen_analyze_tool (password_manager ''b'') 0 False 1 1 (vision_init ()))"
proof -
  have "hide_result (vm_analyze (password_manager ''a'') p w h i t x) = hide_result (vm_analyze (password_manager ''b'') p w h i t x)"
    for p w h i t x
    by (simp add: hide_result_def password_manager_def password_screen_def hide_obs_def hide_def)
  from screen_analyze_hides_passwords [OF this refl]
  have "snd (screen_analyze_tool (password_manager ''a'') 0 False 1 1 (vision_init ())) =
      snd (screen_analyze_tool ((password_manager ''a'')\<lparr>vm_analyze := vm_analyze (password_manager ''b'')\<rparr>) 0 False 1 1 (vision_init ()))"
    by blast
  then show ?thesis by (simp add: password_manager_def)
qed

theorem grounding_current_witness:
  "\<exists>r st'. resolve_target demo_manager demo_query 0 False 1 3 (vision_init (mock_vision_init False)) = (st', Inr r) \<and>
     (\<exists>ob. map_of (vs_cache st') 0 = Some ob \<and> bx_contains (ve_bounds (gr_element r)) (gr_point r))"
proof -
  let ?ob = "enrich default_vision_config (demo_observation\<lparr>so_monitor := 0, so_time := 1\<rparr>)"
  let ?st0 = "vision_init (mock_vision_init False)"
  obtain st1 where o: "observe demo_manager 0 False 1 ?st0 = (st1, Inr ?ob)"
    by (simp add: observe_def capture_and_analyze_def get_latest_observation_def vision_init_def capture_now_def screenshot_def
        demo_manager_def Let_def opt_str_def)
  have es: "so_elements ?ob = [analysed default_vision_config [demo_region] demo_element]"
    by (simp add: enrich_elements Let_def demo_observation_def default_vision_config_def)
  let ?e = "analysed default_vision_config [demo_region] demo_element"
  have e: "ve_id ?e = ''e''" "ve_clickable ?e" "ve_bounds ?e = demo_box"
    by (auto simp: analysed_def flag_element_def demo_element_def assign_element_def Let_def split: option.split)
  have "lower (strip (tg_query demo_query)) = lower (ve_id ?e)" unfolding e by code_simp
  then have ms: "match_score (tg_query demo_query) ?e = 1" by (rule match_by_id)
  have "\<exists>r. resolve default_vision_config demo_query 3 ?ob = Inr r \<and> gr_element r = ?e \<and> \<not> gr_ambiguous r"
  proof (rule clear_winner_resolves [of _ _ _ _ "[]" _ "[]"])
    show "30 / 100 \<le> match_score (tg_query demo_query) ?e" "required_score default_vision_config demo_query \<le> match_score (tg_query demo_query) ?e"
      unfolding ms by (simp_all add: required_score_def demo_query_def default_vision_config_def)
    have "in_scope demo_query ?e" by (simp add: in_scope_def demo_query_def e)
    then show "filter (in_scope demo_query) (so_elements ?ob) = [] @ ?e # []" by (simp add: es)
  qed (simp_all add: default_vision_config_def obs_age_def bx_center_def demo_element_def demo_box_def)
  then obtain r where r: "resolve default_vision_config demo_query 3 ?ob = Inr r" by blast
  have cfg: "vm_config demo_manager = default_vision_config" by (simp add: demo_manager_def)
  have "\<exists>st'. resolve_target demo_manager demo_query 0 False 1 3 ?st0 = (st', Inr r)"
    by (simp add: resolve_target_def o cfg r)
  then obtain st' where rt: "resolve_target demo_manager demo_query 0 False 1 3 ?st0 = (st', Inr r)" ..
  have "vision_provider (vm_analyze demo_manager) (\<lambda>_. True)" by (rule demo_provider.vision_provider_axioms)
  from grounding_current [OF this cache_ok_init _ _ _ rt]
  show ?thesis using rt by (auto simp: demo_manager_def default_vision_config_def)
qed

text \<open>
  A search does give something away: whether a guess matches a password field depends on the text in it.
\<close>

lemma plain_query:
  assumes "list_all (\<lambda>k. \<not> contains (lower q) (lower k)) STRIP_WORDS" "list_all (\<lambda>k. \<not> contains (lower q) k) (concat (map snd TYPE_HINTS))"
  shows "clean_query_text q = join '' '' (words q)" "extract_type_hints q = []"
proof -
  have "rx_clean strip_pattern q"
    unfolding rx_clean_def
  proof (intro allI impI notI)
    fix w assume w: "rx_lang strip_pattern w" "contains q w"
    then obtain k where "k \<in> set STRIP_WORDS" "lower w = lower k"
      by (auto simp: strip_pattern_def r_seq_def r_empty_def lang_alt lang_lit_ci)
    with assms(1) contains_lower [OF w(2)] show False by (auto simp: list_all_iff)
  qed
  then show "clean_query_text q = join '' '' (words q)" by (simp add: clean_query_text_def rx_sub_id)
  have "\<not> rx_search (r_seq [RWordB, r_lit k, RWordB]) (lower q)" if "k \<in> set (concat (map snd TYPE_HINTS))" for k
  proof
    assume "rx_search (r_seq [RWordB, r_lit k, RWordB]) (lower q)"
    then obtain w where "contains (lower q) w" "rx_lang (r_seq [RWordB, r_lit k, RWordB]) w"
      using rx_found_lang unfolding rx_search_def by blast
    then have "contains (lower q) k" by (auto simp: r_seq_def r_empty_def lang_lit)
    with assms(2) that show False by (auto simp: list_all_iff)
  qed
  then show "extract_type_hints q = []"
    by (force simp: extract_type_hints_def filter_empty_conv list_ex_iff)
qed

lemma element_find_reveals:
  "match_elements ''77'' (so_elements (password_screen ''77'')) \<noteq> []"
  "match_elements ''77'' (so_elements (password_screen ''zz'')) = []"
proof -
  let ?q = "''77''"
  have "strip ?q = ?q" "words ?q = [?q]"
    "list_all (\<lambda>k. \<not> contains (lower ?q) (lower k)) STRIP_WORDS" "list_all (\<lambda>k. \<not> contains (lower ?q) k) (concat (map snd TYPE_HINTS))"
    by code_simp+
  then have m: "match_score ?q e = score_element ?q e (Some ?q) (Some [])" for e
    by (simp add: match_score_def plain_query)
  have "match_score ?q (hd (so_elements (password_screen ?q))) \<ge> 30 / 100"
    "\<not> match_score ?q (hd (so_elements (password_screen ''zz''))) \<ge> 30 / 100"
    unfolding m by code_simp+
  then show "match_elements ?q (so_elements (password_screen ?q)) \<noteq> []"
    "match_elements ?q (so_elements (password_screen ''zz'')) = []"
    by (simp_all add: match_elements_def password_screen_def sort_desc_def del: le_divide_eq_numeral1)
qed

text \<open>A type filter that is no element type is dropped without notice.\<close>

lemma unknown_type_ignored: "parse_element_type (Some ''buton'') = None"
  by code_simp

end
