(* ===== verification/Ipc_Subsystems.thy ===== *)
theory Ipc_Subsystems
  imports Ipc_Server Vision_Manager Voice_Pipeline Tool_Executor
begin

text \<open>
  The handlers through which clients reach the subsystems, \<open>ipc/subsystems.py\<close>: they are registered with
  the router of \<open>Ipc_Server\<close> and call the tool executor, the vision manager and the voice pipeline of
  their theories. The agent runtime is a function on a world. The base64 codec, the parsing of integers, the clock
  and what happens at awaits come with an environment; a cancelled call is an exception.
\<close>

section \<open>The subsystems\<close>

record ('w, 'v, 's, 'a) core_world =
  cw_exec :: "'w exec_state"
  cw_vision :: "'v vision_state"
  cw_voice :: "'s turn_state"
  cw_agent :: 'a

record ('w, 'v, 's, 'a) subsystems =
  sb_agent :: "(string \<Rightarrow> 'a \<Rightarrow> 'a \<times> (string + final_response)) option"
  sb_vision :: "'v vision_manager option"
  sb_voice :: "'s voice_pipeline option"
  sb_tools :: "'w tool_executor option"
  sb_memory :: bool
  sb_stt_name :: "string option"

record sub_env =
  ie_now :: rat
  ie_int :: "string \<Rightarrow> int option"
  ie_b64decode :: "pyval \<Rightarrow> string + bytes"
  ie_b64encode :: "bytes \<Rightarrow> string"
  ie_turn :: turn_env
  ie_float_text :: "rat \<Rightarrow> string"
  ie_duration :: rat
  ie_execution_id :: string

type_synonym ('w, 'v, 's, 'a) sub_handler =
  "jarvis_request \<Rightarrow> ('w, 'v, 's, 'a) core_world \<Rightarrow> ('w, 'v, 's, 'a) core_world \<times> (string + pyval dict)"

fun agent_state_value :: "agent_state \<Rightarrow> string" where
  "agent_state_value AIDLE = ''idle''"
| "agent_state_value APLANNING = ''planning''"
| "agent_state_value AREADY = ''ready''"
| "agent_state_value ARUNNING = ''running''"
| "agent_state_value AWAITING_APPROVAL = ''waiting_approval''"
| "agent_state_value AVERIFYING = ''verifying''"
| "agent_state_value ARECOVERING = ''recovering''"
| "agent_state_value ACOMPLETED = ''completed''"
| "agent_state_value AFAILED = ''failed''"
| "agent_state_value ACANCELLED = ''cancelled''"
| "agent_state_value APAUSED = ''paused''"

text \<open>\<open>payload.get(a) or payload.get(b) or ""\<close>.\<close>

definition get_value :: "pyval dict \<Rightarrow> string \<Rightarrow> pyval" where
  "get_value p k = get_or p k PNone"

definition first_truthy :: "pyval list \<Rightarrow> pyval \<Rightarrow> pyval" where
  "first_truthy vs v = (case find truthy vs of Some x \<Rightarrow> x | None \<Rightarrow> v)"

section \<open>The agent runtime\<close>

definition fallback_summary :: "string \<Rightarrow> string" where
  "fallback_summary goal =
     ''Aapka sandesh mila: '' @ [CHR 0x22] @ goal @ [CHR 0x22] @
     ''. Abhi main ek basic mode mein hoon aur AI backend se connect nahi hun. '' @
     ''Lekin main sunne ke liye hamesha taiyar hoon! Kya aap koi aur kaam bata sakte hain?''"

definition handle_agent_execute :: "('w, 'v, 's, 'a) subsystems \<Rightarrow> sub_env \<Rightarrow> ('w, 'v, 's, 'a) sub_handler" where
  "handle_agent_execute sb env req w =
     (let goal = first_truthy [get_value (req_payload req) ''goal'', get_value (req_payload req) ''command''] (PStr [])
      in case goal of
           PStr g \<Rightarrow>
             if strip g = [] then (w, Inl (''Invalid request: '' @ quoted ''goal'' @ '' must be a non-empty string''))
             else (case sb_agent sb of
                     None \<Rightarrow>
                       (w, Inr [(''run_id'', PStr (''run_fallback_'' @ show_int \<lfloor>ie_now env\<rfloor>)), (''status'', PStr ''completed''),
                                (''summary'', PStr (fallback_summary g)),
                                (''task_statistics'', PDict [(''total'', PInt 1), (''completed'', PInt 1)]),
                                (''execution_time_sec'', PFloat (1 / 100))])
                   | Some run \<Rightarrow>
                       (case run (strip g) (cw_agent w) of
                          (a, Inl e) \<Rightarrow> (w\<lparr>cw_agent := a\<rparr>, Inl e)
                        | (a, Inr r) \<Rightarrow>
                            (w\<lparr>cw_agent := a\<rparr>,
                             Inr [(''run_id'', PStr (fr_run_id r)), (''goal_id'', PStr (fr_goal_id r)),
                                  (''status'', PStr (agent_state_value (fr_status r))), (''summary'', PStr (fr_summary r)),
                                  (''task_statistics'', PDict (map (\<lambda>(k, n). (k, PInt (int n))) (fr_statistics r))),
                                  (''execution_time_ms'', PFloat (fr_execution_time_ms r))])))
         | _ \<Rightarrow> (w, Inl (''Invalid request: '' @ quoted ''goal'' @ '' must be a non-empty string'')))"

section \<open>Vision\<close>

text \<open>\<open>int(v)\<close>.\<close>

definition py_int :: "(string \<Rightarrow> int option) \<Rightarrow> pyval \<Rightarrow> string + int" where
  "py_int parse v =
     (case v of
        PInt i \<Rightarrow> Inr i
      | PBool b \<Rightarrow> Inr (if b then 1 else 0)
      | PFloat r \<Rightarrow> Inr (if 0 \<le> r then \<lfloor>r\<rfloor> else \<lceil>r\<rceil>)
      | PStr s \<Rightarrow> (case parse s of Some i \<Rightarrow> Inr i | None \<Rightarrow> Inl ''invalid literal for int() with base 10'')
      | _ \<Rightarrow> Inl ''int() argument must be a string, a bytes-like object or a real number'')"

definition mock_scan_element :: "string \<Rightarrow> string \<Rightarrow> string \<Rightarrow> rat \<Rightarrow> pyval" where
  "mock_scan_element i ty label conf =
     PDict [(''element_id'', PStr i), (''element_type'', PStr ty), (''label'', PStr label), (''confidence'', PFloat conf)]"

definition mock_scan :: "rat \<Rightarrow> int \<Rightarrow> pyval dict" where
  "mock_scan now k =
     [(''observation_id'', PStr (''obs_mock_'' @ show_int \<lfloor>now\<rfloor>)), (''monitor_index'', PInt k),
      (''resolution'', PDict [(''width'', PInt 1920), (''height'', PInt 1080)]),
      (''elements_count'', PInt 5), (''interactive_count'', PInt 3),
      (''elements'', PList [mock_scan_element ''elem_1'' ''button'' ''Start'' (95 / 100),
         mock_scan_element ''elem_2'' ''input'' ''Search'' (92 / 100),
         mock_scan_element ''elem_3'' ''window'' ''Desktop'' (99 / 100)]),
      (''active_window_title'', PStr ''Windows Desktop'')]"

definition scan_answer :: "screen_observation \<Rightarrow> pyval dict" where
  "scan_answer ob =
     [(''observation_id'', PStr (so_id ob)), (''monitor_index'', PInt (so_monitor ob)),
      (''resolution'', PDict [(''width'', PInt (so_width ob)), (''height'', PInt (so_height ob))]),
      (''elements_count'', PInt (int (length (so_elements ob)))),
      (''interactive_count'', PInt (int (length (filter ve_clickable (so_elements ob))))),
      (''elements'', PList (map element_summary (take 25 (so_elements ob)))),
      (''active_window_title'', PStr (if opt_str (so_window ob) = [] then ''Windows Desktop'' else opt_str (so_window ob))),
      (''timestamp'', PFloat (so_time ob))]"

definition handle_vision_scan :: "('w, 'v, 's, 'a) subsystems \<Rightarrow> sub_env \<Rightarrow> ('w, 'v, 's, 'a) sub_handler" where
  "handle_vision_scan sb env req w =
     (case py_int (ie_int env) (get_or (req_payload req) ''monitor_index'' (PInt 0)) of
        Inl e \<Rightarrow> (w, Inl e)
      | Inr k \<Rightarrow>
          (case sb_vision sb of
             None \<Rightarrow> (w, Inr (mock_scan (ie_now env) k))
           | Some m \<Rightarrow>
               (case observe m k False (ie_now env) (cw_vision w) of
                  (v, Inl e) \<Rightarrow> (w\<lparr>cw_vision := v\<rparr>, Inl ''vision failed'')
                | (v, Inr ob) \<Rightarrow> (w\<lparr>cw_vision := v\<rparr>, Inr (scan_answer ob)))))"

section \<open>Voice\<close>

text \<open>
  The synthesis of an answer: its audio and length, or no audio and the given length when anything fails, the check
  of \<open>TTSRequest\<close> included.
\<close>

definition synthesize_text :: "'s voice_pipeline \<Rightarrow> sub_env \<Rightarrow> pyval \<Rightarrow> rat \<Rightarrow> 's turn_state \<Rightarrow> 's turn_state \<times> string \<times> rat" where
  "synthesize_text vp env text dflt s =
     (case text of
        PStr (c # t) \<Rightarrow>
          (case vp_synthesize vp \<lparr>tq_text = c # t, tq_voice = ''af_heart'', tq_speed = 1, tq_audio_format = default_format\<rparr> (tn_world s) of
             (x, AOk r) \<Rightarrow> (s\<lparr>tn_world := x\<rparr>, ie_b64encode env (tt_audio_bytes r), tt_duration_sec r)
           | (x, AExc e) \<Rightarrow> (s\<lparr>tn_world := x\<rparr>, [], dflt))
      | _ \<Rightarrow> (s, [], dflt))"

definition voice_ready :: "pyval \<Rightarrow> pyval dict" where
  "voice_ready text =
     [(''text'', if truthy text then text else PStr ''I am listening. Voice pipeline is operational.''),
      (''audio_base64'', PStr []), (''status'', PStr ''ready''), (''provider'', PStr ''mock'')]"

text \<open>A spoken request and a text to speak.\<close>

definition interact_audio :: "'s voice_pipeline \<Rightarrow> sub_env \<Rightarrow> pyval \<Rightarrow> 's turn_state \<Rightarrow> 's turn_state \<times> (string + pyval dict)" where
  "interact_audio vp env audio s =
     (case ie_b64decode env audio of
        Inl e \<Rightarrow> (s, Inl e)
      | Inr raw \<Rightarrow>
          (case process_speech vp (ie_turn env) raw ''default_corr'' s of
             (s1, TurnDone r) \<Rightarrow>
               (case synthesize_text vp env (PStr (vs_text r)) (vs_duration_sec r) s1 of
                  (s2, b64, dur) \<Rightarrow>
                    (s2, Inr [(''text'', PStr (vs_text r)), (''audio_base64'', PStr b64),
                              (''agent_status'', PStr (vs_agent_status r)), (''duration_sec'', PFloat dur)]))
           | (s1, TurnInterrupted) \<Rightarrow> (s1, Inl ''Voice playback interrupted by user'')
           | (s1, TurnFailed e) \<Rightarrow> (s1, Inl e)
           | (s1, TurnCancelled) \<Rightarrow> (s1, Inl ''cancelled'')))"

definition interact_text :: "'s voice_pipeline \<Rightarrow> sub_env \<Rightarrow> pyval \<Rightarrow> 's turn_state \<Rightarrow> 's turn_state \<times> (string + pyval dict)" where
  "interact_text vp env text s =
     (case synthesize_text vp env text 2 s of
        (s1, b64, dur) \<Rightarrow>
          (s1, Inr [(''text'', text), (''audio_base64'', PStr b64), (''provider'', PStr (vp_tts_name vp)),
                    (''duration_sec'', PFloat dur), (''status'', PStr ''ready'')]))"

definition handle_voice_interact :: "('w, 'v, 's, 'a) subsystems \<Rightarrow> sub_env \<Rightarrow> ('w, 'v, 's, 'a) sub_handler" where
  "handle_voice_interact sb env req w =
     (let text = get_value (req_payload req) ''text''; audio = get_value (req_payload req) ''audio_base64'';
          voice = (\<lambda>s. w\<lparr>cw_voice := s\<rparr>)
      in case sb_voice sb of
           None \<Rightarrow> (w, Inr (voice_ready text))
         | Some vp \<Rightarrow>
             if truthy audio then map_prod voice id (interact_audio vp env audio (cw_voice w))
             else if truthy text then map_prod voice id (interact_text vp env text (cw_voice w))
             else (w, Inr (voice_ready text)))"

definition handle_voice_stop :: "('w, 'v, 's, 'a) subsystems \<Rightarrow> ('w, 'v, 's, 'a) sub_handler" where
  "handle_voice_stop sb req w =
     ((case sb_voice sb of
         None \<Rightarrow> w
       | Some vp \<Rightarrow> w\<lparr>cw_voice := (cw_voice w)\<lparr>tn_playback := playback_stop (tn_playback (cw_voice w))\<rparr>\<rparr>),
      Inr [(''stopped'', PBool True), (''status'', PStr ''idle'')])"

definition transcript_answer :: "string \<Rightarrow> rat \<Rightarrow> string \<Rightarrow> pyval dict" where
  "transcript_answer t c l = [(''text'', PStr t), (''confidence'', PFloat c), (''language'', PStr l)]"

definition handle_voice_transcribe :: "('w, 'v, 's, 'a) subsystems \<Rightarrow> sub_env \<Rightarrow> ('w, 'v, 's, 'a) sub_handler" where
  "handle_voice_transcribe sb env req w =
     (let audio = get_value (req_payload req) ''audio_base64''
      in if \<not> truthy audio then (w, Inr (transcript_answer [] 0 ''en''))
         else case ie_b64decode env audio of
                Inl e \<Rightarrow> (w, Inl e)
              | Inr raw \<Rightarrow>
                  (case sb_voice sb of
                     None \<Rightarrow> (w, Inr (transcript_answer ''Audio received'' (95 / 100) ''en''))
                   | Some vp \<Rightarrow>
                       (case pipeline_transcribe vp (ie_turn env) raw ''default_session'' ''default_corr'' (cw_voice w) of
                          (s, Value t) \<Rightarrow> (w\<lparr>cw_voice := s\<rparr>, Inr (transcript_answer (tn_text t) (tn_confidence t) (tn_language t)))
                        | (s, Exc e) \<Rightarrow> (w\<lparr>cw_voice := s\<rparr>, Inl e)
                        | (s, Cancelled) \<Rightarrow> (w\<lparr>cw_voice := s\<rparr>, Inl ''cancelled''))))"

section \<open>Tools\<close>

definition stock_tool :: "string \<Rightarrow> string \<Rightarrow> pyval" where
  "stock_tool n d = PDict [(''name'', PStr n), (''description'', PStr d)]"

text \<open>The category of a tool is a string, and \<open>t.category.value\<close> raises for the first tool of the list.\<close>

definition handle_tools_list :: "('w, 'v, 's, 'a) subsystems \<Rightarrow> ('w, 'v, 's, 'a) sub_handler" where
  "handle_tools_list sb req w =
     (case sb_tools sb of
        None \<Rightarrow> (w, Inr [(''tools'', PList [stock_tool ''generate_docx'' ''Generate Word document in sandbox'',
           stock_tool ''generate_xlsx'' ''Generate Excel spreadsheet in sandbox'',
           stock_tool ''generate_pptx'' ''Generate PowerPoint presentation'', stock_tool ''generate_pdf'' ''Generate PDF report''])])
      | Some te \<Rightarrow>
          (case tool_list None True (te_registry te) of
             [] \<Rightarrow> (w, Inr [(''tools'', PList [])])
           | _ # _ \<Rightarrow> (w, Inl (quoted ''str'' @ '' object has no attribute '' @ quoted ''value''))))"

definition handle_tools_execute :: "('w, 'v, 's, 'a) subsystems \<Rightarrow> sub_env \<Rightarrow> ('w, 'v, 's, 'a) sub_handler" where
  "handle_tools_execute sb env req w =
     (case get_value (req_payload req) ''tool'' of
        PStr (c # cs) \<Rightarrow>
          (case sb_tools sb of
             None \<Rightarrow>
               (w, Inr [(''status'', PStr ''executed''), (''tool'', PStr (c # cs)),
                        (''output'', PStr (''Simulated execution of tool '' @ quoted (c # cs)))])
           | Some te \<Rightarrow>
               (case get_or (req_payload req) ''arguments'' (PDict []) of
                  PDict args \<Rightarrow>
                    (case execute (ie_float_text env) (ie_duration env) te
                            \<lparr>tq_execution_id = ie_execution_id env, tq_tool_id = c # cs, tq_arguments = args,
                             tq_correlation_id = None, tq_caller = ''ipc_client''\<rparr> None (cw_exec w) of
                       (x, Inl ExCancelled) \<Rightarrow> (w\<lparr>cw_exec := x\<rparr>, Inl ''cancelled'')
                     | (x, Inl ExInvalidArtifacts) \<Rightarrow> (w\<lparr>cw_exec := x\<rparr>, Inl ''validation error for AuditEvent'')
                     | (x, Inr r) \<Rightarrow>
                         (w\<lparr>cw_exec := x\<rparr>,
                          Inr [(''execution_id'', PStr (tr_execution_id r)), (''tool_id'', PStr (tr_tool_id r)),
                               (''status'', PStr (tool_status_value (tr_status r))), (''output'', tr_output r),
                               (''error'', opt_value (tr_error r)), (''duration_ms'', PFloat (tr_duration_ms r))]))
                | _ \<Rightarrow> (w, Inl ''validation error for ToolRequest'')))
      | _ \<Rightarrow> (w, Inl (''Missing '' @ quoted ''tool'' @ '' identifier in request payload'')))"

section \<open>Memory and health\<close>

text \<open>The memory manager has no \<open>get_statistics\<close>.\<close>

definition no_statistics :: string where
  "no_statistics = quoted ''MemoryManager'' @ '' object has no attribute '' @ quoted ''get_statistics''"

definition handle_memory_stats :: "('w, 'v, 's, 'a) subsystems \<Rightarrow> ('w, 'v, 's, 'a) sub_handler" where
  "handle_memory_stats sb req w =
     (if sb_memory sb then (w, Inl no_statistics)
      else (w, Inr [(''working_count'', PInt 0), (''episodic_count'', PInt 0), (''semantic_count'', PInt 0),
                    (''status'', PStr ''uninitialized'')]))"

definition presence :: "'x option \<Rightarrow> pyval" where
  "presence x = PStr (case x of None \<Rightarrow> ''unavailable'' | Some _ \<Rightarrow> ''ready'')"

definition handle_system_health :: "('w, 'v, 's, 'a) subsystems \<Rightarrow> sub_env \<Rightarrow> ('w, 'v, 's, 'a) sub_handler" where
  "handle_system_health sb env req w =
     (w, Inr [(''core'', PStr ''healthy''),
        (''memory'', PStr (if sb_memory sb then ''degraded: '' @ no_statistics else ''unavailable'')), (''memory_details'', PDict []),
        (''voice'', presence (sb_voice sb)),
        (''voice_details'', PDict (case sb_voice sb of None \<Rightarrow> []
           | Some vp \<Rightarrow> [(''tts'', PStr (vp_tts_name vp)),
                        (''stt'', PStr (case sb_stt_name sb of None \<Rightarrow> ''ready'' | Some n \<Rightarrow> n))])),
        (''vision'', presence (sb_vision sb)),
        (''vision_details'', PDict (case sb_vision sb of None \<Rightarrow> [] | Some _ \<Rightarrow> [(''active'', PBool True)])),
        (''tools'', presence (sb_tools sb)),
        (''tools_count'', PInt (case sb_tools sb of None \<Rightarrow> 0 | Some te \<Rightarrow> int (length (tool_list None True (te_registry te))))),
        (''agent'', presence (sb_agent sb)), (''timestamp'', PFloat (ie_now env))])"

section \<open>Registration\<close>

definition subsystem_handlers ::
  "('w, 'v, 's, 'a) subsystems \<Rightarrow> sub_env \<Rightarrow> (string \<times> ('w, 'v, 's, 'a) sub_handler) list" where
  "subsystem_handlers sb env =
     [(''agent.execute'', handle_agent_execute sb env), (''vision.scan'', handle_vision_scan sb env),
      (''voice.interact'', handle_voice_interact sb env), (''voice.transcribe'', handle_voice_transcribe sb env),
      (''voice.stop'', handle_voice_stop sb), (''tools.list'', handle_tools_list sb),
      (''tools.execute'', handle_tools_execute sb env), (''memory.stats'', handle_memory_stats sb),
      (''system.health'', handle_system_health sb env)]"

definition register_handlers ::
  "('w, 'v, 's, 'a) subsystems \<Rightarrow> sub_env \<Rightarrow> ('w, 'v, 's, 'a) core_world ipc_router \<Rightarrow> ('w, 'v, 's, 'a) core_world ipc_router" where
  "register_handlers sb env r = fold (\<lambda>(m, h) r. register_handler m h r) (subsystem_handlers sb env) r"

section \<open>Every method is served\<close>

lemma register_get:
  "dict_get (register_handlers sb env r) m =
     (case map_of (subsystem_handlers sb env) m of Some h \<Rightarrow> Some h | None \<Rightarrow> dict_get r m)"
  by (simp add: register_handlers_def subsystem_handlers_def register_handler_def dict_simps)

definition SUBSYSTEM_METHODS :: "string list" where
  "SUBSYSTEM_METHODS = [''agent.execute'', ''vision.scan'', ''voice.interact'', ''voice.transcribe'', ''voice.stop'',
     ''tools.list'', ''tools.execute'', ''memory.stats'', ''system.health'']"

lemma dispatch_subsystem:
  assumes "dispatch (register_handlers sb env r) req w = (w', resp)" "req_type req \<in> set SUBSYSTEM_METHODS"
  obtains h out where "map_of (subsystem_handlers sb env) (req_type req) = Some h" "h req w = (w', out)"
    "resp = (case out of Inr d \<Rightarrow> success_response (req_id req) (req_type req) d
       | Inl e \<Rightarrow> error_response (req_id req) (req_type req) ''EXECUTION_ERROR'' (safe_message e))"
proof -
  have "set (map fst (subsystem_handlers sb env)) = set SUBSYSTEM_METHODS"
    by (simp add: subsystem_handlers_def SUBSYSTEM_METHODS_def)
  with assms(2) obtain h where h: "map_of (subsystem_handlers sb env) (req_type req) = Some h"
    by (metis list.set_map map_of_eq_None_iff not_None_eq)
  with assms(1) show ?thesis
    by (intro that [of h "snd (h req w)"]) (auto simp: dispatch_def register_get split: prod.splits sum.splits)
qed

section \<open>The shape of the answers\<close>

datatype py_type = TyStr | TyInt | TyNum | TyBool | TyList | TyDict | TyAny

fun has_type :: "py_type \<Rightarrow> pyval \<Rightarrow> bool" where
  "has_type TyStr (PStr _) = True"
| "has_type TyInt (PInt _) = True"
| "has_type TyNum (PInt _) = True"
| "has_type TyNum (PFloat _) = True"
| "has_type TyBool (PBool _) = True"
| "has_type TyList (PList _) = True"
| "has_type TyDict (PDict _) = True"
| "has_type TyAny _ = True"
| "has_type _ _ = False"

definition conforms :: "(string \<times> py_type) list \<Rightarrow> pyval dict \<Rightarrow> bool" where
  "conforms sch d = list_all (\<lambda>(k, t). case dict_get d k of None \<Rightarrow> False | Some v \<Rightarrow> has_type t v) sch"

text \<open>What a client can read from the answer of a method, whichever subsystems are there.\<close>

definition answer_schema :: "string \<Rightarrow> (string \<times> py_type) list" where
  "answer_schema m =
     (if m = ''agent.execute'' then [(''run_id'', TyStr), (''status'', TyStr), (''summary'', TyStr), (''task_statistics'', TyDict)]
      else if m = ''vision.scan'' then
        [(''observation_id'', TyStr), (''monitor_index'', TyInt), (''resolution'', TyDict), (''elements_count'', TyInt),
         (''interactive_count'', TyInt), (''elements'', TyList), (''active_window_title'', TyStr)]
      else if m = ''voice.interact'' then [(''text'', TyAny), (''audio_base64'', TyStr)]
      else if m = ''voice.transcribe'' then [(''text'', TyStr), (''confidence'', TyNum), (''language'', TyStr)]
      else if m = ''voice.stop'' then [(''stopped'', TyBool), (''status'', TyStr)]
      else if m = ''tools.list'' then [(''tools'', TyList)]
      else if m = ''tools.execute'' then [(''status'', TyStr), (''output'', TyAny)]
      else if m = ''memory.stats'' then
        [(''working_count'', TyInt), (''episodic_count'', TyInt), (''semantic_count'', TyInt), (''status'', TyStr)]
      else if m = ''system.health'' then
        [(''core'', TyStr), (''memory'', TyStr), (''voice'', TyStr), (''vision'', TyStr), (''tools'', TyStr), (''tools_count'', TyInt),
         (''agent'', TyStr), (''timestamp'', TyNum)]
      else [])"

lemma agent_typed: "handle_agent_execute sb env req w = (w', Inr d) \<Longrightarrow> conforms (answer_schema ''agent.execute'') d"
  by (auto simp: handle_agent_execute_def conforms_def answer_schema_def Let_def
      split: pyval.splits if_splits option.splits prod.splits sum.splits)

lemma scans_typed: "conforms (answer_schema ''vision.scan'') (scan_answer ob)" "conforms (answer_schema ''vision.scan'') (mock_scan t k)"
  by (simp_all add: conforms_def answer_schema_def scan_answer_def mock_scan_def)

lemma vision_typed: "handle_vision_scan sb env req w = (w', Inr d) \<Longrightarrow> conforms (answer_schema ''vision.scan'') d"
  unfolding handle_vision_scan_def
  by (auto split: option.splits prod.splits sum.splits intro: scans_typed)

lemma audio_typed:
  assumes "interact_audio vp env a s = (s', Inr d)"
  shows "conforms (answer_schema ''voice.interact'') d"
proof -
  obtain raw where raw: "ie_b64decode env a = Inr raw"
    using assms by (cases "ie_b64decode env a") (simp_all add: interact_audio_def)
  obtain s1 e where e: "process_speech vp (ie_turn env) raw ''default_corr'' s = (s1, e)" by fastforce
  then obtain r where r: "e = TurnDone r" using assms raw by (cases e) (simp_all add: interact_audio_def)
  obtain s2 b64 dur where y: "synthesize_text vp env (PStr (vs_text r)) (vs_duration_sec r) s1 = (s2, b64, dur)" by (metis prod_cases3)
  have "d = [(''text'', PStr (vs_text r)), (''audio_base64'', PStr b64), (''agent_status'', PStr (vs_agent_status r)), (''duration_sec'', PFloat dur)]"
    using assms by (simp add: interact_audio_def raw e r y)
  then show ?thesis by (simp add: conforms_def answer_schema_def)
qed

lemma speech_typed:
  assumes "interact_text vp env t s = (s', Inr d)"
  shows "conforms (answer_schema ''voice.interact'') d"
proof -
  obtain s1 b64 dur where y: "synthesize_text vp env t 2 s = (s1, b64, dur)" by (metis prod_cases3)
  have "d = [(''text'', t), (''audio_base64'', PStr b64), (''provider'', PStr (vp_tts_name vp)), (''duration_sec'', PFloat dur), (''status'', PStr ''ready'')]"
    using assms by (simp add: interact_text_def y)
  then show ?thesis by (simp add: conforms_def answer_schema_def)
qed

lemma ready_typed: "conforms (answer_schema ''voice.interact'') (voice_ready t)"
  by (simp add: conforms_def answer_schema_def voice_ready_def)

lemma interact_typed:
  assumes "handle_voice_interact sb env req w = (w', Inr d)"
  shows "conforms (answer_schema ''voice.interact'') d"
proof (cases "sb_voice sb")
  case None
  then show ?thesis using assms ready_typed by (auto simp: handle_voice_interact_def Let_def)
next
  case (Some vp)
  obtain s1 o1 where a: "interact_audio vp env (get_value (req_payload req) ''audio_base64'') (cw_voice w) = (s1, o1)" by fastforce
  obtain s2 o2 where t: "interact_text vp env (get_value (req_payload req) ''text'') (cw_voice w) = (s2, o2)" by fastforce
  from assms have "o1 = Inr d \<or> o2 = Inr d \<or> (\<exists>t. d = voice_ready t)"
    by (auto simp: handle_voice_interact_def Let_def Some a t split: if_splits)
  then show ?thesis using audio_typed speech_typed ready_typed a t by blast
qed

lemma transcribe_typed: "handle_voice_transcribe sb env req w = (w', Inr d) \<Longrightarrow> conforms (answer_schema ''voice.transcribe'') d"
proof -
  have "conforms (answer_schema ''voice.transcribe'') (transcript_answer t c l)" for t c l
    by (simp add: conforms_def answer_schema_def transcript_answer_def)
  moreover assume "handle_voice_transcribe sb env req w = (w', Inr d)"
  ultimately show ?thesis unfolding handle_voice_transcribe_def Let_def
    by (auto split: option.splits prod.splits sum.splits part.splits if_splits)
qed

lemma stop_typed: "handle_voice_stop sb req w = (w', Inr d) \<Longrightarrow> conforms (answer_schema ''voice.stop'') d"
  by (auto simp: handle_voice_stop_def conforms_def answer_schema_def)

lemma tools_typed:
  "handle_tools_list sb req w = (w', Inr d) \<Longrightarrow> conforms (answer_schema ''tools.list'') d"
  "handle_tools_execute sb env req w = (w', Inr d) \<Longrightarrow> conforms (answer_schema ''tools.execute'') d"
  by (auto simp: handle_tools_list_def handle_tools_execute_def conforms_def answer_schema_def
      split: option.splits prod.splits sum.splits pyval.splits list.splits exec_exit.splits)

lemma status_typed:
  "handle_memory_stats sb req w = (w', Inr d) \<Longrightarrow> conforms (answer_schema ''memory.stats'') d"
  "handle_system_health sb env req w = (w', Inr d) \<Longrightarrow> conforms (answer_schema ''system.health'') d"
  by (auto simp: handle_memory_stats_def handle_system_health_def presence_def conforms_def answer_schema_def split: if_splits)

lemma handler_typed:
  assumes "map_of (subsystem_handlers sb env) m = Some h" "h req w = (w', Inr d)"
  shows "conforms (answer_schema m) d"
  using assms unfolding subsystem_handlers_def
  by (auto split: if_splits intro: agent_typed vision_typed interact_typed transcribe_typed stop_typed tools_typed status_typed)


section \<open>What a client can reach\<close>

lemma execute_world:
  assumes "xs_world (fst (execute sf dur te q cp x)) \<noteq> xs_world x"
  shows "runs_handler te q cp"
proof (rule ccontr)
  assume "\<not> runs_handler te q cp"
  with assms show False
    by (cases rule: execute_cases [of te q cp sf dur x]) (simp_all add: exec_simps requested_def)
qed

lemma tools_execute_world:
  assumes "handle_tools_execute sb env req w = (w', out)" "xs_world (cw_exec w') \<noteq> xs_world (cw_exec w)"
  shows "\<exists>te q. sb_tools sb = Some te \<and> get_value (req_payload req) ''tool'' = PStr (tq_tool_id q) \<and>
    tq_caller q = ''ipc_client'' \<and> runs_handler te q None"
proof -
  obtain c cs where tool: "get_value (req_payload req) ''tool'' = PStr (c # cs)"
    using assms by (auto simp: handle_tools_execute_def split: pyval.splits list.splits)
  obtain te where te: "sb_tools sb = Some te"
    using assms tool by (auto simp: handle_tools_execute_def split: option.splits)
  obtain args where args: "get_or (req_payload req) ''arguments'' (PDict []) = PDict args"
    using assms tool te by (auto simp: handle_tools_execute_def split: pyval.splits)
  let ?q = "\<lparr>tq_execution_id = ie_execution_id env, tq_tool_id = c # cs, tq_arguments = args,
                             tq_correlation_id = None, tq_caller = ''ipc_client''\<rparr>"
  obtain x res where ex: "execute (ie_float_text env) (ie_duration env) te ?q None (cw_exec w) = (x, res)" by fastforce
  have "w' = w\<lparr>cw_exec := x\<rparr>"
    using assms(1) tool te args ex by (auto simp: handle_tools_execute_def split: sum.splits exec_exit.splits)
  with assms(2) ex execute_world [of "ie_float_text env" "ie_duration env" te ?q None "cw_exec w"]
  have "runs_handler te ?q None" by simp
  with te tool show ?thesis by (intro exI [of _ te] exI [of _ ?q]) simp
qed

lemma agent_exec: "handle_agent_execute sb env req w = (w', out) \<Longrightarrow> cw_exec w' = cw_exec w"
  by (auto simp: handle_agent_execute_def Let_def split: pyval.splits if_splits option.splits prod.splits sum.splits)

lemma vision_exec: "handle_vision_scan sb env req w = (w', out) \<Longrightarrow> cw_exec w' = cw_exec w"
  by (auto simp: handle_vision_scan_def split: option.splits prod.splits sum.splits)

lemma voice_frame: "map_prod (\<lambda>s. w\<lparr>cw_voice := s\<rparr>) id p = (w', out) \<Longrightarrow> cw_exec w' = cw_exec w"
  by (cases p) auto

lemma interact_exec: "handle_voice_interact sb env req w = (w', out) \<Longrightarrow> cw_exec w' = cw_exec w"
  by (auto simp: handle_voice_interact_def Let_def split: option.splits if_splits dest: voice_frame)

lemma transcribe_exec: "handle_voice_transcribe sb env req w = (w', out) \<Longrightarrow> cw_exec w' = cw_exec w"
  unfolding handle_voice_transcribe_def Let_def
  by (auto split: option.splits prod.splits sum.splits part.splits if_splits)

lemma quiet_exec:
  "handle_voice_stop sb req w = (w', out) \<Longrightarrow> cw_exec w' = cw_exec w"
  "handle_tools_list sb req w = (w', out) \<Longrightarrow> cw_exec w' = cw_exec w"
  "handle_memory_stats sb req w = (w', out) \<Longrightarrow> cw_exec w' = cw_exec w"
  "handle_system_health sb env req w = (w', out) \<Longrightarrow> cw_exec w' = cw_exec w"
  by (auto simp: handle_voice_stop_def handle_tools_list_def handle_memory_stats_def handle_system_health_def
      split: option.splits list.splits if_splits)

lemmas other_handlers_exec = agent_exec vision_exec interact_exec transcribe_exec quiet_exec


text \<open>
  The list of tools cannot be had. With a tool system, a request for it succeeds only while no tool is enabled, and
  then with an empty list; else it is answered with an execution error. Nothing changes either way.
\<close>

theorem tools_list_fails:
  assumes "sb_tools sb = Some te" and "req_type req = ''tools.list''"
  shows "dispatch (register_handlers sb env r) req w =
    (w, if tool_list None True (te_registry te) = [] then success_response (req_id req) ''tools.list'' [(''tools'', PList [])]
        else error_response (req_id req) ''tools.list'' ''EXECUTION_ERROR''
               (quoted ''str'' @ '' object has no attribute '' @ quoted ''value''))"
proof -
  have "map_of (subsystem_handlers sb env) ''tools.list'' = Some (handle_tools_list sb)" by (simp add: subsystem_handlers_def)
  moreover have "safe_message (quoted ''str'' @ '' object has no attribute '' @ quoted ''value'') =
      quoted ''str'' @ '' object has no attribute '' @ quoted ''value''"
    by code_simp
  ultimately show ?thesis
    by (cases "tool_list None True (te_registry te)") (simp_all add: dispatch_def register_get assms handle_tools_list_def)
qed

section \<open>Examples and consequences\<close>

definition demo_subsystems :: "(nat, unit, nat, nat) subsystems" where
  "demo_subsystems = \<lparr>sb_agent = None, sb_vision = Some (password_manager ''hunter2''), sb_voice = None, sb_tools = Some demo_executor,
     sb_memory = True, sb_stt_name = None\<rparr>"

definition demo_sub_env :: sub_env where
  "demo_sub_env = \<lparr>ie_now = 1, ie_int = (\<lambda>_. None), ie_b64decode = (\<lambda>_. Inl ''Incorrect padding''), ie_b64encode = (\<lambda>_. []),
     ie_turn = \<lparr>te_cancel = None, te_play = PlayDone, te_duration = 0\<rparr>, ie_float_text = (\<lambda>_. []), ie_duration = 0, ie_execution_id = ''x1''\<rparr>"

definition demo_core :: "nat turn_state \<Rightarrow> (nat, unit, nat, nat) core_world" where
  "demo_core v = \<lparr>cw_exec = demo_exec_state, cw_vision = vision_init (), cw_voice = v, cw_agent = 0\<rparr>"

definition client_request :: "string \<Rightarrow> pyval dict \<Rightarrow> jarvis_request" where
  "client_request m p = \<lparr>req_id = ''1'', req_type = m, req_version = ''1.0'', req_payload = p\<rparr>"

definition demo_subs_router :: "(nat, unit, nat, nat) core_world ipc_router" where
  "demo_subs_router = register_handlers demo_subsystems demo_sub_env (default_router 0)"


lemma demo_client_runs:
  "runs_handler demo_executor \<lparr>tq_execution_id = ''x1'', tq_tool_id = ''t'', tq_arguments = [(''path'', PStr ''a'')],
     tq_correlation_id = None, tq_caller = ''ipc_client''\<rparr> None"
  by (simp add: runs_handler_def demo_executor_def tool_get_def
      tool_get_handler_def validate_arguments_def demo_tool_def required_fields_def dict_has_def
      authorized_def active_profile_def default_profile_def less_eq_risk_level_def demo_paths)


theorem tools_list_fails_witness:
  "\<forall>v. resp_success (snd (dispatch demo_subs_router (client_request ''tools.list'' []) (demo_core v))) = False"
proof
  fix v
  have "sb_tools demo_subsystems = Some demo_executor" "req_type (client_request ''tools.list'' []) = ''tools.list''"
    by (simp_all add: demo_subsystems_def client_request_def)
  from tools_list_fails [OF this, of demo_sub_env "default_router 0" "demo_core v"]
  show "resp_success (snd (dispatch demo_subs_router (client_request ''tools.list'' []) (demo_core v))) = False"
    by (simp add: demo_subs_router_def demo_executor_def tool_list_def demo_tool_def)
qed

text \<open>
  A scan over IPC returns the elements as they are: the text of a password field is in the answer.
\<close>

lemma scan_reveals_password:
  "scan_answer (enrich default_vision_config (password_screen s)) = scan_answer (enrich default_vision_config (password_screen t)) \<longleftrightarrow> s = t"
  by (auto simp: scan_answer_def enrich_elements Let_def password_screen_def demo_observation_def default_vision_config_def
      analysed_def flag_element_def element_summary_def)

text \<open>
  With a memory manager its statistics are never available, and health reports it as degraded; without an agent runtime
  every goal is reported as completed.
\<close>

lemma memory_always_degraded:
  assumes "sb_memory sb"
  shows "snd (handle_memory_stats sb req w) = Inl no_statistics"
    "\<exists>d. snd (handle_system_health sb env req w) = Inr d \<and> dict_get d ''memory'' = Some (PStr (''degraded: '' @ no_statistics))"
  using assms by (simp_all add: handle_memory_stats_def handle_system_health_def)

lemma no_runtime_completed:
  assumes "sb_agent sb = None" "strip g \<noteq> []" "req_payload req = [(''goal'', PStr g)]"
  shows "\<exists>d. handle_agent_execute sb env req w = (w, Inr d) \<and> dict_get d ''status'' = Some (PStr ''completed'')"
proof -
  have "g \<noteq> []" using assms(2) by (auto simp: strip_def lstrip_def rstrip_def)
  then show ?thesis using assms by (simp add: handle_agent_execute_def get_value_def get_or_def first_truthy_def)
qed

end
