(* ===== verification/Os_Windows.thy ===== *)
theory Os_Windows
  imports Os_Control "HOL-Library.Multiset"
begin

unbundle bit_operations_syntax

text \<open>
  The Windows provider (\<open>os/providers/windows.py\<close>) as the sequence of calls it makes of the Windows API. A call
  is logged with the value it returned, and what the API returns is a function of the log, so that every
  behaviour of the system is covered; what calls deliver through buffers (texts, rectangles, process
  ids, the list of handles, memory sizes) are further functions of the log, and so is the picture that Pillow
  makes of a bitmap. The three libraries load together or not at all, and pauses are left out. Shown: what is opened, locked, allocated, pressed or created is
  given back on every path but one, and which validated keys the provider can press.
\<close>

section \<open>The interface of the system\<close>

datatype api_call =
    GetSystemMetrics int
  | GetCursorPos
  | SetCursorPos int int
  | MouseEvent int int
  | KeybdEvent int int int
  | VkKeyScanW int
  | GetForegroundWindow
  | EnumWindows
  | IsWindowVisible int
  | GetWindowTextLengthW int
  | GetWindowTextW int
  | GetWindowRect int
  | GetWindowThreadProcessId int
  | ShowWindow int int
  | SetForegroundWindow int
  | PostMessageW int int
  | OpenClipboard
  | CloseClipboard
  | EmptyClipboard
  | GetClipboardData int
  | SetClipboardData int int
  | GlobalAlloc int int
  | GlobalLock int
  | GlobalUnlock int
  | GlobalFree int
  | ReadMemory int
  | WriteMemory int string int
  | GlobalMemoryStatusEx
  | GetDesktopWindow
  | GetWindowDC int
  | CreateCompatibleDC int
  | CreateCompatibleBitmap int int int
  | SelectObject int int
  | BitBlt int int int int int int
  | GetDIBits int int int int
  | DeleteObject int
  | DeleteDC int
  | ReleaseDC int int

type_synonym api_log = "(api_call \<times> int) list"

record win_api =
  wa_available :: bool
  wa_value :: "api_log \<Rightarrow> api_call \<Rightarrow> int"
  wa_text :: "api_log \<Rightarrow> int \<Rightarrow> string"
  wa_rect :: "api_log \<Rightarrow> int \<Rightarrow> int \<times> int \<times> int \<times> int"
  wa_pid :: "api_log \<Rightarrow> int \<Rightarrow> int"
  wa_point :: "api_log \<Rightarrow> int \<times> int"
  wa_handles :: "api_log \<Rightarrow> int list"
  wa_memory :: "api_log \<Rightarrow> int \<times> int"
  wa_picture :: "api_log \<Rightarrow> int \<times> int \<Rightarrow> (int \<times> int) option \<Rightarrow> string \<Rightarrow> string + string"
  wa_machine :: "string \<times> string \<times> string \<times> int"

definition win_call :: "win_api \<Rightarrow> api_call \<Rightarrow> api_log \<Rightarrow> api_log \<times> int" where
  "win_call W c l = (let r = wa_value W l c in (l @ [(c, r)], r))"

text \<open>A call whose value is not used.\<close>

definition win_do :: "win_api \<Rightarrow> api_call \<Rightarrow> api_log \<Rightarrow> api_log" where
  "win_do W c l = fst (win_call W c l)"

datatype win_error =
    WinMouseError string
  | WinClipboardError string
  | WinCaptureError string
  | WinNameError string
  | WinValidationError

section \<open>Screen\<close>

definition SM_XVIRTUALSCREEN :: int where "SM_XVIRTUALSCREEN = 76"
definition SM_YVIRTUALSCREEN :: int where "SM_YVIRTUALSCREEN = 77"
definition SM_CXVIRTUALSCREEN :: int where "SM_CXVIRTUALSCREEN = 78"
definition SM_CYVIRTUALSCREEN :: int where "SM_CYVIRTUALSCREEN = 79"

text \<open>The model of the answer demands a positive width and height.\<close>

definition win_screen_info :: "win_api \<Rightarrow> api_log \<Rightarrow> api_log \<times> (win_error + screen_info)" where
  "win_screen_info W l =
     (if \<not> wa_available W
      then (l, Inr \<lparr>si_x = 0, si_y = 0, si_width = 1920, si_height = 1080, si_monitors = [], si_primary_id = 0\<rparr>)
      else let (l1, vx) = win_call W (GetSystemMetrics SM_XVIRTUALSCREEN) l;
               (l2, vy) = win_call W (GetSystemMetrics SM_YVIRTUALSCREEN) l1;
               (l3, vw) = win_call W (GetSystemMetrics SM_CXVIRTUALSCREEN) l2;
               (l4, vh) = win_call W (GetSystemMetrics SM_CYVIRTUALSCREEN) l3;
               (l5, x, y, w, h) =
                 (if vw = 0 \<or> vh = 0
                  then let (l5, pw) = win_call W (GetSystemMetrics 0) l4; (l6, ph) = win_call W (GetSystemMetrics 1) l5
                       in (l6, 0, 0, pw, ph)
                  else (l4, vx, vy, vw, vh))
           in (l5, if w \<le> 0 \<or> h \<le> 0 then Inl WinValidationError
                   else Inr \<lparr>si_x = x, si_y = y, si_width = w, si_height = h,
                     si_monitors = [\<lparr>mo_id = 0, mo_name = ''Primary Monitor'', mo_x = x, mo_y = y, mo_width = w, mo_height = h,
                                     mo_primary = True, mo_scaling = 1\<rparr>],
                     si_primary_id = 0\<rparr>))"

text \<open>The part of \<open>capture_screen\<close> between \<open>try\<close> and \<open>finally\<close>: the copy, the bits and the picture.\<close>

definition win_grab ::
  "win_api \<Rightarrow> int \<Rightarrow> int \<Rightarrow> int \<Rightarrow> int \<times> int \<times> int \<times> int \<Rightarrow> string \<Rightarrow> int option \<Rightarrow> int option \<Rightarrow> api_log
     \<Rightarrow> api_log \<times> (win_error + string)" where
  "win_grab W windc srcdc bmp area image_format max_width max_height l =
     (case area of (x, y, w, h) \<Rightarrow>
        let l1 = win_do W (BitBlt srcdc w h windc x y) l;
            failed = (\<lambda>t. Inl (WinCaptureError (''GDI Screen capture failed: '' @ t)))
        in if w * h * 4 < 0 then (l1, failed ''Array length must be >= 0'')
           else let l2 = win_do W (GetDIBits srcdc bmp h (- h)) l1;
                    given = (\<lambda>m. case m of None \<Rightarrow> False | Some n \<Rightarrow> n \<noteq> 0);
                    bound = (\<lambda>m n. case m of None \<Rightarrow> n | Some k \<Rightarrow> if k = 0 then n else min n k);
                    target = (if given max_width \<or> given max_height then Some (bound max_width w, bound max_height h) else None);
                    fmt = (if lower image_format \<in> {''jpeg'', ''jpg''} then ''JPEG'' else ''PNG'')
                in (l2, case wa_picture W l2 (w, h) target fmt of Inl t \<Rightarrow> failed t | Inr data \<Rightarrow> Inr data))"

definition win_capture_screen ::
  "win_api \<Rightarrow> (int \<times> int \<times> int \<times> int) option \<Rightarrow> int option \<Rightarrow> string \<Rightarrow> int option \<Rightarrow> int option \<Rightarrow> api_log
     \<Rightarrow> api_log \<times> (win_error + string)" where
  "win_capture_screen W region monitor_id image_format max_width max_height l =
     (if \<not> wa_available W then (l, Inl (WinCaptureError ''Windows screen capture is unavailable on this platform.''))
      else case win_screen_info W l of
        (l1, Inl e) \<Rightarrow> (l1, Inl e)
      | (l1, Inr info) \<Rightarrow>
           let area = (case region of None \<Rightarrow> (si_x info, si_y info, si_width info, si_height info) | Some a \<Rightarrow> a);
               (l2, hwin) = win_call W GetDesktopWindow l1;
               (l3, windc) = win_call W (GetWindowDC hwin) l2;
               (l4, srcdc) = win_call W (CreateCompatibleDC windc) l3;
               (l5, bmp) = win_call W (CreateCompatibleBitmap windc (fst (snd (snd area))) (snd (snd (snd area)))) l4;
               l6 = win_do W (SelectObject srcdc bmp) l5;
               (l7, r) = win_grab W windc srcdc bmp area image_format max_width max_height l6
           in (win_do W (ReleaseDC hwin windc) (win_do W (DeleteDC srcdc) (win_do W (DeleteObject bmp) l7)), r))"

section \<open>Mouse\<close>

definition win_cursor_pos :: "win_api \<Rightarrow> api_log \<Rightarrow> api_log \<times> (int \<times> int)" where
  "win_cursor_pos W l = (if \<not> wa_available W then (l, (0, 0)) else let l1 = win_do W GetCursorPos l in (l1, wa_point W l1))"

definition win_move_cursor :: "win_api \<Rightarrow> int \<Rightarrow> int \<Rightarrow> api_log \<Rightarrow> api_log \<times> (win_error + unit)" where
  "win_move_cursor W x y l =
     (if \<not> wa_available W then (l, Inr ())
      else let (l1, r) = win_call W (SetCursorPos x y) l
           in (l1, if r = 0 then Inl (WinMouseError (''Failed to set cursor position to '' @ point_text x y)) else Inr ()))"

definition button_flags :: "mouse_button \<Rightarrow> int \<times> int" where
  "button_flags b = (case b of BLeft \<Rightarrow> (0x0002, 0x0004) | BRight \<Rightarrow> (0x0008, 0x0010) | BMiddle \<Rightarrow> (0x0020, 0x0040))"

definition win_mouse_click :: "win_api \<Rightarrow> mouse_button \<Rightarrow> int \<Rightarrow> api_log \<Rightarrow> api_log" where
  "win_mouse_click W b clicks l =
     (if \<not> wa_available W then l
      else case button_flags b of (down, up) \<Rightarrow>
        ((\<lambda>l. win_do W (MouseEvent up 0) (win_do W (MouseEvent down 0) l)) ^^ nat clicks) l)"

definition win_mouse_scroll :: "win_api \<Rightarrow> int \<Rightarrow> api_log \<Rightarrow> api_log" where
  "win_mouse_scroll W clicks l = (if \<not> wa_available W then l else win_do W (MouseEvent 0x0800 (clicks * 120)) l)"

section \<open>Keyboard\<close>

definition KEYEVENTF_KEYUP :: int where "KEYEVENTF_KEYUP = 0x0002"
definition KEYEVENTF_UNICODE :: int where "KEYEVENTF_UNICODE = 0x0004"

definition VK_MAP :: "int dict" where
  "VK_MAP =
     [(''CTRL'', 0x11), (''CONTROL'', 0x11), (''ALT'', 0x12), (''SHIFT'', 0x10), (''WIN'', 0x5B), (''WINDOWS'', 0x5B),
      (''ENTER'', 0x0D), (''RETURN'', 0x0D), (''ESC'', 0x1B), (''ESCAPE'', 0x1B), (''TAB'', 0x09), (''SPACE'', 0x20),
      (''BACKSPACE'', 0x08), (''DELETE'', 0x2E), (''DEL'', 0x2E), (''INSERT'', 0x2D), (''HOME'', 0x24), (''END'', 0x23),
      (''PAGEUP'', 0x21), (''PGUP'', 0x21), (''PAGEDOWN'', 0x22), (''PGDN'', 0x22),
      (''UP'', 0x26), (''DOWN'', 0x28), (''LEFT'', 0x25), (''RIGHT'', 0x27), (''CAPSLOCK'', 0x14),
      (''F1'', 0x70), (''F2'', 0x71), (''F3'', 0x72), (''F4'', 0x73), (''F5'', 0x74), (''F6'', 0x75),
      (''F7'', 0x76), (''F8'', 0x77), (''F9'', 0x78), (''F10'', 0x79), (''F11'', 0x7A), (''F12'', 0x7B)]"

definition win_type_text :: "win_api \<Rightarrow> string \<Rightarrow> api_log \<Rightarrow> api_log" where
  "win_type_text W text l =
     (if \<not> wa_available W then l
      else fold (\<lambda>c l. win_do W (KeybdEvent 0 (int (code_of c)) (KEYEVENTF_UNICODE OR KEYEVENTF_KEYUP))
                         (win_do W (KeybdEvent 0 (int (code_of c)) KEYEVENTF_UNICODE) l)) text l)"

text \<open>The exception class that the last line names is not imported.\<close>

definition win_resolve_vk :: "win_api \<Rightarrow> string \<Rightarrow> api_log \<Rightarrow> api_log \<times> (win_error + int)" where
  "win_resolve_vk W key l =
     (case dict_get VK_MAP (upper (strip key)) of
        Some v \<Rightarrow> (l, Inr v)
      | None \<Rightarrow>
          if length key = 1
          then let (l1, r) = win_call W (VkKeyScanW (int (code_of (hd key)))) l in (l1, Inr (r AND 0xFF))
          else (l, Inl (WinNameError ''KeyboardActionError'')))"

definition win_press_key :: "win_api \<Rightarrow> string \<Rightarrow> api_log \<Rightarrow> api_log \<times> (win_error + unit)" where
  "win_press_key W key l =
     (if \<not> wa_available W then (l, Inr ())
      else case win_resolve_vk W key l of
             (l1, Inl e) \<Rightarrow> (l1, Inl e)
           | (l1, Inr vk) \<Rightarrow> (win_do W (KeybdEvent vk 0 KEYEVENTF_KEYUP) (win_do W (KeybdEvent vk 0 0) l1), Inr ()))"

fun win_resolve_all :: "win_api \<Rightarrow> string list \<Rightarrow> api_log \<Rightarrow> api_log \<times> (win_error + int list)" where
  "win_resolve_all W [] l = (l, Inr [])"
| "win_resolve_all W (k # ks) l =
     (case win_resolve_vk W k l of
        (l1, Inl e) \<Rightarrow> (l1, Inl e)
      | (l1, Inr vk) \<Rightarrow> (case win_resolve_all W ks l1 of
             (l2, Inl e) \<Rightarrow> (l2, Inl e)
           | (l2, Inr vks) \<Rightarrow> (l2, Inr (vk # vks))))"

definition win_send_hotkey :: "win_api \<Rightarrow> string list \<Rightarrow> api_log \<Rightarrow> api_log \<times> (win_error + unit)" where
  "win_send_hotkey W keys l =
     (if \<not> wa_available W then (l, Inr ())
      else case win_resolve_all W keys l of
             (l1, Inl e) \<Rightarrow> (l1, Inl e)
           | (l1, Inr vks) \<Rightarrow>
               (fold (\<lambda>vk. win_do W (KeybdEvent vk 0 KEYEVENTF_KEYUP)) (rev vks)
                  (fold (\<lambda>vk. win_do W (KeybdEvent vk 0 0)) vks l1), Inr ()))"

section \<open>Windows\<close>

text \<open>The callback of the enumeration: the window it adds, if any.\<close>

definition win_describe :: "win_api \<Rightarrow> int \<Rightarrow> int \<Rightarrow> api_log \<Rightarrow> api_log \<times> window_info option" where
  "win_describe W fg hwnd l =
     (let (l1, visible) = win_call W (IsWindowVisible hwnd) l
      in if visible = 0 then (l1, None)
         else let (l2, len) = win_call W (GetWindowTextLengthW hwnd) l1
              in if len = 0 then (l2, None)
                 else let l3 = win_do W (GetWindowTextW hwnd) l2; title = strip (wa_text W l3 hwnd)
                      in if title = [] then (l3, None)
                         else let l4 = win_do W (GetWindowRect hwnd) l3
                              in case wa_rect W l4 hwnd of (x0, y0, x1, y1) \<Rightarrow>
                                   if x1 - x0 \<le> 1 \<or> y1 - y0 \<le> 1 then (l4, None)
                                   else let l5 = win_do W (GetWindowThreadProcessId hwnd) l4
                                        in (l5, Some \<lparr>wi_handle = hwnd, wi_title = title, wi_process = [],
                                              wi_pid = wa_pid W l5 hwnd, wi_x = x0, wi_y = y0, wi_width = x1 - x0,
                                              wi_height = y1 - y0, wi_foreground = (hwnd = fg), wi_minimized = False,
                                              wi_maximized = False, wi_visible = True\<rparr>))"

fun win_enum :: "win_api \<Rightarrow> int \<Rightarrow> int list \<Rightarrow> api_log \<Rightarrow> api_log \<times> window_info list" where
  "win_enum W fg [] l = (l, [])"
| "win_enum W fg (h # hs) l =
     (let (l1, x) = win_describe W fg h l; (l2, ws) = win_enum W fg hs l1
      in (l2, (case x of None \<Rightarrow> [] | Some w \<Rightarrow> [w]) @ ws))"

definition win_list_windows :: "win_api \<Rightarrow> api_log \<Rightarrow> api_log \<times> window_info list" where
  "win_list_windows W l =
     (if \<not> wa_available W then (l, [])
      else let (l1, fg) = win_call W GetForegroundWindow l; l2 = win_do W EnumWindows l1
           in win_enum W fg (wa_handles W l2) l2)"

definition win_foreground :: "win_api \<Rightarrow> api_log \<Rightarrow> api_log \<times> window_info option" where
  "win_foreground W l =
     (if \<not> wa_available W then (l, None)
      else let (l1, hwnd) = win_call W GetForegroundWindow l
           in if hwnd = 0 then (l1, None)
              else let (l2, len) = win_call W (GetWindowTextLengthW hwnd) l1;
                       (l3, title) = (if 0 < len then let l3 = win_do W (GetWindowTextW hwnd) l2 in (l3, wa_text W l3 hwnd)
                                      else (l2, []));
                       l4 = win_do W (GetWindowRect hwnd) l3;
                       (x0, y0, x1, y1) = wa_rect W l4 hwnd;
                       l5 = win_do W (GetWindowThreadProcessId hwnd) l4
                   in (l5, Some \<lparr>wi_handle = hwnd, wi_title = title, wi_process = [], wi_pid = wa_pid W l5 hwnd,
                         wi_x = x0, wi_y = y0, wi_width = x1 - x0, wi_height = y1 - y0, wi_foreground = True,
                         wi_minimized = False, wi_maximized = False, wi_visible = True\<rparr>))"

definition SW_MINIMIZE :: int where "SW_MINIMIZE = 6"
definition SW_MAXIMIZE :: int where "SW_MAXIMIZE = 3"
definition SW_RESTORE :: int where "SW_RESTORE = 9"

definition win_set_foreground :: "win_api \<Rightarrow> int \<Rightarrow> api_log \<Rightarrow> api_log \<times> bool" where
  "win_set_foreground W h l =
     (if \<not> wa_available W then (l, False)
      else let (l1, r) = win_call W (SetForegroundWindow h) (win_do W (ShowWindow h SW_RESTORE) l) in (l1, r \<noteq> 0))"

definition win_set_state :: "win_api \<Rightarrow> int \<Rightarrow> window_action \<Rightarrow> api_log \<Rightarrow> api_log \<times> bool" where
  "win_set_state W h action l =
     (if \<not> wa_available W then (l, False)
      else if action = WClose then (win_do W (PostMessageW h 0x0010) l, True)
      else let cmd = (case action of WMinimize \<Rightarrow> SW_MINIMIZE | WMaximize \<Rightarrow> SW_MAXIMIZE | _ \<Rightarrow> SW_RESTORE);
               l1 = win_do W (ShowWindow h cmd) l
           in (if action = WFocus then win_do W (SetForegroundWindow h) l1 else l1, True))"

section \<open>Clipboard\<close>

definition CF_UNICODETEXT :: int where "CF_UNICODETEXT = 13"

definition win_read_clipboard :: "win_api \<Rightarrow> api_log \<Rightarrow> api_log \<times> (win_error + string)" where
  "win_read_clipboard W l =
     (if \<not> wa_available W then (l, Inr [])
      else let (l1, opened) = win_call W OpenClipboard l
           in if opened = 0 then (l1, Inl (WinClipboardError ''Failed to open Windows clipboard for reading''))
              else let (l2, handle) = win_call W (GetClipboardData CF_UNICODETEXT) l1;
                       (l3, text) =
                         (if handle = 0 then (l2, [])
                          else let (l3, p) = win_call W (GlobalLock handle) l2
                               in if p = 0 then (l3, [])
                                  else let l4 = win_do W (ReadMemory p) l3
                                       in (win_do W (GlobalUnlock handle) l4, wa_text W l4 p))
                   in (win_do W CloseClipboard l3, Inr text))"

text \<open>The part of \<open>write_clipboard\<close> between \<open>try\<close> and \<open>finally\<close>; \<open>sizeof(c_wchar)\<close> is 2.\<close>

definition win_fill_clipboard :: "win_api \<Rightarrow> string \<Rightarrow> api_log \<Rightarrow> api_log \<times> (win_error + bool)" where
  "win_fill_clipboard W text l =
     (let l1 = win_do W EmptyClipboard l;
          size = (int (length text) + 1) * 2;
          (l2, mem) = win_call W (GlobalAlloc 0x0002 size) l1
      in if mem = 0 then (l2, Inl (WinClipboardError ''Failed to allocate memory for clipboard''))
         else let (l3, p) = win_call W (GlobalLock mem) l2
              in if p = 0 then (l3, Inl (WinClipboardError ''Failed to lock global memory''))
                 else let l4 = win_do W (GlobalUnlock mem) (win_do W (WriteMemory p text size) l3);
                          (l5, r) = win_call W (SetClipboardData CF_UNICODETEXT mem) l4
                      in if r = 0
                         then (win_do W (GlobalFree mem) l5, Inl (WinClipboardError ''Failed to set clipboard data''))
                         else (l5, Inr True))"

definition win_write_clipboard :: "win_api \<Rightarrow> string \<Rightarrow> api_log \<Rightarrow> api_log \<times> (win_error + bool)" where
  "win_write_clipboard W text l =
     (if \<not> wa_available W then (l, Inr False)
      else let (l1, opened) = win_call W OpenClipboard l
           in if opened = 0 then (l1, Inl (WinClipboardError ''Failed to open Windows clipboard for writing''))
              else let (l2, r) = win_fill_clipboard W text l1 in (win_do W CloseClipboard l2, r))"

definition win_clear_clipboard :: "win_api \<Rightarrow> api_log \<Rightarrow> api_log \<times> (win_error + bool)" where
  "win_clear_clipboard W l =
     (if \<not> wa_available W then (l, Inr False)
      else let (l1, opened) = win_call W OpenClipboard l
           in if opened = 0 then (l1, Inl (WinClipboardError ''Failed to open clipboard to clear''))
              else let (l2, r) = win_call W EmptyClipboard l1 in (win_do W CloseClipboard l2, Inr (r \<noteq> 0)))"

section \<open>System\<close>

definition win_system_info :: "win_api \<Rightarrow> api_log \<Rightarrow> api_log \<times> system_info" where
  "win_system_info W l =
     (let (l1, fg) = win_foreground W l;
          (l2, total, avail) =
            (if wa_available W
             then let (l2, ok) = win_call W GlobalMemoryStatusEx l1
                  in if ok = 0 then (l2, 0, 0) else (l2, fst (wa_memory W l2), snd (wa_memory W l2))
             else (l1, 0, 0))
      in case wa_machine W of (version, machine, node, cpus) \<Rightarrow>
           (l2, \<lparr>sy_os_name = ''Windows'', sy_os_version = version, sy_architecture = machine, sy_hostname = node,
                 sy_cpu_count = (if cpus = 0 then 1 else cpus), sy_memory_total = total, sy_memory_available = avail,
                 sy_foreground_title = map_option wi_title fg\<rparr>))"

section \<open>What is held\<close>

text \<open>What the process has opened, locked, allocated, pressed or created and not given back, read off the log. A
  null handle counts like any other; the flags of a button going up are twice those of it going down.\<close>

record held =
  hd_clip :: nat
  hd_locks :: "int multiset"
  hd_blocks :: "int multiset"
  hd_keys :: "(int \<times> int) multiset"
  hd_buttons :: "int multiset"
  hd_dcs :: "int multiset"
  hd_bitmaps :: "int multiset"

definition nothing_held :: held where
  "nothing_held = \<lparr>hd_clip = 0, hd_locks = {#}, hd_blocks = {#}, hd_keys = {#}, hd_buttons = {#}, hd_dcs = {#}, hd_bitmaps = {#}\<rparr>"

definition effect :: "api_call \<times> int \<Rightarrow> held \<Rightarrow> held" where
  "effect e h =
     (let v = snd e in
      case fst e of
        OpenClipboard \<Rightarrow> if v = 0 then h else h\<lparr>hd_clip := hd_clip h + 1\<rparr>
      | CloseClipboard \<Rightarrow> h\<lparr>hd_clip := hd_clip h - 1\<rparr>
      | GlobalAlloc _ _ \<Rightarrow> if v = 0 then h else h\<lparr>hd_blocks := add_mset v (hd_blocks h)\<rparr>
      | GlobalFree m \<Rightarrow> h\<lparr>hd_blocks := hd_blocks h - {#m#}\<rparr>
      | SetClipboardData _ m \<Rightarrow> if v = 0 then h else h\<lparr>hd_blocks := hd_blocks h - {#m#}\<rparr>
      | GlobalLock m \<Rightarrow> if v = 0 then h else h\<lparr>hd_locks := add_mset m (hd_locks h)\<rparr>
      | GlobalUnlock m \<Rightarrow> h\<lparr>hd_locks := hd_locks h - {#m#}\<rparr>
      | KeybdEvent vk scan fl \<Rightarrow>
          if fl AND KEYEVENTF_KEYUP = 0 then h\<lparr>hd_keys := add_mset (vk, scan) (hd_keys h)\<rparr>
          else h\<lparr>hd_keys := hd_keys h - {#(vk, scan)#}\<rparr>
      | MouseEvent fl _ \<Rightarrow>
          if fl \<in> {0x02, 0x08, 0x20} then h\<lparr>hd_buttons := add_mset fl (hd_buttons h)\<rparr>
          else if fl \<in> {0x04, 0x10, 0x40} then h\<lparr>hd_buttons := hd_buttons h - {#fl div 2#}\<rparr> else h
      | GetWindowDC _ \<Rightarrow> h\<lparr>hd_dcs := add_mset v (hd_dcs h)\<rparr>
      | ReleaseDC _ d \<Rightarrow> h\<lparr>hd_dcs := hd_dcs h - {#d#}\<rparr>
      | CreateCompatibleDC _ \<Rightarrow> h\<lparr>hd_dcs := add_mset v (hd_dcs h)\<rparr>
      | DeleteDC d \<Rightarrow> h\<lparr>hd_dcs := hd_dcs h - {#d#}\<rparr>
      | CreateCompatibleBitmap _ _ _ \<Rightarrow> h\<lparr>hd_bitmaps := add_mset v (hd_bitmaps h)\<rparr>
      | DeleteObject b \<Rightarrow> h\<lparr>hd_bitmaps := hd_bitmaps h - {#b#}\<rparr>
      | _ \<Rightarrow> h)"

definition held_after :: "api_log \<Rightarrow> held" where
  "held_after l = fold effect l nothing_held"

lemma held_do [simp]: "held_after (win_do W c l) = effect (c, wa_value W l c) (held_after l)"
  by (simp add: held_after_def win_do_def win_call_def Let_def)

lemma held_call: "win_call W c l = (l1, v) \<Longrightarrow> held_after l1 = effect (c, v) (held_after l) \<and> v = wa_value W l c \<and> set l1 = insert (c, v) (set l)"
  by (auto simp: held_after_def win_call_def Let_def)

text \<open>Calls that hold and release nothing.\<close>

lemma effect_neutral [simp]:
  "effect (GetSystemMetrics i, v) h = h" "effect (GetCursorPos, v) h = h" "effect (SetCursorPos a b, v) h = h"
  "effect (VkKeyScanW c, v) h = h" "effect (GetForegroundWindow, v) h = h" "effect (EnumWindows, v) h = h"
  "effect (IsWindowVisible w, v) h = h" "effect (GetWindowTextLengthW w, v) h = h" "effect (GetWindowTextW w, v) h = h"
  "effect (GetWindowRect w, v) h = h" "effect (GetWindowThreadProcessId w, v) h = h" "effect (ShowWindow w a, v) h = h"
  "effect (SetForegroundWindow w, v) h = h" "effect (PostMessageW w a, v) h = h" "effect (EmptyClipboard, v) h = h"
  "effect (GetClipboardData a, v) h = h" "effect (ReadMemory a, v) h = h" "effect (WriteMemory a t b, v) h = h"
  "effect (GlobalMemoryStatusEx, v) h = h" "effect (GetDesktopWindow, v) h = h" "effect (SelectObject a b, v) h = h"
  "effect (BitBlt a b c d e f, v) h = h" "effect (GetDIBits a b c d, v) h = h" "effect (MouseEvent 0x0800 d, v) h = h"
  by (simp_all add: effect_def)

lemma key_flags [simp]: "KEYEVENTF_UNICODE AND KEYEVENTF_KEYUP = 0" "(KEYEVENTF_UNICODE OR KEYEVENTF_KEYUP) AND KEYEVENTF_KEYUP \<noteq> 0"
  "KEYEVENTF_KEYUP \<noteq> 0"
  by (simp_all add: KEYEVENTF_UNICODE_def KEYEVENTF_KEYUP_def)

text \<open>The operations of the provider.\<close>

datatype win_op =
    WoScreenInfo
  | WoCapture "(int \<times> int \<times> int \<times> int) option" "int option" string "int option" "int option"
  | WoCursor
  | WoMove int int
  | WoClick mouse_button int
  | WoScroll int
  | WoType string
  | WoKey string
  | WoHotkey "string list"
  | WoList
  | WoForeground
  | WoSetForeground int
  | WoSetState int window_action
  | WoRead
  | WoWrite string
  | WoClear
  | WoSystem

fun win_run :: "win_api \<Rightarrow> win_op \<Rightarrow> api_log \<Rightarrow> api_log" where
  "win_run W WoScreenInfo l = fst (win_screen_info W l)"
| "win_run W (WoCapture a m f w h) l = fst (win_capture_screen W a m f w h l)"
| "win_run W WoCursor l = fst (win_cursor_pos W l)"
| "win_run W (WoMove x y) l = fst (win_move_cursor W x y l)"
| "win_run W (WoClick b n) l = win_mouse_click W b n l"
| "win_run W (WoScroll n) l = win_mouse_scroll W n l"
| "win_run W (WoType t) l = win_type_text W t l"
| "win_run W (WoKey k) l = fst (win_press_key W k l)"
| "win_run W (WoHotkey ks) l = fst (win_send_hotkey W ks l)"
| "win_run W WoList l = fst (win_list_windows W l)"
| "win_run W WoForeground l = fst (win_foreground W l)"
| "win_run W (WoSetForeground h) l = fst (win_set_foreground W h l)"
| "win_run W (WoSetState h a) l = fst (win_set_state W h a l)"
| "win_run W WoRead l = fst (win_read_clipboard W l)"
| "win_run W (WoWrite t) l = fst (win_write_clipboard W t l)"
| "win_run W WoClear l = fst (win_clear_clipboard W l)"
| "win_run W WoSystem l = fst (win_system_info W l)"

lemma screen_info_held: "held_after (fst (win_screen_info W l)) = held_after l"
  by (auto simp: win_screen_info_def Let_def dest!: held_call split: prod.splits)

lemma foreground_held: "held_after (fst (win_foreground W l)) = held_after l"
  by (auto simp: win_foreground_def Let_def dest!: held_call split: prod.splits)

lemma describe_held: "held_after (fst (win_describe W fg h l)) = held_after l"
  by (auto simp: win_describe_def Let_def dest!: held_call split: prod.splits)

lemma enum_held: "held_after (fst (win_enum W fg hs l)) = held_after l"
proof (induction hs arbitrary: l)
  case (Cons h hs)
  then show ?case using describe_held [of W fg h l] by (auto split: prod.splits) (metis fst_conv)
qed simp

lemma list_held: "held_after (fst (win_list_windows W l)) = held_after l"
  by (auto simp: win_list_windows_def Let_def enum_held dest!: held_call split: prod.splits)

lemma system_held: "held_after (fst (win_system_info W l)) = held_after l"
  using foreground_held [of W l]
  by (auto simp: win_system_info_def Let_def dest!: held_call split: prod.splits)

lemma click_once: "held_after (win_do W (MouseEvent (snd (button_flags b)) 0) (win_do W (MouseEvent (fst (button_flags b)) 0) l)) = held_after l"
  by (cases b) (simp_all add: button_flags_def effect_def)

lemma click_held: "held_after (win_mouse_click W b n l) = held_after l"
proof -
  have "held_after (((\<lambda>l. win_do W (MouseEvent (snd (button_flags b)) 0) (win_do W (MouseEvent (fst (button_flags b)) 0) l)) ^^ k) l)
      = held_after l" for k
    by (induction k) (simp_all only: funpow.simps id_apply comp_apply click_once)
  then show ?thesis by (cases "button_flags b") (simp add: win_mouse_click_def)
qed

lemma type_held: "held_after (win_type_text W t l) = held_after l"
proof -
  have "held_after (fold (\<lambda>c l. win_do W (KeybdEvent 0 (int (code_of c)) (KEYEVENTF_UNICODE OR KEYEVENTF_KEYUP))
      (win_do W (KeybdEvent 0 (int (code_of c)) KEYEVENTF_UNICODE) l)) t l) = held_after l" for l
    by (induction t arbitrary: l) (simp_all add: effect_def)
  then show ?thesis by (simp add: win_type_text_def)
qed

lemma resolve_held: "held_after (fst (win_resolve_vk W k l)) = held_after l"
  by (auto simp: win_resolve_vk_def dest!: held_call split: option.splits prod.splits)

lemma resolve_all_held: "held_after (fst (win_resolve_all W ks l)) = held_after l"
proof (induction ks arbitrary: l)
  case (Cons k ks)
  obtain l1 r where r: "win_resolve_vk W k l = (l1, r)" by fastforce
  then have "held_after l1 = held_after l" using resolve_held [of W k l] by simp
  with r Cons.IH [of l1] show ?case by (cases r) (auto split: prod.splits sum.splits)
qed simp

lemma press_held: "held_after (fst (win_press_key W k l)) = held_after l"
  using resolve_held [of W k l]
  by (auto simp: win_press_key_def effect_def split: prod.splits sum.splits)

lemma presses: "held_after (fold (\<lambda>vk. win_do W (KeybdEvent vk 0 0)) vks l) =
    (held_after l)\<lparr>hd_keys := hd_keys (held_after l) + mset (map (\<lambda>v. (v, 0)) vks)\<rparr>"
  by (induction vks arbitrary: l) (simp_all add: effect_def)

lemma releases: "held_after (fold (\<lambda>vk. win_do W (KeybdEvent vk 0 KEYEVENTF_KEYUP)) vks l) =
    (held_after l)\<lparr>hd_keys := hd_keys (held_after l) - mset (map (\<lambda>v. (v, 0)) vks)\<rparr>"
  by (induction vks arbitrary: l) (simp_all add: effect_def)

lemma hotkey_held: "held_after (fst (win_send_hotkey W ks l)) = held_after l"
proof -
  obtain l1 r where r: "win_resolve_all W ks l = (l1, r)" by fastforce
  then have "held_after l1 = held_after l" using resolve_all_held [of W ks l] by simp
  with r show ?thesis
    by (cases r) (simp_all add: win_send_hotkey_def presses releases rev_map)
qed

lemma grab_held: "held_after (fst (win_grab W d s b a f mw mh l)) = held_after l"
  by (cases a) (simp add: win_grab_def Let_def)

lemma capture_held: "held_after (fst (win_capture_screen W a m f mw mh l)) = held_after l"
proof (cases "win_screen_info W l")
  case (Pair l1 r)
  then have l1: "held_after l1 = held_after l" using screen_info_held [of W l] by simp
  show ?thesis
  proof (cases r)
    case (Inl e)
    with Pair l1 show ?thesis by (simp add: win_capture_screen_def)
  next
    case (Inr info)
    define area where "area = (case a of None \<Rightarrow> (si_x info, si_y info, si_width info, si_height info) | Some x \<Rightarrow> x)"
    obtain l2 hwin where c2: "win_call W GetDesktopWindow l1 = (l2, hwin)" by fastforce
    obtain l3 windc where c3: "win_call W (GetWindowDC hwin) l2 = (l3, windc)" by fastforce
    obtain l4 srcdc where c4: "win_call W (CreateCompatibleDC windc) l3 = (l4, srcdc)" by fastforce
    obtain l5 bmp where c5: "win_call W (CreateCompatibleBitmap windc (fst (snd (snd area))) (snd (snd (snd area)))) l4 = (l5, bmp)"
      by fastforce
    obtain l7 x where c7: "win_grab W windc srcdc bmp area f mw mh (win_do W (SelectObject srcdc bmp) l5) = (l7, x)" by fastforce
    have "held_after l7 = held_after l5"
      using grab_held [of W windc srcdc bmp area f mw mh "win_do W (SelectObject srcdc bmp) l5"] c7 by simp
    then show ?thesis
      using c2 [THEN held_call, THEN conjunct1] c3 [THEN held_call, THEN conjunct1] c4 [THEN held_call, THEN conjunct1]
        c5 [THEN held_call, THEN conjunct1] l1
      by (simp add: win_capture_screen_def Pair Inr Let_def area_def [symmetric] c2 c3 c4 c5 c7 effect_def)
  qed
qed

lemma read_held: "held_after (fst (win_read_clipboard W l)) = held_after l"
  by (auto simp: win_read_clipboard_def Let_def effect_def dest!: held_call split: prod.splits)

lemma clear_held: "held_after (fst (win_clear_clipboard W l)) = held_after l"
  by (auto simp: win_clear_clipboard_def Let_def effect_def dest!: held_call split: prod.splits)

text \<open>Filling the clipboard leaves a block behind exactly when it cannot be locked.\<close>

lemma fill_held:
  "held_after (fst (win_fill_clipboard W t l)) = held_after l \<or>
   (\<exists>m l'. wa_value W l' (GlobalLock m) = 0 \<and>
      held_after (fst (win_fill_clipboard W t l)) = (held_after l)\<lparr>hd_blocks := add_mset m (hd_blocks (held_after l))\<rparr>)"
proof -
  define l1 where "l1 = win_do W EmptyClipboard l"
  obtain l2 mem where c2: "win_call W (GlobalAlloc 2 (int (length t) * 2 + 2)) l1 = (l2, mem)" by fastforce
  obtain l3 p where c3: "win_call W (GlobalLock mem) l2 = (l3, p)" by fastforce
  define l4 where "l4 = win_do W (GlobalUnlock mem) (win_do W (WriteMemory p t (int (length t) * 2 + 2)) l3)"
  obtain l5 r where c5: "win_call W (SetClipboardData CF_UNICODETEXT mem) l4 = (l5, r)" by fastforce
  have f: "fst (win_fill_clipboard W t l) =
      (if mem = 0 then l2 else if p = 0 then l3 else if r = 0 then win_do W (GlobalFree mem) l5 else l5)"
    by (simp add: win_fill_clipboard_def Let_def l1_def [symmetric] c2 c3 l4_def [symmetric] c5)
  show ?thesis
  proof (cases "mem \<noteq> 0 \<and> p = 0")
    case True
    have "wa_value W l2 (GlobalLock mem) = 0" using True held_call [OF c3] by simp
    moreover have "held_after (fst (win_fill_clipboard W t l)) = (held_after l)\<lparr>hd_blocks := add_mset mem (hd_blocks (held_after l))\<rparr>"
      using True c2 [THEN held_call, THEN conjunct1] c3 [THEN held_call, THEN conjunct1] by (simp add: f l1_def effect_def)
    ultimately show ?thesis by blast
  next
    case False
    then show ?thesis
      using held_call [OF c2] held_call [OF c3] held_call [OF c5] by (auto simp: f l1_def l4_def effect_def)
  qed
qed

lemma write_held:
  "held_after (fst (win_write_clipboard W t l)) = held_after l \<or>
   (\<exists>m l'. wa_value W l' (GlobalLock m) = 0 \<and>
      held_after (fst (win_write_clipboard W t l)) = (held_after l)\<lparr>hd_blocks := add_mset m (hd_blocks (held_after l))\<rparr>)"
proof (cases "wa_available W")
  case True
  obtain l1 v where c: "win_call W OpenClipboard l = (l1, v)" by fastforce
  show ?thesis
  proof (cases "v = 0")
    case True
    then show ?thesis using c held_call [OF c] \<open>wa_available W\<close> by (simp add: win_write_clipboard_def effect_def)
  next
    case False
    obtain l2 r where f: "win_fill_clipboard W t l1 = (l2, r)" by fastforce
    have w: "fst (win_write_clipboard W t l) = win_do W CloseClipboard l2"
      using True False by (simp add: win_write_clipboard_def c f)
    show ?thesis
      using fill_held [of W t l1] held_call [OF c] False
      by (auto simp: w f effect_def)
  qed
qed (simp add: win_write_clipboard_def)

lemma run_held:
  "held_after (win_run W o' l) = held_after l \<or>
   (\<exists>m l'. wa_value W l' (GlobalLock m) = 0 \<and>
      held_after (win_run W o' l) = (held_after l)\<lparr>hd_blocks := add_mset m (hd_blocks (held_after l))\<rparr>)"
proof (cases o')
  case (WoWrite t)
  then show ?thesis using write_held [of W t l] by simp
qed (simp_all add: screen_info_held capture_held click_held type_held press_held hotkey_held list_held foreground_held
    read_held clear_held system_held win_cursor_pos_def win_move_cursor_def win_mouse_scroll_def win_set_foreground_def
    win_set_state_def Let_def split: prod.splits, auto dest!: held_call)


text \<open>The block that stays: it was allocated, could not be locked, and is not freed before the error.\<close>

lemma failed_lock_leaks:
  assumes "win_call W (GlobalAlloc 2 (int (length t) * 2 + 2)) (win_do W EmptyClipboard l) = (l2, m)" and "m \<noteq> 0"
    and "wa_value W l2 (GlobalLock m) = 0"
  shows "win_fill_clipboard W t l = (l2 @ [(GlobalLock m, 0)], Inl (WinClipboardError ''Failed to lock global memory''))"
  using assms by (simp add: win_fill_clipboard_def Let_def algebra_simps) (simp add: win_call_def Let_def)

section \<open>Keys\<close>

text \<open>The keys that pass the check of \<open>os/security.py\<close> but are neither in the table nor characters.\<close>

definition unmapped_keys :: "string set" where
  "unmapped_keys = {''NUMLOCK'', ''SCROLLLOCK'', ''PRINTSCREEN'', ''PAUSE''}"

definition PLAIN_CHARS :: string where
  "PLAIN_CHARS = ''ABCDEFGHIJKLMNOPQRSTUVWXYZ0123456789''"

lemma plain_chars: "list_all (\<lambda>c. upper_char c = c \<and> \<not> is_space c) PLAIN_CHARS"
  by code_simp

lemma plain_key:
  assumes "list_all (\<lambda>c. c \<in> set PLAIN_CHARS) k"
  shows "upper (strip k) = k"
proof -
  have k: "\<forall>c \<in> set k. upper_char c = c \<and> \<not> is_space c" using assms plain_chars by (auto simp: list_all_iff)
  have "upper k = k" unfolding upper_def using k by (intro map_idI) simp
  moreover have "dropWhile is_space xs = xs" if "set xs \<subseteq> set k" for xs
    using that k by (cases xs) auto
  ultimately show ?thesis by (simp add: strip_def lstrip_def rstrip_def)
qed

lemma named_keys_plain:
  "list_all (list_all (\<lambda>c. c \<in> set PLAIN_CHARS)) (take 43 SUPPORTED_KEYS)"
  by code_simp

lemma named_keys_mapped:
  "list_all (\<lambda>k. length k \<noteq> 1 \<and> (dict_get VK_MAP k = None) =
     (k = ''NUMLOCK'' \<or> k = ''SCROLLLOCK'' \<or> k = ''PRINTSCREEN'' \<or> k = ''PAUSE'')) (take 43 SUPPORTED_KEYS)"
  by code_simp

lemma other_keys_single: "list_all (\<lambda>k. length k = 1) (drop 43 SUPPORTED_KEYS)"
  by code_simp

lemma supported_mapped:
  assumes "k \<in> set SUPPORTED_KEYS"
  shows "(dict_get VK_MAP (upper (strip k)) = None \<and> length k \<noteq> 1) = (k \<in> unmapped_keys)"
proof -
  have "k \<in> set (take 43 SUPPORTED_KEYS) \<or> k \<in> set (drop 43 SUPPORTED_KEYS)"
    using assms append_take_drop_id [of 43 SUPPORTED_KEYS] by (metis Un_iff set_append)
  then show ?thesis
  proof
    assume k: "k \<in> set (take 43 SUPPORTED_KEYS)"
    then have "list_all (\<lambda>c. c \<in> set PLAIN_CHARS) k" using named_keys_plain by (simp add: list_all_iff)
    then have "upper (strip k) = k" by (rule plain_key)
    with k named_keys_mapped show ?thesis by (auto simp: list_all_iff unmapped_keys_def)
  next
    assume "k \<in> set (drop 43 SUPPORTED_KEYS)"
    then have "length k = 1" using other_keys_single by (auto simp: list_all_iff)
    then show ?thesis by (auto simp: unmapped_keys_def)
  qed
qed

lemma supported_resolves:
  assumes "k \<in> set SUPPORTED_KEYS"
  shows "if k \<in> unmapped_keys then win_resolve_vk W k l = (l, Inl (WinNameError ''KeyboardActionError''))
    else \<exists>l' vk. win_resolve_vk W k l = (l', Inr vk)"
proof -
  from supported_mapped [OF assms] show ?thesis
    by (auto simp: win_resolve_vk_def split: option.splits prod.splits)
qed

text \<open>
  A validated key is pressed and released, unless it is one of four. For every key that passes the check,
  pressing it sends exactly one event down and then one up for the same virtual key; for NUMLOCK,
  SCROLLLOCK, PRINTSCREEN and PAUSE, which the check lets through, the provider raises a \<open>NameError\<close>
  and sends nothing.
\<close>

theorem validated_key_pressed:
  assumes "validate_key k = Inr k'" and "wa_available W"
  shows "if k' \<in> unmapped_keys then win_press_key W k' l = (l, Inl (WinNameError ''KeyboardActionError''))
    else \<exists>l' vk. win_resolve_vk W k' l = (l', Inr vk) \<and>
      win_press_key W k' l =
        (l' @ [(KeybdEvent vk 0 0, wa_value W l' (KeybdEvent vk 0 0)),
               (KeybdEvent vk 0 KEYEVENTF_KEYUP,
                wa_value W (l' @ [(KeybdEvent vk 0 0, wa_value W l' (KeybdEvent vk 0 0))]) (KeybdEvent vk 0 KEYEVENTF_KEYUP))],
         Inr ())"
  using supported_resolves [OF validate_key_supported [OF assms(1)], of W l] assms(2)
  by (auto simp: win_press_key_def win_do_def win_call_def Let_def split: if_splits)

definition demo_win :: win_api where
  "demo_win = \<lparr>wa_available = True, wa_value = (\<lambda>_ _. 1), wa_text = (\<lambda>_ _. []), wa_rect = (\<lambda>_ _. (0, 0, 100, 100)),
     wa_pid = (\<lambda>_ _. 7), wa_point = (\<lambda>_. (0, 0)), wa_handles = (\<lambda>_. []), wa_memory = (\<lambda>_. (0, 0)),
     wa_picture = (\<lambda>_ _ _ _. Inr []), wa_machine = ([], [], [], 1)\<rparr>"

theorem validated_key_pressed_witness:
  "win_press_key demo_win ''PAUSE'' [] = ([], Inl (WinNameError ''KeyboardActionError''))"
proof -
  have "validate_key ''pause'' = Inr ''PAUSE''" by code_simp
  from validated_key_pressed [OF this, of demo_win "[]"] show ?thesis by (simp add: demo_win_def unmapped_keys_def)
qed

text \<open>A combination is pressed as a whole or not at all: if one key cannot be resolved, no event is sent.\<close>

lemma resolve_no_events:
  "fst (win_resolve_all W ks l) = l @ ext \<Longrightarrow> \<forall>e \<in> set ext. \<exists>c v. e = (VkKeyScanW c, v)"
proof (induction ks arbitrary: l ext)
  case (Cons k ks)
  obtain l1 r where r: "win_resolve_vk W k l = (l1, r)" by fastforce
  then obtain e1 where e1: "l1 = l @ e1" "\<forall>e \<in> set e1. \<exists>c v. e = (VkKeyScanW c, v)"
    by (fastforce simp: win_resolve_vk_def win_call_def Let_def split: option.splits if_splits)
  have grows: "\<exists>x. fst (win_resolve_all W ks l) = l @ x" for ks l
  proof (induction ks arbitrary: l)
    case (Cons k ks)
    obtain l1 r where r: "win_resolve_vk W k l = (l1, r)" by fastforce
    then obtain e1 where "l1 = l @ e1"
      by (fastforce simp: win_resolve_vk_def win_call_def Let_def split: option.splits if_splits)
    with r Cons.IH [of l1] show ?case by (cases r) (auto split: prod.splits sum.splits)
  qed simp
  obtain e2 where e2: "fst (win_resolve_all W ks l1) = l1 @ e2" using grows by blast
  show ?case
  proof (cases r)
    case (Inl e)
    with r e1 Cons.prems show ?thesis by simp
  next
    case (Inr v)
    have "fst (win_resolve_all W (k # ks) l) = l1 @ e2"
      using r Inr e2 by (auto split: prod.splits sum.splits)
    with e1 Cons.prems Cons.IH [OF e2] show ?thesis by auto
  qed
qed simp

lemma hotkey_all_or_nothing:
  assumes "win_send_hotkey W ks l = (l @ ext, Inl e)"
  shows "\<forall>e \<in> set ext. \<exists>c v. e = (VkKeyScanW c, v)"
proof -
  have "fst (win_resolve_all W ks l) = l @ ext"
    using assms by (auto simp: win_send_hotkey_def split: if_splits prod.splits sum.splits)
  then show ?thesis by (rule resolve_no_events)
qed

section \<open>What the answers do not say\<close>

text \<open>The monitor asked for has no influence on the picture, and a refused focus is reported as done.\<close>

lemma capture_ignores_monitor: "win_capture_screen W a m f mw mh = win_capture_screen W a m' f mw mh"
  by (simp add: win_capture_screen_def fun_eq_iff)

lemma focus_always_reported: "wa_available W \<Longrightarrow> snd (win_set_state W h WFocus l) = True"
  by (simp add: win_set_state_def Let_def)

end
