(* ===== verification/Office_Tools.thy ===== *)
theory Office_Tools
  imports Sandbox Py_Value
begin

text \<open>
  The document generators (\<open>tools/builtins/office\<close>): limits and the check of the written file (\<open>base.py\<close>), and
  the tools for Word, Excel, PowerPoint and PDF. A document is the list of parts that the tool hands to its
  library; the library is a parameter that refuses parts, writes the list to a path, and tells what is
  read when the file is opened again. Styles, fonts and column widths are left out. Shown: a tool writes at
  most once, inside the workspace and within the limits, and a result describes a file that is there.
\<close>

section \<open>Limits and files\<close>

datatype office_error = SandboxViolation string | ResourceLimitExceeded string | ArtifactVerification string

type_synonym office_exc = "office_error exc"

record office_limits =
  ol_max_file_size_bytes :: nat
  ol_max_table_rows :: nat
  ol_max_table_cols :: nat
  ol_max_slides :: nat
  ol_max_pages :: nat
  ol_max_text_length :: nat

definition DEFAULT_LIMITS :: office_limits where
  "DEFAULT_LIMITS = \<lparr>ol_max_file_size_bytes = 52428800, ol_max_table_rows = 10000, ol_max_table_cols = 200,
     ol_max_slides = 100, ol_max_pages = 200, ol_max_text_length = 1000000\<rparr>"

record ('p, 'w, 'i) doc_lib =
  dl_refuses :: "'p \<Rightarrow> string option"
  dl_save :: "'p list \<Rightarrow> string list \<Rightarrow> 'w \<Rightarrow> 'w \<times> (string \<times> string) option"
  dl_size :: "'w \<Rightarrow> string list \<Rightarrow> nat option"
  dl_reopen :: "'w \<Rightarrow> string list \<Rightarrow> string + 'i"

definition verify_file_size :: "nat option \<Rightarrow> string list \<Rightarrow> office_exc + nat" where
  "verify_file_size found p =
     (case found of
        None \<Rightarrow> Inl (Typed (ArtifactVerification (''Artifact does not exist: '' @ quoted (path_text p))))
      | Some n \<Rightarrow>
          if n = 0 then Inl (Typed (ArtifactVerification (''Generated artifact is empty (0 bytes): '' @ quoted (path_text p))))
          else if ol_max_file_size_bytes DEFAULT_LIMITS < n
          then Inl (Typed (ResourceLimitExceeded (''Generated file size '' @ show_nat n @ '' bytes exceeds limit of ''
                 @ show_nat (ol_max_file_size_bytes DEFAULT_LIMITS) @ '' bytes.'')))
          else Inr n)"

definition sandboxed :: "string + 'a \<Rightarrow> office_exc + 'a" where
  "sandboxed r = (case r of Inl m \<Rightarrow> Inl (Typed (SandboxViolation m)) | Inr x \<Rightarrow> Inr x)"

text \<open>The destination of a tool: \<open>None\<close> stands for a missing context or sandbox.\<close>

definition office_target :: "(file_system \<times> string list) option \<Rightarrow> string \<Rightarrow> string \<Rightarrow> office_exc + string list" where
  "office_target ctx ext filename =
     (case ctx of
        None \<Rightarrow> Inl (PyExc ''ValueError'')
      | Some (fs, ws) \<Rightarrow>
          bind_res (sandboxed (sanitize_filename filename)) (\<lambda>clean.
            let name = (if ends_with (lower clean) (CHR ''.'' # ext) then clean else clean @ CHR ''.'' # ext)
            in sandboxed (resolve_safe_path fs ws name (Some [ext]) False)))"

text \<open>Saving, the two checks, and the answer; \<open>check\<close> gives the fields that the tool adds.\<close>

definition store_document ::
  "('p, 'w, 'i) doc_lib \<Rightarrow> (string \<times> string \<Rightarrow> office_exc) \<Rightarrow> ('i \<Rightarrow> string + pyval dict) \<Rightarrow> string \<Rightarrow> 'p list \<Rightarrow> string list
     \<Rightarrow> 'w \<Rightarrow> 'w \<times> (office_exc + pyval)" where
  "store_document D save_error check kind parts p w =
     (case dl_save D parts p w of
        (w1, Some e) \<Rightarrow> (w1, Inl (save_error e))
      | (w1, None) \<Rightarrow>
          (w1, bind_res (verify_file_size (dl_size D w1 p) p) (\<lambda>n.
               case (case dl_reopen D w1 p of Inl t \<Rightarrow> Inl t | Inr i \<Rightarrow> check i) of
                 Inl t \<Rightarrow> Inl (Typed (ArtifactVerification (kind @ '' structural verification failed: '' @ t)))
               | Inr extra \<Rightarrow>
                   Inr (PDict ([(''status'', PStr ''success''), (''filename'', PStr (path_name p)), (''path'', PStr (path_text p)),
                               (''size_bytes'', PInt (int n))] @ extra @ [(''artifacts'', PList [PStr (path_text p)])])))))"

definition raised_class :: "string \<times> string \<Rightarrow> office_exc" where
  "raised_class e = PyExc (fst e)"

text \<open>A part is handed to the library, which may refuse it.\<close>

definition add_part :: "('p, 'w, 'i) doc_lib \<Rightarrow> 'p \<Rightarrow> 'p list \<Rightarrow> office_exc + 'p list" where
  "add_part D p ps = (case dl_refuses D p of Some c \<Rightarrow> Inl (PyExc c) | None \<Rightarrow> Inr (ps @ [p]))"

definition add_parts :: "('p, 'w, 'i) doc_lib \<Rightarrow> 'p list \<Rightarrow> 'p list \<Rightarrow> office_exc + 'p list" where
  "add_parts D qs ps = fold_res (add_part D) qs ps"

text \<open>\<open>len(v)\<close>, \<open>v[:n]\<close>, \<open>int(v)\<close>, and \<open>v and isinstance(v, list)\<close>.\<close>

definition py_len :: "pyval \<Rightarrow> office_exc + nat" where
  "py_len v = (case v of PList xs \<Rightarrow> Inr (length xs) | PDict m \<Rightarrow> Inr (length m) | PStr s \<Rightarrow> Inr (length s)
     | _ \<Rightarrow> Inl (PyExc ''TypeError''))"

definition py_take :: "nat \<Rightarrow> pyval \<Rightarrow> office_exc + pyval list" where
  "py_take n v = (case v of PList xs \<Rightarrow> Inr (take n xs) | PStr s \<Rightarrow> Inr (map (\<lambda>c. PStr [c]) (take n s))
     | _ \<Rightarrow> Inl (PyExc ''TypeError''))"

definition py_int :: "py_lib \<Rightarrow> pyval \<Rightarrow> office_exc + int" where
  "py_int L v =
     (case pl_int L v of Some i \<Rightarrow> Inr i
      | None \<Rightarrow> Inl (PyExc (case v of PStr _ \<Rightarrow> ''ValueError'' | _ \<Rightarrow> ''TypeError'')))"

definition given_list :: "pyval \<Rightarrow> pyval list" where
  "given_list v = (case v of PList xs \<Rightarrow> xs | _ \<Rightarrow> [])"

definition too_many :: "string \<Rightarrow> nat \<Rightarrow> string \<Rightarrow> nat \<Rightarrow> office_exc" where
  "too_many what n middle limit =
     Typed (ResourceLimitExceeded (what @ '' ('' @ show_nat n @ '') exceeds '' @ middle @ show_nat limit))"

section \<open>Word\<close>

datatype docx_part =
    DxHeading string int
  | DxItalic string
  | DxPara string
  | DxBullet string
  | DxTable nat "string list" "string list list"

definition docx_heading :: "py_lib \<Rightarrow> (docx_part, 'w, 'i) doc_lib \<Rightarrow> pyval \<Rightarrow> docx_part list \<Rightarrow> office_exc + docx_part list" where
  "docx_heading L D sec ps =
     bind_res (py_get sec ''heading'' PNone) (\<lambda>h.
       if truthy h
       then bind_res (py_get sec ''level'' (PInt 1)) (\<lambda>lv.
            bind_res (py_int L lv) (\<lambda>i. add_part D (DxHeading (py_text L h) i) ps))
       else Inr ps)"

definition docx_table :: "py_lib \<Rightarrow> (docx_part, 'w, 'i) doc_lib \<Rightarrow> pyval list \<Rightarrow> docx_part list \<times> nat
     \<Rightarrow> office_exc + docx_part list \<times> nat" where
  "docx_table L D rows acc =
     (case (rows, acc) of
        ([], _) \<Rightarrow> Inr acc
      | (headers # rest, (ps, tot)) \<Rightarrow>
          let tot' = tot + length rows
          in if ol_max_table_rows DEFAULT_LIMITS < tot'
             then Inl (too_many ''Total table rows'' tot' ''limit of '' (ol_max_table_rows DEFAULT_LIMITS))
             else bind_res (py_len headers) (\<lambda>n.
                  if ol_max_table_cols DEFAULT_LIMITS < n
                  then Inl (too_many ''Table columns'' n ''limit of '' (ol_max_table_cols DEFAULT_LIMITS))
                  else bind_res (py_iter headers) (\<lambda>hs.
                       bind_res (map_res (py_take n) rest) (\<lambda>cells.
                       bind_res (add_part D (DxTable n (map (py_text L) hs) (map (map (py_text L)) cells)) ps) (\<lambda>ps'.
                         Inr (ps', tot'))))))"

definition docx_section :: "py_lib \<Rightarrow> (docx_part, 'w, 'i) doc_lib \<Rightarrow> pyval \<Rightarrow> docx_part list \<times> nat
     \<Rightarrow> office_exc + docx_part list \<times> nat" where
  "docx_section L D sec acc =
     bind_res (docx_heading L D sec (fst acc)) (\<lambda>ps.
     bind_res (py_get sec ''paragraph'' PNone) (\<lambda>para.
     bind_res (if truthy para then add_part D (DxPara (py_text L para)) ps else Inr ps) (\<lambda>ps.
     bind_res (py_get sec ''bullets'' PNone) (\<lambda>bullets.
     bind_res (add_parts D (map (DxBullet \<circ> py_text L) (given_list bullets)) ps) (\<lambda>ps.
     bind_res (py_get sec ''table'' PNone) (\<lambda>tab.
       docx_table L D (given_list tab) (ps, snd acc)))))))"

definition docx_check :: "nat \<times> nat \<Rightarrow> string + pyval dict" where
  "docx_check i =
     (if fst i = 0 \<and> snd i = 0 then Inl ''Reopened DOCX document contains no paragraphs or tables.''
      else Inr [(''paragraphs_count'', PInt (int (fst i))), (''tables_count'', PInt (int (snd i)))])"

definition create_docx ::
  "py_lib \<Rightarrow> (docx_part, 'w, nat \<times> nat) doc_lib \<Rightarrow> (file_system \<times> string list) option \<Rightarrow> string \<Rightarrow> string \<Rightarrow> pyval list
     \<Rightarrow> string option \<Rightarrow> 'w \<Rightarrow> 'w \<times> (office_exc + pyval)" where
  "create_docx L D ctx filename title sections subtitle w =
     (case bind_res (office_target ctx ''docx'' filename) (\<lambda>p.
           bind_res (add_part D (DxHeading title 0) []) (\<lambda>ps.
           bind_res (add_parts D (case subtitle of Some (c # s) \<Rightarrow> [DxItalic (c # s)] | _ \<Rightarrow> []) ps) (\<lambda>ps.
           bind_res (fold_res (docx_section L D) sections (ps, 0)) (\<lambda>(ps, tot). Inr (p, ps))))) of
        Inl e \<Rightarrow> (w, Inl e)
      | Inr (p, ps) \<Rightarrow> store_document D raised_class docx_check ''DOCX'' ps p w)"

section \<open>Excel\<close>

datatype xlsx_part = XlSheet string | XlRow pyval

definition xlsx_headers :: "(xlsx_part, 'w, 'i) doc_lib \<Rightarrow> pyval \<Rightarrow> xlsx_part list \<Rightarrow> office_exc + xlsx_part list" where
  "xlsx_headers D headers ps =
     (if \<not> truthy headers then Inr ps
      else bind_res (py_len headers) (\<lambda>n.
           if ol_max_table_cols DEFAULT_LIMITS < n
           then Inl (too_many ''Column count'' n ''limit of '' (ol_max_table_cols DEFAULT_LIMITS))
           else add_part D (XlRow headers) ps))"

definition xlsx_rows :: "(xlsx_part, 'w, 'i) doc_lib \<Rightarrow> pyval \<Rightarrow> xlsx_part list \<times> nat \<Rightarrow> office_exc + xlsx_part list \<times> nat" where
  "xlsx_rows D rows acc =
     (if \<not> truthy rows then Inr acc
      else bind_res (py_len rows) (\<lambda>n.
           if ol_max_table_rows DEFAULT_LIMITS < snd acc + n
           then Inl (too_many ''Total rows'' (snd acc + n) ''limit of '' (ol_max_table_rows DEFAULT_LIMITS))
           else bind_res (py_iter rows) (\<lambda>rs.
                bind_res (add_parts D (map XlRow rs) (fst acc)) (\<lambda>ps. Inr (ps, snd acc + n)))))"

text \<open>One sheet; the state holds the parts, the names of the sheets and the number of rows.\<close>

definition xlsx_sheet :: "py_lib \<Rightarrow> (xlsx_part, 'w, 'i) doc_lib \<Rightarrow> nat \<times> pyval \<Rightarrow> xlsx_part list \<times> string list \<times> nat
     \<Rightarrow> office_exc + xlsx_part list \<times> string list \<times> nat" where
  "xlsx_sheet L D isheet acc =
     (case (isheet, acc) of ((idx, spec), (ps, names, tot)) \<Rightarrow>
        bind_res (py_get spec ''name'' (PStr (''Sheet'' @ show_nat (idx + 1)))) (\<lambda>nm.
          let name = take 31 (py_text L nm)
          in bind_res (add_part D (XlSheet name) ps) (\<lambda>ps.
             bind_res (py_get spec ''headers'' (PList [])) (\<lambda>headers.
             bind_res (xlsx_headers D headers ps) (\<lambda>ps.
             bind_res (py_get spec ''rows'' (PList [])) (\<lambda>rows.
             bind_res (xlsx_rows D rows (ps, tot)) (\<lambda>(ps, tot). Inr (ps, names @ [name], tot))))))))"

definition xlsx_check :: "string list \<Rightarrow> nat \<Rightarrow> nat \<Rightarrow> string + pyval dict" where
  "xlsx_check names tot found =
     (if found \<noteq> length names then Inl (''Expected '' @ show_nat (length names) @ '' sheets, found '' @ show_nat found)
      else Inr [(''sheets_count'', PInt (int (length names))), (''sheet_names'', PList (map PStr names)),
                (''total_rows'', PInt (int tot))])"

definition create_xlsx ::
  "py_lib \<Rightarrow> (xlsx_part, 'w, nat) doc_lib \<Rightarrow> (file_system \<times> string list) option \<Rightarrow> string \<Rightarrow> pyval list
     \<Rightarrow> 'w \<Rightarrow> 'w \<times> (office_exc + pyval)" where
  "create_xlsx L D ctx filename sheets w =
     (if ctx = None \<or> sheets = [] then (w, Inl (PyExc ''ValueError''))
      else case bind_res (office_target ctx ''xlsx'' filename) (\<lambda>p.
                bind_res (fold_res (xlsx_sheet L D) (enumerated sheets) ([], [], 0)) (\<lambda>(ps, names, tot).
                  Inr (p, ps, names, tot))) of
             Inl e \<Rightarrow> (w, Inl e)
           | Inr (p, ps, names, tot) \<Rightarrow> store_document D raised_class (xlsx_check names tot) ''XLSX'' ps p w)"

section \<open>PowerPoint\<close>

datatype pptx_part = PpTitle string "string option" | PpSlide string "string list"

text \<open>The paragraphs of a slide: the content, then the bullets.\<close>

definition pptx_slide :: "py_lib \<Rightarrow> (pptx_part, 'w, 'i) doc_lib \<Rightarrow> pyval \<Rightarrow> pptx_part list \<Rightarrow> office_exc + pptx_part list" where
  "pptx_slide L D spec ps =
     bind_res (py_get spec ''title'' (PStr [])) (\<lambda>t.
     bind_res (py_get spec ''bullets'' (PList [])) (\<lambda>bullets.
     bind_res (py_get spec ''content'' PNone) (\<lambda>content.
       add_part D (PpSlide (py_text L t)
         ((if truthy content then [py_text L content] else []) @ map (py_text L) (given_list bullets))) ps)))"

definition pptx_check :: "nat \<Rightarrow> nat \<Rightarrow> string + pyval dict" where
  "pptx_check expected found =
     (if found \<noteq> expected
      then Inl (''Expected '' @ show_nat expected @ '' slides in presentation, but verified '' @ show_nat found)
      else Inr [(''slides_count'', PInt (int found))])"

definition create_pptx ::
  "py_lib \<Rightarrow> (pptx_part, 'w, nat) doc_lib \<Rightarrow> (file_system \<times> string list) option \<Rightarrow> string \<Rightarrow> string \<Rightarrow> pyval list
     \<Rightarrow> string option \<Rightarrow> 'w \<Rightarrow> 'w \<times> (office_exc + pyval)" where
  "create_pptx L D ctx filename title slides subtitle w =
     (let tot = 1 + length slides
      in case bind_res (office_target ctx ''pptx'' filename) (\<lambda>p.
              if ol_max_slides DEFAULT_LIMITS < tot
              then Inl (too_many ''Slide count'' tot ''maximum allowed of '' (ol_max_slides DEFAULT_LIMITS))
              else bind_res (add_part D (PpTitle title (case subtitle of Some (c # s) \<Rightarrow> Some (c # s) | _ \<Rightarrow> None)) []) (\<lambda>ps.
                   bind_res (fold_res (pptx_slide L D) slides ps) (\<lambda>ps. Inr (p, ps)))) of
           Inl e \<Rightarrow> (w, Inl e)
         | Inr (p, ps) \<Rightarrow> store_document D raised_class (pptx_check tot) ''PPTX'' ps p w)"

section \<open>PDF\<close>

datatype pdf_part = PfPara string string | PfSpacer nat | PfBreak | PfTable "pyval list"

definition pdf_text :: "py_lib \<Rightarrow> (pdf_part, 'w, 'i) doc_lib \<Rightarrow> string \<Rightarrow> nat \<Rightarrow> pyval \<Rightarrow> pdf_part list \<Rightarrow> office_exc + pdf_part list" where
  "pdf_text L D style gap v ps = (if truthy v then add_parts D [PfPara style (py_text L v), PfSpacer gap] ps else Inr ps)"

definition pdf_table :: "(pdf_part, 'w, 'i) doc_lib \<Rightarrow> pyval list \<Rightarrow> pdf_part list \<times> nat \<Rightarrow> office_exc + pdf_part list \<times> nat" where
  "pdf_table D rows acc =
     (if rows = [] then Inr acc
      else let tot = snd acc + length rows
           in if ol_max_table_rows DEFAULT_LIMITS < tot
              then Inl (too_many ''Total table rows'' tot ''limit of '' (ol_max_table_rows DEFAULT_LIMITS))
              else bind_res (add_parts D [PfTable rows, PfSpacer 12] (fst acc)) (\<lambda>ps. Inr (ps, tot)))"

definition pdf_section :: "py_lib \<Rightarrow> (pdf_part, 'w, 'i) doc_lib \<Rightarrow> pyval \<Rightarrow> pdf_part list \<times> nat \<Rightarrow> office_exc + pdf_part list \<times> nat" where
  "pdf_section L D sec acc =
     bind_res (py_get sec ''page_break'' (PBool False)) (\<lambda>pb.
       if truthy pb then bind_res (add_part D PfBreak (fst acc)) (\<lambda>ps. Inr (ps, snd acc))
       else bind_res (py_get sec ''heading'' PNone) (\<lambda>h.
            bind_res (pdf_text L D ''Heading2'' 6 h (fst acc)) (\<lambda>ps.
            bind_res (py_get sec ''paragraph'' PNone) (\<lambda>para.
            bind_res (pdf_text L D ''BodyText'' 8 para ps) (\<lambda>ps.
            bind_res (py_get sec ''bullets'' PNone) (\<lambda>bullets.
            bind_res (if given_list bullets = [] then Inr ps
                      else add_parts D (map (\<lambda>b. PfPara ''BodyText'' (''&bull; '' @ py_text L b)) (given_list bullets)
                             @ [PfSpacer 8]) ps) (\<lambda>ps.
            bind_res (py_get sec ''table'' PNone) (\<lambda>tab. pdf_table D (given_list tab) (ps, snd acc)))))))))"

text \<open>The file as a text: the magic number, and the marker among the last 1024 bytes, which are
  reached by seeking back from the end.\<close>

definition pdf_check :: "string \<Rightarrow> string \<Rightarrow> string + pyval dict" where
  "pdf_check name data =
     (if take 5 data \<noteq> ''%PDF-'' then Inl (''File '' @ quoted name @ '' is not a valid PDF (invalid magic header).'')
      else if length data < 1024 then Inl ''[Errno 22] Invalid argument''
      else if \<not> contains (drop (length data - 1024) data) ''%%EOF''
      then Inl (''File '' @ quoted name @ '' is incomplete (missing %%EOF marker).'')
      else Inr [])"

definition pdf_compile_error :: "string \<times> string \<Rightarrow> office_exc" where
  "pdf_compile_error e = Typed (ArtifactVerification (''PDF compilation failed: '' @ snd e))"

definition create_pdf ::
  "py_lib \<Rightarrow> (pdf_part, 'w, string) doc_lib \<Rightarrow> (file_system \<times> string list) option \<Rightarrow> string \<Rightarrow> string \<Rightarrow> pyval list
     \<Rightarrow> string option \<Rightarrow> 'w \<Rightarrow> 'w \<times> (office_exc + pyval)" where
  "create_pdf L D ctx filename title sections subtitle w =
     (case bind_res (office_target ctx ''pdf'' filename) (\<lambda>p.
           bind_res (add_parts D [PfPara ''Title'' title, PfSpacer 12] []) (\<lambda>ps.
           bind_res (add_parts D (case subtitle of Some (c # s) \<Rightarrow> [PfPara ''Subtitle'' (c # s), PfSpacer 12] | _ \<Rightarrow> []) ps) (\<lambda>ps.
           bind_res (fold_res (pdf_section L D) sections (ps, 0)) (\<lambda>(ps, tot). Inr (p, ps))))) of
        Inl e \<Rightarrow> (w, Inl e)
      | Inr (p, ps) \<Rightarrow> store_document D pdf_compile_error (pdf_check (path_name p)) ''PDF'' ps p w)"

section \<open>Limits and artifacts\<close>

lemma add_part_Inr: "add_part D p ps = Inr ps' \<longleftrightarrow> dl_refuses D p = None \<and> ps' = ps @ [p]"
  by (auto simp: add_part_def split: option.split)

lemma add_parts_Inr: "add_parts D qs ps = Inr ps' \<Longrightarrow> ps' = ps @ qs"
  unfolding add_parts_def by (induction qs arbitrary: ps) (fastforce simp: bind_res_Inr add_part_Inr)+

lemma sandboxed_Inr: "sandboxed r = Inr x \<longleftrightarrow> r = Inr x"
  by (cases r) (auto simp: sandboxed_def)

lemma office_target_inside:
  "office_target (Some (fs, ws)) ext filename = Inr p \<Longrightarrow> inside_root ws p \<and> norm_ext (path_suffix p) = norm_ext ext"
  by (auto simp: office_target_def bind_res_Inr sandboxed_Inr Let_def dest!: resolve_safe_path_inv resolve_confined_ok
      simp: is_relative_to_iff)

lemma verify_file_size_Inr:
  "verify_file_size found p = Inr n \<longleftrightarrow> found = Some n \<and> 0 < n \<and> n \<le> ol_max_file_size_bytes DEFAULT_LIMITS"
  by (auto simp: verify_file_size_def split: option.split)

text \<open>What an answer promises about the file at \<open>p\<close>.\<close>

definition describes_file :: "('p, 'w, 'i) doc_lib \<Rightarrow> 'w \<Rightarrow> string list \<Rightarrow> pyval \<Rightarrow> bool" where
  "describes_file D w p v =
     (case (v, dl_size D w p) of
        (PDict m, Some n) \<Rightarrow>
          0 < n \<and> n \<le> 52428800 \<and> dict_get m ''size_bytes'' = Some (PInt (int n)) \<and>
          dict_get m ''path'' = Some (PStr (path_text p)) \<and>
          (''artifacts'', PList [PStr (path_text p)]) \<in> set m
      | _ \<Rightarrow> False)"

text \<open>A tool either fails and leaves the world alone, or saves one document that satisfies \<open>ok\<close>, inside the
  workspace and under the extension, and any answer describes that file.\<close>

definition saves_once ::
  "('p, 'w, 'i) doc_lib \<Rightarrow> string list \<Rightarrow> string \<Rightarrow> ('p list \<Rightarrow> bool) \<Rightarrow> 'w \<Rightarrow> 'w \<times> (office_exc + pyval) \<Rightarrow> bool" where
  "saves_once D ws ext ok w out =
     ((\<exists>e. out = (w, Inl e)) \<or>
      (\<exists>p ps. inside_root ws p \<and> norm_ext (path_suffix p) = ext \<and> ok ps \<and> fst out = fst (dl_save D ps p w) \<and>
         (case snd out of Inl _ \<Rightarrow> True | Inr v \<Rightarrow> describes_file D (fst out) p v)))"

lemma store_document_saves_once:
  assumes "inside_root ws p" and "norm_ext (path_suffix p) = ext" and "ok ps"
  shows "saves_once D ws ext ok w (store_document D save_error check kind ps p w)"
proof -
  obtain w1 fault where save: "dl_save D ps p w = (w1, fault)" by (cases "dl_save D ps p w")
  have "case snd (store_document D save_error check kind ps p w) of Inl _ \<Rightarrow> True
      | Inr v \<Rightarrow> describes_file D w1 p v"
  proof (cases "fault = None \<and> (\<exists>n. verify_file_size (dl_size D w1 p) p = Inr n) \<and>
      (\<exists>i extra. dl_reopen D w1 p = Inr i \<and> check i = Inr extra)")
    case True
    then obtain n i extra where run: "fault = None" "verify_file_size (dl_size D w1 p) p = Inr n"
      "dl_reopen D w1 p = Inr i" "check i = Inr extra" by blast
    have "snd (store_document D save_error check kind ps p w) =
        Inr (PDict ([(''status'', PStr ''success''), (''filename'', PStr (path_name p)), (''path'', PStr (path_text p)),
          (''size_bytes'', PInt (int n))] @ extra @ [(''artifacts'', PList [PStr (path_text p)])]))"
      by (simp add: store_document_def save run)
    then show ?thesis using run(2) by (simp add: describes_file_def verify_file_size_Inr DEFAULT_LIMITS_def)
  next
    case False
    then show ?thesis
      by (auto simp: store_document_def save bind_res_def split: option.split sum.splits)
  qed
  moreover have "fst (store_document D save_error check kind ps p w) = w1"
    by (simp add: store_document_def save split: option.split)
  ultimately show ?thesis
    unfolding saves_once_def using assms save by (metis fst_conv)
qed

text \<open>Word: the rows of all tables together, and the width of each table.\<close>

fun docx_part_rows :: "docx_part \<Rightarrow> nat" where
  "docx_part_rows (DxTable n hs cells) = Suc (length cells)"
| "docx_part_rows _ = 0"

fun docx_narrow :: "docx_part \<Rightarrow> bool" where
  "docx_narrow (DxTable n hs cells) = (n \<le> 200 \<and> length hs = n \<and> list_all (\<lambda>c. length c \<le> n) cells)"
| "docx_narrow _ = True"

definition docx_fits :: "docx_part list \<Rightarrow> bool" where
  "docx_fits ps = (sum_list (map docx_part_rows ps) \<le> 10000 \<and> list_all docx_narrow ps)"

definition docx_inv :: "docx_part list \<times> nat \<Rightarrow> bool" where
  "docx_inv acc = (docx_fits (fst acc) \<and> sum_list (map docx_part_rows (fst acc)) = snd acc)"

lemma docx_inv_plain:
  "docx_inv (ps, tot) \<Longrightarrow> list_all (\<lambda>q. docx_part_rows q = 0 \<and> docx_narrow q) qs \<Longrightarrow> docx_inv (ps @ qs, tot)"
  by (induction qs) (auto simp: docx_inv_def docx_fits_def)

lemma py_len_iter: "py_len v = Inr n \<Longrightarrow> py_iter v = Inr xs \<Longrightarrow> length xs = n"
  by (auto simp: py_len_def py_iter_def split: pyval.splits)

lemma py_take_length: "py_take n v = Inr xs \<Longrightarrow> length xs \<le> n"
  by (auto simp: py_take_def split: pyval.splits)

lemma map_res_bound: "map_res f xs = Inr ys \<Longrightarrow> (\<And>x y. f x = Inr y \<Longrightarrow> P y) \<Longrightarrow> length ys = length xs \<and> list_all P ys"
  by (induction xs arbitrary: ys) (auto simp: bind_res_Inr)

lemma docx_table_inv:
  assumes "docx_table L D rows acc = Inr acc'" and inv: "docx_inv acc"
  shows "docx_inv acc'"
proof (cases rows)
  case Nil
  with assms show ?thesis by (simp add: docx_table_def)
next
  case (Cons headers rest)
  obtain ps tot where acc: "acc = (ps, tot)" by (cases acc)
  obtain n where n: "py_len headers = Inr n"
    using assms(1) by (cases "py_len headers") (auto simp: docx_table_def Cons acc Let_def split: if_splits)
  obtain hs where hs: "(py_iter headers :: office_exc + pyval list) = Inr hs"
    using assms(1) by (cases "py_iter headers :: office_exc + pyval list")
      (auto simp: docx_table_def Cons acc Let_def n split: if_splits)
  obtain cells where cells: "map_res (py_take n) rest = Inr cells"
    using assms(1) by (cases "map_res (py_take n) rest") (auto simp: docx_table_def Cons acc Let_def n hs split: if_splits)
  from assms(1) have limits: "tot + Suc (length rest) \<le> 10000" "n \<le> 200"
    and acc': "acc' = (ps @ [DxTable n (map (py_text L) hs) (map (map (py_text L)) cells)], tot + Suc (length rest))"
    by (auto simp: docx_table_def Cons acc Let_def DEFAULT_LIMITS_def n hs cells bind_res_Inr add_part_Inr split: if_splits)
  from map_res_bound [OF cells, of "\<lambda>c. length c \<le> n"] py_take_length
  have "length cells = length rest" "list_all (\<lambda>c. length c \<le> n) cells" by blast+
  with inv limits py_len_iter [OF n hs] show ?thesis
    by (simp add: acc acc' docx_inv_def docx_fits_def list_all_iff)
qed

lemma docx_section_inv: "docx_section L D sec acc = Inr acc' \<Longrightarrow> docx_inv acc \<Longrightarrow> docx_inv acc'"
  by (cases acc)
    (auto simp: docx_section_def docx_heading_def bind_res_Inr add_part_Inr list_all_iff split: if_splits
      intro!: docx_inv_plain elim!: docx_table_inv dest!: add_parts_Inr)

lemma saves_once_planned:
  assumes "\<And>p x. plan = Inr (p, x) \<Longrightarrow> saves_once D ws ext ok w (run p x)"
  shows "saves_once D ws ext ok w (case plan of Inl e \<Rightarrow> (w, Inl e) | Inr (p, x) \<Rightarrow> run p x)"
  using assms by (cases plan) (auto simp: saves_once_def)

lemma create_docx_saves_once:
  "saves_once D ws ''docx'' docx_fits w (create_docx L D (Some (fs, ws)) filename title sections subtitle w)"
proof -
  have "inside_root ws p \<and> norm_ext (path_suffix p) = ''docx'' \<and> docx_fits ps"
    if target: "office_target (Some (fs, ws)) ''docx'' filename = Inr p"
      and start: "add_part D (DxHeading title 0) [] = Inr ps0"
        "add_parts D (case subtitle of Some (c # s) \<Rightarrow> [DxItalic (c # s)] | _ \<Rightarrow> []) ps0 = Inr ps1"
      and body: "fold_res (docx_section L D) sections (ps1, 0) = Inr (ps, tot)" for p ps0 ps1 ps tot
  proof -
    have "docx_inv (ps1, 0)"
      using start by (auto simp: add_part_Inr docx_inv_def docx_fits_def dest!: add_parts_Inr split: option.split list.split)
    from fold_res_inv [where I = docx_inv, OF body this] docx_section_inv have "docx_inv (ps, tot)" by blast
    moreover have "norm_ext ''docx'' = ''docx''" by code_simp
    ultimately show ?thesis using office_target_inside [OF target] by (simp add: docx_inv_def)
  qed
  then show ?thesis
    unfolding create_docx_def
    by (intro saves_once_planned store_document_saves_once) (auto simp: bind_res_Inr)
qed

text \<open>Excel: the rows without the header rows, and the names of the sheets.\<close>

abbreviation is_sheet :: "xlsx_part \<Rightarrow> bool" where
  "is_sheet q \<equiv> (case q of XlSheet _ \<Rightarrow> True | XlRow _ \<Rightarrow> False)"

definition xlsx_fits :: "nat \<Rightarrow> xlsx_part list \<Rightarrow> bool" where
  "xlsx_fits n ps =
     (length (filter is_sheet ps) = n \<and> length (filter (\<lambda>q. \<not> is_sheet q) ps) \<le> 10000 + n \<and>
      list_all (\<lambda>q. case q of XlSheet s \<Rightarrow> length s \<le> 31 | _ \<Rightarrow> True) ps)"

fun xlsx_inv :: "xlsx_part list \<times> string list \<times> nat \<Rightarrow> bool" where
  "xlsx_inv (ps, names, tot) =
     (length (filter is_sheet ps) = length names \<and> length (filter (\<lambda>q. \<not> is_sheet q) ps) \<le> tot + length names \<and>
      tot \<le> 10000 \<and> list_all (\<lambda>q. case q of XlSheet s \<Rightarrow> length s \<le> 31 | _ \<Rightarrow> True) ps)"

lemma xlsx_rows_Inr:
  assumes "xlsx_rows D rows acc = Inr acc'" and "snd acc \<le> 10000"
  shows "\<exists>rs. fst acc' = fst acc @ map XlRow rs \<and> snd acc' = snd acc + length rs \<and> snd acc' \<le> 10000"
proof (cases "truthy rows")
  case True
  with assms(1) obtain n where n: "py_len rows = Inr n"
    by (cases "py_len rows") (auto simp: xlsx_rows_def)
  with True assms(1) obtain rs where rs: "(py_iter rows :: office_exc + pyval list) = Inr rs"
    by (cases "py_iter rows :: office_exc + pyval list") (auto simp: xlsx_rows_def split: if_splits)
  from True assms(1) n rs py_len_iter [OF n rs] show ?thesis
    by (auto simp: xlsx_rows_def bind_res_Inr DEFAULT_LIMITS_def dest!: add_parts_Inr split: if_splits)
qed (use assms in \<open>auto simp: xlsx_rows_def\<close>)

lemma xlsx_headers_Inr:
  "xlsx_headers D headers ps = Inr ps' \<Longrightarrow> ps' = ps \<or> ps' = ps @ [XlRow headers]"
  by (auto simp: xlsx_headers_def bind_res_Inr add_part_Inr split: if_splits)

lemma xlsx_sheet_count: "xlsx_sheet L D isheet acc = Inr acc' \<Longrightarrow> length (fst (snd acc')) = Suc (length (fst (snd acc)))"
  by (auto simp: xlsx_sheet_def bind_res_Inr Let_def split: prod.splits)

lemma xlsx_sheet_inv:
  assumes "xlsx_sheet L D isheet acc = Inr acc'" and "xlsx_inv acc"
  shows "xlsx_inv acc'"
proof -
  obtain idx spec ps names tot where split: "isheet = (idx, spec)" "acc = (ps, names, tot)"
    by (cases isheet, cases acc) auto
  from assms(1) obtain s headers ps1 rows ps2 tot2 where
    "xlsx_headers D headers (ps @ [XlSheet (take 31 s)]) = Inr ps1" and rows: "xlsx_rows D rows (ps1, tot) = Inr (ps2, tot2)"
    and acc': "acc' = (ps2, names @ [take 31 s], tot2)"
    by (auto simp: xlsx_sheet_def split bind_res_Inr add_part_Inr Let_def)
  from xlsx_headers_Inr [OF this(1)] xlsx_rows_Inr [OF rows] assms(2) show ?thesis
    by (auto simp: split acc' filter_map comp_def list_all_iff)
qed

lemma saves_once_failed: "saves_once D ws ext ok w (w, Inl e)"
  by (simp add: saves_once_def)

lemma create_xlsx_saves_once:
  "saves_once D ws ''xlsx'' (xlsx_fits (length sheets)) w (create_xlsx L D (Some (fs, ws)) filename sheets w)"
proof -
  have "inside_root ws p \<and> norm_ext (path_suffix p) = ''xlsx'' \<and> xlsx_fits (length sheets) ps"
    if target: "office_target (Some (fs, ws)) ''xlsx'' filename = Inr p"
      and body: "fold_res (xlsx_sheet L D) (enumerated sheets) ([], [], 0) = Inr (ps, names, tot)" for p ps names tot
  proof -
    have "xlsx_inv (ps, names, tot)"
      using fold_res_inv [where I = xlsx_inv, OF body] xlsx_sheet_inv by force
    moreover have "length names = length sheets"
      using fold_res_count [OF body, of "\<lambda>acc. length (fst (snd acc))"] xlsx_sheet_count by (force simp: enumerated_def)
    moreover have "norm_ext ''xlsx'' = ''xlsx''" by code_simp
    ultimately show ?thesis using office_target_inside [OF target] by (auto simp: xlsx_fits_def)
  qed
  then show ?thesis
    unfolding create_xlsx_def
    by (cases "sheets = []") (auto intro!: saves_once_failed saves_once_planned store_document_saves_once simp: bind_res_Inr)
qed

text \<open>PowerPoint and PDF: the number of slides, and the rows of all tables together.\<close>

definition pptx_fits :: "pptx_part list \<Rightarrow> bool" where
  "pptx_fits ps = (ps \<noteq> [] \<and> length ps \<le> 100)"

lemma pptx_slide_count: "pptx_slide L D spec ps = Inr ps' \<Longrightarrow> length ps' = Suc (length ps)"
  by (auto simp: pptx_slide_def bind_res_Inr add_part_Inr)

lemma create_pptx_saves_once:
  "saves_once D ws ''pptx'' pptx_fits w (create_pptx L D (Some (fs, ws)) filename title slides subtitle w)"
proof -
  have "inside_root ws p \<and> norm_ext (path_suffix p) = ''pptx'' \<and> pptx_fits ps"
    if target: "office_target (Some (fs, ws)) ''pptx'' filename = Inr p" and few: "1 + length slides \<le> 100"
      and start: "add_part D first [] = Inr ps0" and body: "fold_res (pptx_slide L D) slides ps0 = Inr ps" for p first ps0 ps
  proof -
    have "length ps = Suc (length slides)"
      using start fold_res_count [OF body, of length] pptx_slide_count by (force simp: add_part_Inr)
    moreover have "norm_ext ''pptx'' = ''pptx''" by code_simp
    ultimately show ?thesis using office_target_inside [OF target] few by (auto simp: pptx_fits_def)
  qed
  then show ?thesis
    unfolding create_pptx_def Let_def
    by (intro saves_once_planned store_document_saves_once)
      (auto simp: bind_res_Inr DEFAULT_LIMITS_def split: if_splits)
qed

fun pdf_part_rows :: "pdf_part \<Rightarrow> nat" where
  "pdf_part_rows (PfTable rows) = length rows"
| "pdf_part_rows _ = 0"

definition pdf_fits :: "pdf_part list \<Rightarrow> bool" where
  "pdf_fits ps = (sum_list (map pdf_part_rows ps) \<le> 10000)"

definition pdf_inv :: "pdf_part list \<times> nat \<Rightarrow> bool" where
  "pdf_inv acc = (sum_list (map pdf_part_rows (fst acc)) = snd acc \<and> snd acc \<le> 10000)"

lemma pdf_inv_plain: "pdf_inv (ps, tot) \<Longrightarrow> list_all (\<lambda>q. pdf_part_rows q = 0) qs \<Longrightarrow> pdf_inv (ps @ qs, tot)"
  by (induction qs) (auto simp: pdf_inv_def)

lemma pdf_text_inv: "pdf_text L D style gap v ps = Inr ps' \<Longrightarrow> pdf_inv (ps, tot) \<Longrightarrow> pdf_inv (ps', tot)"
  by (auto simp: pdf_text_def dest!: add_parts_Inr intro!: pdf_inv_plain split: if_splits)

lemma pdf_table_inv: "pdf_table D rows acc = Inr acc' \<Longrightarrow> pdf_inv acc \<Longrightarrow> pdf_inv acc'"
  by (auto simp: pdf_table_def pdf_inv_def Let_def bind_res_Inr DEFAULT_LIMITS_def dest!: add_parts_Inr split: if_splits)

lemma pdf_section_inv: "pdf_section L D sec acc = Inr acc' \<Longrightarrow> pdf_inv acc \<Longrightarrow> pdf_inv acc'"
  by (cases acc)
    (auto simp: pdf_section_def bind_res_Inr add_part_Inr list_all_iff split: if_splits
      intro!: pdf_inv_plain elim!: pdf_table_inv dest!: add_parts_Inr dest: pdf_text_inv)

lemma create_pdf_saves_once:
  "saves_once D ws ''pdf'' pdf_fits w (create_pdf L D (Some (fs, ws)) filename title sections subtitle w)"
proof -
  have "inside_root ws p \<and> norm_ext (path_suffix p) = ''pdf'' \<and> pdf_fits ps"
    if target: "office_target (Some (fs, ws)) ''pdf'' filename = Inr p"
      and start: "add_parts D [PfPara ''Title'' title, PfSpacer 12] [] = Inr ps0"
        "add_parts D (case subtitle of Some (c # s) \<Rightarrow> [PfPara ''Subtitle'' (c # s), PfSpacer 12] | _ \<Rightarrow> []) ps0 = Inr ps1"
      and body: "fold_res (pdf_section L D) sections (ps1, 0) = Inr (ps, tot)" for p ps0 ps1 ps tot
  proof -
    have "pdf_inv (ps1, 0)"
      using start by (auto simp: pdf_inv_def dest!: add_parts_Inr split: option.split list.split)
    from fold_res_inv [where I = pdf_inv, OF body this] pdf_section_inv have "pdf_inv (ps, tot)" by blast
    moreover have "norm_ext ''pdf'' = ''pdf''" by code_simp
    ultimately show ?thesis using office_target_inside [OF target] by (simp add: pdf_inv_def pdf_fits_def)
  qed
  then show ?thesis
    unfolding create_pdf_def
    by (intro saves_once_planned store_document_saves_once) (auto simp: bind_res_Inr)
qed

text \<open>
  C15. The document tools. For every argument, every library and every behaviour of the file system, each of the
  four tools either fails and leaves the world alone, or saves exactly one document, at a path inside the
  workspace with the tool's extension and within its limits (Word and PDF: 10000 table rows in all, Word tables
  at most 200 columns wide; Excel: one sheet per request, names of at most 31 characters, 10000 rows beside the
  header rows; PowerPoint: 100 slides). An answer without an error gives the path and the true size of that file,
  which is not empty and at most 50 MB, and lists it as the artifact.
\<close>

theorem office_tools_save_once:
  "saves_once DD ws ''docx'' docx_fits w (create_docx L DD (Some (fs, ws)) filename title parts subtitle w) \<and>
   saves_once DX ws ''xlsx'' (xlsx_fits (length parts)) w (create_xlsx L DX (Some (fs, ws)) filename parts w) \<and>
   saves_once DP ws ''pptx'' pptx_fits w (create_pptx L DP (Some (fs, ws)) filename title parts subtitle w) \<and>
   saves_once DF ws ''pdf'' pdf_fits w (create_pdf L DF (Some (fs, ws)) filename title parts subtitle w)"
  by (intro conjI create_docx_saves_once create_xlsx_saves_once create_pptx_saves_once create_pdf_saves_once)

text \<open>A complete PDF of fewer than 1024 bytes is rejected, because the check seeks 1024 bytes back from its end.\<close>

lemma small_pdf_rejected: "length data < 1024 \<Longrightarrow> \<exists>t. pdf_check name data = Inl t"
  by (simp add: pdf_check_def)

text \<open>The file stays behind when its verification fails.\<close>

lemma rejected_file_stays:
  "dl_save D ps p w = (w', None) \<Longrightarrow> dl_reopen D w' p = Inl t \<Longrightarrow>
     fst (store_document D save_error check kind ps p w) = w' \<and> (\<exists>e. snd (store_document D save_error check kind ps p w) = Inl e)"
  by (cases "verify_file_size (dl_size D w' p) p") (auto simp: store_document_def)

text \<open>Only the header row of a sheet is held to the column limit; the cells of the other rows are not counted,
  and a text that starts with an equals sign is stored as it is, a formula.\<close>

lemma xlsx_rows_unchecked:
  "dl_refuses D (XlRow row) = None \<Longrightarrow> xlsx_rows D (PList [row]) ([], 0) = Inr ([XlRow row], 1)"
  by (simp add: xlsx_rows_def py_len_def add_parts_def add_part_def DEFAULT_LIMITS_def)

end
