(* ===== verification/Browser_Tools.thy ===== *)
theory Browser_Tools
  imports Py_Regex Py_Value Ipc_Framing
begin

text \<open>
  The browser tools (\<open>tools/builtins/browser_tools.py\<close>). A tool returns the URLs it handed to the system
  browser, in order, with its answer; the browser is a parameter that answers with a truth value or fails with
  a text. Of \<open>urllib.parse\<close> the model has what the tools use: scheme and host of \<open>urlparse\<close>, and
  \<open>quote_plus\<close> with its UTF-8 encoding; the validity of a bracketed or international host is the parameter
  \<open>host_ok\<close>.
\<close>

section \<open>URLs\<close>

text \<open>Leading control characters and blanks are dropped, tabs and line ends are removed everywhere.\<close>

definition url_clean :: "string \<Rightarrow> string" where
  "url_clean u = filter (\<lambda>c. code_of c \<notin> {9, 10, 13}) (dropWhile (\<lambda>c. code_of c \<le> 32) u)"

definition scheme_char :: "char \<Rightarrow> bool" where
  "scheme_char c = (is_ascii_alnum c \<or> c \<in> set ''+-.'')"

definition split_scheme :: "string \<Rightarrow> string \<times> string" where
  "split_scheme u =
     (let s = takeWhile (\<lambda>c. c \<noteq> CHR '':'') u
      in if s \<noteq> [] \<and> s \<noteq> u \<and> is_ascii_letter (hd s) \<and> list_all scheme_char s
         then (lower s, drop (Suc (length s)) u) else ([], u))"

definition url_netloc :: "string \<Rightarrow> string" where
  "url_netloc r = (if starts_with r ''//'' then takeWhile (\<lambda>c. c \<notin> set ''/?#'') (drop 2 r) else [])"

text \<open>Scheme and host of \<open>urlparse\<close>; \<open>None\<close> where it raises \<open>ValueError\<close>.\<close>

definition urlparse :: "(string \<Rightarrow> bool) \<Rightarrow> string \<Rightarrow> (string \<times> string) option" where
  "urlparse host_ok url =
     (case split_scheme (url_clean url) of (scheme, r) \<Rightarrow>
        let netloc = url_netloc r
        in if (CHR ''['' \<in> set netloc) \<noteq> (CHR '']'' \<in> set netloc) \<or> netloc \<noteq> [] \<and> \<not> host_ok netloc then None
           else Some (scheme, netloc))"

definition ALLOWED_SCHEMES :: "string list" where
  "ALLOWED_SCHEMES = [''http'', ''https'']"

definition is_safe_url :: "(string \<Rightarrow> bool) \<Rightarrow> string \<Rightarrow> bool" where
  "is_safe_url host_ok url =
     (case urlparse host_ok url of
        None \<Rightarrow> False
      | Some (scheme, netloc) \<Rightarrow> lower scheme \<in> set ALLOWED_SCHEMES \<and> netloc \<noteq> [])"

text \<open>\<open>quote_plus\<close>: the UTF-8 bytes, unreserved ones as they are, blanks as plus signs, the others in hexadecimal.\<close>

definition unreserved :: "char \<Rightarrow> bool" where
  "unreserved c = (is_ascii_alnum c \<or> c \<in> set ''_.-~'')"

definition hex_digit :: "nat \<Rightarrow> char" where
  "hex_digit n = (if n < 10 then char_of (48 + n) else char_of (55 + n))"

definition quote_byte :: "char \<Rightarrow> string" where
  "quote_byte c =
     (if unreserved c then [c]
      else if c = CHR '' '' then ''+''
      else [CHR ''%'', hex_digit (code_of c div 16), hex_digit (code_of c mod 16)])"

definition quote_plus :: "string \<Rightarrow> string" where
  "quote_plus s = concat (map quote_byte (utf8_encode s))"

section \<open>The tools\<close>

type_synonym browser = "string \<Rightarrow> string + bool"

text \<open>The answer after a call of the browser. It is \<open>opened or True\<close>, whatever the browser returned.\<close>

definition opened_answer :: "string + bool \<Rightarrow> pyval dict \<Rightarrow> (string \<Rightarrow> pyval dict) \<Rightarrow> string \<Rightarrow> string \<Rightarrow> pyval" where
  "opened_answer r good bad done_text failed_text =
     (case r of
        Inr b \<Rightarrow> PDict ((''opened'', PBool (b \<or> True)) # good @ [(''message'', PStr done_text)])
      | Inl e \<Rightarrow> PDict ((''opened'', PBool False) # bad e @ [(''message'', PStr (failed_text @ '': '' @ e))]))"

definition browser_open :: "(string \<Rightarrow> bool) \<Rightarrow> browser \<Rightarrow> string \<Rightarrow> string list \<times> (string + pyval)" where
  "browser_open host_ok browser url =
     (let clean = strip url
      in case urlparse host_ok clean of
           None \<Rightarrow> ([], Inl ''ValueError'')
         | Some (scheme, _) \<Rightarrow>
             let clean = (if scheme = [] then ''https://'' @ clean else clean)
             in if \<not> is_safe_url host_ok clean
                then ([], Inr (PDict
                  [(''opened'', PBool False),
                   (''error'', PStr (''URL '' @ quoted url @ '' violates protocol security policy. Only http:// and https:// URLs are allowed.'')),
                   (''message'', PStr (''Security policy blocked URL: '' @ quoted url @ '' is invalid or uses an unauthorized protocol.''))]))
                else ([clean], Inr (opened_answer (browser clean) [(''url'', PStr clean)] (\<lambda>e. [(''error'', PStr e)])
                       (''Opened '' @ quoted clean @ '' in default browser.'') (''Failed to open browser for '' @ quoted clean))))"

definition browser_search :: "browser \<Rightarrow> string \<Rightarrow> string list \<times> (string + pyval)" where
  "browser_search browser query =
     (let q = strip query;
          url = ''https://www.google.com/search?q='' @ quote_plus q
      in ([url], Inr (opened_answer (browser url) [(''query'', PStr q), (''url'', PStr url)] (\<lambda>e. [(''error'', PStr e)])
             (''Searched for '' @ quoted q @ '' in default browser.'') (''Failed to search web for '' @ quoted q))))"

definition youtube_search_and_play :: "browser \<Rightarrow> string \<Rightarrow> string list \<times> (string + pyval)" where
  "youtube_search_and_play browser query =
     (let q = strip query;
          url = ''https://www.youtube.com/results?search_query='' @ quote_plus q
      in ([url], Inr (opened_answer (browser url)
             [(''query'', PStr q), (''url'', PStr url), (''playback_verified'', PBool False)]
             (\<lambda>e. [(''query'', PStr q), (''error'', PStr e), (''playback_verified'', PBool False)])
             (''Opened YouTube search for '' @ quoted q @ '' in your default browser. Please select a video to begin playback.'')
             (''Failed to open YouTube for '' @ quoted q))))"

section \<open>Only web pages are opened\<close>

text \<open>The text of a URL: one of the two schemes in any case, two slashes, a host, and what follows the host.\<close>

definition web_url :: "string \<Rightarrow> bool" where
  "web_url u =
     (\<exists>s h r. url_clean u = s @ ''://'' @ h @ r \<and> lower s \<in> {''http'', ''https''} \<and> h \<noteq> [] \<and>
        set h \<inter> set ''/?#'' = {} \<and> (r = [] \<or> hd r \<in> set ''/?#''))"

lemma lower_lower: "lower (lower s) = lower s"
proof -
  have "lower_char (lower_char c) = lower_char c" for c
    using code_of_char_of [of "code_of c + 32"] by (auto simp: lower_char_def)
  then show ?thesis by (simp add: lower_def)
qed

lemma split_scheme_parts:
  assumes "split_scheme u = (s, r)" and "s \<noteq> []"
  shows "\<exists>t. u = t @ CHR '':'' # r \<and> lower t = s"
proof -
  let ?t = "takeWhile (\<lambda>c. c \<noteq> CHR '':'') u"
  have "?t \<noteq> u" and s: "s = lower ?t" and r: "r = drop (Suc (length ?t)) u"
    using assms by (auto simp: split_scheme_def Let_def split: if_splits)
  then have "dropWhile (\<lambda>c. c \<noteq> CHR '':'') u \<noteq> []" by (metis append.right_neutral takeWhile_dropWhile_id)
  then obtain d where d: "dropWhile (\<lambda>c. c \<noteq> CHR '':'') u = CHR '':'' # d"
    using hd_dropWhile [of "\<lambda>c. c \<noteq> CHR '':''" u] by (cases "dropWhile (\<lambda>c. c \<noteq> CHR '':'') u") auto
  then have u: "u = ?t @ CHR '':'' # d" by (metis takeWhile_dropWhile_id)
  moreover have "drop (Suc (length ?t)) u = d" by (subst u) simp
  ultimately show ?thesis using s r by auto
qed

lemma url_netloc_parts:
  assumes "url_netloc r = h" and "h \<noteq> []"
  shows "\<exists>q. r = ''//'' @ h @ q \<and> set h \<inter> set ''/?#'' = {} \<and> (q = [] \<or> hd q \<in> set ''/?#'')"
proof -
  let ?P = "\<lambda>c. c \<notin> set ''/?#''"
  have h: "h = takeWhile ?P (drop 2 r)" and two: "take 2 r = ''//''"
    using assms by (auto simp: url_netloc_def starts_with_def numeral_2_eq_2 split: if_splits)
  have "r = take 2 r @ takeWhile ?P (drop 2 r) @ dropWhile ?P (drop 2 r)" by simp
  then have "r = ''//'' @ h @ dropWhile ?P (drop 2 r)" by (simp only: h two)
  moreover have "set h \<inter> set ''/?#'' = {}" unfolding h by (auto dest: set_takeWhileD)
  moreover have "dropWhile ?P (drop 2 r) = [] \<or> hd (dropWhile ?P (drop 2 r)) \<in> set ''/?#''"
    using hd_dropWhile [of ?P "drop 2 r"] by blast
  ultimately show ?thesis by blast
qed

lemma is_safe_url_web: "is_safe_url host_ok url \<Longrightarrow> web_url url"
proof -
  assume "is_safe_url host_ok url"
  then obtain s r where sr: "split_scheme (url_clean url) = (s, r)" and s: "lower s \<in> {''http'', ''https''}"
    and h: "url_netloc r \<noteq> []"
    by (auto simp: is_safe_url_def urlparse_def Let_def ALLOWED_SCHEMES_def split: option.splits prod.splits if_splits)
  have "s \<noteq> []" using s by (auto simp: lower_def)
  from split_scheme_parts [OF sr this] obtain t where t: "url_clean url = t @ CHR '':'' # r" "lower t = s" by blast
  from url_netloc_parts [OF refl h] obtain q where q: "r = ''//'' @ url_netloc r @ q"
    "set (url_netloc r) \<inter> set ''/?#'' = {}" "q = [] \<or> hd q \<in> set ''/?#''" by blast
  have "lower t = lower s" using t(2) lower_lower by metis
  moreover have "url_clean url = t @ ''://'' @ url_netloc r @ q" using t(1) q(1) by simp
  ultimately show ?thesis unfolding web_url_def using s h q by metis
qed

text \<open>
  C40. \<open>browser_open\<close> hands the browser at most one URL, the caller's text without surrounding blanks or the same
  text after \<open>https://\<close>, and as the URL parser reads it that URL is a scheme \<open>http\<close> or \<open>https\<close>, two slashes and
  a host that is not empty; a text that the parser cannot read opens nothing.
\<close>

theorem browser_open_only_web:
  "fst (browser_open host_ok browser url) = [] \<or>
   (\<exists>u. fst (browser_open host_ok browser url) = [u] \<and> u \<in> {strip url, ''https://'' @ strip url} \<and> web_url u)"
proof (cases "urlparse host_ok (strip url)")
  case None
  then show ?thesis by (simp add: browser_open_def)
next
  case (Some sn)
  obtain s n where sn: "sn = (s, n)" by (cases sn)
  let ?u = "if s = [] then ''https://'' @ strip url else strip url"
  show ?thesis
  proof (cases "is_safe_url host_ok ?u")
    case True
    have "fst (browser_open host_ok browser url) = [?u]"
      unfolding browser_open_def Let_def Some sn using True by simp
    then show ?thesis using is_safe_url_web [OF True] by auto
  next
    case False
    have "fst (browser_open host_ok browser url) = []"
      unfolding browser_open_def Let_def Some sn using False by simp
    then show ?thesis by simp
  qed
qed

text \<open>What the browser answers is not looked at: \<open>opened\<close> is true also when it could not be started.\<close>

lemma open_failure_hidden:
  "dict_get (case opened_answer (Inr False) good bad d f of PDict m \<Rightarrow> m | _ \<Rightarrow> []) ''opened'' = Some (PBool True)"
  by (simp add: opened_answer_def)

section \<open>Queries\<close>

text \<open>What a server reads, before it decodes UTF-8: plus signs as blanks, hexadecimal escapes as bytes.\<close>

definition hex_value :: "char \<Rightarrow> nat" where
  "hex_value c = (if code_of c < 58 then code_of c - 48 else code_of c - 55)"

fun unquote_plus :: "string \<Rightarrow> string" where
  "unquote_plus [] = []"
| "unquote_plus (c # s) =
     (if c = CHR ''+'' then CHR '' '' # unquote_plus s
      else if c = CHR ''%''
      then (case s of h # l # r \<Rightarrow> char_of (16 * hex_value h + hex_value l) # unquote_plus r | _ \<Rightarrow> c # unquote_plus s)
      else c # unquote_plus s)"

lemma hex_range: "code_of c div 16 < 16 \<and> code_of c mod 16 < 16"
proof -
  have "code_of c < 256" by (rule code_of_less)
  then have "code_of c div 16 < 16" by (subst div_less_iff_less_mult) simp_all
  then show ?thesis by simp
qed

lemma hex_value_digit: "n < 16 \<Longrightarrow> hex_value (hex_digit n) = n"
  by (simp add: hex_value_def hex_digit_def code_of_char_of)

lemma hex_digit_unreserved: "n < 16 \<Longrightarrow> unreserved (hex_digit n)"
  by (simp add: unreserved_def is_ascii_alnum_def is_digit_def is_ascii_letter_def hex_digit_def code_of_char_of)

lemma not_unreserved: "\<not> unreserved CHR ''+''" "\<not> unreserved CHR ''%''" "\<not> unreserved CHR '' ''"
  by code_simp+

lemma unquote_byte: "unquote_plus (quote_byte c @ s) = c # unquote_plus s"
proof -
  from hex_range [of c] have "char_of (16 * hex_value (hex_digit (code_of c div 16)) + hex_value (hex_digit (code_of c mod 16))) = c"
    by (simp add: hex_value_digit char_of_code_of)
  moreover have "c \<noteq> CHR ''+''" "c \<noteq> CHR ''%''" if "unreserved c" using that not_unreserved by auto
  ultimately show ?thesis by (auto simp: quote_byte_def)
qed

lemma quote_roundtrip: "utf8_decode (unquote_plus (quote_plus s)) = Some s"
proof -
  have "unquote_plus (concat (map quote_byte bs)) = bs" for bs
    by (induction bs) (simp_all add: unquote_byte)
  then show ?thesis by (simp add: quote_plus_def utf8.dec_enc)
qed

lemma quote_plus_chars: "set (quote_plus s) \<subseteq> {c. unreserved c \<or> c \<in> {CHR ''+'', CHR ''%''}}"
proof -
  have "set (quote_byte c) \<subseteq> {c. unreserved c \<or> c \<in> {CHR ''+'', CHR ''%''}}" for c
  proof -
    from hex_range [of c] show ?thesis using hex_digit_unreserved by (auto simp: quote_byte_def)
  qed
  then show ?thesis unfolding quote_plus_def by fastforce
qed

text \<open>
  Each of the two search tools opens exactly one page, of the fixed host and path, and the query is its last
  part: that part has only letters, digits, the four unreserved signs, plus and percent signs, hence no character
  that would start another parameter, a fragment or another path, and decoding it gives the caller's query
  without surrounding blanks, for every query.
\<close>

theorem search_query_roundtrip:
  "(\<exists>e. fst (browser_search browser query) = [''https://www.google.com/search?q='' @ e] \<and>
      set e \<subseteq> {c. unreserved c \<or> c \<in> {CHR ''+'', CHR ''%''}} \<and> utf8_decode (unquote_plus e) = Some (strip query)) \<and>
   (\<exists>e. fst (youtube_search_and_play browser query) = [''https://www.youtube.com/results?search_query='' @ e] \<and>
      set e \<subseteq> {c. unreserved c \<or> c \<in> {CHR ''+'', CHR ''%''}} \<and> utf8_decode (unquote_plus e) = Some (strip query))"
  by (auto simp: browser_search_def youtube_search_and_play_def Let_def quote_roundtrip
      dest!: subsetD [OF quote_plus_chars])

end
