(* ===== verification/Tool_Decorator.thy ===== *)
theory Tool_Decorator
  imports Tool_Executor
begin

text \<open>
  The tool decorator (\<open>tools/decorator.py\<close>): annotations to JSON schemas, the schema of a function's arguments,
  and the tool definition attached to the function. A function is its name, parameters and docstring; the
  descriptions that the two docstring formats give are a field of the function. Shown: when a call that the
  executor's check of the arguments accepts can be bound to the function's parameters.
\<close>

section \<open>Functions and annotations\<close>

datatype py_type =
    TyStr
  | TyInt
  | TyFloat
  | TyBool
  | TyNone
  | TyAny
  | TyDictBare
  | TyDict py_type py_type
  | TyListBare
  | TyListAlias
  | TyList py_type
  | TyUnion "py_type list"
  | TyClass string

definition TyOptional :: "py_type \<Rightarrow> py_type" where
  "TyOptional t = TyUnion [t, TyNone]"

record py_param =
  fp_name :: string
  fp_type :: "py_type option"
  fp_default :: "pyval option"

record py_function =
  fn_name :: string
  fn_doc :: "string option"
  fn_param_docs :: "(string \<times> string) list"
  fn_params :: "py_param list"

section \<open>Schemas\<close>

text \<open>
  \<open>_python_type_to_json_schema\<close>. The first tests also name \<open>Optional[str]\<close> and its like, for which they give what
  the branch of the unions gives. A \<open>dict\<close> with other arguments than \<open>str\<close> and \<open>Any\<close> and a bare \<open>list\<close> have no
  branch of their own.
\<close>

fun type_schema :: "py_type \<Rightarrow> pyval dict" where
  "type_schema TyStr = [(''type'', PStr ''string'')]"
| "type_schema TyInt = [(''type'', PStr ''integer'')]"
| "type_schema TyFloat = [(''type'', PStr ''number'')]"
| "type_schema TyBool = [(''type'', PStr ''boolean'')]"
| "type_schema TyDictBare = [(''type'', PStr ''object'')]"
| "type_schema (TyDict k v) = [(''type'', PStr (if k = TyStr \<and> v = TyAny then ''object'' else ''string''))]"
| "type_schema TyListAlias = [(''type'', PStr ''array'')]"
| "type_schema (TyList t) = [(''type'', PStr ''array''), (''items'', PDict (type_schema t))]"
| "type_schema (TyUnion ts) =
     (case filter (\<lambda>p. fst p \<noteq> TyNone) (map (\<lambda>t. (t, type_schema t)) ts) of
        [(_, s)] \<Rightarrow> s
      | ps \<Rightarrow> [(''anyOf'', PList (map (PDict \<circ> snd) ps))])"
| "type_schema TyListBare = [(''type'', PStr ''string'')]"
| "type_schema TyNone = [(''type'', PStr ''string'')]"
| "type_schema TyAny = [(''type'', PStr ''string'')]"
| "type_schema (TyClass c) = [(''type'', PStr ''string'')]"

definition param_type :: "py_param \<Rightarrow> py_type" where
  "param_type p = (case fp_type p of None \<Rightarrow> TyStr | Some t \<Rightarrow> t)"

definition is_context_param :: "py_param \<Rightarrow> bool" where
  "is_context_param p = (fp_name p = ''context'' \<or> fp_type p = Some (TyClass ''ToolExecutionContext''))"

definition is_optional_type :: "py_type \<Rightarrow> bool" where
  "is_optional_type t = (case t of TyUnion ts \<Rightarrow> TyNone \<in> set ts | _ \<Rightarrow> False)"

definition param_schema :: "py_function \<Rightarrow> py_param \<Rightarrow> pyval dict" where
  "param_schema f p =
     (let s = type_schema (param_type p);
          s = (case map_of (fn_param_docs f) (fp_name p) of Some d \<Rightarrow> dict_put ''description'' (PStr d) s | None \<Rightarrow> s)
      in case fp_default p of Some v \<Rightarrow> dict_put ''default'' v s | None \<Rightarrow> s)"

definition schema_required :: "py_param list \<Rightarrow> string list" where
  "schema_required ps = map fp_name (filter (\<lambda>p. fp_default p = None \<and> \<not> is_optional_type (param_type p)) ps)"

definition generate_tool_schema :: "py_function \<Rightarrow> pyval dict" where
  "generate_tool_schema f =
     (let ps = filter (\<lambda>p. \<not> is_context_param p) (fn_params f);
          required = schema_required ps
      in [(''type'', PStr ''object''), (''properties'', PDict (map (\<lambda>p. (fp_name p, PDict (param_schema f p))) ps))]
         @ (if required \<noteq> [] then [(''required'', PList (map PStr required))] else []))"

section \<open>The decorator\<close>

record tool_options =
  to_name :: "string option"
  to_tool_id :: "string option"
  to_description :: "string option"
  to_category :: string
  to_version :: string
  to_permissions :: "tool_permission list option"
  to_risk_level :: risk_level
  to_approval_mode :: approval_mode
  to_timeout_seconds :: rat

definition default_options :: tool_options where
  "default_options = \<lparr>to_name = None, to_tool_id = None, to_description = None, to_category = ''general'',
     to_version = ''1.0.0'', to_permissions = None, to_risk_level = RLOW, to_approval_mode = AUTO_APPROVE,
     to_timeout_seconds = 30\<rparr>"

text \<open>\<open>a or b\<close> on optional texts, and the docstring up to its first empty line.\<close>

definition or_text :: "string option \<Rightarrow> string \<Rightarrow> string" where
  "or_text a b = (case a of Some (c # s) \<Rightarrow> c # s | _ \<Rightarrow> b)"

definition newline :: char where "newline = char_of (10::nat)"

fun first_paragraph :: "string \<Rightarrow> string" where
  "first_paragraph (c # d # s) = (if c = newline \<and> d = newline then [] else c # first_paragraph (d # s))"
| "first_paragraph s = s"

text \<open>The timeout is bounded by the model of tool definitions: \<open>None\<close> stands for its validation error.\<close>

definition decorate_tool :: "tool_options \<Rightarrow> py_function \<Rightarrow> tool_definition option" where
  "decorate_tool opts f =
     (let name = or_text (to_name opts) (fn_name f);
          tid = or_text (to_tool_id opts) name;
          desc = or_text (to_description opts)
            (case fn_doc f of Some (c # s) \<Rightarrow> strip (first_paragraph (c # s)) | _ \<Rightarrow> name)
      in if to_timeout_seconds opts < 1 / 10 \<or> 600 < to_timeout_seconds opts then None
         else Some \<lparr>td_id = tid, td_name = name, td_version = to_version opts, td_description = desc,
           td_category = to_category opts, td_input_schema = generate_tool_schema f, td_output_schema = None,
           td_permissions = (case to_permissions opts of Some ps \<Rightarrow> ps | None \<Rightarrow> []),
           td_risk_level = to_risk_level opts, td_approval_mode = to_approval_mode opts,
           td_timeout_seconds = to_timeout_seconds opts, td_enabled = True\<rparr>)"

section \<open>Binding the arguments of a call\<close>

text \<open>The rule of the language for a call with keyword arguments only: every parameter without a default is
  given, and nothing else is.\<close>

definition binds :: "py_param list \<Rightarrow> string set \<Rightarrow> bool" where
  "binds ps keys =
     (list_all (\<lambda>p. fp_default p = None \<longrightarrow> fp_name p \<in> keys) ps \<and> keys \<subseteq> fp_name ` set ps)"

definition accepts_context :: "py_function \<Rightarrow> bool" where
  "accepts_context f = list_ex (\<lambda>p. fp_name p = ''context'') (fn_params f)"

text \<open>The keys that the executor passes: the caller's, and \<open>context\<close> if the function has that parameter.\<close>

definition call_keys :: "py_function \<Rightarrow> pyval dict \<Rightarrow> string set" where
  "call_keys f args = fst ` set args \<union> (if accepts_context f then {''context''} else {})"

text \<open>A function whose parameters the schema describes completely: no parameter may be left out without having
  a default, and a context is asked for by its name.\<close>

definition plain_params :: "py_function \<Rightarrow> bool" where
  "plain_params f =
     list_all (\<lambda>p. (is_optional_type (param_type p) \<longrightarrow> fp_default p \<noteq> None \<or> fp_name p = ''context'') \<and>
        (is_context_param p \<longrightarrow> fp_name p = ''context'')) (fn_params f)"

lemma required_fields_generated:
  "required_fields (generate_tool_schema f) = schema_required (filter (\<lambda>p. \<not> is_context_param p) (fn_params f))"
proof -
  have "concat (map (\<lambda>x. case x of PStr s \<Rightarrow> [s] | _ \<Rightarrow> []) (map PStr xs)) = xs" for xs by (induction xs) simp_all
  then show ?thesis by (auto simp: required_fields_def generate_tool_schema_def Let_def)
qed

lemma validated_keys:
  "validate_arguments schema args = None \<longleftrightarrow> set (required_fields schema) \<subseteq> fst ` set args"
  by (auto simp: validate_arguments_def Let_def filter_empty_conv dict_has_iff)

text \<open>
  The executor's check of the arguments against the generated schema, and the language's rule for calls. If
  every parameter of a function that may be left out has a default, a call that passes the check can be bound to
  the function's parameters exactly when it names no parameter the function does not have; a call that can be
  bound, in turn, always passes the check.
\<close>

lemma validated_call_binds:
  assumes "plain_params f"
  shows "(validate_arguments (generate_tool_schema f) args = None \<and> call_keys f args \<subseteq> fp_name ` set (fn_params f))
     = binds (fn_params f) (call_keys f args)"
proof -
  have "(fp_default p = None \<longrightarrow> fp_name p \<in> call_keys f args) \<longleftrightarrow>
      (\<not> is_context_param p \<and> fp_default p = None \<and> \<not> is_optional_type (param_type p) \<longrightarrow> fp_name p \<in> fst ` set args)"
    if p: "p \<in> set (fn_params f)" for p
  proof (cases "fp_name p = ''context''")
    case True
    then have "accepts_context f" "is_context_param p" using p by (auto simp: accepts_context_def list_ex_iff is_context_param_def)
    then show ?thesis using True by (simp add: call_keys_def)
  next
    case False
    then show ?thesis using assms p by (auto simp: plain_params_def list_all_iff call_keys_def)
  qed
  then have "set (schema_required (filter (\<lambda>p. \<not> is_context_param p) (fn_params f))) \<subseteq> fst ` set args \<longleftrightarrow>
      list_all (\<lambda>p. fp_default p = None \<longrightarrow> fp_name p \<in> call_keys f args) (fn_params f)"
    by (auto simp: schema_required_def list_all_iff)
  then show ?thesis by (simp add: validated_keys required_fields_generated binds_def)
qed

text \<open>A parameter annotated \<open>Optional\<close> without a default is not required, so a call without it passes the check
  and fails when it is bound; an argument that no parameter takes passes the check too.\<close>

lemma optional_without_default_unbound:
  "validate_arguments (generate_tool_schema \<lparr>fn_name = ''f'', fn_doc = None, fn_param_docs = [],
     fn_params = [\<lparr>fp_name = ''x'', fp_type = Some (TyOptional TyInt), fp_default = None\<rparr>]\<rparr>) [] = None \<and>
   \<not> binds [\<lparr>fp_name = ''x'', fp_type = Some (TyOptional TyInt), fp_default = None\<rparr>] {}"
  by (simp add: validated_keys required_fields_generated schema_required_def is_context_param_def param_type_def
      is_optional_type_def TyOptional_def binds_def)

text \<open>A list or a dictionary without the exact annotation the generator knows is announced as a text.\<close>

lemma plain_annotations_are_texts:
  "type_schema TyListBare = type_schema TyStr \<and> type_schema (TyDict TyStr TyInt) = type_schema TyStr"
  by simp

end
