(* ===== verification/Tool_Catalog.thy ===== *)
theory Tool_Catalog
  imports Tool_Decorator
begin

text \<open>
  The tools of the program: for every function under \<open>@tool\<close> the options of its decorator, its parameters with their
  annotations and defaults, and the descriptions its docstring gives them (of the docstring itself, its first
  paragraph), and the functions that register them (\<open>tools/builtins\<close>, \<open>os/tools/registration.py\<close>,
  \<open>vision/tools/registration.py\<close>, and what \<open>bootstrap.py\<close> and \<open>tools/factory.py\<close> call). Shown: which tools are
  registered, that their calls bind, and what the policy engine makes of them under the default profile.
\<close>

definition tool_with ::
  "string \<Rightarrow> string \<Rightarrow> string \<Rightarrow> string \<Rightarrow> tool_permission list \<Rightarrow> risk_level \<Rightarrow> rat \<Rightarrow> tool_options" where
  "tool_with name tid desc cat perms risk secs =
     default_options\<lparr>to_name := Some name, to_tool_id := Some tid, to_description := Some desc, to_category := cat,
       to_permissions := Some perms, to_risk_level := risk, to_timeout_seconds := secs\<rparr>"

definition dquoted :: "string \<Rightarrow> string" where
  "dquoted s = [char_of (34::nat)] @ s @ [char_of (34::nat)]"

definition arg :: "string \<Rightarrow> py_type \<Rightarrow> pyval option \<Rightarrow> py_param" where
  "arg name t d = \<lparr>fp_name = name, fp_type = Some t, fp_default = d\<rparr>"

section \<open>The decorated functions\<close>

definition create_docx_spec :: "tool_options \<times> py_function" where
  "create_docx_spec =
     (tool_with ''create_docx'' ''office.create_docx''
        (''Generate a professional Microsoft Word (.docx) document with titles, sections, paragraphs, bullet lists, and tables.'')
        ''office'' [PWRITE] RLOW 30,
      \<lparr>fn_name = ''create_docx'', fn_doc = Some (''Generates a Microsoft Word document (.docx) and verifies its internal structure.''),
       fn_param_docs =
         [(''filename'', ''Output filename, e.g. '' @ quoted ''report.docx''),
          (''title'', ''Main document title''),
          (''sections'', ''List of section dicts (keys: '' @ quoted ''heading'' @ '', '' @ quoted ''level'' @ '', ''
            @ quoted ''paragraph'' @ '', '' @ quoted ''bullets'' @ '', '' @ quoted ''table'' @ '')''),
          (''subtitle'', ''Optional subtitle below main title'')],
       fn_params =
         [arg ''filename'' TyStr None,
          arg ''title'' TyStr None,
          arg ''sections'' (TyList (TyDict TyStr TyAny)) None,
          arg ''subtitle'' (TyOptional TyStr) (Some PNone),
          arg ''context'' (TyOptional (TyClass ''ToolExecutionContext'')) (Some PNone)]\<rparr>)"

definition create_xlsx_spec :: "tool_options \<times> py_function" where
  "create_xlsx_spec =
     (tool_with ''create_xlsx'' ''office.create_xlsx''
        (''Generate a formatted Microsoft Excel (.xlsx) workbook with multiple sheets, headers, rows, and safe formulas.'')
        ''office'' [PWRITE] RLOW 30,
      \<lparr>fn_name = ''create_xlsx'', fn_doc = Some (''Generates an Excel workbook (.xlsx) and verifies its internal structure.''),
       fn_param_docs =
         [(''filename'', ''Output filename, e.g. '' @ quoted ''financials.xlsx''),
          (''sheets'', ''List of sheet dicts (keys: '' @ quoted ''name'' @ '', '' @ quoted ''headers'' @ '', ''
            @ quoted ''rows'' @ '')'')],
       fn_params =
         [arg ''filename'' TyStr None,
          arg ''sheets'' (TyList (TyDict TyStr TyAny)) None,
          arg ''context'' (TyOptional (TyClass ''ToolExecutionContext'')) (Some PNone)]\<rparr>)"

definition create_pptx_spec :: "tool_options \<times> py_function" where
  "create_pptx_spec =
     (tool_with ''create_pptx'' ''office.create_pptx''
        (''Generate a formatted Microsoft PowerPoint (.pptx) presentation with title slide, content slides, and bullet points.'')
        ''office'' [PWRITE] RLOW 30,
      \<lparr>fn_name = ''create_pptx'', fn_doc = Some (''Generates a PowerPoint presentation (.pptx) and verifies its internal structure.''),
       fn_param_docs =
         [(''filename'', ''Output filename, e.g. '' @ quoted ''briefing.pptx''),
          (''title'', ''Main title for presentation''),
          (''slides'', ''List of slide dicts (keys: '' @ quoted ''title'' @ '', '' @ quoted ''bullets'' @ '', ''
            @ quoted ''content'' @ '')''),
          (''subtitle'', ''Optional subtitle for title slide'')],
       fn_params =
         [arg ''filename'' TyStr None,
          arg ''title'' TyStr None,
          arg ''slides'' (TyList (TyDict TyStr TyAny)) None,
          arg ''subtitle'' (TyOptional TyStr) (Some PNone),
          arg ''context'' (TyOptional (TyClass ''ToolExecutionContext'')) (Some PNone)]\<rparr>)"

definition create_pdf_spec :: "tool_options \<times> py_function" where
  "create_pdf_spec =
     (tool_with ''create_pdf'' ''office.create_pdf''
        (''Generate a formatted PDF document with titles, headings, paragraphs, bullet lists, tables, and page breaks.'')
        ''office'' [PWRITE] RLOW 30,
      \<lparr>fn_name = ''create_pdf'', fn_doc = Some (''Generates a PDF document (.pdf) and verifies its internal binary structure.''),
       fn_param_docs =
         [(''filename'', ''Output filename, e.g. '' @ quoted ''summary.pdf''),
          (''title'', ''Main document title''),
          (''sections'', ''List of section dicts (keys: '' @ quoted ''heading'' @ '', '' @ quoted ''paragraph''
            @ '', '' @ quoted ''bullets'' @ '', '' @ quoted ''table'' @ '', '' @ quoted ''page_break'' @ '')''),
          (''subtitle'', ''Optional document subtitle'')],
       fn_params =
         [arg ''filename'' TyStr None,
          arg ''title'' TyStr None,
          arg ''sections'' (TyList (TyDict TyStr TyAny)) None,
          arg ''subtitle'' (TyOptional TyStr) (Some PNone),
          arg ''context'' (TyOptional (TyClass ''ToolExecutionContext'')) (Some PNone)]\<rparr>)"

definition browser_open_spec :: "tool_options \<times> py_function" where
  "browser_open_spec =
     (tool_with ''browser_open'' ''browser.open''
        (''Opens an approved web URL in the system default browser.'')
        ''browser'' [PNETWORK, PEXECUTE] RLOW 10,
      \<lparr>fn_name = ''browser_open'', fn_doc = Some (''Opens a URL in the default browser.''),
       fn_param_docs =
         [(''url'', ''Web URL starting with http:// or https://'')],
       fn_params =
         [arg ''url'' TyStr None,
          arg ''context'' (TyOptional (TyClass ''ToolExecutionContext'')) (Some PNone)]\<rparr>)"

definition browser_search_spec :: "tool_options \<times> py_function" where
  "browser_search_spec =
     (tool_with ''browser_search'' ''browser.search''
        (''Performs a web search in the user's default browser.'')
        ''browser'' [PNETWORK, PEXECUTE] RLOW 10,
      \<lparr>fn_name = ''browser_search'', fn_doc = Some (''Searches the web via default browser.''),
       fn_param_docs =
         [(''query'', ''Search query or keywords'')],
       fn_params =
         [arg ''query'' TyStr None,
          arg ''context'' (TyOptional (TyClass ''ToolExecutionContext'')) (Some PNone)]\<rparr>)"

definition youtube_search_and_play_spec :: "tool_options \<times> py_function" where
  "youtube_search_and_play_spec =
     (tool_with ''youtube_search_and_play'' ''youtube.search_and_play''
        (''Opens YouTube search results for the given query in the default browser.'')
        ''browser'' [PNETWORK, PEXECUTE] RLOW 10,
      \<lparr>fn_name = ''youtube_search_and_play'', fn_doc = Some (''Opens YouTube for the specified query in default browser.''),
       fn_param_docs =
         [(''query'', ''Song, video, artist, or topic to search on YouTube'')],
       fn_params =
         [arg ''query'' TyStr None,
          arg ''context'' (TyOptional (TyClass ''ToolExecutionContext'')) (Some PNone)]\<rparr>)"

definition app_launch_spec :: "tool_options \<times> py_function" where
  "app_launch_spec =
     (tool_with ''app_launch'' ''app.launch''
        (''Launches an approved desktop application from the strict allowlist (e.g. Chrome, Edge, VS Code, Calculator, Notepad, File Explorer).'')
        ''app'' [PEXECUTE] RLOW 10,
      \<lparr>fn_name = ''app_launch'', fn_doc = Some (''Launches an allowlisted desktop application.''),
       fn_param_docs =
         [(''app_name'', ''Name or alias of the target application (e.g. '' @ quoted ''Calculator'' @ '', ''
           @ quoted ''VS Code'' @ '', '' @ quoted ''Notepad'' @ '')''),
          (''arguments'', ''Optional safe arguments to pass'')],
       fn_params =
         [arg ''app_name'' TyStr None,
          arg ''arguments'' (TyOptional TyStr) (Some PNone),
          arg ''context'' (TyOptional (TyClass ''ToolExecutionContext'')) (Some PNone)]\<rparr>)"

definition app_focus_spec :: "tool_options \<times> py_function" where
  "app_focus_spec =
     (tool_with ''app_focus'' ''app.focus''
        (''Focuses the window of a running application by name or title.'')
        ''app'' [PEXECUTE] RLOW 5,
      \<lparr>fn_name = ''app_focus'', fn_doc = Some (''Focuses a running application window.''),
       fn_param_docs = [],
       fn_params =
         [arg ''app_name'' TyStr None,
          arg ''context'' (TyOptional (TyClass ''ToolExecutionContext'')) (Some PNone)]\<rparr>)"

definition app_close_spec :: "tool_options \<times> py_function" where
  "app_close_spec =
     (tool_with ''app_close'' ''app.close''
        (''Closes the window of an application by name or title.'')
        ''app'' [PEXECUTE] RLOW 5,
      \<lparr>fn_name = ''app_close'', fn_doc = Some (''Closes an application window.''),
       fn_param_docs = [],
       fn_params =
         [arg ''app_name'' TyStr None,
          arg ''context'' (TyOptional (TyClass ''ToolExecutionContext'')) (Some PNone)]\<rparr>)"

definition file_open_directory_spec :: "tool_options \<times> py_function" where
  "file_open_directory_spec =
     (tool_with ''file_open_directory'' ''file.open_directory''
        (''Opens an approved user directory (Downloads, Documents, Desktop, Workspace) in Windows File Explorer.'')
        ''file'' [PREAD, PEXECUTE] RLOW 10,
      \<lparr>fn_name = ''file_open_directory'', fn_doc = Some (''Opens a directory in Windows Explorer.''),
       fn_param_docs =
         [(''directory_name'', ''Name of standard directory ('' @ quoted ''downloads'' @ '', '' @ quoted ''documents''
           @ '', '' @ quoted ''desktop'' @ '', '' @ quoted ''workspace'' @ '')'')],
       fn_params =
         [arg ''directory_name'' TyStr None,
          arg ''context'' (TyOptional (TyClass ''ToolExecutionContext'')) (Some PNone)]\<rparr>)"

definition file_list_files_spec :: "tool_options \<times> py_function" where
  "file_list_files_spec =
     (tool_with ''file_list_files'' ''file.list_files''
        (''Lists files in the workspace or a specified directory.'')
        ''file'' [PREAD] RLOW 5,
      \<lparr>fn_name = ''file_list_files'', fn_doc = Some (''Lists files in the target directory.''),
       fn_param_docs = [],
       fn_params =
         [arg ''directory_name'' (TyOptional TyStr) (Some PNone),
          arg ''context'' (TyOptional (TyClass ''ToolExecutionContext'')) (Some PNone)]\<rparr>)"

definition file_create_text_file_spec :: "tool_options \<times> py_function" where
  "file_create_text_file_spec =
     (tool_with ''file_create_text_file'' ''file.create_text_file''
        (''Creates a safe text or markdown file inside the workspace sandbox.'')
        ''file'' [PWRITE] RLOW 5,
      \<lparr>fn_name = ''file_create_text_file'', fn_doc = Some (''Creates a text file inside workspace.''),
       fn_param_docs = [],
       fn_params =
         [arg ''file_name'' TyStr None,
          arg ''content'' TyStr None,
          arg ''context'' (TyOptional (TyClass ''ToolExecutionContext'')) (Some PNone)]\<rparr>)"

definition screen_capture_spec :: "tool_options \<times> py_function" where
  "screen_capture_spec =
     (tool_with ''screen_capture'' ''os.screen.capture''
        (''Captures visual display pixels of a monitor or region and saves to the sandboxed temp directory.'')
        ''os'' [PREAD] RLOW 10,
      \<lparr>fn_name = ''screen_capture'', fn_doc = Some (''Captures desktop screen imagery.''),
       fn_param_docs =
         [(''monitor_id'', ''Optional monitor index to capture''),
          (''x'', ''Optional bounding region left''),
          (''y'', ''Optional bounding region top''),
          (''width'', ''Optional bounding region width''),
          (''height'', ''Optional bounding region height''),
          (''image_format'', ''Output image format ('' @ quoted ''png'' @ '' or '' @ quoted ''jpeg'' @ '')''),
          (''max_width'', ''Downscale width ceiling''),
          (''max_height'', ''Downscale height ceiling'')],
       fn_params =
         [arg ''monitor_id'' (TyOptional TyInt) (Some PNone),
          arg ''x'' (TyOptional TyInt) (Some PNone),
          arg ''y'' (TyOptional TyInt) (Some PNone),
          arg ''width'' (TyOptional TyInt) (Some PNone),
          arg ''height'' (TyOptional TyInt) (Some PNone),
          arg ''image_format'' TyStr (Some (PStr ''png'')),
          arg ''max_width'' (TyOptional TyInt) (Some PNone),
          arg ''max_height'' (TyOptional TyInt) (Some PNone),
          arg ''context'' (TyOptional (TyClass ''ToolExecutionContext'')) (Some PNone)]\<rparr>)"

definition screen_monitors_spec :: "tool_options \<times> py_function" where
  "screen_monitors_spec =
     (tool_with ''screen_monitors'' ''os.screen.monitors''
        (''Lists all connected display monitors and their pixel coordinates and resolutions.'')
        ''os'' [PREAD] RLOW 5,
      \<lparr>fn_name = ''screen_monitors'', fn_doc = Some (''Returns list of connected display monitors and resolutions.''),
       fn_param_docs = [],
       fn_params =
         [arg ''context'' (TyOptional (TyClass ''ToolExecutionContext'')) (Some PNone)]\<rparr>)"

definition screen_info_spec :: "tool_options \<times> py_function" where
  "screen_info_spec =
     (tool_with ''screen_info'' ''os.screen.info''
        (''Returns full virtual desktop geometry across all active monitors.'')
        ''os'' [PREAD] RLOW 5,
      \<lparr>fn_name = ''screen_info'', fn_doc = Some (''Returns overall desktop geometry across all screens.''),
       fn_param_docs = [],
       fn_params =
         [arg ''context'' (TyOptional (TyClass ''ToolExecutionContext'')) (Some PNone)]\<rparr>)"

definition mouse_move_spec :: "tool_options \<times> py_function" where
  "mouse_move_spec =
     (tool_with ''mouse_move'' ''os.mouse.move''
        (''Positions the mouse pointer at specified coordinates within SCREEN, MONITOR, or WINDOW coordinate space.'')
        ''os'' [PEXECUTE] RLOW 5,
      \<lparr>fn_name = ''mouse_move'', fn_doc = Some (''Moves mouse cursor.''),
       fn_param_docs =
         [(''x'', ''Target X coordinate''),
          (''y'', ''Target Y coordinate''),
          (''coordinate_space'', quoted ''SCREEN'' @ '', '' @ quoted ''MONITOR'' @ '', or '' @ quoted ''WINDOW''),
          (''window_id'', ''Window HWND if coordinate_space is WINDOW''),
          (''monitor_id'', ''Monitor ID if coordinate_space is MONITOR'')],
       fn_params =
         [arg ''x'' TyInt None,
          arg ''y'' TyInt None,
          arg ''coordinate_space'' TyStr (Some (PStr ''SCREEN'')),
          arg ''window_id'' (TyOptional TyInt) (Some PNone),
          arg ''monitor_id'' (TyOptional TyInt) (Some PNone),
          arg ''context'' (TyOptional (TyClass ''ToolExecutionContext'')) (Some PNone)]\<rparr>)"

definition mouse_click_spec :: "tool_options \<times> py_function" where
  "mouse_click_spec =
     (tool_with ''mouse_click'' ''os.mouse.click''
        (''Clicks a mouse button at target coordinates or current cursor position.'')
        ''os'' [PEXECUTE] RMEDIUM 5,
      \<lparr>fn_name = ''mouse_click'', fn_doc = Some (''Sends mouse button clicks.''),
       fn_param_docs =
         [(''x'', ''Optional target X coordinate''),
          (''y'', ''Optional target Y coordinate''),
          (''button'', quoted ''LEFT'' @ '', '' @ quoted ''RIGHT'' @ '', or '' @ quoted ''MIDDLE''),
          (''clicks'', ''Number of clicks (1 for single, 2 for double)''),
          (''coordinate_space'', quoted ''SCREEN'' @ '', '' @ quoted ''MONITOR'' @ '', or '' @ quoted ''WINDOW''),
          (''is_destructive'', ''True if this click is potentially consequential (triggers user approval)'')],
       fn_params =
         [arg ''x'' (TyOptional TyInt) (Some PNone),
          arg ''y'' (TyOptional TyInt) (Some PNone),
          arg ''button'' TyStr (Some (PStr ''LEFT'')),
          arg ''clicks'' TyInt (Some (PInt 1)),
          arg ''coordinate_space'' TyStr (Some (PStr ''SCREEN'')),
          arg ''is_destructive'' TyBool (Some (PBool False)),
          arg ''context'' (TyOptional (TyClass ''ToolExecutionContext'')) (Some PNone)]\<rparr>)"

definition mouse_double_click_spec :: "tool_options \<times> py_function" where
  "mouse_double_click_spec =
     (tool_with ''mouse_double_click'' ''os.mouse.double_click''
        (''Double-clicks left mouse button at target coordinates or current pointer position.'')
        ''os'' [PEXECUTE] RMEDIUM 5,
      \<lparr>fn_name = ''mouse_double_click'', fn_doc = Some (''Double-clicks left mouse button.''),
       fn_param_docs = [],
       fn_params =
         [arg ''x'' (TyOptional TyInt) (Some PNone),
          arg ''y'' (TyOptional TyInt) (Some PNone),
          arg ''context'' (TyOptional (TyClass ''ToolExecutionContext'')) (Some PNone)]\<rparr>)"

definition mouse_right_click_spec :: "tool_options \<times> py_function" where
  "mouse_right_click_spec =
     (tool_with ''mouse_right_click'' ''os.mouse.right_click''
        (''Right-clicks mouse button at target coordinates or current pointer position (e.g. context menu).'')
        ''os'' [PEXECUTE] RMEDIUM 5,
      \<lparr>fn_name = ''mouse_right_click'', fn_doc = Some (''Right-clicks mouse button.''),
       fn_param_docs = [],
       fn_params =
         [arg ''x'' (TyOptional TyInt) (Some PNone),
          arg ''y'' (TyOptional TyInt) (Some PNone),
          arg ''context'' (TyOptional (TyClass ''ToolExecutionContext'')) (Some PNone)]\<rparr>)"

definition mouse_scroll_spec :: "tool_options \<times> py_function" where
  "mouse_scroll_spec =
     (tool_with ''mouse_scroll'' ''os.mouse.scroll''
        (''Rotates mouse wheel vertically by specified number of clicks (positive=up, negative=down).'')
        ''os'' [PEXECUTE] RLOW 5,
      \<lparr>fn_name = ''mouse_scroll'', fn_doc = Some (''Scrolls mouse wheel.''),
       fn_param_docs =
         [(''clicks'', ''Scroll ticks (e.g. 3 for scroll up, -3 for scroll down)''),
          (''x'', ''Optional pointer X position''),
          (''y'', ''Optional pointer Y position'')],
       fn_params =
         [arg ''clicks'' TyInt None,
          arg ''x'' (TyOptional TyInt) (Some PNone),
          arg ''y'' (TyOptional TyInt) (Some PNone),
          arg ''context'' (TyOptional (TyClass ''ToolExecutionContext'')) (Some PNone)]\<rparr>)"

definition keyboard_type_spec :: "tool_options \<times> py_function" where
  "keyboard_type_spec =
     (tool_with ''keyboard_type'' ''os.keyboard.type''
        (''Types unicode text string into the currently focused desktop window.'')
        ''os'' [PEXECUTE] RMEDIUM 10,
      \<lparr>fn_name = ''keyboard_type'', fn_doc = Some (''Types text with virtual key events.''),
       fn_param_docs =
         [(''text'', ''Text string to type''),
          (''delay_ms'', ''Delay in milliseconds between consecutive keystrokes''),
          (''is_sensitive'', ''Flag indicating password/token typing requiring approval'')],
       fn_params =
         [arg ''text'' TyStr None,
          arg ''delay_ms'' TyFloat (Some (PFloat 10)),
          arg ''is_sensitive'' TyBool (Some (PBool False)),
          arg ''context'' (TyOptional (TyClass ''ToolExecutionContext'')) (Some PNone)]\<rparr>)"

definition keyboard_press_spec :: "tool_options \<times> py_function" where
  "keyboard_press_spec =
     (tool_with ''keyboard_press'' ''os.keyboard.press''
        (''Presses a single key from the supported allowlist (e.g. '' @ quoted ''ENTER'' @ '', '' @ quoted ''ESC''
          @ '', '' @ quoted ''TAB'' @ '', '' @ quoted ''SPACE'' @ '').'')
        ''os'' [PEXECUTE] RMEDIUM 5,
      \<lparr>fn_name = ''keyboard_press'', fn_doc = Some (''Presses and releases a single key.''),
       fn_param_docs =
         [(''key'', ''Key identifier from allowlist''),
          (''duration_sec'', ''Press hold duration'')],
       fn_params =
         [arg ''key'' TyStr None,
          arg ''duration_sec'' TyFloat (Some (PFloat (1 / 20))),
          arg ''context'' (TyOptional (TyClass ''ToolExecutionContext'')) (Some PNone)]\<rparr>)"

definition keyboard_hotkey_spec :: "tool_options \<times> py_function" where
  "keyboard_hotkey_spec =
     (tool_with ''keyboard_hotkey'' ''os.keyboard.hotkey''
        (''Executes a multi-key hotkey combination (e.g. ['' @ quoted ''CTRL'' @ '', '' @ quoted ''C'' @ ''], [''
          @ quoted ''ALT'' @ '', '' @ quoted ''TAB'' @ ''], ['' @ quoted ''CTRL'' @ '', '' @ quoted ''SHIFT'' @ '', ''
          @ quoted ''ESC'' @ '']).'')
        ''os'' [PEXECUTE] RMEDIUM 5,
      \<lparr>fn_name = ''keyboard_hotkey'', fn_doc = Some (''Sends a hotkey sequence.''),
       fn_param_docs =
         [(''keys'', ''List of keys in combo sequence'')],
       fn_params =
         [arg ''keys'' (TyList TyStr) None,
          arg ''context'' (TyOptional (TyClass ''ToolExecutionContext'')) (Some PNone)]\<rparr>)"

definition window_list_spec :: "tool_options \<times> py_function" where
  "window_list_spec =
     (tool_with ''window_list'' ''os.window.list''
        (''Enumerates all currently visible desktop windows, including titles, process IDs, and coordinates.'')
        ''os'' [PREAD] RLOW 5,
      \<lparr>fn_name = ''window_list'', fn_doc = Some (''Lists visible desktop windows.''),
       fn_param_docs = [],
       fn_params =
         [arg ''context'' (TyOptional (TyClass ''ToolExecutionContext'')) (Some PNone)]\<rparr>)"

definition window_focus_spec :: "tool_options \<times> py_function" where
  "window_focus_spec =
     (tool_with ''window_focus'' ''os.window.focus''
        (''Brings a target window into the foreground by handle ID or title search.'')
        ''os'' [PEXECUTE] RLOW 5,
      \<lparr>fn_name = ''window_focus'', fn_doc = Some (''Focuses a desktop window.''),
       fn_param_docs =
         [(''handle_id'', ''Specific window handle/HWND''),
          (''title_pattern'', ''Substring to match window title''),
          (''process_name'', ''Substring to match process name'')],
       fn_params =
         [arg ''handle_id'' (TyOptional TyInt) (Some PNone),
          arg ''title_pattern'' (TyOptional TyStr) (Some PNone),
          arg ''process_name'' (TyOptional TyStr) (Some PNone),
          arg ''context'' (TyOptional (TyClass ''ToolExecutionContext'')) (Some PNone)]\<rparr>)"

definition window_minimize_spec :: "tool_options \<times> py_function" where
  "window_minimize_spec =
     (tool_with ''window_minimize'' ''os.window.minimize''
        (''Minimizes the specified window to the taskbar.'')
        ''os'' [PEXECUTE] RLOW 5,
      \<lparr>fn_name = ''window_minimize'', fn_doc = Some (''Minimizes window.''),
       fn_param_docs = [],
       fn_params =
         [arg ''handle_id'' TyInt None,
          arg ''context'' (TyOptional (TyClass ''ToolExecutionContext'')) (Some PNone)]\<rparr>)"

definition window_maximize_spec :: "tool_options \<times> py_function" where
  "window_maximize_spec =
     (tool_with ''window_maximize'' ''os.window.maximize''
        (''Maximizes the specified window to fill the display.'')
        ''os'' [PEXECUTE] RLOW 5,
      \<lparr>fn_name = ''window_maximize'', fn_doc = Some (''Maximizes window.''),
       fn_param_docs = [],
       fn_params =
         [arg ''handle_id'' TyInt None,
          arg ''context'' (TyOptional (TyClass ''ToolExecutionContext'')) (Some PNone)]\<rparr>)"

definition window_restore_spec :: "tool_options \<times> py_function" where
  "window_restore_spec =
     (tool_with ''window_restore'' ''os.window.restore''
        (''Restores a minimized or maximized window to its standard floating size.'')
        ''os'' [PEXECUTE] RLOW 5,
      \<lparr>fn_name = ''window_restore'', fn_doc = Some (''Restores window.''),
       fn_param_docs = [],
       fn_params =
         [arg ''handle_id'' TyInt None,
          arg ''context'' (TyOptional (TyClass ''ToolExecutionContext'')) (Some PNone)]\<rparr>)"

definition window_close_spec :: "tool_options \<times> py_function" where
  "window_close_spec =
     (tool_with ''window_close'' ''os.window.close''
        (''Closes the specified desktop window.'')
        ''os'' [PEXECUTE] RLOW 5,
      \<lparr>fn_name = ''window_close'', fn_doc = Some (''Closes window.''),
       fn_param_docs = [],
       fn_params =
         [arg ''handle_id'' TyInt None,
          arg ''context'' (TyOptional (TyClass ''ToolExecutionContext'')) (Some PNone)]\<rparr>)"

definition clipboard_read_spec :: "tool_options \<times> py_function" where
  "clipboard_read_spec =
     (tool_with ''clipboard_read'' ''os.clipboard.read''
        (''Reads plain text currently stored in the system clipboard.'')
        ''os'' [PREAD] RMEDIUM 5,
      \<lparr>fn_name = ''clipboard_read'', fn_doc = Some (''Reads system clipboard text.''),
       fn_param_docs =
         [(''max_chars'', ''Maximum characters to retrieve'')],
       fn_params =
         [arg ''max_chars'' (TyOptional TyInt) (Some (PInt 50000)),
          arg ''context'' (TyOptional (TyClass ''ToolExecutionContext'')) (Some PNone)]\<rparr>)"

definition clipboard_write_spec :: "tool_options \<times> py_function" where
  "clipboard_write_spec =
     (tool_with ''clipboard_write'' ''os.clipboard.write''
        (''Sets the text contents of the system clipboard.'')
        ''os'' [PWRITE] RMEDIUM 5,
      \<lparr>fn_name = ''clipboard_write'', fn_doc = Some (''Sets system clipboard text.''),
       fn_param_docs =
         [(''text'', ''Text to place on clipboard'')],
       fn_params =
         [arg ''text'' TyStr None,
          arg ''context'' (TyOptional (TyClass ''ToolExecutionContext'')) (Some PNone)]\<rparr>)"

definition clipboard_clear_spec :: "tool_options \<times> py_function" where
  "clipboard_clear_spec =
     (tool_with ''clipboard_clear'' ''os.clipboard.clear''
        (''Empties and clears the system clipboard.'')
        ''os'' [PWRITE] RMEDIUM 5,
      \<lparr>fn_name = ''clipboard_clear'', fn_doc = Some (''Clears system clipboard.''),
       fn_param_docs = [],
       fn_params =
         [arg ''context'' (TyOptional (TyClass ''ToolExecutionContext'')) (Some PNone)]\<rparr>)"

definition system_info_spec :: "tool_options \<times> py_function" where
  "system_info_spec =
     (tool_with ''system_info'' ''os.system.info''
        (''Returns safe, read-only host telemetry including OS version, CPU count, RAM capacity, and active window.'')
        ''os'' [PREAD] RLOW 5,
      \<lparr>fn_name = ''system_info'', fn_doc = Some (''Retrieves safe system telemetry.''),
       fn_param_docs = [],
       fn_params =
         [arg ''context'' (TyOptional (TyClass ''ToolExecutionContext'')) (Some PNone)]\<rparr>)"

definition screen_analyze_spec :: "tool_options \<times> py_function" where
  "screen_analyze_spec =
     (tool_with ''screen_analyze'' ''vision.screen.analyze''
        (''Analyzes the visual display screen, returning detected UI elements, text labels, and structural regions.'')
        ''vision'' [PREAD] RLOW 15,
      \<lparr>fn_name = ''screen_analyze'', fn_doc = Some (''Analyze current screen visually.''),
       fn_param_docs =
         [(''monitor_id'', ''Monitor index to analyze (default 0)''),
          (''force_refresh'', ''If true, ignore cache and take a fresh screenshot'')],
       fn_params =
         [arg ''monitor_id'' TyInt (Some (PInt 0)),
          arg ''force_refresh'' TyBool (Some (PBool False)),
          arg ''context'' (TyOptional (TyClass ''ToolExecutionContext'')) (Some PNone)]\<rparr>)"

definition element_find_spec :: "tool_options \<times> py_function" where
  "element_find_spec =
     (tool_with ''element_find'' ''vision.element.find''
        (''Finds visual UI elements on screen matching a semantic text query, element type, or region.'')
        ''vision'' [PREAD] RLOW 10,
      \<lparr>fn_name = ''element_find'', fn_doc = Some (''Find visual elements on screen.''),
       fn_param_docs =
         [(''query'', ''Free-text search query (e.g. '' @ dquoted ''submit button'' @ '', ''
           @ dquoted ''username input'' @ '')''),
          (''element_type'', ''Optional element type filter ('' @ quoted ''button'' @ '', '' @ quoted ''input_text''
            @ '', '' @ quoted ''icon'' @ '', etc.)''),
          (''clickable_only'', ''If true, only return clickable elements''),
          (''monitor_id'', ''Monitor index to search (default 0)''),
          (''region_id'', ''Optional region ID to restrict search scope''),
          (''force_refresh'', ''If true, take fresh screenshot before searching'')],
       fn_params =
         [arg ''query'' (TyOptional TyStr) (Some PNone),
          arg ''element_type'' (TyOptional TyStr) (Some PNone),
          arg ''clickable_only'' TyBool (Some (PBool False)),
          arg ''monitor_id'' TyInt (Some (PInt 0)),
          arg ''region_id'' (TyOptional TyStr) (Some PNone),
          arg ''force_refresh'' TyBool (Some (PBool False)),
          arg ''context'' (TyOptional (TyClass ''ToolExecutionContext'')) (Some PNone)]\<rparr>)"

definition target_resolve_spec :: "tool_options \<times> py_function" where
  "target_resolve_spec =
     (tool_with ''target_resolve'' ''vision.target.resolve''
        (''Resolves a semantic target description (e.g. '' @ quoted ''Search button'' @ '', ''
          @ quoted ''username field'' @ '') to validated pixel coordinates for OS automation.'')
        ''vision'' [PREAD] RLOW 10,
      \<lparr>fn_name = ''target_resolve'', fn_doc = Some (''Resolve a semantic query to screen coordinates.''),
       fn_param_docs =
         [(''query'', ''Natural language description of the target UI element''),
          (''monitor_id'', ''Monitor index to search (default 0)''),
          (''element_type'', ''Optional element type hint''),
          (''clickable_only'', ''If true, only consider clickable elements''),
          (''region_id'', ''Optional region ID to constrain search''),
          (''min_confidence'', ''Minimum acceptable confidence score [0.0..1.0]''),
          (''allow_ambiguous'', ''If true, returns best match even if score delta is small''),
          (''force_refresh'', ''If true, capture fresh screenshot before resolving'')],
       fn_params =
         [arg ''query'' TyStr None,
          arg ''monitor_id'' TyInt (Some (PInt 0)),
          arg ''element_type'' (TyOptional TyStr) (Some PNone),
          arg ''clickable_only'' TyBool (Some (PBool False)),
          arg ''region_id'' (TyOptional TyStr) (Some PNone),
          arg ''min_confidence'' (TyOptional TyFloat) (Some PNone),
          arg ''allow_ambiguous'' TyBool (Some (PBool False)),
          arg ''force_refresh'' TyBool (Some (PBool False)),
          arg ''context'' (TyOptional (TyClass ''ToolExecutionContext'')) (Some PNone)]\<rparr>)"

section \<open>Registration\<close>

type_synonym tool_spec = "tool_options \<times> py_function"

definition OFFICE_TOOLS :: "tool_spec list" where
  "OFFICE_TOOLS = [create_docx_spec, create_xlsx_spec, create_pptx_spec, create_pdf_spec]"

definition BROWSER_TOOLS :: "tool_spec list" where
  "BROWSER_TOOLS = [browser_open_spec, browser_search_spec, youtube_search_and_play_spec]"

definition APP_TOOLS :: "tool_spec list" where
  "APP_TOOLS = [app_launch_spec, app_focus_spec, app_close_spec]"

definition FILE_TOOLS :: "tool_spec list" where
  "FILE_TOOLS = [file_open_directory_spec, file_list_files_spec, file_create_text_file_spec]"

definition ALL_OS_TOOLS :: "tool_spec list" where
  "ALL_OS_TOOLS =
     [screen_capture_spec, screen_monitors_spec, screen_info_spec, mouse_move_spec, mouse_click_spec,
      mouse_double_click_spec, mouse_right_click_spec, mouse_scroll_spec, keyboard_type_spec, keyboard_press_spec,
      keyboard_hotkey_spec, window_list_spec, window_focus_spec, window_minimize_spec, window_maximize_spec,
      window_restore_spec, clipboard_read_spec, clipboard_write_spec, clipboard_clear_spec, system_info_spec]"

definition ALL_VISION_TOOLS :: "tool_spec list" where
  "ALL_VISION_TOOLS = [screen_analyze_spec, element_find_spec, target_resolve_spec]"

text \<open>
  \<open>register_tool\<close>: the definition attached to the function, with the function as its handler; \<open>impl\<close> gives the
  handler of a function. A function whose decorator failed was never defined.
\<close>

definition register_tool :: "(py_function \<Rightarrow> 'h) \<Rightarrow> tool_spec \<Rightarrow> 'h tool_registry \<Rightarrow> registry_error + 'h tool_registry" where
  "register_tool impl spec r =
     (case decorate_tool (fst spec) (snd spec) of
        None \<Rightarrow> Inl (InvalidTool ''is not decorated with @tool.'')
      | Some d \<Rightarrow> tool_register d (impl (snd spec)) r)"

definition spec_id :: "tool_spec \<Rightarrow> string" where
  "spec_id spec = (case decorate_tool (fst spec) (snd spec) of None \<Rightarrow> [] | Some d \<Rightarrow> td_id d)"

text \<open>The two loops: one registers every tool, the other passes over those that the registry has.\<close>

fun register_each :: "(py_function \<Rightarrow> 'h) \<Rightarrow> tool_spec list \<Rightarrow> 'h tool_registry \<Rightarrow> registry_error + 'h tool_registry" where
  "register_each impl [] r = Inr r"
| "register_each impl (s # ss) r = bind_res (register_tool impl s r) (register_each impl ss)"

fun register_missing :: "(py_function \<Rightarrow> 'h) \<Rightarrow> tool_spec list \<Rightarrow> 'h tool_registry \<Rightarrow> registry_error + 'h tool_registry" where
  "register_missing impl [] r = Inr r"
| "register_missing impl (s # ss) r =
     (if tool_has r (spec_id s) then register_missing impl ss r
      else bind_res (register_tool impl s r) (register_missing impl ss))"

definition register_builtin_tools :: "(py_function \<Rightarrow> 'h) \<Rightarrow> 'h tool_registry \<Rightarrow> registry_error + 'h tool_registry" where
  "register_builtin_tools impl r =
     bind_res (register_each impl OFFICE_TOOLS r) (\<lambda>r.
     bind_res (register_missing impl BROWSER_TOOLS r) (\<lambda>r.
     bind_res (register_missing impl APP_TOOLS r) (\<lambda>r.
       register_missing impl FILE_TOOLS r)))"

definition register_os_tools :: "(py_function \<Rightarrow> 'h) \<Rightarrow> 'h tool_registry \<Rightarrow> registry_error + 'h tool_registry" where
  "register_os_tools impl r = register_missing impl ALL_OS_TOOLS r"

definition register_vision_tools ::
  "(py_function \<Rightarrow> 'h) \<Rightarrow> 'h tool_registry \<Rightarrow> registry_error + 'h tool_registry \<times> string list" where
  "register_vision_tools impl r =
     bind_res (register_each impl ALL_VISION_TOOLS r) (\<lambda>r. Inr (r, map spec_id ALL_VISION_TOOLS))"

text \<open>The registry that the program starts with.\<close>

definition bootstrap_registry :: "(py_function \<Rightarrow> 'h) \<Rightarrow> registry_error + 'h tool_registry" where
  "bootstrap_registry impl = bind_res (register_builtin_tools impl registry_empty) (register_os_tools impl)"

section \<open>The catalogue\<close>

definition bootstrap_specs :: "tool_spec list" where
  "bootstrap_specs = OFFICE_TOOLS @ BROWSER_TOOLS @ APP_TOOLS @ FILE_TOOLS @ ALL_OS_TOOLS"

lemmas spec_defs =
  create_docx_spec_def create_xlsx_spec_def create_pptx_spec_def create_pdf_spec_def browser_open_spec_def
  browser_search_spec_def youtube_search_and_play_spec_def app_launch_spec_def app_focus_spec_def app_close_spec_def
  file_open_directory_spec_def file_list_files_spec_def file_create_text_file_spec_def screen_capture_spec_def
  screen_monitors_spec_def screen_info_spec_def mouse_move_spec_def mouse_click_spec_def mouse_double_click_spec_def
  mouse_right_click_spec_def mouse_scroll_spec_def keyboard_type_spec_def keyboard_press_spec_def
  keyboard_hotkey_spec_def window_list_spec_def window_focus_spec_def window_minimize_spec_def
  window_maximize_spec_def window_restore_spec_def clipboard_read_spec_def clipboard_write_spec_def
  clipboard_clear_spec_def system_info_spec_def

lemmas suite_defs = bootstrap_specs_def OFFICE_TOOLS_def BROWSER_TOOLS_def APP_TOOLS_def FILE_TOOLS_def ALL_OS_TOOLS_def

text \<open>The tools with their risk and permissions.\<close>

definition CATALOGUE :: "(string \<times> risk_level \<times> tool_permission list) list" where
  "CATALOGUE =
     [(''office.create_docx'', RLOW, [PWRITE]), (''office.create_xlsx'', RLOW, [PWRITE]),
      (''office.create_pptx'', RLOW, [PWRITE]), (''office.create_pdf'', RLOW, [PWRITE]),
      (''browser.open'', RLOW, [PNETWORK, PEXECUTE]), (''browser.search'', RLOW, [PNETWORK, PEXECUTE]),
      (''youtube.search_and_play'', RLOW, [PNETWORK, PEXECUTE]), (''app.launch'', RLOW, [PEXECUTE]),
      (''app.focus'', RLOW, [PEXECUTE]), (''app.close'', RLOW, [PEXECUTE]),
      (''file.open_directory'', RLOW, [PREAD, PEXECUTE]), (''file.list_files'', RLOW, [PREAD]),
      (''file.create_text_file'', RLOW, [PWRITE]), (''os.screen.capture'', RLOW, [PREAD]),
      (''os.screen.monitors'', RLOW, [PREAD]), (''os.screen.info'', RLOW, [PREAD]),
      (''os.mouse.move'', RLOW, [PEXECUTE]), (''os.mouse.click'', RMEDIUM, [PEXECUTE]),
      (''os.mouse.double_click'', RMEDIUM, [PEXECUTE]), (''os.mouse.right_click'', RMEDIUM, [PEXECUTE]),
      (''os.mouse.scroll'', RLOW, [PEXECUTE]), (''os.keyboard.type'', RMEDIUM, [PEXECUTE]),
      (''os.keyboard.press'', RMEDIUM, [PEXECUTE]), (''os.keyboard.hotkey'', RMEDIUM, [PEXECUTE]),
      (''os.window.list'', RLOW, [PREAD]), (''os.window.focus'', RLOW, [PEXECUTE]),
      (''os.window.minimize'', RLOW, [PEXECUTE]), (''os.window.maximize'', RLOW, [PEXECUTE]),
      (''os.window.restore'', RLOW, [PEXECUTE]), (''os.clipboard.read'', RMEDIUM, [PREAD]),
      (''os.clipboard.write'', RMEDIUM, [PWRITE]), (''os.clipboard.clear'', RMEDIUM, [PWRITE]),
      (''os.system.info'', RLOW, [PREAD])]"

definition option_row :: "tool_spec \<Rightarrow> (string \<times> risk_level \<times> tool_permission list) option" where
  "option_row s =
     (case (to_tool_id (fst s), to_permissions (fst s)) of
        (Some (c # i), Some ps) \<Rightarrow>
          if to_approval_mode (fst s) = AUTO_APPROVE \<and> 1 / 10 \<le> to_timeout_seconds (fst s) \<and> to_timeout_seconds (fst s) \<le> 600
          then Some (c # i, to_risk_level (fst s), ps) else None
      | _ \<Rightarrow> None)"

lemma option_rows: "map option_row bootstrap_specs = map Some CATALOGUE"
  by (simp add: suite_defs option_row_def spec_defs tool_with_def default_options_def CATALOGUE_def)

definition shows_row :: "string \<times> risk_level \<times> tool_permission list \<Rightarrow> tool_definition \<Rightarrow> bool" where
  "shows_row row d =
     (row = (td_id d, td_risk_level d, td_permissions d) \<and> td_id d \<noteq> [] \<and> td_approval_mode d = AUTO_APPROVE \<and> td_enabled d)"

lemma option_row_decorated:
  "option_row s = Some row \<Longrightarrow> \<exists>d. decorate_tool (fst s) (snd s) = Some d \<and> shows_row row d"
  by (auto simp: option_row_def decorate_tool_def shows_row_def or_text_def Let_def split: option.splits list.splits if_splits)

lemma register_tool_fresh:
  assumes "decorate_tool (fst s) (snd s) = Some d" and "td_id d \<noteq> []" and "td_id d \<notin> fst ` set (tg_tools r)"
  shows "\<exists>r'. register_tool impl s r = Inr r' \<and> tg_tools r' = tg_tools r @ [(td_id d, d)] \<and>
     dict_get (tg_handlers r') (td_id d) = Some (impl (snd s))"
  using assms by (auto simp: register_tool_def tool_register_def dict_has_iff dict_put_fresh dict_simps)

text \<open>Both loops register the tools of a list whose identifiers are new, in order.\<close>

lemma registered_in_order:
  assumes "map option_row specs = map Some rows" and "distinct (map fst (tg_tools r) @ map fst rows)"
  shows "(\<exists>r' ds. register_each impl specs r = Inr r' \<and> tg_tools r' = tg_tools r @ map (\<lambda>d. (td_id d, d)) ds \<and>
            list_all2 shows_row rows ds) \<and>
         (\<exists>r' ds. register_missing impl specs r = Inr r' \<and> tg_tools r' = tg_tools r @ map (\<lambda>d. (td_id d, d)) ds \<and>
            list_all2 shows_row rows ds)"
  using assms
proof (induction specs arbitrary: r rows)
  case (Cons s specs)
  then obtain row rows' where rows: "rows = row # rows'" "option_row s = Some row" "map option_row specs = map Some rows'"
    by (cases rows) auto
  from option_row_decorated [OF this(2)] obtain d where d: "decorate_tool (fst s) (snd s) = Some d" "shows_row row d" by blast
  then have d_id: "td_id d = fst row" "td_id d \<noteq> []" by (auto simp: shows_row_def)
  have fresh: "td_id d \<notin> fst ` set (tg_tools r)" using Cons.prems(2) by (auto simp: rows(1) d_id)
  from register_tool_fresh [OF d(1) d_id(2) this, of impl] obtain r1 where r1: "register_tool impl s r = Inr r1"
    "tg_tools r1 = tg_tools r @ [(td_id d, d)]" by blast
  have "\<not> tool_has r (spec_id s)" using fresh d(1) by (simp add: tool_has_def dict_has_iff spec_id_def)
  moreover have "distinct (map fst (tg_tools r1) @ map fst rows')" using Cons.prems(2) by (auto simp: rows(1) r1(2) d_id)
  from Cons.IH [OF rows(3) this] obtain r2 ds2 r3 ds3 where
    "register_each impl specs r1 = Inr r2" "tg_tools r2 = tg_tools r1 @ map (\<lambda>d. (td_id d, d)) ds2" "list_all2 shows_row rows' ds2"
    "register_missing impl specs r1 = Inr r3" "tg_tools r3 = tg_tools r1 @ map (\<lambda>d. (td_id d, d)) ds3" "list_all2 shows_row rows' ds3"
    by blast
  ultimately show ?case using d(2) r1
    by (intro conjI exI [of _ r2] exI [of _ "d # ds2"] exI [of _ r3] exI [of _ "d # ds3"]) (simp_all add: rows(1))
qed auto

lemma catalogue_plain: "list_all (\<lambda>s. plain_params (snd s)) bootstrap_specs"
  by (simp add: suite_defs spec_defs plain_params_def arg_def param_type_def is_optional_type_def TyOptional_def
      is_context_param_def)

lemma catalogue_split:
  "map option_row OFFICE_TOOLS = map Some (take 4 CATALOGUE)" "map option_row BROWSER_TOOLS = map Some (take 3 (drop 4 CATALOGUE))"
  "map option_row APP_TOOLS = map Some (take 3 (drop 7 CATALOGUE))" "map option_row FILE_TOOLS = map Some (take 3 (drop 10 CATALOGUE))"
  "map option_row ALL_OS_TOOLS = map Some (drop 13 CATALOGUE)"
  by (simp_all add: suite_defs option_row_def spec_defs tool_with_def default_options_def CATALOGUE_def)

lemma catalogue_distinct: "distinct (map fst CATALOGUE)"
  by code_simp

text \<open>A suite that continues the catalogue continues the registry.\<close>

definition follows :: "(string \<times> risk_level \<times> tool_permission list) list \<Rightarrow> 'h tool_registry \<Rightarrow> bool" where
  "follows rows r = (\<exists>ds. tg_tools r = map (\<lambda>d. (td_id d, d)) ds \<and> list_all2 shows_row rows ds)"

lemma follows_keys: "follows rows r \<Longrightarrow> map fst (tg_tools r) = map fst rows"
proof -
  have "list_all2 shows_row rows ds \<Longrightarrow> map td_id ds = map fst rows" for ds
    by (induction rows ds rule: list_all2_induct) (auto simp: shows_row_def)
  then show "follows rows r \<Longrightarrow> map fst (tg_tools r) = map fst rows" by (auto simp: follows_def comp_def)
qed

lemma suite_follows:
  assumes "follows rows r" and "map option_row specs = map Some rows'" and "distinct (map fst (rows @ rows'))"
  shows "(\<exists>r'. register_each impl specs r = Inr r' \<and> follows (rows @ rows') r') \<and>
         (\<exists>r'. register_missing impl specs r = Inr r' \<and> follows (rows @ rows') r')"
proof -
  obtain ds where r: "tg_tools r = map (\<lambda>d. (td_id d, d)) ds" "list_all2 shows_row rows ds"
    using assms(1) by (auto simp: follows_def)
  have "distinct (map fst (tg_tools r) @ map fst rows')" using follows_keys [OF assms(1)] assms(3) by simp
  note registered_in_order [OF assms(2) this, of impl]
  moreover have "list_all2 shows_row rows' es \<Longrightarrow> follows (rows @ rows') r' "
    if "tg_tools r' = tg_tools r @ map (\<lambda>d. (td_id d, d)) es" for r' es
    using r that by (auto simp: follows_def intro!: exI [of _ "ds @ es"] list_all2_appendI)
  ultimately show ?thesis by blast
qed

lemma bootstrap_follows: "\<exists>r. bootstrap_registry impl = Inr r \<and> follows CATALOGUE r"
proof -
  obtain t b a f w where parts: "t = take 4 CATALOGUE" "b = take 3 (drop 4 CATALOGUE)" "a = take 3 (drop 7 CATALOGUE)"
    "f = take 3 (drop 10 CATALOGUE)" "w = drop 13 CATALOGUE" by blast
  have whole: "CATALOGUE = ((((t @ b) @ a) @ f) @ w)" unfolding parts CATALOGUE_def by simp
  have dist: "distinct (map fst ((((t @ b) @ a) @ f) @ w))" using catalogue_distinct unfolding whole .
  then have fresh: "distinct (map fst ([] @ t))" "distinct (map fst (t @ b))" "distinct (map fst ((t @ b) @ a))"
    "distinct (map fst (((t @ b) @ a) @ f))" by auto
  have "follows [] registry_empty" by (simp add: follows_def registry_empty_def)
  from suite_follows [OF this catalogue_split(1) [folded parts(1)] fresh(1), of impl]
  obtain r1 where 1: "register_each impl OFFICE_TOOLS registry_empty = Inr r1" "follows t r1" by auto
  from suite_follows [OF 1(2) catalogue_split(2) [folded parts(2)] fresh(2), of impl]
  obtain r2 where 2: "register_missing impl BROWSER_TOOLS r1 = Inr r2" "follows (t @ b) r2" by blast
  from suite_follows [OF 2(2) catalogue_split(3) [folded parts(3)] fresh(3), of impl]
  obtain r3 where 3: "register_missing impl APP_TOOLS r2 = Inr r3" "follows ((t @ b) @ a) r3" by blast
  from suite_follows [OF 3(2) catalogue_split(4) [folded parts(4)] fresh(4), of impl]
  obtain r4 where 4: "register_missing impl FILE_TOOLS r3 = Inr r4" "follows (((t @ b) @ a) @ f) r4" by blast
  from suite_follows [OF 4(2) catalogue_split(5) [folded parts(5)] dist, of impl]
  obtain r5 where 5: "register_missing impl ALL_OS_TOOLS r4 = Inr r5" "follows CATALOGUE r5" unfolding whole [symmetric] by blast
  then show ?thesis using 1 2 3 4 by (simp add: bootstrap_registry_def register_builtin_tools_def register_os_tools_def)
qed

lemma default_policy:
  assumes "td_approval_mode d = AUTO_APPROVE" and "td_enabled d" and "td_risk_level d \<in> {RLOW, RMEDIUM}"
  shows "\<not> pd_approval_required (policy_evaluate \<lparr>pe_profile = default_profile, pe_sandbox = sb\<rparr> d q None) \<and>
     pd_allowed (policy_evaluate \<lparr>pe_profile = default_profile, pe_sandbox = sb\<rparr> d q None) =
       (case sb of None \<Rightarrow> True | Some s \<Rightarrow> sandbox_violation s (tq_arguments q) = None)"
proof -
  have "p \<in> set (sp_granted default_profile)" for p by (cases p) (simp_all add: default_profile_def)
  then have "has_all_permissions default_profile (td_permissions d)" by (auto simp: has_all_permissions_def)
  moreover have "is_risk_acceptable default_profile (td_risk_level d)"
    using assms(3) by (auto simp: is_risk_acceptable_def default_profile_def)
  ultimately show ?thesis using assms by (auto simp: policy_evaluate_def Let_def split: option.split)
qed

text \<open>
  C16. The tools the program starts with and the policy over them. \<open>bootstrap_system\<close> registers exactly the 33 tools
  of the catalogue, in this order, with these risks and permissions (process execution and network among them). Under
  the default profile the policy engine never asks for an approval, whatever the request, and refuses a request only
  for a path argument outside the sandbox.
\<close>

theorem default_profile_asks_nobody:
  "\<exists>r ds. bootstrap_registry impl = Inr r \<and> tg_tools r = map (\<lambda>d. (td_id d, d)) ds \<and>
     map (\<lambda>d. (td_id d, td_risk_level d, td_permissions d)) ds = CATALOGUE \<and>
     list_all (\<lambda>d. \<not> pd_approval_required (policy_evaluate \<lparr>pe_profile = default_profile, pe_sandbox = sb\<rparr> d q None) \<and>
        pd_allowed (policy_evaluate \<lparr>pe_profile = default_profile, pe_sandbox = sb\<rparr> d q None) =
          (case sb of None \<Rightarrow> True | Some s \<Rightarrow> sandbox_violation s (tq_arguments q) = None)) ds"
proof -
  obtain r ds where r: "bootstrap_registry impl = Inr r" "tg_tools r = map (\<lambda>d. (td_id d, d)) ds"
    "list_all2 shows_row CATALOGUE ds" using bootstrap_follows [of impl] by (auto simp: follows_def)
  have rows: "list_all2 shows_row rows es \<Longrightarrow> map (\<lambda>d. (td_id d, td_risk_level d, td_permissions d)) es = rows \<and>
      list_all (\<lambda>d. td_approval_mode d = AUTO_APPROVE \<and> td_enabled d) es" for rows es
    by (induction rows es rule: list_all2_induct) (auto simp: shows_row_def)
  then have "map (\<lambda>d. (td_id d, td_risk_level d, td_permissions d)) ds = CATALOGUE" using r(3) by blast
  moreover have "list_all (\<lambda>row. fst (snd row) \<in> {RLOW, RMEDIUM}) CATALOGUE" by (simp add: CATALOGUE_def)
  ultimately have "list_all (\<lambda>d. td_risk_level d \<in> {RLOW, RMEDIUM}) ds" by (metis (no_types, lifting) fst_conv snd_conv list.pred_map comp_apply list.pred_cong)
  then show ?thesis using r rows [OF r(3)] default_policy by (auto simp: list_all_iff)
qed

text \<open>
  C2. For each of these tools, the executor's check of the arguments and the language agree: a call that passes the
  check can be bound to the function's parameters exactly when it names no parameter the function does not have, and
  every call that can be bound passes the check.
\<close>

theorem catalogue_calls_bind:
  "list_all (\<lambda>s. (validate_arguments (generate_tool_schema (snd s)) args = None \<and>
       call_keys (snd s) args \<subseteq> fp_name ` set (fn_params (snd s)))
     = binds (fn_params (snd s)) (call_keys (snd s) args)) bootstrap_specs"
  using catalogue_plain validated_call_binds by (simp add: list_all_iff)

text \<open>The one suite that does not look whether a tool is there: a second registration fails.\<close>

lemma vision_registered_once:
  "tool_has r ''vision.screen.analyze'' \<Longrightarrow> \<exists>e. register_vision_tools impl r = Inl e"
  by (simp add: register_vision_tools_def ALL_VISION_TOOLS_def register_tool_def screen_analyze_spec_def tool_with_def
      default_options_def decorate_tool_def or_text_def tool_register_def tool_has_def)

end
