(* ===== verification/Bootstrap.thy ===== *)
theory Bootstrap
  imports Tool_Catalog Builtin_Agents
begin

text \<open>
  The composition of the program (\<open>tools/factory.py\<close>, \<open>agents/factory.py\<close>, \<open>bootstrap.py\<close>): the tool system with its
  sandbox, profile and registry, the agent runtime over it, and the two as \<open>bootstrap_system\<close> puts them together.
  The registry of tools is shared: the agent runtime, built before the desktop tools are registered, sees them.
  The validator of plans looks at the definitions of the tools only, so it is given the registry without handlers.
  Shown: the program as it starts plans, validates and starts every goal.
\<close>

section \<open>The tool system\<close>

record tool_settings =
  bs_workspace_dir :: "string list"
  bs_data_dir :: "string list"

definition build_tool_system ::
  "(py_function \<Rightarrow> 'w tool_handler) \<Rightarrow> file_system \<Rightarrow> tool_settings \<Rightarrow> string list option \<Rightarrow> security_profile option \<Rightarrow> bool
     \<Rightarrow> registry_error + 'w tool_executor" where
  "build_tool_system impl fs settings workspace profile builtins =
     (let ws = (case workspace of Some w \<Rightarrow> w
                | None \<Rightarrow> if bs_workspace_dir settings \<noteq> [] then bs_workspace_dir settings else bs_data_dir settings @ [''workspace''])
      in bind_res (if builtins then register_builtin_tools impl registry_empty else Inr registry_empty) (\<lambda>r.
           Inr \<lparr>te_registry = r,
                te_policy = \<lparr>pe_profile = (case profile of Some p \<Rightarrow> p | None \<Rightarrow> default_profile), pe_sandbox = Some (fs, ws)\<rparr>,
                te_workspace = ws\<rparr>))"

section \<open>The agent runtime\<close>

definition definitions_only :: "'h tool_registry \<Rightarrow> 'k tool_registry" where
  "definitions_only r = \<lparr>tg_tools = tg_tools r, tg_handlers = []\<rparr>"

definition build_agent_system ::
  "'w agent_env \<Rightarrow> file_facts \<Rightarrow> string \<Rightarrow> bool \<Rightarrow> string + 'w agent_world orchestrator" where
  "build_agent_system env files fresh builtins =
     bind_res (if builtins then register_builtin_agents env [] else Inr []) (\<lambda>reg.
       Inr \<lparr>or_agents = reg,
            or_validator = \<lparr>pv_max_steps = 20, pv_agents = Some reg,
              pv_tools = map_option (\<lambda>te. definitions_only (te_registry te)) (av_tools env)\<rparr>,
            or_verifier = \<lparr>av_sandbox = (case av_tools env of None \<Rightarrow> None | Some te \<Rightarrow> pe_sandbox (te_policy te)), av_files = files\<rparr>,
            or_recovery = \<lparr>re_max_step_retries = 2, re_max_replans = 2, re_max_recovery_attempts = 5\<rparr>,
            or_parse_plan = validate_plan fresh\<rparr>)"

section \<open>The program\<close>

text \<open>No router is passed to the agent runtime.\<close>

definition bootstrap_system ::
  "(py_function \<Rightarrow> 'w tool_handler) \<Rightarrow> file_system \<Rightarrow> tool_settings \<Rightarrow> 'w agent_env \<Rightarrow> file_facts \<Rightarrow> string
     \<Rightarrow> (registry_error + string) + 'w tool_executor \<times> 'w agent_world orchestrator" where
  "bootstrap_system impl fs settings env files fresh =
     (case bind_res (build_tool_system impl fs settings None None True) (\<lambda>te.
           bind_res (register_os_tools impl (te_registry te)) (\<lambda>r. Inr (te\<lparr>te_registry := r\<rparr>))) of
        Inl e \<Rightarrow> Inl (Inl e)
      | Inr te \<Rightarrow>
          (case build_agent_system (env\<lparr>av_router := None, av_tools := Some te\<rparr>) files fresh True of
             Inl e \<Rightarrow> Inl (Inr e)
           | Inr orc \<Rightarrow> Inr (te, orc)))"

section \<open>The program as it starts\<close>

lemma follows_lookup:
  assumes "follows rows r" and "k \<in> fst ` set rows"
  shows "\<exists>d. dict_get (tg_tools r) k = Some d \<and> td_enabled d"
proof -
  obtain ds where ds: "tg_tools r = map (\<lambda>d. (td_id d, d)) ds" "list_all2 shows_row rows ds"
    using assms(1) by (auto simp: follows_def)
  have "k \<in> fst ` set (tg_tools r)" using follows_keys [OF assms(1)] assms(2) by (metis list.set_map)
  then obtain d where "dict_get (tg_tools r) k = Some d" by (metis dict_has_def dict_has_iff not_None_eq)
  moreover from this have "d \<in> set ds" by (auto simp: ds(1) dest!: map_of_SomeD)
  then have "td_enabled d" using ds(2) by (auto simp: list_all2_conv_all_nth in_set_conv_nth shows_row_def)
  ultimately show ?thesis by blast
qed

lemma plan_tools_catalogued: "set PLAN_TOOLS \<subseteq> fst ` set CATALOGUE"
  by (simp add: PLAN_TOOLS_def CATALOGUE_def)

lemma bootstrap_system_built:
  "\<exists>te orc reg. bootstrap_system impl fs settings env files fresh = Inr (te, orc) \<and> follows CATALOGUE (te_registry te) \<and>
     register_builtin_agents (env\<lparr>av_router := None, av_tools := Some te\<rparr>) [] = Inr reg \<and>
     or_agents orc = reg \<and> or_parse_plan orc = validate_plan fresh \<and>
     or_validator orc = \<lparr>pv_max_steps = 20, pv_agents = Some reg, pv_tools = Some (definitions_only (te_registry te))\<rparr>"
proof -
  obtain r where r: "bootstrap_registry impl = Inr r" "follows CATALOGUE r" using bootstrap_follows [of impl] by blast
  then obtain r0 where r0: "register_builtin_tools impl registry_empty = Inr r0" "register_os_tools impl r0 = Inr r"
    by (auto simp: bootstrap_registry_def bind_res_Inr)
  show ?thesis
    by (simp add: bootstrap_system_def build_tool_system_def Let_def r0 build_agent_system_def register_builtin_ok r(2))
qed

text \<open>
  C7. The program as it starts accepts every goal. Whatever the settings, the handlers and the text of the goal are,
  bootstrap succeeds, and a run that the orchestrator it builds begins passes planning and the validation against the
  registered agents and tools: it is running the first wave of the deterministic plan for that text and has
  touched nothing yet.
\<close>

theorem bootstrap_starts_every_goal:
  "case bootstrap_system impl fs settings env files fresh of
     Inl _ \<Rightarrow> False
   | Inr (te, orc) \<Rightarrow>
       \<exists>wave rest. os_phase (begin_run orc g run_id False w) = InWave (map Waiting wave) rest \<and> wave \<noteq> [] \<and>
         ar_state (os_run (begin_run orc g run_id False w)) = ARUNNING \<and>
         pl_tasks (os_plan (begin_run orc g run_id False w)) = deterministic_decompose (gl_user_prompt g) \<and>
         os_world (begin_run orc g run_id False w) = w"
proof -
  obtain te orc reg where b: "bootstrap_system impl fs settings env files fresh = Inr (te, orc)" "follows CATALOGUE (te_registry te)"
    "register_builtin_agents (env\<lparr>av_router := None, av_tools := Some te\<rparr>) [] = Inr reg"
    "or_agents orc = reg" "or_parse_plan orc = validate_plan fresh"
    "or_validator orc = \<lparr>pv_max_steps = 20, pv_agents = Some reg, pv_tools = Some (definitions_only (te_registry te))\<rparr>"
    using bootstrap_system_built [of impl fs settings env files fresh] by blast
  have "\<exists>d. dict_get (tg_tools tr) k = Some d \<and> td_enabled d"
    if "pv_tools (or_validator orc) = Some tr" "k \<in> set PLAN_TOOLS" for tr k
  proof -
    have "k \<in> fst ` set CATALOGUE" using plan_tools_catalogued that(2) by blast
    from follows_lookup [OF b(2) this] that(1) show ?thesis by (auto simp: b(6) definitions_only_def)
  qed
  from every_goal_planned [OF b(3) _ b(4,5) _ _ this] show ?thesis by (simp add: b(1,6))
qed

text \<open>All tools of the coding agent but one are registered.\<close>

lemma coding_tools_catalogued: "set CODING_TOOLS - fst ` set CATALOGUE = {''os.window.close''}"
  by (auto simp: CODING_TOOLS_def CATALOGUE_def)

end
