(* ===== verification/Voice_Wav.thy ===== *)
theory Voice_Wav
  imports Voice_Audio Py_Value
begin

text \<open>
  PCM audio in a WAV container (\<open>pcm_to_wav\<close>, \<open>wav_to_pcm\<close> and \<open>generate_sine_wave\<close> of \<open>voice/audio/base.py\<close>) with
  what the standard library's \<open>wave\<close> module writes and reads. Shown: what was wrapped is unwrapped again, in
  whole frames.
\<close>

section \<open>Little-endian fields\<close>

fun le :: "nat \<Rightarrow> int \<Rightarrow> bytes" where
  "le 0 n = []"
| "le (Suc k) n = word_of_int n # le k (n div 256)"

fun le_value :: "bytes \<Rightarrow> int" where
  "le_value [] = 0"
| "le_value (b # bs) = uint b + 256 * le_value bs"

definition ascii :: "string \<Rightarrow> bytes" where
  "ascii s = map (\<lambda>c. of_nat (code_of c)) s"

lemma length_le [simp]: "length (le k n) = k"
  by (induction k arbitrary: n) simp_all

lemma le_value_le: "0 \<le> n \<Longrightarrow> n < 256 ^ k \<Longrightarrow> le_value (le k n) = n"
proof (induction k arbitrary: n)
  case (Suc k)
  have "uint (word_of_int n :: 8 word) = n mod 256" by (simp add: uint_word_of_int)
  moreover have "n < 256 * 256 ^ k" using Suc.prems by simp
  then have "n div 256 < 256 ^ k" by linarith
  ultimately show ?case using Suc by simp
qed simp

section \<open>Writing\<close>

text \<open>\<open>None\<close> where the module raises: parameters out of range or too large for their fields.\<close>

definition pcm_to_wav :: "audio_format \<Rightarrow> bytes \<Rightarrow> bytes option" where
  "pcm_to_wav f pcm =
     (let ch = af_channels f; rate = af_sample_rate f; w = af_sample_width f; n = int (length pcm)
      in if ch < 1 \<or> w < 1 \<or> 4 < w \<or> rate \<le> 0 \<or> 256 ^ 2 \<le> ch * w \<or> 256 ^ 4 \<le> ch * rate * w \<or> 256 ^ 4 \<le> 36 + n then None
         else Some (ascii ''RIFF'' @ le 4 (36 + n) @ ascii ''WAVE'' @ ascii ''fmt '' @ le 4 16 @ le 2 1 @ le 2 ch @ le 4 rate
                @ le 4 (ch * rate * w) @ le 2 (ch * w) @ le 2 (w * 8) @ ascii ''data'' @ le 4 n @ pcm))"

section \<open>Reading\<close>

datatype wav_error = UnsupportedAudio string

type_synonym wav_exc = "wav_error exc"

record wav_params =
  wp_channels :: int
  wp_rate :: int
  wp_width :: int

definition malformed :: "string \<Rightarrow> wav_exc" where
  "malformed e = Typed (UnsupportedAudio (''Malformed or unsupported WAV data: '' @ e))"

text \<open>The \<open>fmt\<close> chunk, of which \<open>c\<close> is the body. Format 65534 is the extensible one, with the GUID of PCM in its last field.\<close>

definition SUBTYPE_PCM :: bytes where
  "SUBTYPE_PCM = [1, 0, 0, 0, 0, 0, 16, 0, 128, 0, 0, 170, 0, 56, 155, 113]"

definition read_fmt :: "bytes \<Rightarrow> wav_exc + wav_params" where
  "read_fmt c =
     (let word = (\<lambda>i k. le_value (take k (drop i c)))
      in if length c < 14 then Inl (PyExc ''EOFError'')
         else if word 0 2 \<notin> {1, 65534} then Inl (malformed ''unknown format'')
         else if length c < 16 \<or> word 0 2 = 65534 \<and> length c < 40 then Inl (PyExc ''EOFError'')
         else if word 0 2 = 65534 \<and> take 16 (drop 24 c) \<noteq> SUBTYPE_PCM then Inl (malformed ''unknown extended format'')
         else if (word 14 2 + 7) div 8 = 0 then Inl (malformed ''bad sample width'')
         else if word 2 2 = 0 then Inl (malformed ''bad # of channels'')
         else Inr \<lparr>wp_channels = word 2 2, wp_rate = word 4 4, wp_width = (word 14 2 + 7) div 8\<rparr>)"

text \<open>
  The loop over the chunks: \<open>riff\<close> is the size that the RIFF header claims and \<open>pos\<close> the position in it; to skip a
  chunk that reaches beyond is a \<open>RuntimeError\<close> of the module.
\<close>

function wav_scan :: "nat \<Rightarrow> nat \<Rightarrow> wav_params option \<Rightarrow> bytes \<Rightarrow> wav_exc + wav_params \<times> bytes" where
  "wav_scan riff pos fmt bs =
     (if length bs < 8 then Inl (malformed ''fmt chunk and/or data chunk missing'')
      else let n = nat (le_value (take 4 (drop 4 bs)));
               body = take n (drop 8 bs);
               step = 8 + n + n mod 2;
               skip = (\<lambda>fmt'. if riff < pos + step then Inl (PyExc ''RuntimeError'') else wav_scan riff (pos + step) fmt' (drop step bs))
           in if take 4 bs = ascii ''fmt '' then bind_res (read_fmt body) (\<lambda>p. skip (Some p))
              else if take 4 bs = ascii ''data''
              then (case fmt of
                      None \<Rightarrow> Inl (malformed ''data chunk before fmt chunk'')
                    | Some p \<Rightarrow> let frame = nat (wp_channels p * wp_width p) in Inr (p, take (n div frame * frame) body))
              else skip fmt)"
  by pat_completeness auto
termination
  by (relation "measure (\<lambda>(riff, pos, fmt, bs). length bs)") auto

declare wav_scan.simps [simp del]

definition wav_to_pcm :: "bytes \<Rightarrow> wav_exc + bytes \<times> audio_format" where
  "wav_to_pcm bs =
     (if length bs < 8 then Inl (PyExc ''EOFError'')
      else let riff = nat (le_value (take 4 (drop 4 bs)));
               body = take riff (drop 8 bs)
           in if take 4 bs \<noteq> ascii ''RIFF'' then Inl (malformed ''file does not start with RIFF id'')
              else if take 4 body \<noteq> ascii ''WAVE'' then Inl (malformed ''not a WAVE file'')
              else bind_res (wav_scan riff 4 None (drop 4 body)) (\<lambda>(p, frames).
                   Inr (frames, \<lparr>af_sample_rate = wp_rate p, af_channels = wp_channels p, af_sample_width = wp_width p,
                                  af_encoding = PCM_S16LE\<rparr>)))"

section \<open>The test tone\<close>

text \<open>\<open>sine f i r\<close> stands for the sine of \<open>2 \<pi> f i / r\<close>; \<open>int\<close> cuts off towards zero. \<open>struct.pack\<close> takes
  signed 16-bit values, and raises on the format of a negative count, here \<open>None\<close>.\<close>

definition py_trunc :: "rat \<Rightarrow> int" where
  "py_trunc x = (if 0 \<le> x then \<lfloor>x\<rfloor> else \<lceil>x\<rceil>)"

definition sample_bytes :: "int \<Rightarrow> bytes" where
  "sample_bytes s = le 2 s"

definition generate_sine_wave :: "(rat \<Rightarrow> nat \<Rightarrow> int \<Rightarrow> rat) \<Rightarrow> rat \<Rightarrow> rat \<Rightarrow> int \<Rightarrow> rat \<Rightarrow> bytes option" where
  "generate_sine_wave sine freq secs rate amp =
     (let n = py_trunc (secs * of_int rate); top_amp = 32767 * min 1 (max 0 amp)
      in if n < 0 then None
         else Some (concat (map (\<lambda>i. sample_bytes (py_trunc (top_amp * sine freq i rate))) [0..<nat n])))"

section \<open>What was wrapped is unwrapped\<close>

lemma length_ascii [simp]: "length (ascii s) = length s"
  by (simp add: ascii_def)

lemma ascii_ids: "ascii ''data'' \<noteq> ascii ''fmt ''"
  by code_simp

definition fmt_body :: "int \<Rightarrow> int \<Rightarrow> int \<Rightarrow> bytes" where
  "fmt_body ch rate w = le 2 1 @ le 2 ch @ le 4 rate @ le 4 (ch * rate * w) @ le 2 (ch * w) @ le 2 (w * 8)"

lemma length_fmt_body [simp]: "length (fmt_body ch rate w) = 16"
  by (simp add: fmt_body_def)

lemma read_fmt_body:
  assumes "1 \<le> ch" and "1 \<le> w" and "w \<le> 4" and "0 < rate" and "ch < 256 ^ 2" and "rate < 256 ^ 4"
  shows "read_fmt (fmt_body ch rate w) = Inr \<lparr>wp_channels = ch, wp_rate = rate, wp_width = w\<rparr>"
proof -
  have "le_value (le 2 1) = 1" "le_value (le 2 ch) = ch" "le_value (le 4 rate) = rate" "le_value (le 2 (w * 8)) = w * 8"
    using assms by (simp_all add: le_value_le)
  then show ?thesis using assms by (simp add: read_fmt_def fmt_body_def Let_def)
qed

lemma scan_fmt:
  assumes "read_fmt body = Inr p" and "length body = 16" and "pos + 24 \<le> riff"
  shows "wav_scan riff pos None (ascii ''fmt '' @ le 4 16 @ body @ bs) = wav_scan riff (pos + 24) (Some p) bs"
proof -
  have "le_value (le 4 16) = 16" by (simp add: le_value_le)
  then show ?thesis using assms by (subst wav_scan.simps) (simp add: Let_def)
qed

lemma scan_data:
  assumes "0 \<le> n" and "n < 256 ^ 4" and "length pcm = nat n"
  shows "wav_scan riff pos (Some p) (ascii ''data'' @ le 4 n @ pcm) =
    Inr (p, take (length pcm div nat (wp_channels p * wp_width p) * nat (wp_channels p * wp_width p)) pcm)"
proof -
  have "le_value (le 4 n) = n" using assms by (simp add: le_value_le)
  then show ?thesis using assms ascii_ids by (subst wav_scan.simps) (simp add: Let_def)
qed

text \<open>
  Wrapping and unwrapping. Audio that \<open>pcm_to_wav\<close> puts into a container comes back from \<open>wav_to_pcm\<close> with the
  same rate, channels and sample width, byte for byte up to the last whole frame.
\<close>

theorem wav_roundtrip:
  assumes "pcm_to_wav f pcm = Some bs"
  shows "wav_to_pcm bs = Inr (take (length pcm div nat (frame_size f) * nat (frame_size f)) pcm, f\<lparr>af_encoding := PCM_S16LE\<rparr>)"
proof -
  define n ch rate w where "n = int (length pcm)" and "ch = af_channels f" and "rate = af_sample_rate f" and "w = af_sample_width f"
  note abbr = this
  have ok: "1 \<le> ch" "1 \<le> w" "w \<le> 4" "0 < rate" "ch * w < 256 ^ 2" "ch * rate * w < 256 ^ 4" "36 + n < 256 ^ 4"
    and bs: "bs = ascii ''RIFF'' @ le 4 (36 + n) @ ascii ''WAVE'' @ ascii ''fmt '' @ le 4 16 @ fmt_body ch rate w
                @ ascii ''data'' @ le 4 n @ pcm"
    using assms by (auto simp: pcm_to_wav_def fmt_body_def Let_def abbr split: if_splits)
  have "ch * 1 \<le> ch * w" using ok(1,2) by (intro mult_left_mono) simp_all
  then have small: "ch \<le> ch * w" by simp
  have "1 * rate \<le> (ch * w) * rate" using small ok(1,4) by (intro mult_right_mono) linarith+
  then have "rate \<le> ch * rate * w" by (simp add: ac_simps)
  then have "ch < 256 ^ 2" "rate < 256 ^ 4" using small ok(5,6) le_less_trans by blast+
  note fmt = read_fmt_body [OF ok(1,2,3,4) this]
  let ?p = "\<lparr>wp_channels = ch, wp_rate = rate, wp_width = w\<rparr>"
  let ?data = "ascii ''data'' @ le 4 n @ pcm"
  have n: "0 \<le> n" "length pcm = nat n" by (simp_all add: n_def)
  have "n < 256 ^ 4" using ok(7) by linarith
  have "4 + 24 \<le> nat (36 + n)" using n(1) by linarith
  from scan_fmt [OF fmt length_fmt_body this]
  have "wav_scan (nat (36 + n)) 4 None (ascii ''fmt '' @ le 4 16 @ fmt_body ch rate w @ ?data) =
      wav_scan (nat (36 + n)) (4 + 24) (Some ?p) ?data" .
  also have "\<dots> = Inr (?p, take (length pcm div nat (wp_channels ?p * wp_width ?p) * nat (wp_channels ?p * wp_width ?p)) pcm)"
    by (rule scan_data) fact+
  finally have scan: "wav_scan (nat (36 + n)) 4 None (ascii ''fmt '' @ le 4 16 @ fmt_body ch rate w @ ?data) =
      Inr (?p, take (length pcm div nat (ch * w) * nat (ch * w)) pcm)" by simp
  have size: "le_value (le 4 (36 + n)) = 36 + n" using n(1) ok(7) by (intro le_value_le) linarith+
  have "length (ascii ''WAVE'' @ ascii ''fmt '' @ le 4 16 @ fmt_body ch rate w @ ?data) = nat (36 + n)"
    using n by simp
  then have "wav_to_pcm bs = bind_res (wav_scan (nat (36 + n)) 4 None
      (ascii ''fmt '' @ le 4 16 @ fmt_body ch rate w @ ?data)) (\<lambda>(p, frames).
        Inr (frames, \<lparr>af_sample_rate = wp_rate p, af_channels = wp_channels p, af_sample_width = wp_width p, af_encoding = PCM_S16LE\<rparr>))"
    by (simp add: wav_to_pcm_def bs Let_def size)
  then have "wav_to_pcm bs = Inr (take (length pcm div nat (ch * w) * nat (ch * w)) pcm,
      \<lparr>af_sample_rate = rate, af_channels = ch, af_sample_width = w, af_encoding = PCM_S16LE\<rparr>)"
    by (simp add: scan)
  then show ?thesis by (cases f) (simp add: ch_def rate_def w_def frame_size_def)
qed

definition tone :: bytes where
  "tone = [1, 2, 3, 4, 5]"

theorem wav_roundtrip_witness:
  "\<exists>bs. pcm_to_wav default_format tone = Some bs \<and> wav_to_pcm bs = Inr ([1, 2, 3, 4], default_format)"
proof -
  have "pcm_to_wav default_format tone \<noteq> None" by (simp add: pcm_to_wav_def default_format_def tone_def Let_def)
  then obtain bs where bs: "pcm_to_wav default_format tone = Some bs" by blast
  from wav_roundtrip [OF this] show ?thesis using bs by (simp add: default_format_def tone_def frame_size_def)
qed

end
