(* ===== verification/Voice_Stt.thy ===== *)
theory Voice_Stt
  imports Voice_Session Voice_Wav
begin

text \<open>
  The speech recognition engines behind the router (\<open>voice/stt/vosk.py\<close>, \<open>whisper.py\<close>, \<open>mock.py\<close>). What a package
  computes (loading a model, recognising audio) is a parameter with the exceptions it raises; what the program makes
  of it is modelled. A failure is named by its class and the fixed part of its message. Shown: a result is
  always labelled with its engine and has a confidence between 0 and 1.
\<close>

datatype stt_failure = SttUnavailable string | SttError string | SttOther string

type_synonym stt_answer = "stt_failure + stt_result"

text \<open>The constraints of \<open>TranscriptSegment\<close> and \<open>STTResult\<close>.\<close>

definition mk_segment :: "string \<Rightarrow> rat \<Rightarrow> rat \<Rightarrow> rat \<Rightarrow> string option \<Rightarrow> 'e exc + transcript_segment" where
  "mk_segment t a b c lang =
     (if a < 0 \<or> b < 0 \<or> c < 0 \<or> 1 < c then Inl (PyExc ''ValidationError'')
      else Inr \<lparr>ts_text = t, ts_start_sec = a, ts_end_sec = b, ts_confidence = c, ts_language = lang\<rparr>)"

definition mk_stt_result :: "string \<Rightarrow> transcript_segment list \<Rightarrow> string \<Rightarrow> rat \<Rightarrow> string \<Rightarrow> rat \<Rightarrow> 'e exc + stt_result" where
  "mk_stt_result t segs lang c provider latency =
     (if c < 0 \<or> 1 < c \<or> latency < 0 then Inl (PyExc ''ValidationError'')
      else Inr \<lparr>st_text = t, st_segments = segs, st_language = lang, st_confidence = c, st_is_final = True,
                st_provider = provider, st_latency_ms = latency\<rparr>)"

text \<open>\<open>float(v)\<close>, and \<open>a or b\<close> on texts.\<close>

definition py_float :: "py_lib \<Rightarrow> pyval \<Rightarrow> 'e exc + rat" where
  "py_float L v =
     (case v of PInt i \<Rightarrow> Inr (of_int i) | PFloat x \<Rightarrow> Inr x | PBool b \<Rightarrow> Inr (if b then 1 else 0)
      | PStr s \<Rightarrow> (case pl_float L s of Some x \<Rightarrow> Inr x | None \<Rightarrow> Inl (PyExc ''ValueError''))
      | _ \<Rightarrow> Inl (PyExc ''TypeError''))"

definition text_or :: "string option \<Rightarrow> string \<Rightarrow> string" where
  "text_or t d = (case t of None \<Rightarrow> d | Some s \<Rightarrow> if s = [] then d else s)"

section \<open>Vosk\<close>

text \<open>\<open>vk_model\<close>: a path is set and exists. \<open>vl_load\<close>: what loading the model raises.\<close>

record vosk =
  vk_installed :: bool
  vk_model :: bool
  vk_loaded :: bool

record vosk_lib =
  vl_load :: "string option"
  vl_recognise :: "int \<Rightarrow> bytes \<Rightarrow> string + string"
  vl_latency :: rat

definition vosk_available :: "vosk \<Rightarrow> bool" where
  "vosk_available v = (vk_installed v \<and> vk_model v)"

definition vosk_ensure_loaded :: "vosk_lib \<Rightarrow> vosk \<Rightarrow> stt_failure + vosk" where
  "vosk_ensure_loaded V v =
     (if vk_loaded v then Inr v
      else if \<not> vosk_available v then Inl (SttUnavailable ''Vosk provider unavailable'')
      else case vl_load V of Some _ \<Rightarrow> Inl (SttError ''Failed to load Vosk model'') | None \<Rightarrow> Inr (v\<lparr>vk_loaded := True\<rparr>))"

definition vosk_word :: "py_lib \<Rightarrow> pyval \<Rightarrow> 'e exc + transcript_segment" where
  "vosk_word L w =
     bind_res (py_get w ''conf'' (PFloat 1)) (\<lambda>c0. bind_res (py_float L c0) (\<lambda>c.
     bind_res (py_get w ''word'' (PStr [])) (\<lambda>t.
     bind_res (py_get w ''start'' (PFloat 0)) (\<lambda>a0. bind_res (py_float L a0) (\<lambda>a.
     bind_res (py_get w ''end'' (PFloat 0)) (\<lambda>b0. bind_res (py_float L b0) (\<lambda>b.
       case t of PStr s \<Rightarrow> mk_segment s a b c None | _ \<Rightarrow> Inl (PyExc ''ValidationError''))))))))"

text \<open>The part of the answer under \<open>text\<close> is \<open>t\<close>.\<close>

definition vosk_result :: "py_lib \<Rightarrow> rat \<Rightarrow> pyval \<Rightarrow> pyval \<Rightarrow> 'e exc + stt_result" where
  "vosk_result L latency parsed t =
     (case t of
        PStr s \<Rightarrow>
          bind_res (py_get parsed ''result'' (PList [])) (\<lambda>ws. bind_res (py_iter ws) (\<lambda>words.
          bind_res (map_res (vosk_word L) words) (\<lambda>segs.
            let conf = (if words = [] then (if strip s = [] then 0 else 9 / 10)
                        else sum_list (map ts_confidence segs) / of_nat (length words))
            in mk_stt_result (strip s) segs ''en'' conf ''vosk'' latency)))
      | _ \<Rightarrow> Inl (PyExc ''AttributeError''))"

definition vosk_parse :: "py_lib \<Rightarrow> rat \<Rightarrow> string \<Rightarrow> 'e exc + stt_result" where
  "vosk_parse L latency raw =
     (case pl_loads L raw of
        None \<Rightarrow> Inl (PyExc ''JSONDecodeError'')
      | Some parsed \<Rightarrow> bind_res (py_get parsed ''text'' (PStr [])) (vosk_result L latency parsed))"

definition vosk_transcribe :: "py_lib \<Rightarrow> vosk_lib \<Rightarrow> stt_request \<Rightarrow> vosk \<Rightarrow> vosk \<times> stt_answer" where
  "vosk_transcribe L V q v =
     (case vosk_ensure_loaded V v of
        Inl e \<Rightarrow> (v, Inl e)
      | Inr v1 \<Rightarrow>
          (v1, case vl_recognise V (af_sample_rate (sq_audio_format q)) (sq_audio_bytes q) of
                 Inl _ \<Rightarrow> Inl (SttError ''Vosk recognition failed'')
               | Inr raw \<Rightarrow>
                   (case (vosk_parse L (vl_latency V) raw :: unit exc + stt_result) of
                      Inl _ \<Rightarrow> Inl (SttError ''Vosk recognition failed'')
                    | Inr r \<Rightarrow> Inr r)))"

section \<open>Faster-Whisper\<close>

text \<open>The engine gives its segments, each perhaps with a mean log probability, and the language it detected.\<close>

record whisper_segment =
  ws_text :: string
  ws_start :: rat
  ws_end :: rat
  ws_logprob :: "rat option"

record whisper =
  wh_installed :: bool
  wh_loaded :: bool

record whisper_lib =
  wl_load :: "string option"
  wl_transcribe :: "bytes \<Rightarrow> string option \<Rightarrow> string option \<Rightarrow> string + whisper_segment list \<times> string option"
  wl_latency :: rat

definition whisper_available :: "whisper \<Rightarrow> bool" where
  "whisper_available w = wh_installed w"

definition whisper_ensure_loaded :: "whisper_lib \<Rightarrow> whisper \<Rightarrow> stt_failure + whisper" where
  "whisper_ensure_loaded W w =
     (if wh_loaded w then Inr w
      else if \<not> whisper_available w then Inl (SttUnavailable ''Faster-Whisper provider unavailable'')
      else case wl_load W of Some _ \<Rightarrow> Inl (SttError ''Failed to load Faster-Whisper model'') | None \<Rightarrow> Inr (w\<lparr>wh_loaded := True\<rparr>))"

definition logprob_confidence :: "rat option \<Rightarrow> rat" where
  "logprob_confidence p = max (1 / 10) (min 1 (1 + (case p of Some x \<Rightarrow> x | None \<Rightarrow> - 1 / 5) / 3))"

definition whisper_segment_of :: "string option \<Rightarrow> whisper_segment \<Rightarrow> 'e exc + transcript_segment" where
  "whisper_segment_of lang s = mk_segment (strip (ws_text s)) (ws_start s) (ws_end s) (logprob_confidence (ws_logprob s)) lang"

definition whisper_result :: "rat \<Rightarrow> whisper_segment list \<times> string option \<Rightarrow> 'e exc + stt_result" where
  "whisper_result latency r =
     bind_res (map_res (whisper_segment_of (snd r)) (fst r)) (\<lambda>segs.
       let conf = (if segs = [] then 8 / 10 else sum_list (map ts_confidence segs) / of_nat (length segs))
       in mk_stt_result (strip (join '' '' (map (\<lambda>s. strip (ws_text s)) (fst r)))) segs (text_or (snd r) ''en'') conf ''whisper'' latency)"

definition whisper_audio :: "stt_request \<Rightarrow> bytes option" where
  "whisper_audio q = (if af_encoding (sq_audio_format q) = WAV then Some (sq_audio_bytes q)
                      else pcm_to_wav (sq_audio_format q) (sq_audio_bytes q))"

definition whisper_transcribe :: "whisper_lib \<Rightarrow> stt_request \<Rightarrow> whisper \<Rightarrow> whisper \<times> stt_answer" where
  "whisper_transcribe W q w =
     (case whisper_ensure_loaded W w of
        Inl e \<Rightarrow> (w, Inl e)
      | Inr w1 \<Rightarrow>
          (w1, case whisper_audio q of
                 None \<Rightarrow> Inl (SttError ''Faster-Whisper transcription failed'')
               | Some wav \<Rightarrow>
                   (case wl_transcribe W wav (sq_language q) (sq_prompt q) of
                      Inl _ \<Rightarrow> Inl (SttError ''Faster-Whisper transcription failed'')
                    | Inr r \<Rightarrow>
                        (case (whisper_result (wl_latency W) r :: unit exc + stt_result) of
                           Inl _ \<Rightarrow> Inl (SttError ''Faster-Whisper transcription failed'')
                         | Inr res \<Rightarrow> Inr res))))"

section \<open>The scripted engine\<close>

record mock_stt =
  ms_text :: string
  ms_confidence :: rat
  ms_language :: string
  ms_name :: string
  ms_available :: bool
  ms_script :: "stt_result list"
  ms_error :: "string option"
  ms_count :: nat

definition mock_stt_init :: "string \<Rightarrow> rat \<Rightarrow> string \<Rightarrow> string \<Rightarrow> mock_stt" where
  "mock_stt_init t c lang name = \<lparr>ms_text = t, ms_confidence = c, ms_language = lang, ms_name = name, ms_available = True,
     ms_script = [], ms_error = None, ms_count = 0\<rparr>"

definition mock_stt_set_available :: "bool \<Rightarrow> mock_stt \<Rightarrow> mock_stt" where
  "mock_stt_set_available b m = m\<lparr>ms_available := b\<rparr>"

definition mock_stt_set_error :: "string option \<Rightarrow> mock_stt \<Rightarrow> mock_stt" where
  "mock_stt_set_error e m = m\<lparr>ms_error := e\<rparr>"

definition script_result :: "stt_result \<Rightarrow> mock_stt \<Rightarrow> mock_stt" where
  "script_result r m = m\<lparr>ms_script := ms_script m @ [r]\<rparr>"

definition mock_stt_result :: "mock_stt \<Rightarrow> stt_request \<Rightarrow> 'e exc + stt_result" where
  "mock_stt_result m q =
     (let bps = bytes_per_second (sq_audio_format q);
          duration = (if 0 < bps then of_nat (length (sq_audio_bytes q)) / of_int bps else 1);
          lang = text_or (sq_language q) (ms_language m)
      in bind_res (mk_segment (ms_text m) 0 duration (ms_confidence m) (Some lang)) (\<lambda>seg.
           mk_stt_result (ms_text m) [seg] lang (ms_confidence m) (ms_name m) 10))"

definition mock_stt_transcribe :: "stt_request \<Rightarrow> mock_stt \<Rightarrow> mock_stt \<times> stt_answer" where
  "mock_stt_transcribe q m =
     (let m1 = m\<lparr>ms_count := Suc (ms_count m)\<rparr>
      in case ms_error m of
           Some e \<Rightarrow> (m1, Inl (SttOther e))
         | None \<Rightarrow>
             (case ms_script m of
                r # rs \<Rightarrow> (m1\<lparr>ms_script := rs\<rparr>, Inr r)
              | [] \<Rightarrow> (m1, case (mock_stt_result m q :: unit exc + stt_result) of
                             Inl _ \<Rightarrow> Inl (SttOther ''ValidationError'') | Inr r \<Rightarrow> Inr r)))"

section \<open>What the engines promise\<close>

lemma mk_segment_Inr: "mk_segment t a b c lang = Inr s \<Longrightarrow> 0 \<le> ts_confidence s \<and> ts_confidence s \<le> 1 \<and> ts_confidence s = c"
  by (auto simp: mk_segment_def split: if_splits)

lemma mk_stt_result_Inr: "mk_stt_result t segs lang c pr l = Inr r \<longleftrightarrow>
    0 \<le> c \<and> c \<le> 1 \<and> 0 \<le> l \<and> r = \<lparr>st_text = t, st_segments = segs, st_language = lang, st_confidence = c, st_is_final = True,
      st_provider = pr, st_latency_ms = l\<rparr>"
  by (auto simp: mk_stt_result_def)

lemma mk_stt_result_D: "mk_stt_result t segs lang c pr l = Inr r \<Longrightarrow>
    st_provider r = pr \<and> st_is_final r \<and> st_segments r = segs \<and> st_confidence r = c \<and> 0 \<le> st_confidence r \<and> st_confidence r \<le> 1"
  by (simp add: mk_stt_result_Inr)

lemma mean_bounds:
  fixes xs :: "rat list"
  assumes "\<And>x. x \<in> set xs \<Longrightarrow> a \<le> x \<and> x \<le> b" and "xs \<noteq> []"
  shows "a \<le> sum_list xs / of_nat (length xs)" and "sum_list xs / of_nat (length xs) \<le> b"
proof -
  have "of_nat (length xs) * a \<le> sum_list xs \<and> sum_list xs \<le> of_nat (length xs) * b"
    using assms(1) by (induction xs) (auto simp: algebra_simps add_mono)
  then show "a \<le> sum_list xs / of_nat (length xs)" and "sum_list xs / of_nat (length xs) \<le> b"
    using assms(2) by (simp_all add: field_simps)
qed

lemma whisper_segments:
  assumes "map_res (whisper_segment_of lang) ss = (Inr segs :: 'e exc + transcript_segment list)"
  shows "length segs = length ss \<and> (\<forall>c \<in> set (map ts_confidence segs). 1 / 10 \<le> c \<and> c \<le> 1)"
proof -
  have "1 / 10 \<le> ts_confidence s \<and> ts_confidence s \<le> 1"
    if "whisper_segment_of lang x = (Inr s :: 'e exc + transcript_segment)" for x s
    using mk_segment_Inr [OF that [unfolded whisper_segment_of_def]] by (auto simp: logprob_confidence_def)
  then show ?thesis using map_res_Inr [OF assms] by fastforce
qed

text \<open>The mean of the confidences passes the constraint of the result: it can fail only on the segments.\<close>

lemma whisper_result_fails:
  assumes "0 \<le> latency"
  shows "(\<exists>r. whisper_result latency (ss, lang) = (Inr r :: 'e exc + stt_result)) \<longleftrightarrow>
    (\<exists>segs. map_res (whisper_segment_of lang) ss = (Inr segs :: 'e exc + transcript_segment list))"
proof
  assume "\<exists>segs. map_res (whisper_segment_of lang) ss = (Inr segs :: 'e exc + transcript_segment list)"
  then obtain segs where segs: "map_res (whisper_segment_of lang) ss = (Inr segs :: 'e exc + transcript_segment list)" by blast
  let ?c = "if segs = [] then 8 / 10 else sum_list (map ts_confidence segs) / of_nat (length segs)"
  have "1 / 10 \<le> ?c \<and> ?c \<le> 1"
    using mean_bounds [of "map ts_confidence segs" "1 / 10" 1] whisper_segments [OF segs] by auto
  then show "\<exists>r. whisper_result latency (ss, lang) = (Inr r :: 'e exc + stt_result)"
    using assms by (simp add: whisper_result_def segs Let_def mk_stt_result_Inr)
qed (auto simp: whisper_result_def bind_res_Inr)

lemma whisper_result_Inr:
  assumes "whisper_result latency r = (Inr res :: 'e exc + stt_result)"
  shows "st_provider res = ''whisper'' \<and> st_is_final res \<and> 1 / 10 \<le> st_confidence res \<and> st_confidence res \<le> 1 \<and>
    length (st_segments res) = length (fst r)"
proof -
  from assms have "\<exists>segs. map_res (whisper_segment_of (snd r)) (fst r) = (Inr segs :: 'e exc + transcript_segment list) \<and>
      mk_stt_result (strip (join '' '' (map (\<lambda>s. strip (ws_text s)) (fst r)))) segs (text_or (snd r) ''en'')
       (if segs = [] then 8 / 10 else sum_list (map ts_confidence segs) / of_nat (length segs)) ''whisper'' latency = (Inr res :: 'e exc + stt_result)"
    by (simp only: whisper_result_def bind_res_Inr Let_def)
  then obtain segs where segs: "map_res (whisper_segment_of (snd r)) (fst r) = (Inr segs :: 'e exc + transcript_segment list)"
    "mk_stt_result (strip (join '' '' (map (\<lambda>s. strip (ws_text s)) (fst r)))) segs (text_or (snd r) ''en'')
       (if segs = [] then 8 / 10 else sum_list (map ts_confidence segs) / of_nat (length segs)) ''whisper'' latency = (Inr res :: 'e exc + stt_result)"
    by blast
  show ?thesis
    using mk_stt_result_D [OF segs(2)] whisper_segments [OF segs(1)] mean_bounds [of "map ts_confidence segs" "1 / 10" 1]
    by auto
qed

lemma vosk_result_Inr:
  fixes res :: stt_result
  assumes "vosk_result L latency parsed t = (Inr res :: 'e exc + stt_result)"
  shows "st_provider res = ''vosk'' \<and> st_is_final res \<and> 0 \<le> st_confidence res \<and> st_confidence res \<le> 1"
  using assms
proof (cases t)
  case (PStr s)
  with assms have "\<exists>segs c. mk_stt_result (strip s) segs ''en'' c ''vosk'' latency = (Inr res :: 'e exc + stt_result)"
    by (simp only: vosk_result_def pyval.case Let_def bind_res_Inr) blast
  then show ?thesis by (auto dest: mk_stt_result_D)
qed (simp_all add: vosk_result_def)

lemma vosk_parse_Inr:
  assumes "vosk_parse L latency raw = (Inr res :: 'e exc + stt_result)"
  shows "st_provider res = ''vosk'' \<and> st_is_final res \<and> 0 \<le> st_confidence res \<and> st_confidence res \<le> 1"
proof -
  have "\<exists>parsed t. vosk_result L latency parsed t = (Inr res :: 'e exc + stt_result)"
    using assms by (auto simp: vosk_parse_def bind_res_Inr split: option.splits)
  then show ?thesis using vosk_result_Inr by blast
qed

text \<open>
  What the recognition engines answer. Whatever the packages compute, an answer of Vosk or Faster-Whisper that is
  not an error names its engine, is final and has a confidence between 0 and 1, for Whisper at least one tenth;
  an engine that is neither loaded nor available answers with the unavailability error and stays as it is.
\<close>

theorem engine_answers_labelled:
  "(case vosk_transcribe L V q v of
      (v', Inr r) \<Rightarrow> (vosk_available v \<or> vk_loaded v) \<and> vk_loaded v' \<and> st_provider r = ''vosk'' \<and> st_is_final r
        \<and> 0 \<le> st_confidence r \<and> st_confidence r \<le> 1
    | (v', Inl e) \<Rightarrow> (if vk_loaded v \<or> vosk_available v then \<exists>m. e = SttError m
                     else v' = v \<and> e = SttUnavailable ''Vosk provider unavailable'')) \<and>
   (case whisper_transcribe W q w of
      (w', Inr r) \<Rightarrow> (whisper_available w \<or> wh_loaded w) \<and> wh_loaded w' \<and> st_provider r = ''whisper'' \<and> st_is_final r
        \<and> 1 / 10 \<le> st_confidence r \<and> st_confidence r \<le> 1
    | (w', Inl e) \<Rightarrow> (if wh_loaded w \<or> whisper_available w then \<exists>m. e = SttError m
                     else w' = w \<and> e = SttUnavailable ''Faster-Whisper provider unavailable''))"
  by (auto simp: vosk_transcribe_def vosk_ensure_loaded_def whisper_transcribe_def whisper_ensure_loaded_def
      split: option.splits sum.splits dest: vosk_parse_Inr whisper_result_Inr)

text \<open>A scripted engine plays its script in order.\<close>

fun mock_stt_answers :: "stt_request list \<Rightarrow> mock_stt \<Rightarrow> stt_answer list" where
  "mock_stt_answers [] m = []"
| "mock_stt_answers (q # qs) m = (case mock_stt_transcribe q m of (m1, a) \<Rightarrow> a # mock_stt_answers qs m1)"

lemma mock_stt_script:
  "ms_error m = None \<Longrightarrow> length qs \<le> length (ms_script m) \<Longrightarrow> mock_stt_answers qs m = map Inr (take (length qs) (ms_script m))"
proof (induction qs arbitrary: m)
  case (Cons q qs)
  then show ?case by (cases "ms_script m") (auto simp: mock_stt_transcribe_def Let_def)
qed simp

lemma mock_stt_fresh:
  assumes "ms_error m = None" and "ms_script m = []" and "0 \<le> ms_confidence m" and "ms_confidence m \<le> 1"
  shows "\<exists>r. mock_stt_transcribe q m = (m\<lparr>ms_count := Suc (ms_count m)\<rparr>, Inr r) \<and> st_text r = ms_text m \<and>
    st_provider r = ms_name m \<and> st_confidence r = ms_confidence m"
proof -
  have "\<not> (if 0 < b then of_nat n / of_int b else 1) < (0 :: rat)" for n :: nat and b :: int
    by (simp add: divide_less_0_iff not_less)
  then show ?thesis
    using assms by (simp add: mock_stt_transcribe_def mock_stt_result_def mk_segment_def mk_stt_result_def Let_def)
qed

end
