(* ===== verification/Voice_Tts.thy ===== *)
theory Voice_Tts
  imports Voice_Session Voice_Wav
begin

text \<open>
  Speech synthesis behind the pipeline (\<open>voice/tts/kokoro.py\<close>, \<open>mock.py\<close>): availability, loading, the conversion
  of samples to PCM, the split into sentences and the stream of chunks. The package's model is a parameter. Shown:
  the sentences lose nothing but spaces and hold no place where the text had to be cut, and the chunks of a stream
  are the numbered audio of the sentences.
\<close>

datatype tts_failure = TtsUnavailable string | TtsError string | TtsOther string

type_synonym tts_answer = "tts_failure + tts_result"

section \<open>Sentences\<close>

text \<open>\<open>re.split(r"(?<=[.?!;:\n])\s+", s)\<close>: a run of spaces is cut out where the character before it ends a sentence;
  \<open>prev\<close> is the character before, \<open>acc\<close> the piece so far.\<close>

definition sentence_end :: "char \<Rightarrow> bool" where
  "sentence_end c = (c \<in> {CHR ''.'', CHR ''?'', CHR ''!'', CHR '';'', CHR '':'', CHR 0x0A})"

function split_pieces :: "char option \<Rightarrow> string \<Rightarrow> string \<Rightarrow> string list" where
  "split_pieces prev acc [] = [acc]"
| "split_pieces prev acc (c # cs) =
     (if is_space c \<and> (case prev of Some p \<Rightarrow> sentence_end p | None \<Rightarrow> False)
      then acc # split_pieces None [] (dropWhile is_space cs)
      else split_pieces (Some c) (acc @ [c]) cs)"
  by pat_completeness auto
termination
  by (relation "measure (\<lambda>(prev, acc, s). length s)") (auto simp: le_imp_less_Suc length_dropWhile_le)

text \<open>\<open>_split_into_sentences\<close> of the two providers.\<close>

definition kokoro_sentences :: "string \<Rightarrow> string list" where
  "kokoro_sentences s = filter (\<lambda>p. p \<noteq> []) (map strip (split_pieces None [] (strip s)))"

definition mock_sentences :: "string \<Rightarrow> string list" where
  "mock_sentences s = (if kokoro_sentences s = [] then [strip s] else kokoro_sentences s)"

section \<open>Kokoro\<close>

text \<open>What \<open>create\<close> gives for a text, a voice and a speed: the samples and their rate, or an exception.\<close>

record kokoro =
  kk_installed :: bool
  kk_model :: bool
  kk_loaded :: bool
  kk_default_voice :: string
  kk_default_speed :: rat

record kokoro_lib =
  kl_load :: "string option"
  kl_create :: "string \<Rightarrow> string \<Rightarrow> rat \<Rightarrow> string + rat list \<times> int"

definition kokoro_available :: "kokoro \<Rightarrow> bool" where
  "kokoro_available k = (kk_installed k \<and> kk_model k)"

definition kokoro_ensure_loaded :: "kokoro_lib \<Rightarrow> kokoro \<Rightarrow> tts_failure + kokoro" where
  "kokoro_ensure_loaded K k =
     (if kk_loaded k then Inr k
      else if \<not> kokoro_available k then Inl (TtsUnavailable ''Kokoro ONNX provider unavailable'')
      else case kl_load K of Some _ \<Rightarrow> Inl (TtsError ''Failed to load Kokoro ONNX model'') | None \<Rightarrow> Inr (k\<lparr>kk_loaded := True\<rparr>))"

definition sample_of_float :: "rat \<Rightarrow> int" where
  "sample_of_float x = py_trunc (max (- 32768) (min 32767 (x * 32767)))"

definition pcm_of_samples :: "rat list \<Rightarrow> bytes" where
  "pcm_of_samples xs = concat (map (\<lambda>x. sample_bytes (sample_of_float x)) xs)"

definition kokoro_result :: "rat list \<Rightarrow> int \<Rightarrow> tts_result" where
  "kokoro_result xs rate =
     (let pcm = pcm_of_samples xs;
          f = \<lparr>af_sample_rate = rate, af_channels = 1, af_sample_width = 2, af_encoding = PCM_S16LE\<rparr>
      in \<lparr>tt_audio_bytes = pcm, tt_audio_format = f,
          tt_duration_sec = (if 0 < bytes_per_second f then of_nat (length pcm) / of_int (bytes_per_second f) else 0),
          tt_provider = ''kokoro''\<rparr>)"

definition kokoro_synthesize :: "kokoro_lib \<Rightarrow> tts_request \<Rightarrow> kokoro \<Rightarrow> kokoro \<times> tts_answer" where
  "kokoro_synthesize K q k =
     (case kokoro_ensure_loaded K k of
        Inl e \<Rightarrow> (k, Inl e)
      | Inr k1 \<Rightarrow>
          (k1, case kl_create K (tq_text q) (if tq_voice q = [] then kk_default_voice k else tq_voice q)
                      (if tq_speed q = 0 then kk_default_speed k else tq_speed q) of
                 Inl _ \<Rightarrow> Inl (TtsError ''Kokoro synthesis failed'')
               | Inr (xs, rate) \<Rightarrow> Inr (kokoro_result xs rate)))"

text \<open>The stream: the chunks it yields, and the exception that ends it, if any.\<close>

definition chunk_of_result :: "nat \<Rightarrow> tts_result \<Rightarrow> audio_chunk" where
  "chunk_of_result n r = \<lparr>ac_data = tt_audio_bytes r, ac_sequence = n, ac_duration_sec = tt_duration_sec r, ac_is_speech = False\<rparr>"

fun kokoro_chunks ::
  "kokoro_lib \<Rightarrow> tts_request \<Rightarrow> nat \<Rightarrow> string list \<Rightarrow> kokoro \<Rightarrow> kokoro \<times> audio_chunk list \<times> tts_failure option" where
  "kokoro_chunks K q n [] k = (k, [], None)"
| "kokoro_chunks K q n (s # ss) k =
     (case kokoro_synthesize K (q\<lparr>tq_text := s\<rparr>) k of
        (k1, Inl e) \<Rightarrow> (k1, [], Some e)
      | (k1, Inr r) \<Rightarrow>
          (case kokoro_chunks K q (Suc n) ss k1 of (k2, cs, e) \<Rightarrow> (k2, chunk_of_result n r # cs, e)))"

definition kokoro_stream :: "kokoro_lib \<Rightarrow> tts_request \<Rightarrow> kokoro \<Rightarrow> kokoro \<times> audio_chunk list \<times> tts_failure option" where
  "kokoro_stream K q k = kokoro_chunks K q 0 (kokoro_sentences (tq_text q)) k"

section \<open>The scripted engine\<close>

record mock_tts =
  mt_voice :: string
  mt_name :: string
  mt_per_char :: rat
  mt_available :: bool
  mt_error :: "string option"
  mt_count :: nat

definition mock_tts_init :: "string \<Rightarrow> string \<Rightarrow> rat \<Rightarrow> mock_tts" where
  "mock_tts_init voice name per_char = \<lparr>mt_voice = voice, mt_name = name, mt_per_char = per_char, mt_available = True,
     mt_error = None, mt_count = 0\<rparr>"

definition mock_tts_set_available :: "bool \<Rightarrow> mock_tts \<Rightarrow> mock_tts" where
  "mock_tts_set_available b m = m\<lparr>mt_available := b\<rparr>"

definition mock_tts_set_error :: "string option \<Rightarrow> mock_tts \<Rightarrow> mock_tts" where
  "mock_tts_set_error e m = m\<lparr>mt_error := e\<rparr>"

definition mock_tone :: "(rat \<Rightarrow> nat \<Rightarrow> int \<Rightarrow> rat) \<Rightarrow> rat \<Rightarrow> mock_tts \<Rightarrow> tts_request \<Rightarrow> string \<Rightarrow> rat \<times> bytes option" where
  "mock_tone sine shortest m q s =
     (let d = max shortest (of_nat (length s) * mt_per_char m / max (1 / 4) (tq_speed q))
      in (d, generate_sine_wave sine 440 d (af_sample_rate (tq_audio_format q)) (3 / 10)))"

definition mock_tts_synthesize :: "(rat \<Rightarrow> nat \<Rightarrow> int \<Rightarrow> rat) \<Rightarrow> tts_request \<Rightarrow> mock_tts \<Rightarrow> mock_tts \<times> tts_answer" where
  "mock_tts_synthesize sine q m =
     (let m1 = m\<lparr>mt_count := Suc (mt_count m)\<rparr>
      in case mt_error m of
           Some e \<Rightarrow> (m1, Inl (TtsOther e))
         | None \<Rightarrow>
             (case mock_tone sine (1 / 5) m q (tq_text q) of
                (_, None) \<Rightarrow> (m1, Inl (TtsOther ''struct.error''))
              | (d, Some pcm) \<Rightarrow> (m1, Inr \<lparr>tt_audio_bytes = pcm, tt_audio_format = tq_audio_format q, tt_duration_sec = d,
                                          tt_provider = mt_name m\<rparr>)))"

fun mock_tts_chunks ::
  "(rat \<Rightarrow> nat \<Rightarrow> int \<Rightarrow> rat) \<Rightarrow> mock_tts \<Rightarrow> tts_request \<Rightarrow> nat \<Rightarrow> string list \<Rightarrow> audio_chunk list \<times> tts_failure option" where
  "mock_tts_chunks sine m q n [] = ([], None)"
| "mock_tts_chunks sine m q n (s # ss) =
     (case mock_tone sine (1 / 10) m q s of
        (_, None) \<Rightarrow> ([], Some (TtsOther ''struct.error''))
      | (d, Some pcm) \<Rightarrow>
          (case mock_tts_chunks sine m q (Suc n) ss of
             (cs, e) \<Rightarrow> (\<lparr>ac_data = pcm, ac_sequence = n, ac_duration_sec = d, ac_is_speech = False\<rparr> # cs, e)))"

definition mock_tts_stream :: "(rat \<Rightarrow> nat \<Rightarrow> int \<Rightarrow> rat) \<Rightarrow> tts_request \<Rightarrow> mock_tts \<Rightarrow> audio_chunk list \<times> tts_failure option" where
  "mock_tts_stream sine q m =
     (case mt_error m of
        Some e \<Rightarrow> ([], Some (TtsOther e))
      | None \<Rightarrow> mock_tts_chunks sine m q 0 (mock_sentences (tq_text q)))"

section \<open>The sentences\<close>

definition visible :: "string \<Rightarrow> string" where
  "visible s = filter (\<lambda>c. \<not> is_space c) s"

lemma visible_append [simp]: "visible (s @ t) = visible s @ visible t"
  by (simp add: visible_def)

lemma visible_dropWhile [simp]: "visible (dropWhile is_space s) = visible s"
  by (induction s) (auto simp: visible_def)

lemmas filter_dropWhile_space = visible_dropWhile [unfolded visible_def]

lemma visible_rev: "visible (rev s) = rev (visible s)"
  by (simp add: visible_def rev_filter)

lemma visible_strip [simp]: "visible (strip s) = visible s"
  by (simp add: strip_def lstrip_def rstrip_def visible_rev)

lemma visible_pieces: "concat (map visible (split_pieces prev acc s)) = visible acc @ visible s"
proof (induction prev acc s rule: split_pieces.induct)
  case (2 prev acc c cs)
  then show ?case by (cases "is_space c \<and> (case prev of Some p \<Rightarrow> sentence_end p | None \<Rightarrow> False)")
    (auto simp: visible_def filter_dropWhile_space)
qed (simp add: visible_def)

lemma concat_visible_filter: "concat (map visible (filter (\<lambda>p. p \<noteq> []) ps)) = concat (map visible ps)"
  by (induction ps) (auto simp: visible_def)

lemma visible_sentences: "concat (map visible (kokoro_sentences s)) = visible s"
proof -
  have "map visible (map strip ps) = map visible ps" for ps by simp
  then show ?thesis by (simp only: kokoro_sentences_def concat_visible_filter visible_pieces visible_strip) (simp add: visible_def)
qed

text \<open>A place where the text has to be cut.\<close>

fun has_cut :: "string \<Rightarrow> bool" where
  "has_cut (c # d # s) = (sentence_end c \<and> is_space d \<or> has_cut (d # s))"
| "has_cut _ = False"

lemma has_cut_snoc: "has_cut (s @ [c, d]) \<longleftrightarrow> has_cut (s @ [c]) \<or> sentence_end c \<and> is_space d"
  by (induction s rule: has_cut.induct) auto

lemma has_cut_infix: "\<not> has_cut (u @ s @ v) \<Longrightarrow> \<not> has_cut s"
proof (induction u)
  case Nil
  then show ?case by (induction s rule: has_cut.induct) auto
next
  case (Cons c u)
  then show ?case by (cases "u @ s @ v") auto
qed

lemma strip_infix: "\<exists>u v. s = u @ strip s @ v"
proof -
  let ?l = "dropWhile is_space s"
  have "rev ?l = takeWhile is_space (rev ?l) @ dropWhile is_space (rev ?l)" by simp
  then have "?l = rev (dropWhile is_space (rev ?l)) @ rev (takeWhile is_space (rev ?l))" by (metis rev_append rev_rev_ident)
  then have "s = takeWhile is_space s @ strip s @ rev (takeWhile is_space (rev ?l))"
    by (metis lstrip_def rstrip_def strip_def takeWhile_dropWhile_id)
  then show ?thesis by blast
qed

lemma pieces_uncut:
  assumes "\<not> has_cut acc" and "prev = (if acc = [] then None else Some (last acc))" and "p \<in> set (split_pieces prev acc s)"
  shows "\<not> has_cut p"
  using assms
proof (induction prev acc s rule: split_pieces.induct)
  case (2 prev acc c cs)
  let ?cut = "is_space c \<and> (case prev of Some p \<Rightarrow> sentence_end p | None \<Rightarrow> False)"
  show ?case
  proof (cases ?cut)
    case True
    with 2 show ?thesis by auto
  next
    case False
    have "\<not> has_cut (acc @ [c])"
    proof (cases acc rule: rev_cases)
      case (snoc ys y)
      then show ?thesis using 2(3,4) False by (auto simp: has_cut_snoc)
    qed simp
    with 2 False show ?thesis by auto
  qed
qed auto

lemma sentences_uncut: "s \<in> set (kokoro_sentences t) \<Longrightarrow> s \<noteq> [] \<and> strip s = s \<and> \<not> has_cut s"
proof -
  assume "s \<in> set (kokoro_sentences t)"
  then obtain p where p: "p \<in> set (split_pieces None [] (strip t))" "s = strip p" "s \<noteq> []"
    by (auto simp: kokoro_sentences_def)
  have "\<not> has_cut p" using pieces_uncut [OF _ _ p(1)] by simp
  then show ?thesis using p strip_infix [of p] has_cut_infix by (metis strip_idem)
qed

lemma kokoro_chunks_all:
  assumes "kokoro_chunks K q n ss k = (k', cs, None)"
  shows "map ac_sequence cs = [n..<n + length ss] \<and>
    list_all2 (\<lambda>s c. \<exists>k1 k2 r. kokoro_synthesize K (q\<lparr>tq_text := s\<rparr>) k1 = (k2, Inr r) \<and> ac_data c = tt_audio_bytes r) ss cs"
  using assms
proof (induction ss arbitrary: n k cs)
  case (Cons s ss)
  then obtain k1 r cs' where step: "kokoro_synthesize K (q\<lparr>tq_text := s\<rparr>) k = (k1, Inr r)"
    "kokoro_chunks K q (Suc n) ss k1 = (k', cs', None)" "cs = chunk_of_result n r # cs'"
    by (auto split: prod.splits sum.splits)
  have "[n..<n + length (s # ss)] = n # [Suc n..<Suc n + length ss]" by (simp add: upt_conv_Cons del: upt_Suc)
  with Cons.IH [OF step(2)] step(1) show ?case by (auto simp: step(3) chunk_of_result_def simp del: upt_Suc)
qed simp

text \<open>
  Streaming. A stream of Kokoro that ends without an exception has one chunk per sentence, numbered from 0, each the
  audio of its sentence; the sentences together have the characters of the text but for spaces, and none of them is
  empty, has spaces around it or could be cut further.
\<close>

theorem stream_covers_text:
  assumes "kokoro_stream K q k = (k', cs, None)"
  shows "\<exists>ss. map ac_sequence cs = [0..<length ss] \<and> concat (map visible ss) = visible (tq_text q) \<and>
    list_all (\<lambda>s. s \<noteq> [] \<and> strip s = s \<and> \<not> has_cut s) ss \<and>
    list_all2 (\<lambda>s c. \<exists>k1 k2 r. kokoro_synthesize K (q\<lparr>tq_text := s\<rparr>) k1 = (k2, Inr r) \<and> ac_data c = tt_audio_bytes r) ss cs"
  using kokoro_chunks_all [OF assms [unfolded kokoro_stream_def]] visible_sentences sentences_uncut
  by (intro exI [of _ "kokoro_sentences (tq_text q)"]) (auto simp: list_all_iff)

definition demo_kokoro :: kokoro where
  "demo_kokoro = \<lparr>kk_installed = True, kk_model = True, kk_loaded = False, kk_default_voice = ''af_heart'', kk_default_speed = 1\<rparr>"

definition demo_kokoro_lib :: kokoro_lib where
  "demo_kokoro_lib = \<lparr>kl_load = None, kl_create = (\<lambda>s v r. Inr (map (\<lambda>_. 1 / 2) s, 24000))\<rparr>"

definition demo_tts_request :: tts_request where
  "demo_tts_request = \<lparr>tq_text = '' Hi. Go on! '', tq_voice = [], tq_speed = 1, tq_audio_format = default_format\<rparr>"

theorem stream_covers_text_witness:
  "length (fst (snd (kokoro_stream demo_kokoro_lib demo_tts_request demo_kokoro))) = 2 \<and>
   (\<exists>ss. map ac_sequence (fst (snd (kokoro_stream demo_kokoro_lib demo_tts_request demo_kokoro))) = [0..<length ss] \<and>
     concat (map visible ss) = ''Hi.Goon!'')"
proof -
  let ?s = "kokoro_stream demo_kokoro_lib demo_tts_request demo_kokoro"
  have e: "snd (snd ?s) = None" "length (fst (snd ?s)) = 2" "visible (tq_text demo_tts_request) = ''Hi.Goon!''" by code_simp+
  then have "?s = (fst ?s, fst (snd ?s), None)" by (metis prod.collapse)
  from stream_covers_text [OF this] show ?thesis using e by auto
qed

text \<open>Samples fit in 16 bits, so that packing them does not raise.\<close>

lemma py_trunc_bounds: "of_int a \<le> x \<Longrightarrow> x \<le> of_int b \<Longrightarrow> a \<le> py_trunc x \<and> py_trunc x \<le> b"
  by (auto simp: py_trunc_def le_floor_iff floor_le_iff le_ceiling_iff ceiling_le_iff)

lemma sample_range: "- 32768 \<le> sample_of_float x \<and> sample_of_float x \<le> 32767"
  unfolding sample_of_float_def using py_trunc_bounds [of "- 32768" "max (- 32768) (min 32767 (x * 32767))" 32767] by simp

lemma length_pcm: "length (pcm_of_samples xs) = 2 * length xs"
  by (induction xs) (simp_all add: pcm_of_samples_def sample_bytes_def)

end
