(* ===== verification/Voice_Factory.thy ===== *)
theory Voice_Factory
  imports Voice_Pipeline Voice_Stt Voice_Tts
begin

text \<open>
  Audio devices (\<open>voice/audio/device.py\<close>), the voice configuration (\<open>voice/config.py\<close>) and the construction of the
  pipeline with its engines (\<open>voice/factory.py\<close>), which is how \<open>bootstrap.py\<close> makes it. The state of the engines is
  the world on which router and synthesiser act, beside an outer world of the agent runtime. Whether a model path
  exists is looked up when the pipeline is built. Shown: what the router built this way answers.
\<close>

section \<open>Devices\<close>

text \<open>What \<open>sounddevice\<close> reports of a device, and the answer to a query: the devices with the default input and output.\<close>

record hardware_device =
  hd_name :: "string option"
  hd_inputs :: "int option"
  hd_outputs :: "int option"
  hd_rate :: "int option"

record device_info =
  di_id :: int
  di_name :: string
  di_inputs :: int
  di_outputs :: int
  di_rate :: int
  di_default_input :: bool
  di_default_output :: bool

type_synonym audio_backend = "(string + hardware_device list \<times> int \<times> int) option"

definition has_hardware_backend :: "audio_backend \<Rightarrow> bool" where
  "has_hardware_backend b = (b \<noteq> None)"

definition from_opt :: "'a option \<Rightarrow> 'a \<Rightarrow> 'a" where
  "from_opt x d = (case x of Some y \<Rightarrow> y | None \<Rightarrow> d)"

definition virtual_input :: "string \<Rightarrow> device_info" where
  "virtual_input name = \<lparr>di_id = 0, di_name = name, di_inputs = 1, di_outputs = 0, di_rate = 16000,
     di_default_input = True, di_default_output = False\<rparr>"

definition virtual_output :: "string \<Rightarrow> device_info" where
  "virtual_output name = \<lparr>di_id = 0, di_name = name, di_inputs = 0, di_outputs = 2, di_rate = 16000,
     di_default_input = False, di_default_output = True\<rparr>"

definition device_name :: "nat \<Rightarrow> hardware_device \<Rightarrow> string" where
  "device_name i d = from_opt (hd_name d) (''Device '' @ show_nat i)"

definition list_input_devices :: "audio_backend \<Rightarrow> device_info list" where
  "list_input_devices b =
     (case b of
        None \<Rightarrow> [virtual_input ''Virtual Microphone (Default)'']
      | Some (Inl _) \<Rightarrow> [virtual_input ''Virtual Fallback Microphone'']
      | Some (Inr (ds, inp, _)) \<Rightarrow>
          map (\<lambda>(i, d). \<lparr>di_id = int i, di_name = device_name i d, di_inputs = from_opt (hd_inputs d) 1, di_outputs = 0,
                         di_rate = from_opt (hd_rate d) 16000, di_default_input = (int i = inp), di_default_output = False\<rparr>)
            (filter (\<lambda>(i, d). 0 < from_opt (hd_inputs d) 0) (enumerated ds)))"

definition list_output_devices :: "audio_backend \<Rightarrow> device_info list" where
  "list_output_devices b =
     (case b of
        None \<Rightarrow> [virtual_output ''Virtual Speaker (Default)'']
      | Some (Inl _) \<Rightarrow> [virtual_output ''Virtual Fallback Speaker'']
      | Some (Inr (ds, _, outp)) \<Rightarrow>
          map (\<lambda>(i, d). \<lparr>di_id = int i, di_name = device_name i d, di_inputs = 0, di_outputs = from_opt (hd_outputs d) 2,
                         di_rate = from_opt (hd_rate d) 16000, di_default_input = False, di_default_output = (int i = outp)\<rparr>)
            (filter (\<lambda>(i, d). 0 < from_opt (hd_outputs d) 0) (enumerated ds)))"

definition nameless_device :: "string \<Rightarrow> device_info" where
  "nameless_device name = \<lparr>di_id = 0, di_name = name, di_inputs = 0, di_outputs = 0, di_rate = 16000,
     di_default_input = False, di_default_output = False\<rparr>"

definition get_default_input_device :: "audio_backend \<Rightarrow> device_info" where
  "get_default_input_device b =
     (let ds = list_input_devices b
      in case List.find di_default_input ds of
           Some d \<Rightarrow> d | None \<Rightarrow> if ds \<noteq> [] then hd ds else nameless_device ''Default Input'')"

definition get_default_output_device :: "audio_backend \<Rightarrow> device_info" where
  "get_default_output_device b =
     (let ds = list_output_devices b
      in case List.find di_default_output ds of
           Some d \<Rightarrow> d | None \<Rightarrow> if ds \<noteq> [] then hd ds else nameless_device ''Default Output'')"

section \<open>Configuration\<close>

record voice_settings =
  vset_enabled :: bool
  vset_format :: audio_format
  vset_stt_provider :: string
  vset_vosk_model_path :: "string list option"
  vset_whisper_model :: string
  vset_whisper_device :: string
  vset_whisper_compute_type :: string
  vset_vad_provider :: string
  vset_vad_energy_threshold :: rat
  vset_vad_silence_timeout :: rat
  vset_vad_min_speech :: rat
  vset_max_recording :: rat
  vset_max_audio_size :: nat
  vset_tts_provider :: string
  vset_kokoro_model_path :: "string list option"
  vset_tts_voice :: string
  vset_tts_speed :: rat
  vset_temp_dir :: "string list option"
  vset_workspace_dir :: "string list"

text \<open>The configuration adds to the settings the fast-path limits, which have no setting. A speed out of range is
  refused (\<open>None\<close>).\<close>

record voice_config =
  vcfg_enabled :: bool
  vcfg_format :: audio_format
  vcfg_stt_provider :: string
  vcfg_vosk_model_path :: "string list option"
  vcfg_whisper :: "string \<times> string \<times> string"
  vcfg_fastpath_threshold :: rat
  vcfg_fastpath_max_duration :: rat
  vcfg_vad_provider :: string
  vcfg_vad_energy_threshold :: rat
  vcfg_vad_silence_timeout :: rat
  vcfg_vad_min_speech :: rat
  vcfg_max_recording :: rat
  vcfg_max_audio_size :: nat
  vcfg_temp_dir :: "string list"
  vcfg_persist_raw_audio :: bool
  vcfg_tts_provider :: string
  vcfg_kokoro_model_path :: "string list option"
  vcfg_tts_voice :: string
  vcfg_tts_speed :: rat

definition from_settings :: "voice_settings \<Rightarrow> voice_config option" where
  "from_settings s =
     (if vset_tts_speed s < 1 / 4 \<or> 4 < vset_tts_speed s then None
      else Some \<lparr>vcfg_enabled = vset_enabled s, vcfg_format = vset_format s, vcfg_stt_provider = vset_stt_provider s,
        vcfg_vosk_model_path = vset_vosk_model_path s,
        vcfg_whisper = (vset_whisper_model s, vset_whisper_device s, vset_whisper_compute_type s),
        vcfg_fastpath_threshold = 3 / 4, vcfg_fastpath_max_duration = 5,
        vcfg_vad_provider = vset_vad_provider s, vcfg_vad_energy_threshold = vset_vad_energy_threshold s,
        vcfg_vad_silence_timeout = vset_vad_silence_timeout s, vcfg_vad_min_speech = vset_vad_min_speech s,
        vcfg_max_recording = vset_max_recording s, vcfg_max_audio_size = vset_max_audio_size s,
        vcfg_temp_dir = (case vset_temp_dir s of Some d \<Rightarrow> d | None \<Rightarrow> vset_workspace_dir s @ [''temp'', ''audio'']),
        vcfg_persist_raw_audio = False, vcfg_tts_provider = vset_tts_provider s,
        vcfg_kokoro_model_path = vset_kokoro_model_path s, vcfg_tts_voice = vset_tts_voice s,
        vcfg_tts_speed = vset_tts_speed s\<rparr>)"

section \<open>The engines as a world\<close>

datatype tts_engine = MockTts mock_tts | KokoroTts kokoro

datatype vad_engine = MockVad mock_vad | EnergyVad energy_vad

record 'w voice_world =
  vw_mock :: mock_stt
  vw_vosk :: vosk
  vw_whisper :: whisper
  vw_tts :: tts_engine
  vw_outer :: 'w

text \<open>What the machine has: the packages, their models, the files, and the sine function.\<close>

record voice_packages =
  pk_py :: py_lib
  pk_vosk :: "vosk_lib option"
  pk_whisper :: "whisper_lib option"
  pk_kokoro :: "kokoro_lib option"
  pk_exists :: "string list \<Rightarrow> bool"
  pk_sine :: "rat \<Rightarrow> nat \<Rightarrow> int \<Rightarrow> rat"

definition stt_failure_text :: "stt_failure \<Rightarrow> string" where
  "stt_failure_text e = (case e of SttUnavailable m \<Rightarrow> m | SttError m \<Rightarrow> m | SttOther m \<Rightarrow> m)"

definition tts_failure_text :: "tts_failure \<Rightarrow> string" where
  "tts_failure_text e = (case e of TtsUnavailable m \<Rightarrow> m | TtsError m \<Rightarrow> m | TtsOther m \<Rightarrow> m)"

definition spoken :: "stt_answer \<Rightarrow> string + stt_result" where
  "spoken a = (case a of Inl e \<Rightarrow> Inl (stt_failure_text e) | Inr r \<Rightarrow> Inr r)"

definition mock_provider :: "'w voice_world stt_provider" where
  "mock_provider = \<lparr>pr_available = True,
     pr_transcribe = (\<lambda>q w. case mock_stt_transcribe q (vw_mock w) of (m, a) \<Rightarrow> (w\<lparr>vw_mock := m\<rparr>, spoken a))\<rparr>"

definition vosk_provider :: "voice_packages \<Rightarrow> vosk \<Rightarrow> 'w voice_world stt_provider" where
  "vosk_provider P v = \<lparr>pr_available = vosk_available v,
     pr_transcribe = (\<lambda>q w. case pk_vosk P of
         None \<Rightarrow> (w, Inl ''Vosk provider unavailable'')
       | Some V \<Rightarrow> (case vosk_transcribe (pk_py P) V q (vw_vosk w) of (v1, a) \<Rightarrow> (w\<lparr>vw_vosk := v1\<rparr>, spoken a)))\<rparr>"

definition whisper_provider :: "voice_packages \<Rightarrow> whisper \<Rightarrow> 'w voice_world stt_provider" where
  "whisper_provider P h = \<lparr>pr_available = whisper_available h,
     pr_transcribe = (\<lambda>q w. case pk_whisper P of
         None \<Rightarrow> (w, Inl ''Faster-Whisper provider unavailable'')
       | Some W \<Rightarrow> (case whisper_transcribe W q (vw_whisper w) of (h1, a) \<Rightarrow> (w\<lparr>vw_whisper := h1\<rparr>, spoken a)))\<rparr>"

definition engine_synthesize ::
  "voice_packages \<Rightarrow> tts_request \<Rightarrow> 'w voice_world \<Rightarrow> 'w voice_world \<times> tts_result awaited" where
  "engine_synthesize P q w =
     (let finish = (\<lambda>a. case a of Inl e \<Rightarrow> AExc (tts_failure_text e) | Inr r \<Rightarrow> AOk r)
      in case vw_tts w of
           MockTts m \<Rightarrow> (case mock_tts_synthesize (pk_sine P) q m of (m1, a) \<Rightarrow> (w\<lparr>vw_tts := MockTts m1\<rparr>, finish a))
         | KokoroTts k \<Rightarrow>
             (case pk_kokoro P of
                None \<Rightarrow> (w, AExc ''Kokoro ONNX provider unavailable'')
              | Some K \<Rightarrow> (case kokoro_synthesize K q k of (k1, a) \<Rightarrow> (w\<lparr>vw_tts := KokoroTts k1\<rparr>, finish a))))"

section \<open>The factory\<close>

definition model_exists :: "voice_packages \<Rightarrow> string list option \<Rightarrow> bool" where
  "model_exists P path = (case path of None \<Rightarrow> False | Some p \<Rightarrow> pk_exists P p)"

definition new_vosk :: "voice_packages \<Rightarrow> voice_config \<Rightarrow> vosk" where
  "new_vosk P c = \<lparr>vk_installed = (pk_vosk P \<noteq> None), vk_model = model_exists P (vcfg_vosk_model_path c), vk_loaded = False\<rparr>"

definition new_whisper :: "voice_packages \<Rightarrow> whisper" where
  "new_whisper P = \<lparr>wh_installed = (pk_whisper P \<noteq> None), wh_loaded = False\<rparr>"

definition build_stt_router :: "voice_packages \<Rightarrow> voice_config \<Rightarrow> bool \<Rightarrow> 'w voice_world stt_router" where
  "build_stt_router P c use_mock =
     (let v = new_vosk P c; h = new_whisper P
      in \<lparr>sr_providers = [(''mock'', mock_provider), (''vosk'', vosk_provider P v), (''whisper'', whisper_provider P h)],
          sr_fastpath = (if use_mock then ''mock'' else if vosk_available v then ''vosk'' else ''mock''),
          sr_accurate = (if use_mock then ''mock'' else if whisper_available h then ''whisper'' else ''mock''),
          sr_threshold = vcfg_fastpath_threshold c, sr_max_duration = vcfg_fastpath_max_duration c\<rparr>)"

definition build_tts :: "voice_packages \<Rightarrow> voice_config \<Rightarrow> bool \<Rightarrow> tts_engine" where
  "build_tts P c use_mock =
     (let mock = MockTts (mock_tts_init (vcfg_tts_voice c) ''mock'' (1 / 100));
          k = \<lparr>kk_installed = (pk_kokoro P \<noteq> None), kk_model = model_exists P (vcfg_kokoro_model_path c), kk_loaded = False,
               kk_default_voice = vcfg_tts_voice c, kk_default_speed = vcfg_tts_speed c\<rparr>
      in if use_mock \<or> vcfg_tts_provider c = ''mock'' then mock
         else if kokoro_available k then KokoroTts k else mock)"

definition build_vad :: "voice_config \<Rightarrow> bool \<Rightarrow> vad_engine" where
  "build_vad c use_mock =
     (if use_mock \<or> vcfg_vad_provider c = ''mock''
      then MockVad \<lparr>mv_default_speech = False, mv_script = [], mv_calls = 0\<rparr>
      else EnergyVad (energy_vad_init (vcfg_vad_energy_threshold c) True (1 / 20) 4))"

definition vad_process :: "(rat \<Rightarrow> rat) \<Rightarrow> vad_engine \<Rightarrow> audio_chunk \<Rightarrow> vad_engine \<times> vad_result" where
  "vad_process sqrt_fn v c =
     (case v of
        MockVad m \<Rightarrow> (case mock_process m c of (m1, r) \<Rightarrow> (MockVad m1, r))
      | EnergyVad e \<Rightarrow> (case energy_process sqrt_fn e c of (e1, r) \<Rightarrow> (EnergyVad e1, r)))"

fun vad_reset :: "vad_engine \<Rightarrow> vad_engine" where
  "vad_reset (MockVad m) = MockVad (mock_reset m)"
| "vad_reset (EnergyVad e) = EnergyVad (energy_reset e)"

lemma vad_laws: "vad_reset (fst (vad_process sqrt_fn v c)) = vad_reset v" "vad_reset (vad_reset v) = vad_reset v"
  by (cases v; simp add: vad_process_def split: prod.split; metis scripted.rst_proc energy.rst_proc scripted.rst_rst energy.rst_rst fst_conv)+

interpretation engine_vad: detector "vad_process sqrt_fn" vad_reset
  by unfold_locales (rule vad_laws)+

record 'w built_voice =
  bv_pipeline :: "'w voice_world voice_pipeline"
  bv_world :: "'w voice_world"
  bv_capture :: capture
  bv_playback :: playback
  bv_segmenter :: "vad_engine segmenter"
  bv_seg_config :: seg_config

definition build_voice_pipeline ::
  "voice_packages \<Rightarrow> voice_settings \<Rightarrow> bool \<Rightarrow> (string \<Rightarrow> 'w \<Rightarrow> 'w \<times> final_response awaited) option
     \<Rightarrow> (final_response \<Rightarrow> string) \<Rightarrow> bool \<Rightarrow> 'w \<Rightarrow> 'w built_voice option" where
  "build_voice_pipeline P s use_mock orch show_response bus outer =
     (case from_settings s of
        None \<Rightarrow> None
      | Some c \<Rightarrow>
          let f = (vcfg_format c)\<lparr>af_encoding := PCM_S16LE\<rparr>; tts = build_tts P c use_mock
          in Some \<lparr>bv_pipeline =
                 \<lparr>vp_format = f, vp_tts_voice = vcfg_tts_voice c, vp_tts_speed = vcfg_tts_speed c,
                  vp_security = \<lparr>as_temp_dir = vcfg_temp_dir c, as_max_duration = vcfg_max_recording c,
                                 as_max_size = vcfg_max_audio_size c\<rparr>,
                  vp_stt = build_stt_router P c use_mock,
                  vp_tts_name = (case tts of MockTts m \<Rightarrow> mt_name m | KokoroTts _ \<Rightarrow> ''kokoro''),
                  vp_synthesize = engine_synthesize P,
                  vp_orchestrator = map_option (\<lambda>g prompt w. case g prompt (vw_outer w) of (x, a) \<Rightarrow> (w\<lparr>vw_outer := x\<rparr>, a)) orch,
                  vp_show_response = show_response, vp_bus_running = bus\<rparr>,
               bv_world = \<lparr>vw_mock = mock_stt_init ''Hello Jarvis'' (95 / 100) ''en'' ''mock'', vw_vosk = new_vosk P c,
                           vw_whisper = new_whisper P, vw_tts = tts, vw_outer = outer\<rparr>,
               bv_capture = \<lparr>cp_format = f, cp_max_duration = vcfg_max_recording c,
                  cp_device = \<lparr>vc_format = f, vc_queue = [], vc_active = False, vc_seq = 0\<rparr>,
                  cp_start_time = 0, cp_total_bytes = 0, cp_capturing = False\<rparr>,
               bv_playback = \<lparr>pb_format = f, pb_device = \<lparr>vp_played = [], vp_playing = False, vp_interrupted = False\<rparr>,
                  pb_interrupted = False, pb_playing = False\<rparr>,
               bv_segmenter = \<lparr>sg_vad = build_vad c use_mock, sg_pre = [], sg_speech = [], sg_detected = False,
                  sg_speech_start = None, sg_last_speech = None, sg_utterance_start = None\<rparr>,
               bv_seg_config = \<lparr>sc_format = f, sc_silence_timeout = vcfg_vad_silence_timeout c,
                  sc_min_speech = vcfg_vad_min_speech c, sc_max_utterance = vcfg_max_recording c, sc_padding = 4\<rparr>\<rparr>)"

section \<open>What the built router answers\<close>

definition fresh_mock :: "'w voice_world \<Rightarrow> bool" where
  "fresh_mock w = (ms_error (vw_mock w) = None \<and> ms_script (vw_mock w) = [] \<and> ms_text (vw_mock w) = ''Hello Jarvis'' \<and>
     ms_confidence (vw_mock w) = 95 / 100 \<and> ms_name (vw_mock w) = ''mock'')"

definition hello :: "stt_result \<Rightarrow> bool" where
  "hello r = (st_text r = ''Hello Jarvis'' \<and> st_provider r = ''mock'' \<and> st_confidence r = 95 / 100)"

lemma mock_provider_answers:
  assumes "fresh_mock w"
  shows "\<exists>w' r. pr_transcribe mock_provider q w = (w', Inr r) \<and> fresh_mock w' \<and> hello r"
  using assms mock_stt_fresh [of "vw_mock w" q]
  by (auto simp: mock_provider_def fresh_mock_def hello_def spoken_def)

lemma hello_accepted: "hello r \<Longrightarrow> 3 / 4 \<le> st_confidence r \<and> strip (st_text r) \<noteq> []"
proof -
  have "strip ''Hello Jarvis'' \<noteq> []" by code_simp
  then show "hello r \<Longrightarrow> 3 / 4 \<le> st_confidence r \<and> strip (st_text r) \<noteq> []" by (simp add: hello_def)
qed

lemma built_parts:
  assumes "build_voice_pipeline P s use_mock orch show_response bus outer = Some b"
  shows "\<exists>c. from_settings s = Some c \<and> vp_stt (bv_pipeline b) = build_stt_router P c use_mock \<and>
    vcfg_fastpath_threshold c = 3 / 4 \<and> vcfg_fastpath_max_duration c = 5 \<and>
    vcfg_vosk_model_path c = vset_vosk_model_path s \<and> fresh_mock (bv_world b)"
  using assms
  by (auto simp: build_voice_pipeline_def from_settings_def fresh_mock_def mock_stt_init_def Let_def split: if_splits)

text \<open>What the two engines answer to a request in the world of the pipeline.\<close>

definition vosk_says :: "voice_packages \<Rightarrow> voice_settings \<Rightarrow> stt_request \<Rightarrow> 'w voice_world \<Rightarrow> 'w voice_world \<times> (string + stt_result)" where
  "vosk_says P s = pr_transcribe (vosk_provider P \<lparr>vk_installed = (pk_vosk P \<noteq> None),
     vk_model = model_exists P (vset_vosk_model_path s), vk_loaded = False\<rparr>)"

definition whisper_says :: "voice_packages \<Rightarrow> stt_request \<Rightarrow> 'w voice_world \<Rightarrow> 'w voice_world \<times> (string + stt_result)" where
  "whisper_says P = pr_transcribe (whisper_provider P (new_whisper P))"

definition vosk_here :: "voice_packages \<Rightarrow> voice_settings \<Rightarrow> bool" where
  "vosk_here P s = (pk_vosk P \<noteq> None \<and> model_exists P (vset_vosk_model_path s))"

lemma provider_available [simp]:
  "pr_available mock_provider" "pr_available (vosk_provider P v) = vosk_available v"
  "pr_available (whisper_provider P h) = whisper_available h"
  by (simp_all add: mock_provider_def vosk_provider_def whisper_provider_def)

lemma whisper_available_new [simp]: "whisper_available (new_whisper P) = (pk_whisper P \<noteq> None)"
  by (simp add: whisper_available_def new_whisper_def)

lemma engines_keep_mock:
  "vosk_says P s q w = (w', a) \<Longrightarrow> fresh_mock w' = fresh_mock w"
  "whisper_says P q w = (w', a) \<Longrightarrow> fresh_mock w' = fresh_mock w"
  by (auto simp: fresh_mock_def vosk_says_def whisper_says_def vosk_provider_def whisper_provider_def split: option.splits prod.splits)

lemma new_vosk_of:
  "vcfg_vosk_model_path c = vset_vosk_model_path s \<Longrightarrow> vosk_available (new_vosk P c) = vosk_here P s"
  "vcfg_vosk_model_path c = vset_vosk_model_path s \<Longrightarrow> pr_transcribe (vosk_provider P (new_vosk P c)) = vosk_says P s"
  by (simp_all add: new_vosk_def vosk_available_def vosk_here_def vosk_says_def)

text \<open>
  C38. The canned answer. Bootstrap builds the pipeline with the scripted engines, and without a model of Vosk the factory
  puts the scripted engine on the fast path: then every recording (in the second case one of at most five seconds, or
  any when Whisper is missing too) is heard as ''Hello Jarvis'' with a confidence of 0.95. No other engine is asked.
\<close>

theorem canned_answer:
  fixes w :: "'w voice_world"
  assumes "build_voice_pipeline P s use_mock orch show_response bus outer = Some b" and "fresh_mock w"
    and "use_mock \<or> \<not> vosk_here P s \<and> (audio_duration q \<le> 5 \<or> pk_whisper P = None)"
  shows "\<exists>w' r. stt_transcribe (vp_stt (bv_pipeline b)) q w = (w', [''mock''], Inr r) \<and> hello r \<and> fresh_mock w' \<and>
    vw_vosk w' = vw_vosk w \<and> vw_whisper w' = vw_whisper w"
proof -
  obtain c where c: "vp_stt (bv_pipeline b) = build_stt_router P c use_mock" "vcfg_fastpath_threshold c = 3 / 4"
    "vcfg_fastpath_max_duration c = 5" "vcfg_vosk_model_path c = vset_vosk_model_path s"
    using built_parts [OF assms(1)] by blast
  obtain w' r where m: "pr_transcribe mock_provider q w = (w', Inr r)" "fresh_mock w'" "hello r"
    using mock_provider_answers [OF assms(2)] by blast
  have "vw_vosk w' = vw_vosk w \<and> vw_whisper w' = vw_whisper w"
    using m(1) by (auto simp: mock_provider_def split: prod.splits)
  then show ?thesis
    using assms(3) m hello_accepted [OF m(3)]
    by (auto simp: stt_transcribe_def c build_stt_router_def Let_def new_vosk_of [OF c(4)])
qed

text \<open>The reference: what the two engines hear, \<open>None\<close> when neither gives a transcript that is accepted.\<close>

definition heard_by_whisper :: "voice_packages \<Rightarrow> stt_request \<Rightarrow> 'w voice_world \<Rightarrow> stt_result option" where
  "heard_by_whisper P q w =
     (if pk_whisper P = None then None else case whisper_says P q w of (_, Inr r) \<Rightarrow> Some r | (_, Inl _) \<Rightarrow> None)"

definition heard :: "voice_packages \<Rightarrow> voice_settings \<Rightarrow> stt_request \<Rightarrow> 'w voice_world \<Rightarrow> stt_result option" where
  "heard P s q w =
     (if 5 < audio_duration q then heard_by_whisper P q w
      else case vosk_says P s q w of
             (w1, Inr r) \<Rightarrow> if 3 / 4 \<le> st_confidence r \<and> strip (st_text r) \<noteq> [] then Some r else heard_by_whisper P q w1
           | (w1, Inl _) \<Rightarrow> heard_by_whisper P q w1)"

text \<open>The rest of the router behind the fast path.\<close>

definition slow_path :: "voice_packages \<Rightarrow> stt_request \<Rightarrow> 'w voice_world \<Rightarrow> string + stt_result" where
  "slow_path P q w =
     (if pk_whisper P = None then snd (pr_transcribe mock_provider q w)
      else case whisper_says P q w of (_, Inr r) \<Rightarrow> Inr r | (w1, Inl _) \<Rightarrow> snd (pr_transcribe mock_provider q w1))"

lemma slow_path_answer:
  assumes "fresh_mock w"
  shows "\<exists>r. slow_path P q w = Inr r \<and> (case heard_by_whisper P q w of Some x \<Rightarrow> r = x | None \<Rightarrow> hello r)"
proof -
  obtain w1 a where a: "whisper_says P q w = (w1, a)" by fastforce
  have "fresh_mock w1" using engines_keep_mock(2) [OF a] assms by simp
  then show ?thesis
    using mock_provider_answers [OF assms, of q] mock_provider_answers [of w1 q]
    by (cases a) (auto simp: slow_path_def heard_by_whisper_def a)
qed

lemma router_with_vosk:
  fixes w :: "'w voice_world"
  assumes "vp_stt pipe = build_stt_router P c False" and "vcfg_fastpath_threshold c = 3 / 4" and "vcfg_fastpath_max_duration c = 5"
    and "vcfg_vosk_model_path c = vset_vosk_model_path s" and "vosk_here P s" and "fresh_mock w"
  shows "snd (snd (stt_transcribe (vp_stt pipe) q w)) =
    (if 5 < audio_duration q then slow_path P q w
     else case vosk_says P s q w of
            (w1, Inr r) \<Rightarrow> if 3 / 4 \<le> st_confidence r \<and> strip (st_text r) \<noteq> [] then Inr r else slow_path P q w1
          | (w1, Inl _) \<Rightarrow> slow_path P q w1)"
proof -
  have w: "pr_transcribe (whisper_provider P (new_whisper P)) = whisper_says P" by (simp add: whisper_says_def)
  obtain w1 a where v: "vosk_says P s q w = (w1, a)" by fastforce
  have fresh: "fresh_mock w1" using engines_keep_mock(1) [OF v] assms(6) by simp
  have mock: "\<exists>w2 r. pr_transcribe mock_provider q w' = (w2, Inr r)" if "fresh_mock w'" for w' :: "'w voice_world"
    using mock_provider_answers [OF that] by blast
  note simps = stt_transcribe_def assms(1-4) build_stt_router_def Let_def new_vosk_of [OF assms(4)] assms(5) w v slow_path_def
  show ?thesis
  proof (cases "5 < audio_duration q")
    case True
    obtain w2 b where h: "whisper_says P q w = (w2, b)" by fastforce
    have "fresh_mock w2" using engines_keep_mock(2) [OF h] assms(6) by simp
    with True mock [of w2] mock [of w] assms(6) show ?thesis by (cases b) (auto simp: simps h split: option.splits)
  next
    case False
    obtain w2 b where h: "whisper_says P q w1 = (w2, b)" by fastforce
    have "fresh_mock w2" using engines_keep_mock(2) [OF h] fresh by simp
    with False mock [of w2] mock [OF fresh] show ?thesis by (cases a; cases b) (auto simp: simps h split: option.splits)
  qed
qed

text \<open>
  C39. What the built router makes of the engines. With Vosk the router never fails: the result is what the reference
  hears, and where neither engine gives an accepted transcript it is the canned one.
\<close>

theorem built_router_outcome:
  fixes w :: "'w voice_world"
  assumes "build_voice_pipeline P s False orch show_response bus outer = Some b" and "fresh_mock w" and "vosk_here P s"
  shows "\<exists>r. snd (snd (stt_transcribe (vp_stt (bv_pipeline b)) q w)) = Inr r \<and>
    (case heard P s q w of Some x \<Rightarrow> r = x | None \<Rightarrow> hello r)"
proof -
  obtain c where c: "vp_stt (bv_pipeline b) = build_stt_router P c False" "vcfg_fastpath_threshold c = 3 / 4"
    "vcfg_fastpath_max_duration c = 5" "vcfg_vosk_model_path c = vset_vosk_model_path s"
    using built_parts [OF assms(1)] by blast
  obtain w1 a where v: "vosk_says P s q w = (w1, a)" by fastforce
  have "fresh_mock w1" using engines_keep_mock(1) [OF v] assms(2) by simp
  then show ?thesis
    using slow_path_answer [OF assms(2), of P q] slow_path_answer [of w1 P q]
    by (cases a) (auto simp: router_with_vosk [OF c assms(3,2)] heard_def v)
qed

section \<open>Listening with the scripted detector\<close>

text \<open>The detector that bootstrap gives to the segmenter never reports speech.\<close>

definition deaf :: "vad_engine segmenter \<Rightarrow> bool" where
  "deaf g = (sg_speech g = [] \<and> \<not> sg_detected g \<and>
     (\<exists>m. sg_vad g = MockVad m \<and> mv_script m = [] \<and> \<not> mv_default_speech m))"

lemma deaf_reset: "deaf g \<Longrightarrow> deaf (seg_reset vad_reset g)"
  by (auto simp: deaf_def seg_reset_def mock_reset_def)

lemma deaf_step:
  assumes "deaf g" and "seg_process (vad_process sq) vad_reset cfg now c g = (g1, fin, bs)"
  shows "deaf g1 \<and> (fin \<longrightarrow> bs = Some [])"
proof -
  obtain m where m: "sg_vad g = MockVad m" "mv_script m = []" "\<not> mv_default_speech m" "sg_speech g = []" "\<not> sg_detected g"
    using assms(1) by (auto simp: deaf_def)
  show ?thesis
    using assms(2) m
    by (auto simp: seg_process_def seg_finalize_def seg_reset_def vad_process_def mock_process_def mock_reset_def deaf_def Let_def
        split: if_splits)
qed

lemma deaf_loop:
  "deaf g \<Longrightarrow> listen_loop (vad_process sq) vad_reset cfg start timeout rds g = (g', Inr (Some bs)) \<Longrightarrow> bs = []"
proof (induction rds arbitrary: g)
  case (Cons rd rds)
  obtain now r where rd: "rd = (now, r)" by fastforce
  consider e where "r = Inl e" | "r = Inr None" | c where "r = Inr (Some c)" by (metis option.exhaust sum.exhaust)
  then show ?case
  proof cases
    case (3 c)
    obtain g1 fin b where st: "seg_process (vad_process sq) vad_reset cfg now c g = (g1, fin, b)" by (metis prod_cases3)
    from Cons.IH [of g1] Cons.prems deaf_step [OF Cons.prems(1) st] show ?thesis
      by (auto simp: rd 3 st split: if_splits bool.splits)
  qed (use Cons in \<open>auto simp: rd split: if_splits\<close>)
qed simp

lemma bootstrap_hears_nothing:
  assumes "build_voice_pipeline P s True orch show_response bus outer = Some b"
    and "listen_once (bv_pipeline b) (vad_process sq) vad_reset (bv_seg_config b) start timeout corr reads (bv_segmenter b) st
      = (st', g', Inr (Some bs))"
  shows "bs = []"
proof -
  have "deaf (bv_segmenter b)"
    using assms(1) by (auto simp: build_voice_pipeline_def build_vad_def deaf_def Let_def split: option.splits)
  then show ?thesis
    using assms(2) deaf_reset deaf_loop
    by (fastforce simp: listen_once_def Let_def split: prod.splits option.splits sum.splits)
qed

section \<open>Examples\<close>

definition demo_packages :: "string option \<Rightarrow> voice_packages" where
  "demo_packages failing =
     \<lparr>pk_py = \<lparr>pl_loads = (\<lambda>_. None), pl_dumps = (\<lambda>_. []), pl_str = (\<lambda>_. []), pl_float = (\<lambda>_. None), pl_int = (\<lambda>_. None)\<rparr>,
      pk_vosk = map_option (\<lambda>e. \<lparr>vl_load = None, vl_recognise = (\<lambda>_ _. Inl e), vl_latency = 0\<rparr>) failing,
      pk_whisper = None, pk_kokoro = None, pk_exists = (\<lambda>p. p = [''models'', ''vosk'']), pk_sine = (\<lambda>_ _ _. 0)\<rparr>"

definition demo_voice_settings :: voice_settings where
  "demo_voice_settings =
     \<lparr>vset_enabled = True, vset_format = default_format, vset_stt_provider = ''router'',
      vset_vosk_model_path = Some [''models'', ''vosk''], vset_whisper_model = ''base'', vset_whisper_device = ''cpu'',
      vset_whisper_compute_type = ''int8'', vset_vad_provider = ''energy'', vset_vad_energy_threshold = 500,
      vset_vad_silence_timeout = 6 / 5, vset_vad_min_speech = 3 / 10, vset_max_recording = 30, vset_max_audio_size = 26214400,
      vset_tts_provider = ''kokoro'', vset_kokoro_model_path = None, vset_tts_voice = ''af_heart'', vset_tts_speed = 1,
      vset_temp_dir = None, vset_workspace_dir = [''data'', ''workspace'']\<rparr>"

lemma demo_built:
  "\<exists>b. build_voice_pipeline P demo_voice_settings use_mock None (\<lambda>_. []) True () = Some b \<and> fresh_mock (bv_world b)"
proof -
  have "\<exists>b. build_voice_pipeline P demo_voice_settings use_mock None (\<lambda>_. []) True () = Some b"
    by (simp add: build_voice_pipeline_def from_settings_def demo_voice_settings_def Let_def)
  then obtain b where b: "build_voice_pipeline P demo_voice_settings use_mock None (\<lambda>_. []) True () = Some b" by blast
  then show ?thesis using built_parts [OF b] by blast
qed

theorem canned_answer_witness:
  "\<exists>b w' r. build_voice_pipeline (demo_packages None) demo_voice_settings True None (\<lambda>_. []) True () = Some b \<and>
     stt_transcribe (vp_stt (bv_pipeline b)) demo_stt_request (bv_world b) = (w', [''mock''], Inr r) \<and> st_text r = ''Hello Jarvis''"
proof -
  obtain b where b: "build_voice_pipeline (demo_packages None) demo_voice_settings True None (\<lambda>_. []) True () = Some b"
    "fresh_mock (bv_world b)" using demo_built by blast
  from canned_answer [OF b, of demo_stt_request] b show ?thesis by (auto simp: hello_def)
qed

theorem built_router_outcome_witness:
  "\<exists>b r. build_voice_pipeline (demo_packages (Some ''no audio'')) demo_voice_settings False None (\<lambda>_. []) True () = Some b \<and>
     snd (snd (stt_transcribe (vp_stt (bv_pipeline b)) demo_stt_request (bv_world b))) = Inr r \<and> st_text r = ''Hello Jarvis''"
proof -
  let ?P = "demo_packages (Some ''no audio'')"
  obtain b where b: "build_voice_pipeline ?P demo_voice_settings False None (\<lambda>_. []) True () = Some b"
    "fresh_mock (bv_world b)" using demo_built by blast
  have vosk: "vosk_here ?P demo_voice_settings"
    by (simp add: vosk_here_def demo_packages_def demo_voice_settings_def model_exists_def)
  have "\<exists>w1 e. vosk_says ?P demo_voice_settings demo_stt_request (bv_world b) = (w1, Inl e)"
    by (simp add: vosk_says_def vosk_provider_def demo_packages_def vosk_transcribe_def spoken_def split: prod.split sum.split)
  moreover have "heard_by_whisper ?P demo_stt_request w = None" for w :: "unit voice_world"
    by (simp add: heard_by_whisper_def demo_packages_def)
  ultimately have "heard ?P demo_voice_settings demo_stt_request (bv_world b) = None" by (auto simp: heard_def)
  with built_router_outcome [OF b vosk, of demo_stt_request] b show ?thesis by (auto simp: hello_def)
qed

end
