(* ===== verification/Spec2Isabelle.thy ===== *)
theory Spec2Isabelle
  imports Core_Engine Tool_Executor Orchestrator Synthesizer Ipc_Server Ai_Vendors Voice_Pipeline Memory_Manager Builtin_Agents
    Ipc_Subsystems Os_Windows Office_Tools Browser_Tools Bootstrap Voice_Factory
begin

text \<open>
  A model of the Python core of the ZARVIS (JARVIS) assistant, the package
  \<open>services/python-core/jarvis\<close>. Paths below are relative to it.

  \<^bold>\<open>The program.\<close> The engine (\<open>core\<close>) starts services, runs an event bus and aggregates health probes.
  Tools (\<open>tools\<close>) are functions with a definition; the executor runs them behind a registry, a policy
  with a path sandbox, argument validation and an audit log. Agents (\<open>agents\<close>) plan a goal as tasks
  with dependencies; the validator orders the plan into waves, the orchestrator runs the waves,
  verifies every step, retries through the recovery engine and gives the results to the synthesizer.
  Language models are reached through a registry of providers and a router with retries and failover
  (\<open>ai\<close>). Conversations are kept in a bounded working memory, facts in a durable one with full-text and
  vector search (\<open>memory\<close>). Desktop tools (\<open>os\<close>) move the mouse, type, and start applications behind guards;
  vision (\<open>vision\<close>) reads the screen, hides what is sensitive and grounds queries on it; \<open>voice\<close> turns
  speech into goals and answers into speech. The IPC server (\<open>ipc\<close>) gives a gateway process access to all
  this over a loopback socket.

  \<^bold>\<open>Theories.\<close>
  \<^item> \<open>Prelude\<close>: dictionaries, dynamically typed values, Python string operations. \<open>Py_Regex\<close>: regular
    expressions as a backtracking matcher tries them, for \<open>re.search\<close> and \<open>re.sub\<close>. \<open>Py_Value\<close>: parsed JSON with the exceptions that access to it raises, and loops that may raise.
  \<^item> \<open>Protocol\<close>, \<open>Health\<close>, \<open>Service\<close>, \<open>Vault\<close>, \<open>Event_Bus\<close>, \<open>Core_Engine\<close>: \<open>protocol/models.py\<close>,
    \<open>core/*.py\<close> and \<open>security/vault.py\<close>. The bus is a labelled step relation whose steps are the calls
    of its methods and the ends of its dispatch tasks; the engine's start and stop are functions.
  \<^item> \<open>Tool_Model\<close>, \<open>Sandbox\<close>, \<open>Tool_Registry\<close>, \<open>Tool_Policy\<close>, \<open>Tool_Audit\<close>, \<open>Tool_Executor\<close>: one
    theory per file of \<open>tools\<close>. \<open>execute\<close> is the whole pipeline; a handler acts on an abstract world.
  \<^item> \<open>Tool_Decorator\<close>, \<open>Tool_Catalog\<close>, \<open>Office_Tools\<close>, \<open>Browser_Tools\<close>: \<open>tools/decorator.py\<close> (annotations to schemas), the
    declarations of all tools with their registration up to \<open>bootstrap.py\<close>, and \<open>tools/builtins\<close> (document and browser tools).
  \<^item> \<open>Agent_Model\<close>, \<open>Plan_Validator\<close>, \<open>Agent_Runtime\<close>, \<open>Orchestrator\<close>, \<open>Synthesizer\<close>: the files of
    \<open>agents\<close>. Planning is the function \<open>begin_run\<close>; the execution of the waves is the relation
    \<open>orch_step\<close> with one step per begin, attempt, end of wave, cancel, pause and resume, in any order.
  \<^item> \<open>Planner\<close>, \<open>Builtin_Agents\<close>: \<open>agents/builtins\<close>. The keyword planner and the plan of a language model, plans
    as dictionaries, and the ten agents as agents of the runtime, the coding agent over \<open>execute\<close>.
  \<^item> \<open>Bootstrap\<close>: \<open>tools/factory.py\<close>, \<open>agents/factory.py\<close> and \<open>bootstrap.py\<close>, the tool system and the agent runtime over it.
  \<^item> \<open>Ai_Model\<close>, \<open>Ai_Router\<close>: contracts, capability table, provider registry, retry loop, candidate
    resolution, failover and \<open>build_ai_system\<close>. \<open>Ai_Http\<close>, \<open>Ai_Openai\<close>, \<open>Ai_Anthropic\<close>, \<open>Ai_Gemini\<close>, \<open>Ai_Ollama\<close>,
    \<open>Ai_Vendors\<close>: the adapters of the four vendors (\<open>ai/providers\<close>) over an abstract HTTP transport, and the system built of them.
  \<^item> \<open>Working_Memory\<close>, \<open>Memory_Model\<close>, \<open>Memory_Store\<close>, \<open>Memory_Retrieval\<close>, \<open>Memory_Manager\<close>: the files of \<open>memory\<close>
    (buffer and eviction; records, redaction, classification; the SQL statements as functions on tables, vectors;
    ranking and hybrid search; the write pipeline, consolidation and clean-up).
  \<^item> \<open>Os_Security\<close>, \<open>Os_Control\<close>, \<open>Os_Tools\<close>, \<open>Os_Apps\<close>: the files of \<open>os\<close> (guards on points, text and keys; input,
    windows, clipboard, capture and the provider interface with its mock; the tools; applications and files).
    \<open>Os_Windows\<close>: \<open>os/providers/windows.py\<close>; each method is the log of the calls of the Windows API it makes.
  \<^item> \<open>Vision_Model\<close>, \<open>Vision_Grounding\<close>, \<open>Vision_Manager\<close>: the files of \<open>vision\<close> (boxes, elements, privacy and the
    analysis; similarity, scores and resolution; cache, tools and the mock provider).
  \<^item> \<open>Voice_Audio\<close>, \<open>Voice_Vad\<close>, \<open>Voice_Session\<close>, \<open>Voice_Security\<close>, \<open>Voice_Pipeline\<close>: the files of
    \<open>voice\<close> (audio buffers and controllers; detectors and segmenter; state machine, session and
    speech-to-text router; limits, temporary files and scrubbing; the turn from recording to playback).
    \<open>Voice_Wav\<close>: the WAV container; \<open>Voice_Stt\<close>, \<open>Voice_Tts\<close>: the speech engines over what their
    packages compute; \<open>Voice_Factory\<close>: devices, configuration and the pipeline as \<open>build_voice_pipeline\<close> makes it.
    \<open>process_speech\<close> is a function of what the engines answer and of when the turn is cancelled.
  \<^item> \<open>Ipc_Framing\<close>, \<open>Ipc_Server\<close>, \<open>Ipc_Subsystems\<close>: newline-delimited frames over a byte stream; the router; the
    connection loop as the function \<open>on_frame\<close>; clients and request tasks as the relation \<open>srv_step\<close>; the
    handlers that call the executor, the vision manager and the voice pipeline.

  \<^bold>\<open>Interfaces.\<close> \<open>secret_store\<close> (what a vault promises; the in-memory vault), \<open>confined\<close> (what a path
  sandbox promises; tools, temporary audio files, screenshots), \<open>keyed_store\<close> (what a registry promises; the
  registries of tools and of agents), \<open>text_codec\<close> (what framing needs of an encoding; UTF-8), \<open>detector\<close> (what
  the segmenter needs of voice activity detection; the energy detector, the scripted one and the choice between them), \<open>vector_index\<close>
  (what retrieval needs of a vector store; the Python store), \<open>desktop\<close> (what the desktop guards need of a provider; the
  mock), \<open>vision_provider\<close> (what the vision manager needs of a provider; the mock), \<open>wire_form\<close> (what lists of values need
  to be sent as dictionaries; tasks of plans), \<open>vendor_contract\<close> (what the vendors' outcomes have in common; each of the four adapters).

  \<^bold>\<open>What the lemmas show.\<close> Agents: a task is attempted only when its dependencies are verified, the
  validator accepts exactly the well-formed acyclic plans, a run never deadlocks, does a bounded number
  of attempts and ends completed only if every task passed; the program as it starts
  accepts and begins every goal, and plans survive the way to the orchestrator. Tools: nothing runs unless the policy allows
  it without approval, every result is audited exactly once with the same status, recorded values
  contain no key, and resolved paths stay in the workspace. What the program starts with, and
  that its default profile asks for no approval; document tools save at most once, within limits; browser tools open
  web pages only. AI: attempts, delays and failover; keys go to their own vendor only, tool calls
  survive the wire. Memory: what is
  kept is redacted, in range and trusted as its source allows; eviction follows its priorities; retrieval is
  sound and ordered; clean-up changes no search result. Desktop: clicks hit the screen, secrets are typed and
  applications started only as allowed; the Windows provider gives back what it takes. Vision: what analysis flags and sanitising leaves, that the analysis
  tool gives nothing away about passwords, and that a target is the clear best of a fresh observation. IPC:
  frames survive the wire, nothing is served before the handshake, counters match the running
  requests, every response obeys the error contract, answers are well typed, and clients reach tools only through
  the gate. Core: start is all or nothing, and the bus loses
  no event it accepted. Voice: utterances are uninterrupted pieces of the stream, the session follows
  its transition table, how each kind of turn leaves the session, that wrapped audio is unwrapped again, sentences lose
  nothing, and what the router hears. Where the code does not do what it means to,
  the theorem says what it does: the run that goes on after \<open>pause_run\<close>, the synchronous handler that runs
  twice, the restart that leaks services, the concurrency limit that a burst exceeds, the capability entries
  that are never chosen, the tools that a step skips and reports as executed, the approval that desktop tools take
  for granted, the blank label that matches every query, the list of tools that cannot be had,
  the canned sentence that is heard instead of what was said.

  \<^bold>\<open>Conventions.\<close> A Python dictionary is an association list in insertion order. Strings have code
  points below 256. A float is an exact rational. Clocks, generated ids, random draws and the ends of
  sleeps are arguments. An exception is a value of a sum type or of an outcome type. Third-party code
  (\<open>keyring\<close>, JSON, HTTP, sockets, SQLite, base64, document libraries, the Windows API, the file system) and the handlers, agents and models the program is
  configured with are parameters. Loops are recursive functions proved to terminate; no fuel is used
  except by \<open>auto_run\<close>, the scheduler that computes example runs, where twenty steps exceed what the
  example needs.

  \<^bold>\<open>Not modelled.\<close> The database connection and the native vector
  extension, settings and logging, and the gateway in TypeScript. Log output, timestamps and free-form metadata are left out of the records.
\<close>

end
